(* ===== verification/Prelude.thy ===== *)
theory Prelude
  imports Main "HOL-Library.Char_ord" "HOL-Library.List_Lexorder" "HOL-Library.Sublist"
begin

text \<open>
  Shared vocabulary of the development: errors as values of a sum type, sequencing of
  fallible steps, the loops of the source as folds over lists, and the string operations
  the source takes from Python's \<open>str\<close>. Strings are UTF-8 byte strings; case folding,
  stripping and identifier tests act on their ASCII part.
\<close>

named_theorems res_simps \<comment> \<open>inversion of successful fallible computations\<close>

section \<open>Errors and sequencing\<close>

text \<open>
  One constructor per exception class the modelled code raises or lets through. The
  string is the fixed part of the message.
\<close>

datatype err =
    ProfileError string
  | AdapterError string
  | OSError string
  | UnicodeError
  | KeyError string
  | TypeError string
  | AttributeError string
  | ValueError string
  | RuntimeError string
  | SystemExit int

type_synonym 'a res = "err + 'a"

definition bindE :: "'a res \<Rightarrow> ('a \<Rightarrow> 'b res) \<Rightarrow> 'b res" where
  "bindE m f = (case m of Inl e \<Rightarrow> Inl e | Inr v \<Rightarrow> f v)"

text \<open>Evaluation by rewriting looks at the first step before it enters the second.\<close>

declare bindE_def [code_unfold]

lemma bindE_simps [simp]:
  "bindE (Inl e) f = Inl e"
  "bindE (Inr v) f = f v"
  by (simp_all add: bindE_def)

lemma bindE_Inr [res_simps]: "bindE m f = Inr v \<longleftrightarrow> (\<exists>x. m = Inr x \<and> f x = Inr v)"
  by (cases m) auto

text \<open>Elimination rules that walk down a successful sequence of steps and guards.\<close>

lemma bindE_E: "bindE m f = Inr v \<Longrightarrow> (\<And>x. m = Inr x \<Longrightarrow> f x = Inr v \<Longrightarrow> P) \<Longrightarrow> P"
  by (auto simp: bindE_Inr)

lemma guard_E: "(if b then Inl e else m) = Inr v \<Longrightarrow> (\<not> b \<Longrightarrow> m = Inr v \<Longrightarrow> P) \<Longrightarrow> P"
  by (auto split: if_splits)

lemmas stepsE = bindE_E guard_E

lemma bindE_Inl: "bindE m f = Inl e \<longleftrightarrow> m = Inl e \<or> (\<exists>x. m = Inr x \<and> f x = Inl e)"
  by (cases m) auto

lemma bindE_cong [fundef_cong]:
  "m = m' \<Longrightarrow> (\<And>v. m' = Inr v \<Longrightarrow> f v = f' v) \<Longrightarrow> bindE m f = bindE m' f'"
  by (cases m') (auto simp: bindE_def)

text \<open>\<open>if bad: raise e\<close>\<close>

definition raise_if :: "bool \<Rightarrow> err \<Rightarrow> unit res" where
  "raise_if bad e = (if bad then Inl e else Inr ())"

lemma raise_if_Inr [res_simps]: "raise_if b e = Inr u \<longleftrightarrow> \<not> b"
  by (simp add: raise_if_def)

lemma raise_if_Inl [simp]: "raise_if b e = Inl e' \<longleftrightarrow> b \<and> e' = e"
  by (auto simp: raise_if_def)

lemma raise_if_simps [simp]:
  "raise_if True e = Inl e"
  "raise_if False e = Inr ()"
  by (simp_all add: raise_if_def)

text \<open>A value that has to be there.\<close>

definition someE :: "err \<Rightarrow> 'a option \<Rightarrow> 'a res" where
  "someE e m = (case m of None \<Rightarrow> Inl e | Some v \<Rightarrow> Inr v)"

lemma someE_Inr [res_simps]: "someE e m = Inr v \<longleftrightarrow> m = Some v"
  by (cases m) (auto simp: someE_def)

lemma someE_simps [simp]: "someE e None = Inl e" "someE e (Some v) = Inr v"
  by (simp_all add: someE_def)

text \<open>A \<open>try\<close> block that turns every error of the body into another one.\<close>

definition wrapE :: "(err \<Rightarrow> err) \<Rightarrow> 'a res \<Rightarrow> 'a res" where
  "wrapE g m = (case m of Inl e \<Rightarrow> Inl (g e) | Inr v \<Rightarrow> Inr v)"

lemma wrapE_Inr [res_simps]: "wrapE g m = Inr v \<longleftrightarrow> m = Inr v"
  by (cases m) (auto simp: wrapE_def)

lemma wrapE_simps [simp]: "wrapE g (Inl e) = Inl (g e)" "wrapE g (Inr v) = Inr v"
  by (simp_all add: wrapE_def)

text \<open>A comprehension over a fallible function, and a loop that carries a state.\<close>

fun mapE :: "('a \<Rightarrow> 'b res) \<Rightarrow> 'a list \<Rightarrow> 'b list res" where
  "mapE f [] = Inr []"
| "mapE f (x # xs) = bindE (f x) (\<lambda>y. bindE (mapE f xs) (\<lambda>ys. Inr (y # ys)))"

fun foldE :: "('s \<Rightarrow> 'a \<Rightarrow> 's res) \<Rightarrow> 's \<Rightarrow> 'a list \<Rightarrow> 's res" where
  "foldE f s [] = Inr s"
| "foldE f s (x # xs) = bindE (f s x) (\<lambda>s'. foldE f s' xs)"

fun forE :: "('a \<Rightarrow> unit res) \<Rightarrow> 'a list \<Rightarrow> unit res" where
  "forE f [] = Inr ()"
| "forE f (x # xs) = bindE (f x) (\<lambda>_. forE f xs)"

lemma mapE_cong [fundef_cong]:
  "xs = ys \<Longrightarrow> (\<And>x. x \<in> set ys \<Longrightarrow> f x = g x) \<Longrightarrow> mapE f xs = mapE g ys"
  by (induction xs arbitrary: ys) auto

lemma mapE_Inr:
  "mapE f xs = Inr ys \<longleftrightarrow> list_all2 (\<lambda>x y. f x = Inr y) xs ys"
  by (induction xs arbitrary: ys) (auto simp: bindE_Inr list_all2_Cons1)

lemma mapE_length: "mapE f xs = Inr ys \<Longrightarrow> length ys = length xs"
  by (simp add: mapE_Inr list_all2_lengthD)

lemma mapE_id:
  assumes "mapE f xs = Inr ys" and "\<And>x y. x \<in> set xs \<Longrightarrow> f x = Inr y \<Longrightarrow> g y = h x"
  shows "map g ys = map h xs"
  using assms by (induction xs arbitrary: ys) (auto simp: bindE_Inr)

lemma mapE_elem:
  assumes "mapE f xs = Inr ys" and "y \<in> set ys"
  shows "\<exists>x \<in> set xs. f x = Inr y"
  using assms by (induction xs arbitrary: ys) (auto simp: bindE_Inr)

lemma mapE_all: "mapE f xs = Inr ys \<Longrightarrow> x \<in> set xs \<Longrightarrow> \<exists>y \<in> set ys. f x = Inr y"
  by (induction xs arbitrary: ys) (auto simp: bindE_Inr)

lemma forE_Inr [res_simps]: "forE f xs = Inr u \<longleftrightarrow> (\<forall>x \<in> set xs. f x = Inr ())"
  by (induction xs) (auto simp: bindE_Inr)

lemma foldE_append: "foldE f s (xs @ ys) = bindE (foldE f s xs) (\<lambda>s'. foldE f s' ys)"
  by (induction xs arbitrary: s) (auto simp: bindE_def split: sum.split)

text \<open>A loop invariant of a fallible loop holds of its result.\<close>

lemma foldE_invariant:
  assumes "foldE f s xs = Inr t" and "P s"
    and "\<And>s x s'. x \<in> set xs \<Longrightarrow> P s \<Longrightarrow> f s x = Inr s' \<Longrightarrow> P s'"
  shows "P t"
  using assms by (induction xs arbitrary: s) (auto simp: bindE_Inr)

text \<open>Every step of a loop that succeeds succeeded.\<close>

lemma foldE_step: "foldE f s xs = Inr t \<Longrightarrow> x \<in> set xs \<Longrightarrow> \<exists>s' s''. f s' x = Inr s''"
  by (induction xs arbitrary: s) (auto simp: bindE_Inr)

section \<open>Steps that change a state\<close>

text \<open>A fallible operation on a state keeps the state it has reached when it fails, as the
  file system does.\<close>

type_synonym ('s, 'a) st = "'s \<Rightarrow> 'a res \<times> 's"

definition returnS :: "'a \<Rightarrow> ('s, 'a) st" where
  "returnS v = (\<lambda>s. (Inr v, s))"

definition bindS :: "('s, 'a) st \<Rightarrow> ('a \<Rightarrow> ('s, 'b) st) \<Rightarrow> ('s, 'b) st" where
  "bindS m f = (\<lambda>s. case m s of (Inl e, t) \<Rightarrow> (Inl e, t) | (Inr v, t) \<Rightarrow> f v t)"

text \<open>A step that only looks at the state.\<close>

definition readS :: "('s \<Rightarrow> 'a res) \<Rightarrow> ('s, 'a) st" where
  "readS f = (\<lambda>s. (f s, s))"

fun forS :: "('a \<Rightarrow> ('s, unit) st) \<Rightarrow> 'a list \<Rightarrow> ('s, unit) st" where
  "forS f [] = returnS ()"
| "forS f (x # xs) = bindS (f x) (\<lambda>_. forS f xs)"

declare bindS_def [code_unfold]

lemma bindS_Inr:
  "bindS m f s = (Inr v, t) \<longleftrightarrow> (\<exists>x u. m s = (Inr x, u) \<and> f x u = (Inr v, t))"
  by (auto simp: bindS_def split: prod.splits sum.splits)

lemma bindS_E: "bindS m f s = (Inr v, t) \<Longrightarrow> (\<And>x u. m s = (Inr x, u) \<Longrightarrow> f x u = (Inr v, t) \<Longrightarrow> P) \<Longrightarrow> P"
  by (auto simp: bindS_Inr)

lemma returnS_Inr [simp]: "returnS v s = (r, t) \<longleftrightarrow> r = Inr v \<and> t = s"
  by (auto simp: returnS_def)

lemma readS_Inr [simp]: "readS f s = (r, t) \<longleftrightarrow> f s = r \<and> t = s"
  by (auto simp: readS_def)

text \<open>What every step preserves, the sequence preserves, whether it succeeds or fails.\<close>

definition preservesS :: "('s \<Rightarrow> bool) \<Rightarrow> ('s, 'a) st \<Rightarrow> bool" where
  "preservesS I m \<longleftrightarrow> (\<forall>s. I s \<longrightarrow> I (snd (m s)))"

lemma preserves_return [intro, simp]: "preservesS I (returnS v)" "preservesS I (readS f)"
  by (simp_all add: preservesS_def returnS_def readS_def)

lemma preserves_bind [intro]:
  "preservesS I m \<Longrightarrow> (\<And>v. preservesS I (f v)) \<Longrightarrow> preservesS I (bindS m f)"
  by (auto simp: preservesS_def bindS_def split: prod.splits sum.splits)

lemma preserves_for [intro]:
  "(\<And>x. x \<in> set xs \<Longrightarrow> preservesS I (f x)) \<Longrightarrow> preservesS I (forS f xs)"
  by (induction xs) auto

section \<open>Transition systems\<close>

text \<open>A predicate that every step keeps holds in every reachable state.\<close>

locale transition_system =
  fixes step :: "'s \<Rightarrow> 's \<Rightarrow> bool" and inv :: "'s \<Rightarrow> bool"
  assumes step_inv: "inv s \<Longrightarrow> step s t \<Longrightarrow> inv t"
begin

lemma reachable_inv: "step\<^sup>*\<^sup>* s t \<Longrightarrow> inv s \<Longrightarrow> inv t"
  by (induction rule: rtranclp_induct) (auto intro: step_inv)

lemma reachable_induct [consumes 2, case_names start moved]:
  assumes "step\<^sup>*\<^sup>* s t" and "inv s" and "P s"
    and "\<And>x y. step\<^sup>*\<^sup>* s x \<Longrightarrow> inv x \<Longrightarrow> step x y \<Longrightarrow> P x \<Longrightarrow> P y"
  shows "P t"
  using assms(1)
proof (induction rule: rtranclp_induct)
  case (step y z)
  then show ?case using assms(2,4) reachable_inv by blast
qed (rule assms(3))

end

section \<open>Association lists and sets as lists\<close>

text \<open>
  A Python dictionary is an association list in insertion order: storing at a present
  key keeps its position.
\<close>

fun dict_set :: "'k \<Rightarrow> 'v \<Rightarrow> ('k \<times> 'v) list \<Rightarrow> ('k \<times> 'v) list" where
  "dict_set k v [] = [(k, v)]"
| "dict_set k v ((k', v') # d) = (if k' = k then (k, v) # d else (k', v') # dict_set k v d)"

fun dict_pop :: "'k \<Rightarrow> ('k \<times> 'v) list \<Rightarrow> ('k \<times> 'v) list" where
  "dict_pop k [] = []"
| "dict_pop k ((k', v') # d) = (if k' = k then dict_pop k d else (k', v') # dict_pop k d)"

definition dict_update :: "('k \<times> 'v) list \<Rightarrow> ('k \<times> 'v) list \<Rightarrow> ('k \<times> 'v) list" where
  "dict_update d e = foldl (\<lambda>acc (k, v). dict_set k v acc) d e"

text \<open>\<open>dict(pairs)\<close>: a later pair replaces an earlier one with the same key.\<close>

definition dict_of :: "('k \<times> 'v) list \<Rightarrow> ('k \<times> 'v) list" where
  "dict_of e = dict_update [] e"

definition keys :: "('k \<times> 'v) list \<Rightarrow> 'k list" where
  "keys d = map fst d"

lemma keys_simps [simp]: "keys [] = []" "keys ((k, v) # d) = k # keys d"
  by (simp_all add: keys_def)

lemma keys_append [simp]: "keys (d @ e) = keys d @ keys e"
  by (simp add: keys_def)

lemma set_keys: "set (keys d) = fst ` set d"
  by (simp add: keys_def)

lemma map_of_dict_set [simp]: "map_of (dict_set k v d) = (map_of d)(k \<mapsto> v)"
  by (induction d) (auto simp: fun_eq_iff)

lemma map_of_dict_pop [simp]: "map_of (dict_pop k d) = (map_of d)(k := None)"
  by (induction d) (auto simp: fun_eq_iff)

lemma set_keys_dict_set [simp]: "set (keys (dict_set k v d)) = insert k (set (keys d))"
  by (induction k v d rule: dict_set.induct) auto

lemma set_keys_dict_pop [simp]: "set (keys (dict_pop k d)) = set (keys d) - {k}"
  by (induction k d rule: dict_pop.induct) auto

lemma distinct_dict_set [simp]: "distinct (keys d) \<Longrightarrow> distinct (keys (dict_set k v d))"
  by (induction k v d rule: dict_set.induct) auto

lemma distinct_dict_pop [simp]: "distinct (keys d) \<Longrightarrow> distinct (keys (dict_pop k d))"
  by (induction k d rule: dict_pop.induct) auto

lemma dict_update_keys [simp]: "set (keys (dict_update d e)) = set (keys d) \<union> set (keys e)"
  unfolding dict_update_def
proof (induction e arbitrary: d)
  case (Cons x e)
  then show ?case by (cases x) auto
qed simp

lemma dict_update_set: "x \<in> set (dict_update d e) \<Longrightarrow> x \<in> set d \<or> x \<in> set e"
proof -
  have sub: "set (dict_set k v d) \<subseteq> insert (k, v) (set d)" for k v and d :: "('a \<times> 'b) list"
    by (induction k v d rule: dict_set.induct) auto
  show "x \<in> set (dict_update d e) \<Longrightarrow> x \<in> set d \<or> x \<in> set e"
    unfolding dict_update_def
  proof (induction e arbitrary: d)
    case (Cons y e)
    then show ?case using sub by (cases y) fastforce
  qed simp
qed

lemma distinct_dict_update: "distinct (keys d) \<Longrightarrow> distinct (keys (dict_update d e))"
  unfolding dict_update_def by (induction e arbitrary: d) (auto simp: case_prod_beta)

lemma distinct_dict_of [simp]: "distinct (keys (dict_of e))"
  by (simp add: dict_of_def distinct_dict_update)

lemma keys_dict_of [simp]: "set (keys (dict_of e)) = set (keys e)"
  by (simp add: dict_of_def)

lemma set_dict_of: "x \<in> set (dict_of e) \<Longrightarrow> x \<in> set e"
  using dict_update_set [of x "[]" e] by (simp add: dict_of_def)

lemma dict_update_append:
  "distinct (keys (d @ e)) \<Longrightarrow> dict_update d e = d @ e"
proof (induction e arbitrary: d)
  case (Cons q e)
  have "k \<notin> set (keys d) \<Longrightarrow> dict_set k v d = d @ [(k, v)]" for k v
    by (induction d) auto
  moreover obtain k v where "q = (k, v)" by (cases q)
  ultimately show ?case
    using Cons.prems Cons.IH [of "d @ [q]"] by (auto simp: dict_update_def keys_def)
qed (simp add: dict_update_def)

lemma dict_of_distinct: "distinct (keys e) \<Longrightarrow> dict_of e = e"
  using dict_update_append [of "[]" e] by (simp add: dict_of_def)

text \<open>\<open>sorted(set)\<close>: the elements in order, once each.\<close>

definition sorted_set :: "'a::linorder list \<Rightarrow> 'a list" where
  "sorted_set xs = sort (remdups xs)"

lemma set_sorted_set [simp]: "set (sorted_set xs) = set xs"
  by (simp add: sorted_set_def)

lemma sorted_sorted_set [simp]: "sorted (sorted_set xs)"
  by (simp add: sorted_set_def)

lemma distinct_sorted_set [simp]: "distinct (sorted_set xs)"
  by (simp add: sorted_set_def)

lemma sorted_set_unique: "set xs = set ys \<Longrightarrow> sorted_set xs = sorted_set ys"
  by (rule sorted_distinct_set_unique) auto

definition list_minus :: "'a list \<Rightarrow> 'a list \<Rightarrow> 'a list" where
  "list_minus xs ys = filter (\<lambda>x. x \<notin> set ys) xs"

lemma set_list_minus [simp]: "set (list_minus xs ys) = set xs - set ys"
  by (auto simp: list_minus_def)

lemma list_minus_Nil: "list_minus xs ys = [] \<longleftrightarrow> set xs \<subseteq> set ys"
  by (auto simp: list_minus_def filter_empty_conv)

section \<open>Strings\<close>

definition is_digit :: "char \<Rightarrow> bool" where
  "is_digit c = (48 \<le> (of_char c :: nat) \<and> (of_char c :: nat) \<le> 57)"

definition is_lower :: "char \<Rightarrow> bool" where
  "is_lower c = (97 \<le> (of_char c :: nat) \<and> (of_char c :: nat) \<le> 122)"

definition is_upper :: "char \<Rightarrow> bool" where
  "is_upper c = (65 \<le> (of_char c :: nat) \<and> (of_char c :: nat) \<le> 90)"

definition is_hex_lower :: "char \<Rightarrow> bool" where
  "is_hex_lower c = (is_digit c \<or> 97 \<le> (of_char c :: nat) \<and> (of_char c :: nat) \<le> 102)"

text \<open>Python's ASCII white space: tab to carriage return, the separators 28 to 31, space.\<close>

definition is_space :: "char \<Rightarrow> bool" where
  "is_space c = (let n = (of_char c :: nat) in 9 \<le> n \<and> n \<le> 13 \<or> 28 \<le> n \<and> n \<le> 32)"

definition lower_char :: "char \<Rightarrow> char" where
  "lower_char c = (if is_upper c then char_of ((of_char c :: nat) + 32) else c)"

definition upper_char :: "char \<Rightarrow> char" where
  "upper_char c = (if is_lower c then char_of ((of_char c :: nat) - 32) else c)"

definition casefold :: "string \<Rightarrow> string" where
  "casefold s = List.map lower_char s"

definition upper :: "string \<Rightarrow> string" where
  "upper s = List.map upper_char s"

definition lstrip_by :: "(char \<Rightarrow> bool) \<Rightarrow> string \<Rightarrow> string" where
  "lstrip_by P s = dropWhile P s"

definition rstrip_by :: "(char \<Rightarrow> bool) \<Rightarrow> string \<Rightarrow> string" where
  "rstrip_by P s = rev (dropWhile P (rev s))"

definition strip_by :: "(char \<Rightarrow> bool) \<Rightarrow> string \<Rightarrow> string" where
  "strip_by P s = rstrip_by P (lstrip_by P s)"

definition strip :: "string \<Rightarrow> string" where
  "strip s = strip_by is_space s"

text \<open>\<open>s.split(c)\<close> for a one-character separator.\<close>

fun split_on :: "char \<Rightarrow> string \<Rightarrow> string list" where
  "split_on c [] = [[]]"
| "split_on c (x # xs) =
     (if x = c then [] # split_on c xs
      else (case split_on c xs of [] \<Rightarrow> [[x]] | w # ws \<Rightarrow> (x # w) # ws))"

fun join :: "string \<Rightarrow> string list \<Rightarrow> string" where
  "join sep [] = []"
| "join sep [w] = w"
| "join sep (w # ws) = w @ sep @ join sep ws"

lemma split_on_not_Nil [simp]: "split_on c s \<noteq> []"
  by (induction s) (auto split: list.splits)

lemma split_on_no_sep: "w \<in> set (split_on c s) \<Longrightarrow> c \<notin> set w"
  by (induction s arbitrary: w) (auto split: if_splits list.splits)

lemma join_split_on [simp]: "join [c] (split_on c s) = s"
proof (induction s)
  case (Cons x s)
  show ?case
  proof (cases "split_on c s")
    case Nil
    then show ?thesis by simp
  next
    case (Cons w ws)
    with Cons.IH show ?thesis by (cases ws) auto
  qed
qed simp

lemma split_on_word: "c \<notin> set w \<Longrightarrow> split_on c w = [w]"
  by (induction w) auto

lemma split_on_append: "c \<notin> set w \<Longrightarrow> split_on c (w @ c # s) = w # split_on c s"
  by (induction w) auto

lemma split_on_join:
  "ws \<noteq> [] \<Longrightarrow> (\<And>w. w \<in> set ws \<Longrightarrow> c \<notin> set w) \<Longrightarrow> split_on c (join [c] ws) = ws"
proof (induction ws)
  case (Cons w ws)
  then show ?case by (cases ws) (auto simp: split_on_word split_on_append)
qed simp

text \<open>\<open>needle in s\<close> and \<open>s.replace(needle, repl)\<close>.\<close>

fun contains :: "string \<Rightarrow> string \<Rightarrow> bool" where
  "contains needle [] = (needle = [])"
| "contains needle (x # xs) = (prefix needle (x # xs) \<or> contains needle xs)"

fun replace_all :: "nat \<Rightarrow> string \<Rightarrow> string \<Rightarrow> string \<Rightarrow> string" where
  "replace_all skip needle repl [] = []"
| "replace_all (Suc n) needle repl (x # xs) = replace_all n needle repl xs"
| "replace_all 0 needle repl (x # xs) =
     (if prefix needle (x # xs) then repl @ replace_all (length needle - 1) needle repl xs
      else x # replace_all 0 needle repl xs)"

definition str_replace :: "string \<Rightarrow> string \<Rightarrow> string \<Rightarrow> string" where
  "str_replace s needle repl = replace_all 0 needle repl s"

lemma contains_iff: "contains needle s \<longleftrightarrow> (\<exists>a b. s = a @ needle @ b)"
proof (induction s)
  case (Cons x s)
  show ?case
  proof
    assume "contains needle (x # s)"
    then consider "prefix needle (x # s)" | "contains needle s" by auto
    then show "\<exists>a b. x # s = a @ needle @ b"
    proof cases
      case 1
      then show ?thesis by (metis append_Nil prefixE)
    next
      case 2
      with Cons show ?thesis by (metis append_Cons)
    qed
  next
    assume "\<exists>a b. x # s = a @ needle @ b"
    then obtain a b where ab: "x # s = a @ needle @ b" by blast
    show "contains needle (x # s)"
    proof (cases a)
      case Nil
      with ab have "prefix needle (x # s)" by (metis append_Nil prefixI)
      then show ?thesis by simp
    next
      case (Cons y a')
      with ab have "s = a' @ needle @ b" by simp
      with Cons.IH have "contains needle s" by blast
      then show ?thesis by simp
    qed
  qed
qed auto

text \<open>\<open>str(n)\<close> of an integer and its inverse on digit strings.\<close>

definition digit_char :: "nat \<Rightarrow> char" where
  "digit_char n = char_of (48 + n)"

definition digit_val :: "char \<Rightarrow> nat" where
  "digit_val c = (of_char c :: nat) - 48"

fun show_nat :: "nat \<Rightarrow> string" where
  "show_nat n = (if n < 10 then [digit_char n] else show_nat (n div 10) @ [digit_char (n mod 10)])"

declare show_nat.simps [simp del]

definition show_int :: "int \<Rightarrow> string" where
  "show_int i = (if i < 0 then CHR ''-'' # show_nat (nat (- i)) else show_nat (nat i))"

definition read_nat :: "string \<Rightarrow> nat" where
  "read_nat s = foldl (\<lambda>a c. 10 * a + digit_val c) 0 s"

lemma digit_char_props:
  "n < 10 \<Longrightarrow> is_digit (digit_char n)"
  "n < 10 \<Longrightarrow> digit_val (digit_char n) = n"
  by (auto simp: is_digit_def digit_char_def digit_val_def)

lemma show_nat_digits: "c \<in> set (show_nat n) \<Longrightarrow> is_digit c"
proof (induction n rule: show_nat.induct)
  case (1 n)
  then show ?case
    by (subst (asm) show_nat.simps) (auto simp: digit_char_props split: if_splits)
qed

lemma read_show_nat [simp]: "read_nat (show_nat n) = n"
proof (induction n rule: show_nat.induct)
  case (1 n)
  show ?case
  proof (cases "n < 10")
    case True
    then show ?thesis by (subst show_nat.simps) (simp add: read_nat_def digit_char_props)
  next
    case False
    with 1 have "read_nat (show_nat (n div 10)) = n div 10" by blast
    with False show ?thesis by (subst show_nat.simps) (simp add: read_nat_def digit_char_props)
  qed
qed

lemma show_nat_not_Nil [simp]: "show_nat n \<noteq> []"
  by (subst show_nat.simps) simp

lemma show_nat_hd: "hd (show_nat n) = CHR ''0'' \<Longrightarrow> n = 0"
proof (induction n rule: show_nat.induct)
  case (1 n)
  show ?case
  proof (cases "n < 10")
    case True
    then have "hd (show_nat n) = digit_char n" by (subst show_nat.simps) simp
    with "1.prems" True have "digit_val (digit_char n) = digit_val (CHR ''0'')" by simp
    with True show ?thesis by (simp add: digit_char_props) (simp add: digit_val_def)
  next
    case False
    then have "hd (show_nat n) = hd (show_nat (n div 10))" by (subst show_nat.simps) simp
    with 1 False have "n div 10 = 0" by simp
    with False show ?thesis by simp
  qed
qed

text \<open>UTF-8 validity of a byte string, as \<open>bytes.decode("utf-8")\<close> checks it.\<close>

definition byte :: "char \<Rightarrow> nat" where
  "byte c = of_char c"

definition is_cont :: "char \<Rightarrow> bool" where
  "is_cont c = (128 \<le> byte c \<and> byte c \<le> 191)"

fun utf8_valid :: "string \<Rightarrow> bool" where
  "utf8_valid [] = True"
| "utf8_valid (a # s) =
     (if byte a < 128 then utf8_valid s
      else if 194 \<le> byte a \<and> byte a \<le> 223 then
        (case s of b # s2 \<Rightarrow> is_cont b \<and> utf8_valid s2 | _ \<Rightarrow> False)
      else if 224 \<le> byte a \<and> byte a \<le> 239 then
        (case s of b # c # s3 \<Rightarrow>
             is_cont b \<and> is_cont c \<and> (byte a = 224 \<longrightarrow> 160 \<le> byte b)
             \<and> (byte a = 237 \<longrightarrow> byte b \<le> 159) \<and> utf8_valid s3
         | _ \<Rightarrow> False)
      else if 240 \<le> byte a \<and> byte a \<le> 244 then
        (case s of b # c # d # s4 \<Rightarrow>
             is_cont b \<and> is_cont c \<and> is_cont d \<and> (byte a = 240 \<longrightarrow> 144 \<le> byte b)
             \<and> (byte a = 244 \<longrightarrow> byte b \<le> 143) \<and> utf8_valid s4
         | _ \<Rightarrow> False)
      else False)"

lemma utf8_valid_ascii: "(\<And>c. c \<in> set s \<Longrightarrow> byte c < 128) \<Longrightarrow> utf8_valid s"
  by (induction s) auto

lemma utf8_valid_append [simp]: "utf8_valid s \<Longrightarrow> utf8_valid (s @ t) = utf8_valid t"
proof (induction s rule: utf8_valid.induct)
  case (2 a s)
  then show ?case by (auto split: if_splits list.splits)
qed simp

end
