(* ===== verification/PyVal.thy ===== *)
theory PyVal
  imports Prelude
begin

text \<open>
  The values the program moves between files and functions: what \<open>json.loads\<close> and
  \<open>tomllib.loads\<close> return. A dictionary is an association list in insertion order with
  distinct string keys; a float is kept as its decimal literal; TOML dates do not occur.
  The readers never return a tuple; the program itself puts some into documents it writes,
  where they come out as arrays, and a tuple is never equal to a list.
  \<open>py_eq\<close> is Python's \<open>==\<close> on these values: dictionaries compare without regard to
  order, and numbers by value, so \<open>True == 1\<close> and \<open>3.0 == 3\<close>.
\<close>

datatype val =
    VNone
  | VBool bool
  | VInt int
  | VFloat string
  | VStr string
  | VList "val list"
  | VTuple "val list"
  | VDict "(string \<times> val) list"

type_synonym dict = "(string \<times> val) list"

section \<open>Access\<close>

fun as_dict :: "val \<Rightarrow> dict option" where
  "as_dict (VDict d) = Some d"
| "as_dict _ = None"

fun as_list :: "val \<Rightarrow> val list option" where
  "as_list (VList xs) = Some xs"
| "as_list _ = None"

fun as_str :: "val \<Rightarrow> string option" where
  "as_str (VStr s) = Some s"
| "as_str _ = None"

fun is_dict :: "val \<Rightarrow> bool" where
  "is_dict (VDict d) = True"
| "is_dict _ = False"

fun is_str :: "val \<Rightarrow> bool" where
  "is_str (VStr s) = True"
| "is_str _ = False"

fun is_list :: "val \<Rightarrow> bool" where
  "is_list (VList xs) = True"
| "is_list _ = False"

text \<open>\<open>type(v) is int\<close>: a boolean is not an int here.\<close>

fun is_int :: "val \<Rightarrow> bool" where
  "is_int (VInt i) = True"
| "is_int _ = False"

fun is_bool :: "val \<Rightarrow> bool" where
  "is_bool (VBool b) = True"
| "is_bool _ = False"

text \<open>\<open>d.get(k)\<close>, with \<open>None\<close> for a missing key, and \<open>d[k]\<close>.\<close>

definition get :: "dict \<Rightarrow> string \<Rightarrow> val" where
  "get d k = (case map_of d k of None \<Rightarrow> VNone | Some v \<Rightarrow> v)"

definition get_or :: "dict \<Rightarrow> string \<Rightarrow> val \<Rightarrow> val" where
  "get_or d k w = (case map_of d k of None \<Rightarrow> w | Some v \<Rightarrow> v)"

definition item :: "dict \<Rightarrow> string \<Rightarrow> val res" where
  "item d k = (case map_of d k of None \<Rightarrow> Inl (KeyError k) | Some v \<Rightarrow> Inr v)"

definition has_key :: "dict \<Rightarrow> string \<Rightarrow> bool" where
  "has_key d k = (map_of d k \<noteq> None)"

lemma has_key_iff: "has_key d k \<longleftrightarrow> k \<in> set (keys d)"
  by (auto simp: has_key_def keys_def map_of_eq_None_iff)

lemma item_Inr [res_simps]: "item d k = Inr v \<longleftrightarrow> map_of d k = Some v"
  by (auto simp: item_def split: option.splits)

lemma get_map_of: "map_of d k = Some v \<Longrightarrow> get d k = v"
  by (simp add: get_def)

text \<open>\<open>bool(v)\<close>. A float literal is false when all its digits before an exponent are 0.\<close>

fun truthy :: "val \<Rightarrow> bool" where
  "truthy VNone = False"
| "truthy (VBool b) = b"
| "truthy (VInt i) = (i \<noteq> 0)"
| "truthy (VFloat s) =
     (\<exists>c \<in> set (takeWhile (\<lambda>c. c \<noteq> CHR ''e'' \<and> c \<noteq> CHR ''E'') s). c \<notin> set ''-0.'')"
| "truthy (VStr s) = (s \<noteq> [])"
| "truthy (VList xs) = (xs \<noteq> [])"
| "truthy (VTuple xs) = (xs \<noteq> [])"
| "truthy (VDict d) = (d \<noteq> [])"

section \<open>Equality\<close>

text \<open>
  A float literal as a mantissa and a decimal exponent, with no trailing zero in the
  mantissa: two literals denote the same number when these agree.
\<close>

function norm10 :: "int \<Rightarrow> int \<Rightarrow> int \<times> int" where
  "norm10 m e = (if m = 0 then (0, 0)
     else if m mod 10 = 0 then norm10 (m div 10) (e + 1) else (m, e))"
  by pat_completeness auto
termination
proof (relation "measure (\<lambda>(m, e). nat \<bar>m\<bar>)", goal_cases)
  case (2 m e)
  then obtain k where "m = 10 * k" by (auto elim: dvdE simp: mod_eq_0_iff_dvd)
  with 2 show ?case by auto
qed simp

declare norm10.simps [simp del]

definition read_int :: "string \<Rightarrow> int" where
  "read_int s = (case s of
       CHR ''-'' # r \<Rightarrow> - int (read_nat r)
     | CHR ''+'' # r \<Rightarrow> int (read_nat r)
     | _ \<Rightarrow> int (read_nat s))"

definition float_key :: "string \<Rightarrow> int \<times> int" where
  "float_key s =
     (let isexp = (\<lambda>c. c = CHR ''e'' \<or> c = CHR ''E'');
          body = takeWhile (\<lambda>c. \<not> isexp c) s;
          ex = drop (Suc (length body)) s;
          neg = (body \<noteq> [] \<and> hd body = CHR ''-'');
          digits = filter is_digit body;
          frac = drop (Suc (length (takeWhile (\<lambda>c. c \<noteq> CHR ''.'') body))) body
      in norm10 ((if neg then -1 else 1) * int (read_nat digits))
           (read_int ex - int (length frac)))"

definition num_val :: "int \<times> int \<Rightarrow> string \<Rightarrow> val" where
  "num_val k s = (if 0 \<le> snd k then VInt (fst k * 10 ^ nat (snd k))
     else VFloat (show_int (fst k) @ ''e'' @ show_int (snd k)))"

text \<open>Sort keys before anything else; \<open>canon\<close> is what \<open>sort_keys=True\<close> writes.\<close>

fun canon :: "val \<Rightarrow> val" where
  "canon (VList xs) = VList (map canon xs)"
| "canon (VDict d) = VDict (sort_key fst (map (\<lambda>(k, v). (k, canon v)) d))"
| "canon (VTuple xs) = VTuple (map canon xs)"
| "canon v = v"

fun pynorm :: "val \<Rightarrow> val" where
  "pynorm (VBool b) = VInt (if b then 1 else 0)"
| "pynorm (VFloat s) = num_val (float_key s) s"
| "pynorm (VList xs) = VList (map pynorm xs)"
| "pynorm (VTuple xs) = VTuple (map pynorm xs)"
| "pynorm (VDict d) = VDict (sort_key fst (map (\<lambda>(k, v). (k, pynorm v)) d))"
| "pynorm v = v"

definition py_eq :: "val \<Rightarrow> val \<Rightarrow> bool" where
  "py_eq v w = (pynorm v = pynorm w)"

lemma py_eq_refl [simp]: "py_eq v v"
  and py_eq_sym: "py_eq v w \<Longrightarrow> py_eq w v"
  and py_eq_trans: "py_eq u v \<Longrightarrow> py_eq v w \<Longrightarrow> py_eq u w"
  by (simp_all add: py_eq_def)

lemma insort_key_map:
  "(\<And>x. f' (g x) = f x) \<Longrightarrow> insort_key f' (g a) (map g xs) = map g (insort_key f a xs)"
  by (induction xs) auto

lemma sort_key_map:
  "(\<And>x. f' (g x) = f x) \<Longrightarrow> sort_key f' (map g xs) = map g (sort_key f xs)"
  by (induction xs) (simp_all add: insort_key_map [where f' = f' and f = f])

lemma sort_key_pairs:
  "sort_key fst (map (\<lambda>(k, v). (k, h v)) d) = map (\<lambda>(k, v). (k, h v)) (sort_key fst d)"
  by (rule sort_key_map) (simp add: case_prod_beta)

lemma sort_key_idem [simp]: "sort_key f (sort_key f xs) = sort_key f xs"
  by (simp add: sort_key_id_if_sorted)

lemma map_pairs_map_pairs:
  "map (\<lambda>(k, v). (k, g v)) (map (\<lambda>(k, v). (k, h v)) d) = map (\<lambda>(k, v). (k, g (h v))) d"
  by (simp add: case_prod_beta)

lemma map_pairs_cong:
  "(\<And>k v. (k, v) \<in> set d \<Longrightarrow> g v = h v) \<Longrightarrow> map (\<lambda>(k, v). (k, g v)) d = map (\<lambda>(k, v). (k, h v)) d"
  by auto

lemma pynorm_canon [simp]: "pynorm (canon v) = pynorm v"
proof (induction v rule: canon.induct)
  case (2 d)
  then have "map (\<lambda>(k, v). (k, pynorm (canon v))) d = map (\<lambda>(k, v). (k, pynorm v)) d"
    by (intro map_pairs_cong) auto
  then show ?case
    by (simp only: canon.simps pynorm.simps sort_key_pairs sort_key_idem map_pairs_map_pairs)
       (metis sort_key_pairs)
qed simp_all

lemma canon_idem [simp]: "canon (canon v) = canon v"
proof (induction v rule: canon.induct)
  case (2 d)
  then have "map (\<lambda>(k, v). (k, canon (canon v))) d = map (\<lambda>(k, v). (k, canon v)) d"
    by (intro map_pairs_cong) auto
  then show ?case
    by (simp only: canon.simps sort_key_pairs sort_key_idem map_pairs_map_pairs)
       (metis sort_key_pairs)
qed simp_all

lemma py_eq_canon [simp]: "py_eq (canon v) w = py_eq v w" "py_eq v (canon w) = py_eq v w"
  by (simp_all add: py_eq_def)

lemma canon_eq_py_eq: "canon v = canon w \<Longrightarrow> py_eq v w"
  by (metis py_eq_canon py_eq_refl)

text \<open>Every dictionary inside a value has distinct keys, as every Python dictionary has.\<close>

fun wf_val :: "val \<Rightarrow> bool" where
  "wf_val (VList xs) = (\<forall>x \<in> set xs. wf_val x)"
| "wf_val (VTuple xs) = (\<forall>x \<in> set xs. wf_val x)"
| "wf_val (VDict d) = (distinct (keys d) \<and> (\<forall>(k, v) \<in> set d. wf_val v))"
| "wf_val v = True"

text \<open>Dictionaries that compare equal give equal values at every key.\<close>

lemma map_of_same_set:
  assumes "distinct (map fst xs)" and "distinct (map fst ys)" and "set xs = set ys"
  shows "map_of xs = map_of ys"
proof
  fix k
  show "map_of xs k = map_of ys k"
    using assms by (metis map_of_eq_Some_iff option.exhaust)
qed

lemma map_of_sort_key: "distinct (keys d) \<Longrightarrow> map_of (sort_key fst d) = map_of d"
  by (rule map_of_same_set) (simp_all add: keys_def distinct_map)

lemma map_of_map_pairs: "map_of (map (\<lambda>(k, v). (k, h v)) d) k = map_option h (map_of d k)"
  by (induction d) auto

lemma keys_map_pairs [simp]: "keys (map (\<lambda>(k, v). (k, h v)) d) = keys d"
  by (simp add: keys_def case_prod_beta' comp_def)

lemma pynorm_dict_lookup:
  assumes "pynorm (VDict d) = pynorm (VDict e)" and "distinct (keys d)" and "distinct (keys e)"
  shows "map_option pynorm (map_of d k) = map_option pynorm (map_of e k)"
proof -
  have eq: "sort_key fst (map (\<lambda>(k, v). (k, pynorm v)) d) = sort_key fst (map (\<lambda>(k, v). (k, pynorm v)) e)"
    using assms(1) by simp
  have "set (map (\<lambda>(k, v). (k, pynorm v)) d) = set (map (\<lambda>(k, v). (k, pynorm v)) e)"
    using arg_cong [OF eq, of set] by simp
  then have "map_of (map (\<lambda>(k, v). (k, pynorm v)) d) = map_of (map (\<lambda>(k, v). (k, pynorm v)) e)"
    using assms(2,3) keys_map_pairs [of pynorm d] keys_map_pairs [of pynorm e]
    by (intro map_of_same_set) (simp_all only: keys_def)
  then show ?thesis using map_of_map_pairs [of pynorm d k] map_of_map_pairs [of pynorm e k] by simp
qed

lemma py_eq_dict_lookup:
  "py_eq (VDict d) (VDict e) \<Longrightarrow> distinct (keys d) \<Longrightarrow> distinct (keys e) \<Longrightarrow> map_of d k = Some v \<Longrightarrow>
     \<exists>w. map_of e k = Some w \<and> py_eq v w"
  using pynorm_dict_lookup [of d e k] by (cases "map_of e k") (auto simp: py_eq_def)

end
