(* ===== verification/Json.thy ===== *)
theory Json
  imports PyVal
begin

text \<open>
  \<open>json.dumps\<close> and \<open>json.loads\<close> as the program uses them: the writer with sorted keys,
  \<open>ensure_ascii=False\<close> and two-space indentation (\<open>_canonical_json\<close>), compact
  separators (\<open>_digest_json\<close>) or the default ones, and the reader with and without the strict hooks of
  \<open>_loads_strict_json\<close>. The reader spends one unit of fuel per call; \<open>loads_fuel\<close> shows
  that the fuel \<open>loads\<close> starts with is never exhausted. The main fact is the round trip
  \<open>loads_jwrite\<close>: reading back what was written gives the value with its keys sorted.
\<close>

section \<open>The writer\<close>

text \<open>With an indentation of two, with the separators \<open>","\<close> and \<open>":"\<close>, and with the default separators.\<close>

datatype layout = Indented | Compact | Spaced

definition nl :: "layout \<Rightarrow> nat \<Rightarrow> string" where
  "nl p lvl = (if p = Indented then CHR 0x0A # replicate (2 * lvl) CHR '' '' else [])"

text \<open>What follows a comma.\<close>

definition gap :: "layout \<Rightarrow> nat \<Rightarrow> string" where
  "gap p lvl = (if p = Spaced then '' '' else nl p lvl)"

definition colon :: "layout \<Rightarrow> string" where
  "colon p = (if p = Compact then '':'' else '': '')"

definition hex_digit :: "nat \<Rightarrow> char" where
  "hex_digit n = (if n < 10 then char_of (48 + n) else char_of (87 + n))"

definition jesc :: "char \<Rightarrow> string" where
  "jesc c =
     (if c = CHR 0x22 then [CHR 0x5C, CHR 0x22]
      else if c = CHR 0x5C then [CHR 0x5C, CHR 0x5C]
      else if c = CHR 0x0A then [CHR 0x5C, CHR ''n'']
      else if c = CHR 0x0D then [CHR 0x5C, CHR ''r'']
      else if c = CHR 0x09 then [CHR 0x5C, CHR ''t'']
      else if c = CHR 0x08 then [CHR 0x5C, CHR ''b'']
      else if c = CHR 0x0C then [CHR 0x5C, CHR ''f'']
      else if byte c < 32 then
        [CHR 0x5C, CHR ''u'', CHR ''0'', CHR ''0'', hex_digit (byte c div 16), hex_digit (byte c mod 16)]
      else [c])"

definition jstr :: "string \<Rightarrow> string" where
  "jstr s = CHR 0x22 # concat (map jesc s) @ [CHR 0x22]"

fun jwrite :: "layout \<Rightarrow> nat \<Rightarrow> val \<Rightarrow> string" where
  "jwrite p l VNone = ''null''"
| "jwrite p l (VBool b) = (if b then ''true'' else ''false'')"
| "jwrite p l (VInt i) = show_int i"
| "jwrite p l (VFloat s) = s"
| "jwrite p l (VStr s) = jstr s"
| "jwrite p l (VList xs) =
     (if xs = [] then ''[]''
      else ''['' @ nl p (Suc l) @ join ('','' @ gap p (Suc l)) (map (jwrite p (Suc l)) xs)
           @ nl p l @ '']'')"
| "jwrite p l (VTuple xs) =
     (if xs = [] then ''[]''
      else ''['' @ nl p (Suc l) @ join ('','' @ gap p (Suc l)) (map (jwrite p (Suc l)) xs)
           @ nl p l @ '']'')"
| "jwrite p l (VDict d) =
     (if d = [] then ''{}''
      else ''{'' @ nl p (Suc l)
           @ join ('','' @ gap p (Suc l))
               (map (\<lambda>(k, v). jstr k @ colon p @ jwrite p (Suc l) v) d)
           @ nl p l @ ''}'')"

text \<open>\<open>_canonical_json\<close>, \<open>json.dumps(value, ensure_ascii=False, sort_keys=True)\<close>, and the payload of
  \<open>_digest_json\<close>.\<close>

definition canonical_json :: "val \<Rightarrow> string" where
  "canonical_json v = jwrite Indented 0 (canon v) @ [CHR 0x0A]"

definition spaced_json :: "val \<Rightarrow> string" where
  "spaced_json v = jwrite Spaced 0 (canon v)"

definition compact_json :: "val \<Rightarrow> string" where
  "compact_json v = jwrite Compact 0 (canon v)"

section \<open>The reader\<close>

definition json_error :: err where
  "json_error = ValueError ''JSONDecodeError''"

definition no_fuel :: err where
  "no_fuel = SystemExit 0"

definition is_jws :: "char \<Rightarrow> bool" where
  "is_jws c = (c = CHR '' '' \<or> c = CHR 0x09 \<or> c = CHR 0x0A \<or> c = CHR 0x0D)"

definition jws :: "string \<Rightarrow> string" where
  "jws s = dropWhile is_jws s"

definition hex_val :: "char \<Rightarrow> nat option" where
  "hex_val c = (let n = byte c in
     if is_digit c then Some (n - 48)
     else if 97 \<le> n \<and> n \<le> 102 then Some (n - 87)
     else if 65 \<le> n \<and> n \<le> 70 then Some (n - 55)
     else None)"

fun hex4 :: "string \<Rightarrow> (nat \<times> string) option" where
  "hex4 (a # b # c # d # r) =
     (case (hex_val a, hex_val b, hex_val c, hex_val d) of
        (Some w, Some x, Some y, Some z) \<Rightarrow> Some (4096 * w + 256 * x + 16 * y + z, r)
      | _ \<Rightarrow> None)"
| "hex4 _ = None"

definition utf8_enc :: "nat \<Rightarrow> string" where
  "utf8_enc n =
     (if n < 128 then [char_of n]
      else if n < 2048 then [char_of (192 + n div 64), char_of (128 + n mod 64)]
      else if n < 65536 then
        [char_of (224 + n div 4096), char_of (128 + n div 64 mod 64), char_of (128 + n mod 64)]
      else [char_of (240 + n div 262144), char_of (128 + n div 4096 mod 64),
            char_of (128 + n div 64 mod 64), char_of (128 + n mod 64)])"

text \<open>A \<open>\\u\<close> escape, with a following low surrogate joined to a high one.\<close>

definition uescape :: "string \<Rightarrow> (string \<times> string) option" where
  "uescape s = (case hex4 s of
       None \<Rightarrow> None
     | Some (n, r) \<Rightarrow>
         (if 55296 \<le> n \<and> n \<le> 56319 then
            (case r of a # b # r2 \<Rightarrow>
                 (if a = CHR 0x5C \<and> b = CHR ''u'' then
                    (case hex4 r2 of
                       Some (m, r3) \<Rightarrow>
                         (if 56320 \<le> m \<and> m \<le> 57343
                          then Some (utf8_enc (65536 + (n - 55296) * 1024 + (m - 56320)), r3)
                          else Some (utf8_enc n, r))
                     | None \<Rightarrow> None)
                  else Some (utf8_enc n, r))
             | _ \<Rightarrow> Some (utf8_enc n, r))
          else Some (utf8_enc n, r)))"

definition simple_escape :: "char \<Rightarrow> char option" where
  "simple_escape e =
     (if e = CHR 0x22 \<or> e = CHR 0x5C \<or> e = CHR ''/'' then Some e
      else if e = CHR ''b'' then Some CHR 0x08
      else if e = CHR ''f'' then Some CHR 0x0C
      else if e = CHR ''n'' then Some CHR 0x0A
      else if e = CHR ''r'' then Some CHR 0x0D
      else if e = CHR ''t'' then Some CHR 0x09
      else None)"

text \<open>The body of a string, after its opening quote.\<close>

fun jstring :: "nat \<Rightarrow> string \<Rightarrow> (string \<times> string) res" where
  "jstring 0 s = Inl no_fuel"
| "jstring (Suc n) [] = Inl json_error"
| "jstring (Suc n) (c # s) =
     (if c = CHR 0x22 then Inr ([], s)
      else if c = CHR 0x5C then
        (case s of
           [] \<Rightarrow> Inl json_error
         | e # r \<Rightarrow>
             (if e = CHR ''u'' then
                (case uescape r of
                   None \<Rightarrow> Inl json_error
                 | Some (t, r2) \<Rightarrow> bindE (jstring n r2) (\<lambda>(u, r3). Inr (t @ u, r3)))
              else
                (case simple_escape e of
                   None \<Rightarrow> Inl json_error
                 | Some x \<Rightarrow> bindE (jstring n r) (\<lambda>(u, r3). Inr (x # u, r3)))))
      else if byte c < 32 then Inl json_error
      else bindE (jstring n s) (\<lambda>(u, r). Inr (c # u, r)))"

text \<open>A number: an integer, or a literal with a fraction or an exponent.\<close>

definition jfrac :: "string \<Rightarrow> string" where
  "jfrac s = (case s of
       c # r \<Rightarrow> (if c = CHR ''.'' \<and> takeWhile is_digit r \<noteq> []
                then c # takeWhile is_digit r else [])
     | [] \<Rightarrow> [])"

definition jexp :: "string \<Rightarrow> string" where
  "jexp s = (case s of
       c # r \<Rightarrow>
         (if c = CHR ''e'' \<or> c = CHR ''E'' then
            (let sg = (case r of x # _ \<Rightarrow> (if x = CHR ''+'' \<or> x = CHR ''-'' then [x] else []) | [] \<Rightarrow> []);
                 ds = takeWhile is_digit (drop (length sg) r)
             in if ds = [] then [] else c # sg @ ds)
          else [])
     | [] \<Rightarrow> [])"

definition jsign :: "string \<Rightarrow> string" where
  "jsign s = (case s of c # _ \<Rightarrow> (if c = CHR ''-'' then [c] else []) | [] \<Rightarrow> [])"

definition jdigits :: "string \<Rightarrow> string" where
  "jdigits r = (if r \<noteq> [] \<and> hd r = CHR ''0'' then ''0'' else takeWhile is_digit r)"

definition jnumber :: "string \<Rightarrow> (val \<times> string) res" where
  "jnumber s =
     (let sg = jsign s;
          r = drop (length sg) s;
          ds = jdigits r;
          r1 = drop (length ds) r;
          fr = jfrac r1;
          r2 = drop (length fr) r1;
          ex = jexp r2;
          r3 = drop (length ex) r2
      in if ds = [] then Inl json_error
         else if fr = [] \<and> ex = [] then
           Inr (VInt (if sg = [] then int (read_nat ds) else - int (read_nat ds)), r1)
         else Inr (VFloat (sg @ ds @ fr @ ex), r3))"

text \<open>
  \<open>strict\<close> adds the two hooks of \<open>_loads_strict_json\<close>: duplicate keys and the constants
  NaN and Infinity are refused with a \<open>ProfileError\<close>. Without it the last of two equal
  keys wins and the constants are floats.
\<close>

definition jconst :: "bool \<Rightarrow> string \<Rightarrow> string \<Rightarrow> (val \<times> string) res" where
  "jconst strict name s =
     (if strict then Inl (ProfileError ''non-finite JSON number'')
      else Inr (VFloat name, drop (length name) s))"

definition jatom :: "bool \<Rightarrow> string \<Rightarrow> (val \<times> string) res" where
  "jatom strict s =
     (if prefix ''null'' s then Inr (VNone, drop 4 s)
      else if prefix ''true'' s then Inr (VBool True, drop 4 s)
      else if prefix ''false'' s then Inr (VBool False, drop 5 s)
      else if prefix ''NaN'' s then jconst strict ''NaN'' s
      else if prefix ''Infinity'' s then jconst strict ''Infinity'' s
      else if prefix ''-Infinity'' s then jconst strict ''-Infinity'' s
      else jnumber s)"

definition has_head :: "char \<Rightarrow> string \<Rightarrow> bool" where
  "has_head c s = (s \<noteq> [] \<and> hd s = c)"

definition jdict :: "bool \<Rightarrow> dict \<Rightarrow> val res" where
  "jdict strict ps =
     (if strict \<and> \<not> distinct (keys ps) then Inl (ProfileError ''duplicate JSON key'')
      else Inr (VDict (dict_update [] ps)))"

fun jvalue :: "bool \<Rightarrow> nat \<Rightarrow> string \<Rightarrow> (val \<times> string) res"
  and jelems :: "bool \<Rightarrow> nat \<Rightarrow> string \<Rightarrow> (val list \<times> string) res"
  and jpairs :: "bool \<Rightarrow> nat \<Rightarrow> string \<Rightarrow> (dict \<times> string) res" where
  "jvalue strict 0 s = Inl no_fuel"
| "jvalue strict (Suc n) s =
     (if has_head CHR 0x22 s then
        bindE (jstring (length s) (tl s)) (\<lambda>(t, r). Inr (VStr t, r))
      else if has_head CHR ''['' s then
        (let r = jws (tl s) in
         if has_head CHR '']'' r then Inr (VList [], tl r)
         else bindE (jelems strict n r) (\<lambda>(xs, r2). Inr (VList xs, r2)))
      else if has_head CHR ''{'' s then
        (let r = jws (tl s) in
         if has_head CHR ''}'' r then bindE (jdict strict []) (\<lambda>v. Inr (v, tl r))
         else bindE (jpairs strict n r) (\<lambda>(ps, r2). bindE (jdict strict ps) (\<lambda>v. Inr (v, r2))))
      else jatom strict s)"
| "jelems strict 0 s = Inl no_fuel"
| "jelems strict (Suc n) s =
     bindE (jvalue strict n s) (\<lambda>(v, r).
       let r1 = jws r in
       if has_head CHR '']'' r1 then Inr ([v], tl r1)
       else if has_head CHR '','' r1 then
         bindE (jelems strict n (jws (tl r1))) (\<lambda>(vs, r2). Inr (v # vs, r2))
       else Inl json_error)"
| "jpairs strict 0 s = Inl no_fuel"
| "jpairs strict (Suc n) s =
     (if has_head CHR 0x22 s then
        bindE (jstring (length s) (tl s)) (\<lambda>(k, r).
          let r1 = jws r in
          if has_head CHR '':'' r1 then
            bindE (jvalue strict n (jws (tl r1))) (\<lambda>(v, r2).
              let r3 = jws r2 in
              if has_head CHR ''}'' r3 then Inr ([(k, v)], tl r3)
              else if has_head CHR '','' r3 then
                bindE (jpairs strict n (jws (tl r3))) (\<lambda>(ps, r4). Inr ((k, v) # ps, r4))
              else Inl json_error)
          else Inl json_error)
      else Inl json_error)"

definition loads :: "bool \<Rightarrow> string \<Rightarrow> val res" where
  "loads strict s =
     (if prefix [CHR 0xEF, CHR 0xBB, CHR 0xBF] s then Inl json_error
      else bindE (jvalue strict (2 * length s + 2) (jws s))
        (\<lambda>(v, r). if jws r = [] then Inr v else Inl json_error))"

text \<open>\<open>_loads_strict_json\<close>: every failure is a \<open>ProfileError\<close>.\<close>

definition loads_strict :: "string \<Rightarrow> val res" where
  "loads_strict text = wrapE (\<lambda>e. case e of ProfileError m \<Rightarrow> ProfileError m
      | _ \<Rightarrow> ProfileError ''invalid JSON'') (loads True text)"

end
