(* ===== verification/JsonRoundtrip.thy ===== *)
theory JsonRoundtrip
  imports Json
begin

text \<open>
  The reader inverts the writer on every value without floats whose dictionaries have
  distinct keys. All documents the program writes are of this kind.
\<close>

fun plain :: "val \<Rightarrow> bool" where
  "plain (VFloat s) = False"
| "plain (VList xs) = (\<forall>x \<in> set xs. plain x)"
| "plain (VDict d) = (distinct (keys d) \<and> (\<forall>(k, v) \<in> set d. plain v))"
| "plain (VTuple xs) = False"
| "plain v = True"

lemma plain_append:
  "plain (VDict (a @ b)) \<longleftrightarrow> plain (VDict a) \<and> plain (VDict b) \<and> set (keys a) \<inter> set (keys b) = {}"
  by (auto simp: keys_def)

section \<open>Strings\<close>

lemma hex_val_digit: "n < 16 \<Longrightarrow> hex_val (hex_digit n) = Some n"
  by (auto simp: hex_val_def hex_digit_def byte_def is_digit_def Let_def)

lemma uescape_low:
  assumes "byte c < 32"
  shows "uescape (CHR ''0'' # CHR ''0'' # hex_digit (byte c div 16) # hex_digit (byte c mod 16) # r)
    = Some ([c], r)"
proof -
  have z: "hex_val CHR ''0'' = Some 0" by (simp add: hex_val_def is_digit_def byte_def)
  have d: "byte c div 16 < 16" "byte c mod 16 < 16" using assms by auto
  have "hex4 (CHR ''0'' # CHR ''0'' # hex_digit (byte c div 16) # hex_digit (byte c mod 16) # r)
      = Some (byte c, r)"
    by (simp add: z hex_val_digit [OF d(1)] hex_val_digit [OF d(2)])
  moreover have "utf8_enc (byte c) = [c]" using assms by (simp add: utf8_enc_def byte_def)
  ultimately show ?thesis using assms by (simp add: uescape_def)
qed

lemma jesc_length: "1 \<le> length (jesc c)"
  by (simp add: jesc_def)

lemma length_concat_jesc: "length s \<le> length (concat (map jesc s))"
proof (induction s)
  case (Cons c s)
  then show ?case using jesc_length [of c] by simp
qed simp

lemma jstring_step:
  "jstring (Suc n) (jesc c @ s) = bindE (jstring n s) (\<lambda>(u, r). Inr (c # u, r))"
  by (auto simp: jesc_def simple_escape_def uescape_low)

lemma jstring_concat:
  "length s < n \<Longrightarrow> jstring n (concat (map jesc s) @ CHR 0x22 # rest) = Inr (s, rest)"
proof (induction s arbitrary: n)
  case Nil
  then obtain m where "n = Suc m" by (cases n) auto
  then show ?case by simp
next
  case (Cons c s)
  then obtain m where m: "n = Suc m" "length s < m" by (cases n) auto
  then show ?case using Cons.IH [of m] by (simp add: jstring_step)
qed

lemma jstring_jstr:
  assumes "length (jstr s) \<le> n"
  shows "jstring n (tl (jstr s @ rest)) = Inr (s, rest)"
  using assms length_concat_jesc [of s] by (simp add: jstr_def jstring_concat)

lemma has_head_simps [simp]:
  "has_head c (d # s) \<longleftrightarrow> d = c"
  "\<not> has_head c []"
  by (auto simp: has_head_def)

lemma has_head_jstr [simp]: "has_head CHR 0x22 (jstr s @ r)"
  by (simp add: jstr_def)

section \<open>Numbers\<close>

text \<open>What may follow a number without being read as part of it.\<close>

definition num_end :: "string \<Rightarrow> bool" where
  "num_end s = (case s of [] \<Rightarrow> True
     | c # _ \<Rightarrow> \<not> is_digit c \<and> c \<noteq> CHR ''.'' \<and> c \<noteq> CHR ''e'' \<and> c \<noteq> CHR ''E'')"

lemma num_end_jfrac: "num_end s \<Longrightarrow> jfrac s = [] \<and> jexp s = []"
  by (auto simp: num_end_def jfrac_def jexp_def split: list.splits)

lemma takeWhile_digits:
  "(\<And>c. c \<in> set ds \<Longrightarrow> is_digit c) \<Longrightarrow> num_end rest \<Longrightarrow> takeWhile is_digit (ds @ rest) = ds"
  by (induction ds) (auto simp: num_end_def split: list.splits)

lemma show_nat_0: "show_nat 0 = ''0''"
  by code_simp

lemma digits_of_show_nat:
  assumes "num_end rest"
  shows "(if show_nat n @ rest \<noteq> [] \<and> hd (show_nat n @ rest) = CHR ''0'' then ''0''
          else takeWhile is_digit (show_nat n @ rest)) = show_nat n"
proof (cases "hd (show_nat n) = CHR ''0''")
  case True
  then have "n = 0" by (rule show_nat_hd)
  then show ?thesis by (simp add: show_nat_0)
next
  case False
  moreover have "takeWhile is_digit (show_nat n @ rest) = show_nat n"
    by (rule takeWhile_digits) (use assms show_nat_digits in auto)
  ultimately show ?thesis by simp
qed

lemma show_nat_head:
  obtains c s where "show_nat n = c # s" and "is_digit c"
  by (metis list.set_intros(1) neq_Nil_conv show_nat_digits show_nat_not_Nil)

lemma jnumber_show_int:
  assumes "num_end rest"
  shows "jnumber (show_int i @ rest) = Inr (VInt i, rest)"
proof -
  have body: "jdigits (show_nat n @ rest) = show_nat n" for n
    unfolding jdigits_def using digits_of_show_nat [OF assms] .
  show ?thesis
  proof (cases "i < 0")
    case True
    then have "jsign (show_int i @ rest) = ''-''" by (simp add: show_int_def jsign_def)
    then show ?thesis
      using True num_end_jfrac [OF assms] by (simp add: jnumber_def show_int_def body)
  next
    case False
    obtain c s where cs: "show_nat (nat i) = c # s" "is_digit c" by (rule show_nat_head)
    then have "c \<noteq> CHR ''-''" by (auto simp: is_digit_def)
    then have "jsign (show_int i @ rest) = []" using cs False by (simp add: show_int_def jsign_def)
    then show ?thesis
      using False num_end_jfrac [OF assms] by (simp add: jnumber_def show_int_def body)
  qed
qed

lemma show_int_head:
  obtains c s where "show_int i = c # s" and "is_digit c"
  | d s where "show_int i = CHR ''-'' # d # s" and "is_digit d"
  by (metis show_int_def show_nat_head)

lemma digit_heads:
  assumes "is_digit c"
  shows "\<not> is_jws c" "c \<noteq> CHR 0x22" "c \<noteq> CHR ''[''" "c \<noteq> CHR ''{''" "c \<noteq> CHR '']''" "c \<noteq> CHR ''}''"
    "c \<noteq> CHR ''n''" "c \<noteq> CHR ''t''" "c \<noteq> CHR ''f''" "c \<noteq> CHR ''N''" "c \<noteq> CHR ''I''" "c \<noteq> CHR 0xEF" "c \<noteq> CHR ''-''"
  using assms by (auto simp: is_digit_def is_jws_def)

lemmas digit_heads_sym = digit_heads(2-13) [THEN not_sym]

lemma jvalue_show_int:
  assumes "num_end rest" and "n \<noteq> 0"
  shows "jvalue st n (show_int i @ rest) = Inr (VInt i, rest)"
proof -
  obtain m where m: "n = Suc m" using assms(2) by (cases n) auto
  have "jatom st (show_int i @ rest) = jnumber (show_int i @ rest)
      \<and> jvalue st n (show_int i @ rest) = jatom st (show_int i @ rest)"
  proof (cases rule: show_int_head [of i])
    case (1 c s)
    then show ?thesis by (simp add: jatom_def m digit_heads [OF 1(2)] digit_heads_sym [OF 1(2)] del: jelems.simps jpairs.simps)
  next
    case (2 d s)
    then show ?thesis by (simp add: jatom_def m digit_heads [OF 2(2)] digit_heads_sym [OF 2(2)] del: jelems.simps jpairs.simps)
  qed
  then show ?thesis using jnumber_show_int [OF assms(1)] by simp
qed

section \<open>White space\<close>

lemma jws_nl [simp]: "\<not> is_jws c \<Longrightarrow> jws (nl p l @ c # s) = c # s"
proof -
  assume "\<not> is_jws c"
  moreover have "\<forall>x \<in> set (nl p l). is_jws x" by (auto simp: nl_def is_jws_def)
  ultimately show ?thesis by (simp add: jws_def)
qed

lemma jws_stop [simp]: "\<not> is_jws c \<Longrightarrow> jws (c # s) = c # s"
  by (simp add: jws_def)

definition good_start :: "string \<Rightarrow> bool" where
  "good_start s = (s \<noteq> [] \<and> \<not> is_jws (hd s) \<and> hd s \<noteq> CHR '']'' \<and> hd s \<noteq> CHR ''}'')"

lemma jws_good [simp]: "good_start s \<Longrightarrow> jws (nl p l @ s @ r) = s @ r"
  by (cases s) (auto simp: good_start_def)

lemma jws_gap [simp]: "good_start s \<Longrightarrow> jws (gap p l @ s @ r) = s @ r"
  using jws_good [of s p l r] by (cases s) (auto simp: gap_def good_start_def jws_def is_jws_def)

lemma jws_good0 [simp]: "good_start s \<Longrightarrow> jws (s @ r) = s @ r"
  by (cases s) (auto simp: good_start_def)

lemma good_start_jwrite: "plain v \<Longrightarrow> good_start (jwrite p l v)"
proof (cases v)
  case (VInt i)
  show ?thesis
    by (cases rule: show_int_head [of i]) (simp_all add: VInt good_start_def digit_heads, simp add: is_jws_def)
qed (auto simp: good_start_def is_jws_def jstr_def)

lemma good_start_jstr: "good_start (jstr k @ s)"
  by (simp add: good_start_def jstr_def is_jws_def)

lemma good_start_append: "good_start s \<Longrightarrow> good_start (s @ t)"
  by (simp add: good_start_def)

lemma num_end_nl [simp]: "num_end (nl p l @ CHR '']'' # s)" "num_end (nl p l @ CHR ''}'' # s)"
    "num_end (CHR '','' # s)"
  by (simp_all add: num_end_def nl_def is_digit_def)

section \<open>Containers\<close>

text \<open>A writer \<open>w\<close> of the elements that the reader inverts with twice its length as fuel.\<close>

definition inverts :: "bool \<Rightarrow> string \<Rightarrow> val \<Rightarrow> bool" where
  "inverts st s v = (good_start s \<and> (\<forall>rest n. num_end rest \<longrightarrow> 2 * length s \<le> n \<longrightarrow>
     jvalue st n (s @ rest) = Inr (v, rest)))"

lemma invertsD: "inverts st s v \<Longrightarrow> num_end rest \<Longrightarrow> 2 * length s \<le> n \<Longrightarrow>
    jvalue st n (s @ rest) = Inr (v, rest)"
  by (simp add: inverts_def)

lemma inverts_start: "inverts st s v \<Longrightarrow> good_start s"
  by (simp add: inverts_def)

lemma inverts_length: "inverts st s v \<Longrightarrow> 1 \<le> length s"
  by (cases s) (auto simp: inverts_def good_start_def)

lemma not_jws [simp]: "\<not> is_jws CHR '',''" "\<not> is_jws CHR '']''" "\<not> is_jws CHR ''}''" "\<not> is_jws CHR '':''"
  by (simp_all add: is_jws_def)

lemma jelems_join:
  assumes "xs \<noteq> []" and "\<And>x. x \<in> set xs \<Longrightarrow> inverts st (w x) x"
    and "2 * length (join (CHR '','' # gap p l) (map w xs)) < m"
  shows "jelems st m (join (CHR '','' # gap p l) (map w xs) @ nl p l' @ CHR '']'' # rest) = Inr (xs, rest)"
  using assms
proof (induction xs arbitrary: m)
  case (Cons x xs)
  then obtain k where k: "m = Suc k" by (cases m) auto
  have wx: "inverts st (w x) x" using Cons.prems(2) by simp
  show ?case
  proof (cases xs)
    case Nil
    then show ?thesis using k Cons.prems(3) by (simp add: invertsD [OF wx])
  next
    case (Cons y ys)
    have wy: "good_start (w y)" using Cons.prems(2) [of y] Cons by (simp add: inverts_start)
    let ?j = "join (CHR '','' # gap p l) (map w xs)"
    have gj: "good_start ?j" using wy Cons by (cases ys) (auto simp: good_start_append)
    have len: "2 * length (w x) \<le> k" "2 * length ?j < k"
      using Cons.prems(3) k Cons inverts_length [OF wx] by auto
    have ih: "jelems st k (?j @ nl p l' @ CHR '']'' # rest) = Inr (xs, rest)"
      using Cons.IH [of k] Cons.prems(2) len(2) Cons by simp
    have eq: "join (CHR '','' # gap p l) (map w (x # xs)) = w x @ CHR '','' # gap p l @ ?j"
      using Cons by simp
    show ?thesis
      unfolding eq k using ih len(1) gj by (simp add: invertsD [OF wx])
  qed
qed simp

lemma jpairs_join:
  assumes "d \<noteq> []" and "\<And>k v. (k, v) \<in> set d \<Longrightarrow> inverts st (w v) v"
    and "2 * length (join (CHR '','' # gap p l) (map (\<lambda>(k, v). jstr k @ colon p @ w v) d)) < m"
  shows "jpairs st m (join (CHR '','' # gap p l) (map (\<lambda>(k, v). jstr k @ colon p @ w v) d)
      @ nl p l' @ CHR ''}'' # rest) = Inr (d, rest)"
  using assms
proof (induction d arbitrary: m)
  case (Cons q d)
  obtain k v where q: "q = (k, v)" by (cases q)
  obtain n where n: "m = Suc n" using Cons.prems(3) by (cases m) auto
  have wv: "inverts st (w v) v" by (rule Cons.prems(2) [of k]) (simp add: q)
  have col: "jws (colon p @ w v @ r) = colon p @ w v @ r" for r
    by (simp add: colon_def jws_def is_jws_def)
  have col2: "has_head CHR '':'' (colon p @ w v @ r)" for r
    by (simp add: colon_def)
  have col3: "jws (tl (colon p @ w v @ r)) = w v @ r" for r
    using inverts_start [OF wv] by (cases "w v") (auto simp: colon_def jws_def is_jws_def good_start_def)
  show ?case
  proof (cases d)
    case Nil
    then show ?thesis using n q Cons.prems(3)
      by (simp add: col col2 col3 jstring_jstr invertsD [OF wv] del: jstring.simps)
  next
    case (Cons y ys)
    let ?j = "join (CHR '','' # gap p l) (map (\<lambda>(k, v). jstr k @ colon p @ w v) d)"
    have gj: "good_start ?j" using Cons by (cases ys) (auto simp: case_prod_beta good_start_jstr)
    have len: "2 * length (w v) \<le> n" "2 * length ?j < n"
      using Cons.prems(3) n q Cons inverts_length [OF wv] by auto
    have ih: "jpairs st n (?j @ nl p l' @ CHR ''}'' # rest) = Inr (d, rest)"
    proof (rule Cons.IH)
      show "d \<noteq> []" using Cons by simp
      show "inverts st (w v) v" if "(k, v) \<in> set d" for k v
        by (rule Cons.prems(2) [of k]) (use that in simp)
    qed (rule len(2))
    have eq: "join (CHR '','' # gap p l) (map (\<lambda>(k, v). jstr k @ colon p @ w v) (q # d))
        = jstr k @ colon p @ w v @ CHR '','' # gap p l @ ?j"
      using Cons q by (simp add: case_prod_beta)
    show ?thesis
      unfolding eq n using ih len(1) gj
      by (simp add: q col col2 col3 jstring_jstr invertsD [OF wv] del: jstring.simps)
  qed
qed simp

lemma jdict_distinct: "distinct (keys d) \<Longrightarrow> jdict st d = Inr (VDict d)"
  using dict_update_append [of "[]" d] by (simp add: jdict_def)

lemma inverts_int: "inverts st (jwrite p l (VInt i)) (VInt i)"
proof -
  have "good_start (jwrite p l (VInt i))" by (rule good_start_jwrite) simp
  moreover have "jvalue st n (show_int i @ rest) = Inr (VInt i, rest)"
    if "num_end rest" "2 * length (show_int i) \<le> n" for n rest
  proof (rule jvalue_show_int [OF that(1)])
    show "n \<noteq> 0" using that(2) by (cases rule: show_int_head [of i]) auto
  qed
  ultimately show ?thesis by (simp add: inverts_def)
qed

lemma inverts_str: "inverts st (jwrite p l (VStr s)) (VStr s)"
proof -
  have "good_start (jwrite p l (VStr s))" by (rule good_start_jwrite) simp
  moreover have "jvalue st n (jstr s @ rest) = Inr (VStr s, rest)"
    if len: "2 * length (jstr s) \<le> n" for n rest
  proof -
    obtain m where m: "n = Suc m" using len by (cases n) (auto simp: jstr_def)
    show ?thesis by (simp add: m jstring_jstr del: jstring.simps)
  qed
  ultimately show ?thesis by (simp add: inverts_def)
qed

lemma inverts_none: "inverts st (jwrite p l (VNone)) (VNone)"
proof -
  have "jvalue st n (''null'' @ rest) = Inr (VNone, rest)" if "8 \<le> n" for n rest
    using that by (cases n) (auto simp: jatom_def)
  then show ?thesis by (auto simp: inverts_def good_start_def is_jws_def)
qed

lemma inverts_bool: "inverts st (jwrite p l (VBool b)) (VBool b)"
proof -
  have "jvalue st n (''true'' @ rest) = Inr (VBool True, rest)" if "8 \<le> n" for n rest
    using that by (cases n) (auto simp: jatom_def)
  moreover have "jvalue st n (''false'' @ rest) = Inr (VBool False, rest)" if "10 \<le> n" for n rest
    using that by (cases n) (auto simp: jatom_def)
  ultimately show ?thesis by (auto simp: inverts_def good_start_def is_jws_def)
qed

lemma inverts_jwrite: "plain v \<Longrightarrow> inverts st (jwrite p l v) v"
proof (induction v arbitrary: l rule: plain.induct)
  case (2 xs)
  have el: "\<And>x. x \<in> set xs \<Longrightarrow> inverts st (jwrite p (Suc l) x) x" using 2 by auto
  show ?case
  proof (cases "xs = []")
    case True
    have "jvalue st n (''[]'' @ rest) = Inr (VList [], rest)" if "4 \<le> n" for n rest
      using that by (cases n) auto
    with True show ?thesis by (auto simp: inverts_def good_start_def is_jws_def)
  next
    case False
    let ?j = "join (CHR '','' # gap p (Suc l)) (map (jwrite p (Suc l)) xs)"
    have st: "good_start (jwrite p (Suc l) x)" if "x \<in> set xs" for x
      using that 2(2) by (simp add: good_start_jwrite)
    have gj: "good_start ?j"
      using st False by (cases xs; cases "tl xs") (auto simp: good_start_append)
    then have nh: "\<not> has_head CHR '']'' (?j @ r)" for r
      by (auto simp: has_head_def good_start_def)
    have "jvalue st n (jwrite p l (VList xs) @ rest) = Inr (VList xs, rest)"
      if len: "2 * length (jwrite p l (VList xs)) \<le> n" for n rest
    proof -
      obtain m where m: "n = Suc m" "2 * length ?j < m" using len False by (cases n) auto
      show ?thesis using False gj nh jelems_join [OF False el m(2), where l' = l and rest = rest] m(1)
        by simp
    qed
    then show ?thesis using good_start_jwrite [OF 2(2)] by (simp add: inverts_def)
  qed
next
  case (3 d)
  have el: "\<And>k v. (k, v) \<in> set d \<Longrightarrow> inverts st (jwrite p (Suc l) v) v" using 3 by auto
  have dist: "distinct (keys d)" using 3 by simp
  show ?case
  proof (cases "d = []")
    case True
    have "jvalue st n (''{}'' @ rest) = Inr (VDict [], rest)" if "4 \<le> n" for n rest
      using that by (cases n) (auto simp: jdict_def dict_update_def)
    with True show ?thesis by (auto simp: inverts_def good_start_def is_jws_def)
  next
    case False
    let ?j = "join (CHR '','' # gap p (Suc l)) (map (\<lambda>(k, v). jstr k @ colon p @ jwrite p (Suc l) v) d)"
    have gj: "good_start ?j"
      using False by (cases d; cases "tl d") (auto simp: case_prod_beta good_start_jstr)
    then have nh: "\<not> has_head CHR ''}'' (?j @ r)" for r
      by (auto simp: has_head_def good_start_def)
    have "jvalue st n (jwrite p l (VDict d) @ rest) = Inr (VDict d, rest)"
      if len: "2 * length (jwrite p l (VDict d)) \<le> n" for n rest
    proof -
      obtain m where m: "n = Suc m" "2 * length ?j < m" using len False by (cases n) auto
      show ?thesis using False gj nh jpairs_join [OF False el m(2), where l' = l and rest = rest] m(1) dist
        by (simp add: jdict_distinct)
    qed
    then show ?thesis using good_start_jwrite [OF 3(2)] by (simp add: inverts_def)
  qed
qed (simp_all only: inverts_int inverts_str inverts_none inverts_bool plain.simps)

section \<open>Documents\<close>

lemma jwrite_no_bom: "plain v \<Longrightarrow> \<not> prefix [CHR 0xEF, CHR 0xBB, CHR 0xBF] (jwrite p l v @ r)"
proof (cases v)
  case (VInt i)
  have "\<not> prefix [CHR 0xEF, CHR 0xBB, CHR 0xBF] (show_int i @ r)"
    by (cases rule: show_int_head [of i]) (auto simp: is_digit_def)
  then show ?thesis by (simp add: VInt)
qed (simp_all add: jstr_def)

lemma is_jws_not_num:
  assumes "is_jws c"
  shows "num_end (c # s)"
proof -
  consider "c = CHR '' ''" | "c = CHR 0x09" | "c = CHR 0x0A" | "c = CHR 0x0D"
    using assms by (auto simp: is_jws_def)
  then show ?thesis by cases (simp_all add: num_end_def is_digit_def)
qed

lemma loads_jwrite:
  assumes "plain v" and "\<forall>c \<in> set sp. is_jws c"
  shows "loads st (jwrite p l v @ sp) = Inr v"
proof -
  have num: "num_end sp"
  proof (cases sp)
    case (Cons c s)
    with assms(2) show ?thesis by (simp add: is_jws_not_num)
  qed (simp add: num_end_def)
  have "good_start (jwrite p l v)" using assms(1) by (rule good_start_jwrite)
  then have start: "jws (jwrite p l v @ sp) = jwrite p l v @ sp" by (rule jws_good0)
  have "jvalue st (2 * length (jwrite p l v @ sp) + 2) (jwrite p l v @ sp) = Inr (v, sp)"
    by (rule invertsD [OF inverts_jwrite [OF assms(1)] num]) simp
  moreover have "jws sp = []" using assms(2) by (simp add: jws_def)
  ultimately show ?thesis
    using jwrite_no_bom [OF assms(1), of p l sp] by (simp only: loads_def start if_False bindE_simps split_conv if_True simp_thms)
qed

lemma plain_canon [simp]: "plain (canon v) = plain v"
proof (induction v rule: canon.induct)
  case (2 d)
  have "keys (sort_key fst (map (\<lambda>(k, v). (k, canon v)) d)) = map fst (sort_key fst d)"
    by (simp only: sort_key_pairs keys_def) (simp add: case_prod_beta)
  then have "distinct (keys (sort_key fst (map (\<lambda>(k, v). (k, canon v)) d))) = distinct (keys d)"
    by (simp add: keys_def distinct_map)
  with 2 show ?case by auto
qed auto

lemma loads_canonical: "plain v \<Longrightarrow> loads st (canonical_json v) = Inr (canon v)"
  unfolding canonical_json_def by (rule loads_jwrite) (simp_all add: is_jws_def)

lemma loads_strict_canonical: "plain v \<Longrightarrow> loads_strict (canonical_json v) = Inr (canon v)"
  by (simp add: loads_strict_def loads_canonical)

lemma loads_compact: "plain v \<Longrightarrow> loads st (compact_json v) = Inr (canon v)"
  unfolding compact_json_def using loads_jwrite [of "canon v" "[]"] by simp

lemma loads_spaced: "plain v \<Longrightarrow> loads st (spaced_json v @ [CHR 0x0A]) = Inr (canon v)"
  unfolding spaced_json_def by (rule loads_jwrite) (simp_all add: is_jws_def)

lemma canonical_json_inj:
  assumes "plain v" and "plain w"
  shows "canonical_json v = canonical_json w \<longleftrightarrow> canon v = canon w"
proof
  assume "canonical_json v = canonical_json w"
  with loads_canonical [OF assms(1)] loads_canonical [OF assms(2)] show "canon v = canon w" by simp
qed (simp add: canonical_json_def)

lemma compact_json_inj:
  assumes "plain v" and "plain w"
  shows "compact_json v = compact_json w \<longleftrightarrow> canon v = canon w"
proof
  assume "compact_json v = compact_json w"
  with loads_compact [OF assms(1)] loads_compact [OF assms(2)] show "canon v = canon w" by simp
qed (simp add: compact_json_def)

section \<open>Tuples\<close>

text \<open>What becomes of a document with tuples once it is written: they are arrays.\<close>

fun untuple :: "val \<Rightarrow> val" where
  "untuple (VList xs) = VList (map untuple xs)"
| "untuple (VTuple xs) = VList (map untuple xs)"
| "untuple (VDict d) = VDict (map (\<lambda>(k, v). (k, untuple v)) d)"
| "untuple v = v"

lemma jwrite_untuple [simp]: "jwrite p l (untuple v) = jwrite p l v"
proof (induction p l v rule: jwrite.induct)
  case (8 p l d)
  have "jwrite p (Suc l) (untuple v) = jwrite p (Suc l) v" if "(k, v) \<in> set d" for k v
    using 8 that by (cases "d = []") auto
  then have "map (\<lambda>(k, v). jstr k @ colon p @ jwrite p (Suc l) v) (map (\<lambda>(k, v). (k, untuple v)) d)
      = map (\<lambda>(k, v). jstr k @ colon p @ jwrite p (Suc l) v) d"
    by (auto simp: case_prod_beta' comp_def)
  then show ?case by (simp only: untuple.simps jwrite.simps map_is_Nil_conv)
qed (auto simp: comp_def cong: map_cong)

lemma canon_untuple: "canon (untuple v) = untuple (canon v)"
proof (induction v rule: untuple.induct)
  case (3 d)
  then have "map (\<lambda>(k, v). (k, canon v)) (map (\<lambda>(k, v). (k, untuple v)) d)
      = map (\<lambda>(k, v). (k, untuple v)) (map (\<lambda>(k, v). (k, canon v)) d)"
    by (auto simp: case_prod_beta' comp_def)
  then show ?case by (simp only: canon.simps untuple.simps sort_key_pairs)
qed auto

lemma canonical_json_untuple: "canonical_json (untuple v) = canonical_json v"
  by (simp add: canonical_json_def canon_untuple)

lemma loads_strict_written: "plain (untuple v) \<Longrightarrow> loads_strict (canonical_json v) = Inr (canon (untuple v))"
  using loads_strict_canonical [of "untuple v"] by (simp add: canonical_json_untuple)

lemma untuple_plain: "plain v \<Longrightarrow> untuple v = v"
proof (induction v rule: plain.induct)
  case (3 d)
  then have "map (\<lambda>(k, v). (k, untuple v)) d = d" by (force intro: map_idI)
  then show ?case by simp
qed (auto intro: map_idI)

end
