(* ===== verification/JsonTotal.thy ===== *)
theory JsonTotal
  imports JsonRoundtrip
begin

text \<open>
  The reader always consumes input, so the fuel \<open>loads\<close> starts with (twice the length of
  the text and two) is never exhausted: the model's reader is total without a fuel error.
\<close>

lemma jws_length: "length (jws s) \<le> length s"
  by (simp add: jws_def length_dropWhile_le)

lemma hex4_length: "hex4 s = Some (n, r) \<Longrightarrow> length r < length s"
  by (cases s rule: hex4.cases) (auto split: option.splits)

lemma uescape_length: "uescape s = Some (t, r) \<Longrightarrow> length r < length s"
  by (auto simp: uescape_def split: option.splits if_splits list.splits prod.splits
      dest!: hex4_length)

lemma jstring_SucE:
  assumes "jstring (Suc n) (c # s) = Inr (t, r)"
  obtains "r = s"
  | u where "jstring n s = Inr (u, r)"
  | e s' t' r2 u where "s = e # s'" "uescape s' = Some (t', r2)" "jstring n r2 = Inr (u, r)"
  | e s' u where "s = e # s'" "jstring n s' = Inr (u, r)"
  using assms by (auto simp: bindE_Inr split: if_splits list.splits option.splits)

lemma jstring_length: "jstring n s = Inr (t, r) \<Longrightarrow> length r < length s"
proof (induction n arbitrary: s t)
  case 0
  then show ?case by simp
next
  case (Suc n)
  show ?case
  proof (cases s)
    case Nil
    with Suc.prems show ?thesis by simp
  next
    case (Cons c s1)
    from Suc.prems [unfolded Cons] show ?thesis
    proof (cases rule: jstring_SucE)
      case (2 u)
      with Suc.IH [OF this] Cons show ?thesis by simp
    next
      case (3 e s' t' r2 u)
      with Suc.IH [OF 3(3)] uescape_length [OF 3(2)] Cons show ?thesis by simp
    next
      case (4 e s' u)
      with Suc.IH [OF 4(2)] Cons show ?thesis by simp
    qed (simp add: Cons)
  qed
qed

lemma jstring_fuel: "length s < n \<Longrightarrow> jstring n s \<noteq> Inl no_fuel"
proof (induction n s rule: jstring.induct)
  case (3 n c s)
  show ?case
  proof (cases "c = CHR 0x22 \<or> c \<noteq> CHR 0x5C")
    case True
    then show ?thesis using 3 by (auto simp: bindE_Inl json_error_def no_fuel_def split: if_splits)
  next
    case False
    show ?thesis
    proof (cases s)
      case Nil
      with False show ?thesis by (simp add: json_error_def no_fuel_def)
    next
      case (Cons e s')
      have "uescape s' = Some (t, r) \<Longrightarrow> e = CHR ''u'' \<Longrightarrow> jstring n r \<noteq> Inl no_fuel" for t r
        using "3.IH"(1) [OF _ _ Cons] False "3.prems" Cons uescape_length [of s' t r] by auto
      moreover have "simple_escape e = Some x \<Longrightarrow> e \<noteq> CHR ''u'' \<Longrightarrow> jstring n s' \<noteq> Inl no_fuel" for x
        using "3.IH"(2) [OF _ _ Cons] False "3.prems" Cons by auto
      ultimately show ?thesis using False Cons
        by (auto simp: bindE_Inl json_error_def no_fuel_def split: option.splits)
    qed
  qed
qed (auto simp: json_error_def no_fuel_def)

lemma prefix_drop_length: "prefix p s \<Longrightarrow> p \<noteq> [] \<Longrightarrow> length (drop (length p) s) < length s"
  by (metis diff_less length_drop length_greater_0_conv prefix_bot.extremum_uniqueI)

lemma jconst_length:
  "jconst st p s = Inr (v, r) \<Longrightarrow> prefix p s \<Longrightarrow> p \<noteq> [] \<Longrightarrow> length r < length s"
  using prefix_drop_length [of p s] by (auto simp: jconst_def split: if_splits)

lemma jdigits_nonempty: "jdigits r \<noteq> [] \<Longrightarrow> r \<noteq> []"
  by (auto simp: jdigits_def)

lemma jnumber_length:
  assumes "jnumber s = Inr (v, r)"
  shows "length r < length s"
proof -
  let ?t = "drop (length (jsign s)) s"
  have ds: "jdigits ?t \<noteq> []" using assms by (auto simp: jnumber_def Let_def)
  then have t: "?t \<noteq> []" by (rule jdigits_nonempty)
  have "length (drop (length (jdigits ?t)) ?t) < length ?t" using ds t by (cases ?t) auto
  then have "length (drop (length (jdigits ?t)) ?t) < length s" by simp
  moreover have "length r \<le> length (drop (length (jdigits ?t)) ?t)"
    using assms by (auto simp: jnumber_def Let_def split: if_splits)
  ultimately show ?thesis by simp
qed

lemma jatom_length: "jatom st s = Inr (v, r) \<Longrightarrow> length r < length s"
  using prefix_drop_length [of "''null''" s] prefix_drop_length [of "''true''" s]
    prefix_drop_length [of "''false''" s]
  by (auto simp: jatom_def split: if_splits dest: jnumber_length jconst_length)

lemma jatom_fuel: "jatom st s \<noteq> Inl no_fuel"
  by (auto simp: jatom_def jconst_def jnumber_def json_error_def no_fuel_def Let_def)

lemma jdict_fuel: "jdict st ps \<noteq> Inl no_fuel"
  by (simp add: jdict_def no_fuel_def)

lemma has_head_tl: "has_head c s \<Longrightarrow> length (tl s) < length s"
  by (cases s) auto

lemma jvalue_SucE:
  assumes "jvalue st (Suc n) s = Inr (v, r)"
  obtains t c where "has_head c s" "jstring (length s) (tl s) = Inr (t, r)"
  | c d where "has_head c s" "has_head d (jws (tl s))" "r = tl (jws (tl s))"
  | c xs where "has_head c s" "jelems st n (jws (tl s)) = Inr (xs, r)"
  | c ps where "has_head c s" "jpairs st n (jws (tl s)) = Inr (ps, r)"
  | "jatom st s = Inr (v, r)"
  using assms by (auto simp: bindE_Inr Let_def split: if_splits)

lemma jelems_SucE:
  assumes "jelems st (Suc n) s = Inr (vs, r)"
  obtains v r1 where "jvalue st n s = Inr (v, r1)" "r = tl (jws r1)"
  | v r1 ws where "jvalue st n s = Inr (v, r1)" "jelems st n (jws (tl (jws r1))) = Inr (ws, r)"
  using assms by (auto simp: bindE_Inr Let_def split: if_splits)

lemma jpairs_SucE:
  assumes "jpairs st (Suc n) s = Inr (ps, r)"
  obtains k r1 v r2 where "jstring (length s) (tl s) = Inr (k, r1)"
      "jvalue st n (jws (tl (jws r1))) = Inr (v, r2)" "r = tl (jws r2)"
  | k r1 v r2 qs where "jstring (length s) (tl s) = Inr (k, r1)"
      "jvalue st n (jws (tl (jws r1))) = Inr (v, r2)"
      "jpairs st n (jws (tl (jws r2))) = Inr (qs, r)"
  using assms by (auto simp: bindE_Inr Let_def split: if_splits)

lemma jws_tl_length: "length (jws (tl s)) \<le> length s - 1" "length (tl (jws s)) \<le> length s - 1"
  using jws_length [of "tl s"] jws_length [of s] by simp_all

lemma reader_consumes:
  "(\<forall>s v r. jvalue st n s = Inr (v, r) \<longrightarrow> length r < length s)
   \<and> (\<forall>s vs r. jelems st n s = Inr (vs, r) \<longrightarrow> length r < length s)
   \<and> (\<forall>s ps r. jpairs st n s = Inr (ps, r) \<longrightarrow> length r < length s)"
proof (induction n)
  case 0
  then show ?case by simp
next
  case (Suc n)
  have V: "length r < length s" if "jvalue st n s = Inr (v, r)" for s v r using Suc that by blast
  have E: "length r < length s" if "jelems st n s = Inr (v, r)" for s v r using Suc that by blast
  have P: "length r < length s" if "jpairs st n s = Inr (v, r)" for s v r using Suc that by blast
  have "length r < length s" if "jvalue st (Suc n) s = Inr (v, r)" for s v r
    using that
  proof (cases rule: jvalue_SucE)
    case (1 t c)
    then show ?thesis using jstring_length [OF 1(2)] has_head_tl [OF 1(1)] by simp
  next
    case (2 c d)
    then show ?thesis using jws_length [of "tl s"] has_head_tl [OF 2(1)] has_head_tl [OF 2(2)] by simp
  next
    case (3 c xs)
    then show ?thesis using E [OF 3(2)] jws_length [of "tl s"] has_head_tl [OF 3(1)] by simp
  next
    case (4 c ps)
    then show ?thesis using P [OF 4(2)] jws_length [of "tl s"] has_head_tl [OF 4(1)] by simp
  next
    case 5
    then show ?thesis by (rule jatom_length)
  qed
  moreover have "length r < length s" if "jelems st (Suc n) s = Inr (vs, r)" for s vs r
    using that
  proof (cases rule: jelems_SucE)
    case (1 v r1)
    then show ?thesis using V [OF 1(1)] jws_tl_length(2) [of r1] by simp
  next
    case (2 v r1 ws)
    then show ?thesis
      using V [OF 2(1)] E [OF 2(2)] jws_tl_length(1) [of "jws r1"] jws_length [of r1] by simp
  qed
  moreover have "length r < length s" if "jpairs st (Suc n) s = Inr (ps, r)" for s ps r
    using that
  proof (cases rule: jpairs_SucE)
    case (1 k r1 v r2)
    then show ?thesis
      using jstring_length [OF 1(1)] V [OF 1(2)] jws_tl_length(1) [of "jws r1"] jws_length [of r1]
        jws_tl_length(2) [of r2] by simp
  next
    case (2 k r1 v r2 qs)
    then show ?thesis
      using jstring_length [OF 2(1)] V [OF 2(2)] P [OF 2(3)] jws_tl_length(1) [of "jws r1"]
        jws_length [of r1] jws_tl_length(1) [of "jws r2"] jws_length [of r2] by simp
  qed
  ultimately show ?case by blast
qed

lemmas jvalue_consumes = reader_consumes [THEN conjunct1, rule_format]

lemma reader_fuel:
  "(\<forall>s. 2 * length s + 1 \<le> n \<longrightarrow> jvalue st n s \<noteq> Inl no_fuel)
   \<and> (\<forall>s. 2 * length s + 2 \<le> n \<longrightarrow> jelems st n s \<noteq> Inl no_fuel)
   \<and> (\<forall>s. 2 * length s + 2 \<le> n \<longrightarrow> jpairs st n s \<noteq> Inl no_fuel)"
proof (induction n)
  case 0
  then show ?case by simp
next
  case (Suc n)
  have V: "jvalue st n s \<noteq> Inl no_fuel" if "2 * length s + 1 \<le> n" for s using Suc that by blast
  have E: "jelems st n s \<noteq> Inl no_fuel" if "2 * length s + 2 \<le> n" for s using Suc that by blast
  have P: "jpairs st n s \<noteq> Inl no_fuel" if "2 * length s + 2 \<le> n" for s using Suc that by blast
  have "jvalue st (Suc n) s \<noteq> Inl no_fuel" if len: "2 * length s + 1 \<le> Suc n" for s
  proof -
    have "jstring (length s) (tl s) \<noteq> Inl no_fuel" if "has_head c s" for c
      by (rule jstring_fuel) (use has_head_tl [OF that] in simp)
    moreover have "jelems st n (jws (tl s)) \<noteq> Inl no_fuel \<and> jpairs st n (jws (tl s)) \<noteq> Inl no_fuel"
      if "has_head c s" for c
      using E [of "jws (tl s)"] P [of "jws (tl s)"] len jws_length [of "tl s"] has_head_tl [OF that]
      by simp
    ultimately show ?thesis
      by (auto simp: bindE_Inl Let_def jatom_fuel jdict_fuel split: if_splits)
  qed
  moreover have "jelems st (Suc n) s \<noteq> Inl no_fuel" if len: "2 * length s + 2 \<le> Suc n" for s
  proof -
    have "jelems st n (jws (tl (jws r1))) \<noteq> Inl no_fuel" if "jvalue st n s = Inr (v, r1)" for v r1
      by (rule E) (use len jvalue_consumes [OF that] jws_tl_length(1) [of "jws r1"] jws_length [of r1]
        in simp)
    moreover have "jvalue st n s \<noteq> Inl no_fuel" by (rule V) (use len in simp)
    ultimately show ?thesis
      by (auto simp: bindE_Inl Let_def json_error_def no_fuel_def split: if_splits)
  qed
  moreover have "jpairs st (Suc n) s \<noteq> Inl no_fuel" if len: "2 * length s + 2 \<le> Suc n" for s
  proof -
    have "jstring (length s) (tl s) \<noteq> Inl no_fuel" if "has_head c s" for c
      by (rule jstring_fuel) (use has_head_tl [OF that] in simp)
    moreover have "jvalue st n (jws (tl (jws r1))) \<noteq> Inl no_fuel
        \<and> (\<forall>v r2. jvalue st n (jws (tl (jws r1))) = Inr (v, r2) \<longrightarrow>
             jpairs st n (jws (tl (jws r2))) \<noteq> Inl no_fuel)"
      if k: "jstring (length s) (tl s) = Inr (k, r1)" for k r1
    proof -
      have t: "length (jws (tl (jws r1))) < length s"
        using jws_tl_length(1) [of "jws r1"] jws_length [of r1] jstring_length [OF k] by simp
      have "jpairs st n (jws (tl (jws r2))) \<noteq> Inl no_fuel"
        if "jvalue st n (jws (tl (jws r1))) = Inr (v, r2)" for v r2
        by (rule P) (use t len jvalue_consumes [OF that] jws_tl_length(1) [of "jws r2"]
          jws_length [of r2] in simp)
      moreover have "jvalue st n (jws (tl (jws r1))) \<noteq> Inl no_fuel" by (rule V) (use t len in simp)
      ultimately show ?thesis by blast
    qed
    ultimately show ?thesis
      by (auto simp: bindE_Inl Let_def json_error_def no_fuel_def split: if_splits)
  qed
  ultimately show ?case by blast
qed

lemma loads_no_fuel: "loads st s \<noteq> Inl no_fuel"
proof -
  have "jvalue st (2 * length s + 2) (jws s) \<noteq> Inl no_fuel"
    using reader_fuel [of "2 * length s + 2" st] jws_length [of s] by simp
  then show ?thesis by (auto simp only: loads_def bindE_Inl json_error_def no_fuel_def split: if_splits)
qed

text \<open>\<open>loads_strict\<close> fails with a \<open>ProfileError\<close> or not at all.\<close>

lemma loads_strict_error: "loads_strict s = Inl e \<Longrightarrow> \<exists>m. e = ProfileError m"
  by (auto simp: loads_strict_def wrapE_def split: sum.splits err.splits)

end
