(* ===== verification/FileSystem.thy ===== *)
theory FileSystem
  imports Json
begin

text \<open>
  The file system and the host functions the program calls. A path is the list of its
  components from the root; a file system maps the paths of existing entries to nodes and
  hands out fresh inode numbers. Path resolution follows symbolic links, at most 40 of them
  as Linux does. Permissions do not stop a read or a write; the code's own checks on mode
  bits, owner and link count read them from the node.
\<close>

type_synonym path = "string list"

record meta =
  st_mode :: nat \<comment> \<open>the permission bits, \<open>stat.S_IMODE\<close>\<close>
  st_uid :: nat
  st_dev :: nat
  st_ino :: nat
  st_nlink :: nat

datatype node =
    NFile meta string
  | NDir meta
  | NLink meta bool path \<comment> \<open>absolute or not, components of the target\<close>
  | NOther meta

fun node_meta :: "node \<Rightarrow> meta" where
  "node_meta (NFile m c) = m"
| "node_meta (NDir m) = m"
| "node_meta (NLink m a t) = m"
| "node_meta (NOther m) = m"

fun is_dir_node :: "node \<Rightarrow> bool" where
  "is_dir_node (NDir m) = True"
| "is_dir_node _ = False"

fun is_file_node :: "node \<Rightarrow> bool" where
  "is_file_node (NFile m c) = True"
| "is_file_node _ = False"

fun is_link_node :: "node \<Rightarrow> bool" where
  "is_link_node (NLink m a t) = True"
| "is_link_node _ = False"

record fs =
  nodes :: "(path \<times> node) list"
  fresh_ino :: nat

text \<open>What the host supplies: SHA-256, the TOML reader, the home directories, the user,
  the clock, the working directory and the environment.\<close>

record host =
  sha256 :: "string \<Rightarrow> string"
  toml_loads :: "string \<Rightarrow> val option"
  home_dir :: path
  user_home :: "string \<Rightarrow> path option"
  geteuid :: "nat option"
  utc_now :: string
  cwd :: path
  environ :: "(string \<times> string) list"

definition node_at :: "fs \<Rightarrow> path \<Rightarrow> node option" where
  "node_at F p = map_of (nodes F) p"

section \<open>Resolution\<close>

fun walk :: "nat \<Rightarrow> fs \<Rightarrow> path \<Rightarrow> path \<Rightarrow> path option" where
  "walk n F cur [] = Some cur"
| "walk n F cur (p # ps) =
     (if p = ''..'' then walk n F (butlast cur) ps
      else (case node_at F (cur @ [p]) of
          None \<Rightarrow> None
        | Some (NLink m absolute target) \<Rightarrow>
            (case n of 0 \<Rightarrow> None
             | Suc k \<Rightarrow> walk k F (if absolute then [] else cur) (target @ ps))
        | Some (NDir m) \<Rightarrow> walk n F (cur @ [p]) ps
        | Some (NFile m c) \<Rightarrow> (if ps = [] then Some (cur @ [p]) else None)
        | Some (NOther m) \<Rightarrow> (if ps = [] then Some (cur @ [p]) else None)))"

text \<open>\<open>Path.resolve(strict=True)\<close>: \<open>None\<close> is an \<open>OSError\<close>.\<close>

definition resolve :: "fs \<Rightarrow> path \<Rightarrow> path option" where
  "resolve F p = walk 40 F [] p"

definition stat :: "fs \<Rightarrow> path \<Rightarrow> node option" where
  "stat F p = Option.bind (resolve F p) (node_at F)"

definition lstat :: "fs \<Rightarrow> path \<Rightarrow> node option" where
  "lstat F p =
     (if p = [] \<or> last p = ''..'' then stat F p
      else Option.bind (resolve F (butlast p)) (\<lambda>d. node_at F (d @ [last p])))"

definition exists_at :: "fs \<Rightarrow> path \<Rightarrow> bool" where
  "exists_at F p = (stat F p \<noteq> None)"

definition lexists :: "fs \<Rightarrow> path \<Rightarrow> bool" where
  "lexists F p = (lstat F p \<noteq> None)"

definition is_file :: "fs \<Rightarrow> path \<Rightarrow> bool" where
  "is_file F p = (case stat F p of Some nd \<Rightarrow> is_file_node nd | None \<Rightarrow> False)"

definition is_dir :: "fs \<Rightarrow> path \<Rightarrow> bool" where
  "is_dir F p = (case stat F p of Some nd \<Rightarrow> is_dir_node nd | None \<Rightarrow> False)"

definition is_symlink :: "fs \<Rightarrow> path \<Rightarrow> bool" where
  "is_symlink F p = (case lstat F p of Some nd \<Rightarrow> is_link_node nd | None \<Rightarrow> False)"

section \<open>Path arithmetic\<close>

definition name_of :: "path \<Rightarrow> string" where
  "name_of p = (if p = [] then [] else last p)"

definition parent :: "path \<Rightarrow> path" where
  "parent p = butlast p"

definition relative_to :: "path \<Rightarrow> path \<Rightarrow> path option" where
  "relative_to root p = (if prefix root p then Some (drop (length root) p) else None)"

text \<open>\<open>as_posix\<close> of a relative path.\<close>

definition posix :: "path \<Rightarrow> string" where
  "posix p = (if p = [] then ''.'' else join ''/'' p)"

text \<open>\<open>path.relative_to(root).as_posix()\<close> for a path below the root.\<close>

definition rel_posix :: "path \<Rightarrow> path \<Rightarrow> string" where
  "rel_posix root p = posix (drop (length root) p)"

text \<open>\<open>str\<close> of an absolute path.\<close>

definition abs_str :: "path \<Rightarrow> string" where
  "abs_str p = ''/'' @ join ''/'' p"

text \<open>
  \<open>p / s\<close> and \<open>Path(s)\<close> for a string: the components with empty ones and single dots
  dropped; an absolute string starts from the root again.
\<close>

definition parse_parts :: "string \<Rightarrow> path" where
  "parse_parts s = filter (\<lambda>w. w \<noteq> [] \<and> w \<noteq> ''.'') (split_on CHR ''/'' s)"

definition is_absolute :: "string \<Rightarrow> bool" where
  "is_absolute s = (s \<noteq> [] \<and> hd s = CHR ''/'')"

definition path_join :: "path \<Rightarrow> string \<Rightarrow> path" where
  "path_join p s = (if is_absolute s then parse_parts s else p @ parse_parts s)"

text \<open>\<open>Path(s).expanduser()\<close>: whether the result is absolute, and its components.\<close>

definition expand_home :: "host \<Rightarrow> string \<Rightarrow> (bool \<times> path) res" where
  "expand_home H s =
     (case parse_parts s of
        w # ws \<Rightarrow>
          (if is_absolute s \<or> hd w \<noteq> CHR ''~'' then Inr (is_absolute s, w # ws)
           else if w = ''~'' then Inr (True, home_dir H @ ws)
           else bindE (someE (RuntimeError ''Could not determine home directory.'') (user_home H (tl w))) (\<lambda>h.
             Inr (True, h @ ws)))
      | [] \<Rightarrow> Inr (is_absolute s, []))"

text \<open>\<open>suffix\<close> and \<open>stem\<close> of a file name: split at the last dot that is not the first
  character and not the last.\<close>

definition last_dot :: "string \<Rightarrow> nat option" where
  "last_dot s =
     (let tail = takeWhile (\<lambda>c. c \<noteq> CHR ''.'') (rev s)
      in if length tail = length s \<or> tail = [] \<or> length tail + 1 = length s then None
         else Some (length s - length tail - 1))"

definition suffix_of :: "path \<Rightarrow> string" where
  "suffix_of p = (case last_dot (name_of p) of None \<Rightarrow> [] | Some i \<Rightarrow> drop i (name_of p))"

definition stem_of :: "path \<Rightarrow> string" where
  "stem_of p = (case last_dot (name_of p) of None \<Rightarrow> name_of p | Some i \<Rightarrow> take i (name_of p))"

section \<open>Reading\<close>

definition read_bytes :: "fs \<Rightarrow> path \<Rightarrow> string res" where
  "read_bytes F p = (case stat F p of Some (NFile m c) \<Rightarrow> Inr c | _ \<Rightarrow> Inl (OSError ''read''))"

text \<open>Universal newlines: carriage returns, alone or before a line feed, become line feeds.\<close>

fun newlines_after :: "bool \<Rightarrow> string \<Rightarrow> string" where
  "newlines_after cr [] = []"
| "newlines_after cr (c # s) =
     (if c = CHR 0x0D then CHR 0x0A # newlines_after True s
      else if c = CHR 0x0A \<and> cr then newlines_after False s
      else c # newlines_after False s)"

definition newlines :: "string \<Rightarrow> string" where
  "newlines s = newlines_after False s"

definition decode_utf8 :: "string \<Rightarrow> string res" where
  "decode_utf8 b = (if utf8_valid b then Inr b else Inl UnicodeError)"

definition read_text :: "fs \<Rightarrow> path \<Rightarrow> string res" where
  "read_text F p = bindE (read_bytes F p) (\<lambda>b. bindE (decode_utf8 b) (\<lambda>t. Inr (newlines t)))"

definition children :: "fs \<Rightarrow> path \<Rightarrow> string list" where
  "children F d = map last (filter (\<lambda>q. q \<noteq> [] \<and> butlast q = d) (keys (nodes F)))"

definition iterdir :: "fs \<Rightarrow> path \<Rightarrow> string list res" where
  "iterdir F p = (case resolve F p of
       Some d \<Rightarrow> (case node_at F d of Some (NDir m) \<Rightarrow> Inr (children F d) | _ \<Rightarrow> Inl (OSError ''iterdir''))
     | None \<Rightarrow> Inl (OSError ''iterdir''))"

text \<open>
  \<open>sorted(p.rglob("*"), key=relative posix path)\<close>: the entries strictly below \<open>p\<close>, links
  listed but not followed; nothing for a path that is not a directory.
\<close>

definition below :: "fs \<Rightarrow> path \<Rightarrow> path list" where
  "below F d = map (drop (length d)) (filter (strict_prefix d) (keys (nodes F)))"

definition rglob :: "fs \<Rightarrow> path \<Rightarrow> path list" where
  "rglob F p = (case resolve F p of
       None \<Rightarrow> []
     | Some d \<Rightarrow> map (\<lambda>q. p @ q) (sort_key posix (below F d)))"

lemma prefix_rglob: "q \<in> set (rglob F p) \<Longrightarrow> prefix p q"
  by (auto simp: rglob_def split: option.splits)

section \<open>Writing\<close>

definition put_node :: "path \<Rightarrow> node \<Rightarrow> fs \<Rightarrow> fs" where
  "put_node p nd F = F\<lparr>nodes := dict_set p nd (nodes F)\<rparr>"

definition del_node :: "path \<Rightarrow> fs \<Rightarrow> fs" where
  "del_node p F = F\<lparr>nodes := dict_pop p (nodes F)\<rparr>"

lemma node_at_put [simp]: "node_at (put_node p nd F) q = (if q = p then Some nd else node_at F q)"
  by (simp add: node_at_def put_node_def)

lemma node_at_del [simp]: "node_at (del_node p F) q = (if q = p then None else node_at F q)"
  by (simp add: node_at_def del_node_def)

definition new_meta :: "host \<Rightarrow> fs \<Rightarrow> nat \<Rightarrow> meta" where
  "new_meta H F mode = \<lparr>st_mode = mode, st_uid = (case geteuid H of Some u \<Rightarrow> u | None \<Rightarrow> 0),
     st_dev = (case node_at F [] of Some nd \<Rightarrow> st_dev (node_meta nd) | None \<Rightarrow> 0),
     st_ino = fresh_ino F, st_nlink = 1\<rparr>"

text \<open>Create or replace the entry at a canonical path by a new file with a fresh inode.\<close>

definition put_file :: "host \<Rightarrow> path \<Rightarrow> string \<Rightarrow> nat \<Rightarrow> fs \<Rightarrow> fs" where
  "put_file H p c mode F =
     (put_node p (NFile (new_meta H F mode) c) F)\<lparr>fresh_ino := Suc (fresh_ino F)\<rparr>"

definition put_dir :: "host \<Rightarrow> path \<Rightarrow> nat \<Rightarrow> fs \<Rightarrow> fs" where
  "put_dir H p mode F = (put_node p (NDir (new_meta H F mode)) F)\<lparr>fresh_ino := Suc (fresh_ino F)\<rparr>"

lemma node_at_put_file [simp]:
  "node_at (put_file H p c mode F) q = (if q = p then Some (NFile (new_meta H F mode) c) else node_at F q)"
  by (simp add: node_at_def put_file_def put_node_def)

lemma node_at_put_dir [simp]:
  "node_at (put_dir H p mode F) q = (if q = p then Some (NDir (new_meta H F mode)) else node_at F q)"
  by (simp add: node_at_def put_dir_def put_node_def)

text \<open>\<open>path.mkdir(parents=True, exist_ok=True)\<close>: the missing components are created.\<close>

fun mkdirs :: "host \<Rightarrow> nat \<Rightarrow> path \<Rightarrow> path \<Rightarrow> fs \<Rightarrow> (path \<times> fs) res" where
  "mkdirs H mode cur [] F = Inr (cur, F)"
| "mkdirs H mode cur (p # ps) F =
     (case resolve F (cur @ [p]) of
        Some d \<Rightarrow>
          (case node_at F d of
             Some (NDir m) \<Rightarrow> mkdirs H mode d ps F
           | _ \<Rightarrow> Inl (OSError ''mkdir''))
      | None \<Rightarrow>
          (if node_at F (cur @ [p]) \<noteq> None \<or> p = ''..'' then Inl (OSError ''mkdir'')
           else mkdirs H mode (cur @ [p]) ps (put_dir H (cur @ [p]) mode F)))"

section \<open>Resolution where no link is in the way\<close>

text \<open>A directory tree from the root to \<open>p\<close> with no links: every proper prefix is a directory.\<close>

definition plain_dirs :: "fs \<Rightarrow> path \<Rightarrow> bool" where
  "plain_dirs F p = ((\<forall>q. strict_prefix q p \<longrightarrow> q \<noteq> [] \<longrightarrow> (\<exists>m. node_at F q = Some (NDir m)))
     \<and> ''..'' \<notin> set p)"

lemma walk_plain:
  assumes "\<And>q r. ps = q @ r \<Longrightarrow> r \<noteq> [] \<Longrightarrow> q \<noteq> [] \<Longrightarrow> \<exists>m. node_at F (cur @ q) = Some (NDir m)"
    and "''..'' \<notin> set ps" and "ps \<noteq> []"
    and "node_at F (cur @ ps) = Some nd" and "\<not> is_link_node nd"
  shows "walk n F cur ps = Some (cur @ ps)"
  using assms
proof (induction ps arbitrary: cur)
  case (Cons p ps)
  show ?case
  proof (cases "ps = []")
    case True
    then show ?thesis using Cons.prems by (cases nd) auto
  next
    case False
    obtain m where m: "node_at F (cur @ [p]) = Some (NDir m)"
      using Cons.prems(1) [of "[p]" ps] False by auto
    have "walk n F (cur @ [p]) ps = Some ((cur @ [p]) @ ps)"
    proof (rule Cons.IH)
      show "\<exists>m. node_at F ((cur @ [p]) @ q) = Some (NDir m)"
        if "ps = q @ r" "r \<noteq> []" "q \<noteq> []" for q r
        using Cons.prems(1) [of "p # q" r] that by simp
    qed (use Cons.prems False in auto)
    then show ?thesis using m False Cons.prems(2) by auto
  qed
qed simp

lemma resolve_plain:
  assumes "plain_dirs F p" and "p \<noteq> []" and "node_at F p = Some nd" and "\<not> is_link_node nd"
  shows "resolve F p = Some p"
proof -
  have "walk 40 F [] p = Some ([] @ p)"
  proof (rule walk_plain)
    show "\<exists>m. node_at F ([] @ q) = Some (NDir m)" if "p = q @ r" "r \<noteq> []" "q \<noteq> []" for q r
      using assms(1) that by (simp add: plain_dirs_def strict_prefix_def)
  qed (use assms in \<open>simp_all add: plain_dirs_def\<close>)
  then show ?thesis by (simp add: resolve_def)
qed

lemma stat_plain:
  "plain_dirs F p \<Longrightarrow> p \<noteq> [] \<Longrightarrow> node_at F p = Some nd \<Longrightarrow> \<not> is_link_node nd \<Longrightarrow> stat F p = Some nd"
  by (simp add: stat_def resolve_plain)

lemma is_file_node_eq: "is_file F p \<longleftrightarrow> (\<exists>m c. stat F p = Some (NFile m c))"
  unfolding is_file_def by (auto split: option.splits elim: is_file_node.elims)

lemma is_dir_node_eq: "is_dir F p \<longleftrightarrow> (\<exists>m. stat F p = Some (NDir m))"
  unfolding is_dir_def by (auto split: option.splits elim: is_dir_node.elims)

lemma read_bytes_file: "is_file F p \<Longrightarrow> \<exists>c. read_bytes F p = Inr c"
  by (auto simp: is_file_node_eq read_bytes_def)

end
