(* ===== verification/EngineData.thy ===== *)
theory EngineData
  imports FileSystem
begin

text \<open>
  The constants and data classes of \<open>src/agent_system/profile/cli.py\<close>, the profile
  engine. A frozen set is the list of its elements in source order; a frozen data class is
  a record. Field names that clash with other records carry a short prefix.
\<close>

section \<open>Constants\<close>

definition RENDERER_VERSION :: string where
  "RENDERER_VERSION = ''profile-renderer-v3''"

definition LOCK_VERSION :: int where
  "LOCK_VERSION = 3"

definition MANIFEST_VERSION :: int where
  "MANIFEST_VERSION = 3"

definition BASE_MANIFEST_VERSION :: int where
  "BASE_MANIFEST_VERSION = 3"

definition BASE_PIN_VERSION :: int where
  "BASE_PIN_VERSION = 3"

definition BINDING_VERSION :: int where
  "BINDING_VERSION = 3"

definition OVERLAY_VERSION :: int where
  "OVERLAY_VERSION = 2"

definition PROJECT_SKILL_IMPORTS_VERSION :: int where
  "PROJECT_SKILL_IMPORTS_VERSION = 1"

definition EVIDENCE_VERSION :: int where
  "EVIDENCE_VERSION = 2"

definition MACHINE_CONTEXT_NAME :: string where
  "MACHINE_CONTEXT_NAME = ''machine-context''"

definition REAL_HOME_PROFILE :: string where
  "REAL_HOME_PROFILE = ''real-home''"

definition PROJECT_DEFAULTS_NAME :: string where
  "PROJECT_DEFAULTS_NAME = ''project-defaults''"

definition CLIENTS :: "string list" where
  "CLIENTS = [
    ''codex'', ''qoder'', ''omp'', ''claude'']"

definition LAUNCHABLE_CLIENTS :: "string list" where
  "LAUNCHABLE_CLIENTS = [
    ''codex'', ''qoder'', ''omp'']"

definition CAPABILITY_KINDS :: "string list" where
  "CAPABILITY_KINDS = [
    ''skills'', ''mcp'', ''hooks'', ''plugins'']"

definition PROJECT_BYPASS_DIRS :: "string list" where
  "PROJECT_BYPASS_DIRS = [
    ''.agents'', ''.claude'', ''.claude-plugin'', ''.codex-plugin'', ''.codeium'', ''.codex'',
    ''.cursor'', ''.gemini'', ''.omp'', ''.qoder'', ''.vscode'', ''.windsurf'']"

definition PROJECT_BYPASS_FILES :: "string list" where
  "PROJECT_BYPASS_FILES = [
    ''AGENTS.md'', ''AGENTS.override.md'', ''CLAUDE.md'', ''CLAUDE.local.md'', ''QODER.md'',
    ''QODER.local.md'']"

definition PROJECT_BYPASS_PATHS :: "string list" where
  "PROJECT_BYPASS_PATHS = [
    ''.mcp.json'', ''mcp.json'', ''.claude/.mcp.json'', ''.claude/mcp.json'', ''.cursor/mcp.json'',
    ''.gemini/settings.json'', ''.vscode/mcp.json'', ''.windsurf/mcp_config.json'',
    ''opencode.json'']"

definition GLOBAL_CAPABILITY_PATHS :: "string list" where
  "GLOBAL_CAPABILITY_PATHS = [
    ''.agents/hooks'', ''.agents/plugins'', ''.agents/skills'', ''.claude/mcp.json'',
    ''.codeium/windsurf/mcp_config.json'', ''.codex/AGENTS.md'', ''.codex/AGENTS.override.md'',
    ''.codex/hooks'', ''.codex/hooks.json'', ''.codex/plugins'', ''.codex/skills'',
    ''.cursor/mcp.json'', ''.mcp.json'', ''.omp/AGENTS.md'', ''.omp/hooks'', ''.omp/mcp.json'',
    ''.omp/plugins'', ''.omp/skills'', ''.omp/agent/AGENTS.md'', ''.omp/agent/extensions'',
    ''.omp/agent/hooks'', ''.omp/agent/mcp.json'', ''.omp/agent/.mcp.json'',
    ''.omp/agent/plugins'', ''.omp/agent/skills'', ''.pi/agent/AGENTS.md'',
    ''.pi/agent/extensions'', ''.pi/agent/hooks'', ''.pi/agent/mcp.json'', ''.pi/agent/skills'',
    ''.qoder/AGENTS.md'', ''.qoder/QODER.md'', ''.qoder/hooks'', ''.qoder/mcp.json'',
    ''.qoder/plugins'', ''.qoder/skills'']"

definition GLOBAL_FLOOR_PATHS :: "string list" where
  "GLOBAL_FLOOR_PATHS = [
    ''.codex/AGENTS.md'', ''.qoder/AGENTS.md'']"

definition CODEX_CAPABILITY_FEATURES :: "string list" where
  "CODEX_CAPABILITY_FEATURES = [
    ''apps'', ''browser_use'', ''browser_use_external'', ''browser_use_full_cdp_access'',
    ''computer_use'', ''goals'', ''hooks'', ''image_generation'', ''in_app_browser'', ''memories'',
    ''multi_agent'', ''multi_agent_v2'', ''plugin_sharing'', ''plugins'', ''recommended_plugins'',
    ''remote_plugin'', ''skill_mcp_dependency_install'', ''skill_search'', ''tool_suggest'',
    ''workspace_dependencies'']"

definition CODEX_RUNTIME_ONLY_FEATURES :: "string list" where
  "CODEX_RUNTIME_ONLY_FEATURES = [
    ''prevent_idle_sleep'']"

definition CODEX_RUNTIME_ONLY_KEYS :: "string list" where
  "CODEX_RUNTIME_ONLY_KEYS = [
    ''approval_policy'', ''analytics'', ''approvals_reviewer'', ''cli_auth_credentials_store'',
    ''feedback'', ''desktop'', ''features'', ''history'', ''model'', ''model_reasoning_effort'',
    ''model_reasoning_summary'', ''notice'', ''sandbox_mode'', ''tool_output_token_limit'',
    ''projects'', ''tui'']"

definition CODEX_CAPABILITY_KEYS :: "string list" where
  "CODEX_CAPABILITY_KEYS = [
    ''agents'', ''apps'', ''developer_instructions'', ''hooks'', ''marketplaces'', ''mcp_servers'',
    ''model_instructions_file'', ''model_provider'', ''model_providers'', ''personality'',
    ''plugins'', ''skills'']"

definition ORCA_MANAGED_EXTENSION_NAMES :: "string list" where
  "ORCA_MANAGED_EXTENSION_NAMES = [
    ''orca-agent-status.ts'', ''orca-prefill.ts'', ''orca-titlebar-spinner.ts'']"

definition CODEX_EXPLICITLY_DISABLABLE_ROOTS :: "string list" where
  "CODEX_EXPLICITLY_DISABLABLE_ROOTS = [
    ''agents'', ''apps'', ''marketplaces'']"

definition GLOBAL_NATIVE_ROOTS :: "string list" where
  "GLOBAL_NATIVE_ROOTS = [
    ''.agents'', ''.claude'', ''.codeium'', ''.codex'', ''.config/opencode'', ''.cursor'',
    ''.gemini'', ''.omp'', ''.pi'', ''.qoder'']"

definition AMBIENT_CONFIG_ENV :: "string list" where
  "AMBIENT_CONFIG_ENV = [
    ''CODEX_ACCESS_TOKEN'', ''CODEX_API_KEY'', ''CODEX_HOME'', ''OMP_AUTH_BROKER_TOKEN'',
    ''OMP_AUTH_BROKER_URL'', ''OMP_PROFILE'', ''OPENAI_API_KEY'', ''PI_CODING_AGENT_DIR'',
    ''PI_CONFIG_DIR'', ''PI_CONFIG_FILES'', ''PI_PROFILE'', ''QODER_CONFIG_DIR'',
    ''QODER_WORKING_DIR'']"

definition OMP_AMBIENT_AUTH_ENV :: "string list" where
  "OMP_AMBIENT_AUTH_ENV = [
    ''AIAND_API_KEY'', ''AIMLAPI_API_KEY'', ''AI_GATEWAY_API_KEY'',
    ''ALIBABA_CODING_PLAN_API_KEY'', ''ALIBABA_TOKEN_PLAN_API_KEY'', ''ANTHROPIC_API_KEY'',
    ''ANTHROPIC_BASE_URL'', ''ANTHROPIC_CUSTOM_HEADERS'', ''ANTHROPIC_FOUNDRY_API_KEY'',
    ''ANTHROPIC_OAUTH_TOKEN'', ''AWS_CONFIG_FILE'', ''ANTHROPIC_SEARCH_API_KEY'',
    ''ANTHROPIC_SEARCH_BASE_URL'', ''AWS_ACCESS_KEY_ID'', ''AWS_BEARER_TOKEN_BEDROCK'',
    ''AWS_CONTAINER_AUTHORIZATION_TOKEN'', ''AWS_CONTAINER_AUTHORIZATION_TOKEN_FILE'',
    ''AWS_CONTAINER_CREDENTIALS_FULL_URI'', ''AWS_CONTAINER_CREDENTIALS_RELATIVE_URI'',
    ''AWS_EC2_METADATA_DISABLED'', ''AWS_EC2_METADATA_SERVICE_ENDPOINT'', ''AWS_PROFILE'',
    ''AWS_EC2_METADATA_SERVICE_ENDPOINT_MODE'', ''AWS_ROLE_ARN'', ''AWS_ROLE_SESSION_NAME'',
    ''AWS_SECRET_ACCESS_KEY'', ''AWS_SESSION_TOKEN'', ''AWS_SHARED_CREDENTIALS_FILE'',
    ''AWS_WEB_IDENTITY_TOKEN_FILE'', ''AZURE_OPENAI_API_KEY'', ''AZURE_OPENAI_API_VERSION'',
    ''AZURE_OPENAI_BASE_URL'', ''AZURE_OPENAI_DEPLOYMENT_NAME_MAP'', ''AZURE_OPENAI_ENDPOINT'',
    ''AZURE_OPENAI_RESOURCE_NAME'', ''BAILIAN_TOKEN_PLAN_API_KEY'', ''BASETEN_API_KEY'',
    ''BRAVE_API_KEY'', ''CEREBRAS_API_KEY'', ''CLAUDE_CODE_USE_FOUNDRY'',
    ''CLAUDE_CODE_CLIENT_CERT'', ''CLAUDE_CODE_CLIENT_KEY'', ''CLOUDFLARE_AI_GATEWAY_API_KEY'',
    ''COPILOT_GITHUB_TOKEN'', ''CLOUDSDK_CONFIG'', ''COREWEAVE_API_KEY'', ''CURSOR_ACCESS_TOKEN'',
    ''CURSOR_API_KEY'', ''DEEPSEEK_API_KEY'', ''DEVIN_API_KEY'', ''EXA_API_KEY'',
    ''FIRECRAWL_API_KEY'', ''FIREPASS_API_KEY'', ''FIREWORKS_API_KEY'', ''FUGU_BASE_URL'',
    ''FOUNDRY_BASE_URL'', ''FUGU_API_KEY'', ''GEMINI_API_KEY'', ''GITLAB_TOKEN'',
    ''GCLOUD_PROJECT'', ''GMI_API_KEY'', ''GOOGLE_API_KEY'', ''GOOGLE_APPLICATION_CREDENTIALS'',
    ''GOOGLE_CLOUD_ACCESS_TOKEN'', ''GOOGLE_CLOUD_API_KEY'', ''GOOGLE_CLOUD_LOCATION'',
    ''GOOGLE_CLOUD_PROJECT'', ''GOOGLE_CLOUD_PROJECT_ID'', ''GOOGLE_VERTEX_LOCATION'',
    ''GCP_PROJECT'', ''GROQ_API_KEY'', ''HF_TOKEN'', ''HUGGINGFACE_HUB_TOKEN'', ''JINA_API_KEY'',
    ''KAGI_API_KEY'', ''KILO_API_KEY'', ''KIMI_API_KEY'', ''KIMI_CODE_BASE_URL'',
    ''KIMI_CODE_OAUTH_HOST'', ''KIMI_OAUTH_HOST'', ''KIMI_SEARCH_API_KEY'', ''LITELLM_API_KEY'',
    ''LITELLM_BASE_URL'', ''LLAMA_CPP_API_KEY'', ''LLAMA_CPP_BASE_URL'', ''LM_STUDIO_API_KEY'',
    ''LM_STUDIO_BASE_URL'', ''META_API_KEY'', ''MINIMAX_API_KEY'', ''MINIMAX_CODE_API_KEY'',
    ''MINIMAX_CODE_CN_API_KEY'', ''MISTRAL_API_KEY'', ''MODEL_API_KEY'', ''MOONSHOT_API_KEY'',
    ''MOONSHOT_BASE_URL'', ''MOONSHOT_SEARCH_API_KEY'', ''NANO_GPT_API_KEY'', ''NOVITA_API_KEY'',
    ''NVIDIA_API_KEY'', ''NODE_EXTRA_CA_CERTS'', ''OLLAMA_API_KEY'', ''OLLAMA_CLOUD_API_KEY'',
    ''OPENCODE_API_KEY'', ''OPENAI_API_KEY'', ''OLLAMA_BASE_URL'', ''OLLAMA_HOST'',
    ''OPENAI_BASE_URL'', ''OPENAI_CODEX_OAUTH_TOKEN'', ''OPENROUTER_API_KEY'',
    ''PARALLEL_API_KEY'', ''PERPLEXITY_API_KEY'', ''PERPLEXITY_COOKIES'', ''QIANFAN_API_KEY'',
    ''QWEN_OAUTH_TOKEN'', ''QWEN_PORTAL_API_KEY'', ''SAKANA_API_KEY'', ''SILICONFLOW_API_KEY'',
    ''SILICONFLOW_CN_API_KEY'', ''SYNTHETIC_API_KEY'', ''TAVILY_API_KEY'', ''TINYFISH_API_KEY'',
    ''TOGETHER_API_KEY'', ''UMANS_AI_CODING_PLAN_API_KEY'', ''SAKANA_BASE_URL'',
    ''VENICE_API_KEY'', ''VERCEL_AI_GATEWAY_API_KEY'', ''VLLM_API_KEY'',
    ''WAFER_SERVERLESS_API_KEY'', ''WANDB_API_KEY'', ''XAI_API_KEY'', ''UMANS_WEBSEARCH_PROVIDER'',
    ''XAI_OAUTH_TOKEN'', ''XIAOMI_API_KEY'', ''XIAOMI_TOKEN_PLAN_AMS_API_KEY'',
    ''XIAOMI_TOKEN_PLAN_CN_API_KEY'', ''XIAOMI_TOKEN_PLAN_SGP_API_KEY'', ''ZAI_API_KEY'',
    ''ZENMUX_API_KEY'', ''VERTEX_LOCATION'', ''ZHIPU_API_KEY'']"

definition OMP_AMBIENT_CREDENTIAL_SUFFIXES :: "string list" where
  "OMP_AMBIENT_CREDENTIAL_SUFFIXES = [
    ''_API_KEY'', ''_ACCESS_TOKEN'', ''_OAUTH_TOKEN'', ''_BEARER_TOKEN'', ''_HUB_TOKEN'',
    ''_SECRET_ACCESS_KEY'', ''_SESSION_TOKEN'']"

definition HOST_FLOOR_TEXT :: string where
  "HOST_FLOOR_TEXT = map (char_of :: nat \<Rightarrow> char) [
    35, 32, 65, 103, 101, 110, 116, 32, 229, 174, 191, 228, 184, 187, 229, 186, 149, 229, 186, 167,
    10, 10, 45, 32, 228, 184, 154, 229, 138, 161, 230, 140, 135, 228, 187, 164, 228, 184, 142, 232,
    131, 189, 229, 138, 155, 229, 191, 133, 233, 161, 187, 231, 148, 177, 229, 189, 147, 229, 137,
    141, 32, 71, 105, 116, 32, 233, 161, 185, 231, 155, 174, 230, 152, 190, 229, 188, 143, 229,
    163, 176, 230, 152, 142, 239, 188, 155, 230, 168, 161, 230, 157, 191, 229, 143, 170, 231, 148,
    168, 228, 186, 142, 231, 148, 159, 230, 136, 144, 233, 161, 185, 231, 155, 174, 229, 134, 133,
    229, 137, 175, 230, 156, 172, 239, 188, 140, 228, 184, 141, 230, 152, 175, 232, 191, 144, 232,
    161, 140, 230, 151, 182, 230, 157, 165, 230, 186, 144, 227, 128, 130, 10, 45, 32, 229, 133,
    168, 229, 177, 128, 228, 184, 141, 229, 190, 151, 229, 144, 175, 231, 148, 168, 228, 184, 154,
    229, 138, 161, 32, 83, 107, 105, 108, 108, 115, 227, 128, 129, 77, 67, 80, 227, 128, 129, 104,
    111, 111, 107, 115, 227, 128, 129, 112, 108, 117, 103, 105, 110, 115, 227, 128, 129, 114, 117,
    108, 101, 115, 227, 128, 129, 97, 103, 101, 110, 116, 115, 227, 128, 129, 109, 97, 114, 107,
    101, 116, 112, 108, 97, 99, 101, 115, 32, 230, 136, 150, 32, 112, 114, 111, 118, 105, 100, 101,
    114, 32, 232, 166, 134, 231, 155, 150, 227, 128, 130, 10, 45, 32, 233, 161, 185, 231, 155, 174,
    233, 156, 128, 232, 166, 129, 230, 156, 172, 230, 156, 186, 229, 162, 158, 233, 135, 143, 230,
    151, 182, 239, 188, 140, 229, 191, 133, 233, 161, 187, 229, 156, 168, 233, 161, 185, 231, 155,
    174, 32, 109, 97, 110, 105, 102, 101, 115, 116, 32, 228, 184, 173, 230, 152, 190, 229, 188,
    143, 229, 133, 129, 232, 174, 184, 239, 188, 155, 228, 184, 141, 229, 190, 151, 229, 155, 160,
    231, 155, 174, 229, 189, 149, 228, 189, 141, 231, 189, 174, 232, 135, 170, 229, 138, 168, 231,
    187, 167, 230, 137, 191, 227, 128, 130, 10, 45, 32, 233, 161, 185, 231, 155, 174, 231, 188,
    186, 229, 176, 145, 32, 96, 65, 71, 69, 78, 84, 83, 46, 109, 100, 96, 32, 230, 136, 150, 32,
    96, 46, 99, 97, 112, 47, 109, 97, 110, 105, 102, 101, 115, 116, 46, 116, 111, 109, 108, 96, 32,
    230, 151, 182, 239, 188, 140, 229, 133, 136, 232, 173, 166, 229, 145, 138, 229, 134, 141, 230,
    140, 137, 231, 148, 168, 230, 136, 183, 232, 166, 129, 230, 177, 130, 231, 187, 167, 231, 187,
    173, 239, 188, 155, 228, 184, 141, 229, 190, 151, 228, 187, 142, 231, 148, 168, 230, 136, 183,
    231, 155, 174, 229, 189, 149, 232, 161, 165, 233, 189, 144, 228, 184, 154, 229, 138, 161, 232,
    131, 189, 229, 138, 155, 227, 128, 130, 10, 45, 32, 232, 174, 164, 232, 175, 129, 227, 128,
    129, 232, 191, 144, 232, 161, 140, 230, 128, 129, 228, 184, 142, 32, 85, 73, 32, 229, 129, 143,
    229, 165, 189, 229, 143, 175, 228, 187, 165, 231, 149, 153, 229, 156, 168, 231, 148, 168, 230,
    136, 183, 231, 155, 174, 229, 189, 149, 239, 188, 140, 228, 189, 134, 228, 184, 141, 229, 190,
    151, 229, 144, 145, 230, 168, 161, 229, 158, 139, 230, 179, 168, 229, 133, 165, 228, 184, 154,
    229, 138, 161, 228, 184, 138, 228, 184, 139, 230, 150, 135, 227, 128, 130, 10, 45, 32, 231,
    148, 168, 230, 136, 183, 229, 189, 147, 232, 189, 174, 230, 152, 142, 231, 161, 174, 230, 140,
    135, 228, 187, 164, 228, 184, 142, 229, 185, 179, 229, 143, 176, 229, 174, 137, 229, 133, 168,
    231, 186, 166, 230, 157, 159, 228, 188, 152, 229, 133, 136, 227, 128, 130, 10]"

definition CLIENT_EXECUTABLES :: "(string \<times> string) list" where
  "CLIENT_EXECUTABLES = [(''codex'', ''codex''), (''qoder'', ''qoder''), (''omp'', ''omp''), (''claude'', ''claude'')]"

definition CLIENT_ADAPTER_VERSION :: "(string \<times> int) list" where
  "CLIENT_ADAPTER_VERSION = [(''codex'', 8), (''omp'', 8), (''qoder'', 8), (''claude'', 1)]"

definition FORBIDDEN_CLIENT_ARGUMENTS :: "(string \<times> string list) list" where
  "FORBIDDEN_CLIENT_ARGUMENTS = [
    (''claude'', [
      ''--add-dir'', ''--agent'', ''--agents'', ''--allow-dangerously-skip-permissions'',
      ''--allowedTools'', ''--allowed-tools'', ''--append-system-prompt'', ''--bare'',
      ''--dangerously-skip-permissions'', ''--disallowedTools'', ''--disallowed-tools'',
      ''--mcp-config'', ''--permission-mode'', ''--plugin-dir'', ''--plugin-url'', ''--safe-mode'',
      ''--setting-sources'', ''--settings'', ''--strict-mcp-config'', ''--system-prompt'',
      ''--system-prompt-file'', ''--tools'']),
    (''codex'', [
      ''-c'', ''-C'', ''-p'', ''--add-dir'', ''--cd'', ''--config'', ''--profile'']),
    (''qoder'', [
      ''-w'', ''--add-dir'', ''--allowed-mcp-server-names'', ''--append-system-prompt'',
      ''--config-dir'', ''--mcp-config'', ''--plugin-dir'', ''--settings'',
      ''--strict-mcp-config'', ''--system-prompt'', ''--cwd'', ''--worktree'']),
    (''omp'', [
      ''--add-dir'', ''-e'', ''--append-system-prompt'', ''--config'', ''--extension'', ''--cwd'',
      ''--from-claude'', ''--from-codex'', ''--hook'', ''--no-skills'', ''--plugin-dir'',
      ''--trusted-extension'', ''--profile'', ''--skills'', ''--system-prompt''])]"

definition FORBIDDEN_CLIENT_ARGUMENT_PREFIXES :: "(string \<times> string list) list" where
  "FORBIDDEN_CLIENT_ARGUMENT_PREFIXES = [(''codex'', [''-c'', ''-C'', ''-p'']), (''qoder'', [''-w'']), (''omp'', [''-e'']), (''claude'', [])]"

text \<open>\<open>_is_ambient_credential_name\<close>: the variable name ends in a credential suffix.\<close>

definition is_ambient_credential_name :: "string \<Rightarrow> bool" where
  "is_ambient_credential_name nm = list_ex (\<lambda>s. suffix s nm) OMP_AMBIENT_CREDENTIAL_SUFFIXES"

section \<open>Data classes\<close>

record mcp_def =
  mcp_name :: string
  mcp_command :: string
  mcp_args :: "string list"
  mcp_env :: "(string \<times> string) list"
  mcp_source :: path

record cap_ops =
  allow :: "string list"
  deny :: "string list"
  override :: "string list"

record skill_import =
  imp_name :: string
  imp_source :: path

text \<open>\<open>extends\<close> is always \<open>None\<close> and \<open>prompt_chain\<close> always holds the one prompt.\<close>

record profile =
  p_name :: string
  p_source :: path
  p_source_root :: path
  p_chain :: "string list"
  p_prompt :: path
  p_prompt_chain :: "path list"
  p_operations :: "(string \<times> cap_ops) list"
  p_origins :: "(string \<times> (string \<times> path) list) list"
  p_skills :: "string list"
  p_mcps :: "string list"
  p_hooks :: "string list"
  p_plugins :: "string list"
  p_runtime :: "(string \<times> string) list"

record overlay_spec =
  ov_root :: path
  ov_namespace :: string
  ov_descriptor :: "path option"

record external_import =
  ext_name :: string
  ext_source :: string
  ext_digest :: string
  ext_approved :: bool
  ext_profiles :: "string list"

record project =
  pr_root :: path
  pr_manifest :: path
  pr_defaults :: path
  pr_runtime_policies :: "(string \<times> path) list"
  pr_skill_imports_manifest :: "path option"
  pr_skill_imports :: "(string \<times> skill_import) list"
  pr_profiles :: "(string \<times> profile) list"
  pr_mcps :: "(string \<times> mcp_def) list"
  pr_external_imports :: "external_import list"
  pr_overlay :: "overlay_spec option"

record rendered_file =
  rf_content :: string
  rf_mode :: nat

record launch_spec =
  ls_command :: "string list"
  ls_environment :: "(string \<times> string) list"

record auth_binding =
  ab_environment :: "(string \<times> string) list"
  ab_private_values :: "string list"

record receipt_reservation =
  rr_path :: path
  rr_descriptor :: nat
  rr_parent_device :: nat
  rr_parent_inode :: nat
  rr_device :: nat
  rr_inode :: nat

record stable_directory =
  sd_path :: path
  sd_parts :: "string list"
  sd_identities :: "(nat \<times> nat) list"

text \<open>The four capability fields of a layer, each with its directory in the store.\<close>

definition capability_fields :: "(string \<times> string) list" where
  "capability_fields =
     [(''skills'', ''skills''), (''mcps'', ''mcp''), (''hooks'', ''hooks''), (''plugins'', ''plugins'')]"

fun profile_field :: "profile \<Rightarrow> string \<Rightarrow> string list" where
  "profile_field P f =
     (if f = ''skills'' then p_skills P else if f = ''mcps'' then p_mcps P
      else if f = ''hooks'' then p_hooks P else if f = ''plugins'' then p_plugins P else [])"

end
