(* ===== verification/Validate.thy ===== *)
theory Validate
  imports EngineData
begin

text \<open>
  The engine's checks on untrusted input: key sets, identifiers, relative paths and their
  resolution inside the project, layer operations, MCP definitions and the capability store
  (\<open>_expect_keys\<close> to \<open>_load_mcp\<close> of \<open>profile/cli.py\<close>). A context argument of the source
  only labels messages and is dropped. The lemmas say what an accepted input looks like.
\<close>

section \<open>Reading documents\<close>

definition invalid :: "string \<Rightarrow> err" where
  "invalid m = ProfileError m"

definition strict_json :: "fs \<Rightarrow> path \<Rightarrow> val res" where
  "strict_json F p =
     bindE (wrapE (\<lambda>_. invalid ''invalid JSON'') (read_text F p)) loads_strict"

definition read_toml :: "host \<Rightarrow> fs \<Rightarrow> path \<Rightarrow> dict res" where
  "read_toml H F p =
     bindE (wrapE (\<lambda>_. invalid ''invalid TOML'') (read_text F p)) (\<lambda>text.
       case toml_loads H text of
         None \<Rightarrow> Inl (invalid ''invalid TOML'')
       | Some v \<Rightarrow> (case as_dict v of Some d \<Rightarrow> Inr d | None \<Rightarrow> Inl (invalid ''TOML root must be a table'')))"

definition read_nonempty_text :: "fs \<Rightarrow> path \<Rightarrow> string res" where
  "read_nonempty_text F p =
     bindE (wrapE (\<lambda>_. invalid ''must be readable UTF-8 text'') (read_text F p)) (\<lambda>t.
       if strip t = [] then Inl (invalid ''must be non-empty'') else Inr (strip t))"

section \<open>Keys and identifiers\<close>

definition expect_keys :: "dict \<Rightarrow> string list \<Rightarrow> unit res" where
  "expect_keys d expected =
     raise_if (list_minus expected (keys d) \<noteq> [] \<or> list_minus (keys d) expected \<noteq> [])
       (invalid ''keys mismatch'')"

lemma expect_keys_Inr [res_simps]: "expect_keys d ks = Inr u \<longleftrightarrow> set (keys d) = set ks"
  by (auto simp: expect_keys_def raise_if_Inr list_minus_Nil)

definition ident_char :: "char \<Rightarrow> bool" where
  "ident_char c = (is_lower c \<or> is_digit c \<or> c = CHR ''-'')"

text \<open>\<open>IDENTIFIER.fullmatch\<close> for the pattern \<open>[a-z][a-z0-9-]*\<close>.\<close>

definition is_identifier :: "string \<Rightarrow> bool" where
  "is_identifier s = (s \<noteq> [] \<and> is_lower (hd s) \<and> (\<forall>c \<in> set s. ident_char c))"

definition validate_identifier :: "val \<Rightarrow> string res" where
  "validate_identifier v = (case as_str v of
       Some s \<Rightarrow> (if is_identifier s then Inr s else Inl (invalid ''must match identifier''))
     | None \<Rightarrow> Inl (invalid ''must match identifier''))"

lemma validate_identifier_Inr [res_simps]:
  "validate_identifier v = Inr s \<longleftrightarrow> v = VStr s \<and> is_identifier s"
  by (cases v) (auto simp: validate_identifier_def)

definition identifier_list :: "val \<Rightarrow> string list res" where
  "identifier_list v = (case as_list v of
       None \<Rightarrow> Inl (invalid ''must be an array'')
     | Some xs \<Rightarrow> bindE (mapE validate_identifier xs) (\<lambda>r.
         if distinct r then Inr r else Inl (invalid ''contains duplicates'')))"

lemma identifier_list_Inr:
  "identifier_list v = Inr r \<Longrightarrow> v = VList (map VStr r) \<and> distinct r \<and> (\<forall>s \<in> set r. is_identifier s)"
proof -
  assume a: "identifier_list v = Inr r"
  then obtain xs where v: "v = VList xs" and m: "mapE validate_identifier xs = Inr r" and d: "distinct r"
    by (cases v) (auto simp: identifier_list_def bindE_Inr split: if_splits)
  have "xs = map VStr r \<and> (\<forall>s \<in> set r. is_identifier s)"
    using m by (induction xs arbitrary: r) (auto simp: bindE_Inr validate_identifier_Inr)
  with v d show ?thesis by simp
qed

section \<open>Layer operations\<close>

definition load_layer_operations :: "val \<Rightarrow> cap_ops res" where
  "load_layer_operations v = (case as_dict v of
       None \<Rightarrow> Inl (invalid ''must be a table'')
     | Some d \<Rightarrow>
         bindE (expect_keys d [''allow'', ''deny'', ''override'']) (\<lambda>_.
         bindE (identifier_list (get d ''allow'')) (\<lambda>al.
         bindE (identifier_list (get d ''deny'')) (\<lambda>de.
         bindE (identifier_list (get d ''override'')) (\<lambda>ov.
         if (\<exists>x \<in> set al. x \<in> set de \<or> x \<in> set ov) \<or> (\<exists>x \<in> set de. x \<in> set ov)
         then Inl (invalid ''names must appear in exactly one operation'')
         else Inr \<lparr>allow = al, deny = de, override = ov\<rparr>)))))"

definition wf_ops :: "cap_ops \<Rightarrow> bool" where
  "wf_ops ops \<longleftrightarrow> distinct (allow ops) \<and> distinct (deny ops) \<and> distinct (override ops)
     \<and> set (allow ops) \<inter> set (deny ops) = {} \<and> set (allow ops) \<inter> set (override ops) = {}
     \<and> set (deny ops) \<inter> set (override ops) = {}
     \<and> (\<forall>s \<in> set (allow ops) \<union> set (deny ops) \<union> set (override ops). is_identifier s)"

lemma load_layer_operations_wf: "load_layer_operations v = Inr ops \<Longrightarrow> wf_ops ops"
  by (cases v) (auto simp: load_layer_operations_def wf_ops_def bindE_Inr
      dest!: identifier_list_Inr split: if_splits)

section \<open>Relative paths\<close>

text \<open>
  \<open>_safe_relative\<close>: the parts \<open>PurePosixPath\<close> makes of the value, when the value is
  relative, already in normal form and without parent components.
\<close>

definition safe_relative :: "string \<Rightarrow> path res" where
  "safe_relative value =
     (if value = [] \<or> CHR 0x5C \<in> set value then Inl (invalid ''must be a normalized POSIX relative path'')
      else let parts = parse_parts value in
        if is_absolute value \<or> posix parts \<noteq> value
           \<or> (\<exists>w \<in> set parts. w = [] \<or> w = ''.'' \<or> w = ''..'')
        then Inl (invalid ''must be a normalized POSIX relative path'')
        else Inr parts)"

definition safe_part :: "string \<Rightarrow> bool" where
  "safe_part w \<longleftrightarrow> w \<noteq> [] \<and> w \<noteq> ''.'' \<and> w \<noteq> ''..'' \<and> CHR ''/'' \<notin> set w \<and> CHR 0x5C \<notin> set w"

lemma parse_parts_set: "w \<in> set (parse_parts s) \<Longrightarrow> CHR ''/'' \<notin> set w"
  by (auto simp: parse_parts_def dest: split_on_no_sep)

lemma set_join: "set (join sep ws) \<subseteq> set sep \<union> \<Union> (set ` set ws)"
  by (induction sep ws rule: join.induct) auto

lemma word_in_join: "w \<in> set ws \<Longrightarrow> set w \<subseteq> set (join sep ws)"
  by (induction sep ws rule: join.induct) auto

lemma parse_parts_join:
  "ws \<noteq> [] \<Longrightarrow> (\<And>w. w \<in> set ws \<Longrightarrow> safe_part w) \<Longrightarrow> parse_parts (join ''/'' ws) = ws"
  by (simp add: parse_parts_def split_on_join safe_part_def)

text \<open>What is accepted: a single dot, or non-empty parts without dots, joined by slashes.\<close>

lemma safe_relative_sound:
  assumes "safe_relative v = Inr ps"
  shows "(v = ''.'' \<and> ps = []) \<or> (ps \<noteq> [] \<and> (\<forall>w \<in> set ps. safe_part w) \<and> v = join ''/'' ps)"
proof -
  have v: "CHR 0x5C \<notin> set v" "ps = parse_parts v" "posix ps = v"
      "\<forall>w \<in> set ps. w \<noteq> [] \<and> w \<noteq> ''.'' \<and> w \<noteq> ''..''"
    using assms by (auto simp: safe_relative_def Let_def split: if_splits)
  show ?thesis
  proof (cases "ps = []")
    case True
    with v show ?thesis by (simp add: posix_def)
  next
    case False
    with v(3) have j: "v = join ''/'' ps" by (simp add: posix_def)
    have "\<forall>w \<in> set ps. safe_part w"
    proof
      fix w assume w: "w \<in> set ps"
      then have "CHR ''/'' \<notin> set w" using v(2) parse_parts_set [of w v] by simp
      moreover have "CHR 0x5C \<notin> set w" using v(1) j word_in_join [OF w, of "''/''"] by auto
      ultimately show "safe_part w" using v(4) w by (simp add: safe_part_def)
    qed
    with False j show ?thesis by blast
  qed
qed

lemma safe_relative_dot: "safe_relative ''.'' = Inr []"
  by code_simp

lemma hd_join: "w \<noteq> [] \<Longrightarrow> join sep (w # ws) \<noteq> [] \<and> hd (join sep (w # ws)) = hd w"
  by (cases ws) auto

lemma safe_relative_complete:
  assumes "ps \<noteq> []" and safe: "\<And>w. w \<in> set ps \<Longrightarrow> safe_part w"
  shows "safe_relative (join ''/'' ps) = Inr ps"
proof -
  have pp: "parse_parts (join ''/'' ps) = ps" using assms by (rule parse_parts_join)
  obtain w ws where ps: "ps = w # ws" using assms(1) by (cases ps) auto
  with safe [of w] have w0: "w \<noteq> []" "CHR ''/'' \<notin> set w" by (auto simp: safe_part_def)
  then have w: "w \<noteq> []" "hd w \<noteq> CHR ''/''" by (metis hd_in_set)+
  have "CHR 0x5C \<notin> set (join ''/'' ps)"
    using set_join [of "''/''" ps] safe by (auto simp: safe_part_def)
  moreover have "join ''/'' ps \<noteq> []" "\<not> is_absolute (join ''/'' ps)"
    using w hd_join [of w "''/''" ws] by (simp_all add: ps is_absolute_def)
  moreover have "\<not> (\<exists>w \<in> set ps. w = [] \<or> w = ''.'' \<or> w = ''..'')"
    using safe by (auto simp: safe_part_def)
  ultimately show ?thesis
    using pp assms(1) by (simp add: safe_relative_def posix_def)
qed

lemma safe_relative_Inr:
  "safe_relative v = Inr ps \<longleftrightarrow>
     (v = ''.'' \<and> ps = []) \<or> (ps \<noteq> [] \<and> (\<forall>w \<in> set ps. safe_part w) \<and> v = join ''/'' ps)"
  using safe_relative_sound [of v ps] safe_relative_complete [of ps] safe_relative_dot by blast

lemma safe_relative_parts: "safe_relative v = Inr ps \<Longrightarrow> w \<in> set ps \<Longrightarrow> safe_part w"
  by (auto simp: safe_relative_Inr)

section \<open>Resolution inside the project\<close>

definition traverses_symlink :: "fs \<Rightarrow> path \<Rightarrow> path \<Rightarrow> bool" where
  "traverses_symlink F root parts =
     list_ex (\<lambda>i. is_symlink F (root @ take i parts)) [1..<Suc (length parts)]"

definition resolve_file :: "fs \<Rightarrow> path \<Rightarrow> string \<Rightarrow> path res" where
  "resolve_file F root value =
     bindE (safe_relative value) (\<lambda>parts.
       if traverses_symlink F root parts then Inl (invalid ''must not traverse a symlink'')
       else case resolve F (root @ parts) of
         None \<Rightarrow> Inl (invalid ''does not exist'')
       | Some r \<Rightarrow> (if \<not> prefix root r \<or> \<not> is_file F r
                  then Inl (invalid ''must resolve to a regular project file'') else Inr r))"

definition resolve_directory :: "fs \<Rightarrow> path \<Rightarrow> string \<Rightarrow> path res" where
  "resolve_directory F root value =
     bindE (safe_relative value) (\<lambda>parts.
       if traverses_symlink F root parts then Inl (invalid ''must not traverse a symlink'')
       else case resolve F (root @ parts) of
         None \<Rightarrow> Inl (invalid ''does not exist'')
       | Some r \<Rightarrow> (if \<not> prefix root r \<or> \<not> is_dir F r
                  then Inl (invalid ''must resolve to a project directory'') else Inr r))"

definition require_under_cap :: "path \<Rightarrow> path \<Rightarrow> unit res" where
  "require_under_cap root p =
     raise_if (\<not> prefix (root @ [''.cap'']) p) (invalid ''must be stored under .cap'')"

definition require_directory :: "fs \<Rightarrow> path \<Rightarrow> unit res" where
  "require_directory F p =
     raise_if (is_symlink F p \<or> \<not> exists_at F p \<or> \<not> is_dir F p)
       (invalid ''must be a non-symlink directory'')"

text \<open>A path every component of which is a directory; canonical when the last one may be any
  entry but a link. Resolution returns canonical paths only.\<close>

definition dirs :: "fs \<Rightarrow> path \<Rightarrow> bool" where
  "dirs F p \<longleftrightarrow> ''..'' \<notin> set p \<and> (\<forall>q. prefix q p \<longrightarrow> q \<noteq> [] \<longrightarrow> (\<exists>m. node_at F q = Some (NDir m)))"

definition canonical :: "fs \<Rightarrow> path \<Rightarrow> bool" where
  "canonical F p \<longleftrightarrow> plain_dirs F p \<and> (p \<noteq> [] \<longrightarrow> (\<exists>nd. node_at F p = Some nd \<and> \<not> is_link_node nd))"

lemma dirs_Nil [simp]: "dirs F []"
  by (simp add: dirs_def)

lemma dirs_butlast: "dirs F p \<Longrightarrow> dirs F (butlast p)"
  by (auto simp: dirs_def dest: in_set_butlastD) (meson prefix_order.trans prefixeq_butlast)

lemma dirs_snoc: "dirs F p \<Longrightarrow> node_at F (p @ [x]) = Some (NDir m) \<Longrightarrow> x \<noteq> ''..'' \<Longrightarrow> dirs F (p @ [x])"
  by (auto simp: dirs_def)

lemma dirs_canonical: "dirs F p \<Longrightarrow> canonical F p"
  by (auto simp: dirs_def canonical_def plain_dirs_def)

lemma canonical_snoc:
  "dirs F p \<Longrightarrow> node_at F (p @ [x]) = Some nd \<Longrightarrow> \<not> is_link_node nd \<Longrightarrow> x \<noteq> ''..'' \<Longrightarrow> canonical F (p @ [x])"
  by (auto simp: dirs_def canonical_def plain_dirs_def strict_prefix_def)

lemma walk_canonical: "walk n F cur ps = Some r \<Longrightarrow> dirs F cur \<Longrightarrow> canonical F r"
proof (induction n F cur ps rule: walk.induct)
  case (2 n F cur p ps)
  show ?case
  proof (cases "p = ''..''")
    case True
    with 2 show ?thesis by (auto simp: dirs_butlast)
  next
    case False
    with "2.prems"(1) obtain nd where nd: "node_at F (cur @ [p]) = Some nd"
      by (auto split: option.splits)
    show ?thesis
      using 2 False nd
      by (cases nd) (auto split: nat.splits if_splits intro: canonical_snoc dirs_snoc)
  qed
qed (simp add: dirs_canonical)

lemma resolve_canonical: "resolve F p = Some r \<Longrightarrow> canonical F r"
  unfolding resolve_def by (rule walk_canonical) auto

lemma canonical_resolve: "canonical F p \<Longrightarrow> resolve F p = Some p"
  by (cases "p = []") (auto simp: canonical_def resolve_plain, simp add: resolve_def)

lemma canonical_stat: "canonical F p \<Longrightarrow> stat F p = node_at F p"
  by (simp add: stat_def canonical_resolve)

lemma stat_canonical: "stat F p = Some nd \<Longrightarrow> \<exists>r. resolve F p = Some r \<and> node_at F r = Some nd"
  by (auto simp: stat_def bind_eq_Some_conv)

lemma canonical_dirs: "canonical F p \<Longrightarrow> node_at F p = Some (NDir m) \<Longrightarrow> dirs F p"
  unfolding dirs_def canonical_def plain_dirs_def by (auto simp: strict_prefix_def)

lemma resolve_is_dir: "resolve F p = Some r \<Longrightarrow> is_dir F r \<Longrightarrow> r \<noteq> [] \<Longrightarrow> dirs F r"
  using resolve_canonical [of F p r] canonical_stat [of F r] canonical_dirs [of F r]
  by (auto simp: is_dir_node_eq)

lemma resolve_root_dirs: "resolve F p = Some r \<Longrightarrow> is_dir F r \<Longrightarrow> dirs F r"
  by (cases "r = []") (auto intro: resolve_is_dir)

lemma dirs_prefix: "dirs F p \<Longrightarrow> prefix q p \<Longrightarrow> dirs F q"
  unfolding dirs_def using set_mono_prefix prefix_order.trans by blast

lemma walk_dirs: "dirs F (cur @ ps) \<Longrightarrow> walk n F cur (ps @ qs) = walk n F (cur @ ps) qs"
proof (induction ps arbitrary: cur)
  case (Cons p ps)
  have c: "dirs F (cur @ [p])" by (rule dirs_prefix [OF Cons.prems]) (simp add: prefix_def)
  then obtain m where "node_at F (cur @ [p]) = Some (NDir m)" "p \<noteq> ''..''"
    by (auto simp: dirs_def)
  then show ?case using Cons.IH [of "cur @ [p]"] Cons.prems by simp
qed simp

lemma is_symlink_dirs:
  "dirs F cur \<Longrightarrow> p \<noteq> ''..'' \<Longrightarrow> is_symlink F (cur @ [p]) \<longleftrightarrow> (\<exists>m a t. node_at F (cur @ [p]) = Some (NLink m a t))"
  using canonical_resolve [OF dirs_canonical, of F cur]
  by (auto simp: is_symlink_def lstat_def split: option.splits elim: is_link_node.elims)

lemma walk_no_links:
  assumes "walk n F cur ps = Some r" and "dirs F cur" and "''..'' \<notin> set ps"
    and "\<And>i. i \<in> {1..length ps} \<Longrightarrow> \<not> is_symlink F (cur @ take i ps)"
  shows "r = cur @ ps"
  using assms
proof (induction ps arbitrary: cur)
  case (Cons p ps)
  have "\<not> is_symlink F (cur @ [p])" using Cons.prems(4) [of 1] by simp
  have p: "p \<noteq> ''..''" using Cons.prems(3) by auto
  then have nl: "\<not> (\<exists>m a t. node_at F (cur @ [p]) = Some (NLink m a t))"
    using \<open>\<not> is_symlink F (cur @ [p])\<close> is_symlink_dirs [OF Cons.prems(2)] by blast
  obtain nd where nd: "node_at F (cur @ [p]) = Some nd" using Cons.prems(1) p by (auto split: option.splits)
  show ?case
  proof (cases nd)
    case (NDir m)
    have "walk n F (cur @ [p]) ps = Some r" using Cons.prems(1) p nd NDir by simp
    moreover have "dirs F (cur @ [p])" using dirs_snoc [OF Cons.prems(2)] nd NDir p by simp
    moreover have "\<not> is_symlink F ((cur @ [p]) @ take i ps)" if "i \<in> {1..length ps}" for i
      using Cons.prems(4) [of "Suc i"] that by simp
    ultimately show ?thesis using Cons.IH [of "cur @ [p]"] Cons.prems(3) by simp
  qed (use Cons.prems(1) p nd nl in \<open>auto split: if_splits\<close>)
qed simp

text \<open>A path the project resolves is the root followed by the parts it was written with: no
  link, no parent component and no absolute path leads out of the root.\<close>

lemma no_links_resolve:
  assumes "dirs F root" and "safe_relative v = Inr parts" and "\<not> traverses_symlink F root parts"
    and "resolve F (root @ parts) = Some r"
  shows "r = root @ parts"
proof (rule walk_no_links [of 40 F root parts])
  show "walk 40 F root parts = Some r"
    using assms(4) walk_dirs [of F "[]" root 40 parts] assms(1) by (simp add: resolve_def)
  show "''..'' \<notin> set parts" using safe_relative_parts [OF assms(2)] by (auto simp: safe_part_def)
  show "\<not> is_symlink F (root @ take i parts)" if "i \<in> {1..length parts}" for i
    using assms(3) that by (auto simp: traverses_symlink_def list_ex_iff)
qed (rule assms(1))

lemma resolve_file_Inr:
  assumes "dirs F root" and "resolve_file F root v = Inr r"
  shows "\<exists>parts. safe_relative v = Inr parts \<and> r = root @ parts \<and> is_file F r \<and> canonical F r"
proof -
  obtain parts where p: "safe_relative v = Inr parts" "\<not> traverses_symlink F root parts"
      "resolve F (root @ parts) = Some r" "is_file F r"
    using assms(2) by (auto simp: resolve_file_def bindE_Inr split: if_splits option.splits)
  then show ?thesis using no_links_resolve [OF assms(1) p(1-3)] resolve_canonical [OF p(3)] by auto
qed

lemma resolve_directory_Inr:
  assumes "dirs F root" and "resolve_directory F root v = Inr r"
  shows "\<exists>parts. safe_relative v = Inr parts \<and> r = root @ parts \<and> is_dir F r \<and> canonical F r"
proof -
  obtain parts where p: "safe_relative v = Inr parts" "\<not> traverses_symlink F root parts"
      "resolve F (root @ parts) = Some r" "is_dir F r"
    using assms(2) by (auto simp: resolve_directory_def bindE_Inr split: if_splits option.splits)
  then show ?thesis using no_links_resolve [OF assms(1) p(1-3)] resolve_canonical [OF p(3)] by auto
qed

end
