(* ===== verification/Capabilities.thy ===== *)
theory Capabilities
  imports Validate
begin

text \<open>
  The capability store below \<open>.cap/capabilities\<close>: MCP definitions (\<open>_load_mcp\<close>), the shape
  of one capability's tree (\<open>_validate_capability_tree\<close>) and the comparison of the store's
  inventory with the names the project declares (\<open>_validate_capability_store\<close>). An accepted
  store holds exactly the declared names, without links or special files.
\<close>

section \<open>MCP definitions\<close>

definition nul_free :: "string \<Rightarrow> bool" where
  "nul_free s = (CHR 0x00 \<notin> set s)"

definition is_nul_free_str :: "val \<Rightarrow> bool" where
  "is_nul_free_str v = (case as_str v of Some s \<Rightarrow> nul_free s | None \<Rightarrow> False)"

definition str_of :: "val \<Rightarrow> string" where
  "str_of v = (case as_str v of Some s \<Rightarrow> s | None \<Rightarrow> [])"

lemma str_of_VStr [simp]: "str_of (VStr s) = s"
  by (simp add: str_of_def)

lemma is_nul_free_str_iff: "is_nul_free_str v \<longleftrightarrow> (\<exists>s. v = VStr s \<and> nul_free s)"
  by (cases v) (auto simp: is_nul_free_str_def)

definition load_mcp :: "fs \<Rightarrow> path \<Rightarrow> string \<Rightarrow> mcp_def res" where
  "load_mcp F p expected_name =
     bindE (strict_json F p) (\<lambda>v.
     bindE (someE (invalid ''MCP definition must be an object'') (as_dict v)) (\<lambda>d.
     bindE (expect_keys d [''version'', ''name'', ''command'', ''args'', ''env'']) (\<lambda>_.
     if get d ''version'' \<noteq> VInt 1 then Inl (invalid ''version must be 1'')
     else if get d ''name'' \<noteq> VStr expected_name then Inl (invalid ''name must equal its file name'')
     else if \<not> is_nul_free_str (get d ''command'') \<or> get d ''command'' = VStr []
       then Inl (invalid ''command must be a non-empty NUL-free string'')
     else
     bindE (someE (invalid ''args must be an array of NUL-free strings'') (as_list (get d ''args''))) (\<lambda>args.
     if \<not> list_all is_nul_free_str args
       then Inl (invalid ''args must be an array of NUL-free strings'')
     else
     bindE (someE (invalid ''env must be a string-to-string object'') (as_dict (get d ''env''))) (\<lambda>env.
     if \<not> list_all (\<lambda>(k, v). k \<noteq> [] \<and> nul_free k \<and> is_nul_free_str v) env
       then Inl (invalid ''env must be a string-to-string object'')
     else Inr \<lparr>mcp_name = expected_name, mcp_command = str_of (get d ''command''),
            mcp_args = map str_of args,
            mcp_env = dict_of (sort_key fst (map (\<lambda>(k, v). (k, str_of v)) env)), mcp_source = p\<rparr>)))))"

text \<open>What a loaded definition guarantees to the renderers: no NUL anywhere, a command.\<close>

definition wf_mcp :: "mcp_def \<Rightarrow> bool" where
  "wf_mcp m \<longleftrightarrow> mcp_command m \<noteq> [] \<and> nul_free (mcp_command m)
     \<and> (\<forall>a \<in> set (mcp_args m). nul_free a)
     \<and> (\<forall>(k, v) \<in> set (mcp_env m). k \<noteq> [] \<and> nul_free k \<and> nul_free v)
     \<and> distinct (keys (mcp_env m))"

lemma load_mcp_wf:
  assumes "load_mcp F p n = Inr m"
  shows "wf_mcp m \<and> mcp_name m = n \<and> mcp_source m = p"
proof -
  obtain d args env where d: "is_nul_free_str (get d ''command'')" "get d ''command'' \<noteq> VStr []"
      "list_all is_nul_free_str args" "list_all (\<lambda>(k, v). k \<noteq> [] \<and> nul_free k \<and> is_nul_free_str v) env"
    and m: "m = \<lparr>mcp_name = n, mcp_command = str_of (get d ''command''), mcp_args = map str_of args,
      mcp_env = dict_of (sort_key fst (map (\<lambda>(k, v). (k, str_of v)) env)), mcp_source = p\<rparr>"
    using assms by (auto simp: load_mcp_def res_simps split: if_splits)
  obtain c where c: "get d ''command'' = VStr c" "nul_free c" "c \<noteq> []"
    using d(1,2) by (auto simp: is_nul_free_str_iff)
  have "distinct (keys (mcp_env m))" by (simp add: m)
  moreover have "\<forall>(k, v) \<in> set (mcp_env m). k \<noteq> [] \<and> nul_free k \<and> nul_free v"
    using d(4) by (fastforce simp: m list_all_iff is_nul_free_str_iff dest: set_dict_of)
  moreover have "\<forall>a \<in> set (mcp_args m). nul_free a"
    using d(3) by (auto simp: m list_all_iff is_nul_free_str_iff)
  ultimately show ?thesis using c by (simp add: wf_mcp_def m)
qed

section \<open>Capability trees\<close>

definition unsupported_entry :: "fs \<Rightarrow> path \<Rightarrow> bool" where
  "unsupported_entry F q = (is_symlink F q \<or> \<not> (is_file F q \<or> is_dir F q))"

definition validate_target :: "fs \<Rightarrow> string \<Rightarrow> path \<Rightarrow> unit res" where
  "validate_target F kind target =
     bindE (require_directory F target) (\<lambda>_.
     bindE (iterdir F target) (\<lambda>direct.
     if sorted_set direct \<noteq> [kind] then Inl (invalid ''target must contain only its namespace'')
     else bindE (require_directory F (target @ [kind])) (\<lambda>_.
       raise_if (\<not> list_ex (is_file F) (rglob F (target @ [kind]))) (invalid ''target is empty''))))"

definition validate_capability_tree :: "fs \<Rightarrow> string \<Rightarrow> path \<Rightarrow> unit res" where
  "validate_capability_tree F kind capability =
     (let entries = rglob F capability in
      if list_ex (unsupported_entry F) entries
        then Inl (invalid ''capability tree contains unsupported entry'')
      else if kind = ''skills'' then
        (if \<not> is_file F (capability @ [''SKILL.md'']) then Inl (invalid ''skill capability lacks SKILL.md'')
         else raise_if (\<not> list_ex (is_file F) entries) (invalid ''skill capability is empty''))
      else
        bindE (iterdir F capability) (\<lambda>direct.
        if sorted_set direct \<noteq> [''targets''] then Inl (invalid ''capability must contain only targets/'')
        else let targets = capability @ [''targets''] in
        bindE (require_directory F targets) (\<lambda>_.
        bindE (iterdir F targets) (\<lambda>target_names.
        if target_names = [] \<or> \<not> set target_names \<subseteq> set CLIENTS
          then Inl (invalid ''targets must be a non-empty subset of the clients'')
        else forE (\<lambda>t. validate_target F kind (targets @ [t])) target_names))))"

text \<open>No entry of an accepted tree is a link or a special file, and for a skill the entry
  point exists.\<close>

lemma validate_capability_tree_safe:
  "validate_capability_tree F kind c = Inr u \<Longrightarrow> q \<in> set (rglob F c) \<Longrightarrow>
     \<not> is_symlink F q \<and> (is_file F q \<or> is_dir F q)"
  by (auto simp: validate_capability_tree_def Let_def unsupported_entry_def list_ex_iff
      split: if_splits)

lemma validate_capability_tree_skill:
  "validate_capability_tree F ''skills'' c = Inr u \<Longrightarrow> is_file F (c @ [''SKILL.md''])"
  by (simp add: validate_capability_tree_def Let_def split: if_splits)

lemma validate_capability_tree_targets:
  assumes "validate_capability_tree F kind c = Inr u" and "kind \<noteq> ''skills''"
  shows "\<exists>ts. iterdir F (c @ [''targets'']) = Inr ts \<and> ts \<noteq> [] \<and> set ts \<subseteq> set CLIENTS
     \<and> (\<forall>t \<in> set ts. \<exists>q \<in> set (rglob F (c @ [''targets'', t, kind])). is_file F q)"
  using assms
  by (auto simp: validate_capability_tree_def Let_def bindE_Inr forE_Inr validate_target_def
      raise_if_Inr list_ex_iff split: if_splits)

section \<open>The store\<close>

type_synonym expected = "(string \<times> string list) list"

definition expected_of :: "expected \<Rightarrow> string \<Rightarrow> string list" where
  "expected_of e kind = (case map_of e kind of Some ns \<Rightarrow> ns | None \<Rightarrow> [])"

definition mcp_entry :: "fs \<Rightarrow> path \<Rightarrow> string \<Rightarrow> (string \<times> mcp_def) res" where
  "mcp_entry F kind_root nm =
     (let p = kind_root @ [nm] in
      if is_symlink F p \<or> \<not> is_file F p \<or> suffix_of p \<noteq> ''.json''
        then Inl (invalid ''mcp store contains invalid entry'')
      else bindE (validate_identifier (VStr (stem_of p))) (\<lambda>n.
        bindE (load_mcp F p n) (\<lambda>m. Inr (n, m))))"

definition tree_entry :: "fs \<Rightarrow> string \<Rightarrow> path \<Rightarrow> string \<Rightarrow> string res" where
  "tree_entry F kind kind_root nm =
     (let p = kind_root @ [nm] in
      if is_symlink F p \<or> \<not> is_dir F p then Inl (invalid ''store contains invalid entry'')
      else bindE (validate_identifier (VStr nm)) (\<lambda>n.
        bindE (validate_capability_tree F kind p) (\<lambda>_. Inr n)))"

definition check_inventory :: "string list \<Rightarrow> string list \<Rightarrow> unit res" where
  "check_inventory actual expected =
     raise_if (sorted_set actual \<noteq> sorted_set expected) (invalid ''inventory mismatch'')"

definition validate_kind :: "fs \<Rightarrow> path \<Rightarrow> expected \<Rightarrow> (string \<times> mcp_def) list \<Rightarrow> string
    \<Rightarrow> (string \<times> mcp_def) list res" where
  "validate_kind F base e mcps kind =
     (let kind_root = base @ [kind] in
      if \<not> exists_at F kind_root then
        (if is_symlink F kind_root \<or> expected_of e kind \<noteq> []
         then bindE (require_directory F kind_root) (\<lambda>_. Inr mcps) else Inr mcps)
      else
        bindE (require_directory F kind_root) (\<lambda>_.
        bindE (iterdir F kind_root) (\<lambda>items.
        if kind = ''mcp'' then
          bindE (mapE (mcp_entry F kind_root) (sort items)) (\<lambda>ms.
          bindE (check_inventory (keys ms) (expected_of e kind)) (\<lambda>_. Inr (dict_update mcps ms)))
        else
          bindE (mapE (tree_entry F kind kind_root) (sort items)) (\<lambda>ns.
          bindE (check_inventory ns (expected_of e kind)) (\<lambda>_. Inr mcps)))))"

definition validate_capability_store :: "fs \<Rightarrow> path \<Rightarrow> expected \<Rightarrow> (string \<times> mcp_def) list res" where
  "validate_capability_store F root e =
     (let base = root @ [''.cap'', ''capabilities''] in
      bindE (require_directory F base) (\<lambda>_.
      bindE (iterdir F base) (\<lambda>cs.
      if list_minus cs CAPABILITY_KINDS \<noteq> []
         \<or> filter (\<lambda>k. expected_of e k \<noteq> []) (list_minus CAPABILITY_KINDS cs) \<noteq> []
        then Inl (invalid ''capability store kinds mismatch'')
      else foldE (validate_kind F base e) [] CAPABILITY_KINDS)))"

text \<open>The names of one kind in the store.\<close>

definition store_names :: "fs \<Rightarrow> path \<Rightarrow> string \<Rightarrow> string list" where
  "store_names F base kind =
     (case iterdir F (base @ [kind]) of
        Inr items \<Rightarrow> (if kind = ''mcp'' then map (\<lambda>n. stem_of (base @ [kind, n])) items else items)
      | Inl _ \<Rightarrow> [])"

lemma sorted_set_eq_iff: "sorted_set xs = sorted_set ys \<longleftrightarrow> set xs = set ys"
  by (metis set_sorted_set sorted_set_unique)

lemma check_inventory_Inr [res_simps]: "check_inventory a e = Inr u \<longleftrightarrow> set a = set e"
  by (simp add: check_inventory_def raise_if_Inr sorted_set_eq_iff)

lemma mcp_entry_name:
  "mcp_entry F r nm = Inr (n, m) \<Longrightarrow> n = stem_of (r @ [nm]) \<and> is_identifier n \<and> wf_mcp m \<and> mcp_name m = n"
  by (auto simp: mcp_entry_def Let_def bindE_Inr validate_identifier_Inr dest: load_mcp_wf split: if_splits)

lemma tree_entry_name:
  "tree_entry F k r nm = Inr n \<Longrightarrow> n = nm \<and> is_identifier n \<and> validate_capability_tree F k (r @ [nm]) = Inr ()"
  by (auto simp: tree_entry_def Let_def bindE_Inr validate_identifier_Inr split: if_splits)

lemma mapE_map: "mapE f xs = Inr ys \<Longrightarrow> (\<And>x y. f x = Inr y \<Longrightarrow> g y = h x) \<Longrightarrow> map g ys = map h xs"
  by (rule mapE_id) auto

lemma validate_kind_exact:
  assumes "validate_kind F base e mcps kind = Inr r"
  shows "set (store_names F base kind) = set (expected_of e kind)"
proof (cases "exists_at F (base @ [kind])")
  case False
  then have "iterdir F (base @ [kind]) = Inl (OSError ''iterdir'')"
    by (auto simp: exists_at_def stat_def iterdir_def split: option.splits)
  moreover have "expected_of e kind = []"
    using assms False
    by (auto simp: validate_kind_def Let_def bindE_Inr require_directory_def raise_if_Inr split: if_splits)
  ultimately show ?thesis by (simp add: store_names_def)
next
  case True
  then obtain items where items: "iterdir F (base @ [kind]) = Inr items"
    using assms by (auto simp: validate_kind_def Let_def bindE_Inr)
  show ?thesis
  proof (cases "kind = ''mcp''")
    case mcp: True
    then obtain ms where ms: "mapE (mcp_entry F (base @ [kind])) (sort items) = Inr ms"
        "set (keys ms) = set (expected_of e kind)"
      using assms True items by (auto simp: validate_kind_def Let_def bindE_Inr check_inventory_Inr)
    from ms(1) have "map fst ms = map (\<lambda>n. stem_of (base @ [kind, n])) (sort items)"
      by (rule mapE_map) (auto dest: mcp_entry_name)
    with ms(2) have "set (map (\<lambda>n. stem_of (base @ [kind, n])) (sort items)) = set (expected_of e kind)"
      by (simp add: keys_def)
    then show ?thesis using items mcp by (simp add: store_names_def)
  next
    case tree: False
    then obtain ns where ns: "mapE (tree_entry F kind (base @ [kind])) (sort items) = Inr ns"
        "set ns = set (expected_of e kind)"
      using assms True items by (auto simp: validate_kind_def Let_def bindE_Inr check_inventory_Inr)
    from ns(1) have "map id ns = map id (sort items)"
      by (rule mapE_map) (auto dest: tree_entry_name)
    with ns(2) show ?thesis using items tree by (simp add: store_names_def)
  qed
qed

text \<open>An accepted store holds, kind by kind, exactly the expected names.\<close>

lemma validate_capability_store_exact:
  assumes "validate_capability_store F root e = Inr mcps" and "kind \<in> set CAPABILITY_KINDS"
  shows "set (store_names F (root @ [''.cap'', ''capabilities'']) kind) = set (expected_of e kind)"
proof -
  have "foldE (validate_kind F (root @ [''.cap'', ''capabilities'']) e) [] CAPABILITY_KINDS = Inr mcps"
    using assms(1) by (auto simp: validate_capability_store_def Let_def bindE_Inr split: if_splits)
  from foldE_step [OF this assms(2)] show ?thesis using validate_kind_exact by blast
qed

text \<open>Every MCP definition the store returns is well-formed and goes by its own name.\<close>

lemma validate_kind_mcps:
  assumes "validate_kind F base e mcps kind = Inr r" and "(n, m) \<in> set r"
  shows "(n, m) \<in> set mcps \<or> (wf_mcp m \<and> mcp_name m = n \<and> is_identifier n)"
proof (cases "kind = ''mcp'' \<and> r \<noteq> mcps")
  case True
  then obtain ms items where ms: "mapE (mcp_entry F (base @ [kind])) (sort items) = Inr ms"
      "r = dict_update mcps ms"
    using assms(1) by (auto simp: validate_kind_def Let_def bindE_Inr split: if_splits)
  from dict_update_set [OF assms(2) [unfolded ms(2)]] show ?thesis
    using mapE_elem [OF ms(1)] by (auto dest: mcp_entry_name)
next
  case False
  then have "r = mcps" using assms(1) by (auto simp: validate_kind_def Let_def bindE_Inr split: if_splits)
  with assms(2) show ?thesis by simp
qed

lemma validate_capability_store_mcps:
  assumes "validate_capability_store F root e = Inr mcps"
  shows "\<forall>(n, m) \<in> set mcps. wf_mcp m \<and> mcp_name m = n \<and> is_identifier n"
proof -
  have "foldE (validate_kind F (root @ [''.cap'', ''capabilities'']) e) [] CAPABILITY_KINDS = Inr mcps"
    using assms by (auto simp: validate_capability_store_def Let_def bindE_Inr split: if_splits)
  then show ?thesis
    by (rule foldE_invariant) (auto dest: validate_kind_mcps)
qed

end
