(* ===== verification/ProjectLoad.thy ===== *)
theory ProjectLoad
  imports Capabilities
begin

text \<open>
  \<open>load_project\<close> of \<open>profile/cli.py\<close>: the manifest, the runtime policies, the project
  defaults with their external imports, the project's own skill imports, the role definitions
  of the project and of an optional private overlay, the resolution of each role against the
  defaults, and the check of the capability stores. A resolved closure is
  \<open>(defaults - deny - override) + override + allow\<close>.
\<close>

section \<open>External and project skill imports\<close>

definition is_sha256_digest :: "string \<Rightarrow> bool" where
  "is_sha256_digest s =
     (prefix ''sha256:'' s \<and> length s = 71 \<and> list_all is_hex_lower (drop 7 s))"

definition load_external_import :: "val \<Rightarrow> external_import res" where
  "load_external_import v =
     bindE (someE (invalid ''must be a table'') (as_dict v)) (\<lambda>d.
     bindE (expect_keys d [''name'', ''source'', ''digest'', ''approved'', ''profiles'']) (\<lambda>_.
     bindE (validate_identifier (get d ''name'')) (\<lambda>nm.
     if \<not> is_str (get d ''source'') \<or> strip (str_of (get d ''source'')) = []
       then Inl (invalid ''source must be non-empty'')
     else if \<not> is_str (get d ''digest'') \<or> \<not> is_sha256_digest (str_of (get d ''digest''))
       then Inl (invalid ''digest must be a sha256 digest'')
     else if \<not> is_bool (get d ''approved'') then Inl (invalid ''approved must be boolean'')
     else
     bindE (identifier_list (get d ''profiles'')) (\<lambda>ps.
     Inr \<lparr>ext_name = nm, ext_source = str_of (get d ''source''), ext_digest = str_of (get d ''digest''),
          ext_approved = (get d ''approved'' = VBool True), ext_profiles = ps\<rparr>))))"

definition load_external_imports :: "val \<Rightarrow> external_import list res" where
  "load_external_imports v =
     bindE (someE (invalid ''must be an array'') (as_list v)) (mapE load_external_import)"

definition load_skill_import ::
    "fs \<Rightarrow> path \<Rightarrow> (string \<times> skill_import) list \<Rightarrow> val \<Rightarrow> (string \<times> skill_import) list res" where
  "load_skill_import F root imports v =
     bindE (someE (invalid ''must be a table'') (as_dict v)) (\<lambda>d.
     bindE (expect_keys d [''name'', ''source'']) (\<lambda>_.
     bindE (validate_identifier (get d ''name'')) (\<lambda>nm.
     bindE (someE (invalid ''source must be a path string'') (as_str (get d ''source''))) (\<lambda>src.
     bindE (resolve_directory F root src) (\<lambda>source.
     if prefix (root @ [''.cap'']) source then Inl (invalid ''source must be outside .cap'')
     else if name_of source \<noteq> nm then Inl (invalid ''source directory must match'')
     else
     bindE (validate_capability_tree F ''skills'' source) (\<lambda>_.
     if nm \<in> set (keys imports) then Inl (invalid ''project Skill import is duplicated'')
     else Inr (dict_set nm \<lparr>imp_name = nm, imp_source = source\<rparr> imports)))))))"

definition load_project_skill_imports ::
    "host \<Rightarrow> fs \<Rightarrow> path \<Rightarrow> path \<Rightarrow> (string \<times> skill_import) list res" where
  "load_project_skill_imports H F root manifest_path =
     bindE (read_toml H F manifest_path) (\<lambda>data.
     bindE (expect_keys data [''version'', ''imports'']) (\<lambda>_.
     if get data ''version'' \<noteq> VInt PROJECT_SKILL_IMPORTS_VERSION then Inl (invalid ''version must be 1'')
     else
     bindE (someE (invalid ''imports must be an array'') (as_list (get data ''imports''))) (\<lambda>raw.
     foldE (load_skill_import F root) [] raw)))"

section \<open>The overlay\<close>

definition load_overlay_spec :: "host \<Rightarrow> fs \<Rightarrow> path \<Rightarrow> path option \<Rightarrow> overlay_spec option res" where
  "load_overlay_spec H F root private_overlay = (case private_overlay of
       None \<Rightarrow> Inr None
     | Some p \<Rightarrow>
         bindE (someE (OSError ''private overlay'') (resolve F p)) (\<lambda>overlay_root.
         if \<not> is_dir F overlay_root \<or> overlay_root = root
           then Inl (invalid ''private overlay must be a distinct directory'')
         else let descriptor = overlay_root @ [''.cap'', ''overlay.toml''] in
           if exists_at F descriptor then
             bindE (read_toml H F descriptor) (\<lambda>data.
             bindE (expect_keys data [''version'', ''namespace'']) (\<lambda>_.
             if get data ''version'' \<noteq> VInt OVERLAY_VERSION then Inl (invalid ''private overlay.version'')
             else
             bindE (validate_identifier (get data ''namespace'')) (\<lambda>ns.
             Inr (Some \<lparr>ov_root = overlay_root, ov_namespace = ns, ov_descriptor = Some descriptor\<rparr>))))
           else Inr (Some \<lparr>ov_root = overlay_root, ov_namespace = ''private'', ov_descriptor = None\<rparr>)))"

section \<open>Runtime policies\<close>

definition load_runtime_policy :: "host \<Rightarrow> fs \<Rightarrow> path \<Rightarrow> dict \<Rightarrow> string \<Rightarrow> (string \<times> path) res" where
  "load_runtime_policy H F root raw_runtime client =
     bindE (someE (invalid ''manifest.runtime must be a path string'') (as_str (get raw_runtime client))) (\<lambda>src.
     bindE (resolve_file F root src) (\<lambda>p.
     bindE (require_under_cap root p) (\<lambda>_.
     bindE (read_toml H F p) (\<lambda>data.
     bindE (expect_keys data [''version'', ''client'', ''policy'']) (\<lambda>_.
     if get data ''version'' \<noteq> VInt 1 then Inl (invalid ''version must be 1'')
     else if get data ''client'' \<noteq> VStr client \<or> \<not> is_dict (get data ''policy'')
       then Inl (invalid ''must target its client and contain a table'')
     else Inr (client, p))))))"

definition load_runtime_policies :: "host \<Rightarrow> fs \<Rightarrow> path \<Rightarrow> val \<Rightarrow> (string \<times> path) list res" where
  "load_runtime_policies H F root v =
     bindE (someE (invalid ''manifest.runtime must be a table'') (as_dict v)) (\<lambda>raw.
     if raw = [] then Inl (invalid ''manifest.runtime must declare at least one client'')
     else if list_minus (keys raw) CLIENTS \<noteq> [] then Inl (invalid ''manifest.runtime declares unknown clients'')
     else mapE (load_runtime_policy H F root raw) (sorted_set (keys raw)))"

section \<open>Role definitions\<close>

record prof_def =
  pd_source :: path
  pd_source_root :: path
  pd_prompt :: path
  pd_runtime :: "(string \<times> string) list"
  pd_operations :: "(string \<times> cap_ops) list"

definition load_operations :: "dict \<Rightarrow> (string \<times> cap_ops) list res" where
  "load_operations data =
     mapE (\<lambda>(field, _). bindE (load_layer_operations (get data field)) (\<lambda>ops. Inr (field, ops)))
       capability_fields"

definition load_definition :: "host \<Rightarrow> fs \<Rightarrow> path \<Rightarrow> string \<times> val \<Rightarrow> (string \<times> prof_def) res" where
  "load_definition H F source_root entry = (case entry of (nm, raw_path) \<Rightarrow>
     bindE (validate_identifier (VStr nm)) (\<lambda>_.
     bindE (someE (invalid ''profile must be a path string'') (as_str raw_path)) (\<lambda>rel.
     bindE (resolve_file F source_root rel) (\<lambda>source.
     bindE (require_under_cap source_root source) (\<lambda>_.
     bindE (read_toml H F source) (\<lambda>data.
     bindE (expect_keys data ([''version'', ''prompt'', ''runtime''] @ keys capability_fields)) (\<lambda>_.
     if get data ''version'' \<noteq> VInt 3 then Inl (invalid ''profile version must be 3'')
     else
     bindE (someE (invalid ''profile prompt must be a path string'') (as_str (get data ''prompt''))) (\<lambda>raw_prompt.
     bindE (resolve_file F source_root raw_prompt) (\<lambda>prompt.
     bindE (require_under_cap source_root prompt) (\<lambda>_.
     bindE (someE (invalid ''profile runtime must declare at least one client'') (as_dict (get data ''runtime''))) (\<lambda>rt.
     if rt = [] then Inl (invalid ''profile runtime must declare at least one client'')
     else if list_minus (keys rt) CLIENTS \<noteq> [] then Inl (invalid ''profile runtime declares unknown clients'')
     else if \<not> list_all (\<lambda>(_, v). is_str v) rt then Inl (invalid ''profile runtime must be a string'')
     else
     bindE (load_operations data) (\<lambda>ops.
     Inr (nm, \<lparr>pd_source = source, pd_source_root = source_root, pd_prompt = prompt,
               pd_runtime = dict_of (sort_key fst (map (\<lambda>(k, v). (k, str_of v)) rt)),
               pd_operations = ops\<rparr>)))))))))))))"

text \<open>What a layer of operations expects to find in its store: project skill imports live
  outside it.\<close>

definition ops_of :: "(string \<times> cap_ops) list \<Rightarrow> string \<Rightarrow> cap_ops" where
  "ops_of ops field = (case map_of ops field of
       Some x \<Rightarrow> x | None \<Rightarrow> \<lparr>allow = [], deny = [], override = []\<rparr>)"

definition add_expected :: "string list \<Rightarrow> (string \<times> cap_ops) list \<Rightarrow> expected \<Rightarrow> expected" where
  "add_expected imported ops e =
     map (\<lambda>(field, kind).
       let names = allow (ops_of ops field) @ override (ops_of ops field);
           names' = (if kind = ''skills'' then list_minus names imported else names)
       in (kind, expected_of e kind @ names')) capability_fields"

text \<open>\<open>load_definitions\<close>: a private definition replaces a public one of the same name.\<close>

type_synonym load_state = "(string \<times> prof_def) list \<times> expected"

definition load_definitions ::
    "host \<Rightarrow> fs \<Rightarrow> string list \<Rightarrow> path \<Rightarrow> val \<Rightarrow> bool \<Rightarrow> load_state \<Rightarrow> load_state res" where
  "load_definitions H F imported source_root raw_profiles private st =
     bindE (someE (invalid ''profiles must be a non-empty table'') (as_dict raw_profiles)) (\<lambda>raw.
     if raw = [] then Inl (invalid ''profiles must be a non-empty table'')
     else foldE (\<lambda>(defs, e) entry.
       bindE (validate_identifier (VStr (fst entry))) (\<lambda>_.
       if fst entry \<in> set (keys defs) \<and> \<not> private
         then Inl (invalid ''profile name is duplicated across layers'')
       else
       bindE (load_definition H F source_root entry) (\<lambda>(nm, d).
         Inr (dict_set nm d defs, add_expected imported (pd_operations d) e)))) st (sort_key fst raw))"

section \<open>Resolving a role\<close>

definition capability_origin ::
    "(string \<times> skill_import) list \<Rightarrow> string \<Rightarrow> string \<Rightarrow> path \<Rightarrow> path" where
  "capability_origin imports field nm source_root =
     (case (if field = ''skills'' then map_of imports nm else None) of
        Some i \<Rightarrow> imp_source i
      | None \<Rightarrow>
          (let kind = (case map_of capability_fields field of Some k \<Rightarrow> k | None \<Rightarrow> field);
               base = source_root @ [''.cap'', ''capabilities'', kind]
           in if kind = ''mcp'' then base @ [nm @ ''.json''] else base @ [nm]))"

definition resolve_field ::
    "path \<Rightarrow> (string \<times> skill_import) list \<Rightarrow> string list \<Rightarrow> path \<Rightarrow> string \<Rightarrow> cap_ops
     \<Rightarrow> (string list \<times> (string \<times> path) list) res" where
  "resolve_field root imports defaults_allow source_root field ops =
     (let inherited = sorted_set defaults_allow;
          origins0 = map (\<lambda>c. (c, capability_origin imports field c root)) inherited
      in if list_minus (override ops) inherited \<noteq> [] then Inl (invalid ''override is not inherited'')
      else if \<not> list_all (\<lambda>c. c \<notin> set inherited) (allow ops)
        then Inl (invalid ''allow conflicts with project defaults'')
      else
        let kept = list_minus (list_minus inherited (deny ops)) (override ops);
            origins1 = foldl (\<lambda>os c. dict_pop c os) origins0 (deny ops);
            origins2 = foldl (\<lambda>os c. dict_set c (capability_origin imports field c source_root) os)
                         origins1 (override ops @ allow ops)
        in Inr (sorted_set (kept @ override ops @ allow ops), origins2))"

definition resolve_profile ::
    "path \<Rightarrow> (string \<times> skill_import) list \<Rightarrow> (string \<times> cap_ops) list \<Rightarrow> string \<times> prof_def
     \<Rightarrow> (string \<times> profile) res" where
  "resolve_profile root imports default_ops entry = (case entry of (nm, d) \<Rightarrow>
     bindE (mapE (\<lambda>(field, _).
         bindE (resolve_field root imports (allow (ops_of default_ops field)) (pd_source_root d) field
                  (ops_of (pd_operations d) field)) (\<lambda>r. Inr (field, r))) capability_fields) (\<lambda>rs.
     let names = (\<lambda>field. case map_of rs field of Some r \<Rightarrow> fst r | None \<Rightarrow> []) in
     Inr (nm, \<lparr>p_name = nm, p_source = pd_source d, p_source_root = pd_source_root d,
       p_chain = [PROJECT_DEFAULTS_NAME, nm], p_prompt = pd_prompt d, p_prompt_chain = [pd_prompt d],
       p_operations = pd_operations d, p_origins = map (\<lambda>(field, r). (field, snd r)) rs,
       p_skills = names ''skills'', p_mcps = names ''mcps'', p_hooks = names ''hooks'',
       p_plugins = names ''plugins'', p_runtime = pd_runtime d\<rparr>)))"

section \<open>The project\<close>

definition empty_expected :: expected where
  "empty_expected = map (\<lambda>k. (k, [])) CAPABILITY_KINDS"

text \<open>\<open>_resolve_file(root, manifest["defaults"], ...)\<close>: the value is not checked to be a
  string, so a number raises a \<open>TypeError\<close>.\<close>

fun holds_backslash :: "val \<Rightarrow> bool" where
  "holds_backslash (VList xs) = (VStr [CHR 0x5C] \<in> set xs)"
| "holds_backslash (VDict d) = has_key d [CHR 0x5C]"
| "holds_backslash _ = False"

definition resolve_file_value :: "fs \<Rightarrow> path \<Rightarrow> val \<Rightarrow> path res" where
  "resolve_file_value F root v = (case as_str v of
       Some s \<Rightarrow> resolve_file F root s
     | None \<Rightarrow> (if \<not> truthy v \<or> holds_backslash v
               then Inl (invalid ''must be a normalized POSIX relative path'')
               else Inl (TypeError ''argument should be a str'')))"

definition load_skill_imports_ref ::
    "host \<Rightarrow> fs \<Rightarrow> path \<Rightarrow> val \<Rightarrow> (path option \<times> (string \<times> skill_import) list) res" where
  "load_skill_imports_ref H F root v =
     (if v = VNone then Inr (None, []) else
      bindE (someE (invalid ''manifest.skill_imports must be a path string'') (as_str v)) (\<lambda>s.
      bindE (resolve_file F root s) (\<lambda>p.
      bindE (require_under_cap root p) (\<lambda>_.
      bindE (load_project_skill_imports H F root p) (\<lambda>imports. Inr (Some p, imports))))))"

definition load_overlay_definitions ::
    "host \<Rightarrow> fs \<Rightarrow> string list \<Rightarrow> overlay_spec \<Rightarrow> load_state \<Rightarrow> load_state res" where
  "load_overlay_definitions H F imported ov st =
     bindE (resolve_file F (ov_root ov) ''.cap/manifest.toml'') (\<lambda>mp.
     bindE (read_toml H F mp) (\<lambda>m.
     bindE (expect_keys m [''version'', ''defaults'', ''runtime'', ''profiles'']) (\<lambda>_.
     if get m ''version'' \<noteq> VInt 3 then Inl (invalid ''private overlay manifest.version must be 3'')
     else load_definitions H F imported (ov_root ov) (get m ''profiles'') True st)))"

definition validate_stores ::
    "fs \<Rightarrow> (path \<times> expected) list \<Rightarrow> (string \<times> mcp_def) list res" where
  "validate_stores F roots =
     foldE (\<lambda>mcps (r, e). bindE (validate_capability_store F r e) (\<lambda>ms. Inr (dict_update mcps ms)))
       [] roots"

definition unreferenced_imports ::
    "(string \<times> skill_import) list \<Rightarrow> (string \<times> profile) list \<Rightarrow> string list" where
  "unreferenced_imports imports profiles =
     list_minus (keys imports) (concat (map (\<lambda>(_, P). p_skills P) profiles))"

text \<open>The layers after the manifest has been read, and the whole.\<close>

definition load_layers ::
    "host \<Rightarrow> fs \<Rightarrow> path \<Rightarrow> path option \<Rightarrow> path \<Rightarrow> dict \<Rightarrow> (string \<times> path) list
     \<Rightarrow> path option \<Rightarrow> (string \<times> skill_import) list \<Rightarrow> project res" where
  "load_layers H F root private_overlay manifest_path manifest policies imports_manifest imports =
     bindE (resolve_file_value F root (get manifest ''defaults'')) (\<lambda>defaults_path.
     bindE (require_under_cap root defaults_path) (\<lambda>_.
     bindE (read_toml H F defaults_path) (\<lambda>dd.
     bindE (expect_keys dd ([''version'', ''external_imports''] @ keys capability_fields)) (\<lambda>_.
     if get dd ''version'' \<noteq> VInt 3 then Inl (invalid ''project defaults.version must be 3'')
     else
     bindE (load_external_imports (get dd ''external_imports'')) (\<lambda>ext.
     bindE (load_operations dd) (\<lambda>default_ops.
     bindE (load_overlay_spec H F root private_overlay) (\<lambda>overlay.
     bindE (load_definitions H F (keys imports) root (get manifest ''profiles'') False
              ([], add_expected (keys imports) default_ops empty_expected)) (\<lambda>(defs, e).
     bindE (case overlay of None \<Rightarrow> Inr (defs, [(root, e)])
            | Some ov \<Rightarrow> bindE (load_overlay_definitions H F (keys imports) ov (defs, empty_expected))
                (\<lambda>(defs', e'). Inr (defs', [(root, e), (ov_root ov, e')]))) (\<lambda>(all_defs, roots).
     bindE (mapE (resolve_profile root imports default_ops) (sort_key fst all_defs)) (\<lambda>profiles.
     if unreferenced_imports imports profiles \<noteq> [] then Inl (invalid ''project Skill imports are unreferenced'')
     else
     bindE (validate_stores F roots) (\<lambda>mcps.
     Inr \<lparr>pr_root = root, pr_manifest = manifest_path, pr_defaults = defaults_path,
       pr_runtime_policies = policies, pr_skill_imports_manifest = imports_manifest,
       pr_skill_imports = sort_key fst imports, pr_profiles = sort_key fst profiles,
       pr_mcps = sort_key fst mcps, pr_external_imports = ext, pr_overlay = overlay\<rparr>)))))))))))"

definition load_project :: "host \<Rightarrow> fs \<Rightarrow> path \<Rightarrow> path option \<Rightarrow> project res" where
  "load_project H F project_root private_overlay =
     bindE (someE (OSError ''project root'') (resolve F project_root)) (\<lambda>root.
     if \<not> is_dir F root then Inl (invalid ''project root is not a directory'')
     else
     bindE (resolve_file F root ''AGENTS.md'') (\<lambda>root_instructions.
     bindE (read_nonempty_text F root_instructions) (\<lambda>_.
     bindE (resolve_file F root ''.cap/manifest.toml'') (\<lambda>manifest_path.
     bindE (read_toml H F manifest_path) (\<lambda>manifest.
     let required = [''version'', ''defaults'', ''runtime'', ''profiles''] in
     if list_minus required (keys manifest) \<noteq> []
        \<or> list_minus (keys manifest) (''skill_imports'' # required) \<noteq> []
       then Inl (invalid ''manifest keys mismatch'')
     else if get manifest ''version'' \<noteq> VInt MANIFEST_VERSION then Inl (invalid ''manifest.version must be 3'')
     else if \<not> is_dict (get manifest ''profiles'') \<or> \<not> truthy (get manifest ''profiles'')
       then Inl (invalid ''manifest.profiles must be a non-empty table'')
     else
     bindE (load_runtime_policies H F root (get manifest ''runtime'')) (\<lambda>policies.
     bindE (load_skill_imports_ref H F root (get manifest ''skill_imports'')) (\<lambda>(imports_manifest, imports).
     load_layers H F root private_overlay manifest_path manifest policies imports_manifest imports)))))))"

end
