(* ===== verification/Closures.thy ===== *)
theory Closures
  imports ProjectLoad
begin

text \<open>
  What a loaded project guarantees: the closure of a role is the defaults without what the
  role denies or overrides, plus what it overrides and allows; its origins name exactly the
  closure, and the entry each origin names has passed the store check.
\<close>

section \<open>Closures\<close>

lemma keys_foldl_pop: "set (keys (foldl (\<lambda>os c. dict_pop c os) d cs)) = set (keys d) - set cs"
  by (induction cs arbitrary: d) auto

lemma keys_foldl_set: "set (keys (foldl (\<lambda>os c. dict_set c (f c) os) d cs)) = set (keys d) \<union> set cs"
  by (induction cs arbitrary: d) auto

lemma map_of_foldl_pop: "map_of (foldl (\<lambda>os c. dict_pop c os) d cs) = (map_of d) |` (- set cs)"
  by (induction cs arbitrary: d) (auto simp: fun_eq_iff restrict_map_def)

lemma map_of_foldl_set:
  "map_of (foldl (\<lambda>os c. dict_set c (f c) os) d cs) k = (if k \<in> set cs then Some (f k) else map_of d k)"
  by (induction cs arbitrary: d) auto

lemma map_of_map_key: "map_of (map (\<lambda>c. (c, f c)) cs) k = (if k \<in> set cs then Some (f k) else None)"
  by (induction cs) auto

lemma resolve_field_Inr:
  assumes "resolve_field root imports D sroot field ops = Inr (names, origins)"
  shows "set (override ops) \<subseteq> set D"
    and "set (allow ops) \<inter> set D = {}"
    and "set names = (set D - set (deny ops) - set (override ops)) \<union> set (override ops) \<union> set (allow ops)"
    and "sorted names" and "distinct names"
    and "map_of origins c =
      (if c \<in> set (override ops) \<union> set (allow ops) then Some (capability_origin imports field c sroot)
       else if c \<in> set D - set (deny ops) then Some (capability_origin imports field c root) else None)"
proof -
  have "\<not> list_minus (override ops) (sorted_set D) \<noteq> []"
    and al: "list_all (\<lambda>c. c \<notin> set (sorted_set D)) (allow ops)"
    and names: "names = sorted_set (list_minus (list_minus (sorted_set D) (deny ops)) (override ops)
       @ override ops @ allow ops)"
    and origins: "origins = foldl (\<lambda>os c. dict_set c (capability_origin imports field c sroot) os)
       (foldl (\<lambda>os c. dict_pop c os) (map (\<lambda>c. (c, capability_origin imports field c root)) (sorted_set D)) (deny ops))
       (override ops @ allow ops)"
    using assms by (auto simp: resolve_field_def Let_def split: if_splits)
  then show "set (override ops) \<subseteq> set D" "set (allow ops) \<inter> set D = {}"
    by (auto simp: list_minus_Nil list_all_iff)
  show "set names = (set D - set (deny ops) - set (override ops)) \<union> set (override ops) \<union> set (allow ops)"
    by (auto simp: names)
  show "sorted names" "distinct names" by (simp_all add: names)
  show "map_of origins c =
      (if c \<in> set (override ops) \<union> set (allow ops) then Some (capability_origin imports field c sroot)
       else if c \<in> set D - set (deny ops) then Some (capability_origin imports field c root) else None)"
    unfolding origins map_of_foldl_set map_of_foldl_pop
    by (auto simp: map_of_map_key restrict_map_def)
qed

text \<open>The closure and the domain of the origins agree.\<close>

lemma resolve_field_keys:
  assumes "resolve_field root imports D sroot field ops = Inr (names, origins)"
    and "set (deny ops) \<inter> set (override ops) = {}" and "set (deny ops) \<inter> set (allow ops) = {}"
  shows "set (keys origins) = set names"
proof -
  have "set (keys origins) = {c. map_of origins c \<noteq> None}"
    by (auto simp: set_keys map_of_eq_None_iff)
  also have "\<dots> = set names"
    unfolding resolve_field_Inr(6) [OF assms(1)] resolve_field_Inr(3) [OF assms(1)] by auto
  finally show ?thesis .
qed

section \<open>Where the capabilities come from\<close>

text \<open>The entry an origin names is there: a regular file for an MCP definition, a tree the
  store check accepts for every other kind.\<close>

definition origin_present :: "fs \<Rightarrow> string \<Rightarrow> path \<Rightarrow> bool" where
  "origin_present F kind p \<longleftrightarrow>
     (if kind = ''mcp'' then is_file F p else validate_capability_tree F kind p = Inr ())"

lemma stem_suffix: "suffix_of p \<noteq> [] \<Longrightarrow> stem_of p @ suffix_of p = name_of p"
  by (auto simp: stem_of_def suffix_of_def split: option.splits)

lemma kind_entry_present:
  assumes "validate_kind F base e mcps kind = Inr r" and "c \<in> set (store_names F base kind)"
  shows "origin_present F kind (base @ [kind, if kind = ''mcp'' then c @ ''.json'' else c])"
proof -
  obtain items where items: "iterdir F (base @ [kind]) = Inr items"
    using assms(2) by (cases "iterdir F (base @ [kind])") (auto simp: store_names_def)
  have ex: "exists_at F (base @ [kind])"
    using items by (auto simp: exists_at_def stat_def iterdir_def split: option.splits)
  show ?thesis
  proof (cases "kind = ''mcp''")
    case True
    then obtain ms n where ms: "mapE (mcp_entry F (base @ [kind])) (sort items) = Inr ms"
        and n: "n \<in> set items" "c = stem_of (base @ [kind, n])"
      using assms ex items by (auto simp: validate_kind_def Let_def bindE_Inr store_names_def)
    from mapE_all [OF ms, of n] n(1) obtain y where "mcp_entry F (base @ [kind]) n = Inr y" by auto
    then have "is_file F (base @ [kind, n])" "suffix_of (base @ [kind, n]) = ''.json''"
      by (auto simp: mcp_entry_def Let_def split: if_splits)
    moreover from this(2) have "c @ ''.json'' = n"
      using stem_suffix [of "base @ [kind, n]"] n(2) by (simp add: name_of_def)
    ultimately show ?thesis using True by (simp add: origin_present_def)
  next
    case False
    then obtain ns where ns: "mapE (tree_entry F kind (base @ [kind])) (sort items) = Inr ns"
        and n: "c \<in> set items"
      using assms ex items by (auto simp: validate_kind_def Let_def bindE_Inr store_names_def)
    from mapE_all [OF ns, of c] n obtain y where "tree_entry F kind (base @ [kind]) c = Inr y" by auto
    from tree_entry_name [OF this] False show ?thesis by (simp add: origin_present_def)
  qed
qed

lemma store_entry_present:
  assumes "validate_capability_store F root e = Inr mcps" and "kind \<in> set CAPABILITY_KINDS"
    and "c \<in> set (expected_of e kind)"
  shows "origin_present F kind
    (root @ [''.cap'', ''capabilities'', kind, if kind = ''mcp'' then c @ ''.json'' else c])"
proof -
  have "foldE (validate_kind F (root @ [''.cap'', ''capabilities'']) e) [] CAPABILITY_KINDS = Inr mcps"
    using assms(1) by (auto simp: validate_capability_store_def Let_def bindE_Inr split: if_splits)
  from foldE_step [OF this assms(2)] obtain s t where
    "validate_kind F (root @ [''.cap'', ''capabilities'']) e s kind = Inr t" by blast
  from kind_entry_present [OF this, of c] show ?thesis
    using validate_capability_store_exact [OF assms(1,2)] assms(3) by simp
qed

text \<open>Project skill imports have been validated when they were loaded.\<close>

definition imports_ok :: "fs \<Rightarrow> (string \<times> skill_import) list \<Rightarrow> bool" where
  "imports_ok F imports \<longleftrightarrow> distinct (keys imports)
     \<and> (\<forall>n i. map_of imports n = Some i \<longrightarrow> imp_name i = n
          \<and> validate_capability_tree F ''skills'' (imp_source i) = Inr ())"

lemma load_skill_import_ok:
  "load_skill_import F root imports v = Inr imports' \<Longrightarrow> imports_ok F imports \<Longrightarrow> imports_ok F imports'"
  by (auto simp: load_skill_import_def res_simps imports_ok_def split: if_splits)

lemma load_skill_imports_ref_ok:
  "load_skill_imports_ref H F root v = Inr (m, imports) \<Longrightarrow> imports_ok F imports"
proof (cases "v = VNone")
  case False
  assume "load_skill_imports_ref H F root v = Inr (m, imports)"
  with False obtain p where "load_project_skill_imports H F root p = Inr imports"
    by (auto simp: load_skill_imports_ref_def bindE_Inr)
  then obtain raw where "foldE (load_skill_import F root) [] raw = Inr imports"
    by (auto simp: load_project_skill_imports_def bindE_Inr split: if_splits)
  then show ?thesis
    by (rule foldE_invariant) (simp add: imports_ok_def, rule load_skill_import_ok)
qed (simp add: load_skill_imports_ref_def imports_ok_def)

text \<open>A definition is covered when the store it comes from expects every name it brings in.\<close>

definition covers :: "string list \<Rightarrow> expected \<Rightarrow> (string \<times> cap_ops) list \<Rightarrow> bool" where
  "covers imported e ops \<longleftrightarrow> (\<forall>(field, kind) \<in> set capability_fields.
     \<forall>c \<in> set (allow (ops_of ops field)) \<union> set (override (ops_of ops field)).
       (kind = ''skills'' \<and> c \<in> set imported) \<or> c \<in> set (expected_of e kind))"

lemma expected_of_add:
  "(field, kind) \<in> set capability_fields \<Longrightarrow>
     set (expected_of (add_expected imported ops e) kind) = set (expected_of e kind)
       \<union> (let ns = set (allow (ops_of ops field)) \<union> set (override (ops_of ops field))
          in if kind = ''skills'' then ns - set imported else ns)"
  unfolding capability_fields_def
  by (auto simp: add_expected_def capability_fields_def Let_def expected_of_def)

lemma covers_add: "covers imported (add_expected imported ops e) ops"
  unfolding covers_def
proof (clarify)
  fix field kind c
  assume "(field, kind) \<in> set capability_fields"
    and "c \<in> set (allow (ops_of ops field)) \<union> set (override (ops_of ops field))"
    and "c \<notin> set (expected_of (add_expected imported ops e) kind)"
  then show "kind = ''skills'' \<and> c \<in> set imported"
    by (auto simp: expected_of_add Let_def split: if_splits)
qed

lemma covers_mono: "covers imported e ops \<Longrightarrow> covers imported (add_expected imported ops' e) ops"
  unfolding covers_def by (fastforce simp: expected_of_add)

lemma load_definition_Inr:
  "load_definition H F r entry = Inr (nm, d) \<Longrightarrow>
     nm = fst entry \<and> is_identifier nm \<and> pd_source_root d = r
     \<and> (\<exists>data. load_operations data = Inr (pd_operations d))"
  unfolding load_definition_def
  by (cases entry, simp only: prod.case) (elim stepsE; auto simp: validate_identifier_Inr)

lemma ops_of_wf: "load_operations data = Inr ops \<Longrightarrow> wf_ops (ops_of ops field)"
proof -
  assume l: "load_operations data = Inr ops"
  have "\<forall>(f, x) \<in> set ops. wf_ops x"
    using mapE_elem [OF l [unfolded load_operations_def]] load_layer_operations_wf
    by (fastforce simp: bindE_Inr)
  then show ?thesis
    by (auto simp: ops_of_def wf_ops_def dest!: map_of_SomeD split: option.splits)
qed

definition wf_def :: "prof_def \<Rightarrow> bool" where
  "wf_def d \<longleftrightarrow> (\<forall>field. wf_ops (ops_of (pd_operations d) field))"

lemma dict_set_set: "x \<in> set (dict_set k v d) \<Longrightarrow> x = (k, v) \<or> x \<in> set d"
  by (induction k v d rule: dict_set.induct) (auto split: if_splits)

text \<open>The loop over one layer keeps what it was given and covers what it adds.\<close>

lemma load_definitions_covers:
  assumes l: "load_definitions H F imported r raw private (defs0, e0) = Inr (defs, e)"
  shows "\<forall>(nm, d) \<in> set defs. (nm, d) \<in> set defs0
     \<or> (is_identifier nm \<and> wf_def d \<and> pd_source_root d = r \<and> covers imported e (pd_operations d))"
    and "distinct (keys defs0) \<Longrightarrow> distinct (keys defs)"
    and "covers imported e0 ops \<Longrightarrow> covers imported e ops"
proof -
  define step where "step = (\<lambda>(defs, e) entry.
       bindE (validate_identifier (VStr (fst entry))) (\<lambda>_.
       if fst entry \<in> set (keys defs) \<and> \<not> private
         then Inl (invalid ''profile name is duplicated across layers'')
       else
       bindE (load_definition H F r entry) (\<lambda>(nm, d).
         Inr (dict_set nm d defs, add_expected imported (pd_operations d) e))))"
  obtain entries where f: "foldE step (defs0, e0) entries = Inr (defs, e)"
    using l by (auto simp: load_definitions_def bindE_Inr step_def split: if_splits)
  have st: "\<exists>nm d. load_definition H F r x = Inr (nm, d) \<and> s' = (dict_set nm d (fst s), add_expected imported (pd_operations d) (snd s))"
    if "step s x = Inr s'" for s x s'
    using that by (cases s) (auto simp: step_def res_simps split: if_splits)
  let ?ok = "\<lambda>e nm d. is_identifier nm \<and> wf_def d \<and> pd_source_root d = r \<and> covers imported e (pd_operations d)"
  let ?I = "\<lambda>s. \<forall>(nm, d) \<in> set (fst s). (nm, d) \<in> set defs0 \<or> ?ok (snd s) nm d"
  have "?I (defs, e)"
  proof (rule foldE_invariant [OF f])
    fix s x s' assume I: "?I s" and "step s x = Inr s'"
    from st [OF this(2)] obtain nm d where d: "load_definition H F r x = Inr (nm, d)"
      and s': "s' = (dict_set nm d (fst s), add_expected imported (pd_operations d) (snd s))" by blast
    have "?ok (snd s') nm d"
      using load_definition_Inr [OF d] ops_of_wf covers_add by (auto simp: s' wf_def_def)
    moreover have "?ok (snd s') nm' d'" if "?ok (snd s) nm' d'" for nm' d'
      using that covers_mono by (simp add: s')
    ultimately show "?I s'" using I by (auto simp: s' dest!: dict_set_set)
  qed auto
  then show "\<forall>(nm, d) \<in> set defs. (nm, d) \<in> set defs0 \<or> ?ok e nm d" by simp
  show "distinct (keys defs)" if "distinct (keys defs0)"
  proof -
    have "distinct (keys (fst (defs, e)))"
      by (rule foldE_invariant [OF f]) (use that in \<open>auto dest!: st\<close>)
    then show ?thesis by simp
  qed
  show "covers imported e ops" if "covers imported e0 ops"
  proof -
    have "covers imported (snd (defs, e)) ops"
      by (rule foldE_invariant [OF f]) (use that covers_mono in \<open>auto dest!: st\<close>)
    then show ?thesis by simp
  qed
qed

lemma mapE_lookup:
  assumes "mapE (\<lambda>(k, x). bindE (g k) (\<lambda>r. Inr (k, r))) xs = Inr rs" and "(k, x) \<in> set xs"
  shows "\<exists>r. map_of rs k = Some r \<and> g k = Inr r"
  using assms
proof (induction xs arbitrary: rs)
  case (Cons a xs)
  obtain k' x' where a: "a = (k', x')" by (cases a)
  obtain r rs' where r: "g k' = Inr r" "mapE (\<lambda>(k, x). bindE (g k) (\<lambda>r. Inr (k, r))) xs = Inr rs'"
      "rs = (k', r) # rs'"
    using Cons.prems(1) by (auto simp: a bindE_Inr)
  show ?case
  proof (cases "k = k'")
    case False
    then show ?thesis using Cons.IH [OF r(2)] Cons.prems(2) by (simp add: a r(3))
  qed (simp add: r)
qed simp

lemma map_of_map_snd: "map_of (map (\<lambda>(k, r). (k, f r)) rs) k = map_option f (map_of rs k)"
  by (induction rs) auto

lemma resolve_profile_Inr:
  assumes "resolve_profile root imports dops (nm, d) = Inr (nm', P)"
  shows "nm' = nm \<and> p_name P = nm \<and> p_source_root P = pd_source_root d \<and> p_operations P = pd_operations d"
    and "(field, kind) \<in> set capability_fields \<Longrightarrow> \<exists>origins.
      resolve_field root imports (allow (ops_of dops field)) (pd_source_root d) field
        (ops_of (pd_operations d) field) = Inr (profile_field P field, origins)
      \<and> map_of (p_origins P) field = Some origins"
proof -
  let ?g = "\<lambda>field. resolve_field root imports (allow (ops_of dops field)) (pd_source_root d) field
        (ops_of (pd_operations d) field)"
  obtain rs where rs: "mapE (\<lambda>(k, x). bindE (?g k) (\<lambda>r. Inr (k, r))) capability_fields = Inr rs"
      and nm: "nm' = nm" and P: "P = \<lparr>p_name = nm, p_source = pd_source d, p_source_root = pd_source_root d,
       p_chain = [PROJECT_DEFAULTS_NAME, nm], p_prompt = pd_prompt d, p_prompt_chain = [pd_prompt d],
       p_operations = pd_operations d, p_origins = map (\<lambda>(field, r). (field, snd r)) rs,
       p_skills = (case map_of rs ''skills'' of Some r \<Rightarrow> fst r | None \<Rightarrow> []),
       p_mcps = (case map_of rs ''mcps'' of Some r \<Rightarrow> fst r | None \<Rightarrow> []),
       p_hooks = (case map_of rs ''hooks'' of Some r \<Rightarrow> fst r | None \<Rightarrow> []),
       p_plugins = (case map_of rs ''plugins'' of Some r \<Rightarrow> fst r | None \<Rightarrow> []), p_runtime = pd_runtime d\<rparr>"
    using assms unfolding resolve_profile_def Let_def prod.case by (elim stepsE) auto
  show "nm' = nm \<and> p_name P = nm \<and> p_source_root P = pd_source_root d \<and> p_operations P = pd_operations d"
    by (simp only: nm P profile.simps simp_thms)
  assume f: "(field, kind) \<in> set capability_fields"
  obtain r where r: "map_of rs field = Some r" "?g field = Inr r"
    using mapE_lookup [OF rs f] by blast
  have sel: "p_skills P = (case map_of rs ''skills'' of Some r \<Rightarrow> fst r | None \<Rightarrow> [])"
      "p_mcps P = (case map_of rs ''mcps'' of Some r \<Rightarrow> fst r | None \<Rightarrow> [])"
      "p_hooks P = (case map_of rs ''hooks'' of Some r \<Rightarrow> fst r | None \<Rightarrow> [])"
      "p_plugins P = (case map_of rs ''plugins'' of Some r \<Rightarrow> fst r | None \<Rightarrow> [])"
    by (simp_all only: P profile.simps)
  have "field = ''skills'' \<or> field = ''mcps'' \<or> field = ''hooks'' \<or> field = ''plugins''"
    using f by (auto simp: capability_fields_def)
  then have "profile_field P field = fst r"
    using r(1) by (elim disjE; hypsubst) (simp_all add: sel)
  moreover have "map_of (p_origins P) field = Some (snd r)"
    using r(1) by (simp only: P profile.simps map_of_map_snd option.map)
  ultimately show "\<exists>origins. ?g field = Inr (profile_field P field, origins)
      \<and> map_of (p_origins P) field = Some origins"
    using r(2) by simp
qed

lemma mapE_map_fst:
  "mapE f xs = Inr ys \<Longrightarrow> (\<And>x y. f x = Inr y \<Longrightarrow> fst y = fst x) \<Longrightarrow> keys ys = keys xs"
  by (simp add: keys_def mapE_map)

lemma validate_stores_Inr:
  assumes "validate_stores F roots = Inr mcps"
  shows "\<forall>(r, e) \<in> set roots. \<exists>ms. validate_capability_store F r e = Inr ms"
    and "\<forall>(n, m) \<in> set mcps. wf_mcp m \<and> mcp_name m = n \<and> is_identifier n"
    and "distinct (keys mcps)"
proof -
  let ?step = "\<lambda>mcps (r, e). bindE (validate_capability_store F r e) (\<lambda>ms. Inr (dict_update mcps ms))"
  have f: "foldE ?step [] roots = Inr mcps" using assms by (simp add: validate_stores_def)
  show "\<forall>(r, e) \<in> set roots. \<exists>ms. validate_capability_store F r e = Inr ms"
    using foldE_step [OF f] by (fastforce simp: bindE_Inr)
  show "\<forall>(n, m) \<in> set mcps. wf_mcp m \<and> mcp_name m = n \<and> is_identifier n"
    by (rule foldE_invariant [OF f])
       (fastforce simp: bindE_Inr dest!: dict_update_set validate_capability_store_mcps split: prod.splits)+
  show "distinct (keys mcps)"
    by (rule foldE_invariant [OF f]) (auto simp: bindE_Inr distinct_dict_update)
qed

text \<open>What the layers of a loaded project consist of.\<close>

definition layers_ok :: "fs \<Rightarrow> path \<Rightarrow> string list \<Rightarrow> (string \<times> cap_ops) list
    \<Rightarrow> (string \<times> prof_def) list \<Rightarrow> (path \<times> expected) list \<Rightarrow> bool" where
  "layers_ok F root imported dops defs roots \<longleftrightarrow>
     distinct (keys defs) \<and> (\<forall>field. wf_ops (ops_of dops field))
     \<and> (\<exists>e. (root, e) \<in> set roots \<and> covers imported e dops)
     \<and> (\<forall>(nm, d) \<in> set defs. is_identifier nm \<and> wf_def d
          \<and> (\<exists>e. (pd_source_root d, e) \<in> set roots \<and> covers imported e (pd_operations d)))"

lemma load_public:
  assumes "load_definitions H F imported root raw False ([], add_expected imported dops empty_expected) = Inr (defs, e)"
    and "load_operations dd = Inr dops"
  shows "layers_ok F root imported dops defs [(root, e)]"
  using load_definitions_covers(1,2) [OF assms(1)]
    load_definitions_covers(3) [OF assms(1), of dops] covers_add ops_of_wf [OF assms(2)]
  by (fastforce simp: layers_ok_def)

lemma load_private:
  assumes "load_overlay_definitions H F imported ov (defs, empty_expected) = Inr (defs', e')"
    and "layers_ok F root imported dops defs [(root, e)]"
  shows "layers_ok F root imported dops defs' [(root, e), (ov_root ov, e')]"
proof -
  obtain m where m: "load_definitions H F imported (ov_root ov) m True (defs, empty_expected) = Inr (defs', e')"
    using assms(1) unfolding load_overlay_definitions_def by (elim stepsE)
  show ?thesis
    using load_definitions_covers(1,2) [OF m] assms(2) by (fastforce simp: layers_ok_def)
qed

lemma load_layers_Inr:
  assumes "load_layers H F root ovp mp manifest policies im imports = Inr P"
  obtains dops defs roots profiles mcps where
    "layers_ok F root (keys imports) dops defs roots"
    "mapE (resolve_profile root imports dops) (sort_key fst defs) = Inr profiles"
    "validate_stores F roots = Inr mcps"
    "pr_root P = root" "pr_profiles P = sort_key fst profiles" "pr_mcps P = sort_key fst mcps"
    "pr_skill_imports P = sort_key fst imports"
    "unreferenced_imports imports profiles = []"
proof -
  obtain dd dops overlay defs e all_defs roots profiles mcps where
      d: "load_operations dd = Inr dops"
      "load_definitions H F (keys imports) root (get manifest ''profiles'') False
         ([], add_expected (keys imports) dops empty_expected) = Inr (defs, e)"
    and l: "(case overlay of None \<Rightarrow> Inr (defs, [(root, e)])
            | Some ov \<Rightarrow> bindE (load_overlay_definitions H F (keys imports) ov (defs, empty_expected))
                (\<lambda>(defs', e'). Inr (defs', [(root, e), (ov_root ov, e')]))) = Inr (all_defs, roots)"
    and r: "mapE (resolve_profile root imports dops) (sort_key fst all_defs) = Inr profiles"
      "validate_stores F roots = Inr mcps" "unreferenced_imports imports profiles = []"
      "pr_root P = root" "pr_profiles P = sort_key fst profiles" "pr_mcps P = sort_key fst mcps"
      "pr_skill_imports P = sort_key fst imports"
    using assms unfolding load_layers_def by (elim stepsE; clarsimp) (elim stepsE; auto)+
  have "layers_ok F root (keys imports) dops all_defs roots"
  proof (cases overlay)
    case None
    then show ?thesis using l load_public [OF d(2,1)] by simp
  next
    case (Some ov)
    then obtain defs' e' where "load_overlay_definitions H F (keys imports) ov (defs, empty_expected) = Inr (defs', e')"
        "all_defs = defs'" "roots = [(root, e), (ov_root ov, e')]"
      using l by (auto simp: bindE_Inr)
    then show ?thesis using load_private load_public [OF d(2,1)] by blast
  qed
  then show ?thesis using that r by blast
qed

lemma load_project_Inr:
  assumes "load_project H F pr ov = Inr P"
  obtains root mp manifest policies im imps where
    "resolve F pr = Some root" "is_dir F root" "imports_ok F imps"
    "load_layers H F root ov mp manifest policies im imps = Inr P"
proof -
  obtain root mp manifest policies im imps where
    "resolve F pr = Some root" "is_dir F root"
    "load_skill_imports_ref H F root (get manifest ''skill_imports'') = Inr (im, imps)"
    "load_layers H F root ov mp manifest policies im imps = Inr P"
    using assms unfolding load_project_def Let_def
    by (elim stepsE) (auto simp: someE_Inr split: prod.splits)
  then show ?thesis using that load_skill_imports_ref_ok by blast
qed

lemma capability_origin_present:
  assumes "imports_ok F imports" and "(field, kind) \<in> set capability_fields"
    and "validate_capability_store F r e = Inr ms"
    and "(kind = ''skills'' \<and> c \<in> set (keys imports)) \<or> c \<in> set (expected_of e kind)"
  shows "origin_present F kind (capability_origin imports field c r)"
proof -
  have fk: "(field = ''skills'' \<and> kind = ''skills'') \<or> (field = ''mcps'' \<and> kind = ''mcp'')
      \<or> (field = ''hooks'' \<and> kind = ''hooks'') \<or> (field = ''plugins'' \<and> kind = ''plugins'')"
    using assms(2) by (simp add: capability_fields_def)
  have kind: "map_of capability_fields field = Some kind" "kind \<in> set CAPABILITY_KINDS"
    using fk by (auto simp: capability_fields_def CAPABILITY_KINDS_def)
  show ?thesis
  proof (cases "field = ''skills'' \<and> map_of imports c \<noteq> None")
    case True
    then obtain i where "map_of imports c = Some i" by auto
    then show ?thesis using True fk assms(1)
      by (auto simp: capability_origin_def imports_ok_def origin_present_def)
  next
    case False
    then have "\<not> (kind = ''skills'' \<and> c \<in> set (keys imports))"
      using fk by (auto simp: set_keys map_of_eq_None_iff)
    then have "origin_present F kind
        (r @ [''.cap'', ''capabilities'', kind, if kind = ''mcp'' then c @ ''.json'' else c])"
      using store_entry_present [OF assms(3) kind(2)] assms(4) by blast
    moreover have "capability_origin imports field c r
        = r @ [''.cap'', ''capabilities'', kind, if kind = ''mcp'' then c @ ''.json'' else c]"
    proof -
      have none: "(if field = ''skills'' then map_of imports c else None) = None" using False by simp
      show ?thesis unfolding capability_origin_def none kind(1) by (simp add: Let_def)
    qed
    ultimately show ?thesis by simp
  qed
qed

lemma loaded_profile:
  assumes "load_project H F pr ov = Inr P" and "(nm, p) \<in> set (pr_profiles P)"
    and "(field, kind) \<in> set capability_fields"
  shows "\<exists>origins. map_of (p_origins p) field = Some origins
     \<and> set (keys origins) = set (profile_field p field)
     \<and> sorted (profile_field p field) \<and> distinct (profile_field p field)
     \<and> (\<forall>c q. map_of origins c = Some q \<longrightarrow> origin_present F kind q)"
proof -
  obtain root mp manifest policies im imps where im: "imports_ok F imps"
      and l: "load_layers H F root ov mp manifest policies im imps = Inr P"
    using assms(1) by (rule load_project_Inr)
  obtain dops defs roots profiles mcps where ok: "layers_ok F root (keys imps) dops defs roots"
      and ps: "mapE (resolve_profile root imps dops) (sort_key fst defs) = Inr profiles"
      and st: "validate_stores F roots = Inr mcps" and P: "pr_profiles P = sort_key fst profiles"
    using l by (rule load_layers_Inr)
  obtain nm0 d where d: "(nm0, d) \<in> set defs" "resolve_profile root imps dops (nm0, d) = Inr (nm, p)"
    using mapE_elem [OF ps, of "(nm, p)"] assms(2) by (auto simp: P)
  obtain origins where r: "resolve_field root imps (allow (ops_of dops field)) (pd_source_root d) field
        (ops_of (pd_operations d) field) = Inr (profile_field p field, origins)"
      and o: "map_of (p_origins p) field = Some origins"
    using resolve_profile_Inr(2) [OF d(2) assms(3)] by blast
  have wf: "wf_ops (ops_of (pd_operations d) field)" using ok d(1) by (auto simp: layers_ok_def wf_def_def)
  obtain e0 e1 where e: "(root, e0) \<in> set roots" "covers (keys imps) e0 dops"
      "(pd_source_root d, e1) \<in> set roots" "covers (keys imps) e1 (pd_operations d)"
    using ok d(1) by (fastforce simp: layers_ok_def)
  obtain m0 m1 where m: "validate_capability_store F root e0 = Inr m0"
      "validate_capability_store F (pd_source_root d) e1 = Inr m1"
    using bspec [OF validate_stores_Inr(1) [OF st] e(1)] bspec [OF validate_stores_Inr(1) [OF st] e(3)] by auto
  have "origin_present F kind q" if q: "map_of origins c = Some q" for c q
  proof (cases "c \<in> set (override (ops_of (pd_operations d) field)) \<union> set (allow (ops_of (pd_operations d) field))")
    case True
    then have "q = capability_origin imps field c (pd_source_root d)"
      using q resolve_field_Inr(6) [OF r] by simp
    moreover have "(kind = ''skills'' \<and> c \<in> set (keys imps)) \<or> c \<in> set (expected_of e1 kind)"
      using e(4) assms(3) True by (fastforce simp: covers_def)
    ultimately show ?thesis using capability_origin_present [OF im assms(3) m(2)] by simp
  next
    case False
    then have "q = capability_origin imps field c root" and c: "c \<in> set (allow (ops_of dops field))"
      using q resolve_field_Inr(6) [OF r, of c] by (auto split: if_splits)
    moreover have "(kind = ''skills'' \<and> c \<in> set (keys imps)) \<or> c \<in> set (expected_of e0 kind)"
      using e(2) assms(3) c by (fastforce simp: covers_def)
    ultimately show ?thesis using capability_origin_present [OF im assms(3) m(1)] by simp
  qed
  moreover have "set (keys origins) = set (profile_field p field)"
    by (rule resolve_field_keys [OF r]) (use wf in \<open>auto simp: wf_ops_def\<close>)
  ultimately show ?thesis using o resolve_field_Inr(4,5) [OF r] by blast
qed

end
