(* ===== verification/Redaction.thy ===== *)
theory Redaction
  imports Validate
begin

text \<open>
  Removal of secrets before configuration content is hashed, rendered or stored as evidence
  (\<open>_redact_secret_values\<close>, \<open>_redacted_file_bytes\<close>, \<open>_canonical_mode\<close> of
  \<open>profile/cli.py\<close>). The two regular expressions are written out as scanners: a key is
  secret when it contains a secret word in any case, and a line assigns a secret when such a
  word stands before its first colon or equals sign.
\<close>

section \<open>Structured values\<close>

definition secret_words :: "string list" where
  "secret_words = [''apikey'', ''api-key'', ''api_key'', ''auth'', ''bearer'', ''cookie'', ''credential'',
     ''password'', ''privatekey'', ''private-key'', ''private_key'', ''secret'', ''token'']"

text \<open>\<open>SECRET_KEY_PATTERN.search\<close>\<close>

definition is_secret_name :: "string \<Rightarrow> bool" where
  "is_secret_name s = list_ex (\<lambda>w. contains w (casefold s)) secret_words"

definition external_secret :: string where
  "external_secret = ''<external-secret>''"

definition hides_children :: "string \<Rightarrow> bool" where
  "hides_children pk = (casefold pk \<in> set [''env'', ''environment'', ''headers''])"

fun redact :: "string \<Rightarrow> val \<Rightarrow> val" where
  "redact pk (VDict d) =
     VDict (sort_key fst (map (\<lambda>(k, v).
       (k, if is_secret_name k \<or> hides_children pk then VStr external_secret else redact k v)) d))"
| "redact pk (VList xs) = VList (map (redact pk) xs)"
| "redact pk v = v"

text \<open>Every value under a secret name, or under an environment or header table, is the marker.\<close>

fun secrets_hidden :: "string \<Rightarrow> val \<Rightarrow> bool" where
  "secrets_hidden pk (VDict d) = (\<forall>(k, v) \<in> set d.
     if is_secret_name k \<or> hides_children pk then v = VStr external_secret else secrets_hidden k v)"
| "secrets_hidden pk (VList xs) = (\<forall>x \<in> set xs. secrets_hidden pk x)"
| "secrets_hidden pk v = True"

lemma secrets_hidden_redact: "secrets_hidden pk (redact pk v)"
  by (induction pk v rule: redact.induct) auto

text \<open>Redaction has nothing left to do on a value without secrets, up to the order of keys.\<close>

lemma redact_hidden: "secrets_hidden pk v \<Longrightarrow> pynorm (redact pk v) = pynorm v"
proof (induction pk v rule: redact.induct)
  case (1 pk d)
  let ?f = "\<lambda>k v. if is_secret_name k \<or> hides_children pk then VStr external_secret else redact k v"
  have "map (\<lambda>(k, v). (k, pynorm (?f k v))) d = map (\<lambda>(k, v). (k, pynorm v)) d"
    using 1 by (force intro!: map_cong)
  then have m: "map (\<lambda>(k, v). (k, pynorm v)) (map (\<lambda>(k, v). (k, ?f k v)) d) = map (\<lambda>(k, v). (k, pynorm v)) d"
    by (simp add: case_prod_beta comp_def)
  show ?case
    by (simp only: redact.simps pynorm.simps sort_key_pairs [symmetric] m sort_key_idem)
qed auto

lemma redact_idem: "py_eq (redact pk (redact pk v)) (redact pk v)"
  by (simp add: py_eq_def redact_hidden secrets_hidden_redact)

text \<open>Changing the value under a secret name changes nothing that leaves the redaction.\<close>

lemma map_dict_set: "map (\<lambda>(k, v). (k, f k v)) (dict_set k x d) = dict_set k (f k x) (map (\<lambda>(k, v). (k, f k v)) d)"
  by (induction d) auto

lemma dict_set_same: "map_of d k = Some x \<Longrightarrow> dict_set k x d = d"
  by (induction d) (auto split: if_splits)

lemma map_of_map_key_val: "map_of (map (\<lambda>(k, v). (k, f k v)) d) k = map_option (f k) (map_of d k)"
  by (induction d) auto

lemma redact_secret_indep:
  assumes "is_secret_name k \<or> hides_children pk" and "map_of d k = Some y"
  shows "redact pk (VDict (dict_set k x d)) = redact pk (VDict d)"
proof -
  let ?f = "\<lambda>k v. if is_secret_name k \<or> hides_children pk then VStr external_secret else redact k v"
  have "dict_set k (?f k x) (map (\<lambda>(k, v). (k, ?f k v)) d) = map (\<lambda>(k, v). (k, ?f k v)) d"
    by (rule dict_set_same) (use assms in \<open>simp add: map_of_map_key_val\<close>)
  then have "map (\<lambda>(k, v). (k, ?f k v)) (dict_set k x d) = map (\<lambda>(k, v). (k, ?f k v)) d"
    by (simp only: map_dict_set)
  then show ?thesis by (simp only: redact.simps)
qed

section \<open>Text\<close>

definition seg_char :: "char \<Rightarrow> bool" where
  "seg_char c = (c \<noteq> CHR '':'' \<and> c \<noteq> CHR ''='' \<and> c \<noteq> CHR 0x0A)"

definition not_nl :: "char \<Rightarrow> bool" where
  "not_nl c = (c \<noteq> CHR 0x0A)"

text \<open>
  \<open>SECRET_LINE_PATTERN\<close> at the start of a line: white space, a segment without colon, equals
  sign or line feed that contains a secret word, white space, the separator and white space
  are kept; the rest of the line the match ends on is dropped.
\<close>

definition match_line :: "string \<Rightarrow> (string \<times> string \<times> string) option" where
  "match_line s =
     (let b = dropWhile is_space s;
          seg = takeWhile seg_char b;
          r = dropWhile seg_char b;
          r2 = dropWhile is_space r
      in if is_secret_name seg \<and> r2 \<noteq> [] \<and> (hd r2 = CHR '':'' \<or> hd r2 = CHR ''='') then
           (let r3 = tl r2; r4 = dropWhile is_space r3
            in Some (takeWhile is_space s @ seg @ takeWhile is_space r @ [hd r2] @ takeWhile is_space r3,
                     takeWhile not_nl r4, dropWhile not_nl r4))
         else None)"

lemma match_line_Some:
  assumes "match_line s = Some (keep, dropped, rest)"
  shows "s = keep @ dropped @ rest" and "CHR 0x0A \<notin> set dropped"
    and "rest = [] \<or> (\<exists>t. rest = CHR 0x0A # t)" and "keep \<noteq> []"
proof -
  define b where "b = dropWhile is_space s"
  define r where "r = dropWhile seg_char b"
  define r2 where "r2 = dropWhile is_space r"
  define r4 where "r4 = dropWhile is_space (tl r2)"
  have m: "r2 \<noteq> []" "keep = takeWhile is_space s @ takeWhile seg_char b @ takeWhile is_space r
        @ [hd r2] @ takeWhile is_space (tl r2)"
      "dropped = takeWhile not_nl r4" "rest = dropWhile not_nl r4"
    using assms by (auto simp: match_line_def Let_def b_def r_def r2_def r4_def split: if_splits)
  have "tl r2 = takeWhile is_space (tl r2) @ dropped @ rest" by (simp add: m(3,4) r4_def)
  then have "r2 = [hd r2] @ takeWhile is_space (tl r2) @ dropped @ rest" using m(1) by (cases r2) auto
  moreover have "r = takeWhile is_space r @ r2" by (simp add: r2_def)
  moreover have "b = takeWhile seg_char b @ r" by (simp add: r_def)
  moreover have "s = takeWhile is_space s @ b" by (simp add: b_def)
  ultimately show "s = keep @ dropped @ rest" unfolding m(2) by (metis append_assoc)
  show "CHR 0x0A \<notin> set dropped" by (auto simp: m(3) not_nl_def dest: set_takeWhileD)
  show "rest = [] \<or> (\<exists>t. rest = CHR 0x0A # t)"
  proof (cases rest)
    case (Cons c t)
    then have "\<not> not_nl c" using m(4) by (metis hd_dropWhile list.sel(1) list.distinct(1))
    with Cons show ?thesis by (simp add: not_nl_def)
  qed simp
  show "keep \<noteq> []" by (simp add: m(2))
qed

lemma match_line_shorter:
  "match_line s = Some (keep, dropped, rest) \<Longrightarrow> rest \<noteq> [] \<Longrightarrow> length rest - Suc 0 < length s"
  by (drule match_line_Some(1)) (auto simp: length_greater_0_conv [symmetric] simp del: length_greater_0_conv)

lemma dropWhile_shorter: "c \<in> set s \<Longrightarrow> length (dropWhile P s) - Suc 0 < length s"
  by (cases s) (use length_dropWhile_le [of P s] in \<open>auto simp: Suc_le_eq split: if_splits\<close>)

text \<open>\<open>SECRET_LINE_PATTERN.sub\<close>\<close>

function redact_lines :: "string \<Rightarrow> string" where
  "redact_lines s = (case match_line s of
       Some (keep, dropped, rest) \<Rightarrow>
         keep @ external_secret @ (if rest = [] then [] else hd rest # redact_lines (tl rest))
     | None \<Rightarrow>
         (let rest = dropWhile not_nl s
          in takeWhile not_nl s @ (if rest = [] then [] else hd rest # redact_lines (tl rest))))"
  by pat_completeness auto
termination
  by (relation "measure length") (auto intro: match_line_shorter dropWhile_shorter)

declare redact_lines.simps [simp del]

section \<open>Files\<close>

text \<open>\<open>_canonical_mode\<close>: one constant for every file.\<close>

definition canonical_mode :: "path \<Rightarrow> nat" where
  "canonical_mode p = 420"

definition redacted_text :: "host \<Rightarrow> string \<Rightarrow> string \<Rightarrow> string res" where
  "redacted_text H sfx content =
     bindE (decode_utf8 content) (\<lambda>text.
       if sfx = ''.json'' then
         bindE (loads_strict text) (\<lambda>v. Inr (canonical_json (redact [] v)))
       else if sfx = ''.toml'' then
         bindE (someE (invalid ''TOMLDecodeError'') (toml_loads H text)) (\<lambda>v. Inr (canonical_json (redact [] v)))
       else Inr (redact_lines text))"

definition redacted_content :: "host \<Rightarrow> string \<Rightarrow> string \<Rightarrow> string" where
  "redacted_content H sfx content =
     (case redacted_text H sfx content of Inl e \<Rightarrow> content | Inr t \<Rightarrow> t)"

definition redacted_file_bytes :: "host \<Rightarrow> fs \<Rightarrow> path \<Rightarrow> string res" where
  "redacted_file_bytes H F p =
     bindE (read_bytes F p) (\<lambda>content.
       if length content > 8388608 then Inl (invalid ''machine-context capability file exceeds 8 MiB'')
       else Inr (redacted_content H (casefold (suffix_of p)) content))"

text \<open>The value an assignment to a secret name carries has no influence on the redacted text.\<close>

lemma takeWhile_stop: "x = [] \<or> \<not> P (hd x) \<Longrightarrow> (\<And>c. c \<in> set a \<Longrightarrow> P c) \<Longrightarrow> takeWhile P (a @ x) = a \<and> dropWhile P (a @ x) = x"
  by (cases x) (auto simp: takeWhile_append dropWhile_append)

lemma match_line_replace:
  assumes m: "match_line s = Some (keep, dropped, rest)"
    and d: "d \<noteq> []" "\<not> is_space (hd d)" "CHR 0x0A \<notin> set d"
  shows "match_line (keep @ d @ rest) = Some (keep, d, rest)"
proof -
  define b where "b = dropWhile is_space s"
  define r where "r = dropWhile seg_char b"
  define r2 where "r2 = dropWhile is_space r"
  define w1 where "w1 = takeWhile is_space s"
  define seg where "seg = takeWhile seg_char b"
  define w2 where "w2 = takeWhile is_space r"
  define w3 where "w3 = takeWhile is_space (tl r2)"
  have g: "is_secret_name seg" "r2 \<noteq> []" "hd r2 = CHR '':'' \<or> hd r2 = CHR ''=''"
      "keep = w1 @ seg @ w2 @ hd r2 # w3"
    using m by (auto simp: match_line_def Let_def b_def r_def r2_def w1_def seg_def w2_def w3_def split: if_splits)
  have sets: "\<And>c. c \<in> set w1 \<Longrightarrow> is_space c" "\<And>c. c \<in> set seg \<Longrightarrow> seg_char c"
      "\<And>c. c \<in> set w2 \<Longrightarrow> is_space c" "\<And>c. c \<in> set w3 \<Longrightarrow> is_space c"
    by (auto simp: w1_def seg_def w2_def w3_def dest: set_takeWhileD)
  have seg_ne: "seg \<noteq> []" using g(1) by (cases seg) (auto simp: is_secret_name_def secret_words_def casefold_def)
  have b_hd: "\<not> is_space (hd b)" if "b \<noteq> []" using that unfolding b_def by (rule hd_dropWhile)
  have seg_hd: "\<not> is_space (hd seg)"
    using seg_ne b_hd by (cases b) (auto simp: seg_def split: if_splits)
  have r_ne: "r \<noteq> []" using g(2) by (cases r) (simp_all add: r2_def)
  then have r_hd: "r \<noteq> [] \<and> \<not> seg_char (hd r)" unfolding r_def using hd_dropWhile by blast
  have w2r: "w2 @ r2 = r" by (simp add: w2_def r2_def)
  define x where "x = hd r2 # w3 @ d @ rest"
  have sep: "\<not> is_space (hd r2)" "\<not> seg_char (hd r2)"
    using g(3) by (auto simp: seg_char_def is_space_def)
  have h2: "\<not> seg_char (hd (w2 @ x))"
    using r_hd w2r g(2) by (cases w2; cases r2) (auto simp: x_def)
  have whole: "keep @ d @ rest = w1 @ seg @ w2 @ x" by (simp add: g(4) x_def)
  have s1: "takeWhile is_space (w1 @ seg @ w2 @ x) = w1 \<and> dropWhile is_space (w1 @ seg @ w2 @ x) = seg @ w2 @ x"
    by (rule takeWhile_stop) (use seg_hd seg_ne sets in auto)
  have s2: "takeWhile seg_char (seg @ w2 @ x) = seg \<and> dropWhile seg_char (seg @ w2 @ x) = w2 @ x"
    by (rule takeWhile_stop) (use h2 sets in auto)
  have s3: "takeWhile is_space (w2 @ x) = w2 \<and> dropWhile is_space (w2 @ x) = x"
    by (rule takeWhile_stop) (use sep sets in \<open>auto simp: x_def\<close>)
  have s4: "takeWhile is_space (w3 @ d @ rest) = w3 \<and> dropWhile is_space (w3 @ d @ rest) = d @ rest"
    by (rule takeWhile_stop) (use d sets in auto)
  have "rest = [] \<or> \<not> not_nl (hd rest)" using match_line_Some(3) [OF m] by (auto simp: not_nl_def)
  then have s5: "takeWhile not_nl (d @ rest) = d \<and> dropWhile not_nl (d @ rest) = rest"
    by (rule takeWhile_stop) (use d(3) in \<open>auto simp: not_nl_def\<close>)
  show ?thesis
    unfolding whole match_line_def Let_def using s1 s2 s3 s4 s5 g by (simp add: x_def)
qed

lemma redact_lines_replace:
  assumes "match_line s = Some (keep, dropped, rest)"
    and "d \<noteq> []" "\<not> is_space (hd d)" "CHR 0x0A \<notin> set d"
  shows "redact_lines (keep @ d @ rest) = redact_lines s"
  using match_line_replace [OF assms] assms(1) by (simp add: redact_lines.simps [of s] redact_lines.simps [of "keep @ d @ rest"])

lemma redacted_file_bytes_Inr:
  "redacted_file_bytes H F p = Inr c \<Longrightarrow>
     \<exists>b. read_bytes F p = Inr b \<and> length b \<le> 8388608 \<and> c = redacted_content H (casefold (suffix_of p)) b"
  by (auto simp: redacted_file_bytes_def bindE_Inr split: if_splits)

text \<open>A JSON file that parses is replaced by canonical JSON without secrets; a file that does
  not parse passes unchanged.\<close>

lemma redacted_json:
  "loads_strict c = Inr v \<Longrightarrow> utf8_valid c \<Longrightarrow> redacted_content H ''.json'' c = canonical_json (redact [] v)"
  "loads_strict c = Inl e \<Longrightarrow> redacted_content H ''.json'' c = c"
  by (auto simp: redacted_content_def redacted_text_def decode_utf8_def)

lemma redacted_toml:
  "toml_loads H c = Some v \<Longrightarrow> utf8_valid c \<Longrightarrow> redacted_content H ''.toml'' c = canonical_json (redact [] v)"
  by (auto simp: redacted_content_def redacted_text_def decode_utf8_def)

end
