(* ===== verification/Digests.thy ===== *)
theory Digests
  imports JsonRoundtrip FileSystem
begin

text \<open>
  Digests of documents. The program names a document by the SHA-256 of its canonical JSON;
  since nothing is assumed of SHA-256, equal digests mean the same document or two different
  texts, named in the statement, on which the hash collides. The locale \<open>fingerprint\<close> is the interface: an encoding that determines what it
  encodes, on the documents the engine writes.
\<close>

definition clash :: "host \<Rightarrow> string \<Rightarrow> string \<Rightarrow> bool" where
  "clash H a b = (a \<noteq> b \<and> sha256 H a = sha256 H b)"

lemma sha256_same: "sha256 H a = sha256 H b \<Longrightarrow> a = b \<or> clash H a b"
  by (auto simp: clash_def)

text \<open>\<open>f"sha256:{_sha256(_canonical_json(value))}"\<close>\<close>

definition digest :: "host \<Rightarrow> val \<Rightarrow> string" where
  "digest H v = ''sha256:'' @ sha256 H (canonical_json v)"

locale fingerprint =
  fixes enc :: "'a \<Rightarrow> string" and valid :: "'a \<Rightarrow> bool" and same :: "'a \<Rightarrow> 'a \<Rightarrow> bool"
  assumes enc_same: "valid x \<Longrightarrow> valid y \<Longrightarrow> enc x = enc y \<Longrightarrow> same x y"
    and same_enc: "valid x \<Longrightarrow> valid y \<Longrightarrow> same x y \<Longrightarrow> enc x = enc y"
begin

lemma hash_same: "valid x \<Longrightarrow> valid y \<Longrightarrow> sha256 H (enc x) = sha256 H (enc y) \<Longrightarrow> same x y \<or> clash H (enc x) (enc y)"
  using sha256_same enc_same by blast

lemma hash_iff:
  "valid x \<Longrightarrow> valid y \<Longrightarrow> \<not> clash H (enc x) (enc y) \<Longrightarrow> sha256 H (enc x) = sha256 H (enc y) \<longleftrightarrow> same x y"
  using hash_same same_enc by metis

lemma change_visible: "valid x \<Longrightarrow> valid y \<Longrightarrow> \<not> same x y \<Longrightarrow> \<not> clash H (enc x) (enc y) \<Longrightarrow> sha256 H (enc x) \<noteq> sha256 H (enc y)"
  using hash_same by blast

end

text \<open>A writer and a reader that inverts it up to a normal form; such an encoding is a
  fingerprint.\<close>

locale codec =
  fixes enc :: "'a \<Rightarrow> string" and dec :: "string \<Rightarrow> 'a res" and norm :: "'a \<Rightarrow> 'a"
    and valid :: "'a \<Rightarrow> bool"
  assumes dec_enc: "valid x \<Longrightarrow> dec (enc x) = Inr (norm x)"
    and enc_norm: "enc (norm x) = enc x"
begin

lemma enc_eq_iff: "valid x \<Longrightarrow> valid y \<Longrightarrow> enc x = enc y \<longleftrightarrow> norm x = norm y"
  by (metis dec_enc enc_norm sum.inject(2))

lemma rewrite_stable: "valid x \<Longrightarrow> dec (enc x) = Inr y \<Longrightarrow> enc y = enc x"
  using enc_norm [of x] by (simp add: dec_enc)

end

sublocale codec \<subseteq> fingerprint enc valid "\<lambda>x y. norm x = norm y"
  by unfold_locales (simp_all add: enc_eq_iff)

interpretation doc: codec canonical_json loads_strict canon plain
  by unfold_locales (rule loads_strict_canonical, assumption, simp add: canonical_json_def)

interpretation compact: codec compact_json "loads True" canon plain
  by unfold_locales (rule loads_compact, assumption, simp add: compact_json_def)

lemma digest_same: "plain v \<Longrightarrow> plain w \<Longrightarrow> digest H v = digest H w \<Longrightarrow> canon v = canon w \<or> clash H (canonical_json v) (canonical_json w)"
  unfolding digest_def using doc.hash_same by auto

text \<open>\<open>f"{n:04o}"\<close>: octal digits, padded to four places.\<close>

fun octal :: "nat \<Rightarrow> string" where
  "octal n = (if n < 8 then [digit_char n] else octal (n div 8) @ [digit_char (n mod 8)])"

declare octal.simps [simp del]

definition oct4 :: "nat \<Rightarrow> string" where
  "oct4 n = replicate (4 - length (octal n)) CHR ''0'' @ octal n"

definition read_octal :: "string \<Rightarrow> nat" where
  "read_octal s = foldl (\<lambda>a c. 8 * a + digit_val c) 0 s"

lemma read_octal [simp]: "read_octal (octal n) = n"
proof (induction n rule: octal.induct)
  case (1 n)
  show ?case
  proof (cases "n < 8")
    case True
    then show ?thesis by (simp add: octal.simps [of n] read_octal_def digit_char_props)
  next
    case False
    have "read_octal (octal n) = 8 * read_octal (octal (n div 8)) + digit_val (digit_char (n mod 8))"
      using False by (subst octal.simps) (simp add: read_octal_def)
    then show ?thesis using 1 False by (simp add: digit_char_props)
  qed
qed

lemma read_octal_zeros: "foldl (\<lambda>a c. 8 * a + digit_val c) 0 (replicate k CHR ''0'' @ s) = read_octal s"
  by (induction k) (simp_all add: read_octal_def digit_val_def)

lemma oct4_inj [simp]: "oct4 m = oct4 n \<longleftrightarrow> m = n"
  by (metis oct4_def read_octal read_octal_zeros)

lemma map_pair_snd_eq:
  assumes "map (\<lambda>(k, v). (k, f v)) xs = map (\<lambda>(k, v). (k, f v)) ys"
  shows "keys xs = keys ys" and "map (f \<circ> snd) xs = map (f \<circ> snd) ys"
  using arg_cong [OF assms, of "map fst"] arg_cong [OF assms, of "map snd"]
  by (simp_all add: keys_def case_prod_beta comp_def)

end
