(* ===== verification/Render.thy ===== *)
theory Render
  imports Closures Redaction Digests
begin

text \<open>
  The renderer of \<open>profile/cli.py\<close> (\<open>_render_tree\<close> and what it calls): one role and one
  client give a tree of files, relative path to content and mode. Every path goes through
  \<open>put\<close>, which refuses unsafe paths and paths that differ from an earlier one in case only.
\<close>

type_synonym rtree = "(string \<times> rendered_file) list"

section \<open>Text\<close>

definition toml_string :: "string \<Rightarrow> string" where
  "toml_string s = jstr s"

definition toml_array :: "string list \<Rightarrow> string" where
  "toml_array xs = ''['' @ join '', '' (map toml_string xs) @ '']''"

definition bare_key_char :: "char \<Rightarrow> bool" where
  "bare_key_char c = (is_lower c \<or> is_upper c \<or> is_digit c \<or> c = CHR ''_'' \<or> c = CHR ''-'')"

definition toml_key :: "string \<Rightarrow> string" where
  "toml_key s = (if s \<noteq> [] \<and> list_all bare_key_char s then s else toml_string s)"

definition nl1 :: string where
  "nl1 = [CHR 0x0A]"

definition codex_server_lines :: "mcp_def \<Rightarrow> string list" where
  "codex_server_lines m =
     [[], ''[mcp_servers.'' @ mcp_name m @ '']'', ''command = '' @ toml_string (mcp_command m),
      ''args = '' @ toml_array (mcp_args m), ''required = true'']
     @ (if mcp_env m = [] then []
        else [[], ''[mcp_servers.'' @ mcp_name m @ ''.env]'']
             @ map (\<lambda>(k, v). toml_key k @ '' = '' @ toml_string v) (sort_key fst (mcp_env m)))"

definition codex_config :: "mcp_def list \<Rightarrow> string" where
  "codex_config ms =
     join nl1 ((''cli_auth_credentials_store = '' @ [CHR 0x22] @ ''file'' @ [CHR 0x22])
               # concat (map codex_server_lines ms)) @ nl1"

definition mcp_fields :: "mcp_def \<Rightarrow> dict" where
  "mcp_fields m = [(''command'', VStr (mcp_command m)), (''args'', VList (map VStr (mcp_args m))),
     (''env'', VDict (dict_of (map (\<lambda>(k, v). (k, VStr v)) (mcp_env m))))]"

definition servers_json :: "(mcp_def \<Rightarrow> dict) \<Rightarrow> mcp_def list \<Rightarrow> string" where
  "servers_json f ms =
     canonical_json (VDict [(''mcpServers'', VDict (dict_of (map (\<lambda>m. (mcp_name m, VDict (f m))) ms)))])"

definition qoder_mcp :: "mcp_def list \<Rightarrow> string" where
  "qoder_mcp ms = servers_json mcp_fields ms"

definition claude_mcp :: "mcp_def list \<Rightarrow> string" where
  "claude_mcp ms = servers_json (\<lambda>m. (''type'', VStr ''stdio'') # mcp_fields m) ms"

definition omp_mcp :: "mcp_def list \<Rightarrow> string" where
  "omp_mcp ms = servers_json (\<lambda>m. (''type'', VStr ''stdio'') # mcp_fields m) ms"

definition profile_prompt :: "fs \<Rightarrow> profile \<Rightarrow> string res" where
  "profile_prompt F P =
     bindE (mapE (read_nonempty_text F) (p_prompt_chain P)) (\<lambda>texts.
     Inr (join (nl1 @ nl1) texts @ nl1))"

section \<open>The tree\<close>

definition validate_client :: "string \<Rightarrow> unit res" where
  "validate_client client = raise_if (client \<notin> set CLIENTS) (invalid ''unknown client'')"

text \<open>\<open>put\<close>: \<open>folded_paths\<close> holds the case-folded keys of the tree.\<close>

definition put :: "rtree \<Rightarrow> string \<times> rendered_file \<Rightarrow> rtree res" where
  "put t entry = (case entry of (p, rf) \<Rightarrow>
     bindE (safe_relative p) (\<lambda>parts.
       let relative = posix parts in
       if relative \<in> set (keys t) \<or> casefold relative \<in> set (map casefold (keys t))
       then Inl (invalid ''render path conflict'')
       else Inr (t @ [(relative, rf)])))"

definition plain_file :: "string \<Rightarrow> rendered_file" where
  "plain_file c = \<lparr>rf_content = c, rf_mode = 420\<rparr>"

definition client_files :: "string \<Rightarrow> string \<Rightarrow> mcp_def list \<Rightarrow> (string \<times> rendered_file) list res" where
  "client_files client prompt ms =
     (if client = ''codex'' then
        Inr [(''config.toml'', plain_file (codex_config ms)), (''AGENTS.md'', plain_file prompt)]
      else if client = ''qoder'' then
        Inr [(''settings.json'', plain_file (''{}'' @ nl1)), (''mcp.json'', plain_file (qoder_mcp ms)),
             (''system-prompt.md'', plain_file prompt)]
      else if client = ''claude'' then
        Inr [(''claude-config.yaml'', plain_file (''{}'' @ nl1)), (''mcp.json'', plain_file (claude_mcp ms)),
             (''system-prompt.md'', plain_file prompt)]
      else if client = ''omp'' then
        Inr [(''config.yml'', plain_file (''{}'' @ nl1)), (''mcp.json'', plain_file (omp_mcp ms)),
             (''system-prompt.md'', plain_file prompt)]
      else Inl (invalid ''client has no renderer''))"

definition render_file :: "host \<Rightarrow> fs \<Rightarrow> string \<Rightarrow> path \<Rightarrow> rtree \<Rightarrow> path \<Rightarrow> rtree res" where
  "render_file H F pre root t source =
     bindE (redacted_file_bytes H F source) (\<lambda>c.
       put t (pre @ rel_posix root source, \<lparr>rf_content = c, rf_mode = canonical_mode source\<rparr>))"

definition files_below :: "fs \<Rightarrow> path \<Rightarrow> path list" where
  "files_below F root = filter (is_file F) (rglob F root)"

definition render_skill :: "host \<Rightarrow> fs \<Rightarrow> (string \<times> path) list \<Rightarrow> rtree \<Rightarrow> string \<Rightarrow> rtree res" where
  "render_skill H F origins t skill =
     bindE (someE (invalid ''skill has no verified source'') (map_of origins skill)) (\<lambda>root.
       if files_below F root = [] then Inl (invalid ''skill rendered no files'')
       else foldE (render_file H F (''skills/'' @ skill @ ''/'') root) t (files_below F root))"

definition render_target ::
    "host \<Rightarrow> fs \<Rightarrow> string \<Rightarrow> (string \<times> path) list \<Rightarrow> rtree \<Rightarrow> string \<Rightarrow> rtree res" where
  "render_target H F client origins t nm =
     bindE (someE (invalid ''capability has no verified source'') (map_of origins nm)) (\<lambda>root.
       let target = root @ [''targets'', client] in
       if \<not> is_dir F target \<or> is_symlink F target then Inl (invalid ''lacks required client target'')
       else foldE (render_file H F [] target) t (files_below F target))"

definition origins_of :: "profile \<Rightarrow> string \<Rightarrow> (string \<times> path) list res" where
  "origins_of P field = someE (KeyError field) (map_of (p_origins P) field)"

definition render_tree :: "host \<Rightarrow> fs \<Rightarrow> project \<Rightarrow> string \<Rightarrow> profile \<Rightarrow> rtree res" where
  "render_tree H F proj client P =
     bindE (validate_client client) (\<lambda>_.
     bindE (profile_prompt F P) (\<lambda>prompt.
     bindE (mapE (\<lambda>n. someE (KeyError n) (map_of (pr_mcps proj) n)) (p_mcps P)) (\<lambda>ms.
     bindE (client_files client prompt ms) (\<lambda>base.
     bindE (foldE put [] base) (\<lambda>t0.
     bindE (foldE (\<lambda>t s. bindE (origins_of P ''skills'') (\<lambda>os. render_skill H F os t s)) t0 (p_skills P)) (\<lambda>t1.
     bindE (foldE (\<lambda>t n. bindE (origins_of P ''hooks'') (\<lambda>os. render_target H F client os t n)) t1 (p_hooks P)) (\<lambda>t2.
     bindE (foldE (\<lambda>t n. bindE (origins_of P ''plugins'') (\<lambda>os. render_target H F client os t n)) t2 (p_plugins P)) (\<lambda>t3.
     Inr (sort_key fst t3)))))))))"

definition tree_records :: "host \<Rightarrow> rtree \<Rightarrow> val" where
  "tree_records H t =
     VDict (map (\<lambda>(p, rf). (p, VDict [(''mode'', VStr (oct4 (rf_mode rf))),
       (''sha256'', VStr (sha256 H (rf_content rf)))])) (sort_key fst t))"

definition tree_hash :: "host \<Rightarrow> rtree \<Rightarrow> string" where
  "tree_hash H t = digest H (tree_records H t)"

text \<open>\<open>_rendered_text\<close> and \<open>_rendered_skill_names\<close> read a rendered tree back.\<close>

definition rendered_text :: "rtree \<Rightarrow> string \<Rightarrow> bool \<Rightarrow> string res" where
  "rendered_text t relative require_nonempty =
     bindE (someE (invalid ''must be rendered UTF-8 text'') (map_of t relative)) (\<lambda>rf.
     bindE (wrapE (\<lambda>_. invalid ''must be rendered UTF-8 text'') (decode_utf8 (rf_content rf))) (\<lambda>text.
     if require_nonempty \<and> strip text = [] then Inl (invalid ''must be non-empty'') else Inr (strip text)))"

definition skill_of_path :: "string \<Rightarrow> string list" where
  "skill_of_path relative =
     (case parse_parts relative of
        d # skill # _ # _ \<Rightarrow> (if d = ''skills'' then [skill] else [])
      | _ \<Rightarrow> [])"

definition rendered_skill_names :: "rtree \<Rightarrow> string list res" where
  "rendered_skill_names t =
     (let names = sorted_set (concat (map skill_of_path (keys t)))
      in bindE (mapE (\<lambda>n. validate_identifier (VStr n)) names) (\<lambda>_. Inr names))"

section \<open>Well-formed trees\<close>

definition wf_tree :: "rtree \<Rightarrow> bool" where
  "wf_tree t \<longleftrightarrow> distinct (map casefold (keys t)) \<and> (\<forall>(p, rf) \<in> set t. rf_mode rf = 420)
     \<and> (\<forall>p \<in> set (keys t). p = ''.'' \<or> (\<exists>ws. ws \<noteq> [] \<and> (\<forall>w \<in> set ws. safe_part w) \<and> p = join ''/'' ws))"

lemma posix_of_safe: "safe_relative p = Inr ps \<Longrightarrow> posix ps = p"
  by (auto simp: safe_relative_Inr posix_def)

lemma put_Inr:
  assumes "put t (p, rf) = Inr t'"
  shows "t' = t @ [(p, rf)]" and "casefold p \<notin> set (map casefold (keys t))"
    and "p = ''.'' \<or> (\<exists>ws. ws \<noteq> [] \<and> (\<forall>w \<in> set ws. safe_part w) \<and> p = join ''/'' ws)"
  using assms by (auto simp: put_def bindE_Inr Let_def posix_of_safe safe_relative_Inr split: if_splits)

lemma put_wf: "put t (p, rf) = Inr t' \<Longrightarrow> rf_mode rf = 420 \<Longrightarrow> wf_tree t \<Longrightarrow> wf_tree t'"
  using put_Inr [of t p rf t'] by (auto simp: wf_tree_def keys_def)

lemma put_extends: "put t e = Inr t' \<Longrightarrow> prefix t t'"
  by (cases e) (auto dest: put_Inr(1))

lemma foldE_extends:
  assumes "foldE f t xs = Inr t'" and "\<And>t x t'. x \<in> set xs \<Longrightarrow> f t x = Inr t' \<Longrightarrow> prefix t t'"
  shows "prefix t t'"
  using assms
proof (induction xs arbitrary: t)
  case (Cons x xs)
  then obtain s where s: "f t x = Inr s" "foldE f s xs = Inr t'" by (auto simp: bindE_Inr)
  have "prefix t s" using Cons.prems(2) s(1) by auto
  moreover have "prefix s t'" by (rule Cons.IH [OF s(2)]) (use Cons.prems(2) in auto)
  ultimately show ?case by (rule prefix_order.trans)
qed simp

lemma render_file_Inr:
  "render_file H F pre root t s = Inr t' \<Longrightarrow>
     \<exists>c. redacted_file_bytes H F s = Inr c \<and> put t (pre @ rel_posix root s, \<lparr>rf_content = c, rf_mode = 420\<rparr>) = Inr t'"
  by (auto simp: render_file_def bindE_Inr canonical_mode_def)

lemma render_file_wf: "render_file H F pre root t s = Inr t' \<Longrightarrow> wf_tree t \<Longrightarrow> wf_tree t'"
  by (auto dest!: render_file_Inr intro: put_wf)

lemma render_file_extends: "render_file H F pre root t s = Inr t' \<Longrightarrow> prefix t t'"
  by (auto dest!: render_file_Inr intro: put_extends)

lemma render_skill_Inr:
  assumes "render_skill H F os t s = Inr t'"
  shows "wf_tree t \<Longrightarrow> wf_tree t'" and "prefix t t'"
    and "\<exists>root q c. map_of os s = Some root \<and> q \<in> set (files_below F root)
       \<and> redacted_file_bytes H F q = Inr c
       \<and> (''skills/'' @ s @ ''/'' @ rel_posix root q, \<lparr>rf_content = c, rf_mode = 420\<rparr>) \<in> set t'"
proof -
  obtain root where r: "map_of os s = Some root" "files_below F root \<noteq> []"
      "foldE (render_file H F (''skills/'' @ s @ ''/'') root) t (files_below F root) = Inr t'"
    using assms unfolding render_skill_def by (elim stepsE) (auto simp: someE_Inr)
  show "wf_tree t \<Longrightarrow> wf_tree t'" by (rule foldE_invariant [OF r(3)]) (auto intro: render_file_wf)
  show "prefix t t'" by (rule foldE_extends [OF r(3)]) (rule render_file_extends)
  obtain q qs where q: "files_below F root = q # qs" using r(2) by (cases "files_below F root") auto
  obtain t1 where t1: "render_file H F (''skills/'' @ s @ ''/'') root t q = Inr t1"
      "foldE (render_file H F (''skills/'' @ s @ ''/'') root) t1 qs = Inr t'"
    using r(3) by (auto simp: q bindE_Inr)
  obtain c where c: "redacted_file_bytes H F q = Inr c"
      "put t ((''skills/'' @ s @ ''/'') @ rel_posix root q, \<lparr>rf_content = c, rf_mode = 420\<rparr>) = Inr t1"
    using render_file_Inr [OF t1(1)] by blast
  have "prefix t1 t'" by (rule foldE_extends [OF t1(2)]) (rule render_file_extends)
  then have "((''skills/'' @ s @ ''/'') @ rel_posix root q, \<lparr>rf_content = c, rf_mode = 420\<rparr>) \<in> set t'"
    using put_Inr(1) [OF c(2)] set_mono_prefix by fastforce
  then show "\<exists>root q c. map_of os s = Some root \<and> q \<in> set (files_below F root)
       \<and> redacted_file_bytes H F q = Inr c
       \<and> (''skills/'' @ s @ ''/'' @ rel_posix root q, \<lparr>rf_content = c, rf_mode = 420\<rparr>) \<in> set t'"
    using r(1) q c(1) by auto
qed

lemma render_target_Inr:
  assumes "render_target H F client os t n = Inr t'"
  shows "wf_tree t \<Longrightarrow> wf_tree t'" and "prefix t t'"
proof -
  obtain root where r: "foldE (render_file H F [] (root @ [''targets'', client])) t
      (files_below F (root @ [''targets'', client])) = Inr t'"
    using assms unfolding render_target_def Let_def by (elim stepsE)
  show "wf_tree t \<Longrightarrow> wf_tree t'" by (rule foldE_invariant [OF r]) (auto intro: render_file_wf)
  show "prefix t t'" by (rule foldE_extends [OF r]) (rule render_file_extends)
qed

text \<open>A later part of the rendering keeps what an earlier part put into the tree.\<close>

lemma foldE_put_wf:
  "foldE put t es = Inr t' \<Longrightarrow> \<forall>(p, rf) \<in> set es. rf_mode rf = 420 \<Longrightarrow> wf_tree t \<Longrightarrow> wf_tree t'"
  by (rule foldE_invariant) (auto intro: put_wf)

lemma foldE_put: "foldE put t es = Inr t' \<Longrightarrow> t' = t @ es"
proof (induction es arbitrary: t)
  case (Cons e es)
  then obtain t1 where t1: "put t e = Inr t1" "foldE put t1 es = Inr t'" by (auto simp: bindE_Inr)
  then have "t1 = t @ [e]" by (cases e) (auto dest: put_Inr(1))
  with Cons.IH [OF t1(2)] show ?case by simp
qed simp

lemma client_files_mode: "client_files client prompt ms = Inr es \<Longrightarrow> \<forall>(p, rf) \<in> set es. rf_mode rf = 420"
  by (auto simp: client_files_def plain_file_def split: if_splits)

definition prompt_file :: "string \<Rightarrow> string" where
  "prompt_file client = (if client = ''codex'' then ''AGENTS.md'' else ''system-prompt.md'')"

lemma client_files_prompt:
  "client_files client prompt ms = Inr es \<Longrightarrow> (prompt_file client, plain_file prompt) \<in> set es"
  by (auto simp: client_files_def prompt_file_def split: if_splits)

lemma render_tree_steps:
  assumes "render_tree H F proj client P = Inr t"
  obtains prompt ms base t1 t2 t3 where
    "client \<in> set CLIENTS" "profile_prompt F P = Inr prompt"
    "mapE (\<lambda>n. someE (KeyError n) (map_of (pr_mcps proj) n)) (p_mcps P) = Inr ms"
    "client_files client prompt ms = Inr base" "foldE put [] base = Inr base"
    "foldE (\<lambda>t s. bindE (origins_of P ''skills'') (\<lambda>os. render_skill H F os t s)) base (p_skills P) = Inr t1"
    "foldE (\<lambda>t n. bindE (origins_of P ''hooks'') (\<lambda>os. render_target H F client os t n)) t1 (p_hooks P) = Inr t2"
    "foldE (\<lambda>t n. bindE (origins_of P ''plugins'') (\<lambda>os. render_target H F client os t n)) t2 (p_plugins P) = Inr t3"
    "t = sort_key fst t3"
proof -
  obtain prompt ms base t0 t1 t2 t3 where
    "client \<in> set CLIENTS" "profile_prompt F P = Inr prompt"
    "mapE (\<lambda>n. someE (KeyError n) (map_of (pr_mcps proj) n)) (p_mcps P) = Inr ms"
    "client_files client prompt ms = Inr base" "foldE put [] base = Inr t0"
    "foldE (\<lambda>t s. bindE (origins_of P ''skills'') (\<lambda>os. render_skill H F os t s)) t0 (p_skills P) = Inr t1"
    "foldE (\<lambda>t n. bindE (origins_of P ''hooks'') (\<lambda>os. render_target H F client os t n)) t1 (p_hooks P) = Inr t2"
    "foldE (\<lambda>t n. bindE (origins_of P ''plugins'') (\<lambda>os. render_target H F client os t n)) t2 (p_plugins P) = Inr t3"
    "t = sort_key fst t3"
    using assms unfolding render_tree_def validate_client_def
    by (elim stepsE) (auto simp: raise_if_Inr)
  moreover from this(5) have "t0 = base" using foldE_put by fastforce
  ultimately show ?thesis using that by blast
qed

lemma sort_key_wf: "wf_tree (sort_key fst t) \<longleftrightarrow> wf_tree t"
  by (simp add: wf_tree_def keys_def distinct_map)

lemma render_tree_Inr:
  assumes "render_tree H F proj client P = Inr t"
  shows "wf_tree t" and "sorted (keys t)"
    and "\<exists>prompt. profile_prompt F P = Inr prompt \<and> (prompt_file client, plain_file prompt) \<in> set t"
    and "s \<in> set (p_skills P) \<Longrightarrow> \<exists>os root q c. map_of (p_origins P) ''skills'' = Some os
       \<and> map_of os s = Some root \<and> q \<in> set (files_below F root) \<and> redacted_file_bytes H F q = Inr c
       \<and> (''skills/'' @ s @ ''/'' @ rel_posix root q, \<lparr>rf_content = c, rf_mode = 420\<rparr>) \<in> set t"
proof -
  obtain prompt ms base t1 t2 t3 where r:
    "client \<in> set CLIENTS" "profile_prompt F P = Inr prompt"
    "mapE (\<lambda>n. someE (KeyError n) (map_of (pr_mcps proj) n)) (p_mcps P) = Inr ms"
    "client_files client prompt ms = Inr base" "foldE put [] base = Inr base"
    "foldE (\<lambda>t s. bindE (origins_of P ''skills'') (\<lambda>os. render_skill H F os t s)) base (p_skills P) = Inr t1"
    "foldE (\<lambda>t n. bindE (origins_of P ''hooks'') (\<lambda>os. render_target H F client os t n)) t1 (p_hooks P) = Inr t2"
    "foldE (\<lambda>t n. bindE (origins_of P ''plugins'') (\<lambda>os. render_target H F client os t n)) t2 (p_plugins P) = Inr t3"
    "t = sort_key fst t3"
    by (rule render_tree_steps [OF assms])
  have w0: "wf_tree base" using foldE_put_wf [OF r(5) client_files_mode [OF r(4)]] by (simp add: wf_tree_def)
  have w1: "wf_tree t1" by (rule foldE_invariant [OF r(6)]) (auto simp: bindE_Inr intro: render_skill_Inr(1) w0)
  have w2: "wf_tree t2" by (rule foldE_invariant [OF r(7)]) (auto simp: bindE_Inr intro: render_target_Inr(1) w1)
  have w3: "wf_tree t3" by (rule foldE_invariant [OF r(8)]) (auto simp: bindE_Inr intro: render_target_Inr(1) w2)
  show "wf_tree t" using w3 by (simp add: r(9) sort_key_wf)
  show "sorted (keys t)" by (simp add: r(9) keys_def)
  have p1: "prefix base t1" by (rule foldE_extends [OF r(6)]) (auto simp: bindE_Inr intro: render_skill_Inr(2))
  have p2: "prefix t1 t2" by (rule foldE_extends [OF r(7)]) (auto simp: bindE_Inr intro: render_target_Inr(2))
  have p3: "prefix t2 t3" by (rule foldE_extends [OF r(8)]) (auto simp: bindE_Inr intro: render_target_Inr(2))
  have sub: "set base \<subseteq> set t" "set t1 \<subseteq> set t"
    using set_mono_prefix [OF p1] set_mono_prefix [OF p2] set_mono_prefix [OF p3] by (auto simp: r(9))
  show "\<exists>prompt. profile_prompt F P = Inr prompt \<and> (prompt_file client, plain_file prompt) \<in> set t"
    using client_files_prompt [OF r(4)] sub(1) r(2) by blast
  assume s: "s \<in> set (p_skills P)"
  then obtain xs ys where split: "p_skills P = xs @ s # ys" by (meson split_list)
  let ?f = "\<lambda>t s. bindE (origins_of P ''skills'') (\<lambda>os. render_skill H F os t s)"
  obtain ta where a: "foldE ?f base xs = Inr ta" "foldE ?f ta (s # ys) = Inr t1"
    using r(6) unfolding split foldE_append by (auto simp: bindE_Inr)
  then obtain tb where b: "?f ta s = Inr tb" "foldE ?f tb ys = Inr t1" by (auto simp: bindE_Inr)
  from b(1) obtain os where os: "map_of (p_origins P) ''skills'' = Some os" "render_skill H F os ta s = Inr tb"
    by (auto simp: bindE_Inr origins_of_def someE_Inr)
  have "prefix tb t1" by (rule foldE_extends [OF b(2)]) (auto simp: bindE_Inr intro: render_skill_Inr(2))
  then have "set tb \<subseteq> set t" using sub(2) set_mono_prefix by blast
  with render_skill_Inr(3) [OF os(2)] os(1)
  show "\<exists>os root q c. map_of (p_origins P) ''skills'' = Some os
       \<and> map_of os s = Some root \<and> q \<in> set (files_below F root) \<and> redacted_file_bytes H F q = Inr c
       \<and> (''skills/'' @ s @ ''/'' @ rel_posix root q, \<lparr>rf_content = c, rf_mode = 420\<rparr>) \<in> set t"
    by blast
qed

section \<open>Tree hashes\<close>

lemma wf_tree_distinct: "wf_tree t \<Longrightarrow> distinct (keys t)"
  by (auto simp: wf_tree_def distinct_map)

lemma plain_tree_records: "wf_tree t \<Longrightarrow> plain (tree_records H t)"
  using wf_tree_distinct [of t]
  by (auto simp: tree_records_def keys_def distinct_map comp_def case_prod_beta)

text \<open>Two files of the two trees with different contents and the same hash.\<close>

definition tree_clash :: "host \<Rightarrow> rtree \<Rightarrow> rtree \<Rightarrow> bool" where
  "tree_clash H t u \<longleftrightarrow> (\<exists>x \<in> set t. \<exists>y \<in> set u. clash H (rf_content (snd x)) (rf_content (snd y)))"

lemma tree_records_inj:
  assumes "wf_tree t" and "wf_tree u" and "sorted (keys t)" and "sorted (keys u)"
    and "canon (tree_records H t) = canon (tree_records H u)"
  shows "t = u \<or> tree_clash H t u"
proof (cases "tree_clash H t u")
  case False
  define g :: "rendered_file \<Rightarrow> val" where "g = (\<lambda>rf. VDict [(''mode'', VStr (oct4 (rf_mode rf))), (''sha256'', VStr (sha256 H (rf_content rf)))])"
  have "(''mode'' :: string) \<le> ''sha256''" by code_simp
  then have can: "canon (g rf) = g rf" for rf by (simp add: g_def)
  have form: "canon (tree_records H t) = VDict (map (\<lambda>(p, rf). (p, g rf)) t)" if "sorted (keys t)" for t
  proof -
    have st: "sort_key fst t = t" using that by (simp add: sort_key_id_if_sorted keys_def)
    have "canon (tree_records H t) = VDict (sort_key fst (map (\<lambda>(p, rf). (p, g rf)) t))"
      using can by (simp add: tree_records_def st g_def case_prod_beta' comp_def)
    then show ?thesis by (simp add: sort_key_pairs st)
  qed
  have eq: "map (\<lambda>(p, rf). (p, g rf)) t = map (\<lambda>(p, rf). (p, g rf)) u"
    using assms(5) form assms(3,4) by simp
  have inj: "rf = rf'" if "g rf = g rf'" and "\<not> clash H (rf_content rf) (rf_content rf')" for rf rf'
    using that sha256_same [of H] by (cases rf; cases rf') (auto simp: g_def)
  have "t = u"
    using eq False unfolding tree_clash_def
  proof (induction t arbitrary: u)
    case (Cons x t)
    obtain p rf where x: "x = (p, rf)" by (cases x)
    obtain rf' u' where u: "u = (p, rf') # u'" "g rf = g rf'" "map (\<lambda>(p, rf). (p, g rf)) t = map (\<lambda>(p, rf). (p, g rf)) u'"
      using Cons.prems(1) by (cases u) (auto simp: x)
    have "t = u'" using Cons.prems(2) by (intro Cons.IH [OF u(3)]) (auto simp: u(1) x)
    moreover have "rf = rf'" using Cons.prems(2) by (intro inj [OF u(2)]) (auto simp: u(1) x)
    ultimately show ?case by (simp add: u(1) x)
  qed simp
  then show ?thesis by blast
qed simp

interpretation tree: fingerprint "\<lambda>t. canonical_json (tree_records H t)" "\<lambda>t. wf_tree t \<and> sorted (keys t)"
    "\<lambda>t u. t = u \<or> (tree_clash H t u \<and> canonical_json (tree_records H t) = canonical_json (tree_records H u))"
  for H
  by unfold_locales (auto simp: canonical_json_inj plain_tree_records dest: tree_records_inj)

lemma tree_hash_same:
  "wf_tree t \<Longrightarrow> wf_tree u \<Longrightarrow> sorted (keys t) \<Longrightarrow> sorted (keys u) \<Longrightarrow>
     tree_hash H t = tree_hash H u \<Longrightarrow>
     t = u \<or> tree_clash H t u \<or> clash H (canonical_json (tree_records H t)) (canonical_json (tree_records H u))"
  unfolding tree_hash_def digest_def using tree.hash_same [of t u H H] by auto

text \<open>The JSON reader reads a rendered TOML string back: the quoting loses nothing.\<close>

lemma toml_string_reads: "jstring (length (toml_string s)) (tl (toml_string s @ rest)) = Inr (s, rest)"
  unfolding toml_string_def by (rule jstring_jstr) simp

end
