(* ===== verification/Pollution.thy ===== *)
theory Pollution
  imports Validate
begin

text \<open>
  Capability files a client would discover on its own: \<open>_check_project_pollution\<close> refuses
  them anywhere below the project root, except the store, the Git directory and a published
  marketplace whose two manifests agree (\<open>_managed_publication_paths\<close>).
\<close>

definition path_key :: "string \<Rightarrow> string" where
  "path_key value = casefold (map (\<lambda>c. if c = CHR 0x5C then CHR ''/'' else c) value)"

text \<open>\<open>v.get(key)\<close> of a value that need not be a dictionary.\<close>

definition get_attr :: "val \<Rightarrow> string \<Rightarrow> val res" where
  "get_attr v key = bindE (someE (AttributeError ''get'') (as_dict v)) (\<lambda>d. Inr (get d key))"

section \<open>Published marketplaces\<close>

definition managed_repository :: string where
  "managed_repository = ''https://github.com/zaurakworks/agent-system''"

definition named_version :: "(string \<times> string) list \<Rightarrow> dict \<Rightarrow> (string \<times> string) option" where
  "named_version seen plugin =
     (case (as_str (get plugin ''name''), as_str (get plugin ''version'')) of
        (Some nm, Some ver) \<Rightarrow>
          (if is_identifier nm \<and> nm \<notin> set (keys seen) \<and> ver \<noteq> [] then Some (nm, ver) else None)
      | _ \<Rightarrow> None)"

definition manifest_agrees :: "string \<Rightarrow> string \<Rightarrow> val \<Rightarrow> bool res" where
  "manifest_agrees nm ver manifest =
     bindE (someE (AttributeError ''get'') (as_dict manifest)) (\<lambda>m.
     Inr (get m ''name'' = VStr nm \<and> get m ''version'' = VStr ver
          \<and> get m ''repository'' = VStr managed_repository \<and> get m ''skills'' = VStr ''./skills/''))"

definition plugin_paths_ok :: "fs \<Rightarrow> path \<Rightarrow> bool" where
  "plugin_paths_ok F plugin_root =
     (let cr = plugin_root @ [''.codex-plugin'']; cm = cr @ [''plugin.json''];
          lr = plugin_root @ [''.claude-plugin'']; lm = lr @ [''plugin.json'']
      in is_dir F plugin_root \<and> \<not> is_symlink F plugin_root \<and> \<not> is_symlink F cr \<and> \<not> is_symlink F cm
         \<and> \<not> is_symlink F lr \<and> \<not> is_symlink F lm \<and> is_file F cm \<and> is_file F lm)"

text \<open>One entry of the Codex marketplace: \<open>None\<close> stands for the early return.\<close>

definition codex_plugin :: "fs \<Rightarrow> path \<Rightarrow> (string \<times> string) list \<Rightarrow> val \<Rightarrow> (string \<times> string) option res" where
  "codex_plugin F root seen v =
     (case Option.bind (as_dict v) (\<lambda>p. Option.bind (named_version seen p) (\<lambda>nv. Option.bind (as_dict (get p ''source'')) (\<lambda>src.
         if get src ''source'' = VStr ''local'' \<and> get src ''path'' = VStr (''./plugins/'' @ fst nv)
            \<and> plugin_paths_ok F (root @ [''plugins'', fst nv])
         then Some nv else None))) of
        None \<Rightarrow> Inr None
      | Some nv \<Rightarrow>
          (let pr = root @ [''plugins'', fst nv] in
           case (strict_json F (pr @ [''.codex-plugin'', ''plugin.json'']),
                 strict_json F (pr @ [''.claude-plugin'', ''plugin.json''])) of
             (Inr cm, Inr lm) \<Rightarrow>
               bindE (manifest_agrees (fst nv) (snd nv) cm) (\<lambda>a.
               if \<not> a then Inr None else
               bindE (manifest_agrees (fst nv) (snd nv) lm) (\<lambda>b.
               Inr (if b then Some nv else None)))
           | _ \<Rightarrow> Inr None))"

fun codex_plugins :: "fs \<Rightarrow> path \<Rightarrow> (string \<times> string) list \<Rightarrow> val list \<Rightarrow> (string \<times> string) list option res" where
  "codex_plugins F root seen [] = Inr (Some seen)"
| "codex_plugins F root seen (v # vs) =
     bindE (codex_plugin F root seen v) (\<lambda>r. case r of
       None \<Rightarrow> Inr None | Some nv \<Rightarrow> codex_plugins F root (seen @ [nv]) vs)"

fun claude_plugins :: "(string \<times> string) list \<Rightarrow> val list \<Rightarrow> (string \<times> string) list option" where
  "claude_plugins seen [] = Some seen"
| "claude_plugins seen (v # vs) =
     Option.bind (as_dict v) (\<lambda>p. Option.bind (named_version seen p) (\<lambda>nv.
       if get p ''source'' = VStr (''./plugins/'' @ fst nv) then claude_plugins (seen @ [nv]) vs else None))"

definition plugin_publication :: "string \<Rightarrow> string list" where
  "plugin_publication nm = map path_key
     [''plugins/'' @ nm @ ''/.codex-plugin'', ''plugins/'' @ nm @ ''/.codex-plugin/plugin.json'',
      ''plugins/'' @ nm @ ''/.claude-plugin'', ''plugins/'' @ nm @ ''/.claude-plugin/plugin.json'']"

definition marketplace_publication :: "string list" where
  "marketplace_publication = map path_key
     [''.agents'', ''.agents/plugins'', ''.agents/plugins/marketplace.json'',
      ''.claude-plugin'', ''.claude-plugin/marketplace.json'']"

definition claude_entry_paths :: "fs \<Rightarrow> path \<Rightarrow> string list res" where
  "claude_entry_paths F root =
     (let p = root @ [''CLAUDE.md''] in
      if is_file F p \<and> \<not> is_symlink F p then
        bindE (read_text F p) (\<lambda>t. Inr (if t = ''@AGENTS.md'' @ [CHR 0x0A] then [path_key ''CLAUDE.md''] else []))
      else Inr [])"

definition managed_publication_paths :: "fs \<Rightarrow> path \<Rightarrow> string list res" where
  "managed_publication_paths F root =
     bindE (claude_entry_paths F root) (\<lambda>allowed.
     let cm = root @ [''.agents'', ''plugins'', ''marketplace.json''];
         lm = root @ [''.claude-plugin'', ''marketplace.json''] in
     if list_ex (is_symlink F) [root @ [''.agents''], root @ [''.agents'', ''plugins''], cm, root @ [''.claude-plugin''], lm]
        \<or> \<not> is_file F cm \<or> \<not> is_file F lm then Inr allowed
     else case (strict_json F cm, strict_json F lm) of
       (Inr cp, Inr lp) \<Rightarrow>
         bindE (get_attr cp ''plugins'') (\<lambda>cps.
         bindE (get_attr lp ''plugins'') (\<lambda>lps.
         if \<not> is_list cps \<or> \<not> is_list lps then Inr allowed else
         bindE (codex_plugins F root [] (the (as_list cps))) (\<lambda>cvs.
         case (cvs, claude_plugins [] (the (as_list lps))) of
           (Some cv, Some lv) \<Rightarrow>
             (if cv \<noteq> [] \<and> sort_key fst cv = sort_key fst lv
              then Inr (allowed @ marketplace_publication @ concat (map (plugin_publication \<circ> fst) cv))
              else Inr allowed)
         | _ \<Rightarrow> Inr allowed)))
     | _ \<Rightarrow> Inr allowed)"

section \<open>The check\<close>

definition bypasses :: "string list \<Rightarrow> bool" where
  "bypasses rel =
     (list_ex (\<lambda>w. path_key w \<in> set (map path_key PROJECT_BYPASS_DIRS)) rel
      \<or> path_key (posix rel) \<in> set (map path_key PROJECT_BYPASS_PATHS)
      \<or> (path_key (name_of rel) \<in> set (map path_key PROJECT_BYPASS_FILES) \<and> posix rel \<noteq> ''AGENTS.md''))"

definition is_violation :: "string list \<Rightarrow> path \<Rightarrow> bool" where
  "is_violation managed rel =
     (rel \<noteq> [] \<and> hd rel \<notin> set [''.cap'', ''.git''] \<and> path_key (posix rel) \<notin> set managed \<and> bypasses rel)"

definition project_violations :: "fs \<Rightarrow> path \<Rightarrow> path list res" where
  "project_violations F root =
     bindE (managed_publication_paths F root) (\<lambda>managed.
     Inr (filter (is_violation managed) (map (drop (length root)) (rglob F root))))"

definition check_project_pollution :: "fs \<Rightarrow> path \<Rightarrow> unit res" where
  "check_project_pollution F root =
     bindE (project_violations F root) (\<lambda>vs.
     raise_if (vs \<noteq> []) (invalid ''project capability bypass detected''))"

text \<open>Exactly the entries outside the store, Git and the managed publication are judged.\<close>

lemma check_project_pollution_Inr:
  "check_project_pollution F root = Inr u \<longleftrightarrow>
     (\<exists>managed. managed_publication_paths F root = Inr managed
        \<and> (\<forall>q \<in> set (rglob F root). \<not> is_violation managed (drop (length root) q)))"
  by (auto simp: check_project_pollution_def project_violations_def bindE_Inr raise_if_Inr filter_empty_conv)

lemma rglob_canonical:
  assumes "canonical F root"
  shows "q \<in> set (rglob F root) \<longleftrightarrow> (\<exists>nd. node_at F q = Some nd) \<and> strict_prefix root q"
proof -
  have keep: "root @ drop (length root) k = k" if "strict_prefix root k" for k
    using that by (auto simp: strict_prefix_def elim!: prefixE)
  have "q \<in> set (rglob F root) \<longleftrightarrow> (\<exists>k \<in> set (keys (nodes F)). strict_prefix root k \<and> q = root @ drop (length root) k)"
    using canonical_resolve [OF assms] by (auto simp: rglob_def below_def)
  also have "\<dots> \<longleftrightarrow> q \<in> set (keys (nodes F)) \<and> strict_prefix root q"
    using keep by metis
  also have "q \<in> set (keys (nodes F)) \<longleftrightarrow> (\<exists>nd. node_at F q = Some nd)"
    unfolding node_at_def set_keys by (metis map_of_eq_None_iff not_None_eq)
  finally show ?thesis .
qed

text \<open>Nothing but the Claude entry file is managed unless both marketplaces name the same
  plugins at the same versions.\<close>

lemma claude_entry_paths_Inr: "claude_entry_paths F root = Inr ps \<Longrightarrow> set ps \<subseteq> {path_key ''CLAUDE.md''}"
  by (auto simp: claude_entry_paths_def Let_def bindE_Inr split: if_splits)

lemma named_version_Some:
  "named_version seen p = Some (nm, ver) \<Longrightarrow> is_identifier nm \<and> nm \<notin> set (keys seen) \<and> ver \<noteq> []"
  by (cases "as_str (get p ''name'')"; cases "as_str (get p ''version'')")
     (auto simp: named_version_def split: if_splits)

lemma codex_plugin_Some:
  assumes "codex_plugin F root seen v = Inr (Some (nm, ver))"
  shows "is_identifier nm \<and> nm \<notin> set (keys seen) \<and> ver \<noteq> []
     \<and> plugin_paths_ok F (root @ [''plugins'', nm])
     \<and> (\<exists>cm. strict_json F (root @ [''plugins'', nm, ''.codex-plugin'', ''plugin.json'']) = Inr cm
           \<and> manifest_agrees nm ver cm = Inr True)
     \<and> (\<exists>lm. strict_json F (root @ [''plugins'', nm, ''.claude-plugin'', ''plugin.json'']) = Inr lm
           \<and> manifest_agrees nm ver lm = Inr True)"
proof -
  let ?sel = "Option.bind (as_dict v) (\<lambda>p. Option.bind (named_version seen p) (\<lambda>nv. Option.bind (as_dict (get p ''source'')) (\<lambda>src.
         if get src ''source'' = VStr ''local'' \<and> get src ''path'' = VStr (''./plugins/'' @ fst nv)
            \<and> plugin_paths_ok F (root @ [''plugins'', fst nv])
         then Some nv else None)))"
  obtain nv where nv: "?sel = Some nv" using assms by (cases ?sel) (auto simp: codex_plugin_def)
  then have sel: "is_identifier (fst nv) \<and> fst nv \<notin> set (keys seen) \<and> snd nv \<noteq> []
      \<and> plugin_paths_ok F (root @ [''plugins'', fst nv])"
    by (cases nv) (auto simp: bind_eq_Some_conv dest!: named_version_Some split: if_splits)
  obtain cm lm where m: "strict_json F (root @ [''plugins'', fst nv, ''.codex-plugin'', ''plugin.json'']) = Inr cm"
      "strict_json F (root @ [''plugins'', fst nv, ''.claude-plugin'', ''plugin.json'']) = Inr lm"
    using assms unfolding codex_plugin_def nv option.case Let_def by (auto split: sum.splits)
  have "manifest_agrees (fst nv) (snd nv) cm = Inr True" "manifest_agrees (fst nv) (snd nv) lm = Inr True"
      "nv = (nm, ver)"
    using assms unfolding codex_plugin_def nv option.case Let_def by (auto simp: m bindE_Inr split: if_splits)
  with sel m show ?thesis by auto
qed

lemma codex_plugins_Some:
  "codex_plugins F root seen vs = Inr (Some cv) \<Longrightarrow> (nm, ver) \<in> set cv \<Longrightarrow> (nm, ver) \<in> set seen \<or>
     (is_identifier nm \<and> plugin_paths_ok F (root @ [''plugins'', nm])
     \<and> (\<exists>cm. strict_json F (root @ [''plugins'', nm, ''.codex-plugin'', ''plugin.json'']) = Inr cm
           \<and> manifest_agrees nm ver cm = Inr True)
     \<and> (\<exists>lm. strict_json F (root @ [''plugins'', nm, ''.claude-plugin'', ''plugin.json'']) = Inr lm
           \<and> manifest_agrees nm ver lm = Inr True))"
proof (induction vs arbitrary: seen)
  case (Cons v vs)
  then obtain nm' ver' where c: "codex_plugin F root seen v = Inr (Some (nm', ver'))"
      "codex_plugins F root (seen @ [(nm', ver')]) vs = Inr (Some cv)"
    by (auto simp: bindE_Inr split: option.splits)
  from Cons.IH [OF c(2) Cons.prems(2)] codex_plugin_Some [OF c(1)] show ?case by auto
qed simp

lemma managed_publication_Inr:
  assumes "managed_publication_paths F root = Inr ps" and "p \<in> set ps" and "p \<noteq> path_key ''CLAUDE.md''"
  shows "\<exists>cps lps cv lv. codex_plugins F root [] cps = Inr (Some cv) \<and> claude_plugins [] lps = Some lv
     \<and> cv \<noteq> [] \<and> set cv = set lv
     \<and> (p \<in> set marketplace_publication \<or> (\<exists>(nm, ver) \<in> set cv. p \<in> set (plugin_publication nm)))"
proof -
  obtain allowed where al: "claude_entry_paths F root = Inr allowed" using assms(1)
    by (auto simp: managed_publication_paths_def bindE_Inr)
  then have na: "p \<notin> set allowed" using assms(3) claude_entry_paths_Inr by fastforce
  let ?cm = "strict_json F (root @ [''.agents'', ''plugins'', ''marketplace.json''])"
  let ?lm = "strict_json F (root @ [''.claude-plugin'', ''marketplace.json''])"
  obtain cp lp where cl: "?cm = Inr cp" "?lm = Inr lp"
    using assms(1,2) na unfolding managed_publication_paths_def al
    by (cases ?cm; cases ?lm) (auto simp: Let_def split: if_splits)
  obtain cps lps cvs where g: "get_attr cp ''plugins'' = Inr cps" "get_attr lp ''plugins'' = Inr lps"
      "codex_plugins F root [] (the (as_list cps)) = Inr cvs"
      "(case (cvs, claude_plugins [] (the (as_list lps))) of
           (Some cv, Some lv) \<Rightarrow>
             (if cv \<noteq> [] \<and> sort_key fst cv = sort_key fst lv
              then Inr (allowed @ marketplace_publication @ concat (map (plugin_publication \<circ> fst) cv))
              else Inr allowed)
         | _ \<Rightarrow> Inr allowed) = (Inr ps :: string list res)"
    using assms(1,2) na unfolding managed_publication_paths_def al bindE_simps Let_def cl prod.case sum.case
    by (auto simp: bindE_Inr split: if_splits)
  obtain cv lv where v: "cvs = Some cv" "claude_plugins [] (the (as_list lps)) = Some lv" "cv \<noteq> []"
      "sort_key fst cv = sort_key fst lv"
      "ps = allowed @ marketplace_publication @ concat (map (plugin_publication \<circ> fst) cv)"
    using g(4) na assms(2) by (auto split: option.splits if_splits)
  have "set cv = set lv" using arg_cong [OF v(4), of set] by simp
  moreover have "p \<in> set marketplace_publication \<or> (\<exists>(nm, ver) \<in> set cv. p \<in> set (plugin_publication nm))"
    using assms(2) na by (auto simp: v(5))
  ultimately show ?thesis using g(3) v(1-3) by blast
qed

end
