(* ===== verification/AtomicWrite.thy ===== *)
theory AtomicWrite
  imports Validate
begin

text \<open>
  \<open>_atomic_write\<close> of \<open>profile/cli.py\<close>: make the parent directory, create a temporary file
  next to the target, write, set the mode, and rename it over the target. The name
  \<open>mkstemp\<close> chooses and the step at which the operating system fails, if any, are inputs, so
  that the theorems speak of every failure: the target holds its old entry or the complete
  new file, before, during and after the call.
\<close>

record io =
  tmp_name :: string
  io_fail :: "nat option"

text \<open>The states the call goes through once the parent directory \<open>d\<close> is there: temporary file
  created, written, its mode set, renamed.\<close>

definition chmod_node :: "nat \<Rightarrow> node \<Rightarrow> node" where
  "chmod_node mode nd = (case nd of
       NFile m c \<Rightarrow> NFile (m\<lparr>st_mode := mode\<rparr>) c | NDir m \<Rightarrow> NDir (m\<lparr>st_mode := mode\<rparr>)
     | NLink m a t \<Rightarrow> NLink m a t | NOther m \<Rightarrow> NOther (m\<lparr>st_mode := mode\<rparr>))"

definition rename_file :: "path \<Rightarrow> path \<Rightarrow> fs \<Rightarrow> fs" where
  "rename_file src dst F = (case node_at F src of
       Some nd \<Rightarrow> put_node dst nd (del_node src F) | None \<Rightarrow> F)"

definition write_states :: "host \<Rightarrow> path \<Rightarrow> path \<Rightarrow> string \<Rightarrow> nat \<Rightarrow> fs \<Rightarrow> fs list" where
  "write_states H tmp target content mode F =
     (let created = put_file H tmp [] 384 F;
          written = put_node tmp (NFile (new_meta H F 384) content) created;
          moded = put_node tmp (chmod_node mode (NFile (new_meta H F 384) content)) written
      in [F, created, written, moded, rename_file tmp target moded])"

text \<open>Nothing can be renamed over a directory.\<close>

definition write_fails :: "io \<Rightarrow> fs \<Rightarrow> path \<Rightarrow> nat option" where
  "write_fails io F target =
     (case io_fail io of
        Some k \<Rightarrow> (if k < 4 then Some k else None)
      | None \<Rightarrow> (if (\<exists>m \<in> set_option (node_at F target). is_dir_node m) then Some 3 else None))"

definition temp_name :: "io \<Rightarrow> string \<Rightarrow> string" where
  "temp_name io nm = ''.'' @ nm @ ''.'' @ tmp_name io"

definition atomic_write :: "host \<Rightarrow> io \<Rightarrow> path \<Rightarrow> string \<Rightarrow> nat \<Rightarrow> fs \<Rightarrow> unit res \<times> fs" where
  "atomic_write H io p content mode F =
     (case mkdirs H 493 [] (parent p) F of
        Inl e \<Rightarrow> (Inl e, F)
      | Inr (d, F1) \<Rightarrow>
          (let tmp = d @ [temp_name io (name_of p)];
               target = d @ [name_of p];
               states = write_states H tmp target content mode F1
           in case write_fails io F1 target of
                Some k \<Rightarrow> (Inl (OSError ''atomic write''), del_node tmp (states ! k))
              | None \<Rightarrow> (Inr (), last states)))"

lemma node_at_fresh [simp]: "node_at (F\<lparr>fresh_ino := n\<rparr>) q = node_at F q"
  by (simp add: node_at_def)

lemma rename_file_at:
  "node_at F src = Some nd \<Longrightarrow> src \<noteq> dst \<Longrightarrow>
     node_at (rename_file src dst F) q = (if q = dst then Some nd else if q = src then None else node_at F q)"
  by (simp add: rename_file_def)

text \<open>Seen by anyone who looks in the middle: the old entry, or the new one with all its
  content; nothing else moves.\<close>

lemma write_states_atomic:
  assumes "S \<in> set (write_states H tmp target content mode F)" and "tmp \<noteq> target"
  shows "node_at S target = node_at F target
     \<or> (\<exists>m. node_at S target = Some (NFile m content) \<and> st_mode m = mode)"
    and "q \<noteq> target \<Longrightarrow> q \<noteq> tmp \<Longrightarrow> node_at S q = node_at F q"
  using assms by (auto simp: write_states_def Let_def rename_file_at chmod_node_def)

lemma write_states_last:
  assumes "tmp \<noteq> target"
  shows "node_at (last (write_states H tmp target content mode F)) target
      = Some (NFile (new_meta H F mode) content)"
    and "node_at (last (write_states H tmp target content mode F)) tmp = None"
  using assms by (simp_all add: write_states_def Let_def rename_file_at chmod_node_def new_meta_def)

lemma write_states_failed:
  assumes "k < 4" and "tmp \<noteq> target"
  shows "node_at (write_states H tmp target content mode F ! k) target = node_at F target"
proof -
  have "k = 0 \<or> k = 1 \<or> k = 2 \<or> k = 3" using assms(1) by auto
  then show ?thesis using assms(2) by (elim disjE) (simp_all add: write_states_def Let_def)
qed

lemma write_fails_less: "write_fails io F t = Some k \<Longrightarrow> k < 4"
  by (auto simp: write_fails_def split: option.splits if_splits)

lemma tmp_differs: "d @ [temp_name io n] \<noteq> d @ [n]"
proof
  assume "d @ [temp_name io n] = d @ [n]"
  then have "length (temp_name io n) = length n" by simp
  then show False by (simp add: temp_name_def)
qed

lemma atomic_write_result:
  assumes "atomic_write H io p content mode F = (r, F')" and "mkdirs H 493 [] (parent p) F = Inr (d, F1)"
  shows "r = Inr u \<Longrightarrow> node_at F' (d @ [name_of p]) = Some (NFile (new_meta H F1 mode) content)"
    and "r = Inl e \<Longrightarrow> node_at F' (d @ [name_of p]) = node_at F1 (d @ [name_of p])"
    and "q \<noteq> d @ [name_of p] \<Longrightarrow> q \<noteq> d @ [temp_name io (name_of p)] \<Longrightarrow> node_at F' q = node_at F1 q"
    and "node_at F' (d @ [temp_name io (name_of p)]) = None"
proof -
  let ?tmp = "d @ [temp_name io (name_of p)]" and ?t = "d @ [name_of p]"
  let ?S = "write_states H ?tmp ?t content mode F1"
  have ne: "?tmp \<noteq> ?t" by (rule tmp_differs)
  have len: "length ?S = 5" by (simp add: write_states_def Let_def)
  have r: "(case write_fails io F1 ?t of
        Some k \<Rightarrow> (Inl (OSError ''atomic write''), del_node ?tmp (?S ! k))
      | None \<Rightarrow> (Inr (), last ?S)) = (r, F')"
    using assms by (simp add: atomic_write_def Let_def)
  have mem: "k < 4 \<Longrightarrow> ?S ! k \<in> set ?S" "last ?S \<in> set ?S" for k
    using len by (auto intro: nth_mem last_in_set)
  show "r = Inr u \<Longrightarrow> node_at F' ?t = Some (NFile (new_meta H F1 mode) content)"
    using r write_states_last(1) [OF ne] by (auto split: option.splits)
  show "r = Inl e \<Longrightarrow> node_at F' ?t = node_at F1 ?t"
    using r write_states_failed [OF _ ne] ne write_fails_less by (auto split: option.splits)
  show "node_at F' ?tmp = None"
    using r write_states_last(2) [OF ne] by (auto split: option.splits)
  show "node_at F' q = node_at F1 q" if "q \<noteq> ?t" "q \<noteq> ?tmp"
    using r write_states_atomic(2) [OF mem(1) ne that] write_states_atomic(2) [OF mem(2) ne that] that(2)
      write_fails_less by (auto split: option.splits)
qed

end
