(* ===== verification/Documents.thy ===== *)
theory Documents
  imports AtomicWrite Digests
begin

text \<open>
  Documents on disk: a value written with \<open>_atomic_write(path, _canonical_json(value))\<close> is
  read back by \<open>_strict_json(path)\<close>. Line endings survive the text reader because the writer
  escapes every carriage return.
\<close>

definition write_json :: "host \<Rightarrow> io \<Rightarrow> path \<Rightarrow> val \<Rightarrow> nat \<Rightarrow> fs \<Rightarrow> unit res \<times> fs" where
  "write_json H io p v mode F = atomic_write H io p (canonical_json v) mode F"

lemma newlines_id: "CHR 0x0D \<notin> set s \<Longrightarrow> newlines s = s"
proof -
  have "CHR 0x0D \<notin> set s \<Longrightarrow> newlines_after False s = s" by (induction s) auto
  then show "CHR 0x0D \<notin> set s \<Longrightarrow> newlines s = s" by (simp add: newlines_def)
qed

lemma no_cr_jesc: "CHR 0x0D \<notin> set (jesc c)"
proof -
  have "hex_digit n \<noteq> CHR 0x0D" if "n < 16" for n
    using that by (auto simp: hex_digit_def dest!: arg_cong [of _ _ "of_char :: char \<Rightarrow> nat"])
  moreover have "byte c div 16 < 16" "byte c mod 16 < 16" if "byte c < 32"
    using that by simp_all
  ultimately have "CHR 0x0D \<noteq> hex_digit (byte c div 16)" "CHR 0x0D \<noteq> hex_digit (byte c mod 16)"
    if "byte c < 32" using that by metis+
  then show ?thesis by (auto simp: jesc_def)
qed

lemma no_cr_jstr: "CHR 0x0D \<notin> set (jstr s)"
  using no_cr_jesc by (auto simp: jstr_def)

lemma no_cr_show_int: "CHR 0x0D \<notin> set (show_int i)"
  using show_nat_digits [of "CHR 0x0D"] by (auto simp: show_int_def is_digit_def)

lemma no_cr_join: "c \<notin> set sep \<Longrightarrow> (\<And>w. w \<in> set ws \<Longrightarrow> c \<notin> set w) \<Longrightarrow> c \<notin> set (join sep ws)"
  by (induction sep ws rule: join.induct) auto

lemma no_cr_jwrite: "plain v \<Longrightarrow> CHR 0x0D \<notin> set (jwrite p l v)"
proof (induction p l v rule: jwrite.induct)
  case (8 p l d)
  have el: "CHR 0x0D \<notin> set (jwrite p (Suc l) v)" if "(k, v) \<in> set d" for k v
    using 8 that by (cases "d = []") auto
  have "CHR 0x0D \<notin> set (join ('','' @ gap p (Suc l)) (map (\<lambda>(k, v). jstr k @ colon p @ jwrite p (Suc l) v) d))"
    by (rule no_cr_join) (use el no_cr_jstr in \<open>auto simp: nl_def gap_def colon_def split: if_splits\<close>)
  then show ?case by (auto simp: nl_def)
next
  case (6 p l xs)
  have el: "CHR 0x0D \<notin> set (jwrite p (Suc l) x)" if "x \<in> set xs" for x
    using 6 that by (cases "xs = []") auto
  have "CHR 0x0D \<notin> set (join ('','' @ gap p (Suc l)) (map (jwrite p (Suc l)) xs))"
    by (rule no_cr_join) (use el in \<open>auto simp: nl_def gap_def\<close>)
  then show ?case by (auto simp: nl_def)
qed (use no_cr_show_int no_cr_jstr in auto)

lemma no_cr_canonical:
  assumes "plain (untuple v)"
  shows "CHR 0x0D \<notin> set (canonical_json v)"
proof -
  have "CHR 0x0D \<notin> set (canonical_json (untuple v))"
    unfolding canonical_json_def using assms no_cr_jwrite [of "canon (untuple v)" Indented 0] by simp
  then show ?thesis by (simp add: canonical_json_untuple)
qed

text \<open>A document whose strings are UTF-8 is written as UTF-8.\<close>

fun texts_utf8 :: "val \<Rightarrow> bool" where
  "texts_utf8 (VStr s) = utf8_valid s"
| "texts_utf8 (VFloat s) = utf8_valid s"
| "texts_utf8 (VList xs) = (\<forall>x \<in> set xs. texts_utf8 x)"
| "texts_utf8 (VTuple xs) = (\<forall>x \<in> set xs. texts_utf8 x)"
| "texts_utf8 (VDict d) = (\<forall>(k, v) \<in> set d. utf8_valid k \<and> texts_utf8 v)"
| "texts_utf8 v = True"

lemma byte_quoted [simp]:
  "byte CHR 0x22 = 34" "byte CHR 0x5C = 92" "byte CHR 0x0A = 10" "byte CHR 0x0D = 13" "byte CHR 0x09 = 9"
  "byte CHR 0x08 = 8" "byte CHR 0x0C = 12" "byte CHR ''n'' = 110" "byte CHR ''r'' = 114" "byte CHR ''t'' = 116"
  "byte CHR ''b'' = 98" "byte CHR ''f'' = 102" "byte CHR ''u'' = 117" "byte CHR ''0'' = 48"
  by (simp_all add: byte_def)

lemma jesc_high: "128 \<le> byte c \<Longrightarrow> jesc c = [c]"
proof -
  assume c: "128 \<le> byte c"
  then have "byte d < 128 \<Longrightarrow> c \<noteq> d" for d by auto
  then show ?thesis using c by (simp add: jesc_def)
qed

lemma hex_digit_ascii: "n < 16 \<Longrightarrow> byte (hex_digit n) < 128"
  by (simp add: hex_digit_def byte_def)

lemma byte_less: "byte c < 256"
  by (simp add: byte_def)

lemma jesc_ascii: "byte c < 128 \<Longrightarrow> utf8_valid (jesc c)"
  unfolding jesc_def by (simp add: hex_digit_ascii)

lemma utf8_jstr: "utf8_valid s \<Longrightarrow> utf8_valid (jstr s)"
proof -
  assume "utf8_valid s"
  then have "utf8_valid (concat (map jesc s))"
    by (induction s rule: utf8_valid.induct)
      (auto simp: jesc_ascii jesc_high is_cont_def split: if_splits list.splits)
  then show ?thesis by (simp add: jstr_def)
qed

lemma utf8_join: "utf8_valid sep \<Longrightarrow> \<forall>w \<in> set ws. utf8_valid w \<Longrightarrow> utf8_valid (join sep ws)"
  by (induction sep ws rule: join.induct) auto

lemma utf8_nl: "utf8_valid (nl p l)"
  by (rule utf8_valid_ascii) (auto simp: nl_def byte_def)

lemma utf8_gap: "utf8_valid (gap p l)"
  by (cases "p = Spaced") (simp_all add: gap_def utf8_nl byte_def)

lemma utf8_show_int: "utf8_valid (show_int i)"
proof (rule utf8_valid_ascii)
  fix c assume "c \<in> set (show_int i)"
  then have "c = CHR ''-'' \<or> is_digit c" using show_nat_digits by (auto simp: show_int_def split: if_splits)
  then show "byte c < 128" by (auto simp: is_digit_def byte_def)
qed

lemma utf8_jwrite: "texts_utf8 v \<Longrightarrow> utf8_valid (jwrite p l v)"
proof (induction p l v rule: jwrite.induct)
  case (6 p l xs)
  show ?case
  proof (cases "xs = []")
    case False
    with 6 have "utf8_valid (join ('','' @ gap p (Suc l)) (map (jwrite p (Suc l)) xs))"
    by (intro utf8_join) (auto simp: utf8_gap byte_def)
    with False show ?thesis by (simp add: utf8_nl byte_def)
  qed (simp add: byte_def)
next
  case (7 p l xs)
  show ?case
  proof (cases "xs = []")
    case False
    with 7 have "utf8_valid (join ('','' @ gap p (Suc l)) (map (jwrite p (Suc l)) xs))"
    by (intro utf8_join) (auto simp: utf8_gap byte_def)
    with False show ?thesis by (simp add: utf8_nl byte_def)
  qed (simp add: byte_def)
next
  case (8 p l d)
  show ?case
  proof (cases "d = []")
    case False
    with 8 have "utf8_valid (join ('','' @ gap p (Suc l)) (map (\<lambda>(k, v). jstr k @ colon p @ jwrite p (Suc l) v) d))"
    by (intro utf8_join) (auto simp: utf8_gap byte_def utf8_jstr colon_def)
    with False show ?thesis by (simp add: utf8_nl byte_def)
  qed (simp add: byte_def)
qed (auto simp: utf8_jstr utf8_show_int byte_def)

lemma texts_canon: "texts_utf8 (canon v) = texts_utf8 v"
  by (induction v) auto

lemma utf8_canonical: "texts_utf8 v \<Longrightarrow> utf8_valid (canonical_json v)"
  by (simp add: canonical_json_def utf8_jwrite texts_canon byte_def)

lemma no_cr_spaced: "plain v \<Longrightarrow> CHR 0x0D \<notin> set (spaced_json v)"
  by (simp add: spaced_json_def no_cr_jwrite)

lemma utf8_spaced: "texts_utf8 v \<Longrightarrow> utf8_valid (spaced_json v)"
  by (simp add: spaced_json_def utf8_jwrite texts_canon)

text \<open>Reading a canonical regular file.\<close>

lemma strict_json_file:
  assumes "canonical F p" and "node_at F p = Some (NFile m (canonical_json v))"
    and "plain (untuple v)" and "utf8_valid (canonical_json v)"
  shows "strict_json F p = Inr (canon (untuple v))"
proof -
  have "read_text F p = Inr (canonical_json v)"
    using canonical_stat [OF assms(1)] assms(2,4) newlines_id [OF no_cr_canonical [OF assms(3)]]
    by (simp add: read_text_def read_bytes_def decode_utf8_def)
  then show ?thesis using loads_strict_written [OF assms(3)] by (simp add: strict_json_def)
qed

lemma mkdirs_dirs: "dirs F (cur @ ps) \<Longrightarrow> mkdirs H mode cur ps F = Inr (cur @ ps, F)"
proof (induction ps arbitrary: cur)
  case (Cons p ps)
  have c: "dirs F (cur @ [p])" by (rule dirs_prefix [OF Cons.prems]) (simp add: prefix_def)
  then have "resolve F (cur @ [p]) = Some (cur @ [p])"
    by (intro canonical_resolve dirs_canonical)
  moreover obtain m where "node_at F (cur @ [p]) = Some (NDir m)"
    using c by (auto simp: dirs_def)
  ultimately show ?case using Cons.IH [of "cur @ [p]"] Cons.prems by simp
qed simp

text \<open>The round trip through the disk.\<close>

lemma write_json_read:
  assumes w: "write_json H io p v mode F = (Inr (), F')"
    and d: "dirs F (parent p)" "p \<noteq> []" "name_of p \<noteq> ''..''"
    and t: "node_at F (parent p @ [temp_name io (name_of p)]) = None"
    and v: "plain (untuple v)" "utf8_valid (canonical_json v)"
  shows "strict_json F' p = Inr (canon (untuple v))" and "canonical F' p"
    and "\<exists>m. node_at F' p = Some (NFile m (canonical_json v)) \<and> st_mode m = mode"
proof -
  let ?d = "parent p" and ?t = "parent p @ [temp_name io (name_of p)]"
  have p: "p = ?d @ [name_of p]" using d(2) by (simp add: parent_def name_of_def)
  have mk: "mkdirs H 493 [] ?d F = Inr (?d, F)" using mkdirs_dirs [of F "[]" ?d] d(1) by simp
  have aw: "atomic_write H io p (canonical_json v) mode F = (Inr (), F')"
    using w by (simp add: write_json_def)
  note r = atomic_write_result [OF aw mk]
  have at: "node_at F' p = Some (NFile (new_meta H F mode) (canonical_json v))"
    using r(1) p by simp
  have keep: "node_at F' q = Some (NDir m)" if "node_at F q = Some (NDir m)" "prefix q ?d" for q m
  proof -
    have "length q \<le> length ?d" using that(2) by (rule prefix_length_le)
    moreover have "length p = Suc (length ?d)" using arg_cong [OF p, of length] by simp
    ultimately have "q \<noteq> p" "q \<noteq> ?t" by auto
    then show ?thesis using r(3) [of q] that(1) p by simp
  qed
  have pre: "prefix q ?d" if "strict_prefix q p" for q
    using that p by (metis prefix_snoc strict_prefix_def)
  show can: "canonical F' p"
    using d(1,3) keep pre at p unfolding canonical_def plain_dirs_def dirs_def
    by (metis (no_types, lifting) UnE is_link_node.simps(2) set_ConsD set_append empty_iff list.set(1))
  show "strict_json F' p = Inr (canon (untuple v))"
    by (rule strict_json_file [OF can at v])
  show "\<exists>m. node_at F' p = Some (NFile m (canonical_json v)) \<and> st_mode m = mode"
    using at by (auto simp: new_meta_def)
qed

end
