(* ===== verification/Lock.thy ===== *)
theory Lock
  imports Render Pollution Documents
begin

text \<open>
  The capability lock: \<open>_input_records\<close> digests every source of a project, \<open>_desired_lock\<close>
  adds the rendered tree of each role and client, \<open>create_lock\<close> writes the document and
  \<open>_verify_lock\<close> compares the one on disk with the one computed now. Tuples the program puts
  into the document stay tuples here, because the comparison is Python's.
\<close>

section \<open>Inputs\<close>

definition relative_name :: "path \<Rightarrow> path \<Rightarrow> string res" where
  "relative_name root p = bindE (someE (ValueError ''relative_to'') (relative_to root p)) (\<lambda>r. Inr (posix r))"

definition lock_record :: "fs \<Rightarrow> (path \<Rightarrow> string res) \<Rightarrow> (string \<Rightarrow> string) \<Rightarrow> path \<Rightarrow> val res" where
  "lock_record F read hash p =
     (if is_symlink F p then Inl (invalid ''lock input must not be a symlink'')
      else if is_dir F p then Inr (VDict [(''type'', VStr ''directory'')])
      else if is_file F p then
        bindE (read p) (\<lambda>c. Inr (VDict [(''type'', VStr ''file''),
          (''mode'', VStr (oct4 (canonical_mode p))), (''sha256'', VStr (hash c))]))
      else Inl (invalid ''lock input is not a regular file or directory''))"

definition lock_paths :: "fs \<Rightarrow> project \<Rightarrow> path list" where
  "lock_paths F P =
     remdups ([pr_manifest P, pr_defaults P] @ map snd (pr_runtime_policies P) @ [pr_root P @ [''AGENTS.md'']]
       @ (case pr_skill_imports_manifest P of Some m \<Rightarrow> [m] | None \<Rightarrow> [])
       @ concat (map (\<lambda>(_, i). imp_source i # rglob F (imp_source i)) (pr_skill_imports P))
       @ concat (map (\<lambda>(_, p). [p_source p, p_prompt p]) (pr_profiles P))
       @ (pr_root P @ [''.cap'', ''capabilities'']) # rglob F (pr_root P @ [''.cap'', ''capabilities'']))"

definition labelled :: "string \<Rightarrow> path \<Rightarrow> path list \<Rightarrow> (string \<times> path) list res" where
  "labelled pre root ps = mapE (\<lambda>p. bindE (relative_name root p) (\<lambda>r. Inr (pre @ r, p))) ps"

definition role_entries :: "path \<Rightarrow> overlay_spec \<Rightarrow> string \<times> profile \<Rightarrow> (string \<times> path) list res" where
  "role_entries root ov entry = (case entry of (_, p) \<Rightarrow>
     bindE (if p_source_root p = root then Inr ''public/''
            else if p_source_root p = ov_root ov then Inr ''private/'' else Inl (KeyError ''source_root'')) (\<lambda>pre.
     labelled pre (p_source_root p) [p_source p, p_prompt p]))"

definition overlay_entries :: "fs \<Rightarrow> project \<Rightarrow> overlay_spec \<Rightarrow> (string \<times> path) list res" where
  "overlay_entries F P ov =
     (let root = pr_root P; store = (\<lambda>r. r @ [''.cap'', ''capabilities'']) in
      bindE (labelled ''public/'' root (pr_defaults P # map snd (pr_runtime_policies P)
               @ (case pr_skill_imports_manifest P of Some m \<Rightarrow> [m] | None \<Rightarrow> [])
               @ concat (map (\<lambda>(_, i). imp_source i # rglob F (imp_source i)) (pr_skill_imports P)))) (\<lambda>public.
      bindE (mapE (role_entries root ov) (pr_profiles P)) (\<lambda>roles.
      bindE (labelled ''public/'' root (rglob F (store root))) (\<lambda>cap1.
      bindE (labelled ''private/'' (ov_root ov) (rglob F (store (ov_root ov)))) (\<lambda>cap2.
      Inr ([(''public/AGENTS.md'', root @ [''AGENTS.md'']), (''public/.cap/manifest.toml'', pr_manifest P)]
        @ public
        @ [(''private/.cap/manifest.toml'', ov_root ov @ [''.cap'', ''manifest.toml''])]
        @ (case ov_descriptor ov of Some d \<Rightarrow> [(''private/.cap/overlay.toml'', d)] | None \<Rightarrow> [])
        @ concat roles
        @ (''public/.cap/capabilities'', store root) # cap1
        @ (''private/.cap/capabilities'', store (ov_root ov)) # cap2))))))"

definition lock_records ::
    "fs \<Rightarrow> (path \<Rightarrow> string res) \<Rightarrow> (string \<Rightarrow> string) \<Rightarrow> (string \<times> path) list \<Rightarrow> dict res" where
  "lock_records F read hash entries =
     bindE (mapE (\<lambda>(r, p). bindE (lock_record F read hash p) (\<lambda>v. Inr (r, v))) (sort_key fst entries)) (\<lambda>rs.
     Inr (dict_of rs))"

definition input_records :: "host \<Rightarrow> fs \<Rightarrow> project \<Rightarrow> dict res" where
  "input_records H F P = (case pr_overlay P of
       None \<Rightarrow>
         bindE (labelled [] (pr_root P) (lock_paths F P)) (lock_records F (read_bytes F) (sha256 H))
     | Some ov \<Rightarrow>
         bindE (overlay_entries F P ov) (lock_records F (redacted_file_bytes H F) (sha256 H)))"

section \<open>The document\<close>

definition strs :: "string list \<Rightarrow> val" where
  "strs xs = VList (map VStr xs)"

definition ops_doc :: "cap_ops \<Rightarrow> val" where
  "ops_doc x = VDict [(''allow'', strs (allow x)), (''deny'', strs (deny x)), (''override'', strs (override x))]"

definition profile_inventory :: "profile \<Rightarrow> val" where
  "profile_inventory p = VDict [(''skills'', strs (p_skills p)), (''mcps'', strs (p_mcps p)),
     (''hooks'', strs (p_hooks p)), (''plugins'', strs (p_plugins p))]"

definition client_hash :: "host \<Rightarrow> fs \<Rightarrow> project \<Rightarrow> profile \<Rightarrow> string \<Rightarrow> (string \<times> val) res" where
  "client_hash H F P p client =
     bindE (render_tree H F P client p) (\<lambda>t. Inr (client, VDict [(''tree_hash'', VStr (tree_hash H t))]))"

definition role_layer :: "host \<Rightarrow> fs \<Rightarrow> project \<Rightarrow> profile \<Rightarrow> dict res" where
  "role_layer H F P p =
     bindE (mapE (client_hash H F P p) CLIENTS) (\<lambda>clients.
     bindE (mapE (\<lambda>k. bindE (someE (KeyError k) (map_of (p_operations p) k)) (\<lambda>x. Inr (k, ops_doc x)))
              [''skills'', ''mcps'', ''hooks'', ''plugins'']) (\<lambda>ops.
     Inr [(''defaults'', VStr PROJECT_DEFAULTS_NAME), (''chain'', strs (p_chain p)),
          (''runtime'', VDict (dict_of (map (\<lambda>(k, v). (k, VStr v)) (p_runtime p)))),
          (''operations'', VDict (dict_of ops)), (''inventory'', profile_inventory p),
          (''clients'', VDict (dict_of clients))]))"

definition locked_role :: "host \<Rightarrow> fs \<Rightarrow> project \<Rightarrow> string \<times> profile \<Rightarrow> (string \<times> val) res" where
  "locked_role H F P entry =
     bindE (role_layer H F P (snd entry)) (\<lambda>layer.
     Inr (fst entry, VDict (layer @ [(''layer_digest'', VStr (digest H (VDict layer)))])))"

definition clients_doc :: "val res" where
  "clients_doc =
     bindE (mapE (\<lambda>c. bindE (someE (invalid ''client has no adapter version'') (map_of CLIENT_ADAPTER_VERSION c)) (\<lambda>v.
        bindE (someE (KeyError c) (map_of CLIENT_EXECUTABLES c)) (\<lambda>x.
        Inr (c, VDict [(''adapter_version'', VInt v), (''executable'', VStr x)])))) CLIENTS) (\<lambda>cs.
     Inr (VDict (dict_of cs)))"

definition capability_semantics :: val where
  "capability_semantics = VDict [(''skills'', VStr ''native-staging''), (''mcp'', VStr ''native-config''),
     (''hooks'', VStr ''opaque-staging''), (''plugins'', VStr ''opaque-staging'')]"

text \<open>The profiles of an external import are the tuple \<open>_identifier_list\<close> returned.\<close>

definition external_import_doc :: "external_import \<Rightarrow> val" where
  "external_import_doc x = VDict [(''name'', VStr (ext_name x)), (''source'', VStr (ext_source x)),
     (''digest'', VStr (ext_digest x)), (''approved'', VBool (ext_approved x)),
     (''profiles'', VTuple (map VStr (ext_profiles x)))]"

definition skill_import_doc :: "path \<Rightarrow> string \<times> skill_import \<Rightarrow> val res" where
  "skill_import_doc root entry =
     bindE (relative_name root (imp_source (snd entry))) (\<lambda>r.
     Inr (VDict [(''name'', VStr (imp_name (snd entry))), (''source'', VStr r)]))"

definition skill_imports_doc :: "project \<Rightarrow> dict res" where
  "skill_imports_doc P =
     (if pr_skill_imports P = [] then Inr [] else
      bindE (mapE (skill_import_doc (pr_root P)) (pr_skill_imports P)) (\<lambda>xs.
      Inr [(''project_skill_imports'', VList xs)]))"

definition overlay_doc :: "host \<Rightarrow> project \<Rightarrow> dict \<Rightarrow> dict" where
  "overlay_doc H P inputs = (case pr_overlay P of
       None \<Rightarrow> []
     | Some ov \<Rightarrow>
         [(''source_layers'', VList [VDict [(''kind'', VStr ''public''), (''root'', VStr ''project'')],
             VDict [(''kind'', VStr ''private''), (''namespace'', VStr (ov_namespace ov)),
                    (''root'', VStr ''explicit-overlay'')]]),
          (''evidence'', VDict [(''version'', VInt EVIDENCE_VERSION), (''root'', VStr ''user-state/evidence''),
             (''source_digest'', VStr (digest H (VDict inputs)))])])"

definition desired_lock :: "host \<Rightarrow> fs \<Rightarrow> project \<Rightarrow> val res" where
  "desired_lock H F P =
     bindE (mapE (locked_role H F P) (sort_key fst (pr_profiles P))) (\<lambda>profiles.
     bindE clients_doc (\<lambda>clients.
     bindE (input_records H F P) (\<lambda>inputs.
     bindE (skill_imports_doc P) (\<lambda>imports.
     Inr (VDict ([(''version'', VInt LOCK_VERSION), (''renderer_version'', VStr RENDERER_VERSION),
        (''clients'', clients), (''capability_semantics'', capability_semantics),
        (''inputs'', VDict inputs), (''external_imports'', VList (map external_import_doc (pr_external_imports P))),
        (''profiles'', VDict (dict_of profiles))] @ imports @ overlay_doc H P inputs))))))"

section \<open>Create and verify\<close>

definition lock_path :: "project \<Rightarrow> path" where
  "lock_path P = (case pr_overlay P of Some ov \<Rightarrow> ov_root ov | None \<Rightarrow> pr_root P) @ [''.cap'', ''lock.json'']"

definition verify_lock :: "fs \<Rightarrow> project \<Rightarrow> val \<Rightarrow> unit res" where
  "verify_lock F P desired =
     (if is_symlink F (lock_path P) \<or> \<not> is_file F (lock_path P)
        then Inl (invalid ''missing regular .cap/lock.json'')
      else bindE (strict_json F (lock_path P)) (\<lambda>actual.
        raise_if (\<not> py_eq actual desired) (invalid ''capability lock drift detected'')))"

definition check_pollution_layers :: "fs \<Rightarrow> project \<Rightarrow> unit res" where
  "check_pollution_layers F P =
     bindE (check_project_pollution F (pr_root P)) (\<lambda>_.
     case pr_overlay P of None \<Rightarrow> Inr () | Some ov \<Rightarrow> check_project_pollution F (ov_root ov))"

section \<open>The document can be written and read back\<close>

lemma plain_strs [simp]: "plain (strs xs)" "untuple (strs xs) = strs xs"
  by (auto simp: strs_def)

lemma lock_record_plain:
  "lock_record F r h p = Inr v \<Longrightarrow> plain v \<and> untuple v = v"
  by (auto simp: lock_record_def bindE_Inr split: if_splits)

lemma plain_dict_ofI: "(\<And>k v. (k, v) \<in> set e \<Longrightarrow> plain v) \<Longrightarrow> plain (VDict (dict_of e))"
  by (auto dest: set_dict_of)

lemma lock_records_Inr:
  assumes "lock_records F read hash entries = Inr r"
  shows "distinct (keys r)" and "(k, v) \<in> set r \<Longrightarrow> plain v"
    and "(k, v) \<in> set r \<Longrightarrow> \<exists>p. (k, p) \<in> set entries \<and> lock_record F read hash p = Inr v"
    and "(k, p) \<in> set entries \<Longrightarrow> k \<in> set (keys r)"
proof -
  obtain rs where m: "mapE (\<lambda>(r, p). bindE (lock_record F read hash p) (\<lambda>v. Inr (r, v))) (sort_key fst entries) = Inr rs"
      and r: "r = dict_of rs"
    using assms by (auto simp: lock_records_def bindE_Inr)
  show "distinct (keys r)" by (simp add: r)
  have el: "\<exists>p. (k, p) \<in> set entries \<and> lock_record F read hash p = Inr v" if "(k, v) \<in> set r" for k v
    using mapE_elem [OF m, of "(k, v)"] that set_dict_of [of "(k, v)" rs] by (auto simp: r bindE_Inr)
  then show "(k, v) \<in> set r \<Longrightarrow> \<exists>p. (k, p) \<in> set entries \<and> lock_record F read hash p = Inr v"
    and "(k, v) \<in> set r \<Longrightarrow> plain v"
    using lock_record_plain by blast+
  show "k \<in> set (keys r)" if "(k, p) \<in> set entries"
  proof -
    have "(k, p) \<in> set (sort_key fst entries)" using that by simp
    from mapE_all [OF m this] obtain v where "(k, v) \<in> set rs" by (auto simp: bindE_Inr)
    then have "k \<in> set (keys rs)" by (auto simp: set_keys intro: rev_image_eqI)
    then show ?thesis by (simp add: r)
  qed
qed

lemma input_records_Inr:
  assumes "input_records H F P = Inr r"
  obtains entries read where "lock_records F read (sha256 H) entries = Inr r"
    and "pr_overlay P = None \<Longrightarrow> labelled [] (pr_root P) (lock_paths F P) = Inr entries \<and> read = read_bytes F"
proof (cases "pr_overlay P")
  case None
  then obtain entries where "labelled [] (pr_root P) (lock_paths F P) = Inr entries"
      "lock_records F (read_bytes F) (sha256 H) entries = Inr r"
    using assms by (auto simp: input_records_def bindE_Inr)
  then show ?thesis using that None by blast
next
  case (Some ov)
  then obtain entries where "lock_records F (redacted_file_bytes H F) (sha256 H) entries = Inr r"
    using assms by (auto simp: input_records_def bindE_Inr)
  then show ?thesis using that Some by auto
qed

lemma input_records_plain: "input_records H F P = Inr r \<Longrightarrow> plain (VDict r)"
  by (erule input_records_Inr) (auto dest: lock_records_Inr)

text \<open>A document is fit for writing when its array form is plain.\<close>

lemma plain_dict_of: "(\<And>k v. (k, v) \<in> set e \<Longrightarrow> plain v) \<Longrightarrow> plain (VDict (dict_of e))"
  by (auto dest: set_dict_of)

lemma mapE_pairs:
  assumes "mapE f xs = Inr ys" and "(k, v) \<in> set ys" and "\<And>x k v. f x = Inr (k, v) \<Longrightarrow> Q v"
  shows "Q v"
  using mapE_elem [OF assms(1,2)] assms(3) by blast

lemma role_layer_plain:
  assumes "role_layer H F P p = Inr layer"
  shows "plain (VDict layer)" and "''layer_digest'' \<notin> set (keys layer)"
proof -
  obtain clients ops where c: "mapE (client_hash H F P p) CLIENTS = Inr clients"
    and o: "mapE (\<lambda>k. bindE (someE (KeyError k) (map_of (p_operations p) k)) (\<lambda>x. Inr (k, ops_doc x)))
              [''skills'', ''mcps'', ''hooks'', ''plugins''] = Inr ops"
    and l: "layer = [(''defaults'', VStr PROJECT_DEFAULTS_NAME), (''chain'', strs (p_chain p)),
          (''runtime'', VDict (dict_of (map (\<lambda>(k, v). (k, VStr v)) (p_runtime p)))),
          (''operations'', VDict (dict_of ops)), (''inventory'', profile_inventory p),
          (''clients'', VDict (dict_of clients))]"
    using assms unfolding role_layer_def by (elim stepsE) auto
  have "plain (VDict (dict_of clients))"
    by (rule plain_dict_of, erule mapE_pairs [OF c]) (auto simp: client_hash_def bindE_Inr)
  moreover have "plain (VDict (dict_of ops))"
    by (rule plain_dict_of, erule mapE_pairs [OF o]) (auto simp: ops_doc_def bindE_Inr)
  moreover have "plain (VDict (dict_of (map (\<lambda>(k, v). (k, VStr v)) (p_runtime p))))"
    by (rule plain_dict_of) auto
  moreover have "plain (profile_inventory p)" by (simp add: profile_inventory_def)
  ultimately show "plain (VDict layer)" by (simp add: l del: plain.simps(3)) (simp add: l)
  show "''layer_digest'' \<notin> set (keys layer)" by (simp add: l)
qed

lemma locked_role_plain: "locked_role H F P entry = Inr (n, v) \<Longrightarrow> plain v"
  using role_layer_plain by (fastforce simp: locked_role_def bindE_Inr keys_def)

lemma clients_doc_plain: "clients_doc = Inr v \<Longrightarrow> plain v"
proof -
  assume "clients_doc = Inr v"
  then obtain cs where m: "mapE (\<lambda>c. bindE (someE (invalid ''client has no adapter version'') (map_of CLIENT_ADAPTER_VERSION c)) (\<lambda>v.
        bindE (someE (KeyError c) (map_of CLIENT_EXECUTABLES c)) (\<lambda>x.
        Inr (c, VDict [(''adapter_version'', VInt v), (''executable'', VStr x)])))) CLIENTS = Inr cs"
      and v: "v = VDict (dict_of cs)" unfolding clients_doc_def by (elim stepsE) auto
  show "plain v"
    unfolding v by (rule plain_dict_of, erule mapE_pairs [OF m]) (auto simp: bindE_Inr)
qed

lemma desired_lock_Inr:
  assumes "desired_lock H F P = Inr d"
  obtains profiles clients inputs imps where
    "mapE (locked_role H F P) (sort_key fst (pr_profiles P)) = Inr profiles" "clients_doc = Inr clients"
    "input_records H F P = Inr inputs" "skill_imports_doc P = Inr imps"
    "d = VDict ([(''version'', VInt LOCK_VERSION), (''renderer_version'', VStr RENDERER_VERSION),
        (''clients'', clients), (''capability_semantics'', capability_semantics),
        (''inputs'', VDict inputs), (''external_imports'', VList (map external_import_doc (pr_external_imports P))),
        (''profiles'', VDict (dict_of profiles))] @ imps @ overlay_doc H P inputs)"
  using assms unfolding desired_lock_def by (elim stepsE) auto

lemma skill_imports_doc_plain:
  "skill_imports_doc P = Inr imps \<Longrightarrow> imps = [] \<or> (\<exists>xs. imps = [(''project_skill_imports'', VList xs)] \<and> (\<forall>x \<in> set xs. plain x))"
proof -
  have el: "plain v" if "mapE (skill_import_doc r) ims = Inr xs" "v \<in> set xs" for r ims xs v
    using mapE_elem [OF that] by (auto simp: bindE_Inr skill_import_doc_def)
  assume "skill_imports_doc P = Inr imps"
  then show ?thesis using el unfolding skill_imports_doc_def
    by (cases "pr_skill_imports P = []") (auto simp: bindE_Inr)
qed

lemma overlay_doc_plain:
  "overlay_doc H P r = [] \<or> (\<exists>v w. overlay_doc H P r = [(''source_layers'', v), (''evidence'', w)] \<and> plain v \<and> plain w)"
  by (cases "pr_overlay P") (simp_all add: overlay_doc_def)

text \<open>The document consists of plain parts and the external imports.\<close>

lemma desired_lock_shape:
  assumes "desired_lock H F P = Inr d"
  obtains pre post where
    "d = VDict (pre @ (''external_imports'', VList (map external_import_doc (pr_external_imports P))) # post)"
    "plain (VDict (pre @ post))" "''external_imports'' \<notin> set (keys (pre @ post))"
proof -
  obtain profiles clients inputs imps where
      p: "mapE (locked_role H F P) (sort_key fst (pr_profiles P)) = Inr profiles"
    and c: "clients_doc = Inr clients" and i: "input_records H F P = Inr inputs"
    and s: "skill_imports_doc P = Inr imps"
    and d: "d = VDict ([(''version'', VInt LOCK_VERSION), (''renderer_version'', VStr RENDERER_VERSION),
        (''clients'', clients), (''capability_semantics'', capability_semantics),
        (''inputs'', VDict inputs), (''external_imports'', VList (map external_import_doc (pr_external_imports P))),
        (''profiles'', VDict (dict_of profiles))] @ imps @ overlay_doc H P inputs)"
    by (rule desired_lock_Inr [OF assms])
  let ?pre = "[(''version'', VInt LOCK_VERSION), (''renderer_version'', VStr RENDERER_VERSION),
        (''clients'', clients), (''capability_semantics'', capability_semantics), (''inputs'', VDict inputs)]"
  let ?post = "(''profiles'', VDict (dict_of profiles)) # imps @ overlay_doc H P inputs"
  have "plain (VDict (dict_of profiles))"
    by (rule plain_dict_of, erule mapE_pairs [OF p]) (rule locked_role_plain)
  moreover have "plain clients" by (rule clients_doc_plain [OF c])
  moreover have "plain capability_semantics" by (simp add: capability_semantics_def)
  moreover have "plain (VDict inputs)" by (rule input_records_plain [OF i])
  ultimately have base: "plain (VDict ?pre)" "plain (VDict [(''profiles'', VDict (dict_of profiles))])"
    by simp_all
  have rest: "plain (VDict (imps @ overlay_doc H P inputs))"
      "set (keys (imps @ overlay_doc H P inputs)) \<subseteq> {''project_skill_imports'', ''source_layers'', ''evidence''}"
    using skill_imports_doc_plain [OF s] overlay_doc_plain [of H P inputs] by (auto simp: plain_append)
  have "plain (VDict (?pre @ ([(''profiles'', VDict (dict_of profiles))] @ (imps @ overlay_doc H P inputs))))"
    unfolding plain_append using base rest by auto
  moreover have "''external_imports'' \<notin> set (keys (?pre @ ?post))"
    using rest(2) by (auto simp: keys_def)
  ultimately have "plain (VDict (?pre @ ?post))" "''external_imports'' \<notin> set (keys (?pre @ ?post))"
    by simp_all
  then show ?thesis by (rule that [of ?pre ?post, rotated]) (simp add: d)
qed

lemma external_doc_untuple:
  "plain (untuple (external_import_doc x))" "pynorm (untuple (external_import_doc x)) \<noteq> pynorm (external_import_doc x)"
proof -
  show "plain (untuple (external_import_doc x))" by (simp add: external_import_doc_def keys_def)
  show "pynorm (untuple (external_import_doc x)) \<noteq> pynorm (external_import_doc x)"
  proof
    assume "pynorm (untuple (external_import_doc x)) = pynorm (external_import_doc x)"
    then have "pynorm (VDict (the (as_dict (untuple (external_import_doc x)))))
        = pynorm (VDict (the (as_dict (external_import_doc x))))"
      by (simp only: external_import_doc_def untuple.simps as_dict.simps option.sel)
    from pynorm_dict_lookup [OF this, of "''profiles''"] show False
      by (simp add: external_import_doc_def keys_def)
  qed
qed

lemma untuple_shape:
  assumes "plain (VDict (pre @ post))"
  shows "untuple (VDict (pre @ (k, VList xs) # post)) = VDict (pre @ (k, VList (map untuple xs)) # post)"
proof -
  have "untuple v = v" if "(j, v) \<in> set (pre @ post)" for j v
    using assms that by (intro untuple_plain) auto
  then have "map (\<lambda>(k, v). (k, untuple v)) pre = pre" "map (\<lambda>(k, v). (k, untuple v)) post = post"
    by (auto intro!: map_idI)
  then show ?thesis by simp
qed

lemma desired_lock_writable: "desired_lock H F P = Inr d \<Longrightarrow> plain (untuple d)"
proof (erule desired_lock_shape)
  fix pre post
  assume d: "d = VDict (pre @ (''external_imports'', VList (map external_import_doc (pr_external_imports P))) # post)"
    and p: "plain (VDict (pre @ post))" and k: "''external_imports'' \<notin> set (keys (pre @ post))"
  have "plain (untuple (external_import_doc x))" for x by (rule external_doc_untuple)
  then show "plain (untuple d)" unfolding d untuple_shape [OF p] using p k by auto
qed

text \<open>What is written compares equal to what was computed exactly when no external import
  put a tuple into the document.\<close>

lemma desired_lock_equal_iff:
  assumes "desired_lock H F P = Inr d"
  shows "py_eq (canon (untuple d)) d \<longleftrightarrow> pr_external_imports P = []"
proof -
  obtain pre post where
      d: "d = VDict (pre @ (''external_imports'', VList (map external_import_doc (pr_external_imports P))) # post)"
    and p: "plain (VDict (pre @ post))" and k: "''external_imports'' \<notin> set (keys (pre @ post))"
    by (rule desired_lock_shape [OF assms])
  let ?L = "map external_import_doc (pr_external_imports P)"
  have "pynorm (VList (map untuple ?L)) = pynorm (VList ?L) \<longleftrightarrow> pr_external_imports P = []"
    using external_doc_untuple(2) by (cases "pr_external_imports P") auto
  moreover have "py_eq (canon (untuple d)) d \<longleftrightarrow> pynorm (VList (map untuple ?L)) = pynorm (VList ?L)"
  proof
    let ?a = "pre @ (''external_imports'', VList (map untuple ?L)) # post"
    let ?b = "pre @ (''external_imports'', VList ?L) # post"
    have dist: "distinct (keys ?a)" "distinct (keys ?b)" using p k by auto
    have look: "map_of (pre @ (''external_imports'', v) # post) ''external_imports'' = Some v" for v
      using k by (induction pre) (auto simp: keys_def)
    assume "py_eq (canon (untuple d)) d"
    then have "pynorm (VDict ?a) = pynorm (VDict ?b)"
      by (simp only: d untuple_shape [OF p] py_eq_canon) (simp only: py_eq_def)
    from pynorm_dict_lookup [OF this dist, of "''external_imports''"]
    show "pynorm (VList (map untuple ?L)) = pynorm (VList ?L)" by (simp only: look option.map option.inject)
  next
    assume a: "pynorm (VList (map untuple ?L)) = pynorm (VList ?L)"
    have "pynorm (untuple d) = pynorm d"
      unfolding d untuple_shape [OF p] pynorm.simps(5) map_append list.map prod.case a by (rule refl)
    then show "py_eq (canon (untuple d)) d" by (simp add: py_eq_def)
  qed
  ultimately show ?thesis by simp
qed

lemma canonical_parent:
  assumes "canonical F (p @ [x])"
  shows "dirs F p"
  using assms unfolding canonical_def plain_dirs_def dirs_def by (auto simp: strict_prefix_def prefix_def)

lemma canonical_lstat:
  assumes "canonical F p" and "p \<noteq> []"
  shows "lstat F p = node_at F p"
proof -
  have "canonical F (butlast p @ [last p])" using assms by simp
  from canonical_parent [OF this] have "resolve F (butlast p) = Some (butlast p)"
    by (intro canonical_resolve dirs_canonical)
  moreover have "''..'' \<notin> set p" using assms(1) by (simp add: canonical_def plain_dirs_def)
  then have "last p \<noteq> ''..''" using assms(2) by (metis last_in_set)
  ultimately show ?thesis using assms(2) by (simp add: lstat_def)
qed

lemma written_lock_verifies:
  assumes "desired_lock H F0 P = Inr d"
    and "write_json H io (lock_path P) d mode F = (Inr (), F')"
    and "dirs F (parent (lock_path P))"
    and "node_at F (parent (lock_path P) @ [temp_name io ''lock.json'']) = None"
    and "utf8_valid (canonical_json d)"
  shows "verify_lock F' P d = (if pr_external_imports P = [] then Inr ()
      else Inl (invalid ''capability lock drift detected''))"
proof -
  have n: "lock_path P \<noteq> []" "name_of (lock_path P) = ''lock.json''"
    by (auto simp: lock_path_def name_of_def)
  have w: "strict_json F' (lock_path P) = Inr (canon (untuple d))" "canonical F' (lock_path P)"
      "\<exists>m. node_at F' (lock_path P) = Some (NFile m (canonical_json d)) \<and> st_mode m = mode"
    using write_json_read [OF assms(2,3) n(1)] assms(4,5) desired_lock_writable [OF assms(1)]
    by (simp_all add: n(2))
  then have "\<not> is_symlink F' (lock_path P)" "is_file F' (lock_path P)"
    using canonical_lstat [OF w(2) n(1)] canonical_stat [OF w(2)]
    by (auto simp: is_symlink_def is_file_def)
  then show ?thesis
    using w(1) desired_lock_equal_iff [OF assms(1)] by (auto simp: verify_lock_def)
qed

text \<open>Whatever the lock on disk accepts, it pins: two states of the project that verify
  against the same lock have the same input files, up to two input contents on which the hash collides.\<close>

lemma verify_lock_Inr:
  "verify_lock F P d = Inr u \<Longrightarrow> \<exists>a. strict_json F (lock_path P) = Inr a \<and> py_eq a d \<and> is_file F (lock_path P)
     \<and> \<not> is_symlink F (lock_path P)"
  by (auto simp: verify_lock_def bindE_Inr raise_if_Inr split: if_splits)

lemma desired_inputs:
  assumes "desired_lock H F P = Inr d"
  obtains e r where "d = VDict e" "distinct (keys e)" "map_of e ''inputs'' = Some (VDict r)"
    "input_records H F P = Inr r"
proof -
  obtain profiles clients inputs imps where
      i: "input_records H F P = Inr inputs"
    and d: "d = VDict ([(''version'', VInt LOCK_VERSION), (''renderer_version'', VStr RENDERER_VERSION),
        (''clients'', clients), (''capability_semantics'', capability_semantics),
        (''inputs'', VDict inputs), (''external_imports'', VList (map external_import_doc (pr_external_imports P))),
        (''profiles'', VDict (dict_of profiles))] @ imps @ overlay_doc H P inputs)"
    by (rule desired_lock_Inr [OF assms])
  obtain pre post where
      d': "d = VDict (pre @ (''external_imports'', VList (map external_import_doc (pr_external_imports P))) # post)"
    and p: "plain (VDict (pre @ post))" "''external_imports'' \<notin> set (keys (pre @ post))"
    by (rule desired_lock_shape [OF assms])
  let ?e = "[(''version'', VInt LOCK_VERSION), (''renderer_version'', VStr RENDERER_VERSION),
        (''clients'', clients), (''capability_semantics'', capability_semantics),
        (''inputs'', VDict inputs), (''external_imports'', VList (map external_import_doc (pr_external_imports P))),
        (''profiles'', VDict (dict_of profiles))] @ imps @ overlay_doc H P inputs"
  have "?e = pre @ (''external_imports'', VList (map external_import_doc (pr_external_imports P))) # post"
    using trans [OF d [symmetric] d'] by (simp only: val.inject)
  moreover have "distinct (keys (pre @ (''external_imports'', VList (map external_import_doc (pr_external_imports P))) # post))"
    using p by auto
  ultimately have "distinct (keys ?e)" by (simp only:)
  moreover have "map_of ?e ''inputs'' = Some (VDict inputs)" by simp
  ultimately show ?thesis using that [OF d _ _ i] by blast
qed

definition same_content :: "host \<Rightarrow> fs \<Rightarrow> path \<Rightarrow> fs \<Rightarrow> path \<Rightarrow> bool" where
  "same_content H F p F' p' \<longleftrightarrow> (\<exists>c c'. read_bytes F p = Inr c \<and> read_bytes F' p' = Inr c' \<and> (c = c' \<or> clash H c c'))"

lemma lock_record_same:
  assumes "lock_record F (read_bytes F) (sha256 H) p = Inr v" "lock_record F' (read_bytes F') (sha256 H) p' = Inr w"
    and "py_eq v w" and "is_file F p"
  shows "is_file F' p' \<and> same_content H F p F' p'"
proof -
  have nd: "\<not> is_dir F p" using assms(4) by (auto simp: is_file_node_eq is_dir_node_eq)
  obtain c where c: "read_bytes F p = Inr c" "v = VDict [(''type'', VStr ''file''),
      (''mode'', VStr (oct4 (canonical_mode p))), (''sha256'', VStr (sha256 H c))]"
    using assms(1,4) nd by (auto simp: lock_record_def bindE_Inr split: if_splits)
  obtain e where e: "w = VDict e" "distinct (keys e)"
      "e = [(''type'', VStr ''directory'')] \<or> (\<exists>c'. is_file F' p' \<and> read_bytes F' p' = Inr c' \<and> e = [(''type'', VStr ''file''),
      (''mode'', VStr (oct4 (canonical_mode p'))), (''sha256'', VStr (sha256 H c'))])"
    using assms(2) by (auto simp: lock_record_def bindE_Inr split: if_splits)
  have look: "\<exists>x. map_of e k = Some x \<and> py_eq y x"
    if "map_of [(''type'', VStr ''file''), (''mode'', VStr (oct4 (canonical_mode p))), (''sha256'', VStr (sha256 H c))] k = Some y" for k y
    by (rule py_eq_dict_lookup [OF _ _ e(2) that]) (use assms(3) in \<open>simp_all add: c(2) e(1)\<close>)
  from look [of "''sha256''" "VStr (sha256 H c)"] obtain c' where
    "is_file F' p'" "read_bytes F' p' = Inr c'" "sha256 H c = sha256 H c'"
    using e(3) by (auto simp: py_eq_def)
  with sha256_same [of H c c'] c(1) show ?thesis by (auto simp: same_content_def)
qed

lemma labelled_Inr:
  assumes "labelled pre root ps = Inr es"
  shows "(k, p) \<in> set es \<longleftrightarrow> p \<in> set ps \<and> (\<exists>r. relative_to root p = Some r \<and> k = pre @ posix r)"
  using assms unfolding labelled_def
  by (induction ps arbitrary: es) (auto simp: bindE_Inr relative_name_def someE_Inr)

lemma lock_pins_inputs:
  assumes d: "desired_lock H F P = Inr d" "desired_lock H F' P' = Inr d'" and eq: "py_eq d d'"
    and o: "pr_overlay P = None" "pr_overlay P' = None"
    and p: "p \<in> set (lock_paths F P)" "is_file F p"
    and names: "inj_on (rel_posix (pr_root P)) (set (lock_paths F P))"
  shows "\<exists>p' r. p' \<in> set (lock_paths F' P') \<and> relative_to (pr_root P) p = Some r
       \<and> (\<exists>r'. relative_to (pr_root P') p' = Some r' \<and> posix r' = posix r)
       \<and> is_file F' p' \<and> same_content H F p F' p'"
proof -
  obtain e r where e: "d = VDict e" "distinct (keys e)" "map_of e ''inputs'' = Some (VDict r)" "input_records H F P = Inr r"
    by (rule desired_inputs [OF d(1)])
  obtain e' r' where e': "d' = VDict e'" "distinct (keys e')" "map_of e' ''inputs'' = Some (VDict r')" "input_records H F' P' = Inr r'"
    by (rule desired_inputs [OF d(2)])
  have rr: "py_eq (VDict r) (VDict r')"
    using py_eq_dict_lookup [of e e' "''inputs''" "VDict r"] eq e(1-3) e'(1-3) by auto
  obtain es where es: "labelled [] (pr_root P) (lock_paths F P) = Inr es" "lock_records F (read_bytes F) (sha256 H) es = Inr r"
    using e(4) o(1) by (auto elim: input_records_Inr)
  obtain es' where es': "labelled [] (pr_root P') (lock_paths F' P') = Inr es'" "lock_records F' (read_bytes F') (sha256 H) es' = Inr r'"
    using e'(4) o(2) by (auto elim: input_records_Inr)
  obtain q where q: "relative_to (pr_root P) p = Some q"
    using p(1) es(1) mapE_all by (fastforce simp: labelled_def bindE_Inr relative_name_def someE_Inr)
  then have "(posix q, p) \<in> set es" using labelled_Inr [OF es(1)] p(1) by simp
  then have "posix q \<in> set (keys r)" by (rule lock_records_Inr(4) [OF es(2)])
  then obtain v where v: "(posix q, v) \<in> set r" by (auto simp: set_keys)
  then obtain p0 where p0: "(posix q, p0) \<in> set es" "lock_record F (read_bytes F) (sha256 H) p0 = Inr v"
    using lock_records_Inr(3) [OF es(2)] by blast
  have "rel_posix (pr_root P) p0 = rel_posix (pr_root P) p" "p0 \<in> set (lock_paths F P)"
    using p0(1) q labelled_Inr [OF es(1)] by (auto simp: rel_posix_def relative_to_def split: if_splits)
  then have pp: "p0 = p" using names p(1) by (auto dest: inj_onD)
  have "map_of r (posix q) = Some v" using v lock_records_Inr(1) [OF es(2)] by (simp add: keys_def)
  then obtain w where w: "map_of r' (posix q) = Some w" "py_eq v w"
    using py_eq_dict_lookup [OF rr lock_records_Inr(1) [OF es(2)] lock_records_Inr(1) [OF es'(2)]] by blast
  then obtain p' where p': "(posix q, p') \<in> set es'" "lock_record F' (read_bytes F') (sha256 H) p' = Inr w"
    using lock_records_Inr(3) [OF es'(2)] map_of_SomeD by metis
  have "is_file F' p' \<and> same_content H F p F' p'"
    using lock_record_same [OF p0(2) p'(2) w(2)] p(2) pp by simp
  moreover have "p' \<in> set (lock_paths F' P') \<and> (\<exists>r'. relative_to (pr_root P') p' = Some r' \<and> posix r' = posix q)"
    using p'(1) labelled_Inr [OF es'(1)] by auto
  ultimately show ?thesis using q by blast
qed

end
