(* ===== verification/GlobalConfig.thy ===== *)
theory GlobalConfig
  imports Pollution
begin

text \<open>
  What a client would pick up from the user's home directory: the tests of
  \<open>profile/cli.py\<close> on Codex and Qoder configuration, plugin caches, extension directories and
  host instructions, \<open>_global_path_is_passive\<close> over them, and \<open>_check_global_pollution\<close>.
  A value that is not the expected mapping raises \<open>AttributeError\<close> where the source calls a
  dictionary method on it.
\<close>

section \<open>Codex configuration\<close>

definition is_false :: "val \<Rightarrow> bool" where
  "is_false v = (v = VBool False)"

text \<open>\<open>isinstance(v, Mapping) and v.get("enabled") is False\<close>\<close>

definition disabled_entry :: "val \<Rightarrow> bool" where
  "disabled_entry v = (case as_dict v of Some d \<Rightarrow> is_false (get d ''enabled'') | None \<Rightarrow> False)"

definition codex_capability_root_is_disabled :: "val \<Rightarrow> bool" where
  "codex_capability_root_is_disabled v = (case as_dict v of
       None \<Rightarrow> False
     | Some d \<Rightarrow> d \<noteq> [] \<and> (is_false (get d ''enabled'') \<or> list_all (\<lambda>(_, e). disabled_entry e) d))"

definition active_root :: "dict \<Rightarrow> string \<Rightarrow> bool" where
  "active_root config key =
     (truthy (get config key)
      \<and> \<not> (key \<in> set CODEX_EXPLICITLY_DISABLABLE_ROOTS \<and> codex_capability_root_is_disabled (get config key)))"

definition trusted_project :: "val \<Rightarrow> bool" where
  "trusted_project v = (case as_dict v of
       Some d \<Rightarrow> list_minus (keys d) [''trust_level''] = [] \<and> is_str (get d ''trust_level'')
     | None \<Rightarrow> False)"

definition projects_active :: "val \<Rightarrow> bool" where
  "projects_active v =
     (truthy v \<and> (case as_dict v of Some d \<Rightarrow> \<not> list_all (\<lambda>(_, p). trusted_project p) d | None \<Rightarrow> True))"

definition hooks_active :: "val \<Rightarrow> bool" where
  "hooks_active v =
     (truthy v \<and> (case as_dict v of Some d \<Rightarrow> list_minus (keys d) [''state''] \<noteq> [] | None \<Rightarrow> True))"

text \<open>\<open>value not in (False, None)\<close>: equality, so a zero counts as false.\<close>

definition feature_active :: "string \<times> val \<Rightarrow> bool" where
  "feature_active kv = (case kv of (key, v) \<Rightarrow>
     if key \<in> set CODEX_CAPABILITY_FEATURES then \<not> is_false v
     else key \<notin> set CODEX_RUNTIME_ONLY_FEATURES \<and> \<not> py_eq v (VBool False) \<and> v \<noteq> VNone)"

definition features_active :: "val \<Rightarrow> bool" where
  "features_active v = (case as_dict v of Some d \<Rightarrow> list_ex feature_active d | None \<Rightarrow> truthy v)"

definition plugins_active :: "val \<Rightarrow> bool" where
  "plugins_active v =
     (truthy v \<and> (case as_dict v of Some d \<Rightarrow> \<not> list_all (\<lambda>(_, e). disabled_entry e) d | None \<Rightarrow> True))"

definition skills_active :: "val \<Rightarrow> bool" where
  "skills_active v = (case as_dict v of
       None \<Rightarrow> truthy v
     | Some d \<Rightarrow> list_minus (keys d) [''config''] \<noteq> []
         \<or> (case as_list (get_or d ''config'' (VList [])) of
              None \<Rightarrow> True | Some es \<Rightarrow> \<not> list_all disabled_entry es))"

definition codex_config_has_active_capability :: "dict \<Rightarrow> bool" where
  "codex_config_has_active_capability config =
     (list_ex (active_root config) (list_minus CODEX_CAPABILITY_KEYS [''hooks'', ''plugins'', ''skills''])
      \<or> projects_active (get config ''projects'')
      \<or> list_ex (\<lambda>(k, v). truthy v \<and> k \<notin> set CODEX_RUNTIME_ONLY_KEYS \<and> k \<notin> set CODEX_CAPABILITY_KEYS) config
      \<or> hooks_active (get config ''hooks'')
      \<or> features_active (get config ''features'')
      \<or> plugins_active (get config ''plugins'')
      \<or> skills_active (get config ''skills''))"

section \<open>Qoder configuration\<close>

definition only_keys :: "dict \<Rightarrow> string list \<Rightarrow> bool" where
  "only_keys d ks = (list_minus (keys d) ks = [])"

definition ignored_action :: "path \<Rightarrow> val \<Rightarrow> bool" where
  "ignored_action home v = (case as_dict v of
       None \<Rightarrow> False
     | Some a \<Rightarrow> get a ''type'' = VStr ''command'' \<and>
         (if get a ''command'' = VStr (abs_str home @ ''/.yunke/aah_hooks/hook_entry --agent-type=qoder'')
          then get a ''_yunke_managed'' = VBool True
               \<and> only_keys a [''_yunke_managed'', ''command'', ''timeout'', ''type'']
          else get a ''command'' = VStr (''bash '' @ abs_str home @ ''/.r2c/scripts/qoder-cli-hook.sh'')
               \<and> only_keys a [''command'', ''timeout'', ''type'']))"

definition ignored_registration :: "path \<Rightarrow> val \<Rightarrow> bool" where
  "ignored_registration home v = (case as_dict v of
       None \<Rightarrow> False
     | Some r \<Rightarrow> only_keys r [''hooks'', ''matcher'']
         \<and> (case as_list (get r ''hooks'') of Some as \<Rightarrow> list_all (ignored_action home) as | None \<Rightarrow> False))"

definition qoder_hooks_are_ignored_host_integrations :: "val \<Rightarrow> path \<Rightarrow> bool" where
  "qoder_hooks_are_ignored_host_integrations v home = (case as_dict v of
       None \<Rightarrow> False
     | Some d \<Rightarrow> list_all (\<lambda>(_, rs). case as_list rs of
           Some xs \<Rightarrow> list_all (ignored_registration home) xs | None \<Rightarrow> False) d)"

definition qoder_config_has_active_capability :: "dict \<Rightarrow> path \<Rightarrow> bool" where
  "qoder_config_has_active_capability config home =
     ((case as_dict (get config ''enabledPlugins'') of Some d \<Rightarrow> \<not> list_all (\<lambda>(_, v). is_false v) d | None \<Rightarrow> False)
      \<or> (truthy (get config ''hooks'')
         \<and> \<not> qoder_hooks_are_ignored_host_integrations (get config ''hooks'') home)
      \<or> list_ex (\<lambda>k. truthy (get config k)) [''mcpServers'', ''plugins'', ''skills''])"

section \<open>Entries of the home directory\<close>

definition matches_host_floor :: "fs \<Rightarrow> path \<Rightarrow> bool" where
  "matches_host_floor F p = (is_file F p \<and> read_text F p = Inr HOST_FLOOR_TEXT)"

definition path_has_symlink_component :: "fs \<Rightarrow> path \<Rightarrow> bool" where
  "path_has_symlink_component F p = list_ex (\<lambda>i. is_symlink F (take i p)) [1..<Suc (length p)]"

definition tree_has_symlink :: "fs \<Rightarrow> path \<Rightarrow> bool" where
  "tree_has_symlink F root = (is_symlink F root \<or> list_ex (is_symlink F) (rglob F root))"

text \<open>\<open>os.path.abspath\<close> of an absolute path.\<close>

definition normpath :: "path \<Rightarrow> path" where
  "normpath ps = foldl (\<lambda>acc p. if p = ''..'' then butlast acc else acc @ [p]) [] ps"

definition disabled_skill_path :: "host \<Rightarrow> fs \<Rightarrow> path \<Rightarrow> val \<Rightarrow> path list res" where
  "disabled_skill_path H F home entry =
     (if \<not> disabled_entry entry then Inr [] else
      case as_str (get (the (as_dict entry)) ''path'') of
        None \<Rightarrow> Inr []
      | Some raw \<Rightarrow>
          (if raw = [] then Inr [] else
           bindE (expand_home H raw) (\<lambda>(absolute, ps).
             let p = normpath (if absolute then ps else home @ [''.codex''] @ ps) in
             Inr (if path_has_symlink_component F p then [] else [p]))))"

definition codex_system_skills_are_disabled :: "host \<Rightarrow> fs \<Rightarrow> path \<Rightarrow> dict \<Rightarrow> path \<Rightarrow> bool res" where
  "codex_system_skills_are_disabled H F p config home =
     (case (as_dict (get config ''features''), as_dict (get config ''skills'')) of
        (Some fe, Some sk) \<Rightarrow>
          (case as_list (get sk ''config'') of
             None \<Rightarrow> Inr False
           | Some entries \<Rightarrow>
               if \<not> is_false (get fe ''skill_search'') \<or> tree_has_symlink F p then Inr False
               else bindE (mapE (disabled_skill_path H F home) entries) (\<lambda>ds.
                 Inr (list_all (\<lambda>q. name_of q \<noteq> ''SKILL.md'' \<or> normpath q \<in> set (concat ds)) (rglob F p))))
      | _ \<Rightarrow> Inr False)"

definition names_in :: "fs \<Rightarrow> path \<Rightarrow> string list" where
  "names_in F p = (case iterdir F p of Inr ns \<Rightarrow> ns | Inl _ \<Rightarrow> [])"

definition marketplace_disabled :: "fs \<Rightarrow> dict \<Rightarrow> path \<Rightarrow> string \<Rightarrow> bool" where
  "marketplace_disabled F enabled cache m =
     (let root = cache @ [m]; children = names_in F root in
      is_dir F root \<and>
      (if prefix ''qoder-enterprise-'' m
       then list_all (\<lambda>c. c = ''update.lock'' \<and> is_file F (root @ [c])) children
       else list_all (\<lambda>c. is_dir F (root @ [c]) \<and> is_false (get enabled (c @ ''@'' @ m))) children))"

definition qoder_plugin_cache_is_disabled :: "fs \<Rightarrow> path \<Rightarrow> dict \<Rightarrow> bool" where
  "qoder_plugin_cache_is_disabled F p config = (case as_dict (get config ''enabledPlugins'') of
       None \<Rightarrow> False
     | Some enabled \<Rightarrow>
         enabled \<noteq> [] \<and> list_all (\<lambda>(_, v). is_false v) enabled \<and> \<not> tree_has_symlink F p
         \<and> (case iterdir F p of
              Inl _ \<Rightarrow> False
            | Inr entries \<Rightarrow>
                list_all (\<lambda>n. (n = ''cache'' \<or> n = ''data'') \<and> is_dir F (p @ [n])) entries
                \<and> (\<not> exists_at F (p @ [''data''])
                   \<or> list_all (\<lambda>n. n = ''security-scan'' \<and> is_dir F (p @ [''data'', n])
                        \<and> names_in F (p @ [''data'', n]) = []) (names_in F (p @ [''data''])))
                \<and> is_dir F (p @ [''cache''])
                \<and> list_all (marketplace_disabled F enabled (p @ [''cache''])) (names_in F (p @ [''cache'']))))"

definition orca_marker :: string where
  "orca_marker = ''// @orca-managed-pi-extension''"

text \<open>\<open>stream.readline(128).rstrip()\<close>; decoding is judged on the whole file.\<close>

definition first_line :: "string \<Rightarrow> string" where
  "first_line t = rstrip_by is_space (take 128 (takeWhile (\<lambda>c. c \<noteq> CHR 0x0A) t))"

definition orca_managed_extensions_are_inert :: "fs \<Rightarrow> path \<Rightarrow> bool" where
  "orca_managed_extensions_are_inert F p =
     (\<not> tree_has_symlink F p \<and>
      (case iterdir F p of
         Inl _ \<Rightarrow> False
       | Inr entries \<Rightarrow> entries \<noteq> []
           \<and> list_all (\<lambda>n. is_file F (p @ [n]) \<and> n \<in> set ORCA_MANAGED_EXTENSION_NAMES) entries
           \<and> list_all (\<lambda>n. case read_text F (p @ [n]) of Inr t \<Rightarrow> first_line t = orca_marker | Inl _ \<Rightarrow> False) entries))"

section \<open>Passive paths\<close>

definition global_path_is_passive ::
    "host \<Rightarrow> fs \<Rightarrow> string \<Rightarrow> path \<Rightarrow> path \<Rightarrow> dict \<Rightarrow> dict \<Rightarrow> bool res" where
  "global_path_is_passive H F relative p home codex_config qoder_config =
     (if is_dir F p \<and> names_in F p = [] then Inr True
      else if relative \<in> set GLOBAL_FLOOR_PATHS then Inr (matches_host_floor F p)
      else if relative \<in> set [''.omp/agent/extensions'', ''.pi/agent/extensions'']
        then Inr (orca_managed_extensions_are_inert F p)
      else if relative = ''.codex/hooks'' then
        Inr (case as_dict (get codex_config ''features'') of Some f \<Rightarrow> is_false (get f ''hooks'') | None \<Rightarrow> False)
      else if relative = ''.codex/plugins'' then
        Inr (case as_dict (get codex_config ''features'') of
               Some f \<Rightarrow> is_false (get f ''plugins'')
                 \<and> \<not> codex_config_has_active_capability
                     (dict_set ''hooks'' (VDict []) (dict_set ''skills'' (VDict []) codex_config))
             | None \<Rightarrow> False)
      else if relative = ''.codex/skills'' then codex_system_skills_are_disabled H F p codex_config home
      else if relative = ''.qoder/plugins'' then Inr (qoder_plugin_cache_is_disabled F p qoder_config)
      else Inr False)"

section \<open>Configuration files\<close>

fun contains_mapping_key :: "string list \<Rightarrow> val \<Rightarrow> bool" where
  "contains_mapping_key ks (VDict d) = (\<exists>(k, v) \<in> set d. k \<in> set ks \<or> contains_mapping_key ks v)"
| "contains_mapping_key ks (VList xs) = (\<exists>x \<in> set xs. contains_mapping_key ks x)"
| "contains_mapping_key ks _ = False"

text \<open>
  The regular expressions of \<open>_text_has_top_level_key\<close>: at the start of a line, after blanks
  where \<open>indent\<close> allows them, a key, plain or in either kind of quotes, white space, a colon.
\<close>

fun line_starts :: "string \<Rightarrow> string list" where
  "line_starts [] = []"
| "line_starts (c # s) = (if c = CHR 0x0A then s # line_starts s else line_starts s)"

definition key_forms :: "string list \<Rightarrow> string list" where
  "key_forms ks = concat (map (\<lambda>k. [[CHR 0x22] @ k @ [CHR 0x22], [CHR 0x27] @ k @ [CHR 0x27], k]) ks)"

definition key_at :: "string list \<Rightarrow> string \<Rightarrow> bool" where
  "key_at ks s = list_ex (\<lambda>f. prefix f s
     \<and> (case dropWhile is_space (drop (length f) s) of c # _ \<Rightarrow> c = CHR '':'' | [] \<Rightarrow> False)) (key_forms ks)"

definition is_blank :: "char \<Rightarrow> bool" where
  "is_blank c = (c = CHR '' '' \<or> c = CHR 0x09)"

definition has_key_line :: "bool \<Rightarrow> string list \<Rightarrow> string \<Rightarrow> bool" where
  "has_key_line indent ks text =
     list_ex (\<lambda>s. key_at ks (if indent then dropWhile is_blank s else s)) (text # line_starts text)"

definition text_has_top_level_key :: "fs \<Rightarrow> path \<Rightarrow> string list \<Rightarrow> bool res" where
  "text_has_top_level_key F p ks =
     bindE (wrapE (\<lambda>_. invalid ''global config must be readable UTF-8 text'') (read_text F p)) (\<lambda>text.
     Inr (if prefix ''{'' (dropWhile is_space text) then
            (case loads False text of
               Inl _ \<Rightarrow> has_key_line True ks text
             | Inr v \<Rightarrow> (case as_dict v of Some d \<Rightarrow> list_ex (has_key d) ks | None \<Rightarrow> False))
          else has_key_line False ks text))"

section \<open>The check\<close>

definition read_codex_config :: "host \<Rightarrow> fs \<Rightarrow> path \<Rightarrow> dict res" where
  "read_codex_config H F home =
     (let p = home @ [''.codex'', ''config.toml''] in if is_file F p then read_toml H F p else Inr [])"

definition read_qoder_config :: "fs \<Rightarrow> path \<Rightarrow> val res" where
  "read_qoder_config F home =
     (let p = home @ [''.qoder'', ''settings.json''] in if is_file F p then strict_json F p else Inr (VDict []))"

text \<open>\<open>_global_path_is_passive\<close> with the raw Qoder document, whose \<open>get\<close> only the plugin
  cache test calls.\<close>

definition passive_entry :: "host \<Rightarrow> fs \<Rightarrow> path \<Rightarrow> dict \<Rightarrow> val \<Rightarrow> string \<Rightarrow> bool res" where
  "passive_entry H F home codex qoder relative =
     (let p = home @ parse_parts relative in
      case as_dict qoder of
        Some q \<Rightarrow> global_path_is_passive H F relative p home codex q
      | None \<Rightarrow> (if relative = ''.qoder/plugins'' \<and> \<not> (is_dir F p \<and> names_in F p = [])
                then Inl (AttributeError ''get'') else global_path_is_passive H F relative p home codex []))"

definition global_violation :: "host \<Rightarrow> fs \<Rightarrow> path \<Rightarrow> dict \<Rightarrow> val \<Rightarrow> string \<Rightarrow> string list res" where
  "global_violation H F home codex qoder relative =
     (if \<not> lexists F (home @ parse_parts relative) then Inr []
      else bindE (passive_entry H F home codex qoder relative) (\<lambda>b. Inr (if b then [] else [relative])))"

definition json_config_violation :: "fs \<Rightarrow> path \<Rightarrow> string \<times> string list \<Rightarrow> string list res" where
  "json_config_violation F home entry =
     (let p = home @ parse_parts (fst entry) in
      if is_file F p then bindE (strict_json F p) (\<lambda>v.
        Inr (if contains_mapping_key (snd entry) v then [fst entry] else []))
      else Inr [])"

definition text_config_violation :: "fs \<Rightarrow> path \<Rightarrow> string \<times> string list \<Rightarrow> string list res" where
  "text_config_violation F home entry =
     (let p = home @ parse_parts (fst entry) in
      if is_file F p then bindE (text_has_top_level_key F p (snd entry)) (\<lambda>b.
        Inr (if b then [fst entry] else []))
      else Inr [])"

definition json_configs :: "(string \<times> string list) list" where
  "json_configs = [(''.claude.json'', [''enabledPlugins'', ''hooks'', ''mcpServers'', ''plugins'', ''skills'']),
     (''.gemini/settings.json'', [''extensions'', ''hooks'', ''mcpServers'', ''plugins'', ''skills''])]"

definition text_configs :: "(string \<times> string list) list" where
  "text_configs = [(''.config/opencode/opencode.json'', [''instructions'', ''mcp'', ''plugin'']),
     (''.omp/agent/config.yml'', [''extensions'', ''hooks'', ''mcp'', ''mcpServers'', ''plugins'', ''rules'', ''skills'']),
     (''.pi/agent/config.yml'', [''extensions'', ''hooks'', ''mcp'', ''mcpServers'', ''plugins'', ''rules'', ''skills''])]"

definition qoder_violation :: "path \<Rightarrow> val \<Rightarrow> string list res" where
  "qoder_violation home qoder =
     (if \<not> truthy qoder then Inr [] else
      bindE (someE (AttributeError ''get'') (as_dict qoder)) (\<lambda>q.
      Inr (if qoder_config_has_active_capability q home then [''.qoder/settings.json''] else [])))"

definition global_violations :: "host \<Rightarrow> fs \<Rightarrow> string list res" where
  "global_violations H F =
     (let home = home_dir H in
      bindE (read_codex_config H F home) (\<lambda>codex.
      bindE (read_qoder_config F home) (\<lambda>qoder.
      bindE (mapE (global_violation H F home codex qoder) GLOBAL_CAPABILITY_PATHS) (\<lambda>v1.
      bindE (mapE (json_config_violation F home) json_configs) (\<lambda>v2.
      bindE (qoder_violation home qoder) (\<lambda>v3.
      bindE (mapE (text_config_violation F home) text_configs) (\<lambda>v4.
      Inr (concat v1
           @ (if codex \<noteq> [] \<and> codex_config_has_active_capability codex then [''.codex/config.toml''] else [])
           @ concat v2 @ v3 @ concat v4))))))))"

definition check_global_pollution :: "host \<Rightarrow> fs \<Rightarrow> unit res" where
  "check_global_pollution H F =
     bindE (global_violations H F) (\<lambda>vs.
     raise_if (vs \<noteq> []) (invalid ''global capability pollution detected''))"

section \<open>What the tests accept\<close>

lemma normpath_no_dotdot: "''..'' \<notin> set ps \<Longrightarrow> normpath ps = ps"
proof -
  have "''..'' \<notin> set ps \<Longrightarrow> foldl (\<lambda>acc p. if p = ''..'' then butlast acc else acc @ [p]) acc ps = acc @ ps" for acc
    by (induction ps arbitrary: acc) auto
  then show "''..'' \<notin> set ps \<Longrightarrow> normpath ps = ps" by (simp add: normpath_def)
qed

lemma normpath_no_parent: "''..'' \<notin> set (normpath ps)"
proof -
  have "''..'' \<notin> set acc \<Longrightarrow> ''..'' \<notin> set (foldl (\<lambda>acc p. if p = ''..'' then butlast acc else acc @ [p]) acc ps)" for acc
    by (induction ps arbitrary: acc) (auto dest: in_set_butlastD)
  then show ?thesis by (simp add: normpath_def)
qed

text \<open>A Codex configuration that is not active defines no MCP server, no plugin and no hook
  and enables no capability feature.\<close>

lemma inactive_codex_config:
  assumes "\<not> codex_config_has_active_capability config"
  shows "\<not> truthy (get config ''mcp_servers'')"
    and "k \<in> set CODEX_CAPABILITY_FEATURES \<Longrightarrow> get config ''features'' = VDict f \<Longrightarrow> map_of f k = Some v \<Longrightarrow> v = VBool False"
    and "get config ''plugins'' = VDict ps \<Longrightarrow> (n, p) \<in> set ps \<Longrightarrow> \<exists>d. p = VDict d \<and> get d ''enabled'' = VBool False"
    and "get config ''hooks'' = VDict hs \<Longrightarrow> set (keys hs) \<subseteq> {''state''}"
proof -
  have "active_root config ''mcp_servers'' \<Longrightarrow> codex_config_has_active_capability config"
    unfolding codex_config_has_active_capability_def list_ex_iff
    by (rule disjI1, rule bexI [of _ "''mcp_servers''"]) (simp_all add: CODEX_CAPABILITY_KEYS_def list_minus_def)
  then show "\<not> truthy (get config ''mcp_servers'')"
    using assms by (auto simp: active_root_def CODEX_EXPLICITLY_DISABLABLE_ROOTS_def)
  show "v = VBool False" if "k \<in> set CODEX_CAPABILITY_FEATURES" "get config ''features'' = VDict f" "map_of f k = Some v"
  proof -
    have "\<not> features_active (get config ''features'')"
      using assms by (simp add: codex_config_has_active_capability_def)
    then have "\<not> feature_active (k, v)"
      using that(2,3) by (auto simp: features_active_def list_ex_iff dest: map_of_SomeD)
    then show ?thesis using that(1) by (simp add: feature_active_def is_false_def)
  qed
  show "\<exists>d. p = VDict d \<and> get d ''enabled'' = VBool False" if "get config ''plugins'' = VDict ps" "(n, p) \<in> set ps"
  proof -
    have "\<not> plugins_active (get config ''plugins'')"
      using assms by (simp add: codex_config_has_active_capability_def)
    then have "disabled_entry p" using that by (auto simp: plugins_active_def list_all_iff)
    then show ?thesis by (cases p) (auto simp: disabled_entry_def is_false_def)
  qed
  show "set (keys hs) \<subseteq> {''state''}" if "get config ''hooks'' = VDict hs"
  proof -
    have "\<not> hooks_active (get config ''hooks'')"
      using assms by (simp add: codex_config_has_active_capability_def)
    then show ?thesis using that by (cases "hs = []") (auto simp: hooks_active_def list_minus_Nil)
  qed
qed

end
