(* ===== verification/HomeInventory.thy ===== *)
theory HomeInventory
  imports GlobalConfig Capabilities Redaction Documents
begin

text \<open>
  The inventory of a real home directory (\<open>discover_real_home\<close>), its Agent-facing part
  (\<open>discover_asset_inventory\<close>), its classification by the operations of a role
  (\<open>classify_asset_inventory\<close>) and the gate on the result (\<open>enforce_asset_closure\<close>). Entries
  are documents: dictionaries with path, kind, state, digest and capabilities.
\<close>

section \<open>Digests of home entries\<close>

definition link_text :: "bool \<Rightarrow> path \<Rightarrow> string" where
  "link_text absolute target = (if absolute then abs_str target else posix target)"

definition home_record :: "host \<Rightarrow> fs \<Rightarrow> path \<Rightarrow> path \<Rightarrow> (string \<times> val) res" where
  "home_record H F p q =
     bindE (someE (OSError ''lstat'') (lstat F q)) (\<lambda>nd.
     let relative = (if q = p then ''.'' else rel_posix p q);
         mode = (''mode'', VStr (oct4 (st_mode (node_meta nd)))) in
     case nd of
       NLink m a t \<Rightarrow> Inr (relative, VDict [(''type'', VStr ''symlink''), mode,
         (''target_sha256'', VStr (sha256 H (link_text a t)))])
     | _ \<Rightarrow>
       (if is_dir F q then Inr (relative, VDict [(''type'', VStr ''directory''), mode])
        else if is_file F q then
          bindE (redacted_file_bytes H F q) (\<lambda>c.
          Inr (relative, VDict [(''type'', VStr ''file''), mode, (''sha256'', VStr (sha256 H c))]))
        else Inl (invalid ''unsupported machine-context capability entry'')))"

definition home_path_digest :: "host \<Rightarrow> fs \<Rightarrow> path \<Rightarrow> string res" where
  "home_path_digest H F p =
     (let entries = p # (if is_dir F p \<and> \<not> is_symlink F p then rglob F p else []) in
      if length entries > 4096 then Inl (invalid ''machine-context capability tree exceeds 4096 entries'')
      else bindE (mapE (home_record H F p) entries) (\<lambda>rs. Inr (digest H (VDict (dict_of rs)))))"

section \<open>Kinds and capability ids\<close>

definition home_entry_kind :: "string \<Rightarrow> string" where
  "home_entry_kind relative =
     (let folded = casefold relative in
      if list_ex (\<lambda>n. contains n folded) [''agents.md'', ''claude.md'', ''gemini.md'', ''instructions''] then ''context''
      else if contains ''skill'' folded then ''skills''
      else if contains ''mcp'' folded then ''mcp''
      else if contains ''hook'' folded then ''hooks''
      else if contains ''plugin'' folded \<or> contains ''extension'' folded then ''plugins''
      else ''settings'')"

text \<open>\<open>add_values\<close>: the identifiers among the keys of a mapping or the elements of a list.\<close>

definition id_values :: "val \<Rightarrow> string list" where
  "id_values v = (case as_dict v of
       Some d \<Rightarrow> filter is_identifier (keys d)
     | None \<Rightarrow> (case as_list v of
         Some xs \<Rightarrow> filter is_identifier (concat (map (\<lambda>x. case as_str x of Some s \<Rightarrow> [s] | None \<Rightarrow> []) xs))
       | None \<Rightarrow> []))"

type_synonym inventory = "(string \<times> string list) list"

definition plugin_marker_name :: "fs \<Rightarrow> path \<Rightarrow> string list res" where
  "plugin_marker_name F marker =
     bindE (strict_json F marker) (\<lambda>v. Inr (case as_dict v of
         Some d \<Rightarrow> (case as_str (get d ''name'') of Some s \<Rightarrow> (if is_identifier s then [s] else []) | None \<Rightarrow> [])
       | None \<Rightarrow> []))"

definition tree_ids :: "fs \<Rightarrow> path \<Rightarrow> string \<Rightarrow> (string list \<times> string list \<times> string list) res" where
  "tree_ids F p kind =
     (if kind = ''skills'' \<and> is_dir F p then
        Inr (filter is_identifier (map (\<lambda>q. name_of (parent q)) (filter (\<lambda>q. name_of q = ''SKILL.md'') (rglob F p))), [], [])
      else if kind = ''hooks'' \<and> is_dir F p then
        bindE (iterdir F p) (\<lambda>ns. Inr ([], filter is_identifier ns, []))
      else if kind = ''plugins'' \<and> is_dir F p then
        bindE (mapE (plugin_marker_name F) (filter (\<lambda>q. name_of q = ''plugin.json'') (rglob F p))) (\<lambda>ns.
        Inr ([], [], concat ns))
      else Inr ([], [], []))"

definition config_ids :: "host \<Rightarrow> fs \<Rightarrow> path \<Rightarrow> (string list \<times> string list) res" where
  "config_ids H F p =
     (if is_file F p \<and> casefold (suffix_of p) = ''.json'' then
        bindE (strict_json F p) (\<lambda>v. Inr (case as_dict v of
            Some d \<Rightarrow> (id_values (get d ''mcpServers''), id_values (get d ''enabledPlugins''))
          | None \<Rightarrow> ([], [])))
      else if is_file F p \<and> casefold (suffix_of p) = ''.toml'' then
        bindE (read_toml H F p) (\<lambda>d. Inr (id_values (get d ''mcp_servers'') @ id_values (get d ''mcpServers''), []))
      else Inr ([], []))"

text \<open>Any error while reading gives the empty inventory.\<close>

definition home_capability_inventory :: "host \<Rightarrow> fs \<Rightarrow> path \<Rightarrow> string \<Rightarrow> inventory" where
  "home_capability_inventory H F p kind =
     (case bindE (tree_ids F p kind) (\<lambda>t. bindE (config_ids H F p) (\<lambda>c. Inr (t, c))) of
        Inl _ \<Rightarrow> [(''skills'', []), (''mcps'', []), (''hooks'', []), (''plugins'', [])]
      | Inr ((sk, hk, pl), (mc, pl2)) \<Rightarrow>
          [(''skills'', sorted_set sk), (''mcps'', sorted_set mc), (''hooks'', sorted_set hk),
           (''plugins'', sorted_set (pl @ pl2))])"

section \<open>Discovery\<close>

definition real_home_config_keys :: "(string \<times> string list) list" where
  "real_home_config_keys = json_configs @ text_configs"

definition home_candidates :: "string list" where
  "home_candidates = sorted_set (GLOBAL_CAPABILITY_PATHS @ keys real_home_config_keys
     @ [''.codex/config.toml'', ''.qoder/settings.json''])"

definition home_entry_active :: "host \<Rightarrow> fs \<Rightarrow> path \<Rightarrow> dict \<Rightarrow> val \<Rightarrow> string \<Rightarrow> bool res" where
  "home_entry_active H F home codex qoder relative =
     (let p = home @ parse_parts relative in
      bindE (if relative \<in> set GLOBAL_CAPABILITY_PATHS
             then bindE (passive_entry H F home codex qoder relative) (\<lambda>b. Inr (\<not> b)) else Inr True) (\<lambda>active.
      if relative = ''.codex/config.toml'' then
        Inr (codex \<noteq> [] \<and> codex_config_has_active_capability codex)
      else if relative = ''.qoder/settings.json'' then
        (if \<not> truthy qoder then Inr False
         else bindE (someE (AttributeError ''get'') (as_dict qoder)) (\<lambda>q.
           Inr (qoder_config_has_active_capability q home)))
      else if relative \<in> set (keys real_home_config_keys) then
        (if \<not> is_file F p then Inr False
         else let ks = the (map_of real_home_config_keys relative) in
           if casefold (suffix_of p) = ''.json'' then
             bindE (strict_json F p) (\<lambda>v. Inr (contains_mapping_key ks v))
           else text_has_top_level_key F p ks)
      else Inr active))"

definition inventory_doc :: "inventory \<Rightarrow> val" where
  "inventory_doc iv = VDict (map (\<lambda>(k, ns). (k, VList (map VStr ns))) iv)"

definition home_entry :: "host \<Rightarrow> fs \<Rightarrow> path \<Rightarrow> dict \<Rightarrow> val \<Rightarrow> string \<Rightarrow> val list res" where
  "home_entry H F home codex qoder relative =
     (let p = home @ parse_parts relative; kind = home_entry_kind relative in
      if \<not> lexists F p then Inr []
      else
        bindE (home_entry_active H F home codex qoder relative) (\<lambda>active.
        bindE (home_path_digest H F p) (\<lambda>dg.
        Inr [VDict [(''path'', VStr relative), (''kind'', VStr kind),
          (''state'', VStr (if active then ''active'' else ''passive'')), (''digest'', VStr dg),
          (''capabilities'', inventory_doc (home_capability_inventory H F p kind))]])))"

definition str_field :: "val \<Rightarrow> string \<Rightarrow> string \<Rightarrow> bool" where
  "str_field v k s = (case as_dict v of Some d \<Rightarrow> get d k = VStr s | None \<Rightarrow> False)"

definition is_active_entry :: "val \<Rightarrow> bool" where
  "is_active_entry v = str_field v ''state'' ''active''"

definition context_doc :: "host \<Rightarrow> path \<Rightarrow> val list \<Rightarrow> dict" where
  "context_doc H home entries =
     [(''version'', VInt BASE_MANIFEST_VERSION), (''context'', VStr MACHINE_CONTEXT_NAME),
      (''home'', VStr (abs_str home)),
      (''effective_digest'', VStr (digest H (VList (filter is_active_entry entries)))),
      (''inventory_digest'', VStr (digest H (VList entries))), (''entries'', VList entries)]"

definition home_entries :: "host \<Rightarrow> fs \<Rightarrow> path \<Rightarrow> val list res" where
  "home_entries H F home =
     bindE (read_codex_config H F home) (\<lambda>codex.
     bindE (read_qoder_config F home) (\<lambda>qoder.
     bindE (mapE (home_entry H F home codex qoder) home_candidates) (\<lambda>es. Inr (concat es))))"

definition discover_real_home :: "host \<Rightarrow> fs \<Rightarrow> path \<Rightarrow> dict res" where
  "discover_real_home H F home_root =
     bindE (someE (OSError ''home'') (resolve F home_root)) (\<lambda>home.
     if \<not> is_dir F home then Inl (invalid ''real HOME is not a directory'')
     else bindE (home_entries H F home) (\<lambda>es. Inr (context_doc H home es)))"

section \<open>The asset inventory\<close>

definition list_field :: "dict \<Rightarrow> string \<Rightarrow> val list" where
  "list_field d k = (case as_list (get d k) of Some xs \<Rightarrow> xs | None \<Rightarrow> [])"

definition with_status :: "string \<Rightarrow> val \<Rightarrow> val" where
  "with_status s v = (case as_dict v of Some d \<Rightarrow> VDict (dict_set ''status'' (VStr s) d) | None \<Rightarrow> v)"

definition observed :: "val \<Rightarrow> val" where
  "observed v = with_status (if is_active_entry v then ''unknown'' else ''observed'') v"

definition kind_in :: "string list \<Rightarrow> val \<Rightarrow> bool" where
  "kind_in ks v = list_ex (str_field v ''kind'') ks"

record assets =
  as_context_digest :: val
  as_digest :: string
  as_capabilities :: "val list"
  as_instructions :: "val list"

definition asset_inventory :: "host \<Rightarrow> dict \<Rightarrow> assets" where
  "asset_inventory H ctx =
     (let entries = list_field ctx ''entries'';
          caps = map observed (filter (kind_in CAPABILITY_KINDS) entries);
          inst = map observed (filter (kind_in [''context'']) entries)
      in \<lparr>as_context_digest = get ctx ''effective_digest'',
          as_digest = digest H (VDict [(''capability'', VList caps), (''instruction'', VList inst)]),
          as_capabilities = caps, as_instructions = inst\<rparr>)"

definition discover_asset_inventory :: "host \<Rightarrow> fs \<Rightarrow> path \<Rightarrow> assets res" where
  "discover_asset_inventory H F home_root =
     bindE (discover_real_home H F home_root) (\<lambda>ctx. Inr (asset_inventory H ctx))"

section \<open>Classification\<close>

definition entry_names :: "val \<Rightarrow> string list" where
  "entry_names v = (case as_dict v of
       None \<Rightarrow> []
     | Some d \<Rightarrow>
         concat (map (\<lambda>(_, ns). case as_list ns of Some xs \<Rightarrow> map str_of xs | None \<Rightarrow> [])
           (case as_dict (get_or d ''capabilities'' (VDict [])) of Some c \<Rightarrow> c | None \<Rightarrow> []))
         @ [str_of (get d ''path'')])"

definition entry_status :: "string list \<Rightarrow> string list \<Rightarrow> bool \<Rightarrow> val \<Rightarrow> string" where
  "entry_status allowed denied client_limited v =
     (if client_limited then ''reported_client_limited''
      else if list_ex (\<lambda>n. n \<in> set denied) (entry_names v) then ''blocked''
      else if list_ex (\<lambda>n. n \<in> set allowed) (entry_names v) then ''allowed''
      else if str_field v ''status'' ''unknown'' then ''unknown'' else ''stripped'')"

definition classify :: "string list \<Rightarrow> string list \<Rightarrow> bool \<Rightarrow> val list \<Rightarrow> val list" where
  "classify allowed denied client_limited entries =
     map (\<lambda>v. with_status (entry_status allowed denied client_limited v) v) entries"

definition classify_asset_inventory :: "string list \<Rightarrow> string list \<Rightarrow> bool \<Rightarrow> assets \<Rightarrow> assets" where
  "classify_asset_inventory allowed denied client_limited iv =
     iv\<lparr>as_capabilities := classify allowed denied client_limited (as_capabilities iv),
         as_instructions := classify allowed denied client_limited (as_instructions iv)\<rparr>"

definition enforce_asset_closure :: "bool \<Rightarrow> assets \<Rightarrow> unit res" where
  "enforce_asset_closure require_client_evidence iv =
     (let entries = as_capabilities iv @ as_instructions iv in
      if list_ex (\<lambda>v. str_field v ''status'' ''blocked'') entries
        then Inl (invalid ''blocked Agent-facing assets'')
      else raise_if (require_client_evidence \<and> list_ex (\<lambda>v. str_field v ''status'' ''unknown'') entries)
        (invalid ''active Agent-facing assets lack client evidence''))"

section \<open>What passes the gate\<close>

lemma with_status_field:
  "as_dict v = Some d \<Longrightarrow> str_field (with_status s v) ''status'' t \<longleftrightarrow> s = t"
  by (simp add: with_status_def str_field_def get_def)

definition wf_entry :: "val \<Rightarrow> bool" where
  "wf_entry v \<longleftrightarrow> is_dict v"

lemma wf_entry_dict: "wf_entry v \<Longrightarrow> \<exists>d. as_dict v = Some d"
  by (cases v) (auto simp: wf_entry_def)

text \<open>The gate after classification passes exactly when no entry carries a denied name, and
  every active entry carries an allowed one.\<close>

lemma enforce_classified:
  assumes "\<forall>v \<in> set (as_capabilities iv @ as_instructions iv). wf_entry v"
  shows "enforce_asset_closure True (classify_asset_inventory allowed denied False iv) = Inr u \<longleftrightarrow>
    (\<forall>v \<in> set (as_capabilities iv @ as_instructions iv).
       set (entry_names v) \<inter> set denied = {}
       \<and> (str_field v ''status'' ''unknown'' \<longrightarrow> set (entry_names v) \<inter> set allowed \<noteq> {}))"
proof -
  let ?st = "entry_status allowed denied False"
  have st: "str_field (with_status (?st v) v) ''status'' s \<longleftrightarrow> ?st v = s"
    if "v \<in> set (as_capabilities iv @ as_instructions iv)" for v s
    using wf_entry_dict assms that with_status_field by blast
  let ?E = "as_capabilities iv @ as_instructions iv"
  have "as_capabilities (classify_asset_inventory allowed denied False iv)
      @ as_instructions (classify_asset_inventory allowed denied False iv) = map (\<lambda>v. with_status (?st v) v) ?E"
    by (simp add: classify_asset_inventory_def classify_def)
  then have "enforce_asset_closure True (classify_asset_inventory allowed denied False iv) = Inr u \<longleftrightarrow>
    (\<forall>v \<in> set ?E. \<not> str_field (with_status (?st v) v) ''status'' ''blocked''
       \<and> \<not> str_field (with_status (?st v) v) ''status'' ''unknown'')"
    by (simp only: enforce_asset_closure_def Let_def list_ex_iff set_map) (auto simp: raise_if_Inr)
  also have "\<dots> \<longleftrightarrow> (\<forall>v \<in> set ?E. ?st v \<noteq> ''blocked'' \<and> ?st v \<noteq> ''unknown'')"
    using st by (intro ball_cong) auto
  also have "\<dots> \<longleftrightarrow> (\<forall>v \<in> set (as_capabilities iv @ as_instructions iv).
       set (entry_names v) \<inter> set denied = {}
       \<and> (str_field v ''status'' ''unknown'' \<longrightarrow> set (entry_names v) \<inter> set allowed \<noteq> {}))"
    by (rule ball_cong) (auto simp: entry_status_def list_ex_iff)
  finally show ?thesis .
qed

end
