(* ===== verification/Evidence.thy ===== *)
theory Evidence
  imports Lock
begin

text \<open>
  Evidence for the lock of a private overlay: redacted sources, the closure of each role and
  every rendered tree, written below the evidence root (\<open>_materialize_evidence\<close>) and compared
  with the tree rendered now (\<open>_verify_evidence\<close>).
\<close>

section \<open>Where it goes\<close>

definition path_of_str :: "host \<Rightarrow> string \<Rightarrow> path res" where
  "path_of_str H s =
     bindE (expand_home H s) (\<lambda>(absolute, ps). Inr (if absolute then ps else cwd H @ ps))"

definition evidence_root :: "host \<Rightarrow> path res" where
  "evidence_root H = (case map_of (environ H) ''CAP_EVIDENCE_ROOT'' of
       Some configured \<Rightarrow>
         (if configured \<noteq> [] then path_of_str H configured
          else Inr (home_dir H @ [''.agent-system-state'', ''evidence'']))
     | None \<Rightarrow> Inr (home_dir H @ [''.agent-system-state'', ''evidence'']))"

definition evidence_source_path :: "project \<Rightarrow> string \<Rightarrow> path res" where
  "evidence_source_path P relative =
     (if prefix ''public/'' relative then Inr (path_join (pr_root P) (drop 7 relative))
      else case pr_overlay P of
        None \<Rightarrow> Inl (invalid ''unknown evidence source'')
      | Some ov \<Rightarrow>
          (if prefix ''private/'' relative then Inr (path_join (ov_root ov) (drop 8 relative))
           else Inl (invalid ''unknown evidence source'')))"

section \<open>Entries\<close>

definition evidence_entry :: "host \<Rightarrow> string \<Rightarrow> nat \<Rightarrow> string \<Rightarrow> val" where
  "evidence_entry H p mode content = VDict [(''path'', VStr p), (''mode'', VStr (oct4 mode)),
     (''size'', VInt (int (length content))), (''sha256'', VStr (sha256 H content))]"

definition evidence_entries :: "host \<Rightarrow> rtree \<Rightarrow> val list" where
  "evidence_entries H t = map (\<lambda>(p, rf). evidence_entry H p (rf_mode rf) (rf_content rf)) (sort_key fst t)"

definition write_evidence_json :: "host \<Rightarrow> io \<Rightarrow> path \<Rightarrow> val \<Rightarrow> (fs, unit) st" where
  "write_evidence_json H io root payload = atomic_write H io (root @ [''evidence.json'']) (canonical_json payload) 384"

definition write_evidence_entries :: "host \<Rightarrow> io \<Rightarrow> path \<Rightarrow> val list \<Rightarrow> (fs, unit) st" where
  "write_evidence_entries H io root entries =
     atomic_write H io (root @ [''entries.jsonl'']) (concat (map canonical_json entries)) 384"

section \<open>Writing\<close>

definition is_file_record :: "val \<Rightarrow> bool" where
  "is_file_record v = (case as_dict v of Some d \<Rightarrow> get d ''type'' = VStr ''file'' | None \<Rightarrow> False)"

definition source_content :: "host \<Rightarrow> fs \<Rightarrow> project \<Rightarrow> string \<times> val \<Rightarrow> (string \<times> string \<times> val) res" where
  "source_content H F P rec = (case rec of (relative, record) \<Rightarrow>
     bindE (evidence_source_path P relative) (\<lambda>source.
     bindE (redacted_file_bytes H F source) (\<lambda>c.
     Inr (relative, c, VDict [(''path'', VStr relative),
       (''mode'', case as_dict record of Some d \<Rightarrow> get d ''mode'' | None \<Rightarrow> VNone),
       (''size'', VInt (int (length c))), (''sha256'', VStr (sha256 H c))]))))"

definition write_source :: "host \<Rightarrow> io \<Rightarrow> project \<Rightarrow> path \<Rightarrow> string \<times> val \<Rightarrow> (fs, val) st" where
  "write_source H io P source_root rec =
     bindS (readS (\<lambda>F. source_content H F P rec)) (\<lambda>(relative, c, entry).
     bindS (atomic_write H io (path_join (source_root @ [''tree'']) relative) c (canonical_mode [])) (\<lambda>_.
     returnS entry))"

fun mapS :: "('a \<Rightarrow> ('s, 'b) st) \<Rightarrow> 'a list \<Rightarrow> ('s, 'b list) st" where
  "mapS f [] = returnS []"
| "mapS f (x # xs) = bindS (f x) (\<lambda>y. bindS (mapS f xs) (\<lambda>ys. returnS (y # ys)))"

definition role_doc :: "val \<Rightarrow> string \<Rightarrow> val res" where
  "role_doc desired nm =
     bindE (someE (TypeError ''desired'') (as_dict desired)) (\<lambda>d.
     bindE (item d ''profiles'') (\<lambda>ps.
     bindE (someE (TypeError ''profiles'') (as_dict ps)) (\<lambda>pd. item pd nm)))"

definition str_item :: "val \<Rightarrow> string \<Rightarrow> string res" where
  "str_item v k = bindE (someE (TypeError ''subscript'') (as_dict v)) (\<lambda>d.
     bindE (item d k) (\<lambda>x. someE (TypeError ''not a string'') (as_str x)))"

definition layer_digest_of :: "val \<Rightarrow> string \<Rightarrow> string res" where
  "layer_digest_of desired nm = bindE (role_doc desired nm) (\<lambda>r. str_item r ''layer_digest'')"

definition locked_tree_hash :: "val \<Rightarrow> string \<Rightarrow> string \<Rightarrow> string res" where
  "locked_tree_hash desired nm client =
     bindE (role_doc desired nm) (\<lambda>r.
     bindE (someE (TypeError ''role'') (as_dict r)) (\<lambda>d.
     bindE (item d ''clients'') (\<lambda>cs.
     bindE (someE (TypeError ''clients'') (as_dict cs)) (\<lambda>cd.
     bindE (item cd client) (\<lambda>c. str_item c ''tree_hash'')))))"

definition render_evidence_doc :: "string \<Rightarrow> string \<Rightarrow> string \<Rightarrow> string \<Rightarrow> string \<Rightarrow> val list \<Rightarrow> val" where
  "render_evidence_doc th nm client sd cd entries = VDict [(''version'', VInt EVIDENCE_VERSION),
     (''kind'', VStr ''render''), (''digest'', VStr th), (''profile'', VStr nm), (''client'', VStr client),
     (''source_digest'', VStr sd), (''closure_digest'', VStr cd), (''entries'', VList entries)]"

definition write_render ::
    "host \<Rightarrow> io \<Rightarrow> project \<Rightarrow> val \<Rightarrow> path \<Rightarrow> string \<Rightarrow> string \<Rightarrow> string \<times> profile \<Rightarrow> string \<Rightarrow> (fs, unit) st" where
  "write_render H io P desired root sd cd role client =
     bindS (readS (\<lambda>F. render_tree H F P client (snd role))) (\<lambda>t.
     bindS (readS (\<lambda>F. locked_tree_hash desired (fst role) client)) (\<lambda>th.
     let rr = root @ [''renders'', th, fst role, client] in
     bindS (forS (\<lambda>(relative, rf). atomic_write H io (path_join (rr @ [''tree'']) relative) (rf_content rf) (rf_mode rf)) t) (\<lambda>_.
     bindS (write_evidence_entries H io rr (evidence_entries H t)) (\<lambda>_.
     write_evidence_json H io rr (render_evidence_doc th (fst role) client sd cd (evidence_entries H t))))))"

definition write_closure ::
    "host \<Rightarrow> io \<Rightarrow> project \<Rightarrow> val \<Rightarrow> path \<Rightarrow> string \<Rightarrow> string \<times> profile \<Rightarrow> (fs, unit) st" where
  "write_closure H io P desired root sd role =
     bindS (readS (\<lambda>F. layer_digest_of desired (fst role))) (\<lambda>cd.
     bindS (write_evidence_json H io (root @ [''closures'', cd])
       (VDict [(''version'', VInt EVIDENCE_VERSION), (''kind'', VStr ''closure''), (''digest'', VStr cd),
         (''profile'', VStr (fst role)), (''source_digest'', VStr sd),
         (''inventory'', profile_inventory (snd role))])) (\<lambda>_.
     forS (write_render H io P desired root sd cd role) CLIENTS))"

definition source_digest :: "host \<Rightarrow> fs \<Rightarrow> project \<Rightarrow> string res" where
  "source_digest H F P = bindE (input_records H F P) (\<lambda>r. Inr (digest H (VDict r)))"

definition make_dirs :: "host \<Rightarrow> path \<Rightarrow> (fs, unit) st" where
  "make_dirs H p = (\<lambda>F. case mkdirs H 493 [] p F of Inl e \<Rightarrow> (Inl e, F) | Inr (_, F') \<Rightarrow> (Inr (), F'))"

definition materialize_evidence :: "host \<Rightarrow> io \<Rightarrow> project \<Rightarrow> val \<Rightarrow> (fs, unit) st" where
  "materialize_evidence H io P desired = (case pr_overlay P of
       None \<Rightarrow> returnS ()
     | Some ov \<Rightarrow>
         bindS (readS (\<lambda>F. evidence_root H)) (\<lambda>root.
         bindS (readS (\<lambda>F. raise_if (is_symlink F root) (invalid ''evidence root must not be a symlink''))) (\<lambda>_.
         bindS (make_dirs H root) (\<lambda>_.
         bindS (readS (\<lambda>F. source_digest H F P)) (\<lambda>sd.
         bindS (readS (\<lambda>F. input_records H F P)) (\<lambda>records.
         let source_root = root @ [''sources'', sd] in
         bindS (mapS (write_source H io P source_root) (filter (\<lambda>(_, r). is_file_record r) records)) (\<lambda>entries.
         bindS (write_evidence_entries H io source_root entries) (\<lambda>_.
         bindS (write_evidence_json H io source_root
           (VDict [(''version'', VInt EVIDENCE_VERSION), (''kind'', VStr ''source''), (''digest'', VStr sd),
             (''entries'', VList entries),
             (''excluded'', strs [''secret'', ''auth'', ''session'', ''history'', ''cache''])])) (\<lambda>_.
         forS (write_closure H io P desired root sd) (sort_key fst (pr_profiles P)))))))))))"

section \<open>Comparing\<close>

definition doc_get :: "val \<Rightarrow> string \<Rightarrow> val res" where
  "doc_get v k = bindE (someE (AttributeError ''get'') (as_dict v)) (\<lambda>d. Inr (get d k))"

definition verify_render ::
    "host \<Rightarrow> fs \<Rightarrow> project \<Rightarrow> val \<Rightarrow> path \<Rightarrow> string \<times> profile \<Rightarrow> string \<Rightarrow> unit res" where
  "verify_render H F P desired root role client =
     bindE (locked_tree_hash desired (fst role) client) (\<lambda>th.
     let rr = root @ [''renders'', th, fst role, client] in
     bindE (strict_json F (rr @ [''evidence.json''])) (\<lambda>payload.
     bindE (render_tree H F P client (snd role)) (\<lambda>t.
     bindE (doc_get payload ''digest'') (\<lambda>dg.
     if dg \<noteq> VStr th \<or> tree_hash H t \<noteq> th then Inl (invalid ''render evidence is stale'')
     else forE (\<lambda>(relative, rf).
       let p = path_join (rr @ [''tree'']) relative in
       raise_if (\<not> is_file F p \<or> read_bytes F p \<noteq> Inr (rf_content rf))
         (invalid ''render evidence is missing or modified'')) t))))"

definition verify_closure :: "host \<Rightarrow> fs \<Rightarrow> project \<Rightarrow> val \<Rightarrow> path \<Rightarrow> string \<Rightarrow> string \<times> profile \<Rightarrow> unit res" where
  "verify_closure H F P desired root sd role =
     bindE (layer_digest_of desired (fst role)) (\<lambda>cd.
     bindE (strict_json F (root @ [''closures'', cd, ''evidence.json''])) (\<lambda>closure.
     bindE (doc_get closure ''source_digest'') (\<lambda>s.
     if s \<noteq> VStr sd then Inl (invalid ''closure evidence is stale'')
     else forE (verify_render H F P desired root role) CLIENTS)))"

definition verify_evidence :: "host \<Rightarrow> fs \<Rightarrow> project \<Rightarrow> val \<Rightarrow> unit res" where
  "verify_evidence H F P desired = (case pr_overlay P of
       None \<Rightarrow> Inr ()
     | Some ov \<Rightarrow>
         bindE (evidence_root H) (\<lambda>root.
         bindE (source_digest H F P) (\<lambda>sd.
         bindE (strict_json F (root @ [''sources'', sd, ''evidence.json''])) (\<lambda>payload.
         bindE (doc_get payload ''digest'') (\<lambda>dg.
         if dg \<noteq> VStr sd then Inl (invalid ''source evidence digest mismatch'')
         else forE (verify_closure H F P desired root sd) (sort_key fst (pr_profiles P)))))))"

text \<open>Accepted evidence holds, byte for byte, every file rendered now for every role and
  client, and the lock carries the hash of that tree.\<close>

lemma verify_render_Inr:
  assumes "verify_render H F P desired root role client = Inr u"
  shows "\<exists>t. render_tree H F P client (snd role) = Inr t
     \<and> locked_tree_hash desired (fst role) client = Inr (tree_hash H t)
     \<and> (\<forall>(relative, rf) \<in> set t. read_bytes F (path_join
          (root @ [''renders'', tree_hash H t, fst role, client, ''tree'']) relative) = Inr (rf_content rf))"
  using assms unfolding verify_render_def Let_def
  by (elim stepsE) (auto simp: forE_Inr raise_if_Inr)

lemma verify_evidence_Inr:
  assumes "verify_evidence H F P desired = Inr u" and "pr_overlay P = Some ov"
    and "role \<in> set (pr_profiles P)" and "client \<in> set CLIENTS"
  shows "\<exists>root t. evidence_root H = Inr root \<and> render_tree H F P client (snd role) = Inr t
     \<and> locked_tree_hash desired (fst role) client = Inr (tree_hash H t)
     \<and> (\<forall>(relative, rf) \<in> set t. read_bytes F (path_join
          (root @ [''renders'', tree_hash H t, fst role, client, ''tree'']) relative) = Inr (rf_content rf))"
proof -
  obtain root sd where r: "evidence_root H = Inr root"
      "forE (verify_closure H F P desired root sd) (sort_key fst (pr_profiles P)) = Inr u"
    using assms(1,2) unfolding verify_evidence_def by (simp only: option.case) (elim stepsE; blast)
  then have "verify_closure H F P desired root sd role = Inr ()"
    using assms(3) by (simp add: forE_Inr)
  then have "forE (verify_render H F P desired root role) CLIENTS = Inr ()"
    unfolding verify_closure_def by (elim stepsE)
  then have "verify_render H F P desired root role client = Inr ()"
    using assms(4) by (simp add: forE_Inr)
  from verify_render_Inr [OF this] r(1) show ?thesis by blast
qed

end
