(* ===== verification/Binding.thy ===== *)
theory Binding
  imports Lock HomeInventory Evidence
begin

text \<open>
  The machine context and its binding: the reviewed manifest of a real home, the pin that
  approves its digest, and the per-role binding file that ties a role's layer digest to an
  approved machine context. Warnings printed to standard error are returned as the list of
  findings they report.
\<close>

section \<open>Documents\<close>

definition resolve_str :: "host \<Rightarrow> fs \<Rightarrow> string \<Rightarrow> path res" where
  "resolve_str H F s =
     bindE (path_of_str H s) (\<lambda>p. someE (OSError ''resolve'') (resolve F p))"

text \<open>A value used where \<open>Path\<close> expects a string.\<close>

definition path_str :: "val \<Rightarrow> string res" where
  "path_str v = someE (TypeError ''argument should be a str'') (as_str v)"

text \<open>\<open>for x in value\<close>.\<close>

function code_points :: "string \<Rightarrow> string list" where
  "code_points [] = []"
| "code_points (c # s) = (c # takeWhile is_cont s) # code_points (dropWhile is_cont s)"
  by pat_completeness auto

termination
  by (relation "measure length") (auto simp: le_imp_less_Suc length_dropWhile_le)

fun iterate :: "val \<Rightarrow> val list res" where
  "iterate (VList xs) = Inr xs"
| "iterate (VTuple xs) = Inr xs"
| "iterate (VDict d) = Inr (map (VStr \<circ> fst) d)"
| "iterate (VStr s) = Inr (map VStr (code_points s))"
| "iterate _ = Inl (TypeError ''object is not iterable'')"

definition controlled_output_path :: "host \<Rightarrow> string \<Rightarrow> (fs, path) st" where
  "controlled_output_path H value =
     bindS (readS (\<lambda>F. path_of_str H value)) (\<lambda>p.
     bindS (make_dirs H (parent p)) (\<lambda>_.
     readS (\<lambda>F. if is_symlink F p \<or> path_has_symlink_component F (parent p)
                then Inl (invalid ''path must not traverse symlinks'') else Inr p)))"

definition create_base_manifest :: "host \<Rightarrow> io \<Rightarrow> string \<Rightarrow> string \<Rightarrow> (fs, dict) st" where
  "create_base_manifest H io home_root manifest_path =
     bindS (readS (\<lambda>F. bindE (path_of_str H home_root) (discover_real_home H F))) (\<lambda>payload.
     bindS (controlled_output_path H manifest_path) (\<lambda>target.
     bindS (write_json H io target (VDict payload) 384) (\<lambda>_.
     returnS payload)))"

definition manifest_keys :: "string list" where
  "manifest_keys = [''version'', ''context'', ''home'', ''effective_digest'', ''inventory_digest'', ''entries'']"

definition check_base_manifest :: "host \<Rightarrow> val \<Rightarrow> dict res" where
  "check_base_manifest H v =
     bindE (someE (invalid ''machine-context manifest must be an object'') (as_dict v)) (\<lambda>d.
     bindE (expect_keys d manifest_keys) (\<lambda>_.
     if \<not> py_eq (get d ''version'') (VInt BASE_MANIFEST_VERSION)
       then Inl (invalid ''machine-context manifest.version'')
     else if get d ''context'' \<noteq> VStr MACHINE_CONTEXT_NAME then Inl (invalid ''machine-context manifest.context'')
     else
     bindE (someE (invalid ''machine-context manifest.entries must be an array'') (as_list (get d ''entries''))) (\<lambda>es.
     if get d ''effective_digest'' \<noteq> VStr (digest H (VList (filter is_active_entry es)))
       then Inl (invalid ''machine-context effective_digest is invalid'')
     else if get d ''inventory_digest'' \<noteq> VStr (digest H (VList es))
       then Inl (invalid ''machine-context inventory_digest is invalid'')
     else Inr d)))"

definition load_base_manifest :: "host \<Rightarrow> fs \<Rightarrow> string \<Rightarrow> dict res" where
  "load_base_manifest H F p =
     bindE (resolve_str H F p) (\<lambda>target. bindE (strict_json F target) (check_base_manifest H))"

definition pin_doc :: "host \<Rightarrow> val \<Rightarrow> dict" where
  "pin_doc H approved = [(''version'', VInt BASE_PIN_VERSION), (''context'', VStr MACHINE_CONTEXT_NAME),
     (''approved_digest'', approved), (''approved_at'', VStr (utc_now H)),
     (''tool_version'', VStr RENDERER_VERSION), (''policy'', VStr ''tiered-gate'')]"

definition approve_base_manifest :: "host \<Rightarrow> io \<Rightarrow> string \<Rightarrow> string \<Rightarrow> (fs, dict) st" where
  "approve_base_manifest H io manifest_path pin_path =
     bindS (readS (\<lambda>F. load_base_manifest H F manifest_path)) (\<lambda>manifest.
     bindS (controlled_output_path H pin_path) (\<lambda>target.
     bindS (write_json H io target (VDict (pin_doc H (get manifest ''effective_digest''))) 420) (\<lambda>_.
     returnS (pin_doc H (get manifest ''effective_digest'')))))"

definition check_base_pin :: "val \<Rightarrow> dict res" where
  "check_base_pin v =
     bindE (someE (invalid ''machine-context pin must be an object'') (as_dict v)) (\<lambda>d.
     bindE (expect_keys d [''version'', ''context'', ''approved_digest'', ''approved_at'', ''tool_version'', ''policy'']) (\<lambda>_.
     if \<not> py_eq (get d ''version'') (VInt BASE_PIN_VERSION) then Inl (invalid ''machine-context pin.version'')
     else if get d ''context'' \<noteq> VStr MACHINE_CONTEXT_NAME then Inl (invalid ''machine-context pin.context'')
     else if get d ''policy'' \<noteq> VStr ''tiered-gate'' then Inl (invalid ''machine-context pin.policy'')
     else Inr d))"

definition load_base_pin :: "host \<Rightarrow> fs \<Rightarrow> string \<Rightarrow> dict res" where
  "load_base_pin H F p =
     bindE (resolve_str H F p) (\<lambda>target. bindE (strict_json F target) check_base_pin)"

section \<open>Drift\<close>

definition entry_path :: "val \<Rightarrow> string option" where
  "entry_path v = Option.bind (as_dict v) (\<lambda>d. as_str (get d ''path''))"

text \<open>\<open>{entry["path"]: entry for entry in entries if ...}\<close>\<close>

definition entries_by_path :: "val list \<Rightarrow> (string \<times> val) list" where
  "entries_by_path es = dict_of (concat (map (\<lambda>v. case entry_path v of None \<Rightarrow> [] | Some p \<Rightarrow> [(p, v)]) es))"

definition same_entry :: "val option \<Rightarrow> val option \<Rightarrow> bool" where
  "same_entry a b = (case (a, b) of (Some v, Some w) \<Rightarrow> py_eq v w | (None, None) \<Rightarrow> True | _ \<Rightarrow> False)"

definition active_in :: "val option \<Rightarrow> bool" where
  "active_in a = (case a of Some v \<Rightarrow> is_active_entry v | None \<Rightarrow> False)"

definition base_diff :: "val list \<Rightarrow> val list \<Rightarrow> string list \<times> string list" where
  "base_diff locked live =
     (let le = entries_by_path locked; ve = entries_by_path live;
          changed = filter (\<lambda>p. \<not> same_entry (map_of le p) (map_of ve p)) (sorted_set (keys le @ keys ve));
          active = (\<lambda>p. active_in (map_of le p) \<or> active_in (map_of ve p))
      in (filter active changed, filter (\<lambda>p. \<not> active p) changed))"

section \<open>Gates on the machine context\<close>

definition out_of_scope_names :: "string list \<Rightarrow> val \<Rightarrow> (string \<times> string) list" where
  "out_of_scope_names declared v =
     (if \<not> is_active_entry v then [] else
      case (entry_path v, Option.bind (as_dict v) (\<lambda>d. as_dict (get d ''capabilities''))) of
        (Some p, Some c) \<Rightarrow>
          (case as_list (get c ''mcps'') of
             Some ns \<Rightarrow> map (\<lambda>n. (str_of n, p)) (filter (\<lambda>n. is_str n \<and> str_of n \<notin> set declared) ns)
           | None \<Rightarrow> [])
      | _ \<Rightarrow> [])"

text \<open>\<open>sorted(findings)\<close> on pairs: by name, then by path.\<close>

definition out_of_scope_base_mcps :: "profile \<Rightarrow> dict \<Rightarrow> (string \<times> string) list" where
  "out_of_scope_base_mcps P manifest =
     sort_key fst (sort_key snd (remdups (concat (map (out_of_scope_names (p_mcps P)) (list_field manifest ''entries'')))))"

definition warn_out_of_scope_base_mcps ::
    "host \<Rightarrow> fs \<Rightarrow> profile \<Rightarrow> string option \<Rightarrow> (string \<times> string) list res" where
  "warn_out_of_scope_base_mcps H F P manifest_path = (case manifest_path of
       None \<Rightarrow> Inr []
     | Some p \<Rightarrow> bindE (load_base_manifest H F p) (\<lambda>m. Inr (out_of_scope_base_mcps P m)))"

definition base_entry_names :: "string \<Rightarrow> val \<Rightarrow> string list res" where
  "base_entry_names field v =
     (if \<not> is_active_entry v then Inr [] else
      case Option.bind (as_dict v) (\<lambda>d. as_dict (get d ''capabilities'')) of
        None \<Rightarrow> Inr []
      | Some c \<Rightarrow> bindE (iterate (get_or c field (VTuple []))) (\<lambda>ns. Inr (map str_of (filter is_str ns))))"

definition base_names :: "val list \<Rightarrow> string \<Rightarrow> string list res" where
  "base_names entries field = bindE (mapE (base_entry_names field) entries) (\<lambda>nss. Inr (concat nss))"

text \<open>One field of one layer: the names in effect after it.\<close>

definition apply_layer_field :: "cap_ops \<Rightarrow> string list \<Rightarrow> string list res" where
  "apply_layer_field ops effective =
     (if \<not> list_all (\<lambda>n. n \<notin> set effective) (allow ops)
        then Inl (invalid ''allow conflicts with base/layer names'')
      else if list_minus (deny ops) effective \<noteq> [] \<or> list_minus (override ops) effective \<noteq> []
        then Inl (invalid ''references unknown inherited names'')
      else Inr (list_minus (list_minus effective (deny ops)) (override ops) @ override ops @ allow ops))"

definition profile_fields :: "string list" where
  "profile_fields = [''skills'', ''mcps'', ''hooks'', ''plugins'']"

type_synonym effective = "(string \<times> string list) list"

definition apply_layer :: "profile \<Rightarrow> effective \<Rightarrow> effective res" where
  "apply_layer L eff =
     foldE (\<lambda>e field.
       bindE (someE (KeyError field) (map_of (p_operations L) field)) (\<lambda>ops.
       bindE (someE (KeyError field) (map_of e field)) (\<lambda>names.
       bindE (apply_layer_field ops names) (\<lambda>names'. Inr (dict_set field names' e))))) eff profile_fields"

definition validate_base_layer_operations :: "project \<Rightarrow> profile \<Rightarrow> dict \<Rightarrow> unit res" where
  "validate_base_layer_operations proj P manifest =
     bindE (mapE (\<lambda>field. bindE (base_names (list_field manifest ''entries'') field) (\<lambda>ns. Inr (field, ns)))
       profile_fields) (\<lambda>eff0.
     bindE (foldE (\<lambda>eff layer_name.
       if layer_name = REAL_HOME_PROFILE then Inr eff
       else case map_of (pr_profiles proj) layer_name of
         None \<Rightarrow> Inr eff
       | Some L \<Rightarrow> apply_layer L eff) eff0 (p_chain P)) (\<lambda>_. Inr ()))"

definition entry_capability_names :: "val \<Rightarrow> string list" where
  "entry_capability_names v = butlast (entry_names v)"

definition import_matches :: "external_import \<Rightarrow> val \<Rightarrow> bool" where
  "import_matches x v = (str_field v ''digest'' (ext_digest x) \<and> ext_name x \<in> set (entry_capability_names v))"

definition validate_external_import :: "profile \<Rightarrow> assets \<Rightarrow> external_import \<Rightarrow> string list res" where
  "validate_external_import P iv x =
     (if p_name P \<notin> set (ext_profiles x) then Inr []
      else if \<not> ext_approved x then Inl (invalid ''external import is not approved'')
      else if filter (import_matches x) (as_capabilities iv @ as_instructions iv) = []
        then Inl (invalid ''external import does not match machine asset digest'')
      else Inr [ext_name x])"

definition validate_external_imports :: "project \<Rightarrow> profile \<Rightarrow> assets \<Rightarrow> string list res" where
  "validate_external_imports proj P iv =
     bindE (mapE (validate_external_import P iv) (pr_external_imports proj)) (\<lambda>ns. Inr (concat ns))"

definition profile_uses_real_home :: "profile \<Rightarrow> bool" where
  "profile_uses_real_home P = True"

definition base_state :: "host \<Rightarrow> fs \<Rightarrow> string \<Rightarrow> string \<Rightarrow> (dict \<times> string list \<times> string list) res" where
  "base_state H F manifest_path pin_path =
     bindE (load_base_manifest H F manifest_path) (\<lambda>manifest.
     bindE (load_base_pin H F pin_path) (\<lambda>pin.
     if \<not> py_eq (get pin ''approved_digest'') (get manifest ''effective_digest'')
       then Inl (invalid ''machine-context pin does not approve the current machine-context digest'')
     else
     bindE (path_str (get manifest ''home'')) (\<lambda>h.
     bindE (path_of_str H h) (\<lambda>hp.
     bindE (discover_real_home H F hp) (\<lambda>live.
     Inr (manifest, base_diff (list_field manifest ''entries'') (list_field live ''entries'')))))))"

text \<open>The asset gate as \<open>bind_profile\<close> and \<open>_check_profile_environment\<close> apply it to a role.\<close>

definition role_denied :: "profile \<Rightarrow> string list" where
  "role_denied P = concat (map (\<lambda>(_, ops). deny ops) (p_operations P))"

definition role_asset_gate :: "host \<Rightarrow> fs \<Rightarrow> project \<Rightarrow> profile \<Rightarrow> dict \<Rightarrow> unit res" where
  "role_asset_gate H F proj P manifest =
     bindE (path_str (get manifest ''home'')) (\<lambda>h.
     bindE (path_of_str H h) (\<lambda>hp.
     bindE (discover_asset_inventory H F hp) (\<lambda>iv.
     bindE (validate_external_imports proj P iv) (\<lambda>imported.
     enforce_asset_closure True (classify_asset_inventory
       (p_skills P @ p_mcps P @ p_hooks P @ p_plugins P @ imported) (role_denied P) False iv)))))"

section \<open>Binding\<close>

definition select_profile :: "project \<Rightarrow> string \<Rightarrow> profile res" where
  "select_profile proj nm =
     (if nm = [] then Inl (invalid ''profile is required; there is no default profile'')
      else someE (invalid ''unknown profile'') (map_of (pr_profiles proj) nm))"

definition effective_digest :: "host \<Rightarrow> val \<Rightarrow> string \<Rightarrow> string \<Rightarrow> string" where
  "effective_digest H machine layer nm = digest H (VDict [(''machine_context_digest'', machine),
     (''layer_digest'', VStr layer), (''profile'', VStr nm)])"

definition binding_doc :: "host \<Rightarrow> project \<Rightarrow> string \<Rightarrow> val \<Rightarrow> string \<Rightarrow> val" where
  "binding_doc H proj nm machine layer =
     VDict ([(''version'', VInt BINDING_VERSION), (''profile'', VStr nm),
       (''machine_context'', VStr MACHINE_CONTEXT_NAME), (''machine_context_digest'', machine),
       (''layer_digest'', VStr layer), (''effective_digest'', VStr (effective_digest H machine layer nm))]
      @ (case pr_overlay proj of None \<Rightarrow> [] | Some ov \<Rightarrow> [(''overlay_namespace'', VStr (ov_namespace ov))]))"

definition binding_name :: "profile \<Rightarrow> string" where
  "binding_name P = p_name P @ ''.binding.json''"

text \<open>The portable checks every command starts with.\<close>

definition checked_project :: "host \<Rightarrow> fs \<Rightarrow> path \<Rightarrow> path option \<Rightarrow> (project \<times> val) res" where
  "checked_project H F root overlay =
     bindE (load_project H F root overlay) (\<lambda>proj.
     bindE (check_pollution_layers F proj) (\<lambda>_.
     bindE (desired_lock H F proj) (\<lambda>desired.
     bindE (verify_lock F proj desired) (\<lambda>_.
     bindE (verify_evidence H F proj desired) (\<lambda>_.
     Inr (proj, desired))))))"

text \<open>\<open>mkdir(parents=True, exist_ok=True, mode=0o700)\<close>: the mode is for the last component.\<close>

definition make_private_dirs :: "host \<Rightarrow> path \<Rightarrow> (fs, unit) st" where
  "make_private_dirs H p =
     bindS (if p = [] then returnS () else make_dirs H (parent p)) (\<lambda>_ F.
     case mkdirs H 448 [] p F of Inl e \<Rightarrow> (Inl e, F) | Inr (_, F') \<Rightarrow> (Inr (), F'))"

definition bind_gate ::
    "host \<Rightarrow> fs \<Rightarrow> path \<Rightarrow> path option \<Rightarrow> string \<Rightarrow> string \<Rightarrow> string \<Rightarrow> (profile \<times> val) res" where
  "bind_gate H F root overlay nm manifest_path pin_path =
     bindE (checked_project H F root overlay) (\<lambda>(proj, desired).
     bindE (select_profile proj nm) (\<lambda>P.
     if \<not> profile_uses_real_home P then Inl (invalid ''profile does not extend the real home'')
     else
     bindE (base_state H F manifest_path pin_path) (\<lambda>(manifest, active, passive).
     bindE (validate_base_layer_operations proj P manifest) (\<lambda>_.
     bindE (warn_out_of_scope_base_mcps H F P (Some manifest_path)) (\<lambda>_.
     bindE (role_asset_gate H F proj P manifest) (\<lambda>_.
     if active \<noteq> [] then Inl (invalid ''active machine-context drift detected'')
     else
     bindE (layer_digest_of desired (p_name P)) (\<lambda>layer.
     Inr (P, binding_doc H proj (p_name P) (get manifest ''effective_digest'') layer))))))))"

definition bind_profile ::
    "host \<Rightarrow> io \<Rightarrow> path \<Rightarrow> path option \<Rightarrow> string \<Rightarrow> string \<Rightarrow> string \<Rightarrow> string \<Rightarrow> (fs, val) st" where
  "bind_profile H io root overlay nm manifest_path pin_path binding_dir =
     bindS (readS (\<lambda>F. bind_gate H F root overlay nm manifest_path pin_path)) (\<lambda>(P, payload).
     bindS (readS (\<lambda>F. path_of_str H binding_dir)) (\<lambda>dir.
     bindS (make_private_dirs H dir) (\<lambda>_.
     bindS (write_json H io (dir @ [binding_name P]) payload 420) (\<lambda>_.
     returnS payload))))"

definition verify_profile_binding ::
    "host \<Rightarrow> fs \<Rightarrow> project \<Rightarrow> profile \<Rightarrow> val \<Rightarrow> string \<Rightarrow> string \<Rightarrow> string \<Rightarrow> (string list \<times> string list) res" where
  "verify_profile_binding H F proj P desired manifest_path pin_path binding_dir =
     bindE (base_state H F manifest_path pin_path) (\<lambda>(manifest, active, passive).
     bindE (validate_base_layer_operations proj P manifest) (\<lambda>_.
     bindE (resolve_str H F binding_dir) (\<lambda>dir.
     bindE (strict_json F (dir @ [binding_name P])) (\<lambda>binding.
     bindE (layer_digest_of desired (p_name P)) (\<lambda>layer.
     if \<not> py_eq binding (binding_doc H proj (p_name P) (get manifest ''effective_digest'') layer)
       then Inl (invalid ''binding is stale; run profile bind after review'')
     else Inr (active, passive))))))"

text \<open>Which base files a command was given.\<close>

record base_args =
  ba_manifest :: "string option"
  ba_pin :: "string option"
  ba_dir :: "string option"

definition check_profile_environment ::
    "host \<Rightarrow> fs \<Rightarrow> project \<Rightarrow> profile \<Rightarrow> val \<Rightarrow> base_args \<Rightarrow> bool \<Rightarrow> string list res" where
  "check_profile_environment H F proj P desired ba allow_active_drift =
     (if \<not> profile_uses_real_home P then bindE (check_global_pollution H F) (\<lambda>_. Inr [])
      else case (ba_manifest ba, ba_pin ba, ba_dir ba) of
        (Some m, Some n, Some b) \<Rightarrow>
          bindE (verify_profile_binding H F proj P desired m n b) (\<lambda>(active, passive).
          if active \<noteq> [] \<and> \<not> allow_active_drift then Inl (invalid ''active machine-context drift detected'')
          else
          bindE (load_base_manifest H F m) (\<lambda>manifest.
          bindE (role_asset_gate H F proj P manifest) (\<lambda>_.
          Inr (map (\<lambda>p. ''active:'' @ p) active @ passive))))
      | _ \<Rightarrow> Inl (invalid ''profile requires the machine-context manifest, pin and binding directory''))"

section \<open>What the documents guarantee\<close>

lemma check_base_manifest_Inr:
  assumes "check_base_manifest H v = Inr d"
  shows "v = VDict d" and "get d ''context'' = VStr MACHINE_CONTEXT_NAME"
    and "get d ''effective_digest'' = VStr (digest H (VList (filter is_active_entry (list_field d ''entries''))))"
    and "get d ''inventory_digest'' = VStr (digest H (VList (list_field d ''entries'')))"
proof -
  have dict: "as_dict v = Some e \<Longrightarrow> v = VDict e" for e by (cases v) auto
  obtain es where es: "as_list (get d ''entries'') = Some es" "v = VDict d" "get d ''context'' = VStr MACHINE_CONTEXT_NAME"
      "get d ''effective_digest'' = VStr (digest H (VList (filter is_active_entry es)))"
      "get d ''inventory_digest'' = VStr (digest H (VList es))"
    using assms by (auto simp: check_base_manifest_def bindE_Inr someE_Inr dict split: if_splits)
  then show "v = VDict d" "get d ''context'' = VStr MACHINE_CONTEXT_NAME"
    "get d ''effective_digest'' = VStr (digest H (VList (filter is_active_entry (list_field d ''entries''))))"
    "get d ''inventory_digest'' = VStr (digest H (VList (list_field d ''entries'')))"
    by (simp_all add: list_field_def)
qed

lemma load_base_manifest_Inr:
  assumes "load_base_manifest H F p = Inr d"
  obtains target where "resolve_str H F p = Inr target" "strict_json F target = Inr (VDict d)"
    "check_base_manifest H (VDict d) = Inr d"
proof -
  obtain target v where t: "resolve_str H F p = Inr target" "strict_json F target = Inr v" "check_base_manifest H v = Inr d"
    using assms unfolding load_base_manifest_def by (elim stepsE) blast
  then show ?thesis using that check_base_manifest_Inr(1) [OF t(3)] by simp
qed

lemma base_state_Inr:
  assumes "base_state H F m n = Inr (manifest, active, quiet)"
  obtains pin hp live where "load_base_manifest H F m = Inr manifest" "load_base_pin H F n = Inr pin"
    "py_eq (get pin ''approved_digest'') (get manifest ''effective_digest'')"
    "discover_real_home H F hp = Inr live"
    "base_diff (list_field manifest ''entries'') (list_field live ''entries'') = (active, quiet)"
proof -
  have "\<exists>pin hp live. load_base_manifest H F m = Inr manifest \<and> load_base_pin H F n = Inr pin
    \<and> py_eq (get pin ''approved_digest'') (get manifest ''effective_digest'') \<and> discover_real_home H F hp = Inr live
    \<and> base_diff (list_field manifest ''entries'') (list_field live ''entries'') = (active, quiet)"
    using assms unfolding base_state_def by (elim stepsE) (auto simp: someE_Inr)
  then show ?thesis using that by blast
qed

lemma base_diff_parts:
  assumes "base_diff locked live = (active, quiet)"
  shows "sorted active" and "sorted quiet" and "set active \<inter> set quiet = {}"
    and "p \<in> set active \<union> set quiet \<longleftrightarrow> \<not> same_entry (map_of (entries_by_path locked) p) (map_of (entries_by_path live) p)"
    and "p \<in> set active \<longleftrightarrow> \<not> same_entry (map_of (entries_by_path locked) p) (map_of (entries_by_path live) p)
       \<and> (active_in (map_of (entries_by_path locked) p) \<or> active_in (map_of (entries_by_path live) p))"
proof -
  let ?le = "entries_by_path locked" and ?ve = "entries_by_path live"
  let ?ch = "filter (\<lambda>p. \<not> same_entry (map_of ?le p) (map_of ?ve p)) (sorted_set (keys ?le @ keys ?ve))"
  let ?ac = "\<lambda>p. active_in (map_of ?le p) \<or> active_in (map_of ?ve p)"
  have a: "active = filter ?ac ?ch" and b: "quiet = filter (\<lambda>p. \<not> ?ac p) ?ch"
    using assms by (simp_all add: base_diff_def Let_def)
  have none: "p \<notin> set (keys ?le) \<Longrightarrow> p \<notin> set (keys ?ve) \<Longrightarrow> same_entry (map_of ?le p) (map_of ?ve p)" for p
    by (simp add: same_entry_def map_of_eq_None_iff [THEN iffD2] set_keys)
  have srt: "sorted ?ch" by (rule sorted_wrt_filter) simp
  show "sorted active" "sorted quiet" unfolding a b by (rule sorted_wrt_filter, rule srt)+
  show "set active \<inter> set quiet = {}" unfolding a b by auto
  show "p \<in> set active \<union> set quiet \<longleftrightarrow> \<not> same_entry (map_of ?le p) (map_of ?ve p)"
    using none [of p] unfolding a b by auto
  show "p \<in> set active \<longleftrightarrow> \<not> same_entry (map_of ?le p) (map_of ?ve p) \<and> ?ac p"
    using none [of p] unfolding a b by auto
qed

lemma verify_profile_binding_Inr:
  assumes "verify_profile_binding H F proj P desired m n b = Inr (active, quiet)"
  obtains manifest dir binding layer where "base_state H F m n = Inr (manifest, active, quiet)"
    "validate_base_layer_operations proj P manifest = Inr ()"
    "resolve_str H F b = Inr dir" "strict_json F (dir @ [binding_name P]) = Inr binding"
    "layer_digest_of desired (p_name P) = Inr layer"
    "py_eq binding (binding_doc H proj (p_name P) (get manifest ''effective_digest'') layer)"
proof -
  have "\<exists>manifest dir binding layer. base_state H F m n = Inr (manifest, active, quiet)
    \<and> validate_base_layer_operations proj P manifest = Inr () \<and> resolve_str H F b = Inr dir
    \<and> strict_json F (dir @ [binding_name P]) = Inr binding \<and> layer_digest_of desired (p_name P) = Inr layer
    \<and> py_eq binding (binding_doc H proj (p_name P) (get manifest ''effective_digest'') layer)"
    using assms unfolding verify_profile_binding_def by (elim stepsE) (auto elim!: stepsE)
  then show ?thesis using that by blast
qed

section \<open>Layers over the machine context\<close>

lemma apply_layer_field_Inr:
  "apply_layer_field ops eff = Inr names \<longleftrightarrow>
     set (allow ops) \<inter> set eff = {} \<and> set (deny ops) \<subseteq> set eff \<and> set (override ops) \<subseteq> set eff
     \<and> names = list_minus (list_minus eff (deny ops)) (override ops) @ override ops @ allow ops"
  by (auto simp: apply_layer_field_def list_minus_Nil list_all_iff)

lemma apply_layer_steps:
  assumes "apply_layer L eff = Inr eff'" and "field \<in> set profile_fields"
    and "map_of (p_operations L) field = Some ops" and "map_of eff field = Some names"
  shows "\<exists>names'. apply_layer_field ops names = Inr names'"
  using assms unfolding apply_layer_def profile_fields_def
  by (auto simp: bindE_Inr someE_Inr)

lemma bind_requires_base:
  assumes v: "validate_base_layer_operations proj P manifest = Inr ()"
    and chain: "p_chain P = [PROJECT_DEFAULTS_NAME, p_name P]" "p_name P \<noteq> REAL_HOME_PROFILE"
    and d: "map_of (pr_profiles proj) PROJECT_DEFAULTS_NAME = None"
    and p: "map_of (pr_profiles proj) (p_name P) = Some P"
    and f: "field \<in> set profile_fields" "map_of (p_operations P) field = Some ops"
    and ns: "base_names (list_field manifest ''entries'') field = Inr names"
  shows "set (allow ops) \<inter> set names = {} \<and> set (deny ops) \<subseteq> set names \<and> set (override ops) \<subseteq> set names"
proof -
  have nd: "PROJECT_DEFAULTS_NAME \<noteq> REAL_HOME_PROFILE" by (simp add: PROJECT_DEFAULTS_NAME_def REAL_HOME_PROFILE_def)
  obtain eff0 eff where
      m: "mapE (\<lambda>field. bindE (base_names (list_field manifest ''entries'') field) (\<lambda>ns. Inr (field, ns))) profile_fields = Inr eff0"
    and a: "apply_layer P eff0 = Inr eff"
    using v chain d p nd unfolding validate_base_layer_operations_def by (auto simp: bindE_Inr)
  have "map_of eff0 field = Some names"
    using m f(1) ns unfolding profile_fields_def by (auto simp: bindE_Inr)
  from apply_layer_steps [OF a f this] show ?thesis by (auto simp: apply_layer_field_Inr)
qed

section \<open>A binding verifies until something changes\<close>

lemma binding_doc_plain:
  "get manifest k = VStr s \<Longrightarrow> plain (binding_doc H proj nm (get manifest k) layer)
     \<and> untuple (binding_doc H proj nm (get manifest k) layer) = binding_doc H proj nm (get manifest k) layer"
  by (auto simp: binding_doc_def split: option.split)

lemma bind_gate_Inr:
  assumes "bind_gate H F root ov nm m n = Inr (P, payload)"
  obtains proj desired manifest quiet layer where
    "checked_project H F root ov = Inr (proj, desired)" "select_profile proj nm = Inr P"
    "base_state H F m n = Inr (manifest, [], quiet)" "validate_base_layer_operations proj P manifest = Inr ()"
    "role_asset_gate H F proj P manifest = Inr ()" "layer_digest_of desired (p_name P) = Inr layer"
    "payload = binding_doc H proj (p_name P) (get manifest ''effective_digest'') layer"
proof -
  have "\<exists>proj desired manifest quiet layer. checked_project H F root ov = Inr (proj, desired)
    \<and> select_profile proj nm = Inr P \<and> base_state H F m n = Inr (manifest, [], quiet)
    \<and> validate_base_layer_operations proj P manifest = Inr () \<and> role_asset_gate H F proj P manifest = Inr ()
    \<and> layer_digest_of desired (p_name P) = Inr layer
    \<and> payload = binding_doc H proj (p_name P) (get manifest ''effective_digest'') layer"
    using assms unfolding bind_gate_def by (elim stepsE) (auto elim!: stepsE)
  then show ?thesis using that by blast
qed

lemma bound_verifies:
  assumes g: "bind_gate H F root ov nm m n = Inr (P, payload)"
    and c: "checked_project H F root ov = Inr (proj, desired)"
    and w: "write_json H io (dir @ [binding_name P]) payload 420 F = (Inr (), F')"
    and d: "dirs F dir" "node_at F (dir @ [temp_name io (binding_name P)]) = None" "binding_name P \<noteq> ''..''"
    and u: "utf8_valid (canonical_json payload)"
    and s: "base_state H F' m n = base_state H F m n" and b: "resolve_str H F' b = Inr dir"
  shows "\<exists>quiet. verify_profile_binding H F' proj P desired m n b = Inr ([], quiet)"
proof -
  obtain manifest quiet layer where i: "base_state H F m n = Inr (manifest, [], quiet)"
      "validate_base_layer_operations proj P manifest = Inr ()" "layer_digest_of desired (p_name P) = Inr layer"
      "payload = binding_doc H proj (p_name P) (get manifest ''effective_digest'') layer"
    using c by (auto intro: bind_gate_Inr [OF g])
  obtain st where st: "get manifest ''effective_digest'' = VStr st"
    using i(1) check_base_manifest_Inr(3) by (elim base_state_Inr) (auto elim!: load_base_manifest_Inr)
  have pl: "plain payload" "untuple payload = payload" using binding_doc_plain [OF st] i(4) by auto
  have "strict_json F' (dir @ [binding_name P]) = Inr (canon payload)"
    using write_json_read(1) [OF w] d u pl by (simp add: parent_def name_of_def)
  then show ?thesis using i s b py_eq_canon [of payload] by (simp add: verify_profile_binding_def py_eq_def)
qed

lemma bind_gate_payload:
  assumes "bind_gate H F root ov nm m n = Inr (P, payload)"
  shows "plain payload \<and> untuple payload = payload"
proof -
  obtain proj manifest quiet layer where b: "base_state H F m n = Inr (manifest, [], quiet)"
    and p: "payload = binding_doc H proj (p_name P) (get manifest ''effective_digest'') layer"
    by (rule bind_gate_Inr [OF assms]) blast
  obtain st where "get manifest ''effective_digest'' = VStr st"
    using b check_base_manifest_Inr(3) by (elim base_state_Inr) (auto elim!: load_base_manifest_Inr)
  from binding_doc_plain [OF this] show ?thesis by (simp add: p)
qed

lemma bind_profile_Inr:
  assumes "bind_profile H io root ov nm m n b F = (Inr payload, F')" and "path_of_str H b = Inr dir" and "dirs F dir"
  obtains P where "bind_gate H F root ov nm m n = Inr (P, payload)"
    "write_json H io (dir @ [binding_name P]) payload 420 F = (Inr (), F')"
proof -
  have "make_private_dirs H dir F = (Inr (), F)"
    using assms(3) mkdirs_dirs [of F "[]" dir] mkdirs_dirs [of F "[]" "parent dir"] dirs_butlast [OF assms(3)]
    by (auto simp: make_private_dirs_def make_dirs_def bindS_def returnS_def parent_def)
  then show ?thesis
    using assms(1,2) by (auto simp: bind_profile_def bindS_Inr intro: that)
qed

end
