(* ===== verification/Stable.thy ===== *)
theory Stable
  imports Binding
begin

text \<open>
  Stable directories: a path held together with the identity (device, inode) of every
  component, checked again before each use; the rule that output directories lie outside the
  project and the native capability roots; and the publication of a rendered tree into such a
  directory through a private staging directory, whose name the host chooses.
\<close>

section \<open>Holding a directory\<close>

definition node_identity :: "node \<Rightarrow> nat \<times> nat" where
  "node_identity nd = (st_dev (node_meta nd), st_ino (node_meta nd))"

definition same_file_identity :: "node \<Rightarrow> nat \<times> nat \<Rightarrow> bool" where
  "same_file_identity nd ident = (node_identity nd = ident)"

definition is_link_component :: "node \<Rightarrow> bool" where
  "is_link_component nd = is_link_node nd"

text \<open>One component, as it is opened: it must be a directory and no link.\<close>

definition open_component :: "fs \<Rightarrow> path \<Rightarrow> (nat \<times> nat) res" where
  "open_component F p = (case lstat F p of
       None \<Rightarrow> Inl (invalid ''must be an existing non-symlink directory'')
     | Some nd \<Rightarrow> (if \<not> is_dir_node nd \<or> is_link_component nd
                   then Inl (invalid ''must be an existing non-symlink directory'')
                   else Inr (node_identity nd)))"

fun open_chain :: "fs \<Rightarrow> path \<Rightarrow> string list \<Rightarrow> (nat \<times> nat) list res" where
  "open_chain F cur [] = Inr []"
| "open_chain F cur (p # ps) =
     bindE (open_component F (cur @ [p])) (\<lambda>ident.
     bindE (open_chain F (cur @ [p]) ps) (\<lambda>idents. Inr (ident # idents)))"

text \<open>One component, as it is checked again.\<close>

definition check_component :: "fs \<Rightarrow> path \<Rightarrow> nat \<times> nat \<Rightarrow> unit res" where
  "check_component F p ident = (case lstat F p of
       None \<Rightarrow> Inl (invalid ''stable directory is no longer accessible'')
     | Some nd \<Rightarrow> raise_if (\<not> is_dir_node nd \<or> (p \<noteq> [] \<and> is_link_component nd) \<or> \<not> same_file_identity nd ident)
         (invalid ''stable directory changed''))"

fun check_chain :: "fs \<Rightarrow> path \<Rightarrow> string list \<Rightarrow> (nat \<times> nat) list \<Rightarrow> unit res" where
  "check_chain F cur ps [] = Inr ()"
| "check_chain F cur [] (i # is') = Inl (RuntimeError ''tuple index out of range'')"
| "check_chain F cur (p # ps) (i # is') =
     bindE (check_component F (cur @ [p]) i) (\<lambda>_. check_chain F (cur @ [p]) ps is')"

definition validate_stable_directory :: "fs \<Rightarrow> stable_directory \<Rightarrow> unit res" where
  "validate_stable_directory F d = (case sd_identities d of
       [] \<Rightarrow> Inr ()
     | root # rest \<Rightarrow> bindE (check_component F [] root) (\<lambda>_. check_chain F [] (sd_parts d) rest))"

text \<open>\<open>_normalize_root_alias\<close>: only a first component that is a link owned by root is followed.\<close>

definition normalize_root_alias :: "fs \<Rightarrow> path \<Rightarrow> path res" where
  "normalize_root_alias F absolute = (case absolute of
       [] \<Rightarrow> Inr absolute
     | first # rest \<Rightarrow> (case lstat F [first] of
           None \<Rightarrow> Inl (invalid ''root alias is not stable'')
         | Some nd \<Rightarrow>
             (if \<not> is_link_node nd then Inr absolute
              else if st_uid (node_meta nd) \<noteq> 0 then Inl (invalid ''contains a non-root-owned symlink ancestor'')
              else bindE (someE (invalid ''root alias is not stable'') (resolve F [first])) (\<lambda>target.
                Inr (target @ rest)))))"

definition open_stable_directory :: "fs \<Rightarrow> path \<Rightarrow> stable_directory res" where
  "open_stable_directory F p =
     bindE (normalize_root_alias F p) (\<lambda>absolute.
     bindE (someE (invalid ''must be an existing non-symlink directory'') (lstat F [])) (\<lambda>root.
     if \<not> is_dir_node root then Inl (invalid ''filesystem root is not a directory'')
     else
     bindE (open_chain F [] absolute) (\<lambda>idents.
     let d = \<lparr>sd_path = absolute, sd_parts = absolute, sd_identities = node_identity root # idents\<rparr> in
     bindE (validate_stable_directory F d) (\<lambda>_. Inr d))))"

definition sd_identity :: "stable_directory \<Rightarrow> nat \<times> nat" where
  "sd_identity d = last (sd_identities d)"

definition stable_directory_is_within :: "fs \<Rightarrow> stable_directory \<Rightarrow> path \<Rightarrow> bool res" where
  "stable_directory_is_within F d root =
     bindE (open_stable_directory F root) (\<lambda>r. Inr (sd_identity r \<in> set (sd_identities d)))"

definition stable_directory_is_same :: "fs \<Rightarrow> stable_directory \<Rightarrow> path \<Rightarrow> bool res" where
  "stable_directory_is_same F d other =
     bindE (open_stable_directory F other) (\<lambda>r. Inr (sd_identity r = sd_identity d))"

section \<open>External directories\<close>

definition home_relative_name :: "host \<Rightarrow> path \<Rightarrow> string res" where
  "home_relative_name H directory =
     bindE (someE (invalid ''must live under the real home'') (relative_to (home_dir H) directory)) (\<lambda>r. Inr (posix r))"

definition native_root_check :: "host \<Rightarrow> fs \<Rightarrow> stable_directory \<Rightarrow> string \<Rightarrow> unit res" where
  "native_root_check H F d relative =
     (let native = home_dir H @ parse_parts relative in
      if \<not> exists_at F native then Inr ()
      else bindE (stable_directory_is_within F d native) (\<lambda>b.
        raise_if b (invalid ''must be outside global capability roots'')))"

definition require_external_directory :: "host \<Rightarrow> fs \<Rightarrow> project \<Rightarrow> stable_directory \<Rightarrow> unit res" where
  "require_external_directory H F proj d =
     bindE (stable_directory_is_within F d (pr_root proj)) (\<lambda>b.
     if b then Inl (invalid ''must be outside the project root'')
     else
     bindE (stable_directory_is_same F d (home_dir H)) (\<lambda>b.
     if b then Inl (invalid ''must be outside global capability roots'')
     else forE (native_root_check H F d) GLOBAL_NATIVE_ROOTS))"

definition state_root :: "host \<Rightarrow> fs \<Rightarrow> project \<Rightarrow> string \<Rightarrow> bool \<Rightarrow> stable_directory res" where
  "state_root H F proj value require_empty =
     bindE (path_of_str H value) (\<lambda>p.
     bindE (open_stable_directory F p) (\<lambda>d.
     bindE (require_external_directory H F proj d) (\<lambda>_.
     bindE (iterdir F (sd_path d)) (\<lambda>names.
     if require_empty \<and> names \<noteq> [] then Inl (invalid ''state directory must be empty'')
     else bindE (validate_stable_directory F d) (\<lambda>_. Inr d)))))"

section \<open>Publishing a tree\<close>

text \<open>The missing parents of a staged file, each created with mode 0700.\<close>

fun make_parents :: "host \<Rightarrow> path \<Rightarrow> string list \<Rightarrow> (fs, unit) st" where
  "make_parents H cur [] = returnS ()"
| "make_parents H cur (p # ps) =
     bindS (\<lambda>F. if is_dir F (cur @ [p]) then (Inr (), F)
                else if lexists F (cur @ [p]) then (Inl (OSError ''mkdir''), F)
                else (Inr (), put_dir H (cur @ [p]) 448 F)) (\<lambda>_. make_parents H (cur @ [p]) ps)"

definition create_exclusive :: "host \<Rightarrow> path \<Rightarrow> string \<Rightarrow> nat \<Rightarrow> (fs, unit) st" where
  "create_exclusive H p content mode = (\<lambda>F.
     if lexists F p then (Inl (OSError ''file exists''), F) else (Inr (), put_file H p content mode F))"

definition stage_file :: "host \<Rightarrow> path \<Rightarrow> string \<times> rendered_file \<Rightarrow> (fs, unit) st" where
  "stage_file H staging entry =
     (let parts = parse_parts (fst entry) in
      bindS (readS (\<lambda>F. raise_if (is_absolute (fst entry) \<or> parts = [] \<or> ''..'' \<in> set parts)
        (invalid ''render path must be normalized and relative''))) (\<lambda>_.
      bindS (make_parents H staging (butlast parts)) (\<lambda>_.
      create_exclusive H (staging @ parts) (rf_content (snd entry)) (rf_mode (snd entry)))))"

text \<open>The top-level names, in order of first appearance.\<close>

definition published_names :: "rtree \<Rightarrow> string list" where
  "published_names t = foldl (\<lambda>acc (relative, _).
     let w = hd (parse_parts relative) in if w \<in> set acc then acc else acc @ [w]) [] t"

definition stage_tree :: "host \<Rightarrow> path \<Rightarrow> rtree \<Rightarrow> (fs, string list) st" where
  "stage_tree H staging t =
     bindS (forS (stage_file H staging) (sort_key fst t)) (\<lambda>_. returnS (published_names (sort_key fst t)))"

definition rename_tree :: "path \<Rightarrow> path \<Rightarrow> fs \<Rightarrow> fs" where
  "rename_tree src dst F =
     F\<lparr>nodes := map (\<lambda>(q, nd). (if prefix src q then dst @ drop (length src) q else q, nd)) (nodes F)\<rparr>"

definition remove_tree :: "path \<Rightarrow> fs \<Rightarrow> fs" where
  "remove_tree p F = F\<lparr>nodes := filter (\<lambda>(q, nd). \<not> prefix p q) (nodes F)\<rparr>"

definition publish_staged_entry :: "path \<Rightarrow> path \<Rightarrow> string \<Rightarrow> (fs, unit) st" where
  "publish_staged_entry source directory nm = (\<lambda>F.
     if exists_at F (directory @ [nm]) \<or> is_symlink F (directory @ [nm])
       then (Inl (invalid ''materialize target already exists''), F)
     else case resolve F directory of
         None \<Rightarrow> (Inl (OSError ''replace''), F)
       | Some d \<Rightarrow> (Inr (), rename_tree source (d @ [nm]) F))"

definition check_published :: "fs \<Rightarrow> stable_directory \<Rightarrow> string \<times> rendered_file \<Rightarrow> unit res" where
  "check_published F d entry = (case lstat F (sd_path d @ parse_parts (fst entry)) of
       None \<Rightarrow> Inl (OSError ''lstat'')
     | Some nd \<Rightarrow> raise_if (\<not> is_file_node nd \<or> st_nlink (node_meta nd) \<noteq> 1 \<or> is_link_component nd)
         (invalid ''materialized file changed''))"

text \<open>The \<open>with\<close> block of the temporary directory: it is removed however the block ends.\<close>

definition with_staging :: "host \<Rightarrow> path \<Rightarrow> (fs, 'a) st \<Rightarrow> (fs, 'a) st" where
  "with_staging H staging body = (\<lambda>F. case resolve F (parent staging) of
       None \<Rightarrow> (Inl (OSError ''mkdtemp''), F)
     | Some d \<Rightarrow>
         (let root = d @ [name_of staging] in
          if node_at F root \<noteq> None then (Inl (OSError ''mkdtemp''), F)
          else case body (put_dir H root 448 F) of (r, F') \<Rightarrow> (r, remove_tree root F')))"

definition wrap_os :: "err \<Rightarrow> err" where
  "wrap_os e = (case e of OSError m \<Rightarrow> invalid ''could not materialize tree'' | _ \<Rightarrow> e)"

definition materialize_body :: "host \<Rightarrow> path \<Rightarrow> stable_directory \<Rightarrow> rtree \<Rightarrow> (fs, unit) st" where
  "materialize_body H staging d t =
     bindS (readS (\<lambda>F. validate_stable_directory F d)) (\<lambda>_.
     bindS (with_staging H staging
       (bindS (stage_tree H staging t) (\<lambda>published.
        forS (\<lambda>nm. bindS (readS (\<lambda>F. validate_stable_directory F d)) (\<lambda>_.
                    publish_staged_entry (staging @ [nm]) (sd_path d) nm)) published))) (\<lambda>_.
     bindS (readS (\<lambda>F. validate_stable_directory F d)) (\<lambda>_.
     bindS (readS (\<lambda>F. forE (check_published F d) (sort_key fst t))) (\<lambda>_.
     readS (\<lambda>F. validate_stable_directory F d)))))"

definition materialize_tree :: "host \<Rightarrow> path \<Rightarrow> stable_directory \<Rightarrow> rtree \<Rightarrow> (fs, unit) st" where
  "materialize_tree H staging d t = (\<lambda>F.
     case materialize_body H staging d t F of (r, F') \<Rightarrow> (wrapE wrap_os r, F'))"

section \<open>Commands\<close>

definition create_lock :: "host \<Rightarrow> io \<Rightarrow> path \<Rightarrow> path option \<Rightarrow> (fs, val) st" where
  "create_lock H io root overlay =
     bindS (readS (\<lambda>F. load_project H F root overlay)) (\<lambda>proj.
     bindS (readS (\<lambda>F. check_pollution_layers F proj)) (\<lambda>_.
     bindS (readS (\<lambda>F. desired_lock H F proj)) (\<lambda>payload.
     bindS (readS (\<lambda>F. raise_if (is_symlink F (lock_path proj)) (invalid ''lock file must not be a symlink''))) (\<lambda>_.
     bindS (write_json H io (lock_path proj) payload 420) (\<lambda>_.
     bindS (materialize_evidence H io proj payload) (\<lambda>_.
     returnS payload))))))"

text \<open>The environment gate of one role, followed by its warning.\<close>

definition role_environment :: "host \<Rightarrow> fs \<Rightarrow> project \<Rightarrow> val \<Rightarrow> base_args \<Rightarrow> bool \<Rightarrow> profile \<Rightarrow> string list res" where
  "role_environment H F proj desired ba drift P =
     bindE (check_profile_environment H F proj P desired ba drift) (\<lambda>notes.
     bindE (warn_out_of_scope_base_mcps H F P (ba_manifest ba)) (\<lambda>_. Inr notes))"

definition verify_project :: "host \<Rightarrow> fs \<Rightarrow> path \<Rightarrow> path option \<Rightarrow> base_args \<Rightarrow> val res" where
  "verify_project H F root overlay ba =
     bindE (checked_project H F root overlay) (\<lambda>(proj, desired).
     bindE (forE (\<lambda>(_, P). bindE (role_environment H F proj desired ba False P) (\<lambda>_. Inr ())) (pr_profiles proj)) (\<lambda>_.
     Inr desired))"

definition materialize_gate ::
    "host \<Rightarrow> fs \<Rightarrow> path \<Rightarrow> path option \<Rightarrow> string \<Rightarrow> string \<Rightarrow> string \<Rightarrow> base_args \<Rightarrow> (stable_directory \<times> rtree) res" where
  "materialize_gate H F root overlay client nm output_root ba =
     bindE (checked_project H F root overlay) (\<lambda>(proj, desired).
     bindE (select_profile proj nm) (\<lambda>P.
     bindE (role_environment H F proj desired ba False P) (\<lambda>_.
     bindE (validate_client client) (\<lambda>_.
     bindE (path_of_str H output_root) (\<lambda>out.
     bindE (open_stable_directory F out) (\<lambda>d.
     bindE (require_external_directory H F proj d) (\<lambda>_.
     bindE (iterdir F (sd_path d)) (\<lambda>names.
     if names \<noteq> [] then Inl (invalid ''render output directory must be empty'')
     else
     bindE (render_tree H F proj client P) (\<lambda>t.
     bindE (locked_tree_hash desired nm client) (\<lambda>expected.
     if tree_hash H t \<noteq> expected then Inl (invalid ''rendered output drifted after lock verification'')
     else Inr (d, t)))))))))))"

definition materialize_profile ::
    "host \<Rightarrow> path \<Rightarrow> path \<Rightarrow> path option \<Rightarrow> string \<Rightarrow> string \<Rightarrow> string \<Rightarrow> base_args \<Rightarrow> (fs, string) st" where
  "materialize_profile H staging root overlay client nm output_root ba =
     bindS (readS (\<lambda>F. materialize_gate H F root overlay client nm output_root ba)) (\<lambda>(d, t).
     bindS (materialize_tree H staging d t) (\<lambda>_.
     bindS (readS (\<lambda>F. validate_stable_directory F d)) (\<lambda>_.
     returnS (tree_hash H t))))"

section \<open>What a held directory guarantees\<close>

definition sd_ok :: "stable_directory \<Rightarrow> bool" where
  "sd_ok d \<longleftrightarrow> sd_parts d = sd_path d \<and> length (sd_identities d) = Suc (length (sd_path d))"

lemma lstat_dirs: "dirs F cur \<Longrightarrow> p \<noteq> ''..'' \<Longrightarrow> lstat F (cur @ [p]) = node_at F (cur @ [p])"
  using canonical_resolve [OF dirs_canonical] by (simp add: lstat_def)

lemma is_dir_node_NDir: "is_dir_node nd \<Longrightarrow> \<exists>m. nd = NDir m"
  by (cases nd) auto

lemma check_component_dirs:
  assumes "check_component F (cur @ [p]) i = Inr u" and "dirs F cur" and "p \<noteq> ''..''"
  shows "dirs F (cur @ [p])"
  using assms lstat_dirs [OF assms(2,3)] is_dir_node_NDir
  by (auto simp: check_component_def raise_if_Inr split: option.splits intro: dirs_snoc)

lemma check_chain_dirs:
  assumes "check_chain F cur ps ids = Inr u" and "length ids = length ps" and "dirs F cur" and "''..'' \<notin> set ps"
  shows "dirs F (cur @ ps)"
  using assms
proof (induction F cur ps ids rule: check_chain.induct)
  case (3 F cur p ps i is')
  then have "dirs F (cur @ [p])" by (auto simp: bindE_Inr intro: check_component_dirs)
  with 3 show ?case by (auto simp: bindE_Inr)
qed auto

lemma validated_dirs:
  assumes "validate_stable_directory F d = Inr u" and "sd_ok d" and "''..'' \<notin> set (sd_path d)"
  shows "dirs F (sd_path d)"
proof -
  obtain r rest where i: "sd_identities d = r # rest" "length rest = length (sd_path d)"
    using assms(2) by (cases "sd_identities d") (auto simp: sd_ok_def)
  then show ?thesis
    using assms check_chain_dirs [of F "[]" "sd_path d" rest]
    by (auto simp: validate_stable_directory_def bindE_Inr sd_ok_def)
qed

lemma open_chain_length: "open_chain F cur ps = Inr ids \<Longrightarrow> length ids = length ps"
  by (induction F cur ps arbitrary: ids rule: open_chain.induct) (auto simp: bindE_Inr)

lemma open_component_identity:
  assumes "open_component F (cur @ [p]) = Inr i" and "dirs F cur" and "p \<noteq> ''..''"
  shows "dirs F (cur @ [p]) \<and> (\<exists>nd. node_at F (cur @ [p]) = Some nd \<and> i = node_identity nd)"
  using assms lstat_dirs [OF assms(2,3)] is_dir_node_NDir
  by (auto simp: open_component_def split: option.splits if_splits intro: dirs_snoc)

text \<open>Every component of the path has its identity in the list, in order.\<close>

lemma open_chain_nth:
  assumes "open_chain F cur ps = Inr ids" and "dirs F cur" and "''..'' \<notin> set ps" and "k < length ps"
  shows "\<exists>nd. node_at F (cur @ take (Suc k) ps) = Some nd \<and> ids ! k = node_identity nd"
  using assms
proof (induction F cur ps arbitrary: ids k rule: open_chain.induct)
  case (2 F cur p ps)
  then obtain i is' where s: "open_component F (cur @ [p]) = Inr i" "open_chain F (cur @ [p]) ps = Inr is'" "ids = i # is'"
    by (auto simp: bindE_Inr)
  have c: "dirs F (cur @ [p]) \<and> (\<exists>nd. node_at F (cur @ [p]) = Some nd \<and> i = node_identity nd)"
    using open_component_identity [OF s(1)] 2 by auto
  show ?case
  proof (cases k)
    case 0
    then show ?thesis using c s(3) by auto
  next
    case (Suc j)
    then show ?thesis using 2 s c by auto
  qed
qed simp

lemma open_stable_Inr:
  assumes "open_stable_directory F p = Inr d"
  obtains root ids where "normalize_root_alias F p = Inr (sd_path d)" "lstat F [] = Some root" "is_dir_node root"
    "open_chain F [] (sd_path d) = Inr ids" "sd_identities d = node_identity root # ids" "sd_ok d"
    "validate_stable_directory F d = Inr ()"
proof -
  have "\<exists>root ids. normalize_root_alias F p = Inr (sd_path d) \<and> lstat F [] = Some root \<and> is_dir_node root
    \<and> open_chain F [] (sd_path d) = Inr ids \<and> sd_identities d = node_identity root # ids \<and> sd_parts d = sd_path d
    \<and> validate_stable_directory F d = Inr ()"
    using assms unfolding open_stable_directory_def Let_def by (elim stepsE) (auto simp: someE_Inr)
  then show ?thesis using that open_chain_length by (fastforce simp: sd_ok_def)
qed

lemma normalize_dirs: "dirs F p \<Longrightarrow> normalize_root_alias F p = Inr q \<Longrightarrow> q = p"
proof (cases p)
  case (Cons x xs)
  assume "dirs F p" and n: "normalize_root_alias F p = Inr q"
  then obtain m where "node_at F [x] = Some (NDir m)" "x \<noteq> ''..''" unfolding dirs_def Cons by fastforce
  then have "lstat F [x] = Some (NDir m)" using lstat_dirs [of F "[]" x] by simp
  then show ?thesis using n by (simp add: normalize_root_alias_def Cons)
qed (simp add: normalize_root_alias_def)

lemma sd_identity_prefix:
  assumes "open_stable_directory F p = Inr d" and "open_stable_directory F r = Inr e"
    and "''..'' \<notin> set (sd_path d)" and "prefix (sd_path e) (sd_path d)"
  shows "sd_identity e \<in> set (sd_identities d)"
proof -
  obtain root ids where d: "lstat F [] = Some root" "open_chain F [] (sd_path d) = Inr ids"
      "sd_identities d = node_identity root # ids"
    by (rule open_stable_Inr [OF assms(1)])
  obtain ids' where e: "open_chain F [] (sd_path e) = Inr ids'" "sd_identities e = node_identity root # ids'"
    using d(1) by (auto intro: open_stable_Inr [OF assms(2)])
  show ?thesis
  proof (cases "sd_path e = []")
    case True
    then have "ids' = []" using e(1) by simp
    then show ?thesis using e(2) d(3) by (simp add: sd_identity_def)
  next
    case False
    define k where "k = length (sd_path e) - 1"
    have l: "length ids = length (sd_path d)" "length ids' = length (sd_path e)"
      using open_chain_length d(2) e(1) by blast+
    have le: "length (sd_path e) \<le> length (sd_path d)" by (rule prefix_length_le [OF assms(4)])
    have kl: "k < length (sd_path e)" "Suc k = length (sd_path e)" using False by (auto simp: k_def)
    have tk: "take (Suc k) (sd_path d) = sd_path e" using assms(4) kl(2) by (auto elim: prefixE)
    have nd: "''..'' \<notin> set (sd_path e)" using assms(3,4) by (auto elim!: prefixE)
    have "ids ! k = ids' ! k"
      using open_chain_nth [OF d(2) dirs_Nil assms(3), of k] open_chain_nth [OF e(1) dirs_Nil nd, of k] kl le tk by auto
    moreover have "ids' \<noteq> []" using l False by auto
    then have "sd_identity e = ids' ! k" by (simp add: sd_identity_def e(2) last_conv_nth k_def l)
    moreover have "ids ! k \<in> set ids" using kl le l by simp
    ultimately show ?thesis by (simp add: d(3))
  qed
qed

text \<open>An external directory is not the project root and not below it.\<close>

lemma external_outside_project:
  assumes "require_external_directory H F proj d = Inr u" and "open_stable_directory F p = Inr d"
    and "''..'' \<notin> set (sd_path d)" and "dirs F (pr_root proj)"
  shows "\<not> prefix (pr_root proj) (sd_path d)"
proof
  assume pre: "prefix (pr_root proj) (sd_path d)"
  obtain e where e: "open_stable_directory F (pr_root proj) = Inr e" "sd_identity e \<notin> set (sd_identities d)"
    using assms(1) unfolding require_external_directory_def stable_directory_is_within_def
    by (elim stepsE) auto
  have "sd_path e = pr_root proj" using normalize_dirs [OF assms(4)] by (auto intro: open_stable_Inr [OF e(1)])
  with sd_identity_prefix [OF assms(2) e(1) assms(3)] pre e(2) show False by simp
qed

lemma external_outside_native:
  assumes "require_external_directory H F proj d = Inr u" and "open_stable_directory F p = Inr d"
    and "''..'' \<notin> set (sd_path d)" and "r \<in> set GLOBAL_NATIVE_ROOTS" and "dirs F (home_dir H @ parse_parts r)"
    and "exists_at F (home_dir H @ parse_parts r)"
  shows "\<not> prefix (home_dir H @ parse_parts r) (sd_path d)"
proof
  assume pre: "prefix (home_dir H @ parse_parts r) (sd_path d)"
  have "native_root_check H F d r = Inr ()"
    using assms(1,4) unfolding require_external_directory_def by (elim stepsE) (auto simp: forE_Inr)
  then obtain e where e: "open_stable_directory F (home_dir H @ parse_parts r) = Inr e" "sd_identity e \<notin> set (sd_identities d)"
    using assms(6) by (auto simp: native_root_check_def stable_directory_is_within_def bindE_Inr raise_if_Inr)
  have "sd_path e = home_dir H @ parse_parts r"
    using normalize_dirs [OF assms(5)] by (auto intro: open_stable_Inr [OF e(1)])
  with sd_identity_prefix [OF assms(2) e(1) assms(3)] pre e(2) show False by simp
qed

section \<open>What a published tree is\<close>

lemma node_at_keys: "(\<exists>nd. node_at F q = Some nd) \<longleftrightarrow> q \<in> fst ` set (nodes F)"
  by (metis map_of_eq_None_iff node_at_def not_None_eq)

lemma map_of_rekey:
  assumes "\<And>k. k \<in> fst ` set xs \<Longrightarrow> g k = y \<longleftrightarrow> k = x"
  shows "map_of (map (\<lambda>(k, v). (g k, v)) xs) y = map_of xs x"
  using assms
proof (induction xs)
  case (Cons e xs)
  have "map_of (map (\<lambda>(k, v). (g k, v)) xs) y = map_of xs x" using Cons.prems by (intro Cons.IH) auto
  moreover have "g (fst e) = y \<longleftrightarrow> fst e = x" using Cons.prems by simp
  ultimately show ?case by (cases e) auto
qed simp

lemma rename_tree_at:
  assumes fresh: "\<And>q. prefix dst q \<Longrightarrow> node_at F q = None" and apart: "\<not> prefix src dst" "\<not> prefix dst src"
  shows "node_at (rename_tree src dst F) q =
    (if prefix dst q then node_at F (src @ drop (length dst) q) else if prefix src q then None else node_at F q)"
proof -
  let ?g = "\<lambda>q. if prefix src q then dst @ drop (length src) q else q"
  have free: "\<not> prefix dst k" if "k \<in> fst ` set (nodes F)" for k
    using fresh [of k] that node_at_keys [of F k] by auto
  have form: "node_at (rename_tree src dst F) q = map_of (map (\<lambda>(k, v). (?g k, v)) (nodes F)) q"
    by (simp add: node_at_def rename_tree_def)
  consider "prefix dst q" | "\<not> prefix dst q" "prefix src q" | "\<not> prefix dst q" "\<not> prefix src q" by blast
  then show ?thesis
  proof cases
    case 1
    then obtain r where q: "q = dst @ r" by (auto elim: prefixE)
    have "map_of (map (\<lambda>(k, v). (?g k, v)) (nodes F)) q = map_of (nodes F) (src @ r)"
    proof (rule map_of_rekey)
      show "?g k = q \<longleftrightarrow> k = src @ r" if "k \<in> fst ` set (nodes F)" for k
        using free [OF that] by (auto simp: q elim!: prefixE)
    qed
    then have "node_at (rename_tree src dst F) q = node_at F (src @ r)" unfolding form by (simp only: node_at_def)
    then show ?thesis using 1 by (simp add: q)
  next
    case 2
    have "q \<notin> fst ` set (map (\<lambda>(k, v). (?g k, v)) (nodes F))"
      using 2 by (auto split: if_splits)
    then show ?thesis using 2 unfolding form by (simp only: map_of_eq_None_iff [symmetric]) simp
  next
    case 3
    have "map_of (map (\<lambda>(k, v). (?g k, v)) (nodes F)) q = map_of (nodes F) q"
    proof (rule map_of_rekey)
      show "?g k = q \<longleftrightarrow> k = q" for k using 3 by auto
    qed
    then have "node_at (rename_tree src dst F) q = node_at F q" unfolding form by (simp only: node_at_def)
    then show ?thesis using 3 by simp
  qed
qed

lemma remove_tree_at: "node_at (remove_tree p F) q = (if prefix p q then None else node_at F q)"
proof -
  have "map_of (filter (\<lambda>(q, nd). \<not> prefix p q) xs) q = (if prefix p q then None else map_of xs q)"
    for xs :: "(path \<times> node) list"
    by (induction xs) auto
  then show ?thesis by (simp add: node_at_def remove_tree_def)
qed

text \<open>Staging only adds entries, and only below the staging directory.\<close>

definition grows :: "path \<Rightarrow> fs \<Rightarrow> fs \<Rightarrow> bool" where
  "grows root F F' \<longleftrightarrow> (\<forall>q nd. node_at F q = Some nd \<longrightarrow> node_at F' q = Some nd)
     \<and> (\<forall>q. \<not> strict_prefix root q \<longrightarrow> node_at F' q = node_at F q)
     \<and> (\<forall>q nd. node_at F' q = Some nd \<longrightarrow> node_at F q = Some nd \<or> \<not> is_link_node nd)"

lemma grows_refl [simp]: "grows root F F"
  by (simp add: grows_def)

lemma grows_trans:
  assumes "grows root F G" and "grows root G K"
  shows "grows root F K"
  unfolding grows_def
proof (intro conjI)
  show "\<forall>q nd. node_at F q = Some nd \<longrightarrow> node_at K q = Some nd" using assms by (simp add: grows_def)
  show "\<forall>q. \<not> strict_prefix root q \<longrightarrow> node_at K q = node_at F q" using assms by (simp add: grows_def)
  show "\<forall>q nd. node_at K q = Some nd \<longrightarrow> node_at F q = Some nd \<or> \<not> is_link_node nd"
    using assms unfolding grows_def by blast
qed

lemma grows_dirs: "grows root F F' \<Longrightarrow> dirs F p \<Longrightarrow> dirs F' p"
  unfolding grows_def dirs_def by blast

definition linkless :: "path \<Rightarrow> fs \<Rightarrow> bool" where
  "linkless root F \<longleftrightarrow> (\<forall>q nd. prefix root q \<longrightarrow> node_at F q = Some nd \<longrightarrow> \<not> is_link_node nd)"

lemma grows_linkless: "grows root F F' \<Longrightarrow> linkless root F \<Longrightarrow> linkless root F'"
  unfolding grows_def linkless_def by blast

lemma make_parents_Inr:
  assumes "make_parents H cur ps F = (Inr u, F')" and "dirs F cur" and "''..'' \<notin> set ps"
    and "prefix root cur" and "linkless root F"
  shows "grows root F F' \<and> dirs F' (cur @ ps)"
  using assms
proof (induction H cur ps arbitrary: F rule: make_parents.induct)
  case (2 H cur p ps)
  let ?step = "\<lambda>F. if is_dir F (cur @ [p]) then (Inr (), F)
      else if lexists F (cur @ [p]) then (Inl (OSError ''mkdir''), F) else (Inr (), put_dir H (cur @ [p]) 448 F)"
  obtain G where s: "?step F = (Inr (), G)" "make_parents H (cur @ [p]) ps G = (Inr u, F')"
    using 2(2) by (auto simp: bindS_Inr)
  have pr: "prefix root (cur @ [p])" "strict_prefix root (cur @ [p])"
    using 2(5) by (auto simp: strict_prefix_def prefix_def)
  have nd: "p \<noteq> ''..''" using 2(4) by auto
  have G: "grows root F G \<and> dirs G (cur @ [p])"
  proof (cases "is_dir F (cur @ [p])")
    case True
    then have "G = F" using s(1) by simp
    obtain m where r: "stat F (cur @ [p]) = Some (NDir m)" using True by (auto simp: is_dir_node_eq)
    then have "resolve F (cur @ [p]) \<noteq> None" by (auto simp: stat_def bind_eq_Some_conv)
    then obtain nd where n: "node_at F (cur @ [p]) = Some nd"
      using walk_dirs [of F "[]" cur 40 "[p]"] 2(3) nd by (auto simp: resolve_def split: option.splits)
    then have "\<not> is_link_node nd" using 2(6) pr(1) n unfolding linkless_def by blast
    then have "stat F (cur @ [p]) = Some nd" using canonical_stat canonical_snoc [OF 2(3) n] nd n by simp
    then show ?thesis using \<open>G = F\<close> r n nd 2(3) by (auto intro: dirs_snoc)
  next
    case False
    then have "G = put_dir H (cur @ [p]) 448 F" "lstat F (cur @ [p]) = None"
      using s(1) by (auto simp: lexists_def split: if_splits)
    moreover from this(2) have none: "node_at F (cur @ [p]) = None" using lstat_dirs [OF 2(3) nd] by simp
    ultimately have g: "grows root F G" using pr(2) by (auto simp: grows_def)
    have "dirs G (cur @ [p])"
      using grows_dirs [OF g 2(3)] nd \<open>G = _\<close> by (auto intro: dirs_snoc)
    with g show ?thesis by blast
  qed
  then have "grows root G F' \<and> dirs F' ((cur @ [p]) @ ps)"
    using 2(1) [OF s(2)] 2(4) pr(1) grows_linkless [OF _ 2(6)] by auto
  then show ?case using G grows_trans by auto
qed auto

lemma readS_raise: "readS (\<lambda>F. raise_if (b F) e) F = (Inr u, G) \<longleftrightarrow> \<not> b F \<and> G = F"
  by (auto simp: raise_if_def)

lemma stage_file_Inr:
  assumes "stage_file H staging (relative, rf) F = (Inr u, F')" and "dirs F staging" and "linkless staging F"
  shows "grows staging F F' \<and> parse_parts relative \<noteq> []
    \<and> (\<exists>m. node_at F' (staging @ parse_parts relative) = Some (NFile m (rf_content rf)) \<and> st_mode m = rf_mode rf \<and> st_nlink m = 1)"
proof -
  let ?ps = "parse_parts relative"
  obtain G where g: "?ps \<noteq> []" "''..'' \<notin> set ?ps" "make_parents H staging (butlast ?ps) F = (Inr (), G)"
      "create_exclusive H (staging @ ?ps) (rf_content rf) (rf_mode rf) G = (Inr u, F')"
    using assms(1) unfolding stage_file_def Let_def by (elim bindS_E) (simp only: readS_raise, auto)
  have nb: "''..'' \<notin> set (butlast ?ps)" using g(2) by (meson in_set_butlastD)
  have m: "grows staging F G" "dirs G (staging @ butlast ?ps)"
    using make_parents_Inr [OF g(3) assms(2) nb _ assms(3)] by auto
  have split: "staging @ ?ps = (staging @ butlast ?ps) @ [last ?ps]" using g(1) by simp
  have "last ?ps \<noteq> ''..''" using g(1,2) by (metis last_in_set)
  then have l: "lstat G (staging @ ?ps) = node_at G (staging @ ?ps)" unfolding split using lstat_dirs m(2) by blast
  have none: "node_at G (staging @ ?ps) = None" and F': "F' = put_file H (staging @ ?ps) (rf_content rf) (rf_mode rf) G"
    using g(4) l by (auto simp: create_exclusive_def lexists_def split: if_splits)
  have "grows staging G F'" unfolding F' using none g(1) by (auto simp: grows_def strict_prefix_def)
  then show ?thesis using grows_trans [OF m(1)] g(1) by (auto simp: F' new_meta_def)
qed

lemma stage_files_Inr:
  assumes "forS (stage_file H staging) es F = (Inr u, F')" and "dirs F staging" and "linkless staging F"
  shows "grows staging F F' \<and> (\<forall>(relative, rf) \<in> set es. parse_parts relative \<noteq> []
    \<and> (\<exists>m. node_at F' (staging @ parse_parts relative) = Some (NFile m (rf_content rf)) \<and> st_mode m = rf_mode rf \<and> st_nlink m = 1))"
  using assms
proof (induction es arbitrary: F)
  case (Cons e es)
  obtain relative rf where e: "e = (relative, rf)" by (cases e)
  obtain G where g: "stage_file H staging (relative, rf) F = (Inr (), G)" "forS (stage_file H staging) es G = (Inr u, F')"
    using Cons.prems(1) by (auto simp: bindS_Inr e)
  note s = stage_file_Inr [OF g(1) Cons.prems(2,3)]
  have i: "grows staging G F'" "\<forall>(relative, rf) \<in> set es. parse_parts relative \<noteq> []
    \<and> (\<exists>m. node_at F' (staging @ parse_parts relative) = Some (NFile m (rf_content rf)) \<and> st_mode m = rf_mode rf \<and> st_nlink m = 1)"
    using Cons.IH [OF g(2)] s grows_dirs [OF _ Cons.prems(2)] grows_linkless [OF _ Cons.prems(3)] by blast+
  then show ?case using s grows_trans [of staging F G F'] by (auto simp: e grows_def)
qed simp

lemma published_names_step:
  "distinct acc \<Longrightarrow> distinct (foldl (\<lambda>acc (relative, _). let w = hd (parse_parts relative) in
      if w \<in> set acc then acc else acc @ [w]) acc t)
   \<and> set (foldl (\<lambda>acc (relative, _). let w = hd (parse_parts relative) in
      if w \<in> set acc then acc else acc @ [w]) acc t) = set acc \<union> (\<lambda>(relative, _). hd (parse_parts relative)) ` set t"
  by (induction t arbitrary: acc) (auto simp: Let_def case_prod_beta')

lemma published_names_props:
  "distinct (published_names t)" "set (published_names t) = (\<lambda>(relative, _). hd (parse_parts relative)) ` set t"
  using published_names_step [of "[]" t] unfolding published_names_def by simp_all

text \<open>The publication loop: what has moved, what is still staged, and nothing else changed.\<close>

definition publishing :: "path \<Rightarrow> path \<Rightarrow> fs \<Rightarrow> string list \<Rightarrow> fs \<Rightarrow> bool" where
  "publishing staging target S moved F \<longleftrightarrow>
     (\<forall>n r. node_at F (target @ n # r) = (if n \<in> set moved then node_at S (staging @ n # r) else None))
     \<and> (\<forall>n r. node_at F (staging @ n # r) = (if n \<in> set moved then None else node_at S (staging @ n # r)))
     \<and> (\<forall>q. \<not> strict_prefix target q \<longrightarrow> \<not> strict_prefix staging q \<longrightarrow> node_at F q = node_at S q)"

lemma not_below: "\<not> prefix a b \<Longrightarrow> \<not> prefix b a \<Longrightarrow> a @ x \<noteq> b @ y"
  by (metis prefixI prefix_same_cases)

lemma prefix_snoc_iff: "prefix (p @ [n]) q \<longleftrightarrow> (\<exists>r. q = p @ n # r)"
  by (auto simp: prefix_def)

lemma publish_step:
  assumes "publish_staged_entry (staging @ [n]) target n F = (Inr u, F')"
    and i: "publishing staging target S moved F" and n: "n \<notin> set moved" and d: "dirs F target"
    and apart: "\<not> prefix staging target" "\<not> prefix target staging"
  shows "publishing staging target S (moved @ [n]) F'"
proof -
  have F': "F' = rename_tree (staging @ [n]) (target @ [n]) F"
    using assms(1) canonical_resolve [OF dirs_canonical [OF d]] by (simp add: publish_staged_entry_def split: if_splits)
  have at: "node_at F' q = (if prefix (target @ [n]) q then node_at F (staging @ n # drop (Suc (length target)) q)
      else if prefix (staging @ [n]) q then None else node_at F q)" for q
  proof -
    have "node_at F q = None" if "prefix (target @ [n]) q" for q
      using that i n by (auto simp: prefix_snoc_iff publishing_def)
    moreover have "\<not> prefix (staging @ [n]) (target @ [n])" "\<not> prefix (target @ [n]) (staging @ [n])"
      using not_below [OF apart] by (auto simp: prefix_snoc_iff)
    ultimately show ?thesis unfolding F' by (subst rename_tree_at) simp_all
  qed
  have sep: "target @ x \<noteq> staging @ y" for x y using not_below [OF apart(2,1)] .
  show ?thesis
    unfolding publishing_def
  proof (intro conjI allI impI)
    fix m r
    show "node_at F' (target @ m # r) = (if m \<in> set (moved @ [n]) then node_at S (staging @ m # r) else None)"
      using i n sep by (auto simp: at prefix_snoc_iff publishing_def)
    show "node_at F' (staging @ m # r) = (if m \<in> set (moved @ [n]) then None else node_at S (staging @ m # r))"
      using i n sep [symmetric] by (auto simp: at prefix_snoc_iff publishing_def)
  next
    fix q assume q: "\<not> strict_prefix target q" "\<not> strict_prefix staging q"
    then have "\<not> prefix (target @ [n]) q" "\<not> prefix (staging @ [n]) q"
      by (auto simp: prefix_snoc_iff strict_prefix_def)
    then show "node_at F' q = node_at S q" using i q by (simp add: at publishing_def)
  qed
qed

lemma publishing_dirs:
  assumes "publishing staging target S moved F" and "dirs S target" and "\<not> prefix staging target"
  shows "dirs F target"
proof -
  have "node_at F q = node_at S q" if "prefix q target" for q
  proof -
    have "\<not> strict_prefix target q" "\<not> strict_prefix staging q"
      using that assms(3) by (auto simp: strict_prefix_def dest: prefix_order.trans prefix_order.antisym)
    then show ?thesis using assms(1) by (simp add: publishing_def)
  qed
  then show ?thesis using assms(2) by (simp add: dirs_def)
qed

lemma publish_loop:
  assumes "forS (\<lambda>nm. bindS (readS (\<lambda>F. validate_stable_directory F d)) (\<lambda>_.
      publish_staged_entry (staging @ [nm]) target nm)) names F = (Inr u, F')"
    and "publishing staging target S moved F" and "distinct (moved @ names)" and "dirs S target"
    and "\<not> prefix staging target" "\<not> prefix target staging"
  shows "publishing staging target S (moved @ names) F'"
  using assms
proof (induction names arbitrary: F moved)
  case (Cons n names)
  obtain G where g: "publish_staged_entry (staging @ [n]) target n F = (Inr (), G)"
      "forS (\<lambda>nm. bindS (readS (\<lambda>F. validate_stable_directory F d)) (\<lambda>_.
        publish_staged_entry (staging @ [nm]) target nm)) names G = (Inr u, F')"
    using Cons.prems(1) by (auto simp: bindS_Inr)
  have "publishing staging target S (moved @ [n]) G"
    using publish_step [OF g(1) Cons.prems(2) _ publishing_dirs [OF Cons.prems(2,4,5)] Cons.prems(5,6)] Cons.prems(3) by simp
  from Cons.IH [OF g(2) this] Cons.prems show ?case by simp
qed simp

lemma with_staging_Inr:
  assumes "with_staging H staging body F = (Inr u, F')" and "\<And>q. prefix staging q \<Longrightarrow> node_at F q = None"
    and "staging \<noteq> []" "dirs F (parent staging)" "last staging \<noteq> ''..''"
  obtains F0 G where "body F0 = (Inr u, G)" "F' = remove_tree staging G" "F0 = put_dir H staging 448 F"
    "dirs F0 staging" "linkless staging F0"
proof -
  let ?F0 = "put_dir H staging 448 F"
  obtain G where g: "body ?F0 = (Inr u, G)" "F' = remove_tree staging G"
    using assms(1,3,4) canonical_resolve [OF dirs_canonical [OF assms(4)]]
    by (auto simp: with_staging_def Let_def parent_def name_of_def split: if_splits prod.splits)
  have "dirs ?F0 (butlast staging)"
    using assms(2,4) by (auto simp: dirs_def parent_def)
  then have "dirs ?F0 (butlast staging @ [last staging])" using assms(3,5) by (intro dirs_snoc) auto
  moreover have "linkless staging ?F0" using assms(2) by (auto simp: linkless_def)
  ultimately show ?thesis using that [OF g refl] assms(3) by simp
qed

lemma dirs_put_dir: "dirs F p \<Longrightarrow> dirs (put_dir H q m F) p"
  by (auto simp: dirs_def)

lemma materialized_tree:
  assumes m: "materialize_tree H staging d t F = (Inr u, F')"
    and ok: "sd_ok d" "''..'' \<notin> set (sd_path d)"
    and st: "\<And>q. prefix staging q \<Longrightarrow> node_at F q = None" "staging \<noteq> []" "dirs F (parent staging)" "last staging \<noteq> ''..''"
    and empty: "\<And>q. strict_prefix (sd_path d) q \<Longrightarrow> node_at F q = None"
    and apart: "\<not> prefix staging (sd_path d)" "\<not> prefix (sd_path d) staging"
  shows "\<forall>(relative, rf) \<in> set t. \<exists>mt. node_at F' (sd_path d @ parse_parts relative) = Some (NFile mt (rf_content rf))
      \<and> st_mode mt = rf_mode rf"
    and "\<not> strict_prefix (sd_path d) q \<Longrightarrow> node_at F' q = node_at F q"
proof -
  let ?T = "sd_path d"
  have v: "validate_stable_directory F d = Inr ()"
    and w: "with_staging H staging (bindS (stage_tree H staging t) (\<lambda>published.
        forS (\<lambda>nm. bindS (readS (\<lambda>F. validate_stable_directory F d)) (\<lambda>_.
                    publish_staged_entry (staging @ [nm]) ?T nm)) published)) F = (Inr (), F')"
    using m unfolding materialize_tree_def materialize_body_def
    by (auto simp: bindS_Inr wrapE_Inr split: prod.splits)
  obtain F0 S names P where b: "forS (stage_file H staging) (sort_key fst t) F0 = (Inr (), S)"
      "names = published_names (sort_key fst t)"
      "forS (\<lambda>nm. bindS (readS (\<lambda>F. validate_stable_directory F d)) (\<lambda>_.
          publish_staged_entry (staging @ [nm]) ?T nm)) names S = (Inr (), P)"
    and F': "F' = remove_tree staging P" and F0: "F0 = put_dir H staging 448 F" "dirs F0 staging" "linkless staging F0"
    by (rule with_staging_Inr [OF w st(1) st(2,3,4)]) (auto simp: bindS_Inr stage_tree_def)
  note s = stage_files_Inr [OF b(1) F0(2,3)]
  have dT: "dirs F ?T" by (rule validated_dirs [OF v ok])
  have dS: "dirs S ?T" using grows_dirs s dirs_put_dir dT F0(1) by blast
  have same: "node_at S q = node_at F q" if "\<not> prefix staging q" for q
    using s that by (auto simp: grows_def F0(1) strict_prefix_def)
  have below: "\<not> prefix staging (?T @ n # r)" for n r
  proof
    assume "prefix staging (?T @ n # r)"
    then obtain zs where "?T @ n # r = staging @ zs" by (auto simp: prefix_def)
    then show False using not_below [OF apart, of zs "n # r"] by simp
  qed
  have "publishing staging ?T S [] S"
    using same [OF below] empty by (auto simp: publishing_def strict_prefix_def)
  then have pub: "publishing staging ?T S names P"
    using publish_loop [OF b(3) _ _ dS apart, of "[]"] published_names_props(1) b(2) by simp
  have keep: "node_at F' q = node_at P q" if "\<not> prefix staging q" for q
    using that by (simp add: F' remove_tree_at)
  show "\<forall>(relative, rf) \<in> set t. \<exists>mt. node_at F' (?T @ parse_parts relative) = Some (NFile mt (rf_content rf))
      \<and> st_mode mt = rf_mode rf"
  proof (clarify)
    fix relative rf assume e: "(relative, rf) \<in> set t"
    then obtain mt where mt: "node_at S (staging @ parse_parts relative) = Some (NFile mt (rf_content rf))" "st_mode mt = rf_mode rf"
      and ne: "parse_parts relative \<noteq> []" using s by fastforce
    obtain n r where nr: "parse_parts relative = n # r" using ne by (cases "parse_parts relative") auto
    have "n \<in> set names" using e nr by (force simp: b(2) published_names_props)
    then have "node_at P (?T @ n # r) = node_at S (staging @ n # r)" using pub by (simp add: publishing_def)
    then show "\<exists>mt. node_at F' (?T @ parse_parts relative) = Some (NFile mt (rf_content rf)) \<and> st_mode mt = rf_mode rf"
      using mt keep [OF below] nr by auto
  qed
  show "node_at F' q = node_at F q" if q: "\<not> strict_prefix ?T q"
  proof (cases "prefix staging q")
    case True
    then show ?thesis by (simp add: F' remove_tree_at st(1))
  next
    case False
    then have "node_at P q = node_at S q" using pub q by (simp add: publishing_def strict_prefix_def)
    then show ?thesis using keep [OF False] same [OF False] by simp
  qed
qed

end
