(* ===== verification/Receipts.thy ===== *)
theory Receipts
  imports Stable
begin

text \<open>
  Execution receipts: a file reserved exclusively under a held parent directory, written through
  the descriptor that created it and released. The state is the file system with the table of
  open descriptors, each naming the object it was opened on; other processes may change the file
  system between two operations. \<open>os_write\<close> says how many bytes one write call takes.
\<close>

section \<open>Writing\<close>

function write_all :: "(string \<Rightarrow> nat) \<Rightarrow> string \<Rightarrow> string \<Rightarrow> string \<times> unit res" where
  "write_all os_write out rest =
     (if rest = [] then (out, Inr ())
      else let n = min (os_write rest) (length rest) in
        if n = 0 then (out, Inl (OSError ''file write made no progress''))
        else write_all os_write (out @ take n rest) (drop n rest))"
  by pat_completeness auto

termination
  by (relation "measure (\<lambda>(w, out, rest). length rest)") auto

declare write_all.simps [simp del]

text \<open>Every byte is written, in order, unless a call makes no progress; what is written is a prefix.\<close>

lemma write_all_steps:
  "case write_all w out c of (u, r) \<Rightarrow>
     prefix u (out @ c) \<and> prefix out u \<and> (r = Inr () \<longleftrightarrow> u = out @ c)
     \<and> ((\<forall>s. s \<noteq> [] \<longrightarrow> 0 < w s) \<longrightarrow> r = Inr ())"
proof (induction w out c rule: write_all.induct)
  case (1 w out rest)
  let ?n = "min (w rest) (length rest)"
  consider "rest = []" | "rest \<noteq> []" "?n = 0" | "rest \<noteq> []" "?n \<noteq> 0" by blast
  then show ?case
  proof cases
    case 1
    then show ?thesis using write_all.simps [of w out rest] by simp
  next
    case 2
    then have "write_all w out rest = (out, Inl (OSError ''file write made no progress''))"
      using write_all.simps [of w out rest] by (simp add: Let_def)
    moreover have "w rest = 0" using 2 by (simp add: min_def split: if_splits)
    ultimately show ?thesis using 2(1) by auto
  next
    case 3
    then have "write_all w out rest = write_all w (out @ take ?n rest) (drop ?n rest)"
      by (simp add: write_all.simps [of w out rest] Let_def)
    with 1 [OF 3(1) refl 3(2)] show ?thesis
      by (auto dest: append_prefixD)
  qed
qed

lemma write_all_spec:
  assumes "write_all w out c = (u, r)"
  shows "prefix u (out @ c)" and "prefix out u" and "r = Inr () \<Longrightarrow> u = out @ c"
    and "(\<And>s. s \<noteq> [] \<Longrightarrow> 0 < w s) \<Longrightarrow> r = Inr ()"
  using write_all_steps [where w = w and out = out and c = c] assms by auto

section \<open>Descriptors\<close>

record rstate =
  rs_fs :: fs
  rs_open :: "(nat \<times> (nat \<times> nat)) list"

text \<open>\<open>os.fstat\<close>: an object that no name reaches any more has no links left.\<close>

definition fstat :: "rstate \<Rightarrow> nat \<Rightarrow> (bool \<times> nat \<times> (nat \<times> nat)) res" where
  "fstat S fd = (case map_of (rs_open S) fd of
       None \<Rightarrow> Inl (OSError ''bad descriptor'')
     | Some ident \<Rightarrow>
         (case List.find (\<lambda>(q, nd). node_identity nd = ident) (nodes (rs_fs S)) of
            None \<Rightarrow> Inr (True, 0, ident)
          | Some (q, nd) \<Rightarrow> Inr (is_file_node nd, st_nlink (node_meta nd), ident)))"

definition fresh_fd :: "rstate \<Rightarrow> nat" where
  "fresh_fd S = Suc (foldr max (keys (rs_open S)) 2)"

definition write_inode :: "nat \<times> nat \<Rightarrow> string \<Rightarrow> fs \<Rightarrow> fs" where
  "write_inode ident c F = F\<lparr>nodes := map (\<lambda>(q, nd). (q, case nd of
       NFile m old \<Rightarrow> (if node_identity nd = ident then NFile m c else nd) | _ \<Rightarrow> nd)) (nodes F)\<rparr>"

definition reading :: "(fs \<Rightarrow> 'a res) \<Rightarrow> (rstate, 'a) st" where
  "reading f = readS (\<lambda>S. f (rs_fs S))"

section \<open>Reservation\<close>

definition prepare_receipt_path :: "host \<Rightarrow> fs \<Rightarrow> string \<Rightarrow> path res" where
  "prepare_receipt_path H F value =
     bindE (path_of_str H value) (\<lambda>p.
     if p = [] then Inl (invalid ''receipt target must name a file'')
     else bindE (normalize_root_alias F (parent p)) (\<lambda>d. Inr (d @ [name_of p])))"

definition parent_info :: "host \<Rightarrow> fs \<Rightarrow> project \<Rightarrow> path \<Rightarrow> stable_directory option \<Rightarrow> (nat \<times> nat) res" where
  "parent_info H F proj p parent_directory = (case parent_directory of
       Some d \<Rightarrow>
         (if parent p \<noteq> sd_path d then Inl (invalid ''receipt parent handle does not match the target path'')
          else bindE (validate_stable_directory F d) (\<lambda>_.
            bindE (require_external_directory H F proj d) (\<lambda>_.
            bindE (someE (OSError ''lstat'') (lstat F (sd_path d))) (\<lambda>nd. Inr (node_identity nd)))))
     | None \<Rightarrow>
         bindE (open_stable_directory F (parent p)) (\<lambda>d.
         bindE (require_external_directory H F proj d) (\<lambda>_.
         bindE (someE (OSError ''lstat'') (lstat F (sd_path d))) (\<lambda>nd.
         bindE (validate_stable_directory F d) (\<lambda>_. Inr (node_identity nd))))))"

definition check_live_parent :: "fs \<Rightarrow> path \<Rightarrow> nat \<times> nat \<Rightarrow> unit res" where
  "check_live_parent F p ident =
     bindE (someE (OSError ''lstat'') (lstat F (parent p))) (\<lambda>nd.
     raise_if (\<not> is_dir_node nd \<or> is_link_component nd \<or> \<not> same_file_identity nd ident)
       (invalid ''receipt parent changed before reservation''))"

definition unlink_reserved_receipt :: "path \<Rightarrow> nat \<times> nat \<Rightarrow> fs \<Rightarrow> fs" where
  "unlink_reserved_receipt p ident F = (case (lstat F p, resolve F (parent p)) of
       (Some nd, Some d) \<Rightarrow> (if same_file_identity nd ident then del_node (d @ [name_of p]) F else F)
     | _ \<Rightarrow> F)"

text \<open>\<open>os.open\<close> with \<open>O_CREAT | O_EXCL\<close>, then the checks on the object it created.\<close>

definition create_receipt :: "host \<Rightarrow> path \<Rightarrow> nat \<times> nat \<Rightarrow> (rstate, receipt_reservation) st" where
  "create_receipt H p parent_ident = (\<lambda>S.
     let F = rs_fs S in
     if lexists F p then (Inl (invalid ''receipt target already exists''), S)
     else case resolve F (parent p) of
         None \<Rightarrow> (Inl (invalid ''could not reserve receipt target''), S)
       | Some d \<Rightarrow>
           (let F' = put_file H (d @ [name_of p]) [] 384 F;
                ident = (st_dev (new_meta H F 384), st_ino (new_meta H F 384));
                fd = fresh_fd S;
                S' = \<lparr>rs_fs = F', rs_open = (fd, ident) # rs_open S\<rparr>
            in case fstat S' fd of
                 Inr (regular, nlink, _) \<Rightarrow>
                   (if \<not> regular \<or> nlink \<noteq> 1
                    then (Inl (invalid ''reserved receipt must be a private regular file''),
                          \<lparr>rs_fs = unlink_reserved_receipt p ident F', rs_open = rs_open S\<rparr>)
                    else (Inr \<lparr>rr_path = p, rr_descriptor = fd, rr_parent_device = fst parent_ident,
                          rr_parent_inode = snd parent_ident, rr_device = fst ident, rr_inode = snd ident\<rparr>, S'))
               | Inl e \<Rightarrow> (Inl e, S)))"

definition reserve_receipt ::
    "host \<Rightarrow> project \<Rightarrow> path \<Rightarrow> stable_directory option \<Rightarrow> (rstate, receipt_reservation) st" where
  "reserve_receipt H proj p parent_directory =
     bindS (reading (\<lambda>F. parent_info H F proj p parent_directory)) (\<lambda>ident.
     bindS (reading (\<lambda>F. check_live_parent F p ident)) (\<lambda>_.
     create_receipt H p ident))"

section \<open>Validation, commit, release\<close>

definition rr_ident :: "receipt_reservation \<Rightarrow> nat \<times> nat" where
  "rr_ident r = (rr_device r, rr_inode r)"

text \<open>The parent of the target and its ancestors, nearest first.\<close>

definition ancestors :: "path \<Rightarrow> path list" where
  "ancestors p = map (\<lambda>k. take k p) (rev [0..<length p])"

fun any_link :: "fs \<Rightarrow> path list \<Rightarrow> bool res" where
  "any_link F [] = Inr False"
| "any_link F (p # ps) = (case lstat F p of
       None \<Rightarrow> Inl (invalid ''receipt reservation is no longer stable'')
     | Some nd \<Rightarrow> (if is_link_component nd then Inr True else any_link F ps))"

definition unstable :: "'a option \<Rightarrow> 'a res" where
  "unstable m = someE (invalid ''receipt reservation is no longer stable'') m"

definition validate_receipt_reservation :: "rstate \<Rightarrow> receipt_reservation \<Rightarrow> unit res" where
  "validate_receipt_reservation S r =
     bindE (any_link (rs_fs S) (ancestors (rr_path r))) (\<lambda>b.
     if b then Inl (invalid ''receipt parent changed to a symlink'')
     else
     bindE (unstable (lstat (rs_fs S) (parent (rr_path r)))) (\<lambda>pd.
     bindE (unstable (lstat (rs_fs S) (rr_path r))) (\<lambda>target.
     bindE (wrapE (\<lambda>_. invalid ''receipt reservation is no longer stable'') (fstat S (rr_descriptor r))) (\<lambda>(regular, nlink, ident).
     if \<not> is_dir_node pd \<or> \<not> same_file_identity pd (rr_parent_device r, rr_parent_inode r)
       then Inl (invalid ''receipt parent changed after reservation'')
     else raise_if (st_nlink (node_meta target) \<noteq> 1 \<or> nlink \<noteq> 1 \<or> \<not> is_file_node target \<or> \<not> regular
         \<or> \<not> same_file_identity target (rr_ident r) \<or> ident \<noteq> rr_ident r)
       (invalid ''receipt target changed or gained a hard-link alias'')))))"

definition commit_write :: "(string \<Rightarrow> nat) \<Rightarrow> receipt_reservation \<Rightarrow> string \<Rightarrow> (rstate, unit) st" where
  "commit_write os_write r content = (\<lambda>S. case map_of (rs_open S) (rr_descriptor r) of
       None \<Rightarrow> (Inl (invalid ''could not commit receipt''), S)
     | Some ident \<Rightarrow> (case write_all os_write [] content of (written, res) \<Rightarrow>
         (wrapE (\<lambda>_. invalid ''could not commit receipt'') res, S\<lparr>rs_fs := write_inode ident written (rs_fs S)\<rparr>)))"

definition commit_receipt :: "(string \<Rightarrow> nat) \<Rightarrow> receipt_reservation \<Rightarrow> string \<Rightarrow> (rstate, unit) st" where
  "commit_receipt os_write r content =
     bindS (readS (\<lambda>S. validate_receipt_reservation S r)) (\<lambda>_.
     bindS (commit_write os_write r content) (\<lambda>_.
     readS (\<lambda>S. validate_receipt_reservation S r)))"

definition release_receipt :: "receipt_reservation \<Rightarrow> bool \<Rightarrow> (rstate, unit) st" where
  "release_receipt r remove = (\<lambda>S.
     if rr_descriptor r \<notin> set (keys (rs_open S)) then (Inl (OSError ''close''), S)
     else (Inr (), S\<lparr>rs_open := dict_pop (rr_descriptor r) (rs_open S),
       rs_fs := (if remove then unlink_reserved_receipt (rr_path r) (rr_ident r) (rs_fs S) else rs_fs S)\<rparr>))"

section \<open>What the operations keep\<close>

text \<open>Every object but the one named stays where it is, as it is.\<close>

definition keeps_others :: "nat \<times> nat \<Rightarrow> fs \<Rightarrow> fs \<Rightarrow> bool" where
  "keeps_others ident F F' \<longleftrightarrow>
     (\<forall>q nd. node_at F q = Some nd \<longrightarrow> node_identity nd \<noteq> ident \<longrightarrow> node_at F' q = Some nd)"

lemma keeps_others_refl [simp]: "keeps_others ident F F"
  by (simp add: keeps_others_def)

lemma keeps_others_trans: "keeps_others ident F G \<Longrightarrow> keeps_others ident G K \<Longrightarrow> keeps_others ident F K"
  by (auto simp: keeps_others_def)

definition overwritten :: "nat \<times> nat \<Rightarrow> string \<Rightarrow> node \<Rightarrow> node" where
  "overwritten ident c nd = (case nd of
     NFile m old \<Rightarrow> (if node_identity nd = ident then NFile m c else nd) | _ \<Rightarrow> nd)"

lemma overwritten_simps [simp]:
  "node_meta (overwritten ident c nd) = node_meta nd"
  "is_file_node (overwritten ident c nd) = is_file_node nd"
  "is_dir_node (overwritten ident c nd) = is_dir_node nd"
  "node_identity nd \<noteq> ident \<Longrightarrow> overwritten ident c nd = nd"
  by (auto simp: overwritten_def split: node.split)

lemma node_at_write_inode: "node_at (write_inode ident c F) q = map_option (overwritten ident c) (node_at F q)"
proof -
  have "map_of (map (\<lambda>(q, nd). (q, f nd)) xs) q = map_option f (map_of xs q)"
    for xs :: "(path \<times> node) list" and f :: "node \<Rightarrow> node"
    by (induction xs) auto
  from this [of "overwritten ident c" "nodes F"] show ?thesis
    by (simp add: node_at_def write_inode_def overwritten_def [abs_def])
qed

lemma walk_write_inode: "walk n (write_inode ident c F) cur ps = walk n F cur ps"
  by (induction n F cur ps rule: walk.induct)
    (auto simp: node_at_write_inode overwritten_def split: node.split option.split nat.split)

lemma lstat_write_inode: "lstat (write_inode ident c F) p = map_option (overwritten ident c) (lstat F p)"
  by (cases "resolve F p"; cases "resolve F (butlast p)")
    (auto simp: lstat_def stat_def resolve_def walk_write_inode node_at_write_inode)

lemma write_inode_keeps: "keeps_others ident F (write_inode ident c F)"
  by (simp add: keeps_others_def node_at_write_inode)

lemma unlink_keeps: "p \<noteq> [] \<Longrightarrow> last p \<noteq> ''..'' \<Longrightarrow> keeps_others ident F (unlink_reserved_receipt p ident F)"
  by (auto simp: keeps_others_def unlink_reserved_receipt_def same_file_identity_def lstat_def
      parent_def name_of_def split: option.splits)

section \<open>Reserving and committing\<close>

text \<open>What a check of the reservation that passes has seen.\<close>

definition holds_reserved :: "fs \<Rightarrow> receipt_reservation \<Rightarrow> bool" where
  "holds_reserved F r \<longleftrightarrow> (\<exists>m c. lstat F (rr_path r) = Some (NFile m c)
     \<and> (st_dev m, st_ino m) = rr_ident r \<and> st_nlink m = 1)"

lemma validate_receipt_Inr:
  assumes "validate_receipt_reservation S r = Inr u"
  shows "holds_reserved (rs_fs S) r"
    and "\<exists>regular. fstat S (rr_descriptor r) = Inr (regular, 1, rr_ident r)"
    and "\<exists>m. lstat (rs_fs S) (parent (rr_path r)) = Some (NDir m)
      \<and> (st_dev m, st_ino m) = (rr_parent_device r, rr_parent_inode r)"
  using assms
  by (auto simp: validate_receipt_reservation_def unstable_def someE_Inr wrapE_Inr raise_if_Inr holds_reserved_def
      same_file_identity_def node_identity_def split: if_splits prod.splits
      elim!: stepsE is_file_node.elims is_dir_node.elims)

lemma commit_receipt_Inr:
  assumes "commit_receipt w r content S = (Inr u, S')"
  shows "\<exists>m. lstat (rs_fs S') (rr_path r) = Some (NFile m content)
      \<and> (st_dev m, st_ino m) = rr_ident r \<and> st_nlink m = 1"
    and "rs_open S' = rs_open S"
proof -
  obtain ident where v: "validate_receipt_reservation S r = Inr ()"
    and fd: "map_of (rs_open S) (rr_descriptor r) = Some ident"
    and T: "S' = S\<lparr>rs_fs := write_inode ident content (rs_fs S)\<rparr>"
    and v': "validate_receipt_reservation S' r = Inr ()"
    using assms
    by (auto simp: commit_receipt_def commit_write_def bindS_Inr wrapE_Inr dest: write_all_spec(3)
        split: option.splits prod.splits)
  have "ident = rr_ident r"
    using validate_receipt_Inr(2) [OF v] fd by (auto simp: fstat_def split: option.splits)
  moreover obtain m c where "lstat (rs_fs S) (rr_path r) = Some (NFile m c)"
    "(st_dev m, st_ino m) = rr_ident r" "st_nlink m = 1"
    using validate_receipt_Inr(1) [OF v] by (auto simp: holds_reserved_def)
  ultimately show "\<exists>m. lstat (rs_fs S') (rr_path r) = Some (NFile m content)
      \<and> (st_dev m, st_ino m) = rr_ident r \<and> st_nlink m = 1"
    by (simp add: T lstat_write_inode overwritten_def node_identity_def)
  show "rs_open S' = rs_open S" by (simp add: T)
qed

lemma commit_receipt_keeps:
  assumes "commit_receipt w r content S = (res, S')"
  shows "keeps_others (rr_ident r) (rs_fs S) (rs_fs S')" and "rs_open S' = rs_open S"
proof -
  have "keeps_others (rr_ident r) (rs_fs S) (rs_fs S') \<and> rs_open S' = rs_open S"
  proof (cases "validate_receipt_reservation S r")
    case (Inr u)
    then have "map_of (rs_open S) (rr_descriptor r) = Some (rr_ident r)"
      using validate_receipt_Inr(2) [OF Inr] by (auto simp: fstat_def split: option.splits)
    then show ?thesis
      using assms Inr
      by (auto simp: commit_receipt_def bindS_def readS_def commit_write_def write_inode_keeps
          split: sum.splits prod.splits)
  qed (use assms in \<open>auto simp: commit_receipt_def bindS_def readS_def\<close>)
  then show "keeps_others (rr_ident r) (rs_fs S) (rs_fs S')" "rs_open S' = rs_open S" by auto
qed

text \<open>A reservation that succeeds: a new empty file of a new identity, under a new descriptor.\<close>

lemma create_receipt_Inr:
  assumes "create_receipt H p parent_ident S = (Inr r, S')" and "p \<noteq> []"
  obtains d where "resolve (rs_fs S) (parent p) = Some d" and "lstat (rs_fs S) p = None"
    and "rr_path r = p"
    and "rs_fs S' = put_file H (d @ [name_of p]) [] 384 (rs_fs S)"
    and "rs_open S' = (rr_descriptor r, rr_ident r) # rs_open S"
    and "rr_descriptor r = fresh_fd S"
    and "rr_ident r = (st_dev (new_meta H (rs_fs S) 384), fresh_ino (rs_fs S))"
  using assms by (auto simp: create_receipt_def Let_def lexists_def rr_ident_def new_meta_def
      split: if_splits option.splits sum.splits prod.splits)

lemma fresh_fd_new: "fresh_fd S \<notin> set (keys (rs_open S))"
proof -
  have "x \<in> set xs \<Longrightarrow> x \<le> foldr max xs 2" for x :: nat and xs
    by (induction xs) auto
  then show ?thesis by (force simp: fresh_fd_def)
qed

lemma reserve_receipt_Inr:
  assumes "reserve_receipt H proj p dir S = (Inr r, S')"
  shows "\<exists>ident. parent_info H (rs_fs S) proj p dir = Inr ident \<and> create_receipt H p ident S = (Inr r, S')"
proof -
  have "\<exists>ident. Inr ident = parent_info H (rs_fs S) proj p dir \<and> create_receipt H p ident S = (Inr r, S')"
    using assms by (auto simp: reserve_receipt_def reading_def bindS_Inr)
  then show ?thesis by (metis (no_types))
qed

lemma release_receipt_keeps:
  assumes "release_receipt r remove S = (res, S')" and "rr_path r \<noteq> []" and "last (rr_path r) \<noteq> ''..''"
  shows "keeps_others (rr_ident r) (rs_fs S) (rs_fs S')"
  using assms unlink_keeps [OF assms(2,3), of "rr_ident r" "rs_fs S"] by (auto simp: release_receipt_def split: if_splits)

section \<open>The life of a reservation\<close>

text \<open>
  What \<open>run_client\<close> does with a reservation while other processes change the file system as
  they like: the client runs (and may fail), the receipt is committed (or not), and the
  \<open>finally\<close> clause releases it, removing the file unless it was committed.
\<close>

datatype receipt_phase = Running | Committed | Failed | Closed bool

datatype actor = Own | Other

inductive receipt_step ::
    "(string \<Rightarrow> nat) \<Rightarrow> receipt_reservation \<Rightarrow> string \<Rightarrow> actor \<Rightarrow> receipt_phase \<times> rstate \<Rightarrow> receipt_phase \<times> rstate \<Rightarrow> bool"
  for w r content where
  interfere: "receipt_step w r content Other (ph, S) (ph, S\<lparr>rs_fs := F\<rparr>)"
| client_fails: "receipt_step w r content Own (Running, S) (Failed, S)"
| commit: "commit_receipt w r content S = (Inr (), S') \<Longrightarrow>
    receipt_step w r content Own (Running, S) (Committed, S')"
| commit_fails: "commit_receipt w r content S = (Inl e, S') \<Longrightarrow>
    receipt_step w r content Own (Running, S) (Failed, S')"
| release_committed: "release_receipt r False S = (Inr (), S') \<Longrightarrow>
    receipt_step w r content Own (Committed, S) (Closed True, S')"
| release_failed: "release_receipt r True S = (Inr (), S') \<Longrightarrow>
    receipt_step w r content Own (Failed, S) (Closed False, S')"

inductive_cases receipt_stepE [elim!]: "receipt_step w r content a (ph, S) (ph', S')"
inductive_simps closed_steps: "receipt_step w r content Own (Closed b, S) x"

definition receipt_moves ::
    "(string \<Rightarrow> nat) \<Rightarrow> receipt_reservation \<Rightarrow> string \<Rightarrow> receipt_phase \<times> rstate \<Rightarrow> receipt_phase \<times> rstate \<Rightarrow> bool" where
  "receipt_moves w r content x y \<longleftrightarrow> (\<exists>a. receipt_step w r content a x y)"

text \<open>The reservation's descriptor is open until the reservation is closed, and no other
  entry of the descriptor table changes.\<close>

definition descriptor_inv ::
    "receipt_reservation \<Rightarrow> (nat \<times> (nat \<times> nat)) list \<Rightarrow> receipt_phase \<times> rstate \<Rightarrow> bool" where
  "descriptor_inv r table x = (case x of
       (Closed b, S) \<Rightarrow> rs_open S = table
     | (ph, S) \<Rightarrow> rs_open S = (rr_descriptor r, rr_ident r) # table)"

lemma dict_pop_absent: "k \<notin> set (keys d) \<Longrightarrow> dict_pop k d = d"
  by (induction k d rule: dict_pop.induct) auto

lemma descriptor_inv_step:
  assumes "rr_descriptor r \<notin> set (keys table)" and "descriptor_inv r table x" and "receipt_moves w r content x y"
  shows "descriptor_inv r table y"
proof -
  obtain ph S ph' S' where "x = (ph, S)" "y = (ph', S')" by (cases x; cases y)
  then show ?thesis
    using assms dict_pop_absent [OF assms(1)]
    by (auto simp: descriptor_inv_def receipt_moves_def release_receipt_def
        dest: commit_receipt_keeps(2) split: receipt_phase.splits if_splits)
qed

interpretation receipts: transition_system "receipt_moves w r content"
    "\<lambda>x. rr_descriptor r \<notin> set (keys table) \<and> descriptor_inv r table x"
  by unfold_locales (auto intro: descriptor_inv_step)

end
