(* ===== verification/Samples.thy ===== *)
theory Samples
  imports JsonTotal Receipts
begin

text \<open>
  A small project used by the concrete instances of the properties: a project at the root of
  the file system with one role, one project default Skill, and a host whose parameters are
  simple functions. The theory models no code.
\<close>

definition smp_meta :: "nat \<Rightarrow> meta" where
  "smp_meta mode = \<lparr>st_mode = mode, st_uid = 1000, st_dev = 1, st_ino = 1, st_nlink = 1\<rparr>"

definition smp_ops :: "string list \<Rightarrow> val" where
  "smp_ops a = VDict [(''allow'', VList (map VStr a)), (''deny'', VList []), (''override'', VList [])]"

definition smp_manifest :: dict where
  "smp_manifest = [(''version'', VInt 3), (''defaults'', VStr ''.cap/d''), (''runtime'', VDict [(''omp'', VStr ''.cap/r'')]),
     (''profiles'', VDict [(''a'', VStr ''.cap/p'')])]"

definition smp_defaults :: dict where
  "smp_defaults = [(''version'', VInt 3), (''external_imports'', VList []), (''skills'', smp_ops [''s'']),
     (''mcps'', smp_ops []), (''hooks'', smp_ops []), (''plugins'', smp_ops [])]"

definition smp_role :: dict where
  "smp_role = [(''version'', VInt 3), (''prompt'', VStr ''.cap/d''), (''runtime'', VDict [(''omp'', VStr ''x'')]),
     (''skills'', smp_ops []), (''mcps'', smp_ops []), (''hooks'', smp_ops []), (''plugins'', smp_ops [])]"

definition smp_policy :: dict where
  "smp_policy = [(''version'', VInt 1), (''client'', VStr ''omp''), (''policy'', VDict [])]"

definition smp_toml :: "string \<Rightarrow> val option" where
  "smp_toml s = map_of [(''m'', VDict smp_manifest), (''d'', VDict smp_defaults), (''p'', VDict smp_role),
     (''r'', VDict smp_policy)] s"

definition smp_host :: host where
  "smp_host = \<lparr>sha256 = (\<lambda>s. show_nat (length s)), toml_loads = smp_toml, home_dir = [''h''], user_home = (\<lambda>_. None),
     geteuid = Some 1000, utc_now = ''now'', cwd = [], environ = []\<rparr>"

definition smp_no_ops :: cap_ops where
  "smp_no_ops = \<lparr>allow = [], deny = [], override = []\<rparr>"

definition smp_skill :: path where
  "smp_skill = [''w'', ''.cap'', ''capabilities'', ''skills'', ''s'']"

definition smp_profile :: profile where
  "smp_profile = \<lparr>p_name = ''a'', p_source = [''w'', ''.cap'', ''p''], p_source_root = [''w''], p_chain = [''project-defaults'', ''a''],
     p_prompt = [''w'', ''.cap'', ''d''], p_prompt_chain = [[''w'', ''.cap'', ''d'']],
     p_operations = [(''skills'', smp_no_ops), (''mcps'', smp_no_ops), (''hooks'', smp_no_ops), (''plugins'', smp_no_ops)],
     p_origins = [(''skills'', [(''s'', smp_skill)]), (''mcps'', []), (''hooks'', []), (''plugins'', [])],
     p_skills = [''s''], p_mcps = [], p_hooks = [], p_plugins = [], p_runtime = [(''omp'', ''x'')]\<rparr>"

definition smp_project :: project where
  "smp_project = \<lparr>pr_root = [''w''], pr_manifest = [''w'', ''.cap'', ''manifest.toml''], pr_defaults = [''w'', ''.cap'', ''d''],
     pr_runtime_policies = [(''omp'', [''w'', ''.cap'', ''r''])], pr_skill_imports_manifest = None, pr_skill_imports = [],
     pr_profiles = [(''a'', smp_profile)], pr_mcps = [], pr_external_imports = [], pr_overlay = None\<rparr>"

definition smp_tree_hash :: "string \<Rightarrow> string" where
  "smp_tree_hash client = the (map_of [(''codex'', ''sha256:194''), (''qoder'', ''sha256:262''), (''omp'', ''sha256:259''),
     (''claude'', ''sha256:267'')] client)"

definition smp_layer :: dict where
  "smp_layer = [(''defaults'', VStr ''project-defaults''), (''chain'', strs [''project-defaults'', ''a'']),
     (''runtime'', VDict [(''omp'', VStr ''x'')]),
     (''operations'', VDict [(''skills'', ops_doc smp_no_ops), (''mcps'', ops_doc smp_no_ops),
        (''hooks'', ops_doc smp_no_ops), (''plugins'', ops_doc smp_no_ops)]),
     (''inventory'', profile_inventory smp_profile),
     (''clients'', VDict (map (\<lambda>c. (c, VDict [(''tree_hash'', VStr (smp_tree_hash c))])) CLIENTS))]"

definition smp_record :: val where
  "smp_record = VDict [(''type'', VStr ''file''), (''mode'', VStr ''0644''), (''sha256'', VStr ''1'')]"

definition smp_inputs :: dict where
  "smp_inputs = [(''.cap/capabilities'', VDict [(''type'', VStr ''directory'')]),
     (''.cap/capabilities/skills'', VDict [(''type'', VStr ''directory'')]),
     (''.cap/capabilities/skills/s'', VDict [(''type'', VStr ''directory'')]),
     (''.cap/capabilities/skills/s/SKILL.md'', smp_record), (''.cap/d'', smp_record), (''.cap/manifest.toml'', smp_record),
     (''.cap/p'', smp_record), (''.cap/r'', smp_record), (''AGENTS.md'', smp_record)]"

definition smp_lock :: val where
  "smp_lock = VDict [(''version'', VInt 3), (''renderer_version'', VStr ''profile-renderer-v3''),
     (''clients'', projr clients_doc), (''capability_semantics'', capability_semantics), (''inputs'', VDict smp_inputs),
     (''external_imports'', VList []),
     (''profiles'', VDict [(''a'', VDict (smp_layer @ [(''layer_digest'', VStr (digest smp_host (VDict smp_layer)))]))])]"

definition smp_context :: dict where
  "smp_context = context_doc smp_host [''h''] []"

definition smp_pin :: dict where
  "smp_pin = pin_doc smp_host (get smp_context ''effective_digest'')"

definition smp_binding :: val where
  "smp_binding = binding_doc smp_host smp_project ''a'' (get smp_context ''effective_digest'')
     (digest smp_host (VDict smp_layer))"

definition smp_file :: "path \<Rightarrow> string \<Rightarrow> path \<times> node" where
  "smp_file p c = (p, NFile (smp_meta 420) c)"

definition smp_dir :: "path \<Rightarrow> path \<times> node" where
  "smp_dir p = (p, NDir (smp_meta 493))"

definition smp_fs :: fs where
  "smp_fs = \<lparr>nodes = [smp_dir [''w'', ''.cap''], smp_dir [], smp_file [''w'', ''AGENTS.md''] ''x'',
     smp_file [''w'', ''.cap'', ''d''] ''d'', smp_file [''w'', ''.cap'', ''r''] ''r'', smp_file [''w'', ''.cap'', ''p''] ''p'',
     smp_file [''w'', ''.cap'', ''manifest.toml''] ''m'',
     smp_dir [''w'', ''.cap'', ''capabilities''], smp_dir [''w'', ''.cap'', ''capabilities'', ''skills''],
     smp_dir [''w'', ''.cap'', ''capabilities'', ''skills'', ''s''],
     smp_file [''w'', ''.cap'', ''capabilities'', ''skills'', ''s'', ''SKILL.md''] ''A'',
     smp_file [''w'', ''.cap'', ''lock.json''] (canonical_json smp_lock),
     smp_dir [''h''], smp_dir [''b''], smp_dir [''w''],
     smp_file [''m.json''] (canonical_json (VDict smp_context)), smp_file [''n.json''] (canonical_json (VDict smp_pin)),
     smp_file [''b'', ''a.binding.json''] (canonical_json smp_binding)],
     fresh_ino = 100\<rparr>"

text \<open>Evaluation by rewriting that leaves the rest of a sequence alone until its first step has a value.\<close>

lemma bindE_weak: "m = m' \<Longrightarrow> bindE m f = bindE m' f"
  by simp

text \<open>What the loader reads, as rewrite rules.\<close>

lemma smp_nodes:
  "node_at smp_fs [] = Some (NDir (smp_meta 493))"
  "node_at smp_fs [''w'', ''.cap''] = Some (NDir (smp_meta 493))"
  "node_at smp_fs [''w'', ''AGENTS.md''] = Some (NFile (smp_meta 420) ''x'')"
  "node_at smp_fs [''w'', ''.cap'', ''d''] = Some (NFile (smp_meta 420) ''d'')"
  "node_at smp_fs [''w'', ''.cap'', ''r''] = Some (NFile (smp_meta 420) ''r'')"
  "node_at smp_fs [''w'', ''.cap'', ''p''] = Some (NFile (smp_meta 420) ''p'')"
  "node_at smp_fs [''w'', ''.cap'', ''manifest.toml''] = Some (NFile (smp_meta 420) ''m'')"
  "node_at smp_fs [''w'', ''.cap'', ''lock.json''] = Some (NFile (smp_meta 420) (canonical_json smp_lock))"
  "node_at smp_fs [''w''] = Some (NDir (smp_meta 493))"
  "node_at smp_fs [''h''] = Some (NDir (smp_meta 493))"
  "node_at smp_fs [''b''] = Some (NDir (smp_meta 493))"
  "node_at smp_fs [''m.json''] = Some (NFile (smp_meta 420) (canonical_json (VDict smp_context)))"
  "node_at smp_fs [''n.json''] = Some (NFile (smp_meta 420) (canonical_json (VDict smp_pin)))"
  "node_at smp_fs [''b'', ''a.binding.json''] = Some (NFile (smp_meta 420) (canonical_json smp_binding))"
  "node_at smp_fs [''w'', ''.cap'', ''capabilities''] = Some (NDir (smp_meta 493))"
  "node_at smp_fs [''w'', ''.cap'', ''capabilities'', ''skills''] = Some (NDir (smp_meta 493))"
  "node_at smp_fs [''w'', ''.cap'', ''capabilities'', ''mcp''] = None"
  "node_at smp_fs [''w'', ''.cap'', ''capabilities'', ''hooks''] = None"
  "node_at smp_fs [''w'', ''.cap'', ''capabilities'', ''plugins''] = None"
  "node_at smp_fs [''w'', ''.cap'', ''capabilities'', ''skills'', ''s''] = Some (NDir (smp_meta 493))"
  "node_at smp_fs [''w'', ''.cap'', ''capabilities'', ''skills'', ''s'', ''SKILL.md''] = Some (NFile (smp_meta 420) ''A'')"
  by (simp_all add: node_at_def smp_fs_def smp_file_def smp_dir_def)

lemma smp_dirs: "dirs smp_fs []" "dirs smp_fs [''w'']" "dirs smp_fs [''w'', ''.cap'']"
  by (auto simp: dirs_def smp_nodes prefix_Cons)

section \<open>Its rendered trees and its lock\<close>

lemmas smp_fs_simps = smp_nodes resolve_def is_symlink_def lstat_def stat_def is_file_def is_dir_def exists_at_def smp_meta_def

lemma smp_skill_entries:
  "rglob smp_fs [''w'', ''.cap'', ''capabilities'', ''skills'', ''s''] = [[''w'', ''.cap'', ''capabilities'', ''skills'', ''s'', ''SKILL.md'']]"
  by (simp add: rglob_def smp_fs_simps below_def) (simp add: smp_fs_def smp_file_def smp_dir_def keys_def strict_prefix_def)

lemma smp_skill_files:
  "files_below smp_fs [''w'', ''.cap'', ''capabilities'', ''skills'', ''s''] = [[''w'', ''.cap'', ''capabilities'', ''skills'', ''s'', ''SKILL.md'']]"
  by (simp add: files_below_def smp_skill_entries smp_fs_simps)

lemma smp_store_entries: "rglob smp_fs [''w'', ''.cap'', ''capabilities''] =
    [[''w'', ''.cap'', ''capabilities'', ''skills''], [''w'', ''.cap'', ''capabilities'', ''skills'', ''s''],
     [''w'', ''.cap'', ''capabilities'', ''skills'', ''s'', ''SKILL.md'']]"
  by (simp add: rglob_def smp_fs_simps below_def) (simp add: smp_fs_def smp_file_def smp_dir_def keys_def strict_prefix_def, code_simp)

lemma smp_skill_text:
  "redacted_file_bytes smp_host smp_fs [''w'', ''.cap'', ''capabilities'', ''skills'', ''s'', ''SKILL.md''] = Inr ''A''"
  by (simp add: redacted_file_bytes_def read_bytes_def smp_fs_simps) code_simp

lemma smp_prompt: "profile_prompt smp_fs smp_profile = Inr [CHR ''d'', CHR 0x0A]"
  by (simp add: profile_prompt_def smp_profile_def read_nonempty_text_def read_text_def read_bytes_def smp_fs_simps
      decode_utf8_def newlines_def) code_simp

lemma smp_render_skill:
  "render_skill smp_host smp_fs [(''s'', smp_skill)] t ''s'' = foldE put t [(''skills/s/SKILL.md'', plain_file ''A'')]"
  by (simp add: render_skill_def smp_skill_def smp_skill_files render_file_def smp_skill_text canonical_mode_def
      plain_file_def rel_posix_def posix_def)

lemma smp_render:
  "render_tree smp_host smp_fs smp_project client smp_profile =
    bindE (validate_client client) (\<lambda>_. bindE (client_files client [CHR ''d'', CHR 0x0A] []) (\<lambda>base.
    bindE (foldE put [] (base @ [(''skills/s/SKILL.md'', plain_file ''A'')])) (\<lambda>t. Inr (sort_key fst t))))"
  by (simp add: render_tree_def smp_prompt)
    (simp add: smp_profile_def origins_of_def smp_render_skill foldE_append bindE_def split: sum.splits)

definition smp_omp_tree :: rtree where
  "smp_omp_tree = [(''config.yml'', plain_file [CHR ''{'', CHR ''}'', CHR 0x0A]), (''mcp.json'', plain_file (omp_mcp [])),
     (''skills/s/SKILL.md'', plain_file ''A''), (''system-prompt.md'', plain_file [CHR ''d'', CHR 0x0A])]"

lemma smp_render_omp: "render_tree smp_host smp_fs smp_project ''omp'' smp_profile = Inr smp_omp_tree"
  unfolding smp_render by code_simp

lemma smp_client_hash:
  "client_hash smp_host smp_fs smp_project smp_profile ''codex'' = Inr (''codex'', VDict [(''tree_hash'', VStr (smp_tree_hash ''codex''))])"
  "client_hash smp_host smp_fs smp_project smp_profile ''qoder'' = Inr (''qoder'', VDict [(''tree_hash'', VStr (smp_tree_hash ''qoder''))])"
  "client_hash smp_host smp_fs smp_project smp_profile ''omp'' = Inr (''omp'', VDict [(''tree_hash'', VStr (smp_tree_hash ''omp''))])"
  "client_hash smp_host smp_fs smp_project smp_profile ''claude'' = Inr (''claude'', VDict [(''tree_hash'', VStr (smp_tree_hash ''claude''))])"
  unfolding client_hash_def smp_render by code_simp+

lemma smp_role_layer: "role_layer smp_host smp_fs smp_project smp_profile = Inr smp_layer"
  by (simp add: role_layer_def CLIENTS_def smp_client_hash) (simp add: smp_layer_def smp_profile_def dict_of_def
      dict_update_def CLIENTS_def PROJECT_DEFAULTS_NAME_def)

lemma smp_lock_paths: "lock_paths smp_fs smp_project =
    [[''w'', ''.cap'', ''manifest.toml''], [''w'', ''.cap'', ''r''], [''w'', ''AGENTS.md''], [''w'', ''.cap'', ''p''], [''w'', ''.cap'', ''d''],
     [''w'', ''.cap'', ''capabilities''], [''w'', ''.cap'', ''capabilities'', ''skills''], [''w'', ''.cap'', ''capabilities'', ''skills'', ''s''],
     [''w'', ''.cap'', ''capabilities'', ''skills'', ''s'', ''SKILL.md'']]"
  by (simp add: lock_paths_def smp_project_def smp_store_entries smp_profile_def)

lemma smp_project_simps:
  "pr_root smp_project = [''w'']" "pr_overlay smp_project = None" "pr_profiles smp_project = [(''a'', smp_profile)]"
  "pr_skill_imports smp_project = []" "pr_external_imports smp_project = []"
  by (simp_all add: smp_project_def)

lemma smp_lock_record:
  "p \<in> {[''w'', ''.cap'', ''capabilities''], [''w'', ''.cap'', ''capabilities'', ''skills''], [''w'', ''.cap'', ''capabilities'', ''skills'', ''s'']} \<Longrightarrow>
     lock_record smp_fs (read_bytes smp_fs) (sha256 smp_host) p = Inr (VDict [(''type'', VStr ''directory'')])"
  "p \<in> {[''w'', ''.cap'', ''capabilities'', ''skills'', ''s'', ''SKILL.md''], [''w'', ''.cap'', ''d''], [''w'', ''.cap'', ''manifest.toml''],
      [''w'', ''.cap'', ''p''], [''w'', ''.cap'', ''r''], [''w'', ''AGENTS.md'']} \<Longrightarrow>
     lock_record smp_fs (read_bytes smp_fs) (sha256 smp_host) p = Inr smp_record"
proof -
  have m: "oct4 420 = ''0644''" by code_simp
  have n: "show_nat (Suc 0) = ''1''" by code_simp
  show "p \<in> {[''w'', ''.cap'', ''capabilities''], [''w'', ''.cap'', ''capabilities'', ''skills''], [''w'', ''.cap'', ''capabilities'', ''skills'', ''s'']} \<Longrightarrow>
     lock_record smp_fs (read_bytes smp_fs) (sha256 smp_host) p = Inr (VDict [(''type'', VStr ''directory'')])"
    by (auto simp: lock_record_def smp_fs_simps)
  show "p \<in> {[''w'', ''.cap'', ''capabilities'', ''skills'', ''s'', ''SKILL.md''], [''w'', ''.cap'', ''d''], [''w'', ''.cap'', ''manifest.toml''],
      [''w'', ''.cap'', ''p''], [''w'', ''.cap'', ''r''], [''w'', ''AGENTS.md'']} \<Longrightarrow>
     lock_record smp_fs (read_bytes smp_fs) (sha256 smp_host) p = Inr smp_record"
    by (auto simp: lock_record_def smp_fs_simps read_bytes_def smp_host_def canonical_mode_def smp_record_def m n)
qed

lemma smp_input_records: "input_records smp_host smp_fs smp_project = Inr smp_inputs"
proof -
  have l: "labelled [] [''w''] (lock_paths smp_fs smp_project) = Inr (map (\<lambda>p. (rel_posix [''w''] p, p)) (lock_paths smp_fs smp_project))"
    unfolding smp_lock_paths by code_simp
  have o: "sort_key fst (map (\<lambda>p. (rel_posix [''w''] p, p)) (lock_paths smp_fs smp_project)) = map (\<lambda>p. (rel_posix [''w''] p, p))
     [[''w'', ''.cap'', ''capabilities''], [''w'', ''.cap'', ''capabilities'', ''skills''], [''w'', ''.cap'', ''capabilities'', ''skills'', ''s''],
      [''w'', ''.cap'', ''capabilities'', ''skills'', ''s'', ''SKILL.md''], [''w'', ''.cap'', ''d''], [''w'', ''.cap'', ''manifest.toml''],
      [''w'', ''.cap'', ''p''], [''w'', ''.cap'', ''r''], [''w'', ''AGENTS.md'']]"
    unfolding smp_lock_paths by code_simp
  show ?thesis
    by (simp add: input_records_def smp_project_simps l lock_records_def o smp_lock_record)
      (simp add: rel_posix_def posix_def dict_of_def dict_update_def smp_inputs_def)
qed

lemma smp_clients_doc: "clients_doc = Inr (projr clients_doc)"
  by code_simp

lemma smp_desired_lock: "desired_lock smp_host smp_fs smp_project = Inr smp_lock"
  by (subst desired_lock_def, subst smp_clients_doc)
    (simp add: smp_input_records smp_lock_def LOCK_VERSION_def RENDERER_VERSION_def locked_role_def smp_role_layer
      skill_imports_doc_def overlay_doc_def dict_of_def dict_update_def smp_project_simps)

lemma smp_lock_utf8: "utf8_valid (canonical_json smp_lock)"
  by (rule utf8_canonical) code_simp

section \<open>Loading it\<close>

lemma smp_resolve_file:
  "resolve_file smp_fs [''w''] ''.cap/manifest.toml'' = Inr [''w'', ''.cap'', ''manifest.toml'']"
  "resolve_file smp_fs [''w''] ''AGENTS.md'' = Inr [''w'', ''AGENTS.md'']"
  "resolve_file smp_fs [''w''] ''.cap/d'' = Inr [''w'', ''.cap'', ''d'']"
  "resolve_file smp_fs [''w''] ''.cap/r'' = Inr [''w'', ''.cap'', ''r'']"
  "resolve_file smp_fs [''w''] ''.cap/p'' = Inr [''w'', ''.cap'', ''p'']"
  by (simp_all add: resolve_file_def safe_relative_def parse_parts_def is_absolute_def posix_def traverses_symlink_def
      smp_fs_simps cong: bindE_weak)

lemma smp_read_toml:
  "read_toml smp_host smp_fs [''w'', ''.cap'', ''manifest.toml''] = Inr smp_manifest"
  "read_toml smp_host smp_fs [''w'', ''.cap'', ''d''] = Inr smp_defaults"
  "read_toml smp_host smp_fs [''w'', ''.cap'', ''p''] = Inr smp_role"
  "read_toml smp_host smp_fs [''w'', ''.cap'', ''r''] = Inr smp_policy"
  by (simp_all add: read_toml_def read_text_def read_bytes_def decode_utf8_def byte_def newlines_def smp_fs_simps
      smp_host_def smp_toml_def cong: bindE_weak)

lemma smp_policies: "load_runtime_policies smp_host smp_fs [''w''] (get smp_manifest ''runtime'') = Inr [(''omp'', [''w'', ''.cap'', ''r''])]"
  by (simp add: get_def smp_manifest_def load_runtime_policies_def CLIENTS_def list_minus_def sorted_set_def load_runtime_policy_def
      smp_resolve_file require_under_cap_def smp_read_toml smp_policy_def expect_keys_def cong: bindE_weak)

definition smp_store_names :: expected where
  "smp_store_names = [(''skills'', [''s'']), (''mcp'', []), (''hooks'', []), (''plugins'', [])]"

lemma smp_listings:
  "iterdir smp_fs [''w'', ''.cap'', ''capabilities''] = Inr [''skills'']"
  "iterdir smp_fs [''w'', ''.cap'', ''capabilities'', ''skills''] = Inr [''s'']"
  by (simp_all add: iterdir_def smp_fs_simps children_def) (simp_all add: smp_fs_def smp_file_def smp_dir_def keys_def)

lemma smp_skill_tree: "validate_capability_tree smp_fs ''skills'' [''w'', ''.cap'', ''capabilities'', ''skills'', ''s''] = Inr ()"
  by (simp add: validate_capability_tree_def smp_skill_entries unsupported_entry_def smp_fs_simps)

lemma smp_store: "validate_capability_store smp_fs [''w''] smp_store_names = Inr []"
proof -
  have i: "validate_identifier (VStr ''s'') = Inr ''s''" "check_inventory [''s''] [''s''] = Inr ()" by code_simp+
  show ?thesis
    by (simp add: validate_capability_store_def smp_listings require_directory_def smp_fs_simps list_minus_def
        CAPABILITY_KINDS_def smp_store_names_def expected_of_def validate_kind_def tree_entry_def smp_skill_tree i
        cong: bindE_weak)
qed

definition smp_def :: prof_def where
  "smp_def = \<lparr>pd_source = [''w'', ''.cap'', ''p''], pd_source_root = [''w''], pd_prompt = [''w'', ''.cap'', ''d''],
     pd_runtime = [(''omp'', ''x'')], pd_operations = p_operations smp_profile\<rparr>"

lemma smp_load_operations:
  "load_operations smp_role = Inr (p_operations smp_profile)"
  "load_operations smp_defaults = Inr [(''skills'', \<lparr>allow = [''s''], deny = [], override = []\<rparr>), (''mcps'', smp_no_ops), (''hooks'', smp_no_ops), (''plugins'', smp_no_ops)]"
  by code_simp+

lemma smp_definition: "load_definition smp_host smp_fs [''w''] (''a'', VStr ''.cap/p'') = Inr (''a'', smp_def)"
proof -
  have "is_identifier ''a''" by code_simp
  then have v: "validate_identifier (VStr ''a'') = Inr ''a''" by (simp add: validate_identifier_def)
  have k: "expect_keys smp_role ([''version'', ''prompt'', ''runtime''] @ keys capability_fields) = Inr ()" by code_simp
  have g: "get smp_role ''version'' = VInt 3" "get smp_role ''prompt'' = VStr ''.cap/d''" "get smp_role ''runtime'' = VDict [(''omp'', VStr ''x'')]"
    by (simp_all add: smp_role_def get_def)
  show ?thesis
    by (simp add: load_definition_def v smp_resolve_file require_under_cap_def smp_read_toml k [simplified] g smp_load_operations
      CLIENTS_def list_minus_def smp_def_def dict_of_def dict_update_def cong: bindE_weak)
qed

lemma smp_loads: "load_project smp_host smp_fs [''w''] None = Inr smp_project"
proof -
  have a: "read_nonempty_text smp_fs [''w'', ''AGENTS.md''] = Inr ''x''"
    by (simp add: read_nonempty_text_def read_text_def read_bytes_def decode_utf8_def byte_def newlines_def smp_fs_simps) code_simp
  have g: "get smp_manifest ''version'' = VInt 3" "get smp_manifest ''defaults'' = VStr ''.cap/d''"
      "get smp_manifest ''profiles'' = VDict [(''a'', VStr ''.cap/p'')]" "get smp_manifest ''skill_imports'' = VNone"
      "keys smp_manifest = [''version'', ''defaults'', ''runtime'', ''profiles'']"
      "get smp_defaults ''version'' = VInt 3" "get smp_defaults ''external_imports'' = VList []"
    by (simp_all add: smp_manifest_def smp_defaults_def get_def)
  have k: "expect_keys smp_defaults ([''version'', ''external_imports''] @ keys capability_fields) = Inr ()" by code_simp
  have rp: "resolve_profile [''w''] [] [(''skills'', \<lparr>allow = [''s''], deny = [], override = []\<rparr>), (''mcps'', smp_no_ops),
      (''hooks'', smp_no_ops), (''plugins'', smp_no_ops)] (''a'', smp_def) = Inr (''a'', smp_profile)" by code_simp
  have ei: "load_external_imports (VList []) = Inr []" by code_simp
  have v: "validate_identifier (VStr ''a'') = Inr ''a''" by code_simp
  have e: "add_expected [] [(''skills'', smp_no_ops), (''mcps'', smp_no_ops), (''hooks'', smp_no_ops), (''plugins'', smp_no_ops)]
     (add_expected [] [(''skills'', \<lparr>allow = [''s''], deny = [], override = []\<rparr>), (''mcps'', smp_no_ops),
      (''hooks'', smp_no_ops), (''plugins'', smp_no_ops)] empty_expected) = smp_store_names" by code_simp
  have po: "pd_operations smp_def = [(''skills'', smp_no_ops), (''mcps'', smp_no_ops), (''hooks'', smp_no_ops), (''plugins'', smp_no_ops)]"
    by (simp add: smp_def_def smp_profile_def)
  have l: "load_layers smp_host smp_fs [''w''] None [''w'', ''.cap'', ''manifest.toml''] smp_manifest [(''omp'', [''w'', ''.cap'', ''r''])] None [] = Inr smp_project"
    by (simp add: load_layers_def resolve_file_value_def g smp_resolve_file require_under_cap_def smp_read_toml k [simplified] ei
      smp_load_operations load_overlay_spec_def load_definitions_def v smp_definition po e rp unreferenced_imports_def
      validate_stores_def smp_store dict_update_def list_minus_def smp_project_def cong: bindE_weak)
  have "resolve smp_fs [''w''] = Some [''w'']" "is_dir smp_fs [''w'']" by (simp_all add: smp_fs_simps)
  then show ?thesis
    by (simp add: load_project_def smp_resolve_file a smp_read_toml g list_minus_def MANIFEST_VERSION_def smp_policies
      load_skill_imports_ref_def l cong: bindE_weak)
qed

section \<open>Writing into it\<close>

definition smp_io :: "nat option \<Rightarrow> io" where
  "smp_io fail = \<lparr>tmp_name = ''tmp'', io_fail = fail\<rparr>"

lemma smp_writes: "\<exists>F'. write_json smp_host (smp_io None) [''w'', ''.cap'', ''lock.json''] v mode smp_fs = (Inr (), F')"
proof -
  have "mkdirs smp_host 493 [] [''w'', ''.cap''] smp_fs = Inr ([''w'', ''.cap''], smp_fs)"
    by (simp add: smp_fs_simps)
  then show ?thesis
    by (simp add: write_json_def atomic_write_def parent_def name_of_def write_fails_def smp_io_def Let_def smp_nodes)
qed

lemma smp_no_temp: "node_at smp_fs [''w'', ''.cap'', ''.lock.json.tmp''] = None"
  by (simp add: node_at_def smp_fs_def smp_file_def smp_dir_def)

end
