(* ===== verification/LoadProperties.thy ===== *)
theory LoadProperties
  imports Samples
begin

text \<open>
  What the reading half of the engine guarantees: the JSON reader and writer, the path and
  identifier checks, the capability stores and the closures of a loaded project. Each property
  is stated over the definitions of the component theories and instantiated on the sample.
\<close>

section \<open>JSON\<close>

text \<open>What \<open>_canonical_json\<close> writes, \<open>_strict_json\<close> reads back as the same document with its keys
  sorted, for every document without floats, tuples or duplicate keys.\<close>

theorem canonical_json_reads_back: "plain v \<Longrightarrow> loads_strict (canonical_json v) = Inr (canon v)"
  by (rule loads_strict_canonical)

definition smp_document :: val where
  "smp_document = VDict [(''b'', VList [VInt (- 2), VStr [CHR 0x0A, CHR 0x22], VNone]), (''a'', VBool True)]"

theorem canonical_json_reads_back_witness:
  "loads_strict (canonical_json smp_document)
     = Inr (VDict [(''a'', VBool True), (''b'', VList [VInt (- 2), VStr [CHR 0x0A, CHR 0x22], VNone])])"
  using canonical_json_reads_back [of smp_document] by (simp add: smp_document_def)



text \<open>Two documents have the same canonical text exactly when they are equal up to the order of
  their keys: the digests of documents are taken over this text.\<close>

theorem canonical_json_injective:
  "plain v \<Longrightarrow> plain w \<Longrightarrow> canonical_json v = canonical_json w \<longleftrightarrow> canon v = canon w"
  by (rule canonical_json_inj)

theorem canonical_json_injective_witness:
  "canonical_json smp_document \<noteq> canonical_json (VDict [(''a'', VInt 1)])"
  using canonical_json_injective [of smp_document "VDict [(''a'', VInt 1)]"] by (simp add: smp_document_def)

section \<open>Names and paths\<close>

text \<open>\<open>_safe_relative\<close> accepts a lone dot (which its message says it refuses) and otherwise
  exactly the normalized relative paths: non-empty components joined by single slashes, none of
  them a dot, a double dot, or holding a backslash or NUL.\<close>

theorem safe_relative_accepts:
  "safe_relative v = Inr ps \<longleftrightarrow>
     (v = ''.'' \<and> ps = []) \<or> (ps \<noteq> [] \<and> (\<forall>w \<in> set ps. safe_part w) \<and> v = join ''/'' ps)"
  by (rule safe_relative_Inr)

theorem safe_relative_accepts_witness:
  "safe_relative ''a/b'' = Inr [''a'', ''b''] \<and> safe_relative ''../b'' \<noteq> Inr [''..'', ''b'']"
  using safe_relative_accepts [of "''a/b''" "[''a'', ''b'']"] safe_relative_accepts [of "''../b''" "[''..'', ''b'']"]
  by (simp add: safe_part_def)



text \<open>The three lists of a layer's operations are lists of identifiers without repetition, and
  no name is in two of them.\<close>

theorem layer_operations_disjoint:
  assumes "load_layer_operations v = Inr ops"
  shows "distinct (allow ops @ deny ops @ override ops)
    \<and> (\<forall>n \<in> set (allow ops @ deny ops @ override ops). is_identifier n)"
  using load_layer_operations_wf [OF assms] by (auto simp: wf_ops_def)

theorem layer_operations_disjoint_witness: "distinct [''s'']"
proof -
  have "load_layer_operations (smp_ops [''s'']) = Inr \<lparr>allow = [''s''], deny = [], override = []\<rparr>" by code_simp
  then show ?thesis using layer_operations_disjoint by fastforce
qed

section \<open>Stores and closures\<close>

text \<open>C26. A capability store that passes its check holds, in each kind, exactly the entries the
  layers refer to.\<close>

theorem capability_store_exact:
  assumes "validate_capability_store F root e = Inr mcps" and "kind \<in> set CAPABILITY_KINDS"
  shows "set (store_names F (root @ [''.cap'', ''capabilities'']) kind) = set (expected_of e kind)"
  using assms by (rule validate_capability_store_exact)

theorem capability_store_exact_witness:
  "set (store_names smp_fs [''w'', ''.cap'', ''capabilities''] ''skills'') = {''s''}"
  using capability_store_exact [OF smp_store, of "''skills''"] by (simp add: CAPABILITY_KINDS_def expected_of_def smp_store_names_def)

text \<open>An MCP definition that loads has the name of its file, a non-empty command, and no NUL
  character in its command, arguments or environment, whose names are distinct and not empty.\<close>

theorem mcp_definition_wf:
  assumes "load_mcp F p n = Inr m"
  shows "wf_mcp m \<and> mcp_name m = n \<and> mcp_source m = p"
  using assms by (rule load_mcp_wf)

definition smp_mcp_text :: string where
  "smp_mcp_text = canonical_json (VDict [(''version'', VInt 1), (''name'', VStr ''x''), (''command'', VStr ''run''),
     (''args'', VList []), (''env'', VDict [])])"

definition smp_mcp_fs :: fs where
  "smp_mcp_fs = \<lparr>nodes = [smp_file [''x.json''] smp_mcp_text], fresh_ino = 9\<rparr>"

theorem mcp_definition_wf_witness: "\<exists>m. wf_mcp m \<and> mcp_name m = ''x'' \<and> load_mcp smp_mcp_fs [''x.json''] ''x'' = Inr m"
proof -
  have "load_mcp smp_mcp_fs [''x.json''] ''x''
      = Inr \<lparr>mcp_name = ''x'', mcp_command = ''run'', mcp_args = [], mcp_env = [], mcp_source = [''x.json'']\<rparr>" by code_simp
  then show ?thesis using mcp_definition_wf by blast
qed

text \<open>C22. The closure law of a role: what the defaults allow, without what the role denies or
  overrides, plus what it overrides and allows. An override must be inherited, an allowance must
  not be, the names come sorted and once each, and each name's origin is in the layer that brought it.\<close>

theorem closure_law:
  assumes "resolve_field root imported D sroot field ops = Inr (names, origins)"
  shows "set (override ops) \<subseteq> set D \<and> set (allow ops) \<inter> set D = {}
    \<and> set names = (set D - set (deny ops) - set (override ops)) \<union> set (override ops) \<union> set (allow ops)
    \<and> sorted names \<and> distinct names
    \<and> map_of origins c =
      (if c \<in> set (override ops) \<union> set (allow ops) then Some (capability_origin imported field c sroot)
       else if c \<in> set D - set (deny ops) then Some (capability_origin imported field c root) else None)"
  using resolve_field_Inr [OF assms] by blast

theorem closure_law_witness:
  "\<exists>names origins. resolve_field [] [] [''x'', ''y'', ''z''] [''o''] ''skills''
      \<lparr>allow = [''w''], deny = [''x''], override = [''y'']\<rparr> = Inr (names, origins)
    \<and> set names = {''w'', ''y'', ''z''} \<and> map_of origins ''z'' = Some [''.cap'', ''capabilities'', ''skills'', ''z'']"
proof -
  have r: "resolve_field [] [] [''x'', ''y'', ''z''] [''o''] ''skills''
      \<lparr>allow = [''w''], deny = [''x''], override = [''y'']\<rparr> = Inr ([''w'', ''y'', ''z''],
      [(''y'', [''o'', ''.cap'', ''capabilities'', ''skills'', ''y'']),
       (''z'', [''.cap'', ''capabilities'', ''skills'', ''z'']),
       (''w'', [''o'', ''.cap'', ''capabilities'', ''skills'', ''w''])])" by code_simp
  show ?thesis
    using closure_law [OF r, of "''z''"] r by (auto simp: capability_origin_def capability_fields_def)
qed



end
