(* ===== verification/RenderProperties.thy ===== *)
theory RenderProperties
  imports Samples
begin

text \<open>
  What the writing half of the engine guarantees: redaction, the rendered trees, the lock, atomic
  replacement, the evidence and the gates on ambient configuration, each with a concrete instance.
\<close>

section \<open>Redaction\<close>


text \<open>The redacted document does not depend on a secret value: any two values stored under a
  secret name give the same output, so the lock and the rendered trees do not leak it.\<close>

theorem redaction_independent_of_secret:
  assumes "is_secret_name k \<or> hides_children pk" and "map_of d k = Some y"
  shows "redact pk (VDict (dict_set k x d)) = redact pk (VDict d)"
  using assms by (rule redact_secret_indep)

theorem redaction_independent_of_secret_witness:
  "redact [] (VDict [(''api_key'', VStr ''s3cret''), (''n'', VInt 1)]) = redact [] (VDict [(''api_key'', VStr ''other''), (''n'', VInt 1)])"
proof -
  have "is_secret_name ''api_key''" by code_simp
  then show ?thesis
    using redaction_independent_of_secret [of "''api_key''" "[]" "[(''api_key'', VStr ''other''), (''n'', VInt 1)]" _ "VStr ''s3cret''"]
    by simp
qed

text \<open>A secret-looking line of a text file is redacted whatever it assigns: replacing the value
  by another does not change the redacted text, so a change of it is invisible to the overlay lock.\<close>

theorem redacted_lines_ignore_value:
  assumes "match_line s = Some (keep, dropped, rest)"
    and "d \<noteq> []" and "\<not> is_space (hd d)" and "CHR 0x0A \<notin> set d"
  shows "redact_lines (keep @ d @ rest) = redact_lines s"
  using assms by (rule redact_lines_replace)

theorem redacted_lines_ignore_value_witness: "redact_lines ''token: abc'' = redact_lines ''token: z''"
proof -
  have "match_line ''token: z'' = Some (''token: '', ''z'', [])" by code_simp
  from redacted_lines_ignore_value [OF this, of "''abc''"] show ?thesis by (simp add: is_space_def)
qed

text \<open>What \<open>_redacted_file_bytes\<close> does to a TOML file is to turn it into JSON: a rendered
  \<open>.toml\<close> capability file holds the canonical JSON text of its document.\<close>

theorem redacted_toml_is_json:
  assumes "toml_loads H c = Some v" and "utf8_valid c"
  shows "redacted_content H ''.toml'' c = canonical_json (redact [] v)"
  using assms by (rule redacted_toml)

theorem redacted_toml_is_json_witness:
  "\<exists>rest. redacted_content smp_host ''.toml'' ''r'' = CHR ''{'' # rest"
  using redacted_toml_is_json [of smp_host "''r''" "VDict smp_policy"]
  by (simp add: smp_host_def smp_toml_def byte_def canonical_json_def smp_policy_def)

section \<open>Rendered trees\<close>

text \<open>C3. A rendered tree is sorted, its paths are safe relative paths that stay distinct when case
  is folded, every file has mode 0644, the client's prompt file holds the role's prompt, and every
  Skill of the role contributes a redacted file from the source recorded for it.\<close>

theorem rendered_tree_complete:
  assumes "render_tree H F proj client P = Inr t"
  shows "wf_tree t \<and> sorted (keys t)
    \<and> (\<exists>prompt. profile_prompt F P = Inr prompt \<and> (prompt_file client, plain_file prompt) \<in> set t)
    \<and> (\<forall>s \<in> set (p_skills P). \<exists>os root q c. map_of (p_origins P) ''skills'' = Some os
       \<and> map_of os s = Some root \<and> q \<in> set (files_below F root) \<and> redacted_file_bytes H F q = Inr c
       \<and> (''skills/'' @ s @ ''/'' @ rel_posix root q, \<lparr>rf_content = c, rf_mode = 420\<rparr>) \<in> set t)"
  using render_tree_Inr [OF assms] by blast

theorem rendered_tree_complete_witness: "wf_tree smp_omp_tree \<and> sorted (keys smp_omp_tree)"
  using rendered_tree_complete [OF smp_render_omp] by blast

text \<open>Two rendered trees with the same tree hash are the same tree, unless the hash function
  collides on two of their file contents or on the two record documents.\<close>

theorem tree_hash_identifies:
  assumes "wf_tree t" and "wf_tree u" and "sorted (keys t)" and "sorted (keys u)"
    and "tree_hash H t = tree_hash H u"
  shows "t = u \<or> tree_clash H t u \<or> clash H (canonical_json (tree_records H t)) (canonical_json (tree_records H u))"
  using assms by (rule tree_hash_same)

definition smp_tree :: rtree where
  "smp_tree = [(''a'', plain_file ''x'')]"

definition smp_tree2 :: rtree where
  "smp_tree2 = [(''a'', plain_file ''yy'')]"

theorem tree_hash_identifies_witness:
  "tree_hash (smp_host\<lparr>sha256 := (\<lambda>s. s)\<rparr>) smp_tree \<noteq> tree_hash (smp_host\<lparr>sha256 := (\<lambda>s. s)\<rparr>) smp_tree2"
proof
  assume eq: "tree_hash (smp_host\<lparr>sha256 := (\<lambda>s. s)\<rparr>) smp_tree = tree_hash (smp_host\<lparr>sha256 := (\<lambda>s. s)\<rparr>) smp_tree2"
  have part: "''a'' = join ''/'' [''a''] \<and> safe_part ''a''" by (simp add: safe_part_def)
  have wf: "wf_tree [(''a'', plain_file c)]" for c
    using part by (auto simp: wf_tree_def plain_file_def intro!: exI [of _ "[''a'']"])
  from tree_hash_identifies [OF _ _ _ _ eq] wf show False
    by (auto simp: smp_tree_def smp_tree2_def tree_clash_def clash_def plain_file_def)
qed

section \<open>Writing\<close>

text \<open>C23. Atomic replacement: in every state the file system goes through, the target holds either
  what it held before or the complete new content with the requested mode, and nothing but the
  target and the temporary file changes.\<close>

theorem atomic_write_never_partial:
  assumes "S \<in> set (write_states H tmp target content mode F)" and "tmp \<noteq> target"
  shows "(node_at S target = node_at F target
       \<or> (\<exists>m. node_at S target = Some (NFile m content) \<and> st_mode m = mode))
     \<and> (\<forall>q. q \<noteq> target \<longrightarrow> q \<noteq> tmp \<longrightarrow> node_at S q = node_at F q)"
  using write_states_atomic [OF assms] by blast

theorem atomic_write_never_partial_witness:
  "node_at (write_states smp_host [''w'', ''t''] [''w'', ''AGENTS.md''] ''new'' 420 smp_fs ! 2) [''w'', ''AGENTS.md'']
     = Some (NFile (smp_meta 420) ''x'')"
  using atomic_write_never_partial [of "write_states smp_host [''w'', ''t''] [''w'', ''AGENTS.md''] ''new'' 420 smp_fs ! 2"
      smp_host "[''w'', ''t'']" "[''w'', ''AGENTS.md'']" "''new''" 420 smp_fs]
  by (simp add: write_states_def Let_def smp_nodes)

text \<open>\<open>_atomic_write\<close> ends with the new content in place, or, when it fails at any step, with the
  target as it was; the temporary file is gone either way.\<close>

theorem atomic_write_outcome:
  assumes "atomic_write H io p content mode F = (r, F')" and "mkdirs H 493 [] (parent p) F = Inr (d, F1)"
  shows "node_at F' (d @ [name_of p]) = (case r of
       Inr _ \<Rightarrow> Some (NFile (new_meta H F1 mode) content)
     | Inl _ \<Rightarrow> node_at F1 (d @ [name_of p]))
   \<and> node_at F' (d @ [temp_name io (name_of p)]) = None"
  using atomic_write_result [OF assms] by (auto split: sum.split)

theorem atomic_write_outcome_witness:
  "\<exists>e F'. atomic_write smp_host (smp_io (Some 1)) [''w'', ''AGENTS.md''] ''new'' 420 smp_fs = (Inl e, F')
     \<and> node_at F' [''w'', ''AGENTS.md''] = Some (NFile (smp_meta 420) ''x'')"
proof -
  have m: "mkdirs smp_host 493 [] (parent [''w'', ''AGENTS.md'']) smp_fs = Inr ([''w''], smp_fs)"
    by (simp add: parent_def smp_fs_simps)
  obtain F' where a: "atomic_write smp_host (smp_io (Some 1)) [''w'', ''AGENTS.md''] ''new'' 420 smp_fs = (Inl (OSError ''atomic write''), F')"
    by (simp add: atomic_write_def m write_fails_def smp_io_def Let_def)
  show ?thesis using atomic_write_outcome [OF a m] a by (simp add: name_of_def smp_nodes)
qed

text \<open>A document that \<open>_atomic_write\<close> puts into an existing plain directory is what \<open>_strict_json\<close>
  reads from that path afterwards, with the requested mode.\<close>

theorem written_document_reads_back:
  assumes "write_json H io p v mode F = (Inr (), F')" and "dirs F (parent p)" and "p \<noteq> []"
    and "name_of p \<noteq> ''..''" and "node_at F (parent p @ [temp_name io (name_of p)]) = None"
    and "plain (untuple v)" and "utf8_valid (canonical_json v)"
  shows "strict_json F' p = Inr (canon (untuple v))
    \<and> (\<exists>m. node_at F' p = Some (NFile m (canonical_json v)) \<and> st_mode m = mode)"
  using write_json_read [OF assms] by blast

theorem written_document_reads_back_witness:
  "\<exists>F'. write_json smp_host (smp_io None) [''w'', ''.cap'', ''lock.json''] (VDict [(''b'', VInt 1), (''a'', VNone)]) 384 smp_fs = (Inr (), F')
     \<and> strict_json F' [''w'', ''.cap'', ''lock.json''] = Inr (VDict [(''a'', VNone), (''b'', VInt 1)])"
proof -
  let ?v = "VDict [(''b'', VInt 1), (''a'', VNone)]"
  obtain F' where w: "write_json smp_host (smp_io None) [''w'', ''.cap'', ''lock.json''] ?v 384 smp_fs = (Inr (), F')"
    using smp_writes by blast
  have "utf8_valid (canonical_json ?v)" by (rule utf8_canonical) (simp add: byte_def)
  with written_document_reads_back [OF w] w show ?thesis
    using smp_dirs smp_no_temp by (auto simp: parent_def name_of_def temp_name_def smp_io_def)
qed

end
