(* ===== verification/SampleContext.thy ===== *)
theory SampleContext
  imports Samples
begin

text \<open>
  The sample host has an empty real home, an approved machine context and a binding for its
  role; this theory evaluates the gates of the engine on them. It models no code.
\<close>

section \<open>An empty home\<close>

lemma home_candidate_parts:
  "list_all (\<lambda>r. parse_parts r \<noteq> [] \<and> hd (parse_parts r) \<noteq> ''..'') home_candidates"
  by code_simp

definition empty_home :: "fs \<Rightarrow> string \<Rightarrow> bool" where
  "empty_home F h \<longleftrightarrow> (\<exists>m. node_at F [h] = Some (NDir m)) \<and> h \<noteq> ''..'' \<and> (\<forall>x. node_at F [h, x] = None)"

lemma empty_home_lstat:
  assumes "empty_home F h" and "x \<noteq> ''..''"
  shows "lstat F (h # x # ps) = None" and "stat F (h # x # ps) = None"
proof -
  have w: "resolve F (h # x # qs) = None" for qs
    using assms by (auto simp: resolve_def empty_home_def)
  moreover have "resolve F [h] = Some [h]" using assms(1) by (auto simp: resolve_def empty_home_def)
  ultimately show "stat F (h # x # ps) = None" "lstat F (h # x # ps) = None"
    using assms by (auto simp: stat_def lstat_def empty_home_def)
qed

lemma empty_home_discovered:
  assumes "empty_home F h"
  shows "discover_real_home H F [h] = Inr (context_doc H [h] [])"
proof -
  have "home_entry H F [h] codex qoder r = Inr []" if "r \<in> set home_candidates" for codex qoder r
  proof -
    obtain x ps where "parse_parts r = x # ps" "x \<noteq> ''..''"
      using home_candidate_parts \<open>r \<in> set home_candidates\<close> by (cases "parse_parts r") (auto simp: list_all_iff)
    then show ?thesis using empty_home_lstat [OF assms] by (simp add: home_entry_def lexists_def Let_def)
  qed
  then have "mapE (home_entry H F [h] codex qoder) cs = Inr (map (\<lambda>_. []) cs)" if "set cs \<subseteq> set home_candidates" for codex qoder cs
    using that by (induction cs) auto
  then have "mapE (home_entry H F [h] codex qoder) home_candidates = Inr (map (\<lambda>_. []) home_candidates)" for codex qoder
    by blast
  then have "bindE (mapE (home_entry H F [h] codex qoder) home_candidates) (\<lambda>es. Inr (concat es)) = Inr []" for codex qoder
    by simp
  moreover have "is_dir F [h]" "resolve F [h] = Some [h]"
    using assms by (auto simp: resolve_def empty_home_def is_dir_def stat_def)
  ultimately show ?thesis
    using empty_home_lstat [OF assms]
    by (simp add: discover_real_home_def home_entries_def read_codex_config_def read_qoder_config_def is_file_def Let_def)
qed

section \<open>The approved context\<close>

lemma smp_empty_home: "empty_home smp_fs ''h''"
  by (simp add: empty_home_def node_at_def smp_fs_def smp_file_def smp_dir_def)

text \<open>A file system that still has the context and the home as the sample has them.\<close>

definition smp_base :: "fs \<Rightarrow> bool" where
  "smp_base F \<longleftrightarrow> empty_home F ''h'' \<and> (\<forall>p \<in> {[''m.json''], [''n.json'']}. node_at F p = node_at smp_fs p)"

lemma smp_base_fs: "smp_base smp_fs"
  by (simp add: smp_base_def smp_empty_home)

lemma smp_json_nodes:
  "node_at smp_fs [''m.json''] = Some (NFile (smp_meta 420) (canonical_json (VDict smp_context)))"
  "node_at smp_fs [''n.json''] = Some (NFile (smp_meta 420) (canonical_json (VDict smp_pin)))"
  "node_at smp_fs [''b''] = Some (NDir (smp_meta 493))"
  "node_at smp_fs [''b'', ''a.binding.json''] = Some (NFile (smp_meta 420) (canonical_json smp_binding))"
  "node_at smp_fs [''w'', ''.cap'', ''lock.json''] = Some (NFile (smp_meta 420) (canonical_json smp_lock))"
  by (simp_all add: node_at_def smp_fs_def smp_file_def smp_dir_def)

lemma smp_json_docs:
  "loads_strict (canonical_json (VDict smp_context)) = Inr (canon (VDict smp_context))"
  "loads_strict (canonical_json (VDict smp_pin)) = Inr (canon (VDict smp_pin))"
  "loads_strict (canonical_json smp_binding) = Inr (canon smp_binding)"
  by (rule loads_strict_canonical, code_simp)+

definition smp_context_read :: dict where
  "smp_context_read = the (as_dict (canon (VDict smp_context)))"

definition smp_pin_read :: dict where
  "smp_pin_read = the (as_dict (canon (VDict smp_pin)))"

lemma smp_docs_read:
  "canon (VDict smp_context) = VDict smp_context_read" "canon (VDict smp_pin) = VDict smp_pin_read"
  "check_base_manifest smp_host (VDict smp_context_read) = Inr smp_context_read"
  "check_base_pin (VDict smp_pin_read) = Inr smp_pin_read"
  "py_eq (get smp_pin_read ''approved_digest'') (get smp_context_read ''effective_digest'')"
  "get smp_context_read ''home'' = VStr ''/h''" "list_field smp_context_read ''entries'' = []"
  "list_field smp_context ''entries'' = []"
  "utf8_valid (canonical_json (VDict smp_context))" "utf8_valid (canonical_json (VDict smp_pin))"
  "utf8_valid (canonical_json smp_binding)"
  by (code_simp+)[8] (rule utf8_canonical, code_simp)+

lemma smp_path_of: "path_of_str smp_host ''/m.json'' = Inr [''m.json'']" "path_of_str smp_host ''/n.json'' = Inr [''n.json'']"
  "path_of_str smp_host ''/h'' = Inr [''h'']" "path_of_str smp_host ''/b'' = Inr [''b'']"
  by code_simp+

lemma root_file: "node_at F [x] = Some nd \<Longrightarrow> is_file_node nd \<Longrightarrow> x \<noteq> ''..'' \<Longrightarrow> resolve F [x] = Some [x]"
  by (cases nd) (auto simp: resolve_def)

lemma smp_context_loads:
  assumes "smp_base F"
  shows "load_base_manifest smp_host F ''/m.json'' = Inr smp_context_read"
    and "load_base_pin smp_host F ''/n.json'' = Inr smp_pin_read"
proof -
  have c: "canonical F [''m.json'']" "canonical F [''n.json'']"
    using assms canonical_snoc [of F "[]"] by (auto simp: smp_base_def smp_json_nodes)
  have doc: "plain (untuple (VDict smp_context))" "untuple (VDict smp_context) = VDict smp_context"
    "plain (untuple (VDict smp_pin))" "untuple (VDict smp_pin) = VDict smp_pin" by code_simp+
  have n: "node_at F [''m.json''] = Some (NFile (smp_meta 420) (canonical_json (VDict smp_context)))"
    "node_at F [''n.json''] = Some (NFile (smp_meta 420) (canonical_json (VDict smp_pin)))"
    using assms by (simp_all add: smp_base_def smp_json_nodes)
  have "strict_json F [''m.json''] = Inr (VDict smp_context_read)" "strict_json F [''n.json''] = Inr (VDict smp_pin_read)"
    using strict_json_file [OF c(1) n(1) doc(1) smp_docs_read(9)]
      strict_json_file [OF c(2) n(2) doc(3) smp_docs_read(10)]
    by (simp_all only: doc smp_docs_read)
  then show "load_base_manifest smp_host F ''/m.json'' = Inr smp_context_read"
    "load_base_pin smp_host F ''/n.json'' = Inr smp_pin_read"
    using assms smp_docs_read
    by (auto simp: load_base_manifest_def load_base_pin_def resolve_str_def smp_path_of smp_base_def root_file smp_json_nodes)
qed

lemma smp_base_state:
  assumes "smp_base F"
  shows "base_state smp_host F ''/m.json'' ''/n.json'' = Inr (smp_context_read, [], [])"
proof -
  have "base_diff [] [] = ([], [])" by code_simp
  then show ?thesis
    using smp_context_loads [OF assms] empty_home_discovered [of F "''h''" smp_host] assms
    by (simp add: base_state_def smp_docs_read smp_path_of path_str_def smp_base_def smp_context_def [symmetric])
qed

section \<open>The project passes its gates\<close>

lemma smp_pollution: "check_pollution_layers smp_fs smp_project = Inr ()"
proof -
  have "managed_publication_paths smp_fs [''w''] = Inr []"
  proof -
    have "node_at smp_fs [''w'', ''CLAUDE.md''] = None" "node_at smp_fs [''w'', ''.agents''] = None"
      "node_at smp_fs [''w'', ''.claude-plugin''] = None"
      by (simp_all add: node_at_def smp_fs_def smp_file_def smp_dir_def)
    then show ?thesis
      by (simp add: managed_publication_paths_def claude_entry_paths_def is_file_def stat_def resolve_def smp_nodes)
  qed
  moreover have "\<not> is_violation [] (drop 1 q)" if "q \<in> set (rglob smp_fs [''w''])" for q
  proof -
    have r: "resolve smp_fs [''w''] = Some [''w'']" by (simp add: smp_fs_simps)
    have "set (below smp_fs [''w'']) \<subseteq> set [[''.cap''], [''AGENTS.md''], [''.cap'', ''d''], [''.cap'', ''r''], [''.cap'', ''p''],
        [''.cap'', ''manifest.toml''], [''.cap'', ''capabilities''], [''.cap'', ''capabilities'', ''skills''],
        [''.cap'', ''capabilities'', ''skills'', ''s''], [''.cap'', ''capabilities'', ''skills'', ''s'', ''SKILL.md''],
        [''.cap'', ''lock.json'']]"
      by (simp add: below_def smp_fs_def smp_file_def smp_dir_def keys_def strict_prefix_def)
    moreover have "drop 1 q \<in> set (below smp_fs [''w''])" using that r by (auto simp: rglob_def)
    moreover have "\<forall>p \<in> set [[''.cap''], [''AGENTS.md''], [''.cap'', ''d''], [''.cap'', ''r''], [''.cap'', ''p''],
        [''.cap'', ''manifest.toml''], [''.cap'', ''capabilities''], [''.cap'', ''capabilities'', ''skills''],
        [''.cap'', ''capabilities'', ''skills'', ''s''], [''.cap'', ''capabilities'', ''skills'', ''s'', ''SKILL.md''],
        [''.cap'', ''lock.json'']]. \<not> is_violation [] p" by code_simp
    ultimately show ?thesis by blast
  qed
  ultimately have "check_project_pollution smp_fs [''w''] = Inr ()"
    unfolding check_project_pollution_Inr by (intro exI [of _ "[]"]) simp
  then show ?thesis by (simp add: check_pollution_layers_def smp_project_simps)
qed

lemma smp_lock_verified: "verify_lock smp_fs smp_project smp_lock = Inr ()"
proof -
  have p: "lock_path smp_project = [''w'', ''.cap'', ''lock.json'']" by (simp add: lock_path_def smp_project_simps)
  have c: "canonical smp_fs [''w'', ''.cap'', ''lock.json'']"
    using canonical_snoc [of smp_fs "[''w'', ''.cap'']"] smp_dirs by (simp add: smp_json_nodes)
  have "strict_json smp_fs [''w'', ''.cap'', ''lock.json''] = Inr (canon (untuple smp_lock))"
    using strict_json_file [OF c smp_json_nodes(5)] desired_lock_writable [OF smp_desired_lock] smp_lock_utf8 by blast
  moreover have "\<not> is_symlink smp_fs [''w'', ''.cap'', ''lock.json'']" "is_file smp_fs [''w'', ''.cap'', ''lock.json'']"
    using canonical_lstat [OF c] canonical_stat [OF c] by (simp_all add: is_symlink_def is_file_def smp_json_nodes)
  ultimately show ?thesis
    using desired_lock_equal_iff [OF smp_desired_lock] by (simp add: verify_lock_def p smp_project_simps)
qed

lemma smp_checked: "checked_project smp_host smp_fs [''w''] None = Inr (smp_project, smp_lock)"
  by (simp add: checked_project_def smp_loads smp_pollution smp_desired_lock smp_lock_verified verify_evidence_def
      smp_project_simps)

definition smp_assembly :: string where
  "smp_assembly = digest smp_host (VDict smp_layer)"

lemma smp_select: "select_profile smp_project ''a'' = Inr smp_profile"
  by (simp add: select_profile_def smp_project_simps)

lemma smp_layer_ops: "validate_base_layer_operations smp_project smp_profile smp_context_read = Inr ()"
  by code_simp

lemma smp_layer_digest: "layer_digest_of smp_lock ''a'' = Inr smp_assembly"
  by code_simp

lemma smp_asset_gate:
  assumes "smp_base F"
  shows "role_asset_gate smp_host F smp_project smp_profile smp_context_read = Inr ()"
proof -
  have "as_capabilities (asset_inventory smp_host smp_context) = []" "as_instructions (asset_inventory smp_host smp_context) = []"
    by (simp_all add: asset_inventory_def smp_docs_read Let_def)
  moreover have "discover_asset_inventory smp_host F [''h''] = Inr (asset_inventory smp_host smp_context)"
    using empty_home_discovered [of F "''h''" smp_host] assms
    by (simp add: discover_asset_inventory_def smp_base_def smp_context_def [symmetric])
  ultimately show ?thesis
    by (simp add: role_asset_gate_def smp_docs_read path_str_def smp_path_of validate_external_imports_def
        smp_project_simps classify_asset_inventory_def classify_def enforce_asset_closure_def Let_def)
qed

lemma smp_bind_gate: "bind_gate smp_host smp_fs [''w''] None ''a'' ''/m.json'' ''/n.json'' = Inr (smp_profile,
    binding_doc smp_host smp_project ''a'' (get smp_context_read ''effective_digest'') smp_assembly)"
proof -
  have "p_name smp_profile = ''a''" by (simp add: smp_profile_def)
  then show ?thesis
    by (simp add: bind_gate_def smp_checked smp_select profile_uses_real_home_def smp_base_state [OF smp_base_fs] smp_layer_ops
      warn_out_of_scope_base_mcps_def smp_context_loads [OF smp_base_fs] smp_asset_gate [OF smp_base_fs]
      smp_layer_digest cong: bindE_weak)
qed

lemma smp_environment:
  "check_profile_environment smp_host smp_fs smp_project smp_profile smp_lock
     \<lparr>ba_manifest = Some ''/m.json'', ba_pin = Some ''/n.json'', ba_dir = Some ''/b''\<rparr> False = Inr []"
proof -
  have p: "p_name smp_profile = ''a''" "binding_name smp_profile = ''a.binding.json''" by (simp_all add: smp_profile_def binding_name_def)
  have c: "canonical smp_fs [''b'', ''a.binding.json'']"
    using canonical_snoc [of smp_fs "[''b'']"] by (simp add: smp_json_nodes dirs_def prefix_Cons)
  have u: "plain (untuple smp_binding)" "untuple smp_binding = smp_binding" by code_simp+
  have "strict_json smp_fs [''b'', ''a.binding.json''] = Inr (canon smp_binding)"
    using strict_json_file [OF c smp_json_nodes(4) u(1) smp_docs_read(11)] by (simp add: u(2))
  moreover have "smp_binding = binding_doc smp_host smp_project ''a'' (get smp_context_read ''effective_digest'') smp_assembly"
    by code_simp
  moreover have "resolve smp_fs [''b''] = Some [''b'']" by (simp add: resolve_def smp_json_nodes)
  ultimately have "verify_profile_binding smp_host smp_fs smp_project smp_profile smp_lock ''/m.json'' ''/n.json'' ''/b'' = Inr ([], [])"
    by (simp add: verify_profile_binding_def smp_base_state [OF smp_base_fs] smp_layer_ops resolve_str_def smp_path_of p
        smp_layer_digest cong: bindE_weak)
  then show ?thesis
    by (simp add: check_profile_environment_def profile_uses_real_home_def smp_context_loads [OF smp_base_fs]
        smp_asset_gate [OF smp_base_fs] cong: bindE_weak)
qed

end
