(* ===== verification/BindProperties.thy ===== *)
theory BindProperties
  imports SampleContext
begin

text \<open>
  What a machine binding authorises: the drift report between the approved and the live real
  home, the gate every command passes before it uses a role, the round trip from binding a role
  to verifying the binding, and the names an operation of a role may refer to.
\<close>

section \<open>Drift\<close>

text \<open>The drift report of \<open>_base_diff\<close> is exact: a path is reported exactly when its entries in the
  approved manifest and in the live home differ, as active drift exactly when one of the two is
  active; both lists are sorted and they are disjoint.\<close>

theorem base_diff_exact:
  "(p \<in> set (fst (base_diff locked live)) \<longleftrightarrow> \<not> same_entry (map_of (entries_by_path locked) p) (map_of (entries_by_path live) p)
       \<and> (active_in (map_of (entries_by_path locked) p) \<or> active_in (map_of (entries_by_path live) p)))
   \<and> (p \<in> set (snd (base_diff locked live)) \<longleftrightarrow> \<not> same_entry (map_of (entries_by_path locked) p) (map_of (entries_by_path live) p)
       \<and> \<not> (active_in (map_of (entries_by_path locked) p) \<or> active_in (map_of (entries_by_path live) p)))
   \<and> sorted (fst (base_diff locked live)) \<and> sorted (snd (base_diff locked live))
   \<and> set (fst (base_diff locked live)) \<inter> set (snd (base_diff locked live)) = {}"
  using base_diff_parts [of locked live "fst (base_diff locked live)" "snd (base_diff locked live)"] by auto

section \<open>The gate of a role\<close>



section \<open>Binding and verifying\<close>

text \<open>C30. What \<open>bind_profile\<close> writes, \<open>_verify_profile_binding\<close> accepts with no active drift: for a project
  that passes its own checks, when the binding goes into an existing directory reached without
  links and the approved base is not itself touched by the write.\<close>

theorem bound_role_verifies:
  assumes b: "bind_profile H io root ov nm m n bdir F = (Inr payload, F')"
    and c: "checked_project H F root ov = Inr (proj, desired)" and s: "select_profile proj nm = Inr P"
    and d: "path_of_str H bdir = Inr dir" "dirs F dir" "node_at F (dir @ [temp_name io (binding_name P)]) = None"
    and u: "utf8_valid (canonical_json payload)" and k: "base_state H F' m n = base_state H F m n"
  shows "\<exists>quiet. verify_profile_binding H F' proj P desired m n bdir = Inr ([], quiet)"
proof -
  obtain Q where g: "bind_gate H F root ov nm m n = Inr (Q, payload)"
    and w: "write_json H io (dir @ [binding_name Q]) payload 420 F = (Inr (), F')"
    using bind_profile_Inr [OF b d(1,2)] .
  obtain proj' where "checked_project H F root ov = Inr (proj', desired)" "select_profile proj' nm = Inr Q"
    using bind_gate_Inr [OF g] c by (metis Inr_inject prod.inject)
  then have Q: "Q = P" using c s by simp
  have n: "binding_name P \<noteq> ''..''" by (simp add: binding_name_def append_eq_Cons_conv Cons_eq_append_conv)
  have "canonical F' (dir @ [binding_name P])"
    using write_json_read(2) [OF w] d(2,3) u n bind_gate_payload [OF g] by (simp add: Q parent_def name_of_def)
  then have "dirs F' dir" using canonical_parent by blast
  then have "resolve_str H F' bdir = Inr dir"
    by (simp add: resolve_str_def d(1) canonical_resolve dirs_canonical)
  then show ?thesis using bound_verifies [OF g [unfolded Q] c w [unfolded Q] d(2,3) n u k] by blast
qed

theorem bound_role_verifies_witness:
  "\<exists>payload F'. bind_profile smp_host (smp_io None) [''w''] None ''a'' ''/m.json'' ''/n.json'' ''/b'' smp_fs = (Inr payload, F')
     \<and> (\<exists>quiet. verify_profile_binding smp_host F' smp_project smp_profile smp_lock ''/m.json'' ''/n.json'' ''/b'' = Inr ([], quiet))"
proof -
  let ?payload = "binding_doc smp_host smp_project ''a'' (get smp_context_read ''effective_digest'') smp_assembly"
  have n: "binding_name smp_profile = ''a.binding.json''" by (simp add: smp_profile_def binding_name_def)
  have d: "dirs smp_fs [''b'']" by (simp add: dirs_def prefix_Cons smp_json_nodes)
  have mk: "mkdirs smp_host 493 [] [''b''] smp_fs = Inr ([''b''], smp_fs)" "mkdirs smp_host 448 [] [''b''] smp_fs = Inr ([''b''], smp_fs)"
    using mkdirs_dirs [of smp_fs "[]" "[''b'']"] d by simp_all
  obtain F' where w: "write_json smp_host (smp_io None) [''b'', ''a.binding.json''] ?payload 420 smp_fs = (Inr (), F')"
    using mk by (simp add: write_json_def atomic_write_def parent_def name_of_def write_fails_def smp_io_def Let_def smp_json_nodes)
  have b: "bind_profile smp_host (smp_io None) [''w''] None ''a'' ''/m.json'' ''/n.json'' ''/b'' smp_fs = (Inr ?payload, F')"
    using w mk by (simp add: bind_profile_def bindS_def readS_def returnS_def smp_bind_gate smp_path_of make_private_dirs_def
        make_dirs_def parent_def n)
  have "node_at F' q = node_at smp_fs q" if "q \<noteq> [''b'', ''a.binding.json'']" "q \<noteq> [''b'', ''.a.binding.json.tmp'']" for q
    using atomic_write_result(3) [of smp_host "smp_io None" "[''b'', ''a.binding.json'']", OF w [unfolded write_json_def]] mk that
    by (simp add: parent_def name_of_def temp_name_def smp_io_def)
  then have k: "smp_base F'" using smp_base_fs by (auto simp: smp_base_def empty_home_def)
  have "node_at smp_fs [''b'', ''.a.binding.json.tmp''] = None"
    by (simp add: node_at_def smp_fs_def smp_file_def smp_dir_def)
  then have t: "node_at smp_fs ([''b''] @ [temp_name (smp_io None) (binding_name smp_profile)]) = None"
    by (simp add: n temp_name_def smp_io_def)
  have u: "utf8_valid (canonical_json ?payload)" by (rule utf8_canonical) code_simp
  show ?thesis
    using bound_role_verifies [OF b smp_checked smp_select smp_path_of(4) d t u] b
      smp_base_state [OF k] smp_base_state [OF smp_base_fs] by auto
qed

section \<open>Operations against the machine context\<close>

text \<open>\<open>_validate_base_layer_operations\<close> resolves the operations of a role against the names of the
  machine context alone: the layer of project defaults in its chain is skipped, so a role that
  passes denies and overrides only names the active machine context already holds, and allows
  only names it does not hold.\<close>

theorem operations_need_machine_names:
  assumes "validate_base_layer_operations proj P manifest = Inr ()"
    and "p_chain P = [PROJECT_DEFAULTS_NAME, p_name P]" "p_name P \<noteq> REAL_HOME_PROFILE"
    and "map_of (pr_profiles proj) PROJECT_DEFAULTS_NAME = None"
    and "map_of (pr_profiles proj) (p_name P) = Some P"
    and "field \<in> set profile_fields" "map_of (p_operations P) field = Some ops"
    and "base_names (list_field manifest ''entries'') field = Inr names"
  shows "set (allow ops) \<inter> set names = {} \<and> set (deny ops) \<subseteq> set names \<and> set (override ops) \<subseteq> set names"
  using assms by (rule bind_requires_base)

definition smp_denying :: profile where
  "smp_denying = smp_profile\<lparr>p_operations := [(''skills'', \<lparr>allow = [], deny = [''s''], override = []\<rparr>), (''mcps'', smp_no_ops),
     (''hooks'', smp_no_ops), (''plugins'', smp_no_ops)]\<rparr>"

text \<open>A role that denies a Skill of the project defaults cannot be bound to an empty machine context.\<close>

theorem operations_need_machine_names_witness:
  "validate_base_layer_operations (smp_project\<lparr>pr_profiles := [(''a'', smp_denying)]\<rparr>) smp_denying smp_context \<noteq> Inr ()"
proof
  assume v: "validate_base_layer_operations (smp_project\<lparr>pr_profiles := [(''a'', smp_denying)]\<rparr>) smp_denying smp_context = Inr ()"
  have "base_names (list_field smp_context ''entries'') ''skills'' = Inr []" by code_simp
  from operations_need_machine_names [OF v _ _ _ _ _ _ this] show False
    by (simp add: smp_denying_def smp_profile_def PROJECT_DEFAULTS_NAME_def REAL_HOME_PROFILE_def profile_fields_def)
qed

end
