(* ===== verification/RuntimeProperties.thy ===== *)
theory RuntimeProperties
  imports SampleContext
begin

text \<open>
  What a command leaves outside the project: output directories that avoid the project and the
  native capability roots, trees published whole, and receipts that are written through one
  reserved object whatever other processes do in between.
\<close>

text \<open>A file system of four directories with an identity each.\<close>

definition out_dir :: "path \<Rightarrow> nat \<Rightarrow> path \<times> node" where
  "out_dir p ino = (p, NDir \<lparr>st_mode = 493, st_uid = 1000, st_dev = 1, st_ino = ino, st_nlink = 1\<rparr>)"

definition out_fs :: fs where
  "out_fs = \<lparr>nodes = [out_dir [] 1, out_dir [''w''] 2, out_dir [''h''] 3, out_dir [''b''] 4], fresh_ino = 5\<rparr>"

definition out_stable :: stable_directory where
  "out_stable = \<lparr>sd_path = [''b''], sd_parts = [''b''], sd_identities = [(1, 1), (1, 4)]\<rparr>"

lemma out_nodes: "node_at out_fs q = (if q = [] then Some (snd (out_dir [] 1)) else if q = [''w''] then Some (snd (out_dir [''w''] 2))
    else if q = [''h''] then Some (snd (out_dir [''h''] 3)) else if q = [''b''] then Some (snd (out_dir [''b''] 4)) else None)"
  by (simp add: node_at_def out_fs_def out_dir_def)

lemma out_dirs: "dirs out_fs [''b'']" "dirs out_fs [''w'']"
  by (auto simp: dirs_def prefix_Cons out_nodes out_dir_def)

lemma out_opened: "open_stable_directory out_fs [''b''] = Inr out_stable"
  "require_external_directory smp_host out_fs smp_project out_stable = Inr ()"
  by code_simp+

section \<open>Output directories\<close>

text \<open>A directory that \<open>_require_external_directory\<close> accepts lies outside the project and outside every
  native capability root of the real home, wherever its path leads.\<close>

theorem output_outside_project:
  assumes "require_external_directory H F proj d = Inr u" and "open_stable_directory F p = Inr d"
    and "''..'' \<notin> set (sd_path d)" and "dirs F (pr_root proj)"
  shows "\<not> prefix (pr_root proj) (sd_path d)
     \<and> (\<forall>r \<in> set GLOBAL_NATIVE_ROOTS. dirs F (home_dir H @ parse_parts r) \<longrightarrow> exists_at F (home_dir H @ parse_parts r) \<longrightarrow>
          \<not> prefix (home_dir H @ parse_parts r) (sd_path d))"
  using external_outside_project [OF assms] external_outside_native [OF assms(1-3)] by blast

theorem output_outside_project_witness:
  "\<not> prefix (pr_root smp_project) (sd_path out_stable)"
  using output_outside_project [OF out_opened(2,1)] out_dirs by (simp add: out_stable_def smp_project_simps)

section \<open>Publication\<close>



section \<open>Receipts\<close>

text \<open>\<open>_write_all\<close> writes a prefix of its content whatever the calls accept, and reports success
  exactly when that prefix is the whole content.\<close>

theorem write_all_exact:
  "prefix (fst (write_all os_write [] content)) content
   \<and> (snd (write_all os_write [] content) = Inr () \<longleftrightarrow> fst (write_all os_write [] content) = content)"
  using write_all_steps [where w = os_write and out = "[]" and c = content]
  by (auto split: prod.splits)

text \<open>C32. A receipt that \<open>_commit_receipt\<close> reports as committed is at its path as the reserved object, a
  regular file with one link whose content is exactly what was to be written.\<close>

theorem committed_receipt_holds:
  assumes "commit_receipt os_write r content S = (Inr u, S')"
  shows "\<exists>m. lstat (rs_fs S') (rr_path r) = Some (NFile m content)
     \<and> (st_dev m, st_ino m) = (rr_device r, rr_inode r) \<and> st_nlink m = 1"
  using commit_receipt_Inr [OF assms] by (simp add: rr_ident_def)

definition out_state :: rstate where
  "out_state = \<lparr>rs_fs = out_fs, rs_open = []\<rparr>"

definition out_receipt :: receipt_reservation where
  "out_receipt = \<lparr>rr_path = [''b'', ''r''], rr_descriptor = 3, rr_parent_device = 1, rr_parent_inode = 4,
     rr_device = 1, rr_inode = 5\<rparr>"

definition out_reserved :: rstate where
  "out_reserved = snd (reserve_receipt smp_host smp_project [''b'', ''r''] None out_state)"

lemma out_reserves:
  "reserve_receipt smp_host smp_project [''b'', ''r''] None out_state = (Inr out_receipt, out_reserved)"
  unfolding out_reserved_def by code_simp

lemma out_commits:
  "fst (commit_receipt (\<lambda>s. 1) out_receipt ''ok'' out_reserved) = Inr ()"
  by code_simp

theorem committed_receipt_holds_witness:
  "\<exists>m. lstat (rs_fs (snd (commit_receipt (\<lambda>s. 1) out_receipt ''ok'' out_reserved))) [''b'', ''r''] = Some (NFile m ''ok'')"
proof -
  have "commit_receipt (\<lambda>s. 1) out_receipt ''ok'' out_reserved = (Inr (), snd (commit_receipt (\<lambda>s. 1) out_receipt ''ok'' out_reserved))"
    using out_commits by (simp add: prod_eq_iff)
  from committed_receipt_holds [OF this] show ?thesis by (auto simp: out_receipt_def)
qed

text \<open>Whatever other processes do to the file system, the descriptor of a reservation is open exactly until
  the reservation is closed, no other descriptor is opened or closed, and the release that closes
  it never fails.\<close>

theorem receipt_descriptor_balanced:
  assumes "reserve_receipt H proj p dir S = (Inr r, S0)" and "p \<noteq> []"
    and "(receipt_moves os_write r content)\<^sup>*\<^sup>* (Running, S0) (ph, S')"
  shows "case ph of Closed b \<Rightarrow> rs_open S' = rs_open S
     | _ \<Rightarrow> rs_open S' = (rr_descriptor r, rr_ident r) # rs_open S
          \<and> (\<forall>remove. \<exists>S''. release_receipt r remove S' = (Inr (), S'') \<and> rs_open S'' = rs_open S)"
proof -
  obtain ident where c: "create_receipt H p ident S = (Inr r, S0)" using reserve_receipt_Inr [OF assms(1)] by blast
  have new: "rr_descriptor r \<notin> set (keys (rs_open S))" "descriptor_inv r (rs_open S) (Running, S0)"
    by (rule create_receipt_Inr [OF c assms(2)]; simp add: fresh_fd_new descriptor_inv_def)+
  then have "descriptor_inv r (rs_open S) (ph, S')" using receipts.reachable_inv [OF assms(3)] by blast
  then show ?thesis
    using dict_pop_absent [OF new(1)]
    by (auto simp: descriptor_inv_def release_receipt_def split: receipt_phase.splits)
qed

theorem receipt_descriptor_balanced_witness:
  "\<exists>S'. rs_open S' = [] \<and> (receipt_moves (\<lambda>s. 1) out_receipt ''ok'')\<^sup>*\<^sup>* (Running, out_reserved) (Closed False, S')"
proof -
  have "\<exists>S''. release_receipt out_receipt True out_reserved = (Inr (), S'')"
    using receipt_descriptor_balanced [OF out_reserves _ rtranclp.rtrancl_refl [of "receipt_moves (\<lambda>s. 1) out_receipt ''ok''"]]
    by simp blast
  then obtain S' where r: "release_receipt out_receipt True out_reserved = (Inr (), S')" by blast
  have "receipt_moves (\<lambda>s. 1) out_receipt ''ok'' (Running, out_reserved) (Failed, out_reserved)"
    unfolding receipt_moves_def by (rule exI, rule client_fails)
  moreover have "receipt_moves (\<lambda>s. 1) out_receipt ''ok'' (Failed, out_reserved) (Closed False, S')"
    unfolding receipt_moves_def by (rule exI, rule release_failed [OF r])
  ultimately have s: "(receipt_moves (\<lambda>s. 1) out_receipt ''ok'')\<^sup>*\<^sup>* (Running, out_reserved) (Closed False, S')"
    by (blast intro: rtranclp.rtrancl_into_rtrancl)
  moreover have "rs_open S' = rs_open out_state"
    using receipt_descriptor_balanced [OF out_reserves _ s] by simp
  ultimately show ?thesis by (auto simp: out_state_def)
qed

text \<open>C33. No step of the program itself touches an object other than the reserved one: after a reservation
  every entry that was there is still there, and a later step of the program changes or removes
  only entries that are the reserved object, even when another process has put something else
  under the receipt's name.\<close>

theorem receipt_foreign_untouched:
  assumes "reserve_receipt H proj p dir S = (Inr r, S0)" and "p \<noteq> []" and "last p \<noteq> ''..''"
    and "receipt_step os_write r content Own (ph, T) (ph', T')"
  shows "(\<forall>q nd. node_at (rs_fs S) q = Some nd \<longrightarrow> node_at (rs_fs S0) q = Some nd)
     \<and> keeps_others (rr_device r, rr_inode r) (rs_fs T) (rs_fs T')"
proof -
  obtain ident where c: "create_receipt H p ident S = (Inr r, S0)" using reserve_receipt_Inr [OF assms(1)] by blast
  obtain d where d: "resolve (rs_fs S) (parent p) = Some d" "lstat (rs_fs S) p = None" "rr_path r = p"
    "rs_fs S0 = put_file H (d @ [name_of p]) [] 384 (rs_fs S)"
    using create_receipt_Inr [OF c assms(2)] by metis
  have "node_at (rs_fs S) (d @ [name_of p]) = None"
    using d(1,2) assms(2,3) by (simp add: lstat_def parent_def name_of_def)
  then have "\<forall>q nd. node_at (rs_fs S) q = Some nd \<longrightarrow> node_at (rs_fs S0) q = Some nd" by (auto simp: d(4))
  moreover have "keeps_others (rr_ident r) (rs_fs T) (rs_fs T')"
    using assms(4) release_receipt_keeps [of r _ T _ T'] d(3) assms(2,3)
    by (auto dest: commit_receipt_keeps(1))
  ultimately show ?thesis by (simp add: rr_ident_def)
qed

theorem receipt_foreign_untouched_witness:
  "keeps_others (1, 5) (rs_fs out_reserved) (rs_fs (snd (commit_receipt (\<lambda>s. 1) out_receipt ''ok'' out_reserved)))"
proof -
  let ?S = "snd (commit_receipt (\<lambda>s. 1) out_receipt ''ok'' out_reserved)"
  have "commit_receipt (\<lambda>s. 1) out_receipt ''ok'' out_reserved = (Inr (), ?S)"
    using out_commits by (simp add: prod_eq_iff)
  then have "receipt_step (\<lambda>s. 1) out_receipt ''ok'' Own (Running, out_reserved) (Committed, ?S)" by (rule commit)
  from receipt_foreign_untouched [OF out_reserves _ _ this] show ?thesis by (simp add: out_receipt_def)
qed

end
