(* ===== verification/Credentials.thy ===== *)
theory Credentials
  imports Stable
begin

unbundle bit_operations_syntax

text \<open>
  Explicit credential sources: the checks on private directories, files and trees, and the
  parsers of the credential files. A private file may be refreshed while it is read, so a read
  is a function of what the operating system answers in each attempt; the private tree is read
  from one state of the file system. Hosts without \<open>geteuid\<close> express no ownership.
\<close>

section \<open>Private directories\<close>

definition expressible :: "host \<Rightarrow> bool" where
  "expressible H = (geteuid H \<noteq> None)"

definition credential_privacy_evidence :: "host \<Rightarrow> string" where
  "credential_privacy_evidence H = (if expressible H then ''checked'' else ''unknown'')"

definition owned :: "host \<Rightarrow> nat \<Rightarrow> bool" where
  "owned H uid = (\<not> expressible H \<or> geteuid H = Some uid)"

definition validate_private_directory :: "host \<Rightarrow> fs \<Rightarrow> stable_directory \<Rightarrow> unit res" where
  "validate_private_directory H F d =
     bindE (someE (OSError ''lstat'') (lstat F (sd_path d))) (\<lambda>nd.
     let m = node_meta nd in
     if \<not> is_dir_node nd \<or> is_link_component nd then Inl (invalid ''must be a directory'')
     else if \<not> expressible H then Inr ()
     else if \<not> owned H (st_uid m) then Inl (invalid ''must be owned by the current user'')
     else if st_mode m AND 63 \<noteq> 0 then Inl (invalid ''must not grant group or other access'')
     else if st_mode m AND 448 \<noteq> 448 then Inl (invalid ''must grant its owner read, write, and search'')
     else Inr ())"

section \<open>Private files\<close>

text \<open>One \<open>stat\<close> result, and what one attempt sees: the name before it is opened, the descriptor
  before and after reading, the bytes it delivers until end of file, and the name afterwards.
  \<open>None\<close> is an \<open>OSError\<close>.\<close>

record file_info =
  fi_regular :: bool
  fi_link :: bool
  fi_mode :: nat
  fi_uid :: nat
  fi_identity :: "nat \<times> nat"
  fi_nlink :: nat
  fi_size :: nat
  fi_mtime :: nat
  fi_ctime :: nat

record attempt =
  at_name :: "file_info option"
  at_before :: "file_info option"
  at_bytes :: string
  at_after :: "file_info option"
  at_live :: "file_info option"

definition check_private_info :: "host \<Rightarrow> bool \<Rightarrow> file_info \<Rightarrow> unit res" where
  "check_private_info H require_owner_write i =
     (if \<not> fi_regular i \<or> fi_nlink i \<noteq> 1 then Inl (invalid ''must be a regular file with one hard link'')
      else if \<not> owned H (fi_uid i) then Inl (invalid ''must be owned by the current user'')
      else if expressible H \<and> fi_mode i AND 63 \<noteq> 0 then Inl (invalid ''must not grant group or other access'')
      else raise_if (expressible H \<and> (fi_mode i AND 256 \<noteq> 256 \<or> require_owner_write \<and> fi_mode i AND 128 \<noteq> 128))
        (invalid ''must grant its owner access''))"

definition same_generation :: "file_info \<Rightarrow> file_info \<Rightarrow> file_info \<Rightarrow> bool" where
  "same_generation before after live =
     (fi_identity after = fi_identity before \<and> fi_identity live = fi_identity before
      \<and> (fi_size after, fi_mtime after, fi_ctime after) = (fi_size before, fi_mtime before, fi_ctime before)
      \<and> (fi_size live, fi_mtime live) = (fi_size before, fi_mtime before))"

text \<open>One attempt: the content, or \<open>None\<close> when the file changed meanwhile.\<close>

definition attempt_content :: "host \<Rightarrow> nat \<Rightarrow> bool \<Rightarrow> attempt \<Rightarrow> string option res" where
  "attempt_content H max_bytes require_owner_write a =
     bindE (someE (invalid ''is not a readable regular file'') (at_name a)) (\<lambda>name.
     if fi_link name then Inl (invalid ''must not be a link'')
     else
     bindE (someE (invalid ''is not a readable regular file'') (at_before a)) (\<lambda>before.
     bindE (check_private_info H require_owner_write before) (\<lambda>_.
     let content = take (Suc max_bytes) (at_bytes a) in
     if length content > max_bytes then Inl (invalid ''exceeds its size limit'')
     else
     bindE (someE (OSError ''fstat'') (at_after a)) (\<lambda>after.
     bindE (someE (OSError ''lstat'') (at_live a)) (\<lambda>live.
     Inr (if same_generation before after live then Some content else None))))))"

fun first_stable :: "host \<Rightarrow> nat \<Rightarrow> bool \<Rightarrow> attempt list \<Rightarrow> string res" where
  "first_stable H max_bytes rw [] = Inl (invalid ''did not remain stable while it was read'')"
| "first_stable H max_bytes rw (a # as) =
     bindE (attempt_content H max_bytes rw a) (\<lambda>r. case r of
       Some content \<Rightarrow> Inr content
     | None \<Rightarrow> first_stable H max_bytes rw as)"

definition read_private_file :: "host \<Rightarrow> nat \<Rightarrow> bool \<Rightarrow> (nat \<Rightarrow> attempt) \<Rightarrow> string res" where
  "read_private_file H max_bytes rw attempts = first_stable H max_bytes rw (map attempts [0..<3])"

text \<open>A snapshot that is stable but does not parse yet is read again, at most three times.\<close>

fun parse_rounds :: "(nat \<Rightarrow> string res) \<Rightarrow> (string \<Rightarrow> 'a res) \<Rightarrow> nat \<Rightarrow> nat \<Rightarrow> 'a res" where
  "parse_rounds read parse k 0 = bindE (read k) parse"
| "parse_rounds read parse k (Suc n) =
     bindE (read k) (\<lambda>payload. case parse payload of
       Inl (ProfileError m) \<Rightarrow> parse_rounds read parse (Suc k) n
     | r \<Rightarrow> r)"

definition read_stable_private_value ::
    "host \<Rightarrow> nat \<Rightarrow> bool \<Rightarrow> (string \<Rightarrow> 'a res) \<Rightarrow> (nat \<Rightarrow> nat \<Rightarrow> attempt) \<Rightarrow> 'a res" where
  "read_stable_private_value H max_bytes rw parse observe =
     parse_rounds (\<lambda>k. read_private_file H max_bytes rw (observe k)) parse 0 2"

section \<open>Private trees\<close>

text \<open>One directory entry: the count and total so far, and the directories found. The entry
  count is limited to 256, the depth to 16 and the total size to 16 MiB.\<close>

definition private_entry ::
    "host \<Rightarrow> fs \<Rightarrow> path \<Rightarrow> nat \<Rightarrow> nat \<times> nat \<times> (path \<times> nat) list \<Rightarrow> string \<Rightarrow> (nat \<times> nat \<times> (path \<times> nat) list) res" where
  "private_entry H F dir depth = (\<lambda>(count, bytes, found) n.
     if count + 1 > 256 then Inl (invalid ''exceeds 256 directory entries'')
     else
     bindE (someE (OSError ''stat'') (node_at F (dir @ [n]))) (\<lambda>nd.
     let m = node_meta nd in
     if is_link_component nd then Inl (invalid ''must not be a link'')
     else if \<not> owned H (st_uid m) then Inl (invalid ''must be owned by the current user'')
     else case nd of
       NDir _ \<Rightarrow>
         (if expressible H \<and> st_mode m AND 63 \<noteq> 0 then Inl (invalid ''must not grant group or other access'')
          else if expressible H \<and> st_mode m AND 448 \<noteq> 448 then Inl (invalid ''must grant its owner read, write, and search'')
          else if depth \<ge> 16 then Inl (invalid ''exceeds 16 directory levels'')
          else Inr (count + 1, bytes, (dir @ [n], depth + 1) # found))
     | NFile _ content \<Rightarrow>
         (if st_nlink m \<noteq> 1 then Inl (invalid ''must be a regular file with one hard link'')
          else if expressible H \<and> st_mode m AND 18 \<noteq> 0 then Inl (invalid ''must not grant group or other write'')
          else if bytes + length content > 16 * 1024 * 1024 then Inl (invalid ''exceeds 16 MiB'')
          else Inr (count + 1, bytes + length content, found))
     | _ \<Rightarrow> Inl (invalid ''must be a regular file with one hard link'')))"

definition private_directory ::
    "host \<Rightarrow> fs \<Rightarrow> path \<Rightarrow> nat \<Rightarrow> nat \<Rightarrow> nat \<Rightarrow> (nat \<times> nat \<times> (path \<times> nat) list) res" where
  "private_directory H F dir depth count bytes =
     bindE (someE (OSError ''scandir'') (resolve F dir)) (\<lambda>d.
     bindE (iterdir F dir) (\<lambda>names. foldE (private_entry H F d depth) (count, bytes, []) names))"

definition private_node :: "host \<Rightarrow> node \<Rightarrow> bool" where
  "private_node H nd = (\<not> is_link_node nd \<and> owned H (st_uid (node_meta nd)) \<and> (case nd of
       NDir m \<Rightarrow> expressible H \<longrightarrow> st_mode m AND 63 = 0 \<and> st_mode m AND 448 = 448
     | NFile m content \<Rightarrow> st_nlink m = 1 \<and> (expressible H \<longrightarrow> st_mode m AND 18 = 0)
     | _ \<Rightarrow> False))"

lemma private_entry_Inr:
  assumes "private_entry H F d depth (count, bytes, found) n = Inr (count', bytes', found')"
  shows "count' = count + 1 \<and> count' \<le> 256 \<and> bytes \<le> bytes'
    \<and> (\<exists>nd. node_at F (d @ [n]) = Some nd \<and> private_node H nd
        \<and> found' = (if is_dir_node nd then (d @ [n], depth + 1) # found else found))"
proof -
  obtain nd where n: "node_at F (d @ [n]) = Some nd"
    using assms by (cases "node_at F (d @ [n])") (auto simp: private_entry_def split: if_splits)
  then show ?thesis
    using assms unfolding private_entry_def prod.case Let_def
    by (cases nd) (auto simp: private_node_def is_link_component_def split: if_splits)
qed

lemma private_directory_steps:
  assumes "foldE (private_entry H F d depth) (count, bytes, found) names = Inr (count', bytes', found')"
  shows "count' = count + length names \<and> (names \<noteq> [] \<longrightarrow> count' \<le> 256) \<and> length found' \<le> length found + length names
    \<and> set found \<subseteq> set found'
    \<and> (\<forall>x \<in> set found'. x \<in> set found \<or> (\<exists>n m. x = (d @ [n], depth + 1) \<and> node_at F (d @ [n]) = Some (NDir m)))
    \<and> (\<forall>n \<in> set names. \<exists>nd. node_at F (d @ [n]) = Some nd \<and> private_node H nd
         \<and> (is_dir_node nd \<longrightarrow> (d @ [n], depth + 1) \<in> set found'))"
  using assms
proof (induction names arbitrary: count bytes found)
  case (Cons n names)
  obtain c b f where s: "private_entry H F d depth (count, bytes, found) n = Inr (c, b, f)"
    and r: "foldE (private_entry H F d depth) (c, b, f) names = Inr (count', bytes', found')"
    using Cons.prems by (auto simp: bindE_Inr)
  obtain nd where e: "c = count + 1" "c \<le> 256" "node_at F (d @ [n]) = Some nd" "private_node H nd"
    "f = (if is_dir_node nd then (d @ [n], depth + 1) # found else found)"
    using private_entry_Inr [OF s] by blast
  note i = Cons.IH [OF r]
  have "\<exists>m. nd = NDir m" if "is_dir_node nd" using that by (cases nd) auto
  moreover have "x \<in> set found \<or> (\<exists>n m. x = (d @ [n], depth + 1) \<and> node_at F (d @ [n]) = Some (NDir m))"
    if "x \<in> set found'" for x
    using i that e calculation by (auto split: if_splits)
  ultimately show ?case using i e by (cases "names = []") (auto split: if_splits)
qed simp

function private_tree :: "host \<Rightarrow> fs \<Rightarrow> nat \<Rightarrow> nat \<Rightarrow> (path \<times> nat) list \<Rightarrow> unit res" where
  "private_tree H F count bytes [] = Inr ()"
| "private_tree H F count bytes ((dir, depth) # pending) =
     bindE (private_directory H F dir depth count bytes) (\<lambda>(count', bytes', found).
     private_tree H F count' bytes' (found @ pending))"
  by pat_completeness auto

termination
proof (relation "measures [\<lambda>(H, F, count, bytes, pending). 257 - count, \<lambda>(H, F, count, bytes, pending). length pending]")
  fix H F count bytes dir depth pending r count' r' bytes' found
  assume d: "private_directory H F dir depth count bytes = Inr r" "(count', r') = r" "(bytes', found) = r'"
  then obtain d names where "foldE (private_entry H F d depth) (count, bytes, []) names = Inr (count', bytes', found)"
    by (auto simp: private_directory_def bindE_Inr)
  note s = private_directory_steps [OF this]
  show "((H, F, count', bytes', found @ pending), H, F, count, bytes, (dir, depth) # pending)
      \<in> measures [\<lambda>(H, F, count, bytes, pending). 257 - count, \<lambda>(H, F, count, bytes, pending). length pending]"
  proof (cases "names = []")
    case False
    then have "257 - count' < 257 - count" using s by (cases names) auto
    then show ?thesis by simp
  qed (use s in simp)
qed simp

definition validate_private_tree :: "host \<Rightarrow> fs \<Rightarrow> path \<Rightarrow> unit res" where
  "validate_private_tree H F root = private_tree H F 0 0 [(root, 0)]"

declare private_tree.simps [simp del]

section \<open>What a private tree is\<close>

text \<open>Every entry lies in a directory, as in any file system.\<close>

definition rooted :: "fs \<Rightarrow> bool" where
  "rooted F \<longleftrightarrow> (\<forall>q nd. node_at F q = Some nd \<longrightarrow> q \<noteq> [] \<longrightarrow> ''..'' \<notin> set q \<and> (butlast q \<noteq> [] \<longrightarrow> (\<exists>m. node_at F (butlast q) = Some (NDir m))))"

lemma rooted_prefix:
  assumes "rooted F" and "node_at F (p @ q) = Some nd" and "q \<noteq> []" and "p \<noteq> []"
  shows "\<exists>m. node_at F p = Some (NDir m)"
  using assms(2-3)
proof (induction q arbitrary: nd rule: rev_induct)
  case (snoc x q)
  then have "\<exists>m. node_at F (p @ q) = Some (NDir m)"
    using assms(1,4) unfolding rooted_def by (metis append_is_Nil_conv butlast_snoc snoc_eq_iff_butlast append_assoc)
  then show ?case using snoc.IH assms(4) by (cases "q = []") auto
qed simp

lemma children_mem: "n \<in> set (children F d) \<longleftrightarrow> node_at F (d @ [n]) \<noteq> None"
proof -
  have "n \<in> set (children F d) \<longleftrightarrow> d @ [n] \<in> set (keys (nodes F))"
    by (auto simp: children_def image_iff intro!: bexI [of _ "d @ [n]"] dest: append_butlast_last_id)
  then show ?thesis by (simp add: node_at_def set_keys map_of_eq_None_iff)
qed

lemma private_tree_complete:
  assumes "private_tree H F count bytes pending = Inr u" and "rooted F"
    and "\<forall>(dir, depth) \<in> set pending. dirs F dir \<and> dir \<noteq> []"
    and "(dir, depth) \<in> set pending" and "strict_prefix dir q" and "node_at F q = Some nd"
  shows "private_node H nd"
  using assms
proof (induction H F count bytes pending arbitrary: dir depth q nd rule: private_tree.induct)
  case (2 H F count bytes dir0 depth0 pending)
  have d0: "dirs F dir0" "dir0 \<noteq> []" using 2(4) by auto
  have r: "resolve F dir0 = Some dir0" using d0 by (intro canonical_resolve dirs_canonical)
  obtain c' b' found where s: "private_directory H F dir0 depth0 count bytes = Inr (c', b', found)"
    and rec: "private_tree H F c' b' (found @ pending) = Inr u"
    using 2(2) by (auto simp: private_tree.simps elim!: stepsE)
  obtain m where "node_at F dir0 = Some (NDir m)" using d0 by (auto simp: dirs_def)
  then have f: "foldE (private_entry H F dir0 depth0) (count, bytes, []) (children F dir0) = Inr (c', b', found)"
    using s r by (simp add: private_directory_def iterdir_def)
  note steps = private_directory_steps [OF f]
  have pending: "\<forall>(p, k) \<in> set (found @ pending). dirs F p \<and> p \<noteq> []"
  proof -
    have "dirs F (dir0 @ [n])" if "node_at F (dir0 @ [n]) = Some (NDir m)" for n m
      using that d0(1) 2(3) unfolding rooted_def by (intro dirs_snoc) fastforce+
    then show ?thesis using steps 2(4) by fastforce
  qed
  note IH = 2(1) [OF s refl refl rec 2(3) pending]
  show ?case
  proof (cases "(dir, depth) \<in> set pending")
    case True
    then show ?thesis using IH [of dir depth q nd] 2(6,7) by simp
  next
    case False
    then have "dir = dir0" using 2(5) by auto
    then obtain zs where "q = dir0 @ zs" "zs \<noteq> []" using 2(6) by (auto simp: strict_prefix_def prefix_def)
    then obtain n r where q: "q = (dir0 @ [n]) @ r" by (cases zs) auto
    obtain nd' where n: "node_at F (dir0 @ [n]) = Some nd'" "r \<noteq> [] \<longrightarrow> is_dir_node nd'"
      using rooted_prefix [OF 2(3), of "dir0 @ [n]" r] 2(7) unfolding q by (cases "r = []") auto
    then have "n \<in> set (children F dir0)" by (simp add: children_mem)
    then have p: "private_node H nd'" "is_dir_node nd' \<longrightarrow> (dir0 @ [n], depth0 + 1) \<in> set found"
      using steps n(1) by fastforce+
    show ?thesis
    proof (cases "r = []")
      case True
      then show ?thesis using p(1) n(1) 2(7) q by simp
    next
      case False
      then show ?thesis using IH [of "dir0 @ [n]" "depth0 + 1" q nd] p(2) n(2) 2(7) q
        by (simp add: strict_prefix_def)
    qed
  qed
qed simp

section \<open>Parsers\<close>

definition parse_codex_auth :: "string \<Rightarrow> dict res" where
  "parse_codex_auth payload =
     (if \<not> utf8_valid payload then Inl (invalid ''Codex auth.json must be UTF-8 JSON'')
      else bindE (loads_strict payload) (\<lambda>v. case as_dict v of
          Some d \<Rightarrow> (if d = [] then Inl (invalid ''Codex auth.json must be a non-empty JSON object'') else Inr d)
        | None \<Rightarrow> Inl (invalid ''Codex auth.json must be a non-empty JSON object'')))"

text \<open>\<open>broker_url\<close> stands for \<open>_validate_broker_url\<close>.\<close>

definition parse_omp_broker_metadata :: "(val \<Rightarrow> string res) \<Rightarrow> string \<Rightarrow> string res" where
  "parse_omp_broker_metadata broker_url payload =
     (if \<not> utf8_valid payload then Inl (invalid ''OMP broker metadata must be UTF-8 JSON'')
      else
      bindE (loads_strict payload) (\<lambda>v.
      bindE (someE (invalid ''OMP broker metadata must be a JSON object'') (as_dict v)) (\<lambda>d.
      bindE (expect_keys d [''version'', ''url'']) (\<lambda>_.
      if get d ''version'' \<noteq> VInt 1 then Inl (invalid ''OMP broker metadata.version must be 1'')
      else broker_url (get d ''url'')))))"

definition parse_omp_broker_token :: "string \<Rightarrow> string res" where
  "parse_omp_broker_token payload =
     (if \<not> list_all (\<lambda>c. byte c < 128) payload then Inl (invalid ''OMP broker token must be ASCII'')
      else if payload = [] \<or> \<not> list_all (\<lambda>c. 33 \<le> byte c \<and> byte c \<le> 126) payload
        then Inl (invalid ''OMP broker token must contain only printable non-space ASCII'')
      else Inr payload)"

section \<open>Staging\<close>

definition create_auth_symlink :: "host \<Rightarrow> stable_directory \<Rightarrow> string \<Rightarrow> path \<Rightarrow> (fs, unit) st" where
  "create_auth_symlink H runtime nm target = (\<lambda>F.
     if lexists F (sd_path runtime @ [nm]) then (Inl (invalid ''could not stage''), F)
     else case resolve F (sd_path runtime) of
         None \<Rightarrow> (Inl (invalid ''could not stage''), F)
       | Some d \<Rightarrow> (Inr (), (put_node (d @ [nm]) (NLink (new_meta H F 511) True target) F)\<lparr>fresh_ino := Suc (fresh_ino F)\<rparr>))"

text \<open>The directories held while the client runs, and what it is given. \<open>observe\<close> answers each
  attempt to read a private file, by its path, the round and the attempt.\<close>

record auth_stage =
  as_binding :: auth_binding
  as_root :: stable_directory
  as_client :: stable_directory
  as_tree :: "stable_directory option"

definition private_stable_directory :: "host \<Rightarrow> fs \<Rightarrow> path \<Rightarrow> stable_directory res" where
  "private_stable_directory H F p =
     bindE (open_stable_directory F p) (\<lambda>d.
     bindE (validate_private_directory H F d) (\<lambda>_. Inr d))"

definition stage_codex :: "host \<Rightarrow> (path \<Rightarrow> nat \<Rightarrow> nat \<Rightarrow> attempt) \<Rightarrow> stable_directory \<Rightarrow> stable_directory \<Rightarrow> stable_directory \<Rightarrow> (fs, auth_stage) st" where
  "stage_codex H observe root croot runtime =
     bindS (readS (\<lambda>_. read_stable_private_value H (1024 * 1024) True parse_codex_auth (observe (sd_path croot @ [''auth.json''])))) (\<lambda>_.
     bindS (create_auth_symlink H runtime ''auth.json'' (sd_path croot @ [''auth.json''])) (\<lambda>_.
     returnS \<lparr>as_binding = \<lparr>ab_environment = [], ab_private_values = [abs_str (sd_path root), abs_str (sd_path croot)]\<rparr>,
       as_root = root, as_client = croot, as_tree = None\<rparr>))"

definition stage_qoder :: "host \<Rightarrow> stable_directory \<Rightarrow> stable_directory \<Rightarrow> stable_directory \<Rightarrow> (fs, auth_stage) st" where
  "stage_qoder H root croot runtime =
     bindS (readS (\<lambda>F. private_stable_directory H F (sd_path croot @ [''.auth'']))) (\<lambda>q.
     bindS (readS (\<lambda>F. validate_private_tree H F (sd_path q))) (\<lambda>_.
     bindS (create_auth_symlink H runtime ''.auth'' (sd_path q)) (\<lambda>_.
     returnS \<lparr>as_binding = \<lparr>ab_environment = [], ab_private_values = [abs_str (sd_path root), abs_str (sd_path q)]\<rparr>,
       as_root = root, as_client = croot, as_tree = Some q\<rparr>)))"

definition stage_omp ::
    "host \<Rightarrow> (val \<Rightarrow> string res) \<Rightarrow> (path \<Rightarrow> nat \<Rightarrow> nat \<Rightarrow> attempt) \<Rightarrow> stable_directory \<Rightarrow> stable_directory \<Rightarrow> (fs, auth_stage) st" where
  "stage_omp H broker_url observe root croot =
     bindS (readS (\<lambda>_. read_stable_private_value H (16 * 1024) False (parse_omp_broker_metadata broker_url)
       (observe (sd_path croot @ [''broker.json''])))) (\<lambda>url.
     bindS (readS (\<lambda>_. read_stable_private_value H 8192 False parse_omp_broker_token
       (observe (sd_path croot @ [''token''])))) (\<lambda>token.
     returnS \<lparr>as_binding = \<lparr>ab_environment = [(''OMP_AUTH_BROKER_URL'', url), (''OMP_AUTH_BROKER_TOKEN'', token)],
         ab_private_values = [abs_str (sd_path root), abs_str (sd_path croot), token]\<rparr>,
       as_root = root, as_client = croot, as_tree = None\<rparr>))"

definition enter_auth ::
    "host \<Rightarrow> (val \<Rightarrow> string res) \<Rightarrow> (path \<Rightarrow> nat \<Rightarrow> nat \<Rightarrow> attempt) \<Rightarrow> project \<Rightarrow> string \<Rightarrow> string \<Rightarrow> stable_directory \<Rightarrow> (fs, auth_stage) st" where
  "enter_auth H broker_url observe proj client auth_root runtime =
     bindS (readS (\<lambda>F. bindE (path_of_str H auth_root) (open_stable_directory F))) (\<lambda>root.
     bindS (readS (\<lambda>F. require_external_directory H F proj root)) (\<lambda>_.
     bindS (readS (\<lambda>F. validate_private_directory H F root)) (\<lambda>_.
     bindS (readS (\<lambda>F. private_stable_directory H F (sd_path root @ [client]))) (\<lambda>croot.
     if client = ''codex'' then stage_codex H observe root croot runtime
     else if client = ''qoder'' then stage_qoder H root croot runtime
     else if client = ''omp'' then stage_omp H broker_url observe root croot
     else readS (\<lambda>_. Inl (invalid ''client has no auth adapter''))))))"

text \<open>The checks after the client has returned.\<close>

definition exit_auth :: "host \<Rightarrow> fs \<Rightarrow> auth_stage \<Rightarrow> unit res" where
  "exit_auth H F a =
     bindE (case as_tree a of
         None \<Rightarrow> Inr ()
       | Some q \<Rightarrow> bindE (validate_stable_directory F q) (\<lambda>_. validate_private_tree H F (sd_path q))) (\<lambda>_.
     bindE (validate_stable_directory F (as_client a)) (\<lambda>_.
     validate_stable_directory F (as_root a)))"

section \<open>What a private read returns\<close>

lemma attempt_content_Inr:
  assumes "attempt_content H m rw a = Inr (Some c)"
  shows "\<exists>before after live. at_before a = Some before \<and> at_after a = Some after \<and> at_live a = Some live
     \<and> check_private_info H rw before = Inr () \<and> same_generation before after live \<and> c = at_bytes a \<and> length c \<le> m"
  using assms by (auto simp: attempt_content_def Let_def someE_Inr elim!: stepsE split: if_splits)

lemma first_stable_Inr:
  "first_stable H m rw as = Inr c \<Longrightarrow> \<exists>a \<in> set as. attempt_content H m rw a = Inr (Some c)"
  by (induction as) (auto elim!: stepsE split: option.splits)

lemma check_private_info_Inr:
  "check_private_info H rw i = Inr u \<Longrightarrow> fi_regular i \<and> fi_nlink i = 1 \<and> owned H (fi_uid i)
     \<and> (expressible H \<longrightarrow> fi_mode i AND 63 = 0 \<and> fi_mode i AND 256 = 256 \<and> (rw \<longrightarrow> fi_mode i AND 128 = 128))"
  by (auto simp: check_private_info_def raise_if_Inr split: if_splits)

lemma parse_rounds_Inr:
  "parse_rounds read parse k n = Inr v \<Longrightarrow> \<exists>j payload. k \<le> j \<and> j \<le> k + n \<and> read j = Inr payload \<and> parse payload = Inr v"
proof (induction n arbitrary: k)
  case (Suc n)
  obtain payload where r: "read k = Inr payload" using Suc.prems by (auto elim!: stepsE)
  show ?case
  proof (cases "parse payload = Inr v")
    case True
    then show ?thesis using r by (intro exI [of _ k]) auto
  next
    case False
    then have "parse_rounds read parse (Suc k) n = Inr v"
      using Suc.prems r by (auto split: sum.splits err.splits)
    from Suc.IH [OF this] obtain j payload' where "Suc k \<le> j" "j \<le> Suc k + n" "read j = Inr payload'" "parse payload' = Inr v"
      by blast
    then show ?thesis by (intro exI [of _ j] exI [of _ payload']) simp
  qed
qed (auto elim!: stepsE)

lemma read_stable_private_value_Inr:
  assumes "read_stable_private_value H m rw parse observe = Inr v"
  obtains k j before after live where "k < 3" "j < 3" "parse (at_bytes (observe k j)) = Inr v" "length (at_bytes (observe k j)) \<le> m"
    "at_before (observe k j) = Some before" "at_after (observe k j) = Some after" "at_live (observe k j) = Some live"
    "check_private_info H rw before = Inr ()" "same_generation before after live"
proof -
  obtain k payload where k: "k \<le> 0 + 2" "read_private_file H m rw (observe k) = Inr payload" "parse payload = Inr v"
    using parse_rounds_Inr [OF assms [unfolded read_stable_private_value_def]] by blast
  then obtain j where "j < 3" "attempt_content H m rw (observe k j) = Inr (Some payload)"
    using first_stable_Inr [of H m rw "map (observe k) [0..<3]" payload] by (auto simp: read_private_file_def)
  with attempt_content_Inr [OF this(2)] k show ?thesis by (auto intro: that [of k j])
qed

end
