(* ===== verification/Broker.thy ===== *)
theory Broker
  imports PyVal
begin

text \<open>
  The address of the OMP auth broker: \<open>_validate_broker_url\<close> of \<open>profile/cli.py\<close> with the parts of
  \<open>urllib.parse\<close> it relies on. What depends on Unicode tables (printable characters, NFKC) and on
  the syntax of IPv6 addresses is a parameter.
\<close>

record url_rules =
  ur_printable :: "string \<Rightarrow> bool"
  ur_nfkc :: "string \<Rightarrow> bool"
  ur_ipv6 :: "string \<Rightarrow> bool"

section \<open>urlsplit\<close>

text \<open>\<open>str.partition\<close> at the first, \<open>str.rpartition\<close> at the last occurrence of a character.\<close>

definition partition_at :: "char \<Rightarrow> string \<Rightarrow> string \<times> bool \<times> string" where
  "partition_at c s = (takeWhile (\<lambda>x. x \<noteq> c) s, c \<in> set s, tl (dropWhile (\<lambda>x. x \<noteq> c) s))"

definition after_last :: "char \<Rightarrow> string \<Rightarrow> string" where
  "after_last c s = rev (takeWhile (\<lambda>x. x \<noteq> c) (rev s))"

record split_url =
  su_scheme :: string
  su_netloc :: string
  su_path :: string
  su_query :: string
  su_fragment :: string

definition scheme_char :: "char \<Rightarrow> bool" where
  "scheme_char c = (is_lower c \<or> is_upper c \<or> is_digit c \<or> c \<in> set ''+-.'')"

definition split_scheme :: "string \<Rightarrow> string \<times> string" where
  "split_scheme url = (case partition_at CHR '':'' url of (pre, found, post) \<Rightarrow>
     if found \<and> pre \<noteq> [] \<and> (is_lower (hd pre) \<or> is_upper (hd pre)) \<and> list_all scheme_char pre
     then (casefold pre, post) else ([], url))"

definition netloc_end :: "char \<Rightarrow> bool" where
  "netloc_end c = (c \<in> set ''/?#'')"

definition split_netloc :: "string \<Rightarrow> string \<times> string" where
  "split_netloc url =
     (if prefix ''//'' url
      then (takeWhile (\<lambda>c. \<not> netloc_end c) (drop 2 url), dropWhile (\<lambda>c. \<not> netloc_end c) (drop 2 url))
      else ([], url))"

text \<open>\<open>_hostinfo\<close>: the host and the port, neither decoded.\<close>

definition hostinfo :: "string \<Rightarrow> string \<times> string" where
  "hostinfo netloc =
     (let info = after_last CHR ''@'' netloc in
      case partition_at CHR ''['' info of (_, bracket, bracketed) \<Rightarrow>
        if bracket then (case partition_at CHR '']'' bracketed of (host, _, rest) \<Rightarrow> (host, snd (snd (partition_at CHR '':'' rest))))
        else (case partition_at CHR '':'' info of (host, _, port) \<Rightarrow> (host, port)))"

text \<open>\<open>_check_bracketed_netloc\<close> and \<open>_check_bracketed_host\<close>.\<close>

definition check_bracketed_host :: "url_rules \<Rightarrow> string \<Rightarrow> unit res" where
  "check_bracketed_host R host =
     (if prefix ''v'' host then
        (let hex = (\<lambda>c. is_digit c \<or> byte (lower_char c) \<in> {97..102}); n = takeWhile hex (tl host); rest = dropWhile hex (tl host)
         in raise_if (n = [] \<or> \<not> prefix ''.'' rest \<or> tl rest = []) (ValueError ''IPvFuture address is invalid''))
      else raise_if (\<not> ur_ipv6 R host) (ValueError ''no IPv6 address in brackets''))"

definition check_brackets :: "url_rules \<Rightarrow> string \<Rightarrow> unit res" where
  "check_brackets R netloc =
     (if (CHR ''['' \<in> set netloc) \<noteq> (CHR '']'' \<in> set netloc) then Inl (ValueError ''Invalid IPv6 URL'')
      else if CHR ''['' \<notin> set netloc then Inr ()
      else
        (let info = after_last CHR ''@'' netloc in
         case partition_at CHR ''['' info of (before, bracket, bracketed) \<Rightarrow>
           if bracket then (case partition_at CHR '']'' bracketed of (host, _, rest) \<Rightarrow>
             if before \<noteq> [] \<or> rest \<noteq> [] \<and> \<not> prefix '':'' rest then Inl (ValueError ''Invalid IPv6 URL'')
             else check_bracketed_host R host)
           else check_bracketed_host R (fst (partition_at CHR '':'' info))))"

definition urlsplit :: "url_rules \<Rightarrow> string \<Rightarrow> split_url res" where
  "urlsplit R s =
     (case split_scheme (filter (\<lambda>c. byte c \<notin> {9, 10, 13}) (lstrip_by (\<lambda>c. byte c \<le> 32) s)) of (scheme, url) \<Rightarrow>
      case split_netloc url of (netloc, rest) \<Rightarrow>
      bindE (if prefix ''//'' url then check_brackets R netloc else Inr ()) (\<lambda>_.
      case partition_at CHR ''#'' rest of (rest', _, fragment) \<Rightarrow>
      case partition_at CHR ''?'' rest' of (p, _, query) \<Rightarrow>
      bindE (raise_if (netloc \<noteq> [] \<and> \<not> list_all (\<lambda>c. byte c < 128) netloc \<and> \<not> ur_nfkc R netloc)
        (ValueError ''netloc contains invalid characters under NFKC normalization'')) (\<lambda>_.
      Inr \<lparr>su_scheme = scheme, su_netloc = netloc, su_path = p, su_query = query, su_fragment = fragment\<rparr>)))"

definition url_hostname :: "split_url \<Rightarrow> string option" where
  "url_hostname u = (case fst (hostinfo (su_netloc u)) of
       [] \<Rightarrow> None
     | host \<Rightarrow> (case partition_at CHR ''%'' host of (h, zoned, zone) \<Rightarrow> Some (casefold h @ (if zoned then ''%'' else []) @ zone)))"

definition url_port :: "split_url \<Rightarrow> nat option res" where
  "url_port u = (let port = snd (hostinfo (su_netloc u)) in
     if port = [] then Inr None
     else if \<not> list_all is_digit port then Inl (ValueError ''Port could not be cast to integer value'')
     else if read_nat port > 65535 then Inl (ValueError ''Port out of range 0-65535'')
     else Inr (Some (read_nat port)))"

section \<open>The broker address\<close>

definition printable_text :: "url_rules \<Rightarrow> string \<Rightarrow> bool" where
  "printable_text R s = (list_all (\<lambda>c. 32 < byte c \<and> byte c \<noteq> 127) s \<and> (list_all (\<lambda>c. byte c < 128) s \<or> ur_printable R s))"

definition loopback_hosts :: "string list" where
  "loopback_hosts = [''127.0.0.1'', ''::1'', ''localhost'']"

definition validate_broker_url :: "url_rules \<Rightarrow> val \<Rightarrow> string res" where
  "validate_broker_url R value =
     bindE (someE (ProfileError ''OMP auth broker url must be a non-empty string'') (as_str value)) (\<lambda>s.
     if s = [] then Inl (ProfileError ''OMP auth broker url must be a non-empty string'')
     else if \<not> printable_text R s then Inl (ProfileError ''OMP auth broker url must contain only printable non-space characters'')
     else
     bindE (urlsplit R s) (\<lambda>u.
     if CHR ''@'' \<in> set (su_netloc u) \<or> su_query u \<noteq> [] \<or> su_fragment u \<noteq> [] \<or> su_path u \<notin> {[], ''/''}
       then Inl (ProfileError ''OMP auth broker url must contain only scheme and authority'')
     else
       let loopback = (case url_hostname u of None \<Rightarrow> False | Some h \<Rightarrow> h \<in> set loopback_hosts) in
       if su_scheme u \<noteq> ''https'' \<and> \<not> (su_scheme u = ''http'' \<and> loopback)
         then Inl (ProfileError ''OMP auth broker url must use HTTPS or loopback HTTP'')
       else if url_hostname u = None then Inl (ProfileError ''OMP auth broker url must include a host'')
       else
       bindE (wrapE (\<lambda>_. ProfileError ''OMP auth broker url has an invalid port'') (url_port u)) (\<lambda>_.
       Inr (rstrip_by (\<lambda>c. c = CHR ''/'') s))))"

section \<open>What is accepted\<close>

lemma partition_at_join: "partition_at c s = (a, found, b) \<Longrightarrow> s = (if found then a @ c # b else a) \<and> c \<notin> set a \<and> (\<not> found \<longrightarrow> b = [])"
proof (induction s arbitrary: a)
  case (Cons x s)
  then show ?case by (cases "x = c") (auto simp: partition_at_def split: if_splits)
qed (simp add: partition_at_def)

lemma split_netloc_join:
  assumes "split_netloc url = (netloc, rest)" and "netloc \<noteq> []"
  shows "url = ''//'' @ netloc @ rest \<and> (\<forall>c \<in> set netloc. \<not> netloc_end c)"
  using assms by (auto simp: split_netloc_def prefix_def dest: set_takeWhileD split: if_splits)

lemma hostinfo_Nil: "hostinfo [] = ([], [])"
  by code_simp

lemma printable_unstripped:
  assumes "printable_text R s"
  shows "filter (\<lambda>c. byte c \<notin> {9, 10, 13}) (lstrip_by (\<lambda>c. byte c \<le> 32) s) = s"
proof -
  have "\<forall>c \<in> set s. 32 < byte c" using assms by (auto simp: printable_text_def list_all_iff)
  moreover from this have "lstrip_by (\<lambda>c. byte c \<le> 32) s = s"
    by (cases s) (auto simp: lstrip_by_def)
  ultimately show ?thesis by (auto simp: filter_id_conv)
qed

lemma urlsplit_Inr:
  assumes "urlsplit R s = Inr u" and "printable_text R s"
  shows "\<exists>url rest rest' b b'. split_scheme s = (su_scheme u, url) \<and> split_netloc url = (su_netloc u, rest)
     \<and> partition_at CHR ''#'' rest = (rest', b, su_fragment u) \<and> partition_at CHR ''?'' rest' = (su_path u, b', su_query u)"
  using assms(1) unfolding urlsplit_def printable_unstripped [OF assms(2)]
  by (elim stepsE case_prodE prod.splits [THEN iffD1, elim_format]) (auto elim!: stepsE split: prod.splits)

lemma checked_broker_url:
  assumes "validate_broker_url R (VStr s) = Inr v"
  shows "printable_text R s \<and> (\<exists>u. urlsplit R s = Inr u \<and> CHR ''@'' \<notin> set (su_netloc u) \<and> su_query u = [] \<and> su_fragment u = []
     \<and> su_path u \<in> {[], ''/''} \<and> (\<exists>h. url_hostname u = Some h \<and> (su_scheme u = ''https'' \<or> su_scheme u = ''http'' \<and> h \<in> set loopback_hosts))
     \<and> (\<exists>x. url_port u = Inr x) \<and> v = rstrip_by (\<lambda>c. c = CHR ''/'') s)"
  using assms unfolding validate_broker_url_def Let_def
  by (elim stepsE) (auto simp: wrapE_def split: option.splits sum.splits)

lemma url_port_Inr:
  assumes "url_port u = Inr x"
  shows "(\<forall>c \<in> set (snd (hostinfo (su_netloc u))). is_digit c)
     \<and> (snd (hostinfo (su_netloc u)) \<noteq> [] \<longrightarrow> read_nat (snd (hostinfo (su_netloc u))) \<le> 65535)"
  using assms by (auto simp: url_port_def Let_def list_all_iff split: if_splits)


lemma url_hostname_auth: "su_netloc u = su_netloc w \<Longrightarrow> url_hostname u = url_hostname w"
  by (simp add: url_hostname_def)

text \<open>The host of an authority.\<close>

definition host_of :: "string \<Rightarrow> string option" where
  "host_of auth = url_hostname \<lparr>su_scheme = [], su_netloc = auth, su_path = [], su_query = [], su_fragment = []\<rparr>"

lemma validate_broker_url_Inr:
  assumes "validate_broker_url R (VStr s) = Inr v"
  obtains scheme auth p q f h where "s = scheme @ ''://'' @ auth @ p @ q @ f" "auth \<noteq> []" "set auth \<inter> set ''/?#@'' = {}"
    "p \<in> {[], ''/''}" "q \<in> {[], ''?''}" "f \<in> {[], ''#''}" "host_of auth = Some h"
    "casefold scheme = ''https'' \<or> casefold scheme = ''http'' \<and> h \<in> set loopback_hosts"
    "\<forall>c \<in> set (snd (hostinfo auth)). is_digit c" "snd (hostinfo auth) \<noteq> [] \<longrightarrow> read_nat (snd (hostinfo auth)) \<le> 65535"
    "v = rstrip_by (\<lambda>c. c = CHR ''/'') s"
proof -
  obtain u h x where pr: "printable_text R s" and u: "urlsplit R s = Inr u"
    and at: "CHR ''@'' \<notin> set (su_netloc u)" and q: "su_query u = []" "su_fragment u = []" "su_path u \<in> {[], ''/''}"
    and h: "url_hostname u = Some h" and sch: "su_scheme u = ''https'' \<or> su_scheme u = ''http'' \<and> h \<in> set loopback_hosts"
    and x: "url_port u = Inr x" and v: "v = rstrip_by (\<lambda>c. c = CHR ''/'') s"
    using checked_broker_url [OF assms] by blast
  obtain url rest rest' b b' where sp: "split_scheme s = (su_scheme u, url)" "split_netloc url = (su_netloc u, rest)"
    "partition_at CHR ''#'' rest = (rest', b, su_fragment u)" "partition_at CHR ''?'' rest' = (su_path u, b', su_query u)"
    using urlsplit_Inr [OF u pr] by blast
  have "su_netloc u \<noteq> []" using h by (auto simp: url_hostname_def hostinfo_Nil)
  then have n: "url = ''//'' @ su_netloc u @ rest" "\<forall>c \<in> set (su_netloc u). \<not> netloc_end c"
    using split_netloc_join [OF sp(2)] by auto
  have "su_scheme u \<noteq> []" using sch by auto
  then obtain pre where pre: "s = pre @ '':'' @ url" "su_scheme u = casefold pre"
    using sp(1) by (auto simp: split_scheme_def dest!: partition_at_join split: prod.splits if_splits)
  have "rest = su_path u @ (if b' then ''?'' else []) @ (if b then ''#'' else [])"
    using partition_at_join [OF sp(3)] partition_at_join [OF sp(4)] q by auto
  then have s: "s = pre @ ''://'' @ su_netloc u @ su_path u @ (if b' then ''?'' else []) @ (if b then ''#'' else [])"
    using pre(1) n(1) by simp
  have "set (su_netloc u) \<inter> set ''/?#@'' = {}" using n(2) at by (auto simp: netloc_end_def)
  moreover have "host_of (su_netloc u) = Some h"
    using h by (simp add: host_of_def url_hostname_def)
  moreover have "casefold pre = ''https'' \<or> casefold pre = ''http'' \<and> h \<in> set loopback_hosts" using sch pre(2) by simp
  ultimately show thesis
    using that [OF s \<open>su_netloc u \<noteq> []\<close> _ q(3)] url_port_Inr [OF x] v by simp
qed

end
