(* ===== verification/Launch.thy ===== *)
theory Launch
  imports Receipts Credentials Broker
begin

text \<open>
  Launching a client: the policy on forwarded arguments, the command line and the environment of
  each client, the preconditions of a launch, the run inside a one-shot runtime root, and
  \<open>run_client\<close> with its receipt. The client process is a parameter: an arbitrary operation on the
  file system that yields an exit code and its output. \<open>git\<close> is what \<open>git rev-parse
  --show-toplevel\<close> prints, \<open>None\<close> when it fails.
\<close>

section \<open>Arguments, working directory, repository root\<close>

definition forwarded_key :: "string \<Rightarrow> string" where
  "forwarded_key argument = takeWhile (\<lambda>c. c \<noteq> CHR ''='') argument"

definition may_override :: "string list \<Rightarrow> string list \<Rightarrow> string \<Rightarrow> bool" where
  "may_override forbidden starts argument =
     (forwarded_key argument \<in> set forbidden \<or> list_ex (\<lambda>p. prefix p argument) starts)"

definition validate_forwarded_args :: "string \<Rightarrow> string list \<Rightarrow> unit res" where
  "validate_forwarded_args client args =
     (case (map_of FORBIDDEN_CLIENT_ARGUMENTS client, map_of FORBIDDEN_CLIENT_ARGUMENT_PREFIXES client) of
        (Some forbidden, Some starts) \<Rightarrow>
          forE (\<lambda>argument.
            if CHR 0x00 \<in> set argument then Inl (invalid ''forwarded arguments must be NUL-free strings'')
            else raise_if (may_override forbidden starts argument)
              (invalid ''forwarded argument may override the capability root'')) args
      | _ \<Rightarrow> Inl (invalid ''client has no forwarded-argument policy''))"

definition require_git_root :: "host \<Rightarrow> fs \<Rightarrow> (path \<Rightarrow> string option) \<Rightarrow> path \<Rightarrow> unit res" where
  "require_git_root H F git root = (case git root of
       None \<Rightarrow> Inl (invalid ''run requires the profile project to be a Git worktree root'')
     | Some out \<Rightarrow>
         bindE (someE (invalid ''Git reported an invalid worktree root'')
           (resolve F (path_join (cwd H) (strip out)))) (\<lambda>discovered.
         raise_if (discovered \<noteq> root) (invalid ''profile project must equal the Git worktree root'')))"

definition prepare_workdir :: "host \<Rightarrow> fs \<Rightarrow> string option \<Rightarrow> path \<Rightarrow> path res" where
  "prepare_workdir H F value fallback = (case value of
       None \<Rightarrow> Inr fallback
     | Some s \<Rightarrow>
         bindE (resolve_str H F s) (\<lambda>p.
         if is_symlink F p \<or> \<not> is_dir F p then Inl (invalid ''workdir must be a non-symlink directory'')
         else Inr p))"

definition client_adapter_version :: "string \<Rightarrow> int res" where
  "client_adapter_version client = someE (invalid ''client has no adapter version'') (map_of CLIENT_ADAPTER_VERSION client)"

section \<open>The command of a client\<close>

definition skill_arguments :: "string list \<Rightarrow> string list" where
  "skill_arguments names = (if names \<noteq> [] then [''--skills'', join '','' names] else [''--no-skills''])"

definition codex_launch :: "path \<Rightarrow> string list \<Rightarrow> launch_spec" where
  "codex_launch root args = \<lparr>ls_command = ''codex'' # args, ls_environment = [(''CODEX_HOME'', abs_str root)]\<rparr>"

definition qoder_launch :: "path \<Rightarrow> string \<Rightarrow> string list \<Rightarrow> launch_spec" where
  "qoder_launch root prompt args =
     \<lparr>ls_command = [''qoder'', ''--config-dir'', abs_str root, ''--strict-mcp-config'', ''--mcp-config'',
        abs_str (root @ [''mcp.json'']), ''--append-system-prompt'', prompt] @ args,
      ls_environment = [(''QODER_CONFIG_DIR'', abs_str root)]\<rparr>"

definition omp_launch :: "path \<Rightarrow> string \<Rightarrow> string \<Rightarrow> string list \<Rightarrow> string list \<Rightarrow> launch_spec" where
  "omp_launch root relative prompt names args =
     \<lparr>ls_command = [''omp'', ''--config'', abs_str (root @ [''config.yml'']), ''--append-system-prompt'', prompt @ [CHR 0x0A]]
        @ skill_arguments names @ [''--no-extensions'', ''--no-rules''] @ args,
      ls_environment = [(''OMP_PROFILE'', ''default''), (''PI_CODING_AGENT_DIR'', abs_str root), (''PI_CONFIG_DIR'', relative),
        (''PI_CONFIG_FILES'', abs_str (root @ [''config.yml''])), (''PI_PROFILE'', ''default'')]\<rparr>"

definition build_launch :: "host \<Rightarrow> string \<Rightarrow> path \<Rightarrow> rtree \<Rightarrow> string list \<Rightarrow> launch_spec res" where
  "build_launch H client root t args =
     bindE (validate_client client) (\<lambda>_.
     bindE (validate_forwarded_args client args) (\<lambda>_.
     if client = ''codex'' then Inr (codex_launch root args)
     else
     bindE (rendered_text t ''system-prompt.md'' True) (\<lambda>prompt.
     if client = ''qoder'' then Inr (qoder_launch root prompt args)
     else if client = ''omp'' then
       bindE (rendered_skill_names t) (\<lambda>names.
       bindE (home_relative_name H root) (\<lambda>relative.
       Inr (omp_launch root relative prompt names args)))
     else Inl (invalid ''client has no launch adapter''))))"

section \<open>Its environment\<close>

definition blank_names :: "(string \<times> string) list \<Rightarrow> string list" where
  "blank_names env = OMP_AMBIENT_AUTH_ENV @ filter is_ambient_credential_name (keys env)"

definition blanked :: "(string \<times> string) list \<Rightarrow> (string \<times> string) list" where
  "blanked env = foldl (\<lambda>e n. dict_set n [] e) env (blank_names env)"

definition scrubbed_environment :: "host \<Rightarrow> (string \<times> string) list" where
  "scrubbed_environment H = foldl (\<lambda>e n. dict_pop n e) (environ H) AMBIENT_CONFIG_ENV"

definition client_home :: "host \<Rightarrow> fs \<Rightarrow> profile \<Rightarrow> string option \<Rightarrow> stable_directory \<Rightarrow> string res" where
  "client_home H F P manifest_path runtime =
     (if profile_uses_real_home P then
        bindE (someE (RuntimeError ''assertion'') manifest_path) (\<lambda>m.
        bindE (load_base_manifest H F m) (\<lambda>d. path_str (get d ''home'')))
      else Inr (abs_str (sd_path runtime)))"

definition omp_environment :: "string \<Rightarrow> (string \<times> string) list \<Rightarrow> (string \<times> string) list" where
  "omp_environment home env =
     dict_set ''PI_AUTH_NO_BORROW'' ''1'' (dict_set ''HOME'' home (dict_set ''AWS_EC2_METADATA_DISABLED'' ''true'' (blanked env)))"

definition client_environment ::
    "host \<Rightarrow> fs \<Rightarrow> string \<Rightarrow> profile \<Rightarrow> string option \<Rightarrow> stable_directory \<Rightarrow> launch_spec \<Rightarrow> auth_binding \<Rightarrow> (string \<times> string) list res" where
  "client_environment H F client P manifest_path runtime spec auth =
     bindE (if client = ''omp''
            then bindE (client_home H F P manifest_path runtime) (\<lambda>home. Inr (omp_environment home (scrubbed_environment H)))
            else Inr (scrubbed_environment H)) (\<lambda>env.
     Inr (dict_update (dict_update env (ls_environment spec)) (ab_environment auth)))"

section \<open>Preconditions\<close>

definition checked_public_project :: "host \<Rightarrow> fs \<Rightarrow> (path \<Rightarrow> string option) \<Rightarrow> path \<Rightarrow> path option \<Rightarrow> (project \<times> val) res" where
  "checked_public_project H F git root overlay =
     bindE (load_project H F root overlay) (\<lambda>proj.
     bindE (require_git_root H F git (pr_root proj)) (\<lambda>_.
     bindE (check_pollution_layers F proj) (\<lambda>_.
     bindE (desired_lock H F proj) (\<lambda>desired.
     bindE (verify_lock F proj desired) (\<lambda>_.
     bindE (verify_evidence H F proj desired) (\<lambda>_.
     Inr (proj, desired)))))))"

definition prepare_execution ::
    "host \<Rightarrow> fs \<Rightarrow> (path \<Rightarrow> string option) \<Rightarrow> path \<Rightarrow> path option \<Rightarrow> string \<Rightarrow> string \<Rightarrow> string list \<Rightarrow> base_args \<Rightarrow> bool
      \<Rightarrow> (project \<times> profile \<times> val) res" where
  "prepare_execution H F git root overlay client nm args ba drift =
     bindE (checked_public_project H F git root overlay) (\<lambda>(proj, desired).
     bindE (select_profile proj nm) (\<lambda>P.
     bindE (role_environment H F proj desired ba drift P) (\<lambda>_.
     bindE (validate_client client) (\<lambda>_.
     bindE (validate_forwarded_args client args) (\<lambda>_.
     Inr (proj, P, desired))))))"

section \<open>The run\<close>

text \<open>What the client is started with, and what it leaves behind: \<open>None\<close> is a return code that is
  not an integer.\<close>

record client_call =
  cc_command :: "string list"
  cc_cwd :: path
  cc_env :: "(string \<times> string) list"
  cc_capture :: bool

record client_result =
  cr_code :: "int option"
  cr_stdout :: string
  cr_stderr :: string

text \<open>What surrounds a run: the client process, Git, the credential files, the rules of URLs, and the
  names the host chooses for temporary directories.\<close>

record world =
  w_run :: "client_call \<Rightarrow> (fs, client_result) st"
  w_git :: "path \<Rightarrow> string option"
  w_observe :: "path \<Rightarrow> nat \<Rightarrow> nat \<Rightarrow> attempt"
  w_url_rules :: url_rules
  w_runtime_name :: string
  w_staging :: path

record run_args =
  ra_client :: string
  ra_args :: "string list"
  ra_auth_root :: string
  ra_workdir :: "string option"
  ra_base :: base_args
  ra_allow_drift :: bool
  ra_capture :: bool

definition checkS :: "('s \<Rightarrow> bool) \<Rightarrow> err \<Rightarrow> ('s, unit) st" where
  "checkS ok e = readS (\<lambda>s. raise_if (\<not> ok s) e)"

definition with_runtime_root :: "host \<Rightarrow> world \<Rightarrow> string \<Rightarrow> string \<Rightarrow> (path \<Rightarrow> (fs, 'a) st) \<Rightarrow> (fs, 'a) st" where
  "with_runtime_root H W client nm body =
     (let d = home_dir H @ [''.agent-system-state'', ''tmp''];
          root = d @ [''profile-'' @ client @ ''-'' @ nm @ ''-'' @ w_runtime_name W] in
      bindS (make_dirs H d) (\<lambda>_. with_staging H root (body root)))"

definition command_in :: "string \<Rightarrow> path \<Rightarrow> string list \<Rightarrow> string list" where
  "command_in client workdir command =
     (if client = ''omp'' then hd command # ''--cwd'' # abs_str workdir # tl command else command)"

definition locked_inputs_unchanged :: "host \<Rightarrow> fs \<Rightarrow> project \<Rightarrow> val \<Rightarrow> unit res" where
  "locked_inputs_unchanged H F proj desired =
     bindE (input_records H F proj) (\<lambda>inputs.
     bindE (doc_get desired ''inputs'') (\<lambda>locked.
     raise_if (\<not> py_eq (VDict inputs) locked) (invalid ''locked inputs drifted after lock verification'')))"

text \<open>Everything that is checked again immediately before the client starts.\<close>

definition last_gate :: "host \<Rightarrow> fs \<Rightarrow> project \<Rightarrow> profile \<Rightarrow> val \<Rightarrow> run_args \<Rightarrow> stable_directory \<Rightarrow> unit res" where
  "last_gate H F proj P desired A runtime =
     bindE (check_project_pollution F (pr_root proj)) (\<lambda>_.
     bindE (check_profile_environment H F proj P desired (ra_base A) (ra_allow_drift A)) (\<lambda>_.
     bindE (locked_inputs_unchanged H F proj desired) (\<lambda>_.
     validate_stable_directory F runtime)))"

definition redact_output :: "string list \<Rightarrow> string \<Rightarrow> string" where
  "redact_output spellings text =
     foldl (\<lambda>t s. str_replace t s ''<private>'') text (sort_key (\<lambda>s. - int (length s)) (filter (\<lambda>s. s \<noteq> []) (remdups spellings)))"

definition launch_call ::
    "host \<Rightarrow> fs \<Rightarrow> project \<Rightarrow> profile \<Rightarrow> run_args \<Rightarrow> stable_directory \<Rightarrow> rtree \<Rightarrow> auth_stage \<Rightarrow> client_call res" where
  "launch_call H F proj P A runtime t a =
     bindE (build_launch H (ra_client A) (sd_path runtime) t (ra_args A)) (\<lambda>spec.
     bindE (prepare_workdir H F (ra_workdir A) (pr_root proj)) (\<lambda>workdir.
     bindE (client_environment H F (ra_client A) P (ba_manifest (ra_base A)) runtime spec (as_binding a)) (\<lambda>env.
     Inr \<lparr>cc_command = command_in (ra_client A) workdir (ls_command spec),
       cc_cwd = (if ra_client A = ''omp'' then sd_path runtime else workdir), cc_env = env, cc_capture = ra_capture A\<rparr>)))"

definition run_checked ::
    "host \<Rightarrow> world \<Rightarrow> project \<Rightarrow> profile \<Rightarrow> val \<Rightarrow> run_args \<Rightarrow> stable_directory \<Rightarrow> client_call \<Rightarrow> (fs, int \<times> client_result) st" where
  "run_checked H W proj P desired A runtime call =
     bindS (readS (\<lambda>F. last_gate H F proj P desired A runtime)) (\<lambda>_.
     bindS (w_run W call) (\<lambda>completed.
     bindS (readS (\<lambda>F. check_profile_environment H F proj P desired (ra_base A) (ra_allow_drift A))) (\<lambda>_.
     readS (\<lambda>_. bindE (someE (invalid ''client runner did not return an integer return code'') (cr_code completed)) (\<lambda>code.
       Inr (code, completed))))))"

definition execute_in ::
    "host \<Rightarrow> world \<Rightarrow> project \<Rightarrow> profile \<Rightarrow> val \<Rightarrow> run_args \<Rightarrow> string \<Rightarrow> path \<Rightarrow> (fs, int \<times> string \<times> string) st" where
  "execute_in H W proj P desired A output_hash root =
     bindS (readS (\<lambda>F. render_tree H F proj (ra_client A) P)) (\<lambda>t.
     bindS (checkS (\<lambda>F. tree_hash H t = output_hash) (invalid ''rendered output drifted after lock verification'')) (\<lambda>_.
     bindS (readS (\<lambda>F. open_stable_directory F root)) (\<lambda>runtime.
     bindS (materialize_tree H (w_staging W) runtime t) (\<lambda>_.
     bindS (enter_auth H (validate_broker_url (w_url_rules W)) (w_observe W) proj (ra_client A) (ra_auth_root A) runtime) (\<lambda>a.
     bindS (readS (\<lambda>F. launch_call H F proj P A runtime t a)) (\<lambda>call.
     bindS (run_checked H W proj P desired A runtime call) (\<lambda>(code, completed).
     bindS (readS (\<lambda>_. path_of_str H (ra_auth_root A))) (\<lambda>auth.
     bindS (readS (\<lambda>F. exit_auth H F a)) (\<lambda>_.
     bindS (readS (\<lambda>F. validate_stable_directory F runtime)) (\<lambda>_.
     let private = abs_str root # abs_str (sd_path runtime) # abs_str auth # ab_private_values (as_binding a) in
     returnS (code, redact_output private (cr_stdout completed), redact_output private (cr_stderr completed))))))))))))"

definition execute_runtime ::
    "host \<Rightarrow> world \<Rightarrow> project \<Rightarrow> profile \<Rightarrow> val \<Rightarrow> run_args \<Rightarrow> (fs, int \<times> string \<times> string) st" where
  "execute_runtime H W proj P desired A =
     bindS (readS (\<lambda>_. locked_tree_hash desired (p_name P) (ra_client A))) (\<lambda>output_hash.
     with_runtime_root H W (ra_client A) (p_name P) (execute_in H W proj P desired A output_hash))"

section \<open>run_client\<close>

definition receipt_payload :: "host \<Rightarrow> string \<Rightarrow> profile \<Rightarrow> val \<Rightarrow> string list \<Rightarrow> int \<Rightarrow> val res" where
  "receipt_payload H client P desired args code =
     bindE (someE (KeyError client) (map_of CLIENT_EXECUTABLES client)) (\<lambda>executable.
     bindE (locked_tree_hash desired (p_name P) client) (\<lambda>output_hash.
     bindE (client_adapter_version client) (\<lambda>adapter.
     Inr (VDict [(''version'', VInt 1), (''client'', VStr client), (''profile'', VStr (p_name P)),
       (''executable'', VStr executable), (''exit_code'', VInt code),
       (''forwarded_argument_count'', VInt (int (length args))), (''inventory'', profile_inventory P),
       (''lock_hash'', VStr (digest H desired)), (''output_tree_hash'', VStr output_hash),
       (''adapter_version'', VInt adapter), (''temporary_root_removed'', VBool True)]))))"

definition exit_status :: "int \<Rightarrow> int" where
  "exit_status code = (if code \<ge> 0 then code else 128 + abs code)"

text \<open>The operator's answer to active drift: \<open>None\<close> when standard input is no terminal.\<close>

definition confirm_drift :: "string list \<Rightarrow> string option \<Rightarrow> unit res" where
  "confirm_drift active answer =
     (if active = [] then Inr ()
      else case answer of
        None \<Rightarrow> Inl (invalid ''active machine-context drift blocks non-interactive launch'')
      | Some s \<Rightarrow> raise_if (s \<noteq> ''continue'') (invalid ''interactive launch cancelled''))"

definition launch_gate ::
    "host \<Rightarrow> fs \<Rightarrow> world \<Rightarrow> path \<Rightarrow> path option \<Rightarrow> string \<Rightarrow> run_args \<Rightarrow> string option \<Rightarrow> (project \<times> profile \<times> val) res" where
  "launch_gate H F W root overlay nm A answer =
     bindE (prepare_execution H F (w_git W) root overlay (ra_client A) nm (ra_args A) (ra_base A) True) (\<lambda>(proj, P, desired).
     if \<not> profile_uses_real_home P then Inr (proj, P, desired)
     else
     bindE (someE (RuntimeError ''assertion'') (ba_manifest (ra_base A))) (\<lambda>m.
     bindE (someE (RuntimeError ''assertion'') (ba_pin (ra_base A))) (\<lambda>n.
     bindE (base_state H F m n) (\<lambda>(_, active, _).
     bindE (confirm_drift active answer) (\<lambda>_. Inr (proj, P, desired))))))"

definition on_fs :: "(fs, 'a) st \<Rightarrow> (rstate, 'a) st" where
  "on_fs m = (\<lambda>S. case m (rs_fs S) of (r, F) \<Rightarrow> (r, S\<lparr>rs_fs := F\<rparr>))"

text \<open>The \<open>try\<close> block and its \<open>finally\<close> clause: the receipt is removed unless it was committed.\<close>

definition releasing :: "receipt_reservation \<Rightarrow> (rstate, 'a) st \<Rightarrow> (rstate, 'a) st" where
  "releasing r body = (\<lambda>S. case body S of (res, T) \<Rightarrow>
     (case release_receipt r (isl res) T of
        (Inl e, U) \<Rightarrow> (Inl e, U)
      | (Inr _, U) \<Rightarrow> (res, U)))"

definition committing ::
    "host \<Rightarrow> world \<Rightarrow> (string \<Rightarrow> nat) \<Rightarrow> project \<Rightarrow> profile \<Rightarrow> val \<Rightarrow> run_args \<Rightarrow> receipt_reservation \<Rightarrow> (rstate, int) st" where
  "committing H W os_write proj P desired A r =
     bindS (on_fs (execute_runtime H W proj P desired A)) (\<lambda>(code, _, _).
     bindS (readS (\<lambda>_. receipt_payload H (ra_client A) P desired (ra_args A) code)) (\<lambda>payload.
     bindS (commit_receipt os_write r (canonical_json payload)) (\<lambda>_.
     returnS (exit_status code))))"

definition run_with_receipt ::
    "host \<Rightarrow> world \<Rightarrow> (string \<Rightarrow> nat) \<Rightarrow> project \<Rightarrow> profile \<Rightarrow> val \<Rightarrow> run_args \<Rightarrow> string \<Rightarrow> (rstate, int) st" where
  "run_with_receipt H W os_write proj P desired A receipt =
     bindS (reading (\<lambda>F. prepare_receipt_path H F receipt)) (\<lambda>target.
     bindS (reserve_receipt H proj target None) (\<lambda>r.
     releasing r (committing H W os_write proj P desired A r)))"

text \<open>The exit status, and what goes to standard output when no receipt path is given.\<close>

definition run_client ::
    "host \<Rightarrow> world \<Rightarrow> (string \<Rightarrow> nat) \<Rightarrow> path \<Rightarrow> path option \<Rightarrow> string \<Rightarrow> run_args \<Rightarrow> string option \<Rightarrow> string option
      \<Rightarrow> (rstate, int \<times> string) st" where
  "run_client H W os_write root overlay nm A answer receipt =
     bindS (reading (\<lambda>F. launch_gate H F W root overlay nm A answer)) (\<lambda>(proj, P, desired).
     case receipt of
       Some path \<Rightarrow> bindS (run_with_receipt H W os_write proj P desired A path) (\<lambda>status. returnS (status, []))
     | None \<Rightarrow>
         bindS (on_fs (execute_runtime H W proj P desired A)) (\<lambda>(code, _, _).
         bindS (readS (\<lambda>_. receipt_payload H (ra_client A) P desired (ra_args A) code)) (\<lambda>payload.
         returnS (exit_status code, canonical_json payload))))"

section \<open>Forwarded arguments\<close>

lemma forwarded_key_eq: "CHR ''='' \<notin> set f \<Longrightarrow> forwarded_key a = f \<longleftrightarrow> a = f \<or> prefix (f @ ''='') a"
proof (induction a arbitrary: f)
  case (Cons x a)
  then show ?case by (cases f) (auto simp: forwarded_key_def)
qed (auto simp: forwarded_key_def)

lemma forbidden_without_equals:
  "list_all (\<lambda>(_, fs). list_all (\<lambda>f. CHR ''='' \<notin> set f) fs) FORBIDDEN_CLIENT_ARGUMENTS"
  by code_simp

lemma may_override_iff:
  assumes "map_of FORBIDDEN_CLIENT_ARGUMENTS client = Some forbidden"
  shows "may_override forbidden starts a \<longleftrightarrow>
    (\<exists>f \<in> set forbidden. a = f \<or> prefix (f @ ''='') a) \<or> (\<exists>s \<in> set starts. prefix s a)"
proof -
  have "\<forall>f \<in> set forbidden. CHR ''='' \<notin> set f"
    using forbidden_without_equals map_of_SomeD [OF assms] by (fastforce simp: list_all_iff)
  then have "forwarded_key a \<in> set forbidden \<longleftrightarrow> (\<exists>f \<in> set forbidden. a = f \<or> prefix (f @ ''='') a)"
    using forwarded_key_eq by metis
  then show ?thesis by (auto simp: may_override_def list_ex_iff)
qed

lemma validate_forwarded_args_Inr:
  "validate_forwarded_args client args = Inr () \<longleftrightarrow>
     (\<exists>forbidden starts. map_of FORBIDDEN_CLIENT_ARGUMENTS client = Some forbidden
        \<and> map_of FORBIDDEN_CLIENT_ARGUMENT_PREFIXES client = Some starts
        \<and> (\<forall>a \<in> set args. CHR 0x00 \<notin> set a \<and> \<not> may_override forbidden starts a))"
  by (auto simp: validate_forwarded_args_def forE_Inr raise_if_Inr split: option.splits if_splits)

section \<open>The environment the client gets\<close>

lemma map_of_pops: "map_of (foldl (\<lambda>e n. dict_pop n e) env ns) k = (if k \<in> set ns then None else map_of env k)"
  by (induction ns arbitrary: env) auto

lemma map_of_blanks: "map_of (foldl (\<lambda>e n. dict_set n v e) env ns) k = (if k \<in> set ns then Some v else map_of env k)"
  by (induction ns arbitrary: env) auto

lemma map_of_dict_update: "map_of (dict_update d e) k = (case map_of (rev e) k of Some v \<Rightarrow> Some v | None \<Rightarrow> map_of d k)"
proof (induction e rule: rev_induct)
  case (snoc x e)
  then show ?case by (cases x) (simp add: dict_update_def)
qed (simp add: dict_update_def)

lemma ambient_credentials_blank:
  assumes "n \<in> set OMP_AMBIENT_AUTH_ENV \<or> is_ambient_credential_name n"
  shows "map_of (blanked env) n \<in> {None, Some []}"
proof (cases "n \<in> set (blank_names env)")
  case True
  then show ?thesis by (simp add: blanked_def map_of_blanks)
next
  case False
  then have "n \<notin> set (keys env)" using assms by (simp add: blank_names_def)
  then show ?thesis using False by (simp add: blanked_def map_of_blanks map_of_eq_None_iff set_keys)
qed

lemma client_environment_Inr:
  assumes "client_environment H F client P mp rt spec auth = Inr env"
    and "n \<notin> set (keys (ls_environment spec))" and "n \<notin> set (keys (ab_environment auth))"
  shows "n \<in> set AMBIENT_CONFIG_ENV \<Longrightarrow> n \<notin> {''HOME'', ''PI_AUTH_NO_BORROW'', ''AWS_EC2_METADATA_DISABLED''} \<Longrightarrow> map_of env n \<in> {None, Some []}"
    and "client = ''omp'' \<Longrightarrow> n \<in> set OMP_AMBIENT_AUTH_ENV \<or> is_ambient_credential_name n \<Longrightarrow>
      n \<notin> {''HOME'', ''PI_AUTH_NO_BORROW'', ''AWS_EC2_METADATA_DISABLED''} \<Longrightarrow> map_of env n \<in> {None, Some []}"
    and "client \<noteq> ''omp'' \<Longrightarrow> map_of env n = map_of (scrubbed_environment H) n"
proof -
  have up: "map_of (dict_update (dict_update e (ls_environment spec)) (ab_environment auth)) n = map_of e n" for e
  proof -
    have "map_of (rev (ls_environment spec)) n = None" "map_of (rev (ab_environment auth)) n = None"
      using assms(2,3) by (simp_all add: map_of_eq_None_iff set_keys)
    then show ?thesis by (simp add: map_of_dict_update)
  qed
  have scr: "map_of (scrubbed_environment H) n = (if n \<in> set AMBIENT_CONFIG_ENV then None else map_of (environ H) n)"
    by (simp add: scrubbed_environment_def map_of_pops)
  obtain e where env: "env = dict_update (dict_update e (ls_environment spec)) (ab_environment auth)"
    and e: "(client = ''omp'' \<and> (\<exists>home. e = omp_environment home (scrubbed_environment H))) \<or> (client \<noteq> ''omp'' \<and> e = scrubbed_environment H)"
    using assms(1) by (auto simp: client_environment_def elim!: stepsE split: if_splits)
  show "map_of env n \<in> {None, Some []}" if "n \<in> set AMBIENT_CONFIG_ENV" "n \<notin> {''HOME'', ''PI_AUTH_NO_BORROW'', ''AWS_EC2_METADATA_DISABLED''}"
    using e that scr by (auto simp: env up omp_environment_def blanked_def map_of_blanks)
  show "map_of env n \<in> {None, Some []}" if "client = ''omp''" "n \<in> set OMP_AMBIENT_AUTH_ENV \<or> is_ambient_credential_name n"
      "n \<notin> {''HOME'', ''PI_AUTH_NO_BORROW'', ''AWS_EC2_METADATA_DISABLED''}"
    using e that(1,3) ambient_credentials_blank [OF that(2), of "scrubbed_environment H"]
    by (auto simp: env up omp_environment_def)
  show "map_of env n = map_of (scrubbed_environment H) n" if "client \<noteq> ''omp''"
    using e that by (simp add: env up)
qed

lemma launch_keeps_args:
  assumes "build_launch H client root t args = Inr spec"
  shows "suffix args (command_in client workdir (ls_command spec))"
  using assms
  by (auto simp: build_launch_def codex_launch_def qoder_launch_def omp_launch_def command_in_def suffix_def
      elim!: stepsE split: if_splits)

section \<open>The runtime root\<close>

lemma make_dirs_present: "dirs F d \<Longrightarrow> make_dirs H d F = (Inr (), F)"
  using mkdirs_dirs [of F "[]" d] by (simp add: make_dirs_def)

lemma with_staging_removed:
  assumes "with_staging H (d @ [nm]) body F = (res, F')" and "dirs F d"
    and "\<And>q. prefix (d @ [nm]) q \<Longrightarrow> node_at F q = None"
  shows "prefix (d @ [nm]) q \<Longrightarrow> node_at F' q = None"
  using assms canonical_resolve [OF dirs_canonical [OF assms(2)]]
  by (auto simp: with_staging_def Let_def parent_def name_of_def remove_tree_at split: if_splits prod.splits)

definition runtime_parent :: "host \<Rightarrow> path" where
  "runtime_parent H = home_dir H @ [''.agent-system-state'', ''tmp'']"

definition runtime_root_name :: "world \<Rightarrow> string \<Rightarrow> string \<Rightarrow> string" where
  "runtime_root_name W client nm = ''profile-'' @ client @ ''-'' @ nm @ ''-'' @ w_runtime_name W"

lemma execute_runtime_removes_root:
  assumes "execute_runtime H W proj P desired A F = (res, F')" and "dirs F (runtime_parent H)"
    and "\<And>q. prefix (runtime_parent H @ [runtime_root_name W (ra_client A) (p_name P)]) q \<Longrightarrow> node_at F q = None"
  shows "prefix (runtime_parent H @ [runtime_root_name W (ra_client A) (p_name P)]) q \<Longrightarrow> node_at F' q = None"
proof -
  let ?root = "runtime_parent H @ [runtime_root_name W (ra_client A) (p_name P)]"
  have eq: "with_runtime_root H W (ra_client A) (p_name P) body F = with_staging H ?root (body ?root) F" for body :: "path \<Rightarrow> (fs, int \<times> string \<times> string) st"
    using make_dirs_present [OF assms(2)]
    by (simp add: with_runtime_root_def Let_def bindS_def runtime_parent_def runtime_root_name_def)
  show "prefix ?root q \<Longrightarrow> node_at F' q = None"
  proof (cases "locked_tree_hash desired (p_name P) (ra_client A)")
    case (Inr h)
    then have "with_staging H ?root (execute_in H W proj P desired A h ?root) F = (res, F')"
      using assms(1) eq by (simp add: execute_runtime_def bindS_def readS_def)
    then show "prefix ?root q \<Longrightarrow> node_at F' q = None" using with_staging_removed assms(2,3) by blast
  qed (use assms(1,3) in \<open>simp add: execute_runtime_def bindS_def readS_def\<close>)
qed

text \<open>A run that succeeds has started exactly one client, from the checked tree, at a moment when
  every gate passed.\<close>

lemma execute_runtime_Inr:
  assumes "execute_runtime H W proj P desired A F = (Inr (code, out, err), F')"
  shows "\<exists>F1 F2 runtime t a call completed. locked_tree_hash desired (p_name P) (ra_client A) = Inr (tree_hash H t)
     \<and> launch_call H F1 proj P A runtime t a = Inr call \<and> last_gate H F1 proj P desired A runtime = Inr ()
     \<and> w_run W call F1 = (Inr completed, F2) \<and> cr_code completed = Some code
     \<and> (\<exists>notes. check_profile_environment H F2 proj P desired (ra_base A) (ra_allow_drift A) = Inr notes)"
proof -
  obtain h root F0 F3 where h: "locked_tree_hash desired (p_name P) (ra_client A) = Inr h"
    and b: "execute_in H W proj P desired A h root F0 = (Inr (code, out, err), F3)"
    using assms unfolding execute_runtime_def with_runtime_root_def Let_def with_staging_def
    by (elim bindS_E) (auto split: option.splits if_splits prod.splits)
  obtain t F1 runtime a call completed F2 where t: "tree_hash H t = h"
    and c: "launch_call H F1 proj P A runtime t a = Inr call" "run_checked H W proj P desired A runtime call F1 = (Inr (code, completed), F2)"
    using b unfolding execute_in_def Let_def
    by (elim bindS_E) (auto simp: checkS_def raise_if_Inr bindS_Inr)
  moreover from c(2) have "last_gate H F1 proj P desired A runtime = Inr ()" "w_run W call F1 = (Inr completed, F2)" "cr_code completed = Some code"
    "\<exists>notes. check_profile_environment H F2 proj P desired (ra_base A) (ra_allow_drift A) = Inr notes"
    unfolding run_checked_def by (auto simp: bindS_Inr someE_Inr elim!: stepsE)
  ultimately show ?thesis using h by blast
qed

section \<open>The receipt of a run\<close>

lemma walk_del: "walk n (del_node q F) cur ps = Some r \<Longrightarrow> walk n F cur ps = Some r"
  by (induction n F cur ps rule: walk.induct)
    (auto split: if_splits option.splits node.splits nat.splits)

lemma unlinked_gone:
  assumes "p \<noteq> []" and "last p \<noteq> ''..''" and "lstat (unlink_reserved_receipt p ident F) p = Some nd"
  shows "node_identity nd \<noteq> ident"
proof (cases "lstat F p")
  case (Some nd0)
  then obtain d where d: "resolve F (butlast p) = Some d" "node_at F (d @ [last p]) = Some nd0"
    using assms(1,2) by (auto simp: lstat_def bind_eq_Some_conv)
  show ?thesis
  proof (cases "node_identity nd0 = ident")
    case True
    then have u: "unlink_reserved_receipt p ident F = del_node (d @ [last p]) F"
      using Some d(1) assms(1) by (simp add: unlink_reserved_receipt_def parent_def name_of_def same_file_identity_def)
    obtain d' where "resolve (del_node (d @ [last p]) F) (butlast p) = Some d'" "node_at (del_node (d @ [last p]) F) (d' @ [last p]) = Some nd"
      using assms unfolding u by (auto simp: lstat_def bind_eq_Some_conv)
    moreover from this(1) have "resolve F (butlast p) = Some d'" unfolding resolve_def by (rule walk_del)
    then have "d' = d" using d(1) by simp
    ultimately show ?thesis by simp
  next
    case False
    then have "unlink_reserved_receipt p ident F = F"
      by (simp add: unlink_reserved_receipt_def same_file_identity_def Some split: option.splits)
    then show ?thesis using assms(3) Some False by simp
  qed
qed (use assms(3) in \<open>simp add: unlink_reserved_receipt_def\<close>)

lemma reserve_receipt_open:
  assumes "reserve_receipt H proj p dir S = (Inl e, S0)"
  shows "rs_open S0 = rs_open S"
proof -
  have "create_receipt H p ident S = (Inl e, S0) \<Longrightarrow> rs_open S0 = rs_open S" for ident
    by (auto simp: create_receipt_def Let_def fstat_def split: if_splits option.splits prod.splits)
  then show ?thesis
    using assms by (auto simp: reserve_receipt_def reading_def bindS_def readS_def split: sum.splits prod.splits)
qed

lemma committing_open: "committing H W os_write proj P desired A r S = (res, T) \<Longrightarrow> rs_open T = rs_open S"
  by (auto simp: committing_def bindS_def readS_def returnS_def on_fs_def split: sum.splits prod.splits
      dest: commit_receipt_keeps(2))

lemma committing_Inr:
  assumes "committing H W os_write proj P desired A r S = (Inr status, T)"
  shows "\<exists>code payload m. status = exit_status code \<and> receipt_payload H (ra_client A) P desired (ra_args A) code = Inr payload
     \<and> lstat (rs_fs T) (rr_path r) = Some (NFile m (canonical_json payload)) \<and> (st_dev m, st_ino m) = rr_ident r"
  using assms unfolding committing_def
  by (elim bindS_E) (fastforce simp: bindS_Inr dest: commit_receipt_Inr(1))

lemma released_run:
  assumes "releasing r body S = (res, U)" and "rs_open (snd (body S)) = (rr_descriptor r, rr_ident r) # table"
    and "rr_descriptor r \<notin> set (keys table)"
  shows "res = fst (body S)" and "rs_open U = table"
    and "rs_fs U = (if isl res then unlink_reserved_receipt (rr_path r) (rr_ident r) (rs_fs (snd (body S))) else rs_fs (snd (body S)))"
  using assms dict_pop_absent [OF assms(3)]
  by (auto simp: releasing_def release_receipt_def split: prod.splits if_splits)

end
