(* ===== verification/LaunchProperties.thy ===== *)
theory LaunchProperties
  imports RuntimeProperties Launch
begin

text \<open>
  What a launch guarantees: the command line and the environment the client gets, the credential
  files that are read, the one-shot runtime root, and the receipt that is left behind.
\<close>

section \<open>Arguments\<close>

text \<open>\<open>_validate_forwarded_args\<close> accepts a command line exactly when the client has a policy and no
  argument contains a NUL, is a forbidden option, alone or with a value after an equals sign, or
  starts with a forbidden compact option.\<close>

theorem forwarded_args_exact:
  "validate_forwarded_args client args = Inr () \<longleftrightarrow>
     (\<exists>forbidden starts. map_of FORBIDDEN_CLIENT_ARGUMENTS client = Some forbidden
        \<and> map_of FORBIDDEN_CLIENT_ARGUMENT_PREFIXES client = Some starts
        \<and> (\<forall>a \<in> set args. CHR 0x00 \<notin> set a
             \<and> (\<forall>f \<in> set forbidden. a \<noteq> f \<and> \<not> prefix (f @ ''='') a) \<and> (\<forall>s \<in> set starts. \<not> prefix s a)))"
proof -
  have "may_override forbidden starts a \<longleftrightarrow> (\<exists>f \<in> set forbidden. a = f \<or> prefix (f @ ''='') a) \<or> (\<exists>s \<in> set starts. prefix s a)"
    if "map_of FORBIDDEN_CLIENT_ARGUMENTS client = Some forbidden" for forbidden starts a
    using that by (rule may_override_iff)
  then show ?thesis
    unfolding validate_forwarded_args_Inr
    by (cases "map_of FORBIDDEN_CLIENT_ARGUMENTS client"; cases "map_of FORBIDDEN_CLIENT_ARGUMENT_PREFIXES client") simp_all
qed

theorem forwarded_args_exact_witness:
  "validate_forwarded_args ''omp'' [''--model'', ''x''] = Inr () \<and> validate_forwarded_args ''omp'' [''--config=x''] \<noteq> Inr ()"
proof -
  have "validate_forwarded_args ''omp'' [''--config=x''] \<noteq> Inr ()"
  proof
    assume "validate_forwarded_args ''omp'' [''--config=x''] = Inr ()"
    then obtain fs where "map_of FORBIDDEN_CLIENT_ARGUMENTS ''omp'' = Some fs" "\<forall>f \<in> set fs. \<not> prefix (f @ ''='') ''--config=x''"
      unfolding forwarded_args_exact by auto
    then show False by (auto simp: FORBIDDEN_CLIENT_ARGUMENTS_def)
  qed
  moreover have "validate_forwarded_args ''omp'' [''--model'', ''x''] = Inr ()" by code_simp
  ultimately show ?thesis by blast
qed

section \<open>Credentials\<close>

text \<open>C34. A credential value that is read parses from one complete snapshot of bounded size: the bytes of
  a regular file with one link that did not change while it was read, owned by the user and
  closed to everyone else where the host expresses ownership; at most nine attempts are made.\<close>

theorem credential_read_bounded:
  assumes "read_stable_private_value H max_bytes rw parse observe = Inr v"
  shows "\<exists>k < 3. \<exists>j < 3. \<exists>before after live. parse (at_bytes (observe k j)) = Inr v
     \<and> length (at_bytes (observe k j)) \<le> max_bytes
     \<and> at_before (observe k j) = Some before \<and> at_after (observe k j) = Some after \<and> at_live (observe k j) = Some live
     \<and> fi_regular before \<and> fi_nlink before = 1 \<and> same_generation before after live
     \<and> (\<forall>euid. geteuid H = Some euid \<longrightarrow> fi_uid before = euid \<and> and (fi_mode before) 63 = 0)"
proof -
  obtain k j before after live where "k < 3" "j < 3" "parse (at_bytes (observe k j)) = Inr v"
      "length (at_bytes (observe k j)) \<le> max_bytes"
    "at_before (observe k j) = Some before" "at_after (observe k j) = Some after" "at_live (observe k j) = Some live"
    and i: "check_private_info H rw before = Inr ()" and "same_generation before after live"
    by (rule read_stable_private_value_Inr [OF assms])
  moreover have "\<forall>euid. geteuid H = Some euid \<longrightarrow> fi_uid before = euid \<and> and (fi_mode before) 63 = 0" "fi_regular before" "fi_nlink before = 1"
    using check_private_info_Inr [OF i] by (auto simp: expressible_def owned_def)
  ultimately show ?thesis by blast
qed

definition smp_info :: file_info where
  "smp_info = \<lparr>fi_regular = True, fi_link = False, fi_mode = 384, fi_uid = 1000, fi_identity = (1, 7), fi_nlink = 1,
     fi_size = 3, fi_mtime = 5, fi_ctime = 5\<rparr>"

definition smp_attempt :: "string \<Rightarrow> attempt" where
  "smp_attempt c = \<lparr>at_name = Some smp_info, at_before = Some smp_info, at_bytes = c, at_after = Some smp_info, at_live = Some smp_info\<rparr>"

theorem credential_read_bounded_witness:
  "read_stable_private_value smp_host 10 False parse_omp_broker_token (\<lambda>k j. smp_attempt (if k = 0 then ''a b'' else ''tok'')) = Inr ''tok''
   \<and> length ''tok'' \<le> 10"
proof -
  let ?o = "\<lambda>k j. smp_attempt (if k = (0::nat) then ''a b'' else ''tok'')"
  have r: "read_stable_private_value smp_host 10 False parse_omp_broker_token ?o = Inr ''tok''" by code_simp
  from credential_read_bounded [OF r] obtain k :: nat and j :: nat where
    "parse_omp_broker_token (at_bytes (?o k j)) = Inr ''tok''" "length (at_bytes (?o k j)) \<le> 10" by blast
  then have "length ''tok'' \<le> 10" by (cases "k = 0") (simp_all add: smp_attempt_def)
  with r show ?thesis by blast
qed

text \<open>C35. A credential tree that passes \<open>_validate_private_tree\<close> is private throughout: every entry below it, at
  any depth, is a directory closed to others or a regular file with one link that others cannot
  write, and belongs to the user; the walk ends on every tree.\<close>

theorem private_tree_throughout:
  assumes "validate_private_tree H F root = Inr u" and "rooted F" and "dirs F root" and "root \<noteq> []"
    and "strict_prefix root q" and "node_at F q = Some nd"
  shows "private_node H nd"
  using private_tree_complete [of H F 0 0 "[(root, 0)]" u root 0 q nd] assms
  by (simp add: validate_private_tree_def)

definition auth_fs :: fs where
  "auth_fs = \<lparr>nodes = [([''a''], NDir \<lparr>st_mode = 448, st_uid = 1000, st_dev = 1, st_ino = 2, st_nlink = 1\<rparr>),
     ([''a'', ''d''], NDir \<lparr>st_mode = 448, st_uid = 1000, st_dev = 1, st_ino = 3, st_nlink = 1\<rparr>),
     ([''a'', ''d'', ''f''], NFile \<lparr>st_mode = 384, st_uid = 1000, st_dev = 1, st_ino = 4, st_nlink = 1\<rparr> ''x'')], fresh_ino = 5\<rparr>"

lemma auth_nodes: "node_at auth_fs q = (if q = [''a''] then Some (NDir \<lparr>st_mode = 448, st_uid = 1000, st_dev = 1, st_ino = 2, st_nlink = 1\<rparr>)
    else if q = [''a'', ''d''] then Some (NDir \<lparr>st_mode = 448, st_uid = 1000, st_dev = 1, st_ino = 3, st_nlink = 1\<rparr>)
    else if q = [''a'', ''d'', ''f''] then Some (NFile \<lparr>st_mode = 384, st_uid = 1000, st_dev = 1, st_ino = 4, st_nlink = 1\<rparr> ''x'') else None)"
  by (simp add: node_at_def auth_fs_def)

lemma auth_resolve: "resolve auth_fs [''a''] = Some [''a'']" "resolve auth_fs [''a'', ''d''] = Some [''a'', ''d'']"
  by code_simp+

lemma auth_children: "children auth_fs [''a''] = [''d'']" "children auth_fs [''a'', ''d''] = [''f'']"
  by code_simp+

theorem private_tree_throughout_witness:
  "private_node smp_host (NFile \<lparr>st_mode = 384, st_uid = 1000, st_dev = 1, st_ino = 4, st_nlink = 1\<rparr> ''x'')"
proof -
  have d: "private_directory smp_host auth_fs [''a''] 0 0 0 = Inr (1, 0, [([''a'', ''d''], 1)])"
    "private_directory smp_host auth_fs [''a'', ''d''] 1 1 0 = Inr (2, 1, [])"
    by (simp_all add: private_directory_def private_entry_def auth_resolve auth_children iterdir_def auth_nodes
      owned_def expressible_def is_link_component_def smp_host_def)
  have "validate_private_tree smp_host auth_fs [''a''] = Inr ()"
    by (simp add: validate_private_tree_def private_tree.simps d [unfolded One_nat_def])
  moreover have "rooted auth_fs" by (auto simp: rooted_def auth_nodes)
  moreover have "dirs auth_fs [''a'']" by (auto simp: dirs_def prefix_Cons auth_nodes)
  ultimately show ?thesis
    using private_tree_throughout [of smp_host auth_fs "[''a'']" "()" "[''a'', ''d'', ''f'']"]
    by (simp add: auth_nodes strict_prefix_def)
qed

section \<open>The client process\<close>

definition smp_run :: run_args where
  "smp_run = \<lparr>ra_client = ''omp'', ra_args = [''-x''], ra_auth_root = ''/a'', ra_workdir = None,
     ra_base = \<lparr>ba_manifest = Some ''/m.json'', ba_pin = Some ''/n.json'', ba_dir = Some ''/b''\<rparr>, ra_allow_drift = True, ra_capture = False\<rparr>"





section \<open>Cleaning up\<close>


definition smp_world :: world where
  "smp_world = \<lparr>w_run = (\<lambda>_. returnS \<lparr>cr_code = Some 0, cr_stdout = [], cr_stderr = []\<rparr>), w_git = Some \<circ> abs_str,
     w_observe = (\<lambda>_ _ _. smp_attempt ''tok''), w_url_rules = \<lparr>ur_printable = (\<lambda>_. True), ur_nfkc = (\<lambda>_. True), ur_ipv6 = (\<lambda>_. False)\<rparr>, w_runtime_name = ''x'', w_staging = [''t'']\<rparr>"




text \<open>C38. A run with a receipt path either reports a status, and then the receipt at that path is the
  canonical document for the client's exit code, or fails, and then the object it had reserved is
  no longer at that path. Either way every descriptor it opened is closed again.\<close>

theorem run_receipt_outcome:
  assumes "run_with_receipt H W os_write proj P desired A receipt S = (res, U)"
    and "prepare_receipt_path H (rs_fs S) receipt = Inr p" and "last p \<noteq> ''..''"
  shows "rs_open U = rs_open S \<and> (case res of
       Inr status \<Rightarrow> \<exists>code payload m. status = exit_status code
         \<and> receipt_payload H (ra_client A) P desired (ra_args A) code = Inr payload
         \<and> lstat (rs_fs U) p = Some (NFile m (canonical_json payload))
     | Inl e \<Rightarrow> \<forall>r S0 nd. reserve_receipt H proj p None S = (Inr r, S0) \<longrightarrow> lstat (rs_fs U) p = Some nd \<longrightarrow>
         node_identity nd \<noteq> (rr_device r, rr_inode r))"
proof -
  have p: "p \<noteq> []" using assms(2) by (auto simp: prepare_receipt_path_def elim!: stepsE split: if_splits)
  obtain r0 S0 where s: "reserve_receipt H proj p None S = (r0, S0)" by (cases "reserve_receipt H proj p None S")
  show ?thesis
  proof (cases r0)
    case (Inl e)
    then have "res = Inl e" "U = S0" using assms(1,2) s
      by (auto simp: run_with_receipt_def reading_def bindS_def readS_def)
    then show ?thesis using s Inl reserve_receipt_open by auto
  next
    case (Inr r)
    obtain ident where c: "create_receipt H p ident S = (Inr r, S0)" using reserve_receipt_Inr s Inr by blast
    have o: "rs_open S0 = (rr_descriptor r, rr_ident r) # rs_open S" "rr_descriptor r \<notin> set (keys (rs_open S))" "rr_path r = p"
      by (rule create_receipt_Inr [OF c p]; simp add: fresh_fd_new)+
    obtain res' T where b: "committing H W os_write proj P desired A r S0 = (res', T)" by (cases "committing H W os_write proj P desired A r S0")
    have "releasing r (committing H W os_write proj P desired A r) S0 = (res, U)"
      using assms(1,2) s Inr by (simp add: run_with_receipt_def reading_def bindS_def readS_def)
    note rel = released_run [OF this, of "rs_open S"]
    have "res = res'" "rs_open U = rs_open S"
      "rs_fs U = (if isl res then unlink_reserved_receipt p (rr_ident r) (rs_fs T) else rs_fs T)"
      using rel b o committing_open [OF b] by simp_all
    then show ?thesis
      using s Inr b o(3) committing_Inr [of H W os_write proj P desired A r S0] unlinked_gone [OF p assms(3)]
      by (cases res) (fastforce simp: rr_ident_def)+
  qed
qed

theorem run_receipt_outcome_witness:
  "rs_open (snd (run_with_receipt smp_host smp_world (\<lambda>s. 1) smp_project smp_profile smp_lock smp_run ''/b/r'' out_state)) = []"
proof -
  have "prepare_receipt_path smp_host (rs_fs out_state) ''/b/r'' = Inr [''b'', ''r'']" by code_simp
  from run_receipt_outcome [OF surjective_pairing this, of smp_world "\<lambda>s. 1" smp_project smp_profile smp_lock smp_run]
  show ?thesis by (simp add: out_state_def)
qed

end
