(* ===== verification/Observe.thy ===== *)
theory Observe
  imports Launch
begin

text \<open>
  Looking at roles and runs: \<open>list\<close>, \<open>explain\<close>, \<open>probe\<close> (the configured plane), \<open>run\<close> with the self-report
  of the client (the effective plane) and \<open>diff\<close>, which compares both. What the commands print
  besides documents is left out.
\<close>

section \<open>list and explain\<close>

definition locked_project :: "host \<Rightarrow> fs \<Rightarrow> path \<Rightarrow> path option \<Rightarrow> (project \<times> val) res" where
  "locked_project H F root overlay =
     bindE (load_project H F root overlay) (\<lambda>proj.
     bindE (check_project_pollution F (pr_root proj)) (\<lambda>_.
     bindE (desired_lock H F proj) (\<lambda>desired.
     bindE (verify_lock F proj desired) (\<lambda>_.
     bindE (verify_evidence H F proj desired) (\<lambda>_.
     Inr (proj, desired))))))"

definition list_profiles :: "host \<Rightarrow> fs \<Rightarrow> path \<Rightarrow> path option \<Rightarrow> string list res" where
  "list_profiles H F root overlay =
     bindE (locked_project H F root overlay) (\<lambda>(proj, _). Inr (sort (keys (pr_profiles proj))))"

definition role_item :: "val \<Rightarrow> string \<Rightarrow> string \<Rightarrow> val res" where
  "role_item desired nm k =
     bindE (role_doc desired nm) (\<lambda>r.
     bindE (someE (TypeError ''role'') (as_dict r)) (\<lambda>d. item d k))"

definition imported_skills_doc :: "project \<Rightarrow> profile \<Rightarrow> val" where
  "imported_skills_doc proj P = VList (map (\<lambda>(_, imp). VDict [(''name'', VStr (imp_name imp)),
       (''source'', VStr (rel_posix (pr_root proj) (imp_source imp)))])
     (filter (\<lambda>(_, imp). imp_name imp \<in> set (p_skills P)) (pr_skill_imports proj)))"

definition overlay_item :: "host \<Rightarrow> project \<Rightarrow> dict res" where
  "overlay_item H proj = (case pr_overlay proj of
       None \<Rightarrow> Inr []
     | Some ov \<Rightarrow> bindE (evidence_root H) (\<lambda>root.
         Inr [(''overlay'', VDict [(''namespace'', VStr (ov_namespace ov)), (''source'', VStr ''explicit-overlay''),
           (''evidence_root'', VStr (abs_str root))])]))"

definition explain_prompt :: "profile \<Rightarrow> string" where
  "explain_prompt P = (case relative_to (p_source_root P) (p_prompt P) of
       Some r \<Rightarrow> posix r
     | None \<Rightarrow> abs_str (p_prompt P))"

definition explain_profile :: "host \<Rightarrow> fs \<Rightarrow> path \<Rightarrow> string \<Rightarrow> path option \<Rightarrow> val res" where
  "explain_profile H F root nm overlay =
     bindE (locked_project H F root overlay) (\<lambda>(proj, desired).
     bindE (select_profile proj nm) (\<lambda>P.
     bindE (if profile_uses_real_home P then Inr () else check_global_pollution H F) (\<lambda>_.
     bindE (role_item desired (p_name P) ''operations'') (\<lambda>operations.
     bindE (role_item desired (p_name P) ''layer_digest'') (\<lambda>layer.
     bindE (role_item desired (p_name P) ''clients'') (\<lambda>clients.
     bindE (overlay_item H proj) (\<lambda>ov.
     Inr (VDict ([(''profile'', VStr (p_name P)), (''extends'', VNone), (''chain'', strs (p_chain P)),
       (''prompt'', VStr (explain_prompt P)), (''operations'', operations), (''inventory'', profile_inventory P),
       (''external_imports'', VList (map external_import_doc (pr_external_imports proj))),
       (''skill_imports'', imported_skills_doc proj P),
       (''evidence'', VDict [(''declared'', VStr ''ok''), (''configured'', VStr ''lock-verified''), (''effective'', VStr ''unknown''),
          (''credential_privacy'', VStr (credential_privacy_evidence H))]),
       (''layer_digest'', layer), (''clients'', clients)] @ ov)))))))))"

section \<open>Self-reports\<close>

definition OBSERVATION_DIMENSIONS :: "string list" where
  "OBSERVATION_DIMENSIONS = [''skills'', ''mcps'', ''context'', ''hooks'', ''plugins'']"

definition REPORT_MARKERS :: "(string \<times> string) list" where
  "REPORT_MARKERS = [(''skills'', ''SKILLS-AVAILABLE''), (''mcps'', ''MCP-AVAILABLE''), (''context'', ''CONTEXT-FILES''),
     (''hooks'', ''HOOKS-AVAILABLE''), (''plugins'', ''PLUGINS-AVAILABLE'')]"

text \<open>\<open>str.splitlines\<close>: the length in bytes of the line boundary a text starts with.\<close>

definition line_break :: "string \<Rightarrow> nat" where
  "line_break s = (case s of
       [] \<Rightarrow> 0
     | c # r \<Rightarrow>
         if c = CHR 0x0D then (if prefix [CHR 0x0A] r then 2 else 1)
         else if byte c \<in> {10, 11, 12, 28, 29, 30} then 1
         else if prefix [CHR 0xC2, CHR 0x85] s then 2
         else if prefix [CHR 0xE2, CHR 0x80, CHR 0xA8] s \<or> prefix [CHR 0xE2, CHR 0x80, CHR 0xA9] s then 3
         else 0)"

fun split_lines :: "nat \<Rightarrow> string \<Rightarrow> string \<Rightarrow> string list" where
  "split_lines n cur [] = (if cur = [] then [] else [cur])"
| "split_lines (Suc n) cur (x # xs) = split_lines n cur xs"
| "split_lines 0 cur (x # xs) = (case line_break (x # xs) of
       0 \<Rightarrow> split_lines 0 (cur @ [x]) xs
     | Suc n \<Rightarrow> cur # split_lines n [] xs)"

definition splitlines :: "string \<Rightarrow> string list" where
  "splitlines s = split_lines 0 [] s"

definition unquote :: "string \<Rightarrow> string" where
  "unquote s = strip_by (\<lambda>c. c = CHR 0x60) s"

text \<open>The text after the marker, when a line carries it.\<close>

definition report_body :: "string \<Rightarrow> string \<Rightarrow> string option" where
  "report_body marker line =
     (let candidate = strip (unquote (strip (lstrip_by (\<lambda>c. c \<in> {CHR ''+'', CHR ''-''}) (strip line)))) in
      if prefix (marker @ '':'') (upper candidate)
      then Some (strip (unquote (strip (tl (dropWhile (\<lambda>c. c \<noteq> CHR '':'') candidate))))) else None)"

fun first_report :: "string \<Rightarrow> string list \<Rightarrow> string option" where
  "first_report marker [] = None"
| "first_report marker (l # ls) = (case report_body marker l of Some b \<Rightarrow> Some b | None \<Rightarrow> first_report marker ls)"

definition unknown_words :: "string list" where
  "unknown_words = [''unknown'', [CHR 0xE6, CHR 0x9C, CHR 0xAA, CHR 0xE7, CHR 0x9F, CHR 0xA5]]"

definition none_words :: "string list" where
  "none_words = [''none'', [CHR 0xE6, CHR 0x97, CHR 0xA0], []]"

definition report_items :: "string \<Rightarrow> string list" where
  "report_items body = map (\<lambda>i. unquote (strip i)) (filter (\<lambda>i. strip i \<noteq> []) (split_on CHR '','' body))"

definition parse_reported :: "string \<Rightarrow> string \<Rightarrow> string list option" where
  "parse_reported text marker = (case first_report marker (rev (splitlines text)) of
       None \<Rightarrow> None
     | Some body \<Rightarrow>
         if casefold body \<in> set unknown_words then None
         else if casefold body \<in> set none_words then Some []
         else Some (report_items body))"

section \<open>The declared and the configured plane\<close>

definition declared_context :: "project \<Rightarrow> string \<Rightarrow> string list" where
  "declared_context proj client = abs_str (pr_root proj @ [''AGENTS.md'']) # (if client = ''codex'' then [''<runtime>/AGENTS.md''] else [])"

definition declared_snapshot :: "host \<Rightarrow> project \<Rightarrow> string \<Rightarrow> profile \<Rightarrow> val \<Rightarrow> dict res" where
  "declared_snapshot H proj client P desired =
     bindE (client_adapter_version client) (\<lambda>adapter.
     bindE (locked_tree_hash desired (p_name P) client) (\<lambda>th.
     bindE (someE (TypeError ''lock'') (as_dict desired)) (\<lambda>d.
     bindE (item d ''capability_semantics'') (\<lambda>semantics.
     Inr [(''version'', VInt 1), (''client'', VStr client), (''profile'', VStr (p_name P)),
       (''renderer_version'', VStr RENDERER_VERSION), (''adapter_version'', VInt adapter),
       (''lock_hash'', VStr (digest H desired)), (''output_tree_hash'', VStr th), (''inventory'', profile_inventory P),
       (''external_imports'', VList (map external_import_doc (pr_external_imports proj))),
       (''evidence'', VDict [(''declared'', VStr ''ok''), (''configured'', VStr ''rendered''), (''effective'', VStr ''unknown''),
          (''credential_privacy'', VStr (credential_privacy_evidence H))]),
       (''context'', strs (declared_context proj client)), (''capability_semantics'', semantics)]))))"

definition configured_servers :: "host \<Rightarrow> rtree \<Rightarrow> string \<Rightarrow> val res" where
  "configured_servers H t client =
     (if client = ''codex'' then
        bindE (rendered_text t ''config.toml'' False) (\<lambda>text.
        bindE (someE (invalid ''rendered Codex configuration is invalid'') (toml_loads H text)) (\<lambda>data.
        bindE (someE (AttributeError ''get'') (as_dict data)) (\<lambda>d. Inr (get_or d ''mcp_servers'' (VDict [])))))
      else if client \<in> set [''qoder'', ''omp'', ''claude''] then
        bindE (rendered_text t ''mcp.json'' True) (\<lambda>text.
        bindE (loads_strict text) (\<lambda>data.
        Inr (case as_dict data of Some d \<Rightarrow> get_or d ''mcpServers'' (VDict []) | None \<Rightarrow> VNone)))
      else Inl (invalid ''client has no MCP reader''))"

definition configured_mcp_names :: "host \<Rightarrow> rtree \<Rightarrow> string \<Rightarrow> string list res" where
  "configured_mcp_names H t client =
     bindE (configured_servers H t client) (\<lambda>servers.
     bindE (someE (invalid ''rendered MCP configuration has an invalid server table'') (as_dict servers)) (\<lambda>d.
     Inr (sort (keys d))))"

definition observe_gate ::
    "host \<Rightarrow> fs \<Rightarrow> path \<Rightarrow> path option \<Rightarrow> string \<Rightarrow> string \<Rightarrow> string \<Rightarrow> base_args \<Rightarrow> bool \<Rightarrow> (project \<times> profile \<times> val \<times> stable_directory) res" where
  "observe_gate H F root overlay client nm state ba require_empty =
     bindE (checked_project H F root overlay) (\<lambda>(proj, desired).
     bindE (select_profile proj nm) (\<lambda>P.
     bindE (role_environment H F proj desired ba False P) (\<lambda>_.
     bindE (validate_client client) (\<lambda>_.
     bindE (state_root H F proj state require_empty) (\<lambda>d.
     Inr (proj, P, desired, d))))))"

definition probe_in ::
    "host \<Rightarrow> world \<Rightarrow> project \<Rightarrow> string \<Rightarrow> profile \<Rightarrow> string \<Rightarrow> path \<Rightarrow> (fs, string list \<times> string list) st" where
  "probe_in H W proj client P expected root =
     bindS (readS (\<lambda>F. render_tree H F proj client P)) (\<lambda>t.
     bindS (checkS (\<lambda>F. tree_hash H t = expected) (invalid ''rendered output drifted after lock verification'')) (\<lambda>_.
     bindS (readS (\<lambda>F. open_stable_directory F root)) (\<lambda>runtime.
     bindS (materialize_tree H (w_staging W) runtime t) (\<lambda>_.
     bindS (readS (\<lambda>_. rendered_skill_names t)) (\<lambda>skills.
     bindS (readS (\<lambda>_. configured_mcp_names H t client)) (\<lambda>mcps.
     bindS (readS (\<lambda>F. validate_stable_directory F runtime)) (\<lambda>_.
     returnS (skills, mcps))))))))"

definition probed_doc :: "host \<Rightarrow> string \<Rightarrow> profile \<Rightarrow> dict \<Rightarrow> string list \<Rightarrow> string list \<Rightarrow> val" where
  "probed_doc H client P declared skills mcps =
     VDict [(''version'', VInt 1), (''client'', VStr client), (''profile'', VStr (p_name P)), (''plane'', VStr ''configured''),
       (''probed_at'', VStr (utc_now H)),
       (''observed'', VDict [(''skills'', strs skills), (''mcps'', strs mcps), (''context'', VNone), (''hooks'', VNone), (''plugins'', VNone)]),
       (''candidates'', VDict [(''context'', get declared ''context'')]),
       (''staged'', VDict [(''hooks'', strs (p_hooks P)), (''plugins'', strs (p_plugins P))]),
       (''caveats'', strs [''context candidates are not proof that the client loaded them'',
          ''hooks and plugins are opaque-staging until native loading is verified'',
          ''configured state is not effective runtime state''])]"

definition doc_file :: "string \<Rightarrow> val \<Rightarrow> string \<times> rendered_file" where
  "doc_file nm v = (nm, plain_file (canonical_json v))"

definition probe_profile ::
    "host \<Rightarrow> world \<Rightarrow> path \<Rightarrow> path option \<Rightarrow> string \<Rightarrow> string \<Rightarrow> string \<Rightarrow> base_args \<Rightarrow> (fs, val) st" where
  "probe_profile H W root overlay client nm state ba =
     bindS (readS (\<lambda>F. observe_gate H F root overlay client nm state ba True)) (\<lambda>(proj, P, desired, d).
     bindS (readS (\<lambda>_. locked_tree_hash desired (p_name P) client)) (\<lambda>expected.
     bindS (with_runtime_root H W (''probe-'' @ client) (p_name P) (probe_in H W proj client P expected)) (\<lambda>(skills, mcps).
     bindS (readS (\<lambda>_. declared_snapshot H proj client P desired)) (\<lambda>declared.
     let probed = probed_doc H client P declared skills mcps in
     bindS (materialize_tree H (w_staging W) d [doc_file ''declared.json'' (VDict declared), doc_file ''probed.json'' probed]) (\<lambda>_.
     returnS probed)))))"

section \<open>Lines of a text\<close>

lemma line_break_le: "line_break s \<le> length s"
proof -
  have "length w \<le> length s" if "prefix w s" for w using that by (rule prefix_length_le)
  from this [of "[CHR 0xC2, CHR 0x85]"] this [of "[CHR 0xE2, CHR 0x80, CHR 0xA8]"] this [of "[CHR 0xE2, CHR 0x80, CHR 0xA9]"]
  show ?thesis by (cases s; cases "tl s") (simp_all add: line_break_def split: if_split)
qed

lemma line_break_local: "line_break (x # a @ CHR 0x0A # b) = line_break (x # a @ [CHR 0x0A])"
  by (cases a; cases "tl a") (auto simp: line_break_def)

lemma split_lines_newline:
  "n \<le> Suc (length a) \<Longrightarrow> (n > 0 \<Longrightarrow> cur = []) \<Longrightarrow>
     split_lines n cur (a @ CHR 0x0A # b) = split_lines n cur (a @ [CHR 0x0A]) @ split_lines 0 [] b"
proof (induction a arbitrary: n cur)
  case Nil
  then show ?case by (cases n) (simp_all add: line_break_def)
next
  case (Cons x a)
  show ?case
  proof (cases n)
    case 0
    show ?thesis
    proof (cases "line_break (x # a @ [CHR 0x0A])")
      case (Suc k)
      then have "k \<le> Suc (length a)" using line_break_le [of "x # a @ [CHR 0x0A]"] by simp
      then show ?thesis using Cons.IH [of k "[]"] Suc 0 by (simp add: line_break_local [of x a b])
    qed (use Cons.IH [of 0 "cur @ [x]"] 0 in \<open>simp add: line_break_local [of x a b]\<close>)
  next
    case (Suc k)
    then show ?thesis using Cons by simp
  qed
qed

definition printable_line :: "string \<Rightarrow> bool" where
  "printable_line l \<longleftrightarrow> (\<forall>c \<in> set l. 32 \<le> byte c \<and> byte c < 127)"

lemma split_lines_line:
  "printable_line l \<Longrightarrow> split_lines 0 cur (l @ CHR 0x0A # s) = (cur @ l) # split_lines 0 [] s"
proof (induction l arbitrary: cur)
  case (Cons x l)
  have "byte (CHR 0xC2) = 194" "byte (CHR 0xE2) = 226" "byte (CHR 0x0D) = 13" by code_simp+
  then have "line_break (x # l @ CHR 0x0A # s) = 0" using Cons.prems by (auto simp: line_break_def printable_line_def)
  then show ?case using Cons by (simp add: printable_line_def)
qed (simp add: line_break_def)

lemma splitlines_middle:
  assumes "printable_line l"
  shows "splitlines (before @ CHR 0x0A # l @ CHR 0x0A # after) = splitlines (before @ [CHR 0x0A]) @ l # splitlines after"
  using split_lines_newline [of 0 before "[]" "l @ CHR 0x0A # after"] split_lines_line [OF assms, of "[]" after]
  by (simp add: splitlines_def)

lemma first_report_append:
  "first_report m (xs @ ys) = (case first_report m xs of Some b \<Rightarrow> Some b | None \<Rightarrow> first_report m ys)"
  by (induction xs) (auto split: option.splits)

section \<open>A report reads back\<close>

lemma strip_by_id: "s \<noteq> [] \<Longrightarrow> \<not> P (hd s) \<Longrightarrow> \<not> P (last s) \<Longrightarrow> strip_by P s = s"
proof -
  assume a: "s \<noteq> []" "\<not> P (hd s)" "\<not> P (last s)"
  then have "dropWhile P s = s" by (cases s) auto
  moreover have "dropWhile P (rev s) = rev s" using a by (cases "rev s") (auto simp flip: hd_rev)
  ultimately show ?thesis by (simp add: strip_by_def lstrip_by_def rstrip_by_def)
qed

lemma strip_by_Cons: "P x \<Longrightarrow> strip_by P (x # s) = strip_by P s"
  by (simp add: strip_by_def lstrip_by_def)

lemma ident_char_plain: "ident_char c \<Longrightarrow> \<not> is_space c \<and> c \<noteq> CHR 0x60 \<and> c \<noteq> CHR '','' \<and> lower_char c = c \<and> 32 \<le> byte c \<and> byte c < 127"
  by (auto simp: ident_char_def is_lower_def is_digit_def is_space_def lower_char_def is_upper_def byte_def Let_def)

lemma identifier_stripped:
  assumes "is_identifier w"
  shows "strip w = w" "unquote w = w" "CHR '','' \<notin> set w" "w \<noteq> []"
proof -
  have "hd w \<in> set w" "last w \<in> set w" "w \<noteq> []" using assms by (auto simp: is_identifier_def)
  then show "strip w = w" "unquote w = w" "CHR '','' \<notin> set w" "w \<noteq> []"
    using assms ident_char_plain by (auto simp: is_identifier_def strip_def unquote_def intro!: strip_by_id)
qed

lemma last_join: "ws \<noteq> [] \<Longrightarrow> last ws \<noteq> [] \<Longrightarrow> join sep ws \<noteq> [] \<and> last (join sep ws) = last (last ws)"
  by (induction sep ws rule: join.induct) auto

lemma names_chars:
  assumes "\<forall>w \<in> set names. is_identifier w" and "c \<in> set (join '', '' names)"
  shows "ident_char c \<or> c = CHR '','' \<or> c = CHR '' ''"
  using assms set_join [of "'', ''" names] by (fastforce simp: is_identifier_def)

lemma split_names:
  assumes "\<forall>w \<in> set (n # ns). is_identifier w"
  shows "split_on CHR '','' (join '', '' (n # ns)) = n # map (\<lambda>w. CHR '' '' # w) ns"
  using assms
proof (induction ns arbitrary: n)
  case Nil
  then show ?case by (simp add: split_on_word identifier_stripped)
next
  case (Cons m ns)
  have "split_on CHR '','' (CHR '' '' # join '', '' (m # ns)) = (CHR '' '' # m) # map (\<lambda>w. CHR '' '' # w) ns"
    using Cons.IH [of m] Cons.prems by simp
  then show ?case using Cons.prems by (simp add: split_on_append identifier_stripped)
qed

lemma report_items_join:
  assumes "names \<noteq> []" and "\<forall>w \<in> set names. is_identifier w"
  shows "report_items (join '', '' names) = names"
proof -
  obtain n ns where n: "names = n # ns" using assms(1) by (cases names) auto
  have s: "strip (CHR '' '' # w) = strip w" for w
    by (simp add: strip_def strip_by_Cons is_space_def)
  have "filter (\<lambda>i. strip i \<noteq> []) (n # map (\<lambda>w. CHR '' '' # w) ns) = n # map (\<lambda>w. CHR '' '' # w) ns"
    using assms(2) n by (auto simp: s identifier_stripped filter_id_conv)
  moreover have "map (\<lambda>i. unquote (strip i)) (map (\<lambda>w. CHR '' '' # w) ns) = ns"
    using assms(2) n by (auto simp: s identifier_stripped comp_def intro!: map_idI)
  ultimately show ?thesis
    using split_names [of n ns] assms(2) n by (simp add: report_items_def identifier_stripped)
qed

lemma marker_facts:
  "\<forall>m \<in> snd ` set REPORT_MARKERS. m \<noteq> [] \<and> upper m = m \<and> \<not> is_space (hd m) \<and> hd m \<notin> {CHR ''+'', CHR ''-'', CHR 0x60}
     \<and> CHR '':'' \<notin> set m \<and> printable_line m"
  by code_simp

lemma report_line_chars:
  assumes "marker \<in> snd ` set REPORT_MARKERS" and "\<forall>w \<in> set names. is_identifier w"
  shows "printable_line (marker @ '': '' @ join '', '' names)"
proof -
  have "32 \<le> byte c \<and> byte c < 127" if "c \<in> set (join '', '' names)" for c
    using names_chars [OF assms(2) that] ident_char_plain [of c] by (auto simp: byte_def)
  then show ?thesis using marker_facts assms(1) by (fastforce simp: printable_line_def byte_def)
qed

lemma join_ends:
  assumes "names \<noteq> []" and "\<forall>w \<in> set names. is_identifier w"
  shows "join '', '' names \<noteq> []" "ident_char (hd (join '', '' names))" "ident_char (last (join '', '' names))"
proof -
  obtain n ns where n: "names = n # ns" using assms(1) by (cases names) auto
  have i: "is_identifier n" "is_identifier (last names)" using assms by (auto simp: n)
  then have ne: "n \<noteq> []" "last names \<noteq> []" by (auto simp: is_identifier_def)
  show "join '', '' names \<noteq> []" using hd_join [OF ne(1)] by (simp add: n)
  show "ident_char (hd (join '', '' names))" using hd_join [OF ne(1)] i(1) ne(1) by (simp add: n is_identifier_def)
  show "ident_char (last (join '', '' names))"
    using last_join [OF assms(1) ne(2)] i(2) ne(2) by (simp add: is_identifier_def)
qed

lemma report_body_line:
  assumes "marker \<in> snd ` set REPORT_MARKERS" and "names \<noteq> []" and "\<forall>w \<in> set names. is_identifier w"
  shows "report_body marker (marker @ '': '' @ join '', '' names) = Some (join '', '' names)"
proof -
  let ?b = "join '', '' names" let ?l = "marker @ '': '' @ ?b"
  have m: "marker \<noteq> []" "upper marker = marker" "\<not> is_space (hd marker)" "hd marker \<notin> {CHR ''+'', CHR ''-'', CHR 0x60}" "CHR '':'' \<notin> set marker"
    using marker_facts assms(1) by blast+
  note b = join_ends [OF assms(2,3)]
  have h: "hd ?l = hd marker" "last ?l = last ?b" "?l \<noteq> []" using m(1) b(1) by auto
  have last: "\<not> is_space (last ?b)" "last ?b \<noteq> CHR 0x60" "\<not> is_space (hd ?b)" "hd ?b \<noteq> CHR 0x60"
    using ident_char_plain b by blast+
  have "strip ?l = ?l" "unquote ?l = ?l"
    using m(3,4) last h unfolding strip_def unquote_def by (auto intro!: strip_by_id)
  moreover have "lstrip_by (\<lambda>c. c \<in> {CHR ''+'', CHR ''-''}) ?l = ?l"
    using m(1,4) by (cases marker) (auto simp: lstrip_by_def)
  moreover have "prefix (marker @ '':'') (upper ?l)" using m(2) by (simp add: upper_def upper_char_def is_lower_def)
  moreover have "tl (dropWhile (\<lambda>c. c \<noteq> CHR '':'') ?l) = CHR '' '' # ?b" using m(5) by (induction marker) auto
  moreover have "strip (CHR '' '' # ?b) = ?b" "unquote ?b = ?b" "strip ?b = ?b"
    using last b(1) unfolding strip_def unquote_def by (auto simp: strip_by_Cons is_space_def intro!: strip_by_id)
  ultimately show ?thesis by (simp add: report_body_def)
qed

lemma word_of_join: "join '', '' names = w \<Longrightarrow> CHR '','' \<notin> set w \<Longrightarrow> w \<noteq> [] \<Longrightarrow> names = [w]"
  by (cases names; cases "tl names") auto

lemma parse_report_line:
  assumes "marker \<in> snd ` set REPORT_MARKERS" and "names \<noteq> []" and "\<forall>w \<in> set names. is_identifier w"
    and "names \<noteq> [''unknown'']" and "names \<noteq> [''none'']"
    and "first_report marker (rev (splitlines after)) = None"
  shows "parse_reported (before @ CHR 0x0A # (marker @ '': '' @ join '', '' names) @ CHR 0x0A # after) marker = Some names"
proof -
  let ?b = "join '', '' names"
  have "casefold ?b = ?b"
  proof -
    have "lower_char CHR '','' = CHR '',''" "lower_char CHR '' '' = CHR '' ''" by code_simp+
    then show ?thesis using names_chars [OF assms(3)] ident_char_plain unfolding casefold_def by (intro map_idI) metis
  qed
  moreover have "?b \<notin> set unknown_words"
  proof
    assume "?b \<in> set unknown_words"
    moreover have "byte (hd ?b) < 127" using ident_char_plain join_ends(2) [OF assms(2,3)] by blast
    ultimately have "?b = ''unknown''" by (auto simp: unknown_words_def byte_def)
    then show False using word_of_join [of names "''unknown''"] assms(4) by simp
  qed
  moreover have "?b \<notin> set none_words"
  proof
    assume "?b \<in> set none_words"
    moreover have "byte (hd ?b) < 127" using ident_char_plain join_ends(2) [OF assms(2,3)] by blast
    ultimately have "?b = ''none''" using join_ends(1) [OF assms(2,3)] by (auto simp: none_words_def byte_def)
    then show False using word_of_join [of names "''none''"] assms(5) by simp
  qed
  moreover have "first_report marker (rev (splitlines (before @ CHR 0x0A # (marker @ '': '' @ ?b) @ CHR 0x0A # after))) = Some ?b"
    using assms(6) report_body_line [OF assms(1-3)] unfolding splitlines_middle [OF report_line_chars [OF assms(1,3)]]
    by (simp add: first_report_append)
  ultimately show ?thesis by (simp add: parse_reported_def report_items_join [OF assms(2,3)])
qed

end
