(* ===== verification/Effective.thy ===== *)
theory Effective
  imports Observe
begin

text \<open>
  The effective plane: \<open>run_observed\<close> runs a client, keeps what it reports of itself and writes a
  receipt; \<open>diff_profile\<close> compares the declaration with that report. The two instants of a run and
  its duration come from the clock.
\<close>

record clock =
  ck_started :: string
  ck_ended :: string
  ck_duration :: int

section \<open>An observed run\<close>

definition client_limits :: "(string \<times> string list) list" where
  "client_limits = [(''codex'', [''context'', ''mcps'']), (''qoder'', []), (''omp'', [''mcps''])]"

type_synonym reports = "string \<Rightarrow> string list option"

definition reported :: "string \<Rightarrow> reports" where
  "reported text d = parse_reported text (the (map_of REPORT_MARKERS d))"

definition report_val :: "string list option \<Rightarrow> val" where
  "report_val r = (case r of None \<Rightarrow> VNone | Some names \<Rightarrow> strs names)"

definition forced_unknown :: "string list \<Rightarrow> string list" where
  "forced_unknown limited = [''hooks'', ''plugins''] @ limited"

definition observed_doc :: "string list \<Rightarrow> reports \<Rightarrow> val" where
  "observed_doc limited r = VDict (map (\<lambda>d. (d, if d \<in> set (forced_unknown limited) then VNone else report_val (r d))) OBSERVATION_DIMENSIONS)"

definition effective_evidence :: string where
  "effective_evidence = ''client output self-report; missing or explicit unknown markers remain unknown; hook/plugin reports remain opaque-staging; client-limited dimensions are retained only as unreliable reports rather than effective observations''"

definition effective_doc :: "string \<Rightarrow> profile \<Rightarrow> clock \<Rightarrow> int \<Rightarrow> nat \<Rightarrow> string list \<Rightarrow> reports \<Rightarrow> val" where
  "effective_doc client P ck code nargs limited r =
     VDict [(''version'', VInt 1), (''client'', VStr client), (''profile'', VStr (p_name P)), (''plane'', VStr ''effective''),
       (''started_at'', VStr (ck_started ck)), (''ended_at'', VStr (ck_ended ck)), (''duration_s'', VInt (ck_duration ck)),
       (''exit_code'', VInt code), (''forwarded_argument_count'', VInt (int nargs)),
       (''observed'', observed_doc limited r),
       (''reported_opaque_staging'', VDict (map (\<lambda>d. (d, report_val (r d))) [''hooks'', ''plugins''])),
       (''reported_client_limited'', VDict (map (\<lambda>d. (d, report_val (r d))) limited)),
       (''evidence'', VStr effective_evidence)]"

text \<open>From the declaration to the committed receipt.\<close>

definition observing ::
    "host \<Rightarrow> world \<Rightarrow> clock \<Rightarrow> (string \<Rightarrow> nat) \<Rightarrow> project \<Rightarrow> profile \<Rightarrow> val \<Rightarrow> run_args \<Rightarrow> stable_directory \<Rightarrow> receipt_reservation
      \<Rightarrow> (rstate, int \<times> string \<times> string) st" where
  "observing H W ck os_write proj P desired A d r =
     bindS (readS (\<lambda>_. declared_snapshot H proj (ra_client A) P desired)) (\<lambda>declared.
     bindS (on_fs (materialize_tree H (w_staging W) d [doc_file ''declared.json'' (VDict declared)])) (\<lambda>_.
     bindS (on_fs (execute_runtime H W proj P desired A)) (\<lambda>(code, out, err).
     bindS (readS (\<lambda>_. someE (KeyError (ra_client A)) (map_of client_limits (ra_client A)))) (\<lambda>limited.
     let effective = effective_doc (ra_client A) P ck code (length (ra_args A)) limited (reported (out @ [CHR 0x0A] @ err)) in
     bindS (on_fs (materialize_tree H (w_staging W) d [doc_file ''effective.json'' effective])) (\<lambda>_.
     bindS (readS (\<lambda>_. receipt_payload H (ra_client A) P desired (ra_args A) code)) (\<lambda>payload.
     bindS (commit_receipt os_write r (canonical_json payload)) (\<lambda>_.
     returnS (exit_status code, out, err))))))))"

definition receipt_parent_handle :: "stable_directory \<Rightarrow> path \<Rightarrow> stable_directory option" where
  "receipt_parent_handle d target = (if parent target = sd_path d then Some d else None)"

definition observed_receipt :: "stable_directory \<Rightarrow> string option \<Rightarrow> string" where
  "observed_receipt d receipt = (case receipt of
       Some s \<Rightarrow> (if s \<noteq> [] then s else abs_str (sd_path d @ [''receipt.json'']))
     | None \<Rightarrow> abs_str (sd_path d @ [''receipt.json'']))"

definition run_observed ::
    "host \<Rightarrow> world \<Rightarrow> clock \<Rightarrow> (string \<Rightarrow> nat) \<Rightarrow> path \<Rightarrow> path option \<Rightarrow> string \<Rightarrow> run_args \<Rightarrow> string \<Rightarrow> string option
      \<Rightarrow> (rstate, int \<times> string \<times> string) st" where
  "run_observed H W ck os_write root overlay nm A state receipt =
     bindS (reading (\<lambda>F. prepare_execution H F (w_git W) root overlay (ra_client A) nm (ra_args A) (ra_base A) False)) (\<lambda>(proj, P, desired).
     bindS (reading (\<lambda>F. state_root H F proj state True)) (\<lambda>d.
     bindS (reading (\<lambda>F. prepare_receipt_path H F (observed_receipt d receipt))) (\<lambda>target.
     bindS (reserve_receipt H proj target (receipt_parent_handle d target)) (\<lambda>r.
     releasing r (observing H W ck os_write proj P desired (A\<lparr>ra_allow_drift := False, ra_capture := True\<rparr>) d r)))))"

section \<open>Reading a state file\<close>

text \<open>\<open>F\<close> is what is there when the file is opened, \<open>F'\<close> after it has been read.\<close>

definition private_regular :: "node \<Rightarrow> bool" where
  "private_regular nd = (is_file_node nd \<and> st_nlink (node_meta nd) = 1)"

definition read_state_file :: "fs \<Rightarrow> fs \<Rightarrow> stable_directory \<Rightarrow> string \<Rightarrow> string res" where
  "read_state_file F F' d nm =
     (let target = sd_path d @ [nm] in
      bindE (validate_stable_directory F d) (\<lambda>_.
      bindE (someE (ProfileError ''state file missing'') (lstat F target)) (\<lambda>nd.
      if is_link_component nd then Inl (invalid ''state file must not be a link'')
      else if \<not> private_regular nd then Inl (invalid ''state file must be a private regular file'')
      else
      bindE (wrapE (\<lambda>_. invalid ''invalid JSON'') (read_text F target)) (\<lambda>text.
      bindE (someE (invalid ''invalid JSON'') (lstat F' target)) (\<lambda>live.
      if \<not> private_regular live \<or> \<not> same_file_identity live (node_identity nd) then Inl (invalid ''state file changed while reading'')
      else bindE (validate_stable_directory F' d) (\<lambda>_. Inr text))))))"

definition strict_json_from_directory :: "fs \<Rightarrow> fs \<Rightarrow> stable_directory \<Rightarrow> string \<Rightarrow> val res" where
  "strict_json_from_directory F F' d nm = bindE (read_state_file F F' d nm) loads_strict"

section \<open>diff\<close>

definition observation_key :: "string \<Rightarrow> string \<Rightarrow> string" where
  "observation_key dimension value =
     (if dimension \<noteq> ''context'' then strip value
      else rstrip_by (\<lambda>c. c = CHR ''/'') (map (\<lambda>c. if c = CHR 0x5C then CHR ''/'' else c) (unquote (strip value))))"

definition expected_names :: "profile \<Rightarrow> string list \<Rightarrow> string \<Rightarrow> string list" where
  "expected_names P context d =
     (if d = ''skills'' then p_skills P else if d = ''mcps'' then p_mcps P else if d = ''context'' then context
      else if d = ''hooks'' then p_hooks P else p_plugins P)"

definition keyed :: "string \<Rightarrow> string list \<Rightarrow> (string \<times> string) list" where
  "keyed d names = dict_of (map (\<lambda>i. (observation_key d i, i)) names)"

text \<open>The items whose key only the first list has.\<close>

definition only_in :: "(string \<times> string) list \<Rightarrow> (string \<times> string) list \<Rightarrow> string list" where
  "only_in a b = sort (map snd (filter (\<lambda>(k, _). k \<notin> set (keys b)) a))"

definition string_items :: "val \<Rightarrow> string list option" where
  "string_items v = (case as_list v of
       None \<Rightarrow> None
     | Some xs \<Rightarrow> (if list_all is_str xs then Some (map (\<lambda>x. the (as_str x)) xs) else None))"

text \<open>One dimension: unknown, or what is missing and what is outside the declaration.\<close>

definition diff_dimension :: "profile \<Rightarrow> string list \<Rightarrow> dict \<Rightarrow> string \<Rightarrow> (string list \<times> string list) option res" where
  "diff_dimension P context seen d =
     (if get seen d = VNone then Inr None
      else
      bindE (someE (invalid ''effective observation must be an array or null'') (string_items (get seen d))) (\<lambda>names.
      let e = keyed d (expected_names P context d); ob = keyed d names in
      Inr (Some (only_in e ob, only_in ob e))))"

definition drifted :: "(string list \<times> string list) option \<Rightarrow> bool" where
  "drifted r = (case r of None \<Rightarrow> False | Some (missing, extra) \<Rightarrow> missing \<noteq> [] \<or> extra \<noteq> [])"

definition diff_status :: "(string list \<times> string list) option list \<Rightarrow> val \<Rightarrow> int" where
  "diff_status rs code =
     (if list_ex drifted rs \<or> \<not> py_eq code (VInt 0) then 1
      else if list_ex (\<lambda>r. r = None) rs then 2 else 0)"

definition diff_documents :: "profile \<Rightarrow> string \<Rightarrow> dict \<Rightarrow> val \<Rightarrow> val \<Rightarrow> string list \<Rightarrow> int res" where
  "diff_documents P client current declared effective context =
     (if \<not> py_eq declared (VDict current) then Inl (invalid ''declared observation no longer matches the selected locked profile'')
      else
      bindE (someE (invalid ''effective observation belongs to a different client or profile'') (as_dict effective)) (\<lambda>ef.
      if get ef ''client'' \<noteq> VStr client \<or> get ef ''profile'' \<noteq> VStr (p_name P)
        then Inl (invalid ''effective observation belongs to a different client or profile'')
      else
      bindE (someE (invalid ''effective observation has no observed dimension table'') (as_dict (get ef ''observed''))) (\<lambda>seen.
      bindE (mapE (diff_dimension P context seen) OBSERVATION_DIMENSIONS) (\<lambda>rs.
      Inr (diff_status rs (get ef ''exit_code''))))))"

definition diff_profile ::
    "host \<Rightarrow> fs \<Rightarrow> path \<Rightarrow> path option \<Rightarrow> string \<Rightarrow> string \<Rightarrow> string \<Rightarrow> base_args \<Rightarrow> int res" where
  "diff_profile H F root overlay client nm state ba =
     bindE (observe_gate H F root overlay client nm state ba False) (\<lambda>(proj, P, desired, d).
     bindE (strict_json_from_directory F F d ''declared.json'') (\<lambda>declared.
     bindE (strict_json_from_directory F F d ''effective.json'') (\<lambda>effective.
     bindE (declared_snapshot H proj client P desired) (\<lambda>current.
     diff_documents P client current declared effective (declared_context proj client)))))"

section \<open>The command line\<close>

text \<open>The parsed arguments of each command; \<open>client_args\<close> still has its leading separator.\<close>

datatype command =
    MachineContextLock string string
  | MachineContextApprove string string
  | AssemblyBind string string string string
  | CreateLock
  | VerifyLock base_args
  | ListRoles
  | ExplainRole string
  | MaterializeRole string string base_args string
  | ProbeRole string string base_args string
  | DiffRole string string base_args string
  | LaunchRole string run_args "string option"
  | RunRole string run_args string "string option"

definition forwarded :: "string list \<Rightarrow> string list" where
  "forwarded client_args = (case client_args of w # ws \<Rightarrow> (if w = ''--'' then ws else client_args) | [] \<Rightarrow> [])"

definition hash_item :: "host \<Rightarrow> val \<Rightarrow> string \<times> val" where
  "hash_item H payload = (''lock_hash'', VStr (digest H payload))"

text \<open>\<open>_print_json\<close>, and \<open>print\<close> of captured output.\<close>

definition printed :: "'a \<Rightarrow> val \<Rightarrow> 'a \<times> string" where
  "printed status v = (status, canonical_json v)"

definition printed_text :: "string \<Rightarrow> string" where
  "printed_text s = (if s = [] then [] else if last s = CHR 0x0A then s else s @ [CHR 0x0A])"

definition machine_context_command :: "host \<Rightarrow> io \<Rightarrow> command \<Rightarrow> (fs, int \<times> string) st" where
  "machine_context_command H io c = (case c of
       MachineContextLock home manifest \<Rightarrow>
         bindS (create_base_manifest H io home manifest) (\<lambda>payload.
         bindS (readS (\<lambda>_. item payload ''effective_digest'')) (\<lambda>e.
         bindS (readS (\<lambda>_. item payload ''inventory_digest'')) (\<lambda>i.
         returnS (printed 0 (VDict [(''status'', VStr ''locked-not-approved''), (''context'', VStr MACHINE_CONTEXT_NAME),
           (''effective_digest'', e), (''inventory_digest'', i)])))))
     | MachineContextApprove manifest pin \<Rightarrow>
         bindS (approve_base_manifest H io manifest pin) (\<lambda>payload.
         bindS (readS (\<lambda>_. item payload ''approved_digest'')) (\<lambda>a.
         returnS (printed 0 (VDict [(''status'', VStr ''approved''), (''context'', VStr MACHINE_CONTEXT_NAME), (''approved_digest'', a)]))))
     | _ \<Rightarrow> returnS (0, []))"

text \<open>The commands that write to the file system only.\<close>

definition writing_command :: "host \<Rightarrow> world \<Rightarrow> io \<Rightarrow> path \<Rightarrow> path option \<Rightarrow> command \<Rightarrow> (fs, int \<times> string) st" where
  "writing_command H W io root overlay c = (case c of
       AssemblyBind nm manifest pin dir \<Rightarrow>
         bindS (bind_profile H io root overlay nm manifest pin dir) (\<lambda>payload.
         bindS (readS (\<lambda>_. someE (TypeError ''payload'') (as_dict payload))) (\<lambda>d.
         returnS (printed 0 (VDict (dict_update [(''status'', VStr ''bound'')] d)))))
     | CreateLock \<Rightarrow>
         bindS (create_lock H io root overlay) (\<lambda>payload.
         returnS (printed 0 (VDict [(''status'', VStr ''locked''), hash_item H payload])))
     | MaterializeRole client nm ba output \<Rightarrow>
         bindS (materialize_profile H (w_staging W) root overlay client nm output ba) (\<lambda>th.
         returnS (printed 0 (VDict [(''status'', VStr ''materialized''), (''client'', VStr client), (''profile'', VStr nm), (''tree_hash'', VStr th)])))
     | ProbeRole client nm ba state \<Rightarrow>
         bindS (probe_profile H W root overlay client nm state ba) (\<lambda>v. returnS (printed 0 v))
     | _ \<Rightarrow> machine_context_command H io c)"

text \<open>The commands that only read.\<close>

definition reading_command :: "host \<Rightarrow> fs \<Rightarrow> path \<Rightarrow> path option \<Rightarrow> command \<Rightarrow> (int \<times> string) option res" where
  "reading_command H F root overlay c = (case c of
       VerifyLock ba \<Rightarrow>
         bindE (verify_project H F root overlay ba) (\<lambda>payload.
         Inr (Some (printed 0 (VDict [(''status'', VStr ''ok''), hash_item H payload, (''credential_privacy'', VStr (credential_privacy_evidence H))]))))
     | ListRoles \<Rightarrow> bindE (list_profiles H F root overlay) (\<lambda>names. Inr (Some (printed 0 (VDict [(''profiles'', strs names)]))))
     | ExplainRole nm \<Rightarrow> bindE (explain_profile H F root nm overlay) (\<lambda>v. Inr (Some (printed 0 v)))
     | DiffRole client nm ba state \<Rightarrow> bindE (diff_profile H F root overlay client nm state ba) (\<lambda>status. Inr (Some (status, [])))
     | _ \<Rightarrow> Inr None)"

text \<open>One command on an existing project path. \<open>launch\<close> and \<open>run\<close> do not pass on \<open>--workdir\<close>;
  \<open>answer\<close> is what the operator types when asked.\<close>

definition dispatch ::
    "host \<Rightarrow> world \<Rightarrow> clock \<Rightarrow> io \<Rightarrow> (string \<Rightarrow> nat) \<Rightarrow> path \<Rightarrow> path option \<Rightarrow> string option \<Rightarrow> command \<Rightarrow> (rstate, int \<times> string) st" where
  "dispatch H W ck io os_write root overlay answer c = (case c of
       LaunchRole nm A receipt \<Rightarrow>
         run_client H W os_write root overlay nm (A\<lparr>ra_args := forwarded (ra_args A), ra_workdir := None, ra_allow_drift := True, ra_capture := False\<rparr>)
           answer receipt
     | RunRole nm A state receipt \<Rightarrow>
         bindS (run_observed H W ck os_write root overlay nm (A\<lparr>ra_args := forwarded (ra_args A), ra_workdir := None\<rparr>) state receipt) (\<lambda>(status, out, _).
         returnS (status, printed_text out))
     | _ \<Rightarrow>
         bindS (reading (\<lambda>F. reading_command H F root overlay c)) (\<lambda>r. case r of
           Some out \<Rightarrow> returnS out
         | None \<Rightarrow> on_fs (writing_command H W io root overlay c)))"

text \<open>\<open>main\<close> after parsing: \<open>ProfileError\<close> and \<open>OSError\<close> end the command with status 2.\<close>

definition handled :: "err \<Rightarrow> bool" where
  "handled e = (case e of ProfileError _ \<Rightarrow> True | OSError _ \<Rightarrow> True | _ \<Rightarrow> False)"

definition main_command ::
    "host \<Rightarrow> world \<Rightarrow> clock \<Rightarrow> io \<Rightarrow> (string \<Rightarrow> nat) \<Rightarrow> string \<Rightarrow> string option \<Rightarrow> string option \<Rightarrow> command \<Rightarrow> (rstate, int \<times> string) st" where
  "main_command H W ck io os_write project overlay answer c = (\<lambda>S.
     case bindS (readS (\<lambda>_. path_of_str H project)) (\<lambda>root.
          bindS (readS (\<lambda>_. case overlay of None \<Rightarrow> Inr None | Some s \<Rightarrow> bindE (path_of_str H s) (\<lambda>p. Inr (Some p)))) (\<lambda>ov.
          dispatch H W ck io os_write root ov answer c)) S of
       (Inl e, T) \<Rightarrow> (if handled e then (Inr (2, []), T) else (Inl e, T))
     | (Inr r, T) \<Rightarrow> (Inr r, T))"

section \<open>What diff decides\<close>

lemma as_dict_Some: "as_dict v = Some d \<longleftrightarrow> v = VDict d"
  by (cases v) auto

lemma keyed_keys: "set (keys (keyed d names)) = observation_key d ` set names"
  by (simp add: keyed_def) (simp add: keys_def image_image)

lemma only_in_empty: "only_in a b = [] \<longleftrightarrow> set (keys a) \<subseteq> set (keys b)"
proof -
  have "sort xs = [] \<longleftrightarrow> xs = []" for xs :: "string list" by (metis set_empty set_sort)
  then show ?thesis by (force simp: only_in_def keys_def filter_empty_conv)
qed

lemma string_items_Some: "string_items v = Some names \<longleftrightarrow> v = strs names"
proof (cases v)
  case (VList xs)
  have "list_all is_str xs \<Longrightarrow> map (VStr \<circ> the \<circ> as_str) xs = xs"
    by (induction xs) (auto elim: is_str.elims)
  then show ?thesis using VList by (auto simp: string_items_def strs_def list_all_iff comp_def)
qed (auto simp: string_items_def strs_def)

lemma strs_inject: "strs a = strs b \<longleftrightarrow> a = b"
  by (simp add: strs_def inj_def)

lemma strs_not_None: "strs a \<noteq> VNone" "VNone \<noteq> strs a"
  by (simp_all add: strs_def)

text \<open>Both key sets agree.\<close>

definition dimension_met :: "profile \<Rightarrow> string list \<Rightarrow> dict \<Rightarrow> string \<Rightarrow> bool" where
  "dimension_met P context seen d \<longleftrightarrow> (\<exists>names. get seen d = strs names
     \<and> observation_key d ` set names = observation_key d ` set (expected_names P context d))"

definition agrees :: "(string list \<times> string list) option \<Rightarrow> bool" where
  "agrees r \<longleftrightarrow> r = Some ([], [])"

lemma diff_dimension_met:
  "(\<exists>r. diff_dimension P context seen d = Inr r \<and> agrees r) \<longleftrightarrow> dimension_met P context seen d"
  by (auto simp: diff_dimension_def Let_def agrees_def dimension_met_def bindE_Inr someE_Inr string_items_Some only_in_empty keyed_keys
      strs_inject strs_not_None)

lemma agrees_iff: "agrees r \<longleftrightarrow> \<not> drifted r \<and> r \<noteq> None"
  by (auto simp: agrees_def drifted_def split: option.splits)

lemma all_agree: "(\<forall>r \<in> set rs. agrees r) \<longleftrightarrow> \<not> (list_ex drifted rs \<or> list_ex (\<lambda>r. r = None) rs)"
  by (induction rs) (auto simp: agrees_iff)

lemma diff_status_zero: "diff_status rs code = 0 \<longleftrightarrow> py_eq code (VInt 0) \<and> (\<forall>r \<in> set rs. agrees r)"
  unfolding diff_status_def all_agree
  by (cases "list_ex drifted rs"; cases "py_eq code (VInt 0)"; cases "list_ex (\<lambda>r. r = None) rs"; simp only: if_True if_False) simp_all

lemma diff_documents_zero:
  "diff_documents P client current declared effective context = Inr 0 \<longleftrightarrow>
     py_eq declared (VDict current) \<and> (\<exists>ef seen. effective = VDict ef \<and> get ef ''client'' = VStr client
       \<and> get ef ''profile'' = VStr (p_name P) \<and> get ef ''observed'' = VDict seen \<and> py_eq (get ef ''exit_code'') (VInt 0)
       \<and> (\<forall>d \<in> set OBSERVATION_DIMENSIONS. dimension_met P context seen d))"
proof -
  have met: "(\<exists>rs. mapE (diff_dimension P context seen) ds = Inr rs \<and> (\<forall>r \<in> set rs. agrees r))
      \<longleftrightarrow> (\<forall>d \<in> set ds. dimension_met P context seen d)" for seen ds
  proof (induction ds)
    case (Cons d ds)
    have "(\<exists>rs. mapE (diff_dimension P context seen) (d # ds) = Inr rs \<and> (\<forall>r \<in> set rs. agrees r))
        \<longleftrightarrow> (\<exists>r. diff_dimension P context seen d = Inr r \<and> agrees r)
           \<and> (\<exists>rs. mapE (diff_dimension P context seen) ds = Inr rs \<and> (\<forall>r \<in> set rs. agrees r))"
      unfolding mapE.simps bindE_Inr by (auto simp: agrees_def)
    then show ?case using Cons.IH diff_dimension_met [of P "context" seen d] by simp
  qed simp
  show ?thesis
    by (auto simp: diff_documents_def bindE_Inr someE_Inr as_dict_Some diff_status_zero met [symmetric] split: if_splits)
qed

end
