(* ===== verification/ObserveProperties.thy ===== *)
theory ObserveProperties
  imports LaunchProperties Effective Broker
begin

text \<open>
  What the observation commands promise: a self-report reads back, \<open>diff\<close> decides exactly whether
  the declaration was met, and the address a broker token is sent to is confined.
\<close>

section \<open>Self-reports\<close>

text \<open>A client that prints a report line for a marker, with at least one name, is understood exactly: whatever
  else it prints before and after, short of a later line with the same marker, \<open>parse_reported\<close>
  returns the names in order. The names are identifiers and not the single words that mean
  unknown or none.\<close>

theorem report_reads_back:
  assumes "marker \<in> snd ` set REPORT_MARKERS" and "names \<noteq> []" and "\<forall>w \<in> set names. is_identifier w"
    and "names \<noteq> [''unknown'']" and "names \<noteq> [''none'']"
    and "first_report marker (rev (splitlines after)) = None"
  shows "parse_reported (before @ CHR 0x0A # (marker @ '': '' @ join '', '' names) @ CHR 0x0A # after) marker = Some names"
  using assms by (rule parse_report_line)

theorem report_reads_back_witness:
  "parse_reported (''hello'' @ CHR 0x0A # (''SKILLS-AVAILABLE'' @ '': '' @ join '', '' [''a-b'', ''c'']) @ CHR 0x0A # ''bye'') ''SKILLS-AVAILABLE''
     = Some [''a-b'', ''c'']"
  by (rule report_reads_back) (code_simp+)

section \<open>diff\<close>

text \<open>C39. \<open>diff\<close> reports no drift exactly when the stored declaration is the current one, the stored
  observation is of this client and role, the client exited with 0, and every one of the five
  dimensions was observed with the declared set of keys.\<close>

theorem diff_clean_exact:
  "diff_documents P client current declared effective context = Inr 0 \<longleftrightarrow>
     py_eq declared (VDict current) \<and> (\<exists>ef seen. effective = VDict ef \<and> get ef ''client'' = VStr client
       \<and> get ef ''profile'' = VStr (p_name P) \<and> get ef ''observed'' = VDict seen \<and> py_eq (get ef ''exit_code'') (VInt 0)
       \<and> (\<forall>d \<in> set OBSERVATION_DIMENSIONS. \<exists>names. get seen d = strs names
            \<and> observation_key d ` set names = observation_key d ` set (expected_names P context d)))"
  unfolding diff_documents_zero dimension_met_def ..

definition clean_effective :: val where
  "clean_effective = VDict [(''client'', VStr ''omp''), (''profile'', VStr ''a''), (''exit_code'', VInt 0),
     (''observed'', VDict [(''skills'', strs [''s'']), (''mcps'', strs []), (''context'', strs [''/w/AGENTS.md'']), (''hooks'', strs []), (''plugins'', strs [])])]"

theorem diff_clean_exact_witness:
  "diff_documents smp_profile ''omp'' [(''version'', VInt 1)] (VDict [(''version'', VInt 1)]) clean_effective [''/w/AGENTS.md''] = Inr 0"
proof -
  have "py_eq (VDict [(''version'', VInt 1)]) (VDict [(''version'', VInt 1)])" "py_eq (VInt 0) (VInt 0)" by (simp_all add: py_eq_def)
  moreover have "observation_key d ` set (expected_names smp_profile [''/w/AGENTS.md''] d) = observation_key d ` set (expected_names smp_profile [''/w/AGENTS.md''] d)" for d ..
  ultimately show ?thesis
    unfolding diff_clean_exact clean_effective_def
    by (simp add: get_def OBSERVATION_DIMENSIONS_def expected_names_def smp_profile_def strs_inject)
qed

text \<open>No run that \<open>run_observed\<close> records can satisfy \<open>diff\<close>: the observation it writes leaves hooks and
  plugins unknown, so the comparison never ends with 0, whatever the client reports and whatever
  the role declares, even nothing.\<close>

theorem observed_run_never_clean:
  "diff_documents P client current declared (effective_doc client' P ck code nargs limited reports) context \<noteq> Inr 0"
proof
  assume "diff_documents P client current declared (effective_doc client' P ck code nargs limited reports) context = Inr 0"
  then obtain ef seen names where "effective_doc client' P ck code nargs limited reports = VDict ef" "get ef ''observed'' = VDict seen"
    "get seen ''hooks'' = strs names"
    unfolding diff_documents_zero dimension_met_def by (auto simp: OBSERVATION_DIMENSIONS_def)
  then show False
    by (auto simp: effective_doc_def observed_doc_def get_def OBSERVATION_DIMENSIONS_def forced_unknown_def strs_def)
qed

section \<open>The broker address\<close>

text \<open>C40. An accepted broker address is a scheme, an authority without user information and an empty path,
  query and fragment; the scheme is HTTPS, or HTTP to a loopback host; a port is a decimal number
  up to 65535; and what is used is the text without slashes at its end.\<close>

theorem broker_url_confined:
  assumes "validate_broker_url R (VStr s) = Inr v"
  shows "\<exists>scheme auth p q f h. s = scheme @ ''://'' @ auth @ p @ q @ f \<and> auth \<noteq> [] \<and> set auth \<inter> set ''/?#@'' = {}
     \<and> p \<in> {[], ''/''} \<and> q \<in> {[], ''?''} \<and> f \<in> {[], ''#''} \<and> host_of auth = Some h
     \<and> (casefold scheme = ''https'' \<or> casefold scheme = ''http'' \<and> h \<in> set loopback_hosts)
     \<and> (snd (hostinfo auth) \<noteq> [] \<longrightarrow> (\<forall>c \<in> set (snd (hostinfo auth)). is_digit c) \<and> read_nat (snd (hostinfo auth)) \<le> 65535)
     \<and> v = rstrip_by (\<lambda>c. c = CHR ''/'') s"
  by (rule validate_broker_url_Inr [OF assms]) blast

theorem broker_url_confined_witness:
  "\<exists>scheme rest. ''HTTP://localhost/'' = scheme @ ''://'' @ rest
     \<and> validate_broker_url \<lparr>ur_printable = (\<lambda>_. True), ur_nfkc = (\<lambda>_. True), ur_ipv6 = (\<lambda>_. False)\<rparr> (VStr ''HTTP://localhost/'') = Inr ''HTTP://localhost''"
proof -
  have v: "validate_broker_url \<lparr>ur_printable = (\<lambda>_. True), ur_nfkc = (\<lambda>_. True), ur_ipv6 = (\<lambda>_. False)\<rparr> (VStr ''HTTP://localhost/'') = Inr ''HTTP://localhost''"
    by code_simp
  from broker_url_confined [OF this] show ?thesis using v by blast
qed

end
