(* ===== verification/Adapter.thy ===== *)
theory Adapter
  imports Receipts
begin

text \<open>
  The primitives every client adapter shares (\<open>adapter/common.py\<close>): digests of documents and of
  directory trees, the path rules of the managed state root, overlays of configuration, and
  content-addressed generations, which are staged, promoted with one rename and verified before
  every use. \<open>AdapterError\<close> is a constructor of \<open>err\<close>.
\<close>

section \<open>Digests\<close>

definition digest_bytes :: "host \<Rightarrow> string \<Rightarrow> string" where
  "digest_bytes H payload = ''sha256:'' @ sha256 H payload"

definition digest_json :: "host \<Rightarrow> val \<Rightarrow> string" where
  "digest_json H v = digest_bytes H (compact_json v)"

section \<open>Paths of the state root\<close>

fun managed_walk :: "fs \<Rightarrow> bool \<Rightarrow> path \<Rightarrow> string list \<Rightarrow> unit res" where
  "managed_walk F allow_missing cur [] = Inr ()"
| "managed_walk F allow_missing cur (p # ps) =
     (let c = cur @ [p] in
      if \<not> exists_at F c \<and> \<not> is_symlink F c then
        (if allow_missing then managed_walk F allow_missing c ps else Inl (AdapterError ''does not exist''))
      else
      bindE (someE (OSError ''lstat'') (lstat F c)) (\<lambda>nd.
      if is_link_node nd then Inl (AdapterError ''contains a symlink'') else managed_walk F allow_missing c ps))"

definition assert_managed_path :: "fs \<Rightarrow> path \<Rightarrow> path \<Rightarrow> bool \<Rightarrow> path res" where
  "assert_managed_path F root candidate allow_missing =
     bindE (someE (AdapterError ''is outside the CAP state root'') (relative_to root candidate)) (\<lambda>relative.
     if relative = [] then Inl (AdapterError ''must not be the CAP state root'')
     else bindE (managed_walk F allow_missing root relative) (\<lambda>_. Inr candidate))"

text \<open>Where no owner can be read, no component below the managed root may be a link.\<close>

fun link_free_walk :: "fs \<Rightarrow> path \<Rightarrow> string list \<Rightarrow> unit res" where
  "link_free_walk F cur [] = Inr ()"
| "link_free_walk F cur (p # ps) =
     bindE (someE (OSError ''lstat'') (lstat F (cur @ [p]))) (\<lambda>nd.
     if is_link_node nd then Inl (AdapterError ''contains a symlink or junction'') else link_free_walk F (cur @ [p]) ps)"

definition validate_private_runtime :: "host \<Rightarrow> fs \<Rightarrow> path \<Rightarrow> path \<Rightarrow> unit res" where
  "validate_private_runtime H F root private_root =
     bindE (someE (OSError ''stat'') (stat F root)) (\<lambda>nd.
     if \<not> is_dir_node nd then Inl (AdapterError ''must be a directory'')
     else case geteuid H of
       Some euid \<Rightarrow>
         (if st_uid (node_meta nd) \<noteq> euid then Inl (AdapterError ''must be a current-user directory'')
          else raise_if (and (st_mode (node_meta nd)) 63 \<noteq> 0) (AdapterError ''must not grant group or other access''))
     | None \<Rightarrow>
         bindE (someE (AdapterError ''must stay inside the CAP-managed root'') (relative_to private_root root)) (\<lambda>relative.
         link_free_walk F private_root relative))"

definition safe_entry :: "fs \<Rightarrow> path \<Rightarrow> unit res" where
  "safe_entry F p = bindE (someE (OSError ''lstat'') (lstat F p)) (\<lambda>nd. case nd of
       NLink _ _ _ \<Rightarrow> Inl (AdapterError ''contains a symlink'')
     | NFile m _ \<Rightarrow> raise_if (st_nlink m \<noteq> 1) (AdapterError ''contains a hard-linked file'')
     | NDir _ \<Rightarrow> Inr ()
     | _ \<Rightarrow> Inl (AdapterError ''contains a special file''))"

definition reject_unsafe_tree :: "fs \<Rightarrow> path \<Rightarrow> unit res" where
  "reject_unsafe_tree F root = forE (safe_entry F) (root # rglob F root)"

definition check_protected :: "path \<Rightarrow> path list \<Rightarrow> unit res" where
  "check_protected target guarded = forE (\<lambda>g. raise_if (prefix target g) (AdapterError ''would remove preserved state'')) guarded"

definition rmtree :: "path \<Rightarrow> (fs, unit) st" where
  "rmtree p = (\<lambda>F. case lstat F p of
       Some (NDir m) \<Rightarrow> (case resolve F p of Some d \<Rightarrow> (Inr (), remove_tree d F) | None \<Rightarrow> (Inl (OSError ''rmtree''), F))
     | _ \<Rightarrow> (Inl (OSError ''rmtree''), F))"

definition safe_remove_tree :: "path \<Rightarrow> path \<Rightarrow> path list \<Rightarrow> (fs, bool) st" where
  "safe_remove_tree root candidate guarded =
     bindS (readS (\<lambda>F. Inr (exists_at F candidate \<or> is_symlink F candidate))) (\<lambda>present.
     if \<not> present then returnS False
     else
     bindS (readS (\<lambda>F. assert_managed_path F root candidate False)) (\<lambda>_.
     bindS (readS (\<lambda>_. check_protected candidate guarded)) (\<lambda>_.
     bindS (readS (\<lambda>F. reject_unsafe_tree F candidate)) (\<lambda>_.
     bindS (rmtree candidate) (\<lambda>_. returnS True)))))"

section \<open>The digest of a tree\<close>

text \<open>What is hashed for one entry; \<open>sorted\<close> orders paths component by component.\<close>

definition entry_stream :: "fs \<Rightarrow> path \<Rightarrow> path \<Rightarrow> string res" where
  "entry_stream F d q = (case node_at F (d @ q) of
       Some (NDir _) \<Rightarrow> Inr (posix q @ [CHR 0x00] @ ''d'' @ [CHR 0x00])
     | Some (NFile m c) \<Rightarrow>
         (if st_nlink m = 1 then Inr (posix q @ [CHR 0x00] @ ''f'' @ [CHR 0x00] @ c @ [CHR 0x00])
          else Inl (AdapterError ''profile generation contains an unsafe file''))
     | Some (NLink _ _ _) \<Rightarrow> Inl (AdapterError ''profile generation contains a symlink'')
     | _ \<Rightarrow> Inl (AdapterError ''profile generation contains an unsafe file''))"

definition tree_entries :: "fs \<Rightarrow> path \<Rightarrow> string list \<Rightarrow> path list" where
  "tree_entries F d excluded = filter (\<lambda>q. posix q \<notin> set excluded) (sort (remdups (below F d)))"

definition tree_stream :: "fs \<Rightarrow> path \<Rightarrow> string list \<Rightarrow> string res" where
  "tree_stream F root excluded = (case resolve F root of
       None \<Rightarrow> Inr []
     | Some d \<Rightarrow>
         bindE (mapE (entry_stream F d) (tree_entries F d excluded)) (\<lambda>chunks.
         Inr (concat chunks)))"

definition tree_digest :: "host \<Rightarrow> fs \<Rightarrow> path \<Rightarrow> string list \<Rightarrow> string res" where
  "tree_digest H F root excluded = bindE (tree_stream F root excluded) (\<lambda>s. Inr (digest_bytes H s))"

section \<open>Overlays and placeholders\<close>

fun deep_overlay :: "dict \<Rightarrow> dict \<Rightarrow> dict" where
  "deep_overlay base [] = base"
| "deep_overlay base ((k, v) # rest) =
     deep_overlay (dict_set k (case (map_of base k, v) of
         (Some (VDict e), VDict d) \<Rightarrow> VDict (deep_overlay e d)
       | _ \<Rightarrow> v) base) rest"

definition placeholder :: string where
  "placeholder = ''<PROFILE_GENERATION>''"

fun replace_generation_placeholder :: "val \<Rightarrow> path \<Rightarrow> val" where
  "replace_generation_placeholder (VStr s) g = VStr (str_replace s placeholder (abs_str g))"
| "replace_generation_placeholder (VList xs) g = VList (map (\<lambda>x. replace_generation_placeholder x g) xs)"
| "replace_generation_placeholder (VDict d) g = VDict (map (\<lambda>(k, v). (k, replace_generation_placeholder v g)) d)"
| "replace_generation_placeholder v g = v"

section \<open>The portable render\<close>

text \<open>What a subprocess leaves: its return code and what it printed.\<close>

record process_result =
  pr_code :: int
  pr_out :: string
  pr_err :: string

text \<open>\<open>json.loads(stdout)["tree_hash"]\<close>, every failure of which is one adapter error.\<close>

definition printed_tree_hash :: "string \<Rightarrow> string res" where
  "printed_tree_hash out =
     bindE (wrapE (\<lambda>_. AdapterError ''materialize output has no tree_hash'') (loads False out)) (\<lambda>v.
     bindE (someE (AdapterError ''materialize output has no tree_hash'') (as_dict v)) (\<lambda>d.
     bindE (someE (AdapterError ''materialize output has no tree_hash'') (map_of d ''tree_hash'')) (\<lambda>h.
     someE (AdapterError ''materialize tree_hash must be a string'') (as_str h))))"

definition rendered_skill_dirs :: "fs \<Rightarrow> path \<Rightarrow> string list res" where
  "rendered_skill_dirs F output =
     (let root = output @ [''skills''] in
      if is_dir F root
      then bindE (iterdir F root) (\<lambda>names.
        Inr (sort (filter (\<lambda>n. is_dir F (root @ [n]) \<and> \<not> is_symlink F (root @ [n])) names)))
      else Inr [])"

definition render_portable_tree :: "(fs, process_result) st \<Rightarrow> path \<Rightarrow> (fs, string \<times> string list) st" where
  "render_portable_tree run output =
     bindS run (\<lambda>completed.
     if pr_code completed \<noteq> 0 then readS (\<lambda>_. Inl (SystemExit (pr_code completed)))
     else
     bindS (readS (\<lambda>_. printed_tree_hash (pr_out completed))) (\<lambda>h.
     bindS (readS (\<lambda>F. rendered_skill_dirs F output)) (\<lambda>names.
     returnS (h, names))))"

section \<open>The context of a generation\<close>

text \<open>\<open>json.loads(path.read_text())\<close>\<close>

definition read_json :: "fs \<Rightarrow> path \<Rightarrow> val res" where
  "read_json F p = bindE (read_text F p) (loads False)"

definition sub_item :: "val \<Rightarrow> string \<Rightarrow> val res" where
  "sub_item v k = bindE (someE (TypeError ''item'') (as_dict v)) (\<lambda>d. item d k)"

text \<open>\<open>isinstance(value, (str, int))\<close>, which booleans satisfy.\<close>

definition is_str_or_int :: "val \<Rightarrow> bool" where
  "is_str_or_int v = (is_str v \<or> is_int v \<or> is_bool v)"

definition adapter_version_of :: "val \<Rightarrow> string \<Rightarrow> val res" where
  "adapter_version_of lock client =
     bindE (sub_item lock ''clients'') (\<lambda>cs. bindE (sub_item cs client) (\<lambda>c. sub_item c ''adapter_version''))"

definition context_record :: "string \<Rightarrow> val \<Rightarrow> string \<Rightarrow> val \<Rightarrow> dict res" where
  "context_record profile_name binding portable_hash version =
     bindE (doc_get binding ''layer_digest'') (\<lambda>layer.
     bindE (doc_get binding ''effective_digest'') (\<lambda>effective.
     Inr [(''profile'', VStr profile_name), (''layer_digest'', layer), (''effective_digest'', effective),
       (''portable_tree_hash'', VStr portable_hash), (''adapter_version'', version)]))"

definition generation_source_context ::
    "host \<Rightarrow> fs \<Rightarrow> string \<Rightarrow> string \<Rightarrow> path \<Rightarrow> path \<Rightarrow> string \<Rightarrow> (dict \<times> string) res" where
  "generation_source_context H F profile_name client project binding_dir portable_hash =
     bindE (wrapE (\<lambda>_. AdapterError ''current project binding/lock context is invalid'')
       (bindE (read_json F (binding_dir @ [profile_name @ ''.binding.json''])) (\<lambda>binding.
        bindE (read_json F (project @ [''.cap'', ''lock.json''])) (\<lambda>lock.
        bindE (adapter_version_of lock client) (\<lambda>version. Inr (binding, version)))))) (\<lambda>(binding, version).
     bindE (context_record profile_name binding portable_hash version) (\<lambda>ctx.
     if \<not> list_all (\<lambda>k. is_str_or_int (get ctx k)) [''layer_digest'', ''effective_digest'', ''portable_tree_hash'', ''adapter_version'']
       then Inl (AdapterError ''current project binding/adapter context is incomplete'')
     else Inr (ctx, digest_json H (VDict ctx))))"

section \<open>Generations\<close>

definition GENERATION_MANIFEST_NAME :: string where
  "GENERATION_MANIFEST_NAME = ''.cap-generation.json''"

definition verify_generation :: "host \<Rightarrow> fs \<Rightarrow> path \<Rightarrow> dict \<Rightarrow> val res" where
  "verify_generation H F generation expected =
     bindE (wrapE (\<lambda>_. AdapterError ''profile generation manifest is invalid'') (read_json F (generation @ [GENERATION_MANIFEST_NAME]))) (\<lambda>payload.
     bindE (forE (\<lambda>(k, v). bindE (doc_get payload k) (\<lambda>w.
       raise_if (\<not> py_eq w v) (AdapterError ''profile generation metadata drifted''))) expected) (\<lambda>_.
     bindE (tree_digest H F generation [GENERATION_MANIFEST_NAME]) (\<lambda>content.
     bindE (doc_get payload ''content_digest'') (\<lambda>w.
     if w \<noteq> VStr content then Inl (AdapterError ''profile generation content drifted'') else Inr payload))))"

section \<open>Building a generation\<close>

definition chmod :: "path \<Rightarrow> nat \<Rightarrow> (fs, unit) st" where
  "chmod p mode = (\<lambda>F. case resolve F p of
       None \<Rightarrow> (Inl (OSError ''chmod''), F)
     | Some d \<Rightarrow> (case node_at F d of
           None \<Rightarrow> (Inl (OSError ''chmod''), F)
         | Some nd \<Rightarrow> (Inr (), put_node d (chmod_node mode nd) F)))"

text \<open>\<open>shutil.copytree\<close>: directories and files with their modes; a link to a file is followed. A
  link to anything else ends the copy with an error here.\<close>

definition copy_entry :: "host \<Rightarrow> fs \<Rightarrow> path \<Rightarrow> path \<Rightarrow> path \<Rightarrow> (fs, unit) st" where
  "copy_entry H F0 source target q = (\<lambda>F. case node_at F0 (source @ q) of
       Some (NDir m) \<Rightarrow> (Inr (), put_dir H (target @ q) (st_mode m) F)
     | Some (NFile m c) \<Rightarrow> (Inr (), put_file H (target @ q) c (st_mode m) F)
     | _ \<Rightarrow> (case stat F0 (source @ q) of
           Some (NFile m c) \<Rightarrow> (Inr (), put_file H (target @ q) c (st_mode m) F)
         | _ \<Rightarrow> (Inl (OSError ''copytree''), F)))"

definition copytree :: "host \<Rightarrow> path \<Rightarrow> path \<Rightarrow> (fs, unit) st" where
  "copytree H source target = (\<lambda>F.
     case (resolve F source, resolve F (parent target)) of
       (Some s, Some d) \<Rightarrow>
         (if \<not> is_dir F source \<or> \<not> is_dir F (parent target) \<or> lexists F target then (Inl (OSError ''copytree''), F)
          else forS (copy_entry H F s (d @ [name_of target])) ([] # sort (below F s)) F)
     | _ \<Rightarrow> (Inl (OSError ''copytree''), F))"

text \<open>\<open>path.write_text\<close> on a new name, or over a regular file.\<close>

definition write_text :: "host \<Rightarrow> path \<Rightarrow> string \<Rightarrow> (fs, unit) st" where
  "write_text H p c = (\<lambda>F. case resolve F p of
       Some q \<Rightarrow> (case node_at F q of
           Some (NFile m _) \<Rightarrow> (Inr (), put_node q (NFile m c) F)
         | _ \<Rightarrow> (Inl (OSError ''open''), F))
     | None \<Rightarrow> (case (lexists F p, resolve F (parent p)) of
           (False, Some d) \<Rightarrow>
             (if is_dir F (parent p) then (Inr (), put_file H (d @ [name_of p]) c 420 F) else (Inl (OSError ''open''), F))
         | _ \<Rightarrow> (Inl (OSError ''open''), F)))"

text \<open>\<open>os.rename\<close> of a directory: what is at the target, if anything, is an empty directory.\<close>

definition rename_directory :: "path \<Rightarrow> path \<Rightarrow> (fs, unit) st" where
  "rename_directory source target = (\<lambda>F.
     case (resolve F (parent source), resolve F (parent target)) of
       (Some s, Some d) \<Rightarrow>
         (let src = s @ [name_of source]; dst = d @ [name_of target] in
          case (node_at F src, node_at F dst) of
            (Some (NDir _), old) \<Rightarrow>
              (if prefix src dst then (Inl (OSError ''rename''), F)
               else (case old of
                   None \<Rightarrow> (Inr (), rename_tree src dst (remove_tree dst F))
                 | Some (NDir _) \<Rightarrow>
                     (if children F dst = [] then (Inr (), rename_tree src dst (remove_tree dst F))
                      else (Inl (OSError ''rename''), F))
                 | _ \<Rightarrow> (Inl (OSError ''rename''), F)))
          | _ \<Rightarrow> (Inl (OSError ''rename''), F))
     | _ \<Rightarrow> (Inl (OSError ''rename''), F))"

record generation_args =
  ga_parent :: path
  ga_generation :: path
  ga_source :: path
  ga_state_root :: path
  ga_private_root :: path
  ga_stage :: path

definition private_directory_ready :: "host \<Rightarrow> path \<Rightarrow> path \<Rightarrow> (fs, unit) st" where
  "private_directory_ready H private_root p =
     bindS (make_private_dirs H p) (\<lambda>_.
     bindS (chmod p 448) (\<lambda>_.
     readS (\<lambda>F. validate_private_runtime H F p private_root)))"

definition manifest_doc :: "dict \<Rightarrow> string \<Rightarrow> val" where
  "manifest_doc base content = VDict (dict_set ''content_digest'' (VStr content) base)"

definition build_stage :: "host \<Rightarrow> generation_args \<Rightarrow> (path \<Rightarrow> (fs, unit) st) \<Rightarrow> dict \<Rightarrow> (fs, unit) st" where
  "build_stage H A write_payload base =
     bindS (copytree H (ga_source A) (ga_stage A)) (\<lambda>_.
     bindS (write_payload (ga_stage A)) (\<lambda>_.
     bindS (readS (\<lambda>F. tree_digest H F (ga_stage A) [])) (\<lambda>content.
     write_text H (ga_stage A @ [GENERATION_MANIFEST_NAME]) (spaced_json (manifest_doc base content) @ [CHR 0x0A]))))"

text \<open>The rename, and what happens when another process was faster. \<open>others\<close> is what other
  processes do to the file system before it.\<close>

definition promote :: "generation_args \<Rightarrow> (fs \<Rightarrow> fs) \<Rightarrow> (path \<Rightarrow> fs \<Rightarrow> val res) \<Rightarrow> (fs, unit) st" where
  "promote A others verify = (\<lambda>F. case rename_directory (ga_stage A) (ga_generation A) (others F) of
       (Inr _, F') \<Rightarrow> (Inr (), F')
     | (Inl e, F') \<Rightarrow>
         (if \<not> exists_at F' (ga_generation A) then (Inl e, F')
          else bindS (rmtree (ga_stage A)) (\<lambda>_.
               readS (\<lambda>F. bindE (verify (ga_generation A) F) (\<lambda>_. Inr ()))) F'))"

definition discarding_stage :: "generation_args \<Rightarrow> (fs, unit) st \<Rightarrow> (fs, unit) st" where
  "discarding_stage A body = (\<lambda>F. case body F of
       (Inr u, F') \<Rightarrow> (Inr u, F')
     | (Inl e, F') \<Rightarrow>
         (if exists_at F' (ga_stage A)
          then (case rmtree (ga_stage A) F' of (Inl e', F'') \<Rightarrow> (Inl e', F'') | (Inr _, F'') \<Rightarrow> (Inl e, F''))
          else (Inl e, F')))"

definition materialize_generation ::
    "host \<Rightarrow> generation_args \<Rightarrow> (path \<Rightarrow> (fs, unit) st) \<Rightarrow> dict \<Rightarrow> (fs \<Rightarrow> fs) \<Rightarrow> (path \<Rightarrow> fs \<Rightarrow> val res) \<Rightarrow> (fs, unit) st" where
  "materialize_generation H A write_payload base others verify =
     bindS (readS (\<lambda>F. Inr (exists_at F (ga_generation A)))) (\<lambda>cached.
     if cached then readS (\<lambda>F. bindE (verify (ga_generation A) F) (\<lambda>_. Inr ()))
     else
     bindS (private_directory_ready H (ga_private_root A) (ga_state_root A)) (\<lambda>_.
     bindS (private_directory_ready H (ga_private_root A) (ga_parent A)) (\<lambda>_.
     bindS (readS (\<lambda>F. assert_managed_path F (ga_private_root A) (ga_parent A) False)) (\<lambda>_.
     discarding_stage A
       (bindS (build_stage H A write_payload base) (\<lambda>_. promote A others verify))))))"

end
