(* ===== verification/CapConfig.thy ===== *)
theory CapConfig
  imports EngineData FileSystem
begin

text \<open>
  Names and gates of the \<open>cap\<close> command (\<open>cap/config.py\<close>) and the argument helpers of
  \<open>cap/support.py\<close>. The lists of ambient variables are the command's own: they are not those of the
  profile engine.
\<close>

section \<open>Constants\<close>

definition DEFAULT_PROFILE :: string where
  "DEFAULT_PROFILE = ''general''"

definition RUNNABLE_PROFILES :: "string list" where
  "RUNNABLE_PROFILES = [''general'', ''agent-assembler'']"

definition cap_CLIENTS :: "string list" where
  "cap_CLIENTS = [''codex'', ''qoder'', ''omp'', ''claude'']"

definition DEFAULT_CLI :: string where
  "DEFAULT_CLI = ''omp''"

definition cap_CAPABILITY_KINDS :: "string list" where
  "cap_CAPABILITY_KINDS = [''skills'', ''mcp'', ''hooks'', ''plugins'']"

definition cap_AMBIENT_CONFIG_ENV :: "string list" where
  "cap_AMBIENT_CONFIG_ENV = [''CODEX_HOME'', ''OMP_PROFILE'', ''PI_CODING_AGENT_DIR'', ''PI_CONFIG_DIR'',
     ''PI_CONFIG_FILES'', ''PI_PROFILE'', ''QODER_CONFIG_DIR'', ''QODER_WORKING_DIR'']"

definition cap_OMP_AMBIENT_AUTH_ENV :: "string list" where
  "cap_OMP_AMBIENT_AUTH_ENV = [
    ''ANTHROPIC_BASE_URL'', ''ANTHROPIC_CUSTOM_HEADERS'', ''ANTHROPIC_SEARCH_BASE_URL'',
    ''AWS_CONFIG_FILE'', ''AWS_CONTAINER_AUTHORIZATION_TOKEN'',
    ''AWS_CONTAINER_AUTHORIZATION_TOKEN_FILE'', ''AWS_CONTAINER_CREDENTIALS_FULL_URI'',
    ''AWS_CONTAINER_CREDENTIALS_RELATIVE_URI'', ''AWS_EC2_METADATA_DISABLED'',
    ''AWS_EC2_METADATA_SERVICE_ENDPOINT'', ''AWS_EC2_METADATA_SERVICE_ENDPOINT_MODE'',
    ''AWS_PROFILE'', ''AWS_ROLE_ARN'', ''AWS_ROLE_SESSION_NAME'', ''AWS_SHARED_CREDENTIALS_FILE'',
    ''AWS_WEB_IDENTITY_TOKEN_FILE'', ''AZURE_OPENAI_API_VERSION'', ''AZURE_OPENAI_BASE_URL'',
    ''AZURE_OPENAI_DEPLOYMENT_NAME_MAP'', ''AZURE_OPENAI_ENDPOINT'',
    ''AZURE_OPENAI_RESOURCE_NAME'', ''CLAUDE_CODE_CLIENT_CERT'', ''CLAUDE_CODE_CLIENT_KEY'',
    ''CLAUDE_CODE_USE_FOUNDRY'', ''CLOUDSDK_CONFIG'', ''COPILOT_GITHUB_TOKEN'',
    ''FOUNDRY_BASE_URL'', ''FUGU_BASE_URL'', ''GCLOUD_PROJECT'', ''GCP_PROJECT'', ''GITLAB_TOKEN'',
    ''GOOGLE_APPLICATION_CREDENTIALS'', ''GOOGLE_CLOUD_LOCATION'', ''GOOGLE_CLOUD_PROJECT'',
    ''GOOGLE_CLOUD_PROJECT_ID'', ''GOOGLE_VERTEX_LOCATION'', ''HF_TOKEN'', ''KIMI_CODE_BASE_URL'',
    ''KIMI_CODE_OAUTH_HOST'', ''KIMI_OAUTH_HOST'', ''LITELLM_BASE_URL'', ''LLAMA_CPP_BASE_URL'',
    ''LM_STUDIO_BASE_URL'', ''MOONSHOT_BASE_URL'', ''NODE_EXTRA_CA_CERTS'', ''OLLAMA_BASE_URL'',
    ''OLLAMA_HOST'', ''OMP_AUTH_BROKER_TOKEN'', ''OMP_AUTH_BROKER_URL'', ''OPENAI_BASE_URL'',
    ''PERPLEXITY_COOKIES'', ''SAKANA_BASE_URL'', ''UMANS_WEBSEARCH_PROVIDER'', ''VERTEX_LOCATION'']"

definition cap_OMP_AMBIENT_CREDENTIAL_SUFFIXES :: "string list" where
  "cap_OMP_AMBIENT_CREDENTIAL_SUFFIXES = [''_API_KEY'', ''_ACCESS_TOKEN'', ''_OAUTH_TOKEN'', ''_BEARER_TOKEN'',
     ''_HUB_TOKEN'', ''_SECRET_ACCESS_KEY'', ''_SESSION_TOKEN'']"

definition OMP_AMBIENT_MCP_DENYLIST :: "string list" where
  "OMP_AMBIENT_MCP_DENYLIST = [''codegraph'']"

definition cap_ambient_credential :: "string \<Rightarrow> bool" where
  "cap_ambient_credential nm = list_ex (\<lambda>s. suffix s nm) cap_OMP_AMBIENT_CREDENTIAL_SUFFIXES"

text \<open>\<open>SKILL_NAME_PATTERN.fullmatch\<close>: words of lower-case letters and digits joined by hyphens.\<close>

definition skill_name :: "string \<Rightarrow> bool" where
  "skill_name s = list_all (\<lambda>w. w \<noteq> [] \<and> list_all (\<lambda>c. is_lower c \<or> is_digit c) w) (split_on CHR ''-'' s)"

definition is_project_root :: "fs \<Rightarrow> path \<Rightarrow> bool" where
  "is_project_root F p = (is_file F (p @ [''.cap'', ''manifest.toml'']) \<and> is_file F (p @ [''AGENTS.md'']))"

definition default_project :: "host \<Rightarrow> fs \<Rightarrow> path \<Rightarrow> path res" where
  "default_project H F source_project =
     (case map_of (environ H) ''AGENT_SYSTEM_PROJECT'' of
        Some (c # cs) \<Rightarrow>
          bindE (expand_home H (c # cs)) (\<lambda>(absolute, p).
          Inr (let q = (if absolute then p else cwd H @ p) in case resolve F q of Some r \<Rightarrow> r | None \<Rightarrow> q))
      | _ \<Rightarrow>
          (let canonical = home_dir H @ [''work'', ''agent-system''] in
           Inr (if is_project_root F canonical then canonical
                else if is_project_root F source_project then source_project else canonical)))"

section \<open>Arguments\<close>

text \<open>The arguments of one command; the path arguments are given as the absolute paths they expand to.\<close>

record cap_args =
  ca_project :: path
  ca_overlay :: "path option"
  ca_profile :: string
  ca_cli :: string
  ca_client_args :: "string list"
  ca_tool_command :: string
  ca_profile_tool :: path
  ca_base_manifest :: path
  ca_base_pin :: path
  ca_binding_dir :: path
  ca_agent_home_root :: path
  ca_real_home :: path
  ca_runtime_id :: string
  ca_runtime_root :: "path option"
  ca_preference_root :: "path option"
  ca_workdir :: "path option"
  ca_receipt :: "path option"
  ca_rollback :: bool
  ca_cleanup :: bool
  ca_apply :: bool
  ca_claude_runtime_id :: string
  ca_fresh :: bool
  ca_state :: "string option"
  ca_output :: string
  ca_auth_root :: path
  ca_home :: path

definition tool_args :: "string \<Rightarrow> cap_args \<Rightarrow> string list" where
  "tool_args python A = [python, abs_str (ca_profile_tool A), ''--project'', abs_str (ca_project A)]
     @ (case ca_overlay A of Some ov \<Rightarrow> [''--private-overlay'', abs_str ov] | None \<Rightarrow> [])"

definition binding_args :: "cap_args \<Rightarrow> string list" where
  "binding_args A = [''--machine-context-manifest'', abs_str (ca_base_manifest A),
     ''--machine-context-pin'', abs_str (ca_base_pin A), ''--assembly-binding-dir'', abs_str (ca_binding_dir A)]"

text \<open>\<open>stamp\<close> is the local time, the process and the nanosecond clock.\<close>

definition run_path :: "host \<Rightarrow> string \<Rightarrow> cap_args \<Rightarrow> string \<Rightarrow> (fs, path) st" where
  "run_path H stamp A sfx = (\<lambda>F.
     let dir = parent (ca_project A) @ [name_of (ca_project A) @ ''.runs''] in
     case mkdirs H 493 [] dir F of
       Inl e \<Rightarrow> (Inl e, F)
     | Inr (_, F') \<Rightarrow> (Inr (dir @ [ca_profile A @ ''-'' @ ca_cli A @ ''-'' @ stamp @ ''.'' @ sfx]), F'))"

definition cap_workdir :: "host \<Rightarrow> fs \<Rightarrow> cap_args \<Rightarrow> path res" where
  "cap_workdir H F A = someE (OSError ''resolve'') (resolve F (case ca_workdir A of Some d \<Rightarrow> d | None \<Rightarrow> cwd H))"

definition passthrough :: "string list \<Rightarrow> string list" where
  "passthrough values = values"

end
