(* ===== verification/OmpState.thy ===== *)
theory OmpState
  imports Adapter CapConfig
begin

text \<open>
  The persistent OMP runtime (\<open>omp/runtime.py\<close>): where it lives, what one runtime holds, and the plan
  of a migration from the runtime of a project to the one of the user. SQLite and YAML are parameters:
  the rows the queries of the source return, and the documents with string keys YAML reads.
\<close>

section \<open>Parameters\<close>

datatype sql_value = SqlBytes string | SqlValue val

text \<open>A database that could be locked and read: its tables and the rows of the source's queries;
  \<open>db_auth\<close> has provider, credential type and identity key of the enabled credentials, in order.\<close>

record database =
  db_quick_check :: bool
  db_tables :: "string list"
  db_auth :: "(val \<times> val \<times> string option) list"
  db_settings :: "sql_value list list"
  db_auth_schema :: "val list list"
  db_schema :: "val list list"

text \<open>\<open>en_database\<close> is \<open>None\<close> where SQLite raises an error; \<open>en_backup\<close> is what the backup of a
  database file holds.\<close>

record engines =
  en_yaml_load :: "string \<Rightarrow> val option"
  en_yaml_dump :: "val \<Rightarrow> string"
  en_database :: "fs \<Rightarrow> path \<Rightarrow> database option"
  en_backup :: "fs \<Rightarrow> path \<Rightarrow> string option"

section \<open>Places\<close>

definition omp_runtime_id :: "cap_args \<Rightarrow> string res" where
  "omp_runtime_id A = (if skill_name (ca_runtime_id A) then Inr (ca_runtime_id A)
     else Inl (AdapterError ''OMP runtime id must be a lowercase kebab-case identifier''))"

definition agent_home_dir :: "cap_args \<Rightarrow> path res" where
  "agent_home_dir A =
     bindE (omp_runtime_id A) (\<lambda>rid.
     let expected = ca_real_home A @ [''.agent-system-state'', ''runtimes'', ''omp'', rid] in
     if (case ca_runtime_root A of Some c \<Rightarrow> c \<noteq> expected | None \<Rightarrow> False)
       then Inl (AdapterError ''explicit OMP runtime root must equal the approved HOME/id path'')
     else Inr expected)"

definition project_shared_omp_home :: "cap_args \<Rightarrow> path" where
  "project_shared_omp_home A = ca_agent_home_root A @ [''shared'', ''omp'']"

definition legacy_omp_homes :: "cap_args \<Rightarrow> (string \<times> path) list" where
  "legacy_omp_homes A = map (\<lambda>p. (p, ca_agent_home_root A @ [p, ''omp''])) RUNNABLE_PROFILES"

definition global_render_root :: "cap_args \<Rightarrow> path" where
  "global_render_root A = ca_real_home A @ [''.agent-system-state'', ''renders'', ''omp'']"

definition migration_backup_root :: "cap_args \<Rightarrow> path" where
  "migration_backup_root A = ca_agent_home_root A @ [''migrations'', ''backup'', ''global-omp-runtime'']"

definition shared_runtime_marker :: "cap_args \<Rightarrow> path res" where
  "shared_runtime_marker A = bindE (agent_home_dir A) (\<lambda>d. Inr (d @ [''.cap-shared-runtime.json'']))"

section \<open>Settings\<close>

definition memory_off :: dict where
  "memory_off = [(''memory'', VDict [(''backend'', VStr ''off'')])]"

text \<open>The copy through JSON turns tuples into lists.\<close>

definition json_copy :: "dict \<Rightarrow> dict" where
  "json_copy d = map (\<lambda>(k, v). (k, untuple v)) d"

definition without_broker :: "dict \<Rightarrow> dict" where
  "without_broker d = (case map_of d ''auth'' of
       Some (VDict auth) \<Rightarrow>
         (let rest = dict_pop ''broker'' auth in
          if rest = [] then dict_pop ''auth'' d else dict_set ''auth'' (VDict rest) d)
     | _ \<Rightarrow> d)"

definition strip_legacy_broker :: "dict \<Rightarrow> dict res" where
  "strip_legacy_broker config =
     (let copied = without_broker (json_copy config) in
      bindE (someE (AdapterError ''OMP setting memory must be an object'') (as_dict (get_or copied ''memory'' (VDict [])))) (\<lambda>memory.
      Inr (dict_set ''memory'' (VDict (dict_set ''backend'' (VStr ''off'') memory)) copied)))"

text \<open>\<open>yaml.safe_load\<close> of a file; the caller's message replaces every error.\<close>

definition read_yaml :: "engines \<Rightarrow> fs \<Rightarrow> path \<Rightarrow> string \<Rightarrow> val res" where
  "read_yaml E F p msg =
     bindE (wrapE (\<lambda>_. AdapterError msg) (read_text F p)) (\<lambda>t. someE (AdapterError msg) (en_yaml_load E t))"

definition read_runtime_config :: "engines \<Rightarrow> fs \<Rightarrow> path \<Rightarrow> dict res" where
  "read_runtime_config E F root =
     (if \<not> is_file F (root @ [''config.yml'']) then Inr memory_off
      else
      bindE (read_yaml E F (root @ [''config.yml'']) ''config.yml is invalid'') (\<lambda>v.
      bindE (if v = VNone then Inr [] else someE (AdapterError ''config.yml must be an object'') (as_dict v)) strip_legacy_broker))"

lemma size_map_of: "map_of d k = Some (VDict e) \<Longrightarrow> size_list (size_prod (\<lambda>_. 0) size) e < size_list (size_prod (\<lambda>_. 0) size) d"
  by (induction d) (auto split: if_splits)

function (sequential) merge_runtime_config :: "dict \<Rightarrow> dict \<Rightarrow> dict res" where
  "merge_runtime_config left right =
     mapE (\<lambda>k. case map_of left k of
         None \<Rightarrow> Inr (k, get right k)
       | Some l \<Rightarrow> (case map_of right k of
           None \<Rightarrow> Inr (k, l)
         | Some r \<Rightarrow> (case (l, r) of
             (VDict a, VDict b) \<Rightarrow> bindE (merge_runtime_config a b) (\<lambda>m. Inr (k, VDict m))
           | _ \<Rightarrow> if py_eq l r then Inr (k, l) else Inl (AdapterError ''OMP settings conflict''))))
       (sorted_set (keys left @ keys right))"
  by pat_completeness auto
termination
  by (relation "measure (\<lambda>(l, _). size_list (size_prod (\<lambda>_. 0) size) l)") (auto dest: size_map_of)

declare merge_runtime_config.simps [simp del]

section \<open>What a runtime holds\<close>

definition sqlite_value_digest :: "host \<Rightarrow> sql_value \<Rightarrow> val" where
  "sqlite_value_digest H v = (case v of
       SqlBytes b \<Rightarrow> VDict [(''bytes'', VStr (digest_bytes H b))]
     | SqlValue w \<Rightarrow> w)"

definition sqlite_rows_digest :: "host \<Rightarrow> sql_value list list \<Rightarrow> string" where
  "sqlite_rows_digest H rows = digest_json H (VList (map (\<lambda>row. VList (map (sqlite_value_digest H) row)) rows))"

definition required_tables :: "string list" where
  "required_tables = [''auth_credentials'', ''auth_schema_version'', ''schema_version'', ''settings'']"

definition auth_projection :: "host \<Rightarrow> database \<Rightarrow> val" where
  "auth_projection H D = VList (map (\<lambda>(provider, kind, identity).
     VList [provider, kind, VStr (digest_bytes H (case identity of Some s \<Rightarrow> s | None \<Rightarrow> []))]) (db_auth D))"

definition schema_doc :: "database \<Rightarrow> val" where
  "schema_doc D = VDict [(''auth'', VList (map VTuple (db_auth_schema D))), (''agent'', VList (map VTuple (db_schema D)))]"

definition empty_digest :: "host \<Rightarrow> string" where
  "empty_digest H = digest_json H (VList [])"

definition database_summary :: "host \<Rightarrow> engines \<Rightarrow> fs \<Rightarrow> path \<Rightarrow> (nat \<times> string \<times> string \<times> string) res" where
  "database_summary H E F p =
     (if \<not> is_file F p then Inr (0, empty_digest H, empty_digest H, empty_digest H)
      else
      bindE (someE (AdapterError ''agent.db is busy or unreadable'') (en_database E F p)) (\<lambda>D.
      if \<not> db_quick_check D then Inl (AdapterError ''agent.db failed quick_check'')
      else if \<not> set required_tables \<subseteq> set (db_tables D) then Inl (AdapterError ''agent.db schema is incomplete'')
      else Inr (length (db_auth D), digest_json H (auth_projection H D), sqlite_rows_digest H (db_settings D),
        digest_json H (schema_doc D))))"

definition session_entry :: "host \<Rightarrow> fs \<Rightarrow> path \<Rightarrow> path \<Rightarrow> (string \<times> string) list res" where
  "session_entry H F d q = (case node_at F (d @ q) of
       Some (NLink _ _ _) \<Rightarrow> Inl (AdapterError ''sessions contain a symlink'')
     | Some (NDir _) \<Rightarrow> Inr []
     | Some (NFile m c) \<Rightarrow>
         (if st_nlink m = 1 then Inr [(posix q, digest_bytes H c)] else Inl (AdapterError ''sessions contain an unsafe file''))
     | _ \<Rightarrow> Inl (AdapterError ''sessions contain an unsafe file''))"

definition session_inventory :: "host \<Rightarrow> fs \<Rightarrow> path \<Rightarrow> (string \<times> string) list res" where
  "session_inventory H F root =
     (case resolve F (root @ [''sessions'']) of
        None \<Rightarrow> Inr []
      | Some d \<Rightarrow> bindE (mapE (session_entry H F d) (tree_entries F d [])) (\<lambda>es. Inr (concat es)))"

record runtime_summary =
  sm_label :: string
  sm_root :: path
  sm_exists :: bool
  sm_auth_count :: nat
  sm_auth_digest :: string
  sm_settings_digest :: string
  sm_schema_digest :: string
  sm_config :: dict
  sm_sessions :: "(string \<times> string) list"

definition runtime_summary_of :: "host \<Rightarrow> engines \<Rightarrow> fs \<Rightarrow> string \<Rightarrow> path \<Rightarrow> path \<Rightarrow> runtime_summary res" where
  "runtime_summary_of H E F label root private_root =
     (if \<not> exists_at F root then
        Inr \<lparr>sm_label = label, sm_root = root, sm_exists = False, sm_auth_count = 0, sm_auth_digest = empty_digest H,
          sm_settings_digest = empty_digest H, sm_schema_digest = empty_digest H, sm_config = memory_off, sm_sessions = []\<rparr>
      else
      bindE (validate_private_runtime H F root private_root) (\<lambda>_.
      bindE (reject_unsafe_tree F root) (\<lambda>_.
      bindE (database_summary H E F (root @ [''agent.db''])) (\<lambda>(n, auth, settings, schema).
      bindE (read_runtime_config E F root) (\<lambda>config.
      bindE (session_inventory H F root) (\<lambda>sessions.
      Inr \<lparr>sm_label = label, sm_root = root, sm_exists = True, sm_auth_count = n, sm_auth_digest = auth,
        sm_settings_digest = digest_json H (VDict [(''database'', VStr settings), (''yaml'', VDict config)]),
        sm_schema_digest = schema, sm_config = config, sm_sessions = sessions\<rparr>))))))"

section \<open>The plan of a migration\<close>

type_synonym summaries = "(string \<times> runtime_summary) list"

definition summary_at :: "summaries \<Rightarrow> string \<Rightarrow> runtime_summary res" where
  "summary_at S k = someE (KeyError k) (map_of S k)"

definition choose_canonical :: "summaries \<Rightarrow> string option res" where
  "choose_canonical S = (case map fst (filter (\<lambda>(_, s). sm_exists s) S) of
       [] \<Rightarrow> Inr None
     | [p] \<Rightarrow> Inr (Some p)
     | _ \<Rightarrow>
         bindE (summary_at S ''general'') (\<lambda>general.
         bindE (summary_at S ''agent-assembler'') (\<lambda>helper.
         if sm_schema_digest general \<noteq> sm_schema_digest helper then Inl (AdapterError ''legacy OMP database schemas differ'')
         else if sm_auth_count general \<noteq> 0 \<and> sm_auth_count helper \<noteq> 0 then
           (if sm_auth_digest general \<noteq> sm_auth_digest helper
            then Inl (AdapterError ''legacy OMP authentication identities differ'') else Inr (Some ''general''))
         else if sm_auth_count helper \<noteq> 0 then Inr (Some ''agent-assembler'')
         else Inr (Some ''general''))))"

type_synonym sessions = "(string \<times> string \<times> string) list"

definition merge_session :: "string \<Rightarrow> sessions \<Rightarrow> string \<times> string \<Rightarrow> sessions res" where
  "merge_session label merged = (\<lambda>(relative, d).
     case map_of merged relative of
       Some (_, d') \<Rightarrow> (if d' \<noteq> d then Inl (AdapterError ''OMP Session conflict'') else Inr (dict_set relative (label, d) merged))
     | None \<Rightarrow> Inr (dict_set relative (label, d) merged))"

definition merge_session_inventory :: "summaries \<Rightarrow> sessions res" where
  "merge_session_inventory S =
     foldE (\<lambda>merged (label, s). if sm_exists s then foldE (merge_session label) merged (sm_sessions s) else Inr merged) [] S"

definition is_initialized_empty_global :: "fs \<Rightarrow> runtime_summary \<Rightarrow> dict option \<Rightarrow> bool res" where
  "is_initialized_empty_global F s marker = (case marker of
       None \<Rightarrow> Inr False
     | Some m \<Rightarrow>
         (if \<not> sm_exists s then Inr False
          else
          bindE (iterdir F (sm_root s)) (\<lambda>names.
          if \<not> set names \<subseteq> {''.cap-shared-runtime.json'', ''config.yml'', ''mcp.json'', ''sessions''} then Inr False
          else Inr (py_eq (get m ''version'') (VInt 2) \<and> get m ''canonical'' = VNone \<and> get m ''migration_complete'' = VBool True
            \<and> py_eq (get_or m ''session_files'' (VInt 0)) (VInt 0) \<and> sm_auth_count s = 0 \<and> sm_sessions s = []
            \<and> py_eq (VDict (sm_config s)) (VDict memory_off)))))"

definition read_marker :: "fs \<Rightarrow> path \<Rightarrow> string \<Rightarrow> val res" where
  "read_marker F p msg = wrapE (\<lambda>_. AdapterError msg) (read_json F p)"

definition marker_matches :: "val \<Rightarrow> string \<Rightarrow> string \<Rightarrow> dict res" where
  "marker_matches v rid msg =
     bindE (someE (AttributeError ''get'') (as_dict v)) (\<lambda>m.
     if \<not> py_eq (get m ''version'') (VInt 2) \<or> get m ''runtime_id'' \<noteq> VStr rid then Inl (AdapterError msg) else Inr m)"

definition side_doc :: "runtime_summary \<Rightarrow> dict" where
  "side_doc s = [(''exists'', VBool (sm_exists s)), (''auth_entries'', VInt (int (sm_auth_count s))),
     (''auth_digest'', VStr (sm_auth_digest s)), (''settings_digest'', VStr (sm_settings_digest s)),
     (''schema_digest'', VStr (sm_schema_digest s)), (''session_files'', VInt (int (length (sm_sessions s))))]"

record plan =
  pl_public :: dict
  pl_summaries :: summaries
  pl_canonical :: "string option"
  pl_config :: dict
  pl_sessions :: sessions

definition target_marker :: "fs \<Rightarrow> cap_args \<Rightarrow> runtime_summary \<Rightarrow> dict option res" where
  "target_marker F A target =
     (if \<not> sm_exists target then Inr None
      else
      bindE (shared_runtime_marker A) (\<lambda>marker.
      if \<not> is_file F marker then Inl (AdapterError ''global OMP runtime exists without a migration marker'')
      else
      bindE (read_marker F marker ''global OMP migration marker is invalid'') (\<lambda>v.
      bindE (omp_runtime_id A) (\<lambda>rid.
      bindE (marker_matches v rid ''global OMP migration marker does not match runtime id'') (\<lambda>m.
      Inr (Some m))))))"

definition both_canonical :: "fs \<Rightarrow> runtime_summary \<Rightarrow> runtime_summary \<Rightarrow> dict option \<Rightarrow> string res" where
  "both_canonical F source target marker =
     (if is_file F (sm_root target @ [''agent.db'']) then
        (if sm_schema_digest source \<noteq> sm_schema_digest target then Inl (AdapterError ''project and global OMP database schemas differ'')
         else if sm_auth_count source \<noteq> 0 \<and> sm_auth_count target \<noteq> 0 \<and> sm_auth_digest source \<noteq> sm_auth_digest target
           then Inl (AdapterError ''project and global OMP authentication identities differ'')
         else Inr (if sm_auth_count target \<noteq> 0 then ''global'' else ''project-shared''))
      else
      bindE (is_initialized_empty_global F target marker) (\<lambda>ok.
      if ok then Inr ''project-shared'' else Inl (AdapterError ''global OMP runtime is incomplete without agent.db'')))"

definition canonical_and_config :: "fs \<Rightarrow> runtime_summary \<Rightarrow> runtime_summary \<Rightarrow> dict option \<Rightarrow> (string option \<times> dict) res" where
  "canonical_and_config F source target marker =
     (if sm_exists source \<and> sm_exists target then
        bindE (both_canonical F source target marker) (\<lambda>c.
        bindE (merge_runtime_config (sm_config target) (sm_config source)) (\<lambda>config. Inr (Some c, config)))
      else if sm_exists source then Inr (Some ''project-shared'', sm_config source)
      else Inr (None, memory_off))"

definition migration_plan :: "host \<Rightarrow> engines \<Rightarrow> fs \<Rightarrow> cap_args \<Rightarrow> plan res" where
  "migration_plan H E F A =
     bindE (if exists_at F (ca_agent_home_root A)
            then assert_managed_path F (parent (ca_agent_home_root A)) (ca_agent_home_root A) False
            else Inr (ca_agent_home_root A)) (\<lambda>_.
     bindE (runtime_summary_of H E F ''project-shared'' (project_shared_omp_home A) (ca_agent_home_root A)) (\<lambda>source.
     bindE (agent_home_dir A) (\<lambda>target_root.
     bindE (runtime_summary_of H E F ''global'' target_root (ca_real_home A)) (\<lambda>target.
     bindE (target_marker F A target) (\<lambda>marker.
     bindE (omp_runtime_id A) (\<lambda>rid.
     let S = [(''project-shared'', source), (''global'', target)] in
     if sm_exists target \<and> \<not> sm_exists source then
       Inr \<lparr>pl_public = [(''status'', VStr ''already-global''), (''runtime_id'', VStr rid),
           (''source'', VDict [(''exists'', VBool False)]), (''target'', VDict (side_doc target)),
           (''session_files'', VInt (int (length (sm_sessions target)))), (''writes_planned'', VBool False)],
         pl_summaries = S, pl_canonical = Some ''global'', pl_config = sm_config target, pl_sessions = []\<rparr>
     else
     bindE (canonical_and_config F source target marker) (\<lambda>(canonical, config0).
     bindE (strip_legacy_broker config0) (\<lambda>config.
     bindE (merge_session_inventory S) (\<lambda>sessions.
     Inr \<lparr>pl_public = [(''status'', VStr ''ready''), (''runtime_id'', VStr rid), (''source'', VDict (side_doc source)),
         (''target'', VDict (side_doc target)), (''canonical'', (case canonical of Some c \<Rightarrow> VStr c | None \<Rightarrow> VNone)),
         (''merged_settings_digest'', VStr (digest_json H (VDict config))),
         (''session_files'', VInt (int (length sessions))), (''writes_planned'', VBool True)],
       pl_summaries = S, pl_canonical = canonical, pl_config = config, pl_sessions = sessions\<rparr>)))))))))"

end
