(* ===== verification/OmpMigrate.thy ===== *)
theory OmpMigrate
  imports OmpState
begin

text \<open>
  Moving the OMP runtime of a project to the one of the user (\<open>omp/runtime.py\<close>): the staged copy with
  its backup, the swap of directories, what is undone when a step fails, the rollback from the backup
  and the cleanup of what the migration left.
\<close>

section \<open>Steps on files\<close>

definition mkdir_new :: "host \<Rightarrow> path \<Rightarrow> nat \<Rightarrow> (fs, unit) st" where
  "mkdir_new H p mode = (\<lambda>F. case resolve F (parent p) of
       Some d \<Rightarrow>
         (if is_dir F (parent p) \<and> \<not> lexists F p then (Inr (), put_dir H (d @ [name_of p]) mode F)
          else (Inl (OSError ''mkdir''), F))
     | None \<Rightarrow> (Inl (OSError ''mkdir''), F))"

text \<open>\<open>shutil.copy2\<close> to a file name: the content, then the mode.\<close>

definition copy2 :: "host \<Rightarrow> path \<Rightarrow> path \<Rightarrow> (fs, unit) st" where
  "copy2 H source target = (\<lambda>F. case stat F source of
       Some (NFile m c) \<Rightarrow> bindS (write_text H target c) (\<lambda>_. chmod target (st_mode m)) F
     | _ \<Rightarrow> (Inl (OSError ''copy2''), F))"

definition write_private :: "host \<Rightarrow> path \<Rightarrow> string \<Rightarrow> (fs, unit) st" where
  "write_private H p c = bindS (write_text H p c) (\<lambda>_. chmod p 384)"

definition sqlite_backup :: "host \<Rightarrow> engines \<Rightarrow> path \<Rightarrow> path \<Rightarrow> (fs, unit) st" where
  "sqlite_backup H E source target =
     bindS (readS (\<lambda>F. someE (RuntimeError ''sqlite3.Error'') (en_backup E F source))) (\<lambda>c. write_private H target c)"

definition MIGRATION_SKIP_NAMES :: "string list" where
  "MIGRATION_SKIP_NAMES = [''.cap-rendered'', ''config.yml'', ''config.yml.lock'', ''home'', ''mcp.json'', ''sessions'',
     ''skills'', ''system-prompt.md'', ''terminal-sessions'']"

definition skipped_entry :: "string \<Rightarrow> bool" where
  "skipped_entry n = (n \<in> set MIGRATION_SKIP_NAMES \<or> suffix ''-wal'' n \<or> suffix ''-shm'' n \<or> suffix ''.lock'' n)"

definition copy_payload_entry :: "host \<Rightarrow> engines \<Rightarrow> path \<Rightarrow> path \<Rightarrow> string \<Rightarrow> (fs, unit) st" where
  "copy_payload_entry H E source target n =
     (if skipped_entry n then returnS ()
      else (\<lambda>F.
        if is_dir F (source @ [n]) then copytree H (source @ [n]) (target @ [n]) F
        else if suffix_of [n] = ''.db'' then sqlite_backup H E (source @ [n]) (target @ [n]) F
        else if is_file F (source @ [n]) then copy2 H (source @ [n]) (target @ [n]) F
        else (Inl (AdapterError ''legacy OMP runtime contains unsafe state''), F)))"

definition copy_runtime_payload :: "host \<Rightarrow> engines \<Rightarrow> path \<Rightarrow> path \<Rightarrow> (fs, unit) st" where
  "copy_runtime_payload H E source target =
     bindS (mkdir_new H target 448) (\<lambda>_.
     bindS (readS (\<lambda>F. bindE (iterdir F source) (\<lambda>names. Inr (sort names)))) (\<lambda>names.
     forS (copy_payload_entry H E source target) names))"

definition write_runtime_config :: "host \<Rightarrow> engines \<Rightarrow> path \<Rightarrow> dict \<Rightarrow> (fs, unit) st" where
  "write_runtime_config H E target config = write_private H (target @ [''config.yml'']) (en_yaml_dump E (VDict config))"

definition mcp_policy :: val where
  "mcp_policy = VDict [(''mcpServers'', VDict []), (''disabledServers'', VList (map VStr OMP_AMBIENT_MCP_DENYLIST))]"

definition write_shared_mcp_policy :: "host \<Rightarrow> path \<Rightarrow> (fs, unit) st" where
  "write_shared_mcp_policy H target = write_private H (target @ [''mcp.json'']) (spaced_json mcp_policy @ [CHR 0x0A])"

definition validate_shared_mcp_policy :: "fs \<Rightarrow> path \<Rightarrow> unit res" where
  "validate_shared_mcp_policy F target =
     bindE (wrapE (\<lambda>_. AdapterError ''shared OMP MCP denylist is missing or invalid'') (read_json F (target @ [''mcp.json'']))) (\<lambda>v.
     raise_if (\<not> py_eq v mcp_policy) (AdapterError ''shared OMP MCP denylist drifted''))"

definition copy_session :: "host \<Rightarrow> summaries \<Rightarrow> path \<Rightarrow> string \<times> string \<times> string \<Rightarrow> (fs, unit) st" where
  "copy_session H S session_root = (\<lambda>(relative, label, expected).
     bindS (readS (\<lambda>F. bindE (summary_at S label) (\<lambda>s. Inr (path_join (sm_root s @ [''sessions'']) relative)))) (\<lambda>source.
     bindS (readS (\<lambda>F. bindE (read_bytes F source) (\<lambda>c.
       raise_if (digest_bytes H c \<noteq> expected) (AdapterError ''legacy OMP Session changed during migration'')))) (\<lambda>_.
     bindS (make_private_dirs H (parent (path_join session_root relative))) (\<lambda>_.
     copy2 H source (path_join session_root relative)))))"

definition copy_merged_sessions :: "host \<Rightarrow> summaries \<Rightarrow> sessions \<Rightarrow> path \<Rightarrow> (fs, unit) st" where
  "copy_merged_sessions H S ss target =
     bindS (mkdir_new H (target @ [''sessions'']) 448) (\<lambda>_.
     forS (copy_session H S (target @ [''sessions''])) (sort_key fst ss))"

definition backup_one :: "host \<Rightarrow> engines \<Rightarrow> summaries \<Rightarrow> path \<Rightarrow> string \<times> runtime_summary \<Rightarrow> (fs, unit) st" where
  "backup_one H E S backup = (\<lambda>(label, s).
     if \<not> sm_exists s then returnS ()
     else
     bindS (copy_runtime_payload H E (sm_root s) (backup @ [label])) (\<lambda>_.
     bindS (write_runtime_config H E (backup @ [label]) (sm_config s)) (\<lambda>_.
     copy_merged_sessions H S (map (\<lambda>(relative, d). (relative, label, d)) (sm_sessions s)) (backup @ [label]))))"

definition backup_legacy_runtime :: "host \<Rightarrow> engines \<Rightarrow> summaries \<Rightarrow> path \<Rightarrow> (fs, unit) st" where
  "backup_legacy_runtime H E S backup =
     bindS (make_dirs H (parent backup)) (\<lambda>_.
     bindS (mkdir_new H backup 448) (\<lambda>_.
     forS (backup_one H E S backup) S))"

section \<open>Applying the plan\<close>

definition migration_marker :: "host \<Rightarrow> string \<Rightarrow> plan \<Rightarrow> val" where
  "migration_marker H rid pl = VDict [(''version'', VInt 2), (''runtime_id'', VStr rid),
     (''canonical'', (case pl_canonical pl of Some c \<Rightarrow> VStr c | None \<Rightarrow> VNone)),
     (''session_files'', VInt (int (length (pl_sessions pl)))),
     (''settings_digest'', VStr (digest_json H (VDict (pl_config pl)))),
     (''source_digest'', VStr (digest_json H (VDict (map (\<lambda>(label, s). (label, VDict [(''auth'', VStr (sm_auth_digest s)),
       (''settings'', VStr (sm_settings_digest s)), (''schema'', VStr (sm_schema_digest s))]))
       (filter (\<lambda>(_, s). sm_exists s) (pl_summaries pl)))))),
     (''migration_complete'', VBool True)]"

text \<open>The paths of one migration.\<close>

record move =
  mv_stage :: path
  mv_old :: path
  mv_target :: path
  mv_backup :: path

definition build_runtime :: "host \<Rightarrow> engines \<Rightarrow> cap_args \<Rightarrow> string \<Rightarrow> plan \<Rightarrow> move \<Rightarrow> (fs, unit) st" where
  "build_runtime H E A rid pl M =
     bindS (backup_legacy_runtime H E (pl_summaries pl) (mv_backup M)) (\<lambda>_.
     bindS (case pl_canonical pl of
         None \<Rightarrow> mkdir_new H (mv_stage M) 448
       | Some c \<Rightarrow> bindS (readS (\<lambda>_. summary_at (pl_summaries pl) c)) (\<lambda>s. copy_runtime_payload H E (sm_root s) (mv_stage M))) (\<lambda>_.
     bindS (write_runtime_config H E (mv_stage M) (pl_config pl)) (\<lambda>_.
     bindS (write_shared_mcp_policy H (mv_stage M)) (\<lambda>_.
     bindS (copy_merged_sessions H (pl_summaries pl) (pl_sessions pl) (mv_stage M)) (\<lambda>_.
     bindS (write_text H (mv_stage M @ [''.cap-shared-runtime.json'']) (spaced_json (migration_marker H rid pl) @ [CHR 0x0A])) (\<lambda>_.
     readS (\<lambda>F. bindE (runtime_summary_of H E F ''staged global runtime'' (mv_stage M) (ca_real_home A)) (\<lambda>_. Inr ()))))))))"

text \<open>The swap; the flag is \<open>target_was_moved\<close> where the \<open>try\<close> block ends.\<close>

definition swap_in :: "move \<Rightarrow> bool \<Rightarrow> fs \<Rightarrow> unit res \<times> bool \<times> fs" where
  "swap_in M moved F = (case rename_directory (mv_stage M) (mv_target M) F of
       (Inr _, F1) \<Rightarrow>
         (if exists_at F1 (mv_old M)
          then (case rmtree (mv_old M) F1 of (Inl e, F2) \<Rightarrow> (Inl e, moved, F2) | (Inr _, F2) \<Rightarrow> (Inr (), False, F2))
          else (Inr (), moved, F1))
     | (Inl e, F1) \<Rightarrow>
         (if moved
          then (case rename_directory (mv_old M) (mv_target M) F1 of
              (Inl e', F2) \<Rightarrow> (Inl e', True, F2)
            | (Inr _, F2) \<Rightarrow> (Inl e, False, F2))
          else (Inl e, False, F1)))"

definition install_runtime :: "move \<Rightarrow> fs \<Rightarrow> unit res \<times> bool \<times> fs" where
  "install_runtime M F =
     (if exists_at F (mv_target M)
      then (case rename_directory (mv_target M) (mv_old M) F of
          (Inl e, F1) \<Rightarrow> (Inl e, False, F1)
        | (Inr _, F1) \<Rightarrow> swap_in M True F1)
      else swap_in M False F)"

definition whenS :: "(fs \<Rightarrow> bool) \<Rightarrow> (fs, unit) st \<Rightarrow> (fs, unit) st" where
  "whenS b m = (\<lambda>F. if b F then m F else (Inr (), F))"

definition undo_migration :: "move \<Rightarrow> bool \<Rightarrow> (fs, unit) st" where
  "undo_migration M moved =
     bindS (whenS (\<lambda>F. exists_at F (mv_stage M)) (rmtree (mv_stage M))) (\<lambda>_.
     bindS (whenS (\<lambda>F. moved \<and> exists_at F (mv_old M) \<and> \<not> exists_at F (mv_target M)) (rename_directory (mv_old M) (mv_target M))) (\<lambda>_.
     whenS (\<lambda>F. exists_at F (mv_backup M) \<and> \<not> exists_at F (mv_target M)) (rmtree (mv_backup M))))"

definition guarded_migration :: "host \<Rightarrow> engines \<Rightarrow> cap_args \<Rightarrow> string \<Rightarrow> plan \<Rightarrow> move \<Rightarrow> (fs, unit) st" where
  "guarded_migration H E A rid pl M = (\<lambda>F.
     case (case build_runtime H E A rid pl M F of
         (Inl e, F1) \<Rightarrow> (Inl e, False, F1)
       | (Inr _, F1) \<Rightarrow> install_runtime M F1) of
       (Inr _, _, F2) \<Rightarrow> (Inr (), F2)
     | (Inl e, moved, F2) \<Rightarrow> (case undo_migration M moved F2 of (Inl e', F3) \<Rightarrow> (Inl e', F3) | (Inr _, F3) \<Rightarrow> (Inl e, F3)))"

definition private_state_directory :: "host \<Rightarrow> cap_args \<Rightarrow> path \<Rightarrow> (fs, unit) st" where
  "private_state_directory H A p = private_directory_ready H (ca_real_home A) p"

text \<open>\<open>stamp\<close> is the process and the nanosecond clock.\<close>

definition migration_paths :: "cap_args \<Rightarrow> path \<Rightarrow> string \<Rightarrow> string \<Rightarrow> move" where
  "migration_paths A target stamp stamp' = \<lparr>mv_stage = parent target @ [''.omp-stage-'' @ stamp],
     mv_old = parent target @ [''.omp-old-'' @ stamp'], mv_target = target, mv_backup = migration_backup_root A\<rparr>"

definition apply_omp_runtime_migration ::
    "host \<Rightarrow> engines \<Rightarrow> cap_args \<Rightarrow> string \<Rightarrow> string \<Rightarrow> plan \<Rightarrow> (fs, dict) st" where
  "apply_omp_runtime_migration H E A stamp stamp' pl =
     (if get (pl_public pl) ''status'' = VStr ''already-global'' then
        bindS (readS (\<lambda>_. agent_home_dir A)) (\<lambda>d.
        bindS (write_shared_mcp_policy H d) (\<lambda>_.
        returnS (dict_set ''mcp_policy_refreshed'' (VBool True) (pl_public pl))))
      else
      bindS (make_private_dirs H (ca_agent_home_root A)) (\<lambda>_.
      bindS (chmod (ca_agent_home_root A) 448) (\<lambda>_.
      bindS (readS (\<lambda>F. raise_if (exists_at F (migration_backup_root A)) (AdapterError ''OMP migration backup already exists''))) (\<lambda>_.
      bindS (readS (\<lambda>_. agent_home_dir A)) (\<lambda>target.
      bindS (make_private_dirs H (parent target)) (\<lambda>_.
      bindS (private_state_directory H A (ca_real_home A @ [''.agent-system-state''])) (\<lambda>_.
      bindS (private_state_directory H A (parent target)) (\<lambda>_.
      bindS (guarded_migration H E A (ca_runtime_id A) pl (migration_paths A target stamp stamp')) (\<lambda>_.
      returnS (dict_set ''backup_created'' (VBool True) (dict_set ''writes_planned'' (VBool False)
        (dict_set ''status'' (VStr ''migrated-global'') (pl_public pl)))))))))))))"

section \<open>Rollback and cleanup\<close>

definition restore_runtime_from_backup :: "host \<Rightarrow> path \<Rightarrow> path \<Rightarrow> path \<Rightarrow> (fs, unit) st" where
  "restore_runtime_from_backup H root destination backup =
     bindS (readS (\<lambda>F. Inr (exists_at F backup))) (\<lambda>present.
     if \<not> present then returnS ()
     else
     bindS (readS (\<lambda>F. reject_unsafe_tree F backup)) (\<lambda>_.
     bindS (whenS (\<lambda>F. exists_at F destination \<or> is_symlink F destination)
       (bindS (safe_remove_tree root destination []) (\<lambda>_. returnS ()))) (\<lambda>_.
     bindS (make_private_dirs H (parent destination)) (\<lambda>_.
     bindS (copytree H backup destination) (\<lambda>_.
     chmod destination 448)))))"

definition checked_marker :: "fs \<Rightarrow> cap_args \<Rightarrow> string \<Rightarrow> dict res" where
  "checked_marker F A missing =
     bindE (shared_runtime_marker A) (\<lambda>marker.
     if \<not> is_file F marker then Inl (AdapterError missing)
     else
     bindE (read_marker F marker ''global OMP marker is invalid'') (\<lambda>v.
     bindE (omp_runtime_id A) (\<lambda>rid. marker_matches v rid ''global OMP marker does not match runtime id'')))"

definition state_directory :: "cap_args \<Rightarrow> path" where
  "state_directory A = ca_real_home A @ [''.agent-system-state'']"

definition managed_if_present :: "fs \<Rightarrow> path \<Rightarrow> path \<Rightarrow> unit res" where
  "managed_if_present F root p =
     (if exists_at F p \<or> is_symlink F p
      then bindE (assert_managed_path F root p False) (\<lambda>_. reject_unsafe_tree F p) else Inr ())"

definition rollback_gate :: "fs \<Rightarrow> cap_args \<Rightarrow> path res" where
  "rollback_gate F A =
     bindE (checked_marker F A ''global OMP runtime is not available for rollback'') (\<lambda>_.
     if \<not> is_dir F (migration_backup_root A) then Inl (AdapterError ''OMP migration backup is missing'')
     else
     bindE (assert_managed_path F (ca_agent_home_root A) (migration_backup_root A) False) (\<lambda>_.
     bindE (reject_unsafe_tree F (migration_backup_root A)) (\<lambda>_.
     bindE (agent_home_dir A) (\<lambda>global_runtime.
     bindE (managed_if_present F (ca_agent_home_root A) (project_shared_omp_home A)) (\<lambda>_.
     bindE (managed_if_present F (state_directory A) global_runtime) (\<lambda>_.
     Inr global_runtime))))))"

definition restored_labels :: "fs \<Rightarrow> cap_args \<Rightarrow> string list" where
  "restored_labels F A = map fst (filter (\<lambda>(_, p). is_dir F p)
     [(''project-shared-runtime'', migration_backup_root A @ [''project-shared'']), (''global-runtime'', migration_backup_root A @ [''global''])])"

definition rollback_omp_runtime :: "host \<Rightarrow> cap_args \<Rightarrow> (fs, dict) st" where
  "rollback_omp_runtime H A =
     (let root = ca_agent_home_root A; backup = migration_backup_root A;
          project_backup = backup @ [''project-shared'']; global_backup = backup @ [''global''] in
      bindS (readS (\<lambda>F. rollback_gate F A)) (\<lambda>global_runtime.
      bindS (whenS (\<lambda>F. is_dir F project_backup) (restore_runtime_from_backup H root (project_shared_omp_home A) project_backup)) (\<lambda>_.
      bindS (\<lambda>F. if is_dir F global_backup
                 then restore_runtime_from_backup H (state_directory A) global_runtime global_backup F
                 else if exists_at F global_runtime \<or> is_symlink F global_runtime
                 then bindS (safe_remove_tree (state_directory A) global_runtime []) (\<lambda>_. returnS ()) F
                 else (Inr (), F)) (\<lambda>_.
      bindS (readS (\<lambda>F. Inr (restored_labels F A))) (\<lambda>restored.
      bindS (safe_remove_tree root backup []) (\<lambda>_.
      returnS [(''status'', VStr ''rolled-back''), (''runtime_id'', VStr (ca_runtime_id A)), (''restored'', VList (map VStr restored))]))))))"

definition remove_labelled :: "path \<Rightarrow> path list \<Rightarrow> string \<times> path \<Rightarrow> (fs, string list) st" where
  "remove_labelled root guarded = (\<lambda>(label, p).
     bindS (safe_remove_tree root p guarded) (\<lambda>removed. returnS (if removed then [label] else [])))"

definition cleanup_legacy_omp_runtime :: "cap_args \<Rightarrow> (fs, dict) st" where
  "cleanup_legacy_omp_runtime A =
     bindS (readS (\<lambda>F. checked_marker F A ''global OMP runtime is not verified for cleanup'')) (\<lambda>_.
     bindS (readS (\<lambda>_. agent_home_dir A)) (\<lambda>runtime.
     bindS (mapS (remove_labelled (ca_agent_home_root A) [global_render_root A, runtime])
       [(''project-shared-runtime'', project_shared_omp_home A), (''migration-backup'', migration_backup_root A)]) (\<lambda>removed.
     returnS [(''status'', VStr ''cleaned-project-state''), (''runtime_id'', VStr (ca_runtime_id A)),
       (''removed'', VList (map VStr (concat removed)))])))"

section \<open>The command\<close>

text \<open>\<open>except (_MigrationError, OSError)\<close>.\<close>

definition migration_handled :: "err \<Rightarrow> bool" where
  "migration_handled e = (case e of AdapterError _ \<Rightarrow> True | OSError _ \<Rightarrow> True | _ \<Rightarrow> False)"

definition migration_payload :: "host \<Rightarrow> engines \<Rightarrow> cap_args \<Rightarrow> string \<Rightarrow> string \<Rightarrow> (fs, dict) st" where
  "migration_payload H E A stamp stamp' =
     (if ca_rollback A then rollback_omp_runtime H A
      else if ca_cleanup A then cleanup_legacy_omp_runtime A
      else bindS (readS (\<lambda>F. migration_plan H E F A)) (\<lambda>pl.
        if ca_apply A then apply_omp_runtime_migration H E A stamp stamp' pl else returnS (pl_public pl)))"

definition migrate_omp_runtime :: "host \<Rightarrow> engines \<Rightarrow> cap_args \<Rightarrow> string \<Rightarrow> string \<Rightarrow> (fs, int \<times> dict option) st" where
  "migrate_omp_runtime H E A stamp stamp' = (\<lambda>F. case migration_payload H E A stamp stamp' F of
       (Inr d, F') \<Rightarrow> (Inr (0, Some d), F')
     | (Inl e, F') \<Rightarrow> (if migration_handled e then (Inr (2, None), F') else (Inl e, F')))"

end
