(* ===== verification/OmpLaunch.thy ===== *)
theory OmpLaunch
  imports OmpMigrate Broker
begin

text \<open>
  Launching OMP in the persistent runtime (\<open>omp/runtime.py\<close>): the preconditions, the project's policy
  and the user's preferences, the generation the client is handed, its environment and command line,
  and the receipt of the run.
\<close>

section \<open>Preconditions and policy\<close>

definition require_shared_runtime_ready :: "host \<Rightarrow> fs \<Rightarrow> cap_args \<Rightarrow> unit res" where
  "require_shared_runtime_ready H F A =
     bindE (agent_home_dir A) (\<lambda>shared.
     bindE (shared_runtime_marker A) (\<lambda>marker.
     if \<not> is_dir F shared \<or> \<not> is_file F marker then
       (if exists_at F (project_shared_omp_home A)
        then Inl (AdapterError ''project OMP runtime requires cap migrate-omp-runtime --apply'')
        else Inl (AdapterError ''global OMP runtime requires cap migrate-omp-runtime --apply''))
     else
     bindE (assert_managed_path F (ca_real_home A) shared False) (\<lambda>_.
     bindE (validate_private_runtime H F shared (ca_real_home A)) (\<lambda>_.
     bindE (read_marker F marker ''global OMP migration marker is invalid'') (\<lambda>v.
     bindE (omp_runtime_id A) (\<lambda>rid.
     bindE (marker_matches v rid ''global OMP migration is incomplete or mismatched'') (\<lambda>m.
     if get m ''migration_complete'' \<noteq> VBool True then Inl (AdapterError ''global OMP migration is incomplete or mismatched'')
     else validate_shared_mcp_policy F shared)))))))"

definition resolved_or_same :: "fs \<Rightarrow> path \<Rightarrow> path" where
  "resolved_or_same F p = (case resolve F p of Some r \<Rightarrow> r | None \<Rightarrow> p)"

definition toml_document :: "host \<Rightarrow> fs \<Rightarrow> path \<Rightarrow> string \<Rightarrow> dict res" where
  "toml_document H F p msg =
     bindE (wrapE (\<lambda>_. AdapterError msg) (read_text F p)) (\<lambda>t.
     bindE (someE (AdapterError msg) (toml_loads H t)) (\<lambda>v. someE (AdapterError msg) (as_dict v)))"

definition check_omp_policy :: "dict \<Rightarrow> dict res" where
  "check_omp_policy data =
     (if \<not> py_eq (get data ''version'') (VInt 1) \<or> get data ''client'' \<noteq> VStr ''omp''
        then Inl (AdapterError ''OMP runtime policy must target version 1 client omp'')
      else
      bindE (someE (AdapterError ''OMP runtime policy.policy must be a table'') (as_dict (get data ''policy''))) (\<lambda>policy.
      let source = get_or policy ''shared_preference_source'' (VStr ''omp-user'');
          memory = get_or policy ''memory_backend'' (VStr ''off'');
          project_mcp = get_or policy ''enable_project_mcp'' (VBool False) in
      if source \<noteq> VStr ''omp-user'' then Inl (AdapterError ''OMP policy shared_preference_source must be omp-user'')
      else if memory \<noteq> VStr ''off'' then Inl (AdapterError ''OMP policy memory_backend must be off'')
      else if \<not> is_bool project_mcp then Inl (AdapterError ''OMP policy enable_project_mcp must be boolean'')
      else Inr (dict_set ''enable_project_mcp'' project_mcp (dict_set ''memory_backend'' memory
        (dict_set ''shared_preference_source'' source policy)))))"

definition read_omp_runtime_policy :: "host \<Rightarrow> fs \<Rightarrow> cap_args \<Rightarrow> dict res" where
  "read_omp_runtime_policy H F A =
     bindE (toml_document H F (resolved_or_same F (ca_project A) @ [''.cap'', ''runtime'', ''omp.toml'']) ''invalid OMP runtime policy'') check_omp_policy"

section \<open>Preferences\<close>

definition SHARED_PREFERENCE_SOURCE_VERSION :: int where
  "SHARED_PREFERENCE_SOURCE_VERSION = 1"

definition SHARED_PREFERENCE_FIELDS :: "string list" where
  "SHARED_PREFERENCE_FIELDS = [''advisor'', ''colorBlindMode'', ''composer'', ''cycleOrder'', ''defaultThinkingLevel'',
     ''disabledProviders'', ''display'', ''enabledModels'', ''extendedContext'', ''modelProviderOrder'', ''modelRoles'',
     ''modelTags'', ''statusLine'', ''symbolPreset'', ''textVerbosity'', ''theme'', ''thinkingBudgets'', ''tier'']"

definition SHARED_PROVIDER_ENDPOINT_ENV :: "string list" where
  "SHARED_PROVIDER_ENDPOINT_ENV = [''ANTHROPIC_BASE_URL'', ''AZURE_OPENAI_BASE_URL'', ''GEMINI_BASE_URL'',
     ''KIMI_CODE_BASE_URL'', ''LM_STUDIO_BASE_URL'', ''OLLAMA_BASE_URL'', ''OPENAI_BASE_URL'', ''OPENROUTER_BASE_URL'']"

definition shared_omp_preference_path :: "cap_args \<Rightarrow> path" where
  "shared_omp_preference_path A = (case ca_preference_root A of
       Some root \<Rightarrow> root | None \<Rightarrow> ca_real_home A @ [''.omp'', ''agent'']) @ [''config.yml'']"

fun json_value :: "val \<Rightarrow> val res" where
  "json_value (VList xs) = bindE (mapE json_value xs) (\<lambda>ys. Inr (VList ys))"
| "json_value (VDict d) = bindE (mapE (\<lambda>(k, r). bindE r (\<lambda>w. Inr (k, w))) (sort_key fst (map (\<lambda>(k, v). (k, json_value v)) d))) (\<lambda>e. Inr (VDict e))"
| "json_value (VTuple xs) = Inl (AdapterError ''must contain only JSON values'')"
| "json_value v = Inr v"

definition read_shared_omp_config :: "engines \<Rightarrow> fs \<Rightarrow> cap_args \<Rightarrow> dict res" where
  "read_shared_omp_config E F A =
     (let p = shared_omp_preference_path A in
      if \<not> is_file F p then Inr []
      else
      bindE (read_yaml E F p ''shared OMP preference is invalid'') (\<lambda>v.
      if v = VNone then Inr [] else someE (AdapterError ''shared OMP preference must be an object'') (as_dict v)))"

definition global_preference :: "dict \<Rightarrow> dict res" where
  "global_preference parsed =
     mapE (\<lambda>(k, v). bindE (json_value v) (\<lambda>w. Inr (k, w))) (filter (\<lambda>(k, _). k \<in> set SHARED_PREFERENCE_FIELDS) (sort_key fst parsed))"

definition read_global_omp_preference :: "engines \<Rightarrow> fs \<Rightarrow> cap_args \<Rightarrow> dict res" where
  "read_global_omp_preference E F A = bindE (read_shared_omp_config E F A) global_preference"

definition https_or_loopback :: "split_url \<Rightarrow> bool" where
  "https_or_loopback u = (su_scheme u = ''https''
     \<or> su_scheme u = ''http'' \<and> (case url_hostname u of Some h \<Rightarrow> h \<in> set loopback_hosts | None \<Rightarrow> False))"

type_synonym env = "(string \<times> string) list"

definition broker_token :: "fs \<Rightarrow> cap_args \<Rightarrow> dict \<Rightarrow> string res" where
  "broker_token F A broker =
     bindE (if get broker ''token'' \<noteq> VNone then Inr (get broker ''token'')
            else (case read_text F (parent (shared_omp_preference_path A) @ [''auth-broker.token'']) of
                Inr t \<Rightarrow> Inr (VStr (strip t))
              | Inl (OSError _) \<Rightarrow> Inl (AdapterError ''shared OMP auth broker token is missing'')
              | Inl e \<Rightarrow> Inl e)) (\<lambda>token.
     case token of
       VStr (c # cs) \<Rightarrow> Inr (c # cs)
     | _ \<Rightarrow> Inl (AdapterError ''shared OMP auth broker token must be non-empty''))"

definition not_configured :: "env \<times> dict" where
  "not_configured = ([], [(''configured'', VBool False)])"

definition broker_auth :: "host \<Rightarrow> url_rules \<Rightarrow> fs \<Rightarrow> cap_args \<Rightarrow> dict \<Rightarrow> (env \<times> dict) res" where
  "broker_auth H R F A broker =
     bindE (case get broker ''url'' of
         VStr (c # cs) \<Rightarrow> Inr (c # cs)
       | _ \<Rightarrow> Inl (AdapterError ''shared OMP auth.broker.url must be a non-empty string'')) (\<lambda>url.
     bindE (urlsplit R url) (\<lambda>u.
     if \<not> https_or_loopback u then Inl (AdapterError ''shared OMP auth broker must use https or loopback http'')
     else
     bindE (broker_token F A broker) (\<lambda>token.
     Inr ([(''OMP_AUTH_BROKER_URL'', url), (''OMP_AUTH_BROKER_TOKEN'', token)],
       [(''configured'', VBool True), (''mode'', VStr ''broker''),
        (''source_digest'', VStr (digest_json H (VDict [(''url'', VStr url)])))]))))"

definition shared_omp_auth :: "host \<Rightarrow> engines \<Rightarrow> url_rules \<Rightarrow> fs \<Rightarrow> cap_args \<Rightarrow> (env \<times> dict) res" where
  "shared_omp_auth H E R F A =
     bindE (read_shared_omp_config E F A) (\<lambda>config.
     if get config ''auth'' = VNone then Inr not_configured
     else
     bindE (someE (AdapterError ''shared OMP auth must be an object'') (as_dict (get config ''auth''))) (\<lambda>auth.
     if get auth ''broker'' = VNone then Inr not_configured
     else
     bindE (someE (AdapterError ''shared OMP auth.broker must be an object'') (as_dict (get auth ''broker''))) (broker_auth H R F A)))"

definition provider_endpoint :: "url_rules \<Rightarrow> env \<Rightarrow> string \<Rightarrow> env res" where
  "provider_endpoint R base_env nm = (case map_of base_env nm of
       None \<Rightarrow> Inr []
     | Some value \<Rightarrow>
         (if value = [] then Inr []
          else
          bindE (urlsplit R value) (\<lambda>u.
          if \<not> https_or_loopback u \<or> CHR ''@'' \<in> set (su_netloc u) \<or> su_query u \<noteq> [] \<or> su_fragment u \<noteq> []
            then Inl (AdapterError ''shared provider endpoint must be credential-free https or loopback http'')
          else Inr [(nm, value)])))"

definition shared_provider_endpoints :: "host \<Rightarrow> url_rules \<Rightarrow> env \<Rightarrow> (env \<times> dict) res" where
  "shared_provider_endpoints H R base_env =
     bindE (mapE (provider_endpoint R base_env) (sorted_set SHARED_PROVIDER_ENDPOINT_ENV)) (\<lambda>es.
     let endpoints = concat es in
     Inr (endpoints, [(''names'', VList (map VStr (sort (keys endpoints)))),
       (''digest'', VStr (digest_json H (VDict (map (\<lambda>(k, v). (k, VStr v)) endpoints))))]))"

section \<open>The configuration of a generation\<close>

definition capability_gates :: "val \<Rightarrow> val \<Rightarrow> string list \<Rightarrow> dict" where
  "capability_gates memory project_mcp skills =
     [(''memory'', VDict [(''backend'', memory)]),
      (''mcp'', VDict [(''enableProjectConfig'', project_mcp)]),
      (''skills'', VDict [(''customDirectories'', VList [VStr (placeholder @ ''/skills'')]),
        (''includeSkills'', VList (map VStr skills)),
        (''enableCodexUser'', VBool False), (''enableClaudeUser'', VBool False), (''enableClaudeProject'', VBool False),
        (''enablePiUser'', VBool False), (''enablePiProject'', VBool False), (''enableAgentsUser'', VBool False),
        (''enableAgentsProject'', VBool False)])]"

definition effective_config_template :: "dict \<Rightarrow> string list \<Rightarrow> dict \<Rightarrow> dict \<Rightarrow> dict res" where
  "effective_config_template portable skills policy preference =
     (let memory = get_or policy ''memory_backend'' (VStr ''off'');
          project_mcp = get_or policy ''enable_project_mcp'' (VBool False) in
      if memory \<noteq> VStr ''off'' \<or> project_mcp \<noteq> VBool False then Inl (AdapterError ''OMP policy rejected unsafe global preference'')
      else Inr (deep_overlay (deep_overlay portable preference) (capability_gates memory project_mcp skills)))"

definition read_portable_config :: "engines \<Rightarrow> fs \<Rightarrow> path \<Rightarrow> dict res" where
  "read_portable_config E F rendered =
     (let p = rendered @ [''config.yml''] in
      if \<not> is_file F p then Inr []
      else
      bindE (read_yaml E F p ''portable OMP config is invalid'') (\<lambda>v.
      if v = VNone then Inr [] else someE (AdapterError ''portable OMP config must be an object'') (as_dict v)))"

definition launch_policy :: "host \<Rightarrow> dict \<Rightarrow> dict \<Rightarrow> dict \<Rightarrow> dict \<Rightarrow> dict res" where
  "launch_policy H policy preference auth_state endpoint_state =
     bindE (item policy ''memory_backend'') (\<lambda>memory.
     bindE (item policy ''enable_project_mcp'') (\<lambda>project_mcp.
     Inr [(''project'', VDict policy),
       (''shared_preference'', VDict [(''version'', VInt SHARED_PREFERENCE_SOURCE_VERSION),
         (''fields'', VList (map VStr (sort (keys preference)))), (''digest'', VStr (digest_json H (VDict preference)))]),
       (''shared_auth'', VDict auth_state), (''shared_provider_endpoints'', VDict endpoint_state),
       (''effective'', VDict [(''memory_backend'', memory), (''enable_project_mcp'', project_mcp)])]))"

definition fixed_launch :: "string list \<Rightarrow> dict \<Rightarrow> val" where
  "fixed_launch skills runtime_policy = VDict [(''extension'', VStr ''explicit''), (''no_extensions'', VBool True),
     (''no_rules'', VBool True), (''skills'', VList (map VStr skills)), (''runtime_policy'', VDict runtime_policy)]"

text \<open>Everything that is decided before the generation is placed.\<close>

record render =
  rn_profile :: string
  rn_portable :: string
  rn_skills :: "string list"
  rn_template :: dict
  rn_policy :: dict
  rn_context :: dict
  rn_source_digest :: string
  rn_env :: env

definition effective_hash :: "host \<Rightarrow> render \<Rightarrow> string" where
  "effective_hash H r = digest_json H (VDict [(''version'', VInt 2), (''source_context'', VDict (rn_context r)),
     (''source_digest'', VStr (rn_source_digest r)), (''config'', VDict (rn_template r)),
     (''launch'', fixed_launch (rn_skills r) (rn_policy r))])"

definition omp_render :: "host \<Rightarrow> engines \<Rightarrow> url_rules \<Rightarrow> fs \<Rightarrow> cap_args \<Rightarrow> env \<Rightarrow> path \<Rightarrow> string \<Rightarrow> string list \<Rightarrow> render res" where
  "omp_render H E R F A env rendered portable skills =
     bindE (read_omp_runtime_policy H F A) (\<lambda>policy.
     bindE (read_global_omp_preference E F A) (\<lambda>preference.
     bindE (shared_omp_auth H E R F A) (\<lambda>(auth, auth_state).
     bindE (shared_provider_endpoints H R env) (\<lambda>(endpoints, endpoint_state).
     bindE (read_portable_config E F rendered) (\<lambda>config.
     bindE (effective_config_template config skills policy preference) (\<lambda>tmpl.
     bindE (launch_policy H policy preference auth_state endpoint_state) (\<lambda>runtime_policy.
     bindE (generation_source_context H F (ca_profile A) ''omp'' (ca_project A) (ca_binding_dir A) portable) (\<lambda>(ctx, source_digest).
     Inr \<lparr>rn_profile = ca_profile A, rn_portable = portable, rn_skills = skills, rn_template = tmpl, rn_policy = runtime_policy,
       rn_context = ctx, rn_source_digest = source_digest, rn_env = dict_update endpoints auth\<rparr>))))))))"

definition without_prefix :: "string \<Rightarrow> string \<Rightarrow> string" where
  "without_prefix p s = (if prefix p s then drop (length p) s else s)"

definition omp_generation :: "host \<Rightarrow> cap_args \<Rightarrow> render \<Rightarrow> path" where
  "omp_generation H A r = global_render_root A @ [without_prefix ''sha256:'' (effective_hash H r)]"

definition expected_manifest :: "host \<Rightarrow> render \<Rightarrow> dict" where
  "expected_manifest H r = [(''version'', VInt 2), (''profile'', VStr (rn_profile r)), (''portable_tree_hash'', VStr (rn_portable r)),
     (''effective_render_hash'', VStr (effective_hash H r)), (''source_context'', VDict (rn_context r)),
     (''runtime_policy'', VDict (rn_policy r)), (''source_digest'', VStr (rn_source_digest r))]"

definition manifest_base :: "host \<Rightarrow> render \<Rightarrow> dict" where
  "manifest_base H r = [(''version'', VInt 2), (''profile'', VStr (rn_profile r)), (''portable_tree_hash'', VStr (rn_portable r)),
     (''effective_render_hash'', VStr (effective_hash H r)), (''source_context'', VDict (rn_context r)),
     (''source_digest'', VStr (rn_source_digest r)), (''skills'', VList (map VStr (rn_skills r))), (''runtime_policy'', VDict (rn_policy r))]"

definition verify_profile_generation :: "host \<Rightarrow> render \<Rightarrow> path \<Rightarrow> fs \<Rightarrow> val res" where
  "verify_profile_generation H r target F = verify_generation H F target (expected_manifest H r)"

definition omp_write_payload :: "host \<Rightarrow> engines \<Rightarrow> dict \<Rightarrow> path \<Rightarrow> path \<Rightarrow> (fs, unit) st" where
  "omp_write_payload H E tmpl generation stage =
     bindS (write_private H (stage @ [''config.yml'']) (en_yaml_dump E (replace_generation_placeholder (VDict tmpl) generation))) (\<lambda>_.
     bindS (mkdir_new H (stage @ [''extension'']) 448) (\<lambda>_.
     whenS (\<lambda>F. is_file F (stage @ [''mcp.json''])) (copy2 H (stage @ [''mcp.json'']) (stage @ [''extension'', ''.mcp.json'']))))"

definition omp_generation_args :: "host \<Rightarrow> cap_args \<Rightarrow> render \<Rightarrow> path \<Rightarrow> string \<Rightarrow> generation_args" where
  "omp_generation_args H A r rendered stamp = \<lparr>ga_parent = parent (omp_generation H A r), ga_generation = omp_generation H A r,
     ga_source = rendered, ga_state_root = state_directory A, ga_private_root = ca_real_home A,
     ga_stage = parent (omp_generation H A r) @ [''.stage-'' @ stamp]\<rparr>"

section \<open>Processes\<close>

record process =
  ps_command :: "string list"
  ps_cwd :: "path option"
  ps_env :: env
  ps_stdin_null :: bool

text \<open>The processes, the search path, the names of temporary files, and what other processes do
  while a generation is placed.\<close>

record omp_world =
  ow_python :: string
  ow_run :: "process \<Rightarrow> (fs, process_result) st"
  ow_which :: "string \<Rightarrow> string option"
  ow_temporary :: path
  ow_stamp :: string
  ow_others :: "fs \<Rightarrow> fs"

definition tool_process :: "omp_world \<Rightarrow> cap_args \<Rightarrow> env \<Rightarrow> string list \<Rightarrow> process" where
  "tool_process W A env rest = \<lparr>ps_command = tool_args (ow_python W) A @ rest @ binding_args A, ps_cwd = None, ps_env = env, ps_stdin_null = False\<rparr>"

definition materialize_profile_generation ::
    "host \<Rightarrow> engines \<Rightarrow> url_rules \<Rightarrow> omp_world \<Rightarrow> cap_args \<Rightarrow> env \<Rightarrow> (fs, path \<times> render) st" where
  "materialize_profile_generation H E R W A env =
     (let rendered = ow_temporary W in
      with_staging H rendered
       (bindS (render_portable_tree (ow_run W (tool_process W A env
           [''materialize'', ''--client'', ''omp'', ''--profile'', ca_profile A, ''--output'', abs_str rendered])) rendered) (\<lambda>(portable, skills).
        bindS (readS (\<lambda>F. omp_render H E R F A env rendered portable skills)) (\<lambda>r.
        bindS (materialize_generation H (omp_generation_args H A r rendered (ow_stamp W))
          (omp_write_payload H E (rn_template r) (omp_generation H A r)) (manifest_base H r) (ow_others W)
          (verify_profile_generation H r)) (\<lambda>_.
        returnS (omp_generation H A r, r))))))"

definition omp_command :: "fs \<Rightarrow> (string \<Rightarrow> string option) \<Rightarrow> path \<Rightarrow> string list \<Rightarrow> string list \<Rightarrow> string list res" where
  "omp_command F which generation skills args =
     bindE (read_text F (generation @ [''system-prompt.md''])) (\<lambda>prompt.
     Inr ([case which ''omp'' of Some e \<Rightarrow> e | None \<Rightarrow> ''omp'', ''--config'', abs_str (generation @ [''config.yml'']),
       ''--append-system-prompt'', strip prompt @ [CHR 0x0A], ''--extension'', abs_str (generation @ [''extension'']), ''--no-extensions'']
       @ (if skills \<noteq> [] then [''--skills'', join '','' skills] else [''--no-skills'']) @ [''--no-rules''] @ args))"

definition omp_config_dir_value :: "path \<Rightarrow> path \<Rightarrow> string res" where
  "omp_config_dir_value agent_home real_home =
     bindE (someE (AdapterError ''omp runtime root must live under the real home'') (relative_to real_home agent_home)) (\<lambda>r. Inr (posix r))"

definition removed_names :: "string list \<Rightarrow> env \<Rightarrow> env" where
  "removed_names names env = foldl (\<lambda>e n. dict_pop n e) env names"

definition emptied_names :: "string list \<Rightarrow> env \<Rightarrow> env" where
  "emptied_names names env = foldl (\<lambda>e n. dict_set n [] e) env names"

definition isolated_env :: "env \<Rightarrow> env" where
  "isolated_env base =
     (let env = removed_names cap_AMBIENT_CONFIG_ENV base;
          blank = emptied_names (cap_OMP_AMBIENT_AUTH_ENV @ filter cap_ambient_credential (keys env)) env in
      removed_names [''OMP_AUTH_BROKER_URL'', ''OMP_AUTH_BROKER_TOKEN''] blank)"

definition agent_home_env :: "env \<Rightarrow> path \<Rightarrow> path \<Rightarrow> path \<Rightarrow> env \<Rightarrow> env res" where
  "agent_home_env base agent_home generation real_home shared =
     bindE (omp_config_dir_value agent_home real_home) (\<lambda>dir.
     Inr (dict_update (dict_update (isolated_env base)
       [(''AWS_EC2_METADATA_DISABLED'', ''true''), (''PI_AUTH_NO_BORROW'', ''1''),
        (''HOME'', abs_str real_home), (''OMP_PROFILE'', ''default''), (''PI_CODING_AGENT_DIR'', abs_str agent_home),
        (''PI_CONFIG_DIR'', dir), (''PI_CONFIG_FILES'', abs_str (generation @ [''config.yml''])), (''PI_PROFILE'', ''default'')]) shared))"

section \<open>The receipt and the run\<close>

definition omp_receipt :: "cap_args \<Rightarrow> string \<Rightarrow> int \<Rightarrow> string \<Rightarrow> string \<Rightarrow> path \<Rightarrow> path \<Rightarrow> path \<Rightarrow> dict \<Rightarrow> dict \<Rightarrow> dict res" where
  "omp_receipt A rid code portable effective agent_home generation workdir binding manifest =
     bindE (item manifest ''source_context'') (\<lambda>ctx.
     bindE (item manifest ''source_digest'') (\<lambda>source_digest.
     Inr [(''version'', VInt 4), (''client'', VStr (ca_cli A)), (''profile'', VStr (ca_profile A)), (''runtime_id'', VStr rid),
       (''global_runtime_root'', VStr (abs_str agent_home)), (''global_generation'', VStr (abs_str generation)),
       (''project_root'', VStr (abs_str (ca_project A))), (''project_source_context'', ctx), (''project_source_digest'', source_digest),
       (''runtime_policy'', get_or manifest ''runtime_policy'' (VDict [])),
       (''base_digest'', get_or binding ''base_digest'' (get binding ''machine_context_digest'')),
       (''layer_digest'', get binding ''layer_digest''), (''effective_digest'', get binding ''effective_digest''),
       (''portable_tree_hash'', VStr portable), (''effective_render_hash'', VStr effective), (''workdir'', VStr (abs_str workdir)),
       (''exit_code'', VInt code), (''forwarded_argument_count'', VInt (int (length (ca_client_args A))))]))"

definition omp_receipt_doc :: "host \<Rightarrow> fs \<Rightarrow> cap_args \<Rightarrow> int \<Rightarrow> string \<Rightarrow> string \<Rightarrow> path \<Rightarrow> path \<Rightarrow> dict res" where
  "omp_receipt_doc H F A code portable effective agent_home generation =
     bindE (read_json F (ca_binding_dir A @ [ca_profile A @ ''.binding.json''])) (\<lambda>b.
     bindE (read_json F (generation @ [GENERATION_MANIFEST_NAME])) (\<lambda>m.
     bindE (omp_runtime_id A) (\<lambda>rid.
     bindE (someE (TypeError ''item'') (as_dict m)) (\<lambda>manifest.
     bindE (someE (AttributeError ''get'') (as_dict b)) (\<lambda>binding.
     bindE (cap_workdir H F A) (\<lambda>workdir.
     omp_receipt A rid code portable effective agent_home generation workdir binding manifest))))))"

definition write_omp_receipt :: "host \<Rightarrow> cap_args \<Rightarrow> path \<Rightarrow> int \<Rightarrow> string \<Rightarrow> string \<Rightarrow> path \<Rightarrow> path \<Rightarrow> (fs, unit) st" where
  "write_omp_receipt H A receipt code portable effective agent_home generation =
     bindS (readS (\<lambda>F. omp_receipt_doc H F A code portable effective agent_home generation)) (\<lambda>payload.
     bindS (make_dirs H (parent receipt)) (\<lambda>_.
     write_text H receipt (jwrite Indented 0 (VDict payload) @ [CHR 0x0A])))"

definition shell_status :: "int \<Rightarrow> int" where
  "shell_status code = (if 0 \<le> code then code else 128 + \<bar>code\<bar>)"

definition client_stdin_null :: "cap_args \<Rightarrow> bool" where
  "client_stdin_null A = (ca_tool_command A = ''run'')"

definition omp_ready :: "host \<Rightarrow> engines \<Rightarrow> url_rules \<Rightarrow> omp_world \<Rightarrow> cap_args \<Rightarrow> env \<Rightarrow> (fs, path \<times> render) st" where
  "omp_ready H E R W A env =
     bindS (readS (\<lambda>F. require_shared_runtime_ready H F A)) (\<lambda>_. materialize_profile_generation H E R W A env)"

definition omp_process :: "host \<Rightarrow> fs \<Rightarrow> omp_world \<Rightarrow> cap_args \<Rightarrow> env \<Rightarrow> path \<Rightarrow> path \<Rightarrow> path \<Rightarrow> render \<Rightarrow> process res" where
  "omp_process H F W A env agent_home workdir generation r =
     bindE (omp_command F (ow_which W) generation (rn_skills r) (passthrough (ca_client_args A))) (\<lambda>command.
     bindE (agent_home_env env agent_home generation (ca_real_home A) (rn_env r)) (\<lambda>client_env.
     Inr \<lparr>ps_command = command, ps_cwd = Some workdir, ps_env = client_env, ps_stdin_null = client_stdin_null A\<rparr>))"

definition run_omp_generation ::
    "host \<Rightarrow> omp_world \<Rightarrow> cap_args \<Rightarrow> env \<Rightarrow> path \<Rightarrow> render \<Rightarrow> (fs, int) st" where
  "run_omp_generation H W A env generation r =
     bindS (readS (\<lambda>_. agent_home_dir A)) (\<lambda>agent_home.
     bindS (case ca_receipt A of Some p \<Rightarrow> returnS p | None \<Rightarrow> run_path H (ow_stamp W) A ''receipt.json'') (\<lambda>receipt.
     bindS (readS (\<lambda>F. cap_workdir H F A)) (\<lambda>workdir.
     bindS (readS (\<lambda>F. omp_process H F W A env agent_home workdir generation r)) (\<lambda>client.
     bindS (ow_run W client) (\<lambda>completed.
     bindS (ow_run W (tool_process W A env [''verify''])) (\<lambda>verified.
     if pr_code verified \<noteq> 0 then returnS (pr_code verified)
     else
     bindS (write_omp_receipt H A receipt (pr_code completed) (rn_portable r) (effective_hash H r) agent_home generation) (\<lambda>_.
     returnS (shell_status (pr_code completed)))))))))"

definition run_omp_agent_home ::
    "host \<Rightarrow> engines \<Rightarrow> url_rules \<Rightarrow> omp_world \<Rightarrow> cap_args \<Rightarrow> env \<Rightarrow> (fs, int) st" where
  "run_omp_agent_home H E R W A env = (\<lambda>F. case omp_ready H E R W A env F of
       (Inr (generation, r), F') \<Rightarrow> run_omp_generation H W A env generation r F'
     | (Inl (AdapterError _), F') \<Rightarrow> (Inr 2, F')
     | (Inl e, F') \<Rightarrow> (Inl e, F'))"

end
