(* ===== verification/Generations.thy ===== *)
theory Generations
  imports Adapter
begin

text \<open>
  What the content-addressed generations promise: the digest of a tree depends on the tree alone,
  a generation that was placed verifies, and a failed placement leaves nothing behind.
\<close>

section \<open>The digest sees the tree and nothing else\<close>

lemma set_below: "set (below F d) = {q. q \<noteq> [] \<and> node_at F (d @ q) \<noteq> None}"
proof (intro set_eqI iffI)
  fix q
  assume "q \<in> set (below F d)"
  then obtain k where "strict_prefix d k" "k \<in> set (keys (nodes F))" "q = drop (length d) k"
    by (auto simp: below_def)
  then show "q \<in> {q. q \<noteq> [] \<and> node_at F (d @ q) \<noteq> None}"
    using node_at_keys [of F k] by (auto simp: strict_prefix_def prefix_def keys_def)
next
  fix q
  assume "q \<in> {q. q \<noteq> [] \<and> node_at F (d @ q) \<noteq> None}"
  then have "d @ q \<in> set (keys (nodes F))" "strict_prefix d (d @ q)"
    using node_at_keys [of F "d @ q"] by (auto simp: strict_prefix_def keys_def)
  then show "q \<in> set (below F d)" by (force simp: below_def)
qed

lemma tree_entries_eq:
  "tree_entries F d xs = sorted_list_of_set {q. q \<noteq> [] \<and> posix q \<notin> set xs \<and> node_at F (d @ q) \<noteq> None}"
proof -
  have "tree_entries F d xs = sort (remdups (filter (\<lambda>q. posix q \<notin> set xs) (below F d)))"
    by (simp add: tree_entries_def filter_sort remdups_filter)
  also have "\<dots> = sorted_list_of_set (set (filter (\<lambda>q. posix q \<notin> set xs) (below F d)))"
    by (simp only: sorted_list_of_set_sort_remdups)
  also have "set (filter (\<lambda>q. posix q \<notin> set xs) (below F d))
      = {q. q \<noteq> [] \<and> posix q \<notin> set xs \<and> node_at F (d @ q) \<noteq> None}"
    unfolding set_filter set_below by blast
  finally show ?thesis .
qed

lemma tree_entries_set:
  "set (tree_entries F d xs) = {q. q \<noteq> [] \<and> posix q \<notin> set xs \<and> node_at F (d @ q) \<noteq> None}"
  by (auto simp: tree_entries_def set_below)

lemma tree_stream_same:
  assumes "resolve F r = Some d" and "resolve G s = Some e"
    and "\<And>q. q \<noteq> [] \<Longrightarrow> posix q \<notin> set ys \<Longrightarrow> node_at F (d @ q) = node_at G (e @ q)"
    and "\<And>q. q \<noteq> [] \<Longrightarrow> posix q \<in> set ys \<Longrightarrow> posix q \<notin> set xs \<Longrightarrow> node_at F (d @ q) = None"
    and "set xs \<subseteq> set ys"
  shows "tree_stream F r xs = tree_stream G s ys"
proof -
  have e: "tree_entries F d xs = tree_entries G e ys"
    unfolding tree_entries_eq using assms(3-5) by (intro arg_cong [where f = sorted_list_of_set]) force
  have "mapE (entry_stream F d) (tree_entries F d xs) = mapE (entry_stream G e) (tree_entries F d xs)"
    using assms(3) unfolding e by (intro mapE_cong) (auto simp: entry_stream_def tree_entries_set)
  then show ?thesis using assms(1,2) e by (simp add: tree_stream_def)
qed

lemma join_single: "sep \<noteq> [] \<Longrightarrow> set sep \<inter> set w = {} \<Longrightarrow> join sep ws = w \<Longrightarrow> ws \<noteq> [] \<Longrightarrow> ws = [w]"
  by (cases "(sep, ws)" rule: join.cases) (auto simp: Int_Un_distrib)

lemma posix_manifest: "q \<noteq> [] \<Longrightarrow> posix q = GENERATION_MANIFEST_NAME \<longleftrightarrow> q = [GENERATION_MANIFEST_NAME]"
  using join_single [of "''/''" GENERATION_MANIFEST_NAME q]
  by (auto simp: posix_def GENERATION_MANIFEST_NAME_def)

section \<open>Reading the manifest back\<close>

lemma get_canon:
  assumes "distinct (keys d)"
  shows "doc_get (canon (VDict d)) k = Inr (canon (get d k))"
proof -
  have k: "keys (map (\<lambda>(k, v). (k, canon v)) d) = keys d" by (rule keys_map_pairs)
  have "map_of (sort_key fst (map (\<lambda>(k, v). (k, canon v)) d)) k = map_option canon (map_of d k)"
    using assms by (simp only: map_of_sort_key k map_of_map_pairs)
  then show ?thesis by (auto simp: doc_get_def get_def split: option.splits)
qed

lemma plain_dict_set: "plain (VDict d) \<Longrightarrow> plain v \<Longrightarrow> plain (VDict (dict_set k v d))"
proof -
  have "(a, b) \<in> set (dict_set k v d) \<Longrightarrow> (a, b) \<in> set d \<or> (a, b) = (k, v)" for a b
    by (induction k v d rule: dict_set.induct) (auto split: if_splits)
  then show "plain (VDict d) \<Longrightarrow> plain v \<Longrightarrow> ?thesis" by (auto, fastforce)
qed

lemma keys_dict_set_plain: "distinct (keys d) \<Longrightarrow> k \<notin> set (keys d) \<Longrightarrow> j \<in> set (keys d) \<Longrightarrow> get (dict_set k v d) j = get d j"
  by (auto simp: get_def)

lemma read_manifest:
  assumes "canonical F p" and "node_at F p = Some (NFile m (spaced_json v @ [CHR 0x0A]))" and "plain v" and "texts_utf8 v"
  shows "read_json F p = Inr (canon v)"
proof -
  have "utf8_valid (spaced_json v @ [CHR 0x0A])"
    using utf8_spaced [OF assms(4)] by (simp add: utf8_valid_ascii)
  moreover have "newlines (spaced_json v @ [CHR 0x0A]) = spaced_json v @ [CHR 0x0A]"
    using no_cr_spaced [OF assms(3)] by (intro newlines_id) simp
  ultimately show ?thesis
    using assms(1,2) loads_spaced [OF assms(3)]
    by (simp add: read_json_def read_text_def read_bytes_def canonical_stat decode_utf8_def)
qed

lemma texts_dict_set:
  "texts_utf8 (VDict d) \<Longrightarrow> utf8_valid k \<Longrightarrow> texts_utf8 v \<Longrightarrow> texts_utf8 (VDict (dict_set k v d))"
  by (induction k v d rule: dict_set.induct) auto

lemma manifest_not_parent: "GENERATION_MANIFEST_NAME \<noteq> ''..''" "GENERATION_MANIFEST_NAME \<noteq> []"
  by (simp_all add: GENERATION_MANIFEST_NAME_def)

lemma verify_generation_intro:
  assumes "dirs F g" and "node_at F (g @ [GENERATION_MANIFEST_NAME]) = Some (NFile m (spaced_json (manifest_doc base c) @ [CHR 0x0A]))"
    and "tree_digest H F g [GENERATION_MANIFEST_NAME] = Inr c"
    and "plain (VDict base)" "texts_utf8 (VDict base)" "utf8_valid c" "''content_digest'' \<notin> set (keys base)"
    and "set expected \<subseteq> set base"
  shows "verify_generation H F g expected = Inr (canon (manifest_doc base c))"
proof -
  let ?d = "dict_set ''content_digest'' (VStr c) base"
  have p: "plain (VDict ?d)" by (rule plain_dict_set) (use assms(4) in simp_all)
  have k: "utf8_valid ''content_digest''" by code_simp
  have t: "texts_utf8 (VDict ?d)" by (rule texts_dict_set [OF assms(5) k]) (simp only: texts_utf8.simps assms(6))
  have "canonical F (g @ [GENERATION_MANIFEST_NAME])"
    by (rule canonical_snoc [OF assms(1,2)]) (simp_all only: is_link_node.simps manifest_not_parent not_False_eq_True)
  moreover define D where "D = canon (VDict ?d)"
  ultimately have r: "read_json F (g @ [GENERATION_MANIFEST_NAME]) = Inr D"
    using read_manifest [OF _ assms(2) [unfolded manifest_doc_def] p t] by simp
  have gc: "doc_get D k = Inr (canon (get ?d k))" for k
    unfolding D_def by (rule get_canon) (use p in simp)
  have look: "get ?d k = v" if "(k, v) \<in> set base" for k v
    using that assms(4,7) by (auto simp: get_def keys_def image_iff)
  have "forE (\<lambda>(k, v). bindE (doc_get D k) (\<lambda>w.
      raise_if (\<not> py_eq w v) (AdapterError ''profile generation metadata drifted''))) expected = Inr ()"
    unfolding forE_Inr using assms(8) by (auto simp: gc look)
  moreover have "doc_get D ''content_digest'' = Inr (VStr c)" by (simp add: gc get_def)
  ultimately have "verify_generation H F g expected = Inr D"
    by (simp add: verify_generation_def r assms(3))
  then show ?thesis by (simp only: D_def manifest_doc_def)
qed

section \<open>What each step does to the file system\<close>

text \<open>A name that no entry uses, as the name of a stage, which holds the process and the time.\<close>

definition unused :: "string \<Rightarrow> fs \<Rightarrow> bool" where
  "unused s F \<longleftrightarrow> (\<forall>q. node_at F q \<noteq> None \<longrightarrow> s \<notin> set q)"

text \<open>What the preparation of the private directories leaves alone.\<close>

definition ready_for :: "path list \<Rightarrow> path \<Rightarrow> string \<Rightarrow> fs \<Rightarrow> bool" where
  "ready_for ds src s F \<longleftrightarrow> (\<forall>d \<in> set ds. dirs F d) \<and> node_at F (src @ [GENERATION_MANIFEST_NAME]) = None \<and> unused s F"

lemma resolve_unused: "resolve F p = Some d \<Longrightarrow> unused s F \<Longrightarrow> s \<notin> set d"
  using resolve_canonical [of F p d] by (cases "d = []") (auto simp: unused_def canonical_def)

lemma mkdirs_ready:
  "mkdirs H m cur ps F = Inr (d, F') \<Longrightarrow> ready_for ds src s F \<Longrightarrow> s \<notin> set cur \<union> set ps \<Longrightarrow>
     GENERATION_MANIFEST_NAME \<notin> set ps \<Longrightarrow> ready_for ds src s F'"
proof (induction H m cur ps F rule: mkdirs.induct)
  case (2 H mode cur p ps F)
  show ?case
  proof (cases "resolve F (cur @ [p])")
    case None
    have "ready_for ds src s (put_dir H (cur @ [p]) mode F)"
      using "2.prems"(2-4) by (auto simp: ready_for_def unused_def dirs_put_dir)
    then show ?thesis using "2.IH" "2.prems" None by (auto split: if_splits)
  next
    case (Some e)
    then have "s \<notin> set e" using resolve_unused "2.prems"(2) by (auto simp: ready_for_def)
    then show ?thesis using "2.IH" "2.prems" Some by (auto split: option.splits node.splits)
  qed
qed simp

lemma make_private_dirs_ready:
  assumes "s \<notin> set p" and "GENERATION_MANIFEST_NAME \<notin> set p"
  shows "preservesS (ready_for ds src s) (make_private_dirs H p)"
proof -
  have b: "s \<notin> set (parent p)" "GENERATION_MANIFEST_NAME \<notin> set (parent p)"
    using assms by (auto simp: parent_def dest: in_set_butlastD)
  have "ready_for ds src s F'" if "mkdirs H m [] ps F = Inr (d, F')" "ready_for ds src s F" "s \<notin> set ps" "GENERATION_MANIFEST_NAME \<notin> set ps"
    for m ps F d F' using mkdirs_ready [OF that(1,2)] that(3,4) by simp
  note m = this [OF _ _ b] this [OF _ _ assms]
  show ?thesis
    unfolding make_private_dirs_def make_dirs_def
    by (intro preserves_bind) (auto simp: preservesS_def returnS_def split: sum.splits prod.splits intro: m)
qed

lemma chmod_node_kind [simp]:
  "chmod_node m nd = NDir k \<longleftrightarrow> (\<exists>j. nd = NDir j \<and> k = j\<lparr>st_mode := m\<rparr>)" "is_link_node (chmod_node m nd) = is_link_node nd"
  by (cases nd; auto simp: chmod_node_def)+

lemma dirs_mode:
  assumes "node_at F d = Some nd" and "dirs F p"
  shows "dirs (put_node d (chmod_node m nd) F) p"
  unfolding dirs_def
proof (intro conjI allI impI)
  fix q
  assume "prefix q p" "q \<noteq> []"
  then obtain k where "node_at F q = Some (NDir k)" using assms(2) by (auto simp: dirs_def)
  then show "\<exists>k. node_at (put_node d (chmod_node m nd) F) q = Some (NDir k)"
    using assms(1) by (cases "q = d") auto
qed (use assms(2) in \<open>simp add: dirs_def\<close>)

lemma chmod_ready: "preservesS (ready_for ds src s) (chmod p m)"
  unfolding preservesS_def chmod_def
  by (auto simp: ready_for_def unused_def dirs_mode split: option.splits)

lemma private_directory_ready_keeps:
  "s \<notin> set p \<Longrightarrow> GENERATION_MANIFEST_NAME \<notin> set p \<Longrightarrow> preservesS (ready_for ds src s) (private_directory_ready H r p)"
  unfolding private_directory_ready_def
  by (intro preserves_bind make_private_dirs_ready chmod_ready preserves_return)

text \<open>A managed path that exists is a chain of directories.\<close>

lemma managed_walk_dirs:
  assumes "managed_walk F False cur ps = Inr u" and "dirs F cur" and "''..'' \<notin> set ps" and "is_dir F (cur @ ps)"
  shows "dirs F (cur @ ps)"
  using assms
proof (induction ps arbitrary: cur)
  case (Cons p ps)
  obtain nd where nd: "lstat F (cur @ [p]) = Some nd" "\<not> is_link_node nd" "managed_walk F False (cur @ [p]) ps = Inr u"
    using Cons.prems(1) by (auto simp: Let_def bindE_Inr someE_Inr split: if_splits)
  have n: "node_at F (cur @ [p]) = Some nd" using nd(1) lstat_dirs [OF Cons.prems(2), of p] Cons.prems(3) by auto
  have "\<exists>m. nd = NDir m"
  proof (cases "ps = []")
    case True
    then have "stat F (cur @ [p]) = Some nd"
      using canonical_snoc [OF Cons.prems(2) n nd(2)] Cons.prems(3) n by (simp add: canonical_stat)
    then show ?thesis using Cons.prems(4) True by (auto simp: is_dir_node_eq)
  next
    case False
    obtain d where "walk 40 F [] (cur @ p # ps) = Some d"
      using Cons.prems(4) by (auto simp: is_dir_node_eq stat_def resolve_def bind_eq_Some_conv)
    then have "walk 40 F cur (p # ps) = Some d" using walk_dirs [of F "[]" cur 40 "p # ps"] Cons.prems(2) by simp
    then show ?thesis using n nd(2) False Cons.prems(3) by (cases nd) auto
  qed
  then have "dirs F (cur @ [p])" using dirs_snoc [OF Cons.prems(2)] n Cons.prems(3) by auto
  then show ?case using Cons.IH [OF nd(3)] Cons.prems(3,4) by simp
qed simp

lemma managed_path_dirs:
  assumes "assert_managed_path F root p False = Inr q" and "dirs F root" and "''..'' \<notin> set p" and "is_dir F p"
  shows "dirs F p \<and> strict_prefix root p"
proof -
  obtain r where r: "p = root @ r" "r \<noteq> []" "managed_walk F False root r = Inr ()"
    using assms(1) by (auto simp: assert_managed_path_def relative_to_def bindE_Inr someE_Inr prefix_def split: if_splits)
  then show ?thesis using managed_walk_dirs [OF r(3) assms(2)] assms(3,4) by (auto simp: strict_prefix_def)
qed

lemma copy_entry_at:
  "copy_entry H F0 src dst q F = (r, F') \<Longrightarrow> x \<noteq> dst @ q \<Longrightarrow> node_at F' x = node_at F x"
  by (auto simp: copy_entry_def split: option.splits node.splits)

lemma copy_entries_at:
  "forS (copy_entry H F0 src dst) qs F = (r, F') \<Longrightarrow> x \<notin> (\<lambda>q. dst @ q) ` set qs \<Longrightarrow> node_at F' x = node_at F x"
proof (induction qs arbitrary: F)
  case (Cons q qs)
  show ?case
  proof (cases "copy_entry H F0 src dst q F")
    case (Pair a G)
    then have "node_at G x = node_at F x" using copy_entry_at [OF Pair] Cons.prems(2) by auto
    then show ?thesis using Cons Pair by (cases a) (auto simp: bindS_def)
  qed
qed simp

lemma copy_entries_linkless:
  "forS (copy_entry H F0 src dst) qs F = (r, F') \<Longrightarrow> linkless dst F \<Longrightarrow> linkless dst F'"
proof (induction qs arbitrary: F)
  case (Cons q qs)
  show ?case
  proof (cases "copy_entry H F0 src dst q F")
    case (Pair a G)
    then have "linkless dst G" using Cons.prems(2) by (auto simp: copy_entry_def linkless_def split: option.splits node.splits if_splits)
    then show ?thesis using Cons Pair by (cases a) (auto simp: bindS_def)
  qed
qed simp

lemma copytree_linkless: "copytree H src dst F = (r, F') \<Longrightarrow> dirs F (parent dst) \<Longrightarrow> dst \<noteq> [] \<Longrightarrow> linkless dst F \<Longrightarrow> linkless dst F'"
  using copy_entries_linkless canonical_resolve [OF dirs_canonical, of F "parent dst"]
  by (fastforce simp: copytree_def parent_def name_of_def simp del: forS.simps split: option.splits if_splits)

lemma copytree_at:
  assumes "copytree H src dst F = (r, F')" and "dirs F (parent dst)" and "dst \<noteq> []"
  shows "\<not> prefix dst x \<Longrightarrow> node_at F' x = node_at F x"
    and "F' = F \<or> (\<exists>m. node_at F' dst = Some (NDir m))"
    and "r = Inr u \<Longrightarrow> \<exists>m. node_at F' dst = Some (NDir m)"
    and "dirs F src \<Longrightarrow> node_at F (src @ [k]) = None \<Longrightarrow> node_at F' (dst @ [k]) = node_at F (dst @ [k])"
proof -
  have d: "resolve F (parent dst) = Some (parent dst)" "parent dst @ [name_of dst] = dst"
    using canonical_resolve [OF dirs_canonical [OF assms(2)]] assms(3) by (simp_all add: parent_def name_of_def)
  consider "F' = F" "\<exists>e. r = Inl e"
    | s where "resolve F src = Some s" "is_dir F src" "forS (copy_entry H F s dst) ([] # sort (below F s)) F = (r, F')"
    using assms(1) by (auto simp: copytree_def d split: option.splits if_splits)
  note cases = this
  have "(\<not> prefix dst x \<longrightarrow> node_at F' x = node_at F x) \<and> (F' = F \<or> (\<exists>m. node_at F' dst = Some (NDir m)))
    \<and> (r = Inr u \<longrightarrow> (\<exists>m. node_at F' dst = Some (NDir m)))
    \<and> (dirs F src \<longrightarrow> node_at F (src @ [k]) = None \<longrightarrow> node_at F' (dst @ [k]) = node_at F (dst @ [k]))"
    using cases
  proof cases
    case 2
    obtain m where m: "node_at F s = Some (NDir m)"
      using 2(1,2) by (auto simp: is_dir_node_eq stat_def)
    let ?G = "put_dir H dst (st_mode m) F"
    have f: "forS (copy_entry H F s dst) (sort (below F s)) ?G = (r, F')"
      using 2(3) m by (simp add: copy_entry_def bindS_def)
    have "node_at F' dst = node_at ?G dst"
      by (rule copy_entries_at [OF f]) (auto simp: set_below)
    moreover have "node_at F' x = node_at F x" if "\<not> prefix dst x"
    proof -
      have "x \<notin> (\<lambda>q. dst @ q) ` set (sort (below F s))" "x \<noteq> dst" using that by auto
      then show ?thesis using copy_entries_at [OF f, of x] by simp
    qed
    moreover have "node_at F' (dst @ [k]) = node_at F (dst @ [k])" if "dirs F src" "node_at F (src @ [k]) = None"
    proof -
      have "s = src" using 2(1) canonical_resolve [OF dirs_canonical [OF that(1)]] by simp
      then have "dst @ [k] \<notin> (\<lambda>q. dst @ q) ` set (sort (below F s))" using that(2) by (auto simp: set_below)
      then show ?thesis using copy_entries_at [OF f, of "dst @ [k]"] by simp
    qed
    ultimately show ?thesis by auto
  qed auto
  then show "\<not> prefix dst x \<Longrightarrow> node_at F' x = node_at F x"
    and "F' = F \<or> (\<exists>m. node_at F' dst = Some (NDir m))"
    and "r = Inr u \<Longrightarrow> \<exists>m. node_at F' dst = Some (NDir m)"
    and "dirs F src \<Longrightarrow> node_at F (src @ [k]) = None \<Longrightarrow> node_at F' (dst @ [k]) = node_at F (dst @ [k])"
    by blast+
qed

lemma rmtree_dirs: "dirs F p \<Longrightarrow> p \<noteq> [] \<Longrightarrow> rmtree p F = (Inr (), remove_tree p F)"
proof -
  assume d: "dirs F p" and p: "p \<noteq> []"
  then obtain m where m: "node_at F p = Some (NDir m)" by (auto simp: dirs_def)
  have "last p \<noteq> ''..''" using d p by (auto simp: dirs_def) (metis last_in_set)
  then have "lstat F p = Some (NDir m)"
    using m p canonical_resolve [OF dirs_canonical [OF dirs_butlast [OF d]]] by (simp add: lstat_def)
  then show ?thesis using canonical_resolve [OF dirs_canonical [OF d]] by (simp add: rmtree_def)
qed

lemma write_text_new:
  assumes "dirs F d" and "node_at F (d @ [n]) = None" and "n \<noteq> ''..''" and "d \<noteq> []"
  shows "write_text H (d @ [n]) c F = (Inr (), put_file H (d @ [n]) c 420 F)"
proof -
  have r: "resolve F d = Some d" by (rule canonical_resolve [OF dirs_canonical [OF assms(1)]])
  have "resolve F (d @ [n]) = None"
    using walk_dirs [of F "[]" d 40 "[n]"] assms by (simp add: resolve_def)
  moreover have "lstat F (d @ [n]) = None" using assms lstat_dirs by simp
  moreover have "is_dir F d" using assms(1,4) by (auto simp: is_dir_node_eq stat_def r dirs_def)
  ultimately show ?thesis by (simp add: write_text_def r parent_def name_of_def lexists_def)
qed

section \<open>Placing a generation\<close>

text \<open>The paths of a placement: the stage and the generation are two names in one directory, the
  name of the stage is used nowhere, and the source is a tree without a manifest.\<close>

definition placeable :: "generation_args \<Rightarrow> string \<Rightarrow> string \<Rightarrow> fs \<Rightarrow> bool" where
  "placeable A s g F \<longleftrightarrow>
     ga_stage A = ga_parent A @ [s] \<and> ga_generation A = ga_parent A @ [g] \<and> s \<noteq> g \<and> s \<noteq> ''..'' \<and> g \<noteq> ''..''
     \<and> ''..'' \<notin> set (ga_parent A) \<and> s \<notin> set (ga_parent A) \<union> set (ga_state_root A)
     \<and> GENERATION_MANIFEST_NAME \<notin> set (ga_parent A) \<union> set (ga_state_root A)
     \<and> ready_for [ga_private_root A, ga_source A] (ga_source A) s F"

text \<open>Other processes neither touch the stage nor replace a directory on the way to it.\<close>

definition leaves_stage :: "generation_args \<Rightarrow> (fs \<Rightarrow> fs) \<Rightarrow> bool" where
  "leaves_stage A others \<longleftrightarrow> (\<forall>G q. prefix (ga_stage A) q \<or> prefix q (ga_parent A) \<longrightarrow> node_at (others G) q = node_at G q)"

lemma rename_directory_at:
  assumes "dirs F P" and "dirs F (P @ [s])" and "s \<noteq> g" and "g \<noteq> ''..''"
    and "rename_directory (P @ [s]) (P @ [g]) F = (r, F')"
  shows "r = Inr u \<Longrightarrow> node_at F' (P @ g # q) = node_at F (P @ s # q)"
    and "r = Inr u \<Longrightarrow> \<not> prefix (P @ [s]) x \<Longrightarrow> \<not> prefix (P @ [g]) x \<Longrightarrow> node_at F' x = node_at F x"
    and "r = Inl e \<Longrightarrow> F' = F"
    and "r = Inr u \<Longrightarrow> prefix (P @ [s]) x \<Longrightarrow> node_at F' x = None"
proof -
  have R: "resolve F P = Some P" by (rule canonical_resolve [OF dirs_canonical [OF assms(1)]])
  have apart: "\<not> prefix (P @ [s]) (P @ [g])" "\<not> prefix (P @ [g]) (P @ [s])" using assms(3) by auto
  have b: "(r = Inr u \<and> F' = rename_tree (P @ [s]) (P @ [g]) (remove_tree (P @ [g]) F)) \<or> ((\<exists>e. r = Inl e) \<and> F' = F)"
    using assms(5) by (auto simp: rename_directory_def Let_def parent_def name_of_def R split: option.splits node.splits if_splits)
  have at: "node_at (rename_tree (P @ [s]) (P @ [g]) (remove_tree (P @ [g]) F)) x =
     (if prefix (P @ [g]) x then node_at (remove_tree (P @ [g]) F) ((P @ [s]) @ drop (length (P @ [g])) x)
      else if prefix (P @ [s]) x then None else node_at (remove_tree (P @ [g]) F) x)" for x
    by (rule rename_tree_at) (use apart in \<open>simp_all add: remove_tree_at\<close>)
  have gs: "\<not> prefix (P @ [g]) (P @ s # q)" using assms(3) by (auto simp: prefix_def)
  show "r = Inr u \<Longrightarrow> node_at F' (P @ g # q) = node_at F (P @ s # q)"
    using b gs by (auto simp: at remove_tree_at prefix_def)
  show "r = Inr u \<Longrightarrow> \<not> prefix (P @ [s]) x \<Longrightarrow> \<not> prefix (P @ [g]) x \<Longrightarrow> node_at F' x = node_at F x"
    using b by (auto simp: at remove_tree_at)
  show "r = Inl e \<Longrightarrow> F' = F" using b by auto
  show "r = Inr u \<Longrightarrow> prefix (P @ [s]) x \<Longrightarrow> node_at F' x = None"
    using b apart prefix_same_cases [of "P @ [s]" x "P @ [g]"] by (auto simp: at)
qed

lemma prepared_steps:
  "bindS a (\<lambda>_. bindS b (\<lambda>_. bindS (readS c) (\<lambda>_. d))) F =
     (case a F of (Inl e, F1) \<Rightarrow> (Inl e, F1)
      | (Inr _, F1) \<Rightarrow> (case b F1 of (Inl e, F2) \<Rightarrow> (Inl e, F2)
          | (Inr _, F2) \<Rightarrow> (case c F2 of Inl e \<Rightarrow> (Inl e, F2) | Inr _ \<Rightarrow> d F2)))"
  by (auto simp: bindS_def readS_def split: prod.splits sum.splits)

lemma read_false: "\<not> b F \<Longrightarrow> bindS (readS (\<lambda>F. Inr (b F))) (\<lambda>c. if c then m else k) F = k F"
  by (simp add: bindS_def readS_def)

lemma materialize_new:
  "\<not> exists_at F (ga_generation A) \<Longrightarrow> materialize_generation H A w base others verify F =
     bindS (private_directory_ready H (ga_private_root A) (ga_state_root A)) (\<lambda>_.
     bindS (private_directory_ready H (ga_private_root A) (ga_parent A)) (\<lambda>_.
     bindS (readS (\<lambda>F. assert_managed_path F (ga_private_root A) (ga_parent A) False)) (\<lambda>_.
     discarding_stage A (bindS (build_stage H A w base) (\<lambda>_. promote A others verify))))) F"
  unfolding materialize_generation_def by (rule read_false)

lemma discarding_Inr: "discarding_stage A body F = (Inr u, F') \<longleftrightarrow> body F = (Inr u, F')"
  by (cases "body F") (auto simp: discarding_stage_def split: sum.splits prod.splits if_splits)

lemma discarding_Inl:
  assumes "body F = (Inl e, G)" and "ga_stage A \<noteq> []"
    and "dirs G (ga_stage A) \<or> (\<forall>q. prefix (ga_stage A) q \<longrightarrow> node_at G q = None) \<and> dirs G (parent (ga_stage A)) \<and> last (ga_stage A) \<noteq> ''..''"
  shows "\<exists>e F'. discarding_stage A body F = (Inl e, F') \<and> (\<forall>q. node_at F' q = (if prefix (ga_stage A) q then None else node_at G q))"
proof (cases "dirs G (ga_stage A)")
  case True
  then obtain m where "node_at G (ga_stage A) = Some (NDir m)" using assms(2) by (auto simp: dirs_def)
  then have "exists_at G (ga_stage A)"
    using canonical_stat [OF dirs_canonical [OF True]] by (simp add: exists_at_def)
  then show ?thesis
    using assms(1) rmtree_dirs [OF True assms(2)] by (simp add: discarding_stage_def remove_tree_at)
next
  case False
  then have n: "\<forall>q. prefix (ga_stage A) q \<longrightarrow> node_at G q = None" "dirs G (parent (ga_stage A))" "last (ga_stage A) \<noteq> ''..''"
    using assms(3) by auto
  have "ga_stage A = parent (ga_stage A) @ [last (ga_stage A)]" using assms(2) by (simp add: parent_def)
  then have "resolve G (ga_stage A) = None"
    using walk_dirs [of G "[]" "parent (ga_stage A)" 40 "[last (ga_stage A)]"] n(1) [rule_format, of "ga_stage A"] n(2,3)
    by (simp add: resolve_def)
  then have "\<not> exists_at G (ga_stage A)" by (simp add: exists_at_def stat_def)
  then show ?thesis using assms(1) n(1) by (auto simp: discarding_stage_def)
qed

text \<open>The preparation ends with the parent a chain of directories.\<close>

lemma placement_prepared:
  assumes p: "placeable A s g F"
    and a: "private_directory_ready H R (ga_state_root A) F = (r1, F1)"
  shows "placeable A s g F1"
    and "private_directory_ready H R (ga_parent A) F1 = (r2, F2) \<Longrightarrow> placeable A s g F2"
proof -
  have "placeable A s g (snd (private_directory_ready H R q G))"
    if "placeable A s g G" "q \<in> {ga_state_root A, ga_parent A}" for q G
    using private_directory_ready_keeps [of s q "[ga_private_root A, ga_source A]" "ga_source A" H R] that
    by (auto simp: placeable_def preservesS_def)
  from this [OF p, of "ga_state_root A"] this [of F1 "ga_parent A"] a
  show "placeable A s g F1" "private_directory_ready H R (ga_parent A) F1 = (r2, F2) \<Longrightarrow> placeable A s g F2"
    by simp_all
qed

lemma prepared_parent:
  assumes p: "placeable A s g F2" and a: "private_directory_ready H R (ga_parent A) F1 = (Inr u, F2)"
    and m: "assert_managed_path F2 (ga_private_root A) (ga_parent A) False = Inr q"
  shows "dirs F2 (ga_parent A)" and "ga_parent A \<noteq> []" and "\<And>q. prefix (ga_stage A) q \<Longrightarrow> node_at F2 q = None"
    and "dirs F2 (ga_source A)" and "node_at F2 (ga_source A @ [GENERATION_MANIFEST_NAME]) = None"
proof -
  have "is_dir F2 (ga_parent A)"
    using a by (auto simp: private_directory_ready_def validate_private_runtime_def bindS_Inr bindE_Inr someE_Inr
        is_dir_node_eq split: if_splits dest: is_dir_node_NDir)
  then have "dirs F2 (ga_parent A) \<and> strict_prefix (ga_private_root A) (ga_parent A)"
    using managed_path_dirs [OF m] p by (simp add: placeable_def ready_for_def)
  then show "dirs F2 (ga_parent A)" "ga_parent A \<noteq> []" by auto
  show "node_at F2 q = None" if "prefix (ga_stage A) q" for q
    using p that by (auto simp: placeable_def ready_for_def unused_def prefix_def)
  show "dirs F2 (ga_source A)" "node_at F2 (ga_source A @ [GENERATION_MANIFEST_NAME]) = None"
    using p by (simp_all add: placeable_def ready_for_def)
qed

section \<open>Writers of a payload\<close>

text \<open>What a client has to promise of the step that adds its own files to the stage.\<close>

locale stage_writer =
  fixes writer :: "path \<Rightarrow> (fs, unit) st"
  assumes writes_below: "dirs F p \<Longrightarrow> linkless p F \<Longrightarrow> writer p F = (r, F') \<Longrightarrow> \<not> strict_prefix p q \<Longrightarrow> node_at F' q = node_at F q"
    and leaves_manifest: "dirs F p \<Longrightarrow> linkless p F \<Longrightarrow> writer p F = (r, F') \<Longrightarrow>
      node_at F' (p @ [GENERATION_MANIFEST_NAME]) = node_at F (p @ [GENERATION_MANIFEST_NAME])"
begin

lemma writes_dirs:
  assumes "dirs F p" and "linkless p F" and "writer p F = (r, F')"
  shows "dirs F' p"
proof -
  have "node_at F' q = node_at F q" if "prefix q p" for q
    by (rule writes_below [OF assms]) (use that in \<open>auto simp: strict_prefix_def\<close>)
  then show ?thesis using assms(1) by (auto simp: dirs_def)
qed

lemma build_stage_cases:
  assumes b: "build_stage H A writer base F = (r, F')" and st: "ga_stage A = P @ [s]"
    and d: "dirs F P" "s \<noteq> ''..''" and new: "\<And>q. prefix (P @ [s]) q \<Longrightarrow> node_at F q = None"
    and src: "dirs F (ga_source A)" "node_at F (ga_source A @ [GENERATION_MANIFEST_NAME]) = None"
  shows "(\<forall>q. \<not> prefix (P @ [s]) q \<longrightarrow> node_at F' q = node_at F q)
    \<and> (dirs F' (P @ [s]) \<or> (\<forall>q. prefix (P @ [s]) q \<longrightarrow> node_at F' q = None))
    \<and> (r = Inr u \<longrightarrow> dirs F' (P @ [s]) \<and> (\<exists>c m. tree_digest H F' (P @ [s]) [GENERATION_MANIFEST_NAME] = Inr c
      \<and> node_at F' (P @ [s, GENERATION_MANIFEST_NAME]) = Some (NFile m (spaced_json (manifest_doc base c) @ [CHR 0x0A]))))"
proof -
  let ?S = "P @ [s]"
  have dp: "dirs F (parent ?S)" using d by (simp add: parent_def)
  obtain r1 F1 where c: "copytree H (ga_source A) ?S F = (r1, F1)" by (cases "copytree H (ga_source A) ?S F")
  note ct = copytree_at [OF c dp]
  have f1: "\<forall>q. \<not> prefix ?S q \<longrightarrow> node_at F1 q = node_at F q" using ct(1) by simp
  have dd: "dirs G ?S" if "\<forall>q. \<not> prefix ?S q \<longrightarrow> node_at G q = node_at F q" "\<exists>m. node_at G ?S = Some (NDir m)" for G
  proof -
    have "\<not> prefix ?S q" if "prefix q P" for q
      using prefix_length_le [OF that] prefix_length_le [of "?S" q] by auto
    then have "dirs G P" using that(1) d(1) by (auto simp: dirs_def)
    then show ?thesis using that(2) d(2) dirs_snoc by blast
  qed
  show ?thesis
  proof (cases r1)
    case (Inl e)
    then have "r = Inl e" "F' = F1" using b c st by (auto simp: build_stage_def bindS_def)
    then show ?thesis using f1 ct(2) dd [OF f1] new by auto
  next
    case (Inr u1)
    have d1: "dirs F1 ?S" by (rule dd [OF f1]) (use ct(3) Inr in simp)
    have m1: "node_at F1 (?S @ [GENERATION_MANIFEST_NAME]) = None"
      using ct(4) [OF _ src] new [of "?S @ [GENERATION_MANIFEST_NAME]"] by simp
    have l1: "linkless ?S F1"
      by (rule copytree_linkless [OF c dp]) (simp_all add: linkless_def new)
    obtain r2 F2 where w: "writer ?S F1 = (r2, F2)" by (cases "writer ?S F1")
    have f2: "\<forall>q. \<not> prefix ?S q \<longrightarrow> node_at F2 q = node_at F q"
      using writes_below [OF d1 l1 w] f1 by (simp add: strict_prefix_def)
    have d2: "dirs F2 ?S" by (rule writes_dirs [OF d1 l1 w])
    have m2: "node_at F2 (?S @ [GENERATION_MANIFEST_NAME]) = None" using leaves_manifest [OF d1 l1 w] m1 by simp
    show ?thesis
    proof (cases "\<exists>c. r2 = Inr () \<and> tree_digest H F2 ?S [] = Inr c")
      case False
      then have "F' = F2" "\<exists>e. r = Inl e"
        using b c w st Inr by (auto simp: build_stage_def bindS_def readS_def split: sum.splits)
      then show ?thesis using f2 d2 by auto
    next
      case True
      then obtain c where c2: "r2 = Inr ()" "tree_digest H F2 ?S [] = Inr c" by blast
      let ?text = "spaced_json (manifest_doc base c) @ [CHR 0x0A]"
      have "F' = put_file H (?S @ [GENERATION_MANIFEST_NAME]) ?text 420 F2"
        using b c w st Inr c2 write_text_new [OF d2 m2 manifest_not_parent(1)]
        by (simp add: build_stage_def bindS_def readS_def)
      then have F': "node_at F' q = (if q = ?S @ [GENERATION_MANIFEST_NAME] then Some (NFile (new_meta H F2 420) ?text) else node_at F2 q)" for q
        by simp
      then have d3: "dirs F' ?S" using d2 by (auto simp: dirs_def)
      have "tree_stream F2 ?S [] = tree_stream F' ?S [GENERATION_MANIFEST_NAME]"
      proof (rule tree_stream_same)
        show "resolve F2 ?S = Some ?S" "resolve F' ?S = Some ?S"
          using d2 d3 by (simp_all add: canonical_resolve dirs_canonical)
      qed (use m2 F' in \<open>auto simp: posix_manifest\<close>)
      then have "tree_digest H F' ?S [GENERATION_MANIFEST_NAME] = Inr c" using c2(2) by (simp add: tree_digest_def)
      then show ?thesis using f2 d3 F' by (auto simp: prefix_def)
    qed
  qed
qed

text \<open>A generation that was placed, found or won by another process verifies.\<close>

lemma placed_verifies:
  assumes m: "materialize_generation H A writer base others (\<lambda>g F. verify_generation H F g expected) F = (Inr u, F')"
    and p: "placeable A s g F" and o: "leaves_stage A others"
    and b: "plain (VDict base)" "texts_utf8 (VDict base)" "''content_digest'' \<notin> set (keys base)"
    and sub: "set expected \<subseteq> set base"
    and h: "\<And>x. utf8_valid (sha256 H x)"
  shows "\<exists>v. verify_generation H F' (ga_generation A) expected = Inr v"
proof (cases "exists_at F (ga_generation A)")
  case True
  then show ?thesis using m by (auto simp: materialize_generation_def bindS_def readS_def bindE_Inr)
next
  case False
  let ?P = "ga_parent A" and ?S = "ga_parent A @ [s]" and ?G = "ga_parent A @ [g]"
  have q: "ga_stage A = ?S" "ga_generation A = ?G" "s \<noteq> g" "s \<noteq> ''..''" "g \<noteq> ''..''" using p by (simp_all add: placeable_def)
  obtain F1 F2 F3 x where st: "private_directory_ready H (ga_private_root A) (ga_state_root A) F = (Inr (), F1)"
      "private_directory_ready H (ga_private_root A) ?P F1 = (Inr (), F2)"
      "assert_managed_path F2 (ga_private_root A) ?P False = Inr x"
      "build_stage H A writer base F2 = (Inr (), F3)"
      "promote A others (\<lambda>g F. verify_generation H F g expected) F3 = (Inr (), F')"
    using m False
    by (auto simp: materialize_generation_def discarding_Inr bindS_Inr)
  note p2 = placement_prepared(2) [OF p st(1,2)]
  note pp = prepared_parent [OF p2 st(2,3)]
  note bs = build_stage_cases [OF st(4) q(1) pp(1) q(4) pp(3) [unfolded q(1)] pp(4,5)]
  obtain c mt where d3: "dirs F3 ?S" and c: "tree_digest H F3 ?S [GENERATION_MANIFEST_NAME] = Inr c"
      "node_at F3 (?P @ [s, GENERATION_MANIFEST_NAME]) = Some (NFile mt (spaced_json (manifest_doc base c) @ [CHR 0x0A]))"
    using bs by blast
  have og: "node_at (others F3) y = node_at F3 y" if "prefix ?S y \<or> prefix y ?P" for y
    using o that unfolding leaves_stage_def q(1) by blast
  have dS: "dirs (others F3) ?S" using d3 og by (auto simp: dirs_def)
  then have dP: "dirs (others F3) ?P" by (rule dirs_prefix) simp
  obtain r4 F4 where rn: "rename_directory ?S ?G (others F3) = (r4, F4)" by (cases "rename_directory ?S ?G (others F3)")
  show ?thesis
  proof (cases r4)
    case (Inl e)
    then show ?thesis using st(5) rn q by (auto simp: promote_def bindS_Inr bindE_Inr split: if_splits)
  next
    case (Inr v)
    note at = rename_directory_at [OF dP dS q(3,5) rn]
    have F': "F' = F4" using st(5) rn q Inr by (simp add: promote_def)
    have moved: "node_at F' (?G @ y) = node_at F3 (?S @ y)" for y
      using at(1) [OF Inr, of y] og [of "?S @ y"] F' by simp
    have "node_at F' y = node_at F3 y" if "prefix y ?P" for y
    proof -
      have "\<not> prefix ?S y" "\<not> prefix ?G y"
        using prefix_length_le [OF that] prefix_length_le [of ?S y] prefix_length_le [of ?G y] by auto
      then show ?thesis using at(2) [OF Inr, of y] og [of y] that F' by simp
    qed
    then have dG: "dirs F' ?G" using d3 moved [of "[]"] q(5) by (auto simp: dirs_def)
    have "tree_stream F' ?G [GENERATION_MANIFEST_NAME] = tree_stream F3 ?S [GENERATION_MANIFEST_NAME]"
      by (rule tree_stream_same [of _ _ ?G _ _ ?S]) (use dG d3 moved in \<open>auto simp: canonical_resolve dirs_canonical\<close>)
    then have t: "tree_digest H F' ?G [GENERATION_MANIFEST_NAME] = Inr c" using c(1) by (simp add: tree_digest_def)
    obtain x where "c = digest_bytes H x" using c(1) by (auto simp: tree_digest_def bindE_Inr)
    then have u: "utf8_valid c" using h [of x] by (simp add: digest_bytes_def utf8_valid_ascii byte_def)
    show ?thesis
      using verify_generation_intro [OF dG _ t b(1,2) u b(3) sub] moved [of "[GENERATION_MANIFEST_NAME]"] c(2) q(2) by auto
  qed
qed

text \<open>A failed placement leaves neither its stage nor a generation.\<close>

lemma failed_leaves_nothing:
  assumes m: "materialize_generation H A writer base (\<lambda>F. F) verify F = (Inl e, F')"
    and p: "placeable A s g F" and g: "unused g F" "g \<notin> set (ga_parent A) \<union> set (ga_state_root A)"
    and n: "\<not> exists_at F (ga_generation A)"
    and q: "prefix (ga_stage A) q \<or> prefix (ga_generation A) q"
  shows "node_at F' q = None"
proof -
  let ?P = "ga_parent A" and ?S = "ga_parent A @ [s]" and ?G = "ga_parent A @ [g]"
  let ?R = "ga_private_root A"
  have pq: "ga_stage A = ?S" "ga_generation A = ?G" "s \<noteq> g" "s \<noteq> ''..''" "g \<noteq> ''..''" using p by (simp_all add: placeable_def)
  have gone: "node_at K q = None" if "placeable A s g K" "unused g K" for K
    using that q by (auto simp: placeable_def ready_for_def unused_def prefix_def)
  have keep: "unused g (snd (private_directory_ready H R d K))" if "placeable A s g K" "unused g K" "d \<in> {ga_state_root A, ?P}" for R d K
    using private_directory_ready_keeps [of g d "[]" "ga_source A" H R] that g(2)
    by (auto simp: placeable_def preservesS_def ready_for_def)
  obtain r1 F1 where s1: "private_directory_ready H ?R (ga_state_root A) F = (r1, F1)" by (cases "private_directory_ready H ?R (ga_state_root A) F")
  have k1: "placeable A s g F1" "unused g F1"
    using placement_prepared(1) [OF p s1] keep [OF p g(1), of "ga_state_root A" ?R] s1 by simp_all
  obtain r2 F2 where s2: "private_directory_ready H ?R ?P F1 = (r2, F2)" by (cases "private_directory_ready H ?R ?P F1")
  have k2: "placeable A s g F2" "unused g F2"
    using placement_prepared(2) [OF p s1 s2] keep [OF k1, of ?P ?R] s2 by simp_all
  note run = m [unfolded materialize_new [OF n] prepared_steps s1 prod.case]
  show ?thesis
  proof (cases "\<exists>x. r1 = Inr () \<and> r2 = Inr () \<and> assert_managed_path F2 ?R ?P False = Inr x")
    case False
    have "F' = F1 \<or> F' = F2"
    proof (cases r1)
      case (Inl e1)
      then show ?thesis using run by (simp only: sum.case prod.inject simp_thms)
    next
      case r1: (Inr u1)
      show ?thesis
      proof (cases r2)
        case (Inl e2)
        then show ?thesis using run r1 by (simp only: sum.case prod.case s2 prod.inject simp_thms)
      next
        case r2: (Inr u2)
        obtain e3 where "assert_managed_path F2 ?R ?P False = Inl e3"
          using False r1 r2 by (cases "assert_managed_path F2 ?R ?P False") auto
        then show ?thesis using run r1 r2 by (simp only: sum.case prod.case s2 prod.inject simp_thms)
      qed
    qed
    then show ?thesis using gone [OF k1] gone [OF k2] by (elim disjE) simp_all
  next
    case True
    then obtain x where t: "r1 = Inr ()" "r2 = Inr ()" "assert_managed_path F2 ?R ?P False = Inr x" by blast
    note pp = prepared_parent [OF k2(1) s2 [unfolded t(2)] t(3)]
    let ?body = "bindS (build_stage H A writer base) (\<lambda>_. promote A (\<lambda>F. F) verify)"
    have body: "discarding_stage A ?body F2 = (Inl e, F')"
      using run by (simp only: t s2 prod.case sum.case)
    obtain r3 F3 where s3: "build_stage H A writer base F2 = (r3, F3)" by (cases "build_stage H A writer base F2")
    note bs = build_stage_cases [OF s3 pq(1) pp(1) pq(4) pp(3) [unfolded pq(1)] pp(4,5)]
    note frame = bs [THEN conjunct1, rule_format] and stage = bs [THEN conjunct2, THEN conjunct1]
    have outside: "node_at F3 y = None" if "prefix ?G y" for y
    proof -
      have "\<not> prefix ?S y" using that pq(3) prefix_same_cases [of ?S y ?G] by auto
      moreover have "node_at F2 y = None" using k2(2) that by (auto simp: unused_def prefix_def)
      ultimately show ?thesis using frame by simp
    qed
    have "node_at F3 y = node_at F2 y" if "prefix y ?P" for y
      using frame [of y] prefix_length_le [OF that] prefix_length_le [of ?S y] by auto
    then have dP: "dirs F3 ?P" using pp(1) by (auto simp: dirs_def)
    obtain e' where b3: "?body F2 = (Inl e', F3)"
    proof (cases r3)
      case (Inl e3)
      then show ?thesis using s3 that by (simp add: bindS_def)
    next
      case (Inr u)
      have dS: "dirs F3 ?S" using bs Inr by blast
      obtain r4 F4 where rn: "rename_directory ?S ?G F3 = (r4, F4)" by (cases "rename_directory ?S ?G F3")
      have "r4 \<noteq> Inr u'" for u'
      proof
        assume "r4 = Inr u'"
        then have "?body F2 = (Inr (), F4)" using s3 Inr rn pq(1,2) by (simp add: bindS_def promote_def)
        then show False using body discarding_Inr [of A ?body F2 "()" F4] by simp
      qed
      then obtain e4 where r4: "r4 = Inl e4" by (cases r4) auto
      then have "F4 = F3" using rename_directory_at(3) [OF dP dS pq(3,5) rn] by simp
      moreover have "\<not> exists_at F3 ?G"
      proof -
        have "resolve F3 ?G = None"
          using walk_dirs [of F3 "[]" ?P 40 "[g]"] dP pq(5) outside [of ?G] by (simp add: resolve_def)
        then show ?thesis by (simp add: exists_at_def stat_def)
      qed
      ultimately show ?thesis using that s3 Inr rn r4 pq(1,2) by (simp add: bindS_def promote_def)
    qed
    have "dirs F3 (ga_stage A) \<or> (\<forall>q. prefix (ga_stage A) q \<longrightarrow> node_at F3 q = None) \<and> dirs F3 (parent (ga_stage A)) \<and> last (ga_stage A) \<noteq> ''..''"
      using stage dP pq(1,4) by (auto simp: parent_def)
    then have "node_at F' y = (if prefix ?S y then None else node_at F3 y)" for y
      using discarding_Inl [of ?body F2 e' F3 A, OF b3] body pq(1) by auto
    then show ?thesis using q outside pq(1,2) by auto
  qed
qed

end

end
