(* ===== verification/Regions.thy ===== *)
theory Regions
  imports OmpMigrate Generations
begin

text \<open>
  Steps that write inside a region of the file system: a set of paths that holds no links, reached
  from a directory outside it. Every step at a reachable path leaves what is outside as it was.
\<close>

lemma linklessD: "linkless root F \<Longrightarrow> node_at F (root @ q) = Some nd \<Longrightarrow> \<not> is_link_node nd"
  unfolding linkless_def by (meson prefixI)

definition regional :: "(path \<Rightarrow> bool) \<Rightarrow> fs \<Rightarrow> fs \<Rightarrow> bool" where
  "regional R F G \<longleftrightarrow> (\<forall>q. \<not> R q \<longrightarrow> node_at G q = node_at F q) \<and> (\<forall>q nd. R q \<longrightarrow> node_at G q = Some nd \<longrightarrow> \<not> is_link_node nd)"

lemma regional_outside: "regional R F G \<Longrightarrow> \<not> R q \<Longrightarrow> node_at G q = node_at F q"
  unfolding regional_def by blast

lemma regional_no_link: "regional R F G \<Longrightarrow> R q \<Longrightarrow> node_at G q = Some nd \<Longrightarrow> \<not> is_link_node nd"
  unfolding regional_def by blast

lemma regional_fresh [simp]: "regional R F (G\<lparr>fresh_ino := n\<rparr>) = regional R F G"
  by (simp add: regional_def)

lemma regional_put:
  assumes "regional R F G" and "R q" and "\<not> is_link_node nd"
  shows "regional R F (put_node q nd G)"
proof -
  have "\<not> is_link_node x" if "R p" "node_at (put_node q nd G) p = Some x" for p x
    using regional_no_link [OF assms(1) that(1)] that(2) assms(3) by (cases "p = q") simp_all
  moreover have "node_at (put_node q nd G) p = node_at F p" if "\<not> R p" for p
    using regional_outside [OF assms(1) that] that assms(2) by (cases "p = q") simp_all
  ultimately show ?thesis unfolding regional_def by blast
qed

lemma regional_put_file: "regional R F G \<Longrightarrow> R q \<Longrightarrow> regional R F (put_file H q c m G)"
  by (simp add: put_file_def regional_put)

lemma regional_put_dir: "regional R F G \<Longrightarrow> R q \<Longrightarrow> regional R F (put_dir H q m G)"
  by (simp add: put_dir_def regional_put)

lemma regional_remove: "regional R F G \<Longrightarrow> (\<And>q. prefix p q \<Longrightarrow> R q) \<Longrightarrow> regional R F (remove_tree p G)"
  unfolding regional_def remove_tree_at by (simp split: if_splits)

text \<open>\<open>base\<close> is a directory outside the region; the path \<open>base @ ps\<close> runs inside it.\<close>

locale region =
  fixes F :: fs and R :: "path \<Rightarrow> bool" and base :: path
  assumes base_dirs: "dirs F base" and base_outside: "prefix q base \<Longrightarrow> \<not> R q"
begin

definition inside :: "string list \<Rightarrow> bool" where
  "inside ps \<longleftrightarrow> ps \<noteq> [] \<and> ''..'' \<notin> set ps \<and> (\<forall>qs. prefix qs ps \<longrightarrow> qs \<noteq> [] \<longrightarrow> R (base @ qs))"

lemma inside_here: "inside ps \<Longrightarrow> R (base @ ps)"
  by (simp add: inside_def)

lemma inside_prefix: "inside ps \<Longrightarrow> prefix qs ps \<Longrightarrow> qs \<noteq> [] \<Longrightarrow> inside qs"
  unfolding inside_def using set_mono_prefix prefix_order.trans by blast

lemma dirs_kept: "regional R F G \<Longrightarrow> dirs G base"
  using base_dirs base_outside regional_outside unfolding dirs_def by metis

lemma walk_inside:
  "walk n G (base @ qs) ps = Some r \<Longrightarrow> regional R F G \<Longrightarrow> qs @ ps = [] \<or> inside (qs @ ps) \<Longrightarrow> r = base @ qs @ ps"
proof (induction ps arbitrary: qs)
  case (Cons p ps)
  have i: "inside (qs @ p # ps)" using Cons.prems(3) by simp
  have here: "R (base @ qs @ [p])" by (rule inside_here, rule inside_prefix [OF i]) (simp_all add: prefix_def)
  have p: "p \<noteq> ''..''" using i by (auto simp: inside_def)
  obtain nd where nd: "node_at G (base @ qs @ [p]) = Some nd" using Cons.prems(1) p by (auto split: option.splits)
  have l: "\<not> is_link_node nd" by (rule regional_no_link [OF Cons.prems(2) here nd])
  have "walk n G (base @ qs @ [p]) ps = Some r \<Longrightarrow> r = base @ (qs @ [p]) @ ps"
    using Cons.IH [of "qs @ [p]"] Cons.prems(2) i by simp
  then show ?case using Cons.prems(1) p nd l by (cases nd) (auto split: if_splits)
qed simp

lemma resolved:
  assumes "regional R F G" and "resolve G (base @ ps) = Some r" and "ps = [] \<or> inside ps"
  shows "r = base @ ps"
proof -
  have "walk 40 G (base @ []) ps = Some r"
    using assms(2) walk_dirs [of G "[]" base 40 ps] dirs_kept [OF assms(1)] by (simp add: resolve_def)
  then show ?thesis using walk_inside [of 40 G "[]" ps r] assms(1,3) by simp
qed

lemma parent_resolved:
  assumes "regional R F G" and "inside ps" and "resolve G (parent (base @ ps)) = Some r"
  shows "r @ [name_of (base @ ps)] = base @ ps"
proof -
  have n: "ps \<noteq> []" using assms(2) by (simp add: inside_def)
  then have "parent (base @ ps) = base @ butlast ps" by (simp add: parent_def butlast_append)
  moreover have "butlast ps = [] \<or> inside (butlast ps)"
    using inside_prefix [OF assms(2), of "butlast ps"] prefixeq_butlast by blast
  ultimately have "r = base @ butlast ps" using resolved [OF assms(1), of "butlast ps" r] assms(3) by simp
  then show ?thesis using n by (simp add: name_of_def)
qed

lemma put_resolved:
  assumes "inside ps" and "regional R F G" and "resolve G (base @ ps) = Some r" and "\<not> is_link_node nd"
  shows "regional R F (put_node r nd G)"
  using resolved [OF assms(2,3)] regional_put [OF assms(2) inside_here [OF assms(1)] assms(4)] assms(1) by simp

lemma put_in_parent:
  assumes "inside ps" and "regional R F G" and "resolve G (parent (base @ ps)) = Some r" and "\<not> is_link_node nd"
  shows "regional R F (put_node (r @ [name_of (base @ ps)]) nd G)"
  unfolding parent_resolved [OF assms(2,1,3)] by (rule regional_put [OF assms(2) inside_here [OF assms(1)] assms(4)])

lemma write_text_regional: "inside ps \<Longrightarrow> preservesS (regional R F) (write_text H (base @ ps) c)"
  unfolding preservesS_def write_text_def
  by (auto simp: put_resolved put_in_parent put_file_def split: option.splits node.splits bool.splits)

lemma chmod_regional:
  assumes "inside ps"
  shows "preservesS (regional R F) (chmod (base @ ps) mode)"
proof -
  have "regional R F (put_node r (chmod_node mode nd) G)"
    if "regional R F G" "resolve G (base @ ps) = Some r" "node_at G r = Some nd" for G r nd
  proof -
    have "r = base @ ps" using resolved [OF that(1,2)] assms by simp
    then have "R r" and "\<not> is_link_node nd"
      using inside_here [OF assms] regional_no_link [OF that(1) _ that(3)] by simp_all
    then show ?thesis using regional_put [OF that(1)] by simp
  qed
  then show ?thesis by (auto simp: preservesS_def chmod_def split: option.splits)
qed

lemma mkdir_new_regional: "inside ps \<Longrightarrow> preservesS (regional R F) (mkdir_new H (base @ ps) mode)"
  unfolding preservesS_def mkdir_new_def
  by (auto simp: put_in_parent put_dir_def split: option.splits)

lemma write_private_regional: "inside ps \<Longrightarrow> preservesS (regional R F) (write_private H (base @ ps) c)"
  unfolding write_private_def by (intro preserves_bind write_text_regional chmod_regional)

lemma copy2_regional:
  assumes "inside ps"
  shows "preservesS (regional R F) (copy2 H source (base @ ps))"
proof -
  have "preservesS (regional R F) (bindS (write_text H (base @ ps) c) (\<lambda>_. chmod (base @ ps) m))" for c m
    by (intro preserves_bind write_text_regional chmod_regional assms)
  then show ?thesis by (auto simp: preservesS_def copy2_def split: option.splits node.splits)
qed

text \<open>Copying a tree needs everything below the target to be in the region.\<close>

lemma copy_entry_regional:
  "regional R F G \<Longrightarrow> R (t @ q) \<Longrightarrow> copy_entry H F0 s t q G = (r, G') \<Longrightarrow> regional R F G'"
  by (auto simp: copy_entry_def regional_put_dir regional_put_file split: option.splits node.splits)

lemma copy_entries_regional:
  assumes "\<And>q. q \<in> set qs \<Longrightarrow> R (t @ q)"
  shows "preservesS (regional R F) (forS (copy_entry H F0 s t) qs)"
proof (rule preserves_for)
  fix q
  assume "q \<in> set qs"
  then show "preservesS (regional R F) (copy_entry H F0 s t q)"
    unfolding preservesS_def using copy_entry_regional [OF _ assms] by (metis prod.collapse)
qed

lemma copytree_regional:
  assumes i: "inside ps" and b: "\<And>q. ''..'' \<notin> set q \<Longrightarrow> R (base @ ps @ q)"
    and n: "\<And>G. regional R F G \<Longrightarrow> unused ''..'' G"
  shows "preservesS (regional R F) (copytree H source (base @ ps))"
proof -
  have "regional R F (snd (forS (copy_entry H G s (d @ [name_of (base @ ps)])) ([] # sort (below G s)) G))"
    if "regional R F G" "resolve G (parent (base @ ps)) = Some d" for G s d
  proof -
    have "R ((base @ ps) @ q)" if "q \<in> set ([] # sort (below G s))" for q
      using that b [of q] n [OF \<open>regional R F G\<close>] by (auto simp: set_below unused_def)
    then show ?thesis
      using copy_entries_regional [of "[] # sort (below G s)" "base @ ps" H G s] parent_resolved [OF that(1) i that(2)] that(1)
      unfolding preservesS_def by (simp del: forS.simps)
  qed
  then show ?thesis unfolding preservesS_def copytree_def by (simp del: forS.simps split: option.split)
qed

lemma mkdirs_regional:
  "mkdirs H m (base @ qs) ps G = Inr (d, G') \<Longrightarrow> regional R F G \<Longrightarrow> qs @ ps = [] \<or> inside (qs @ ps) \<Longrightarrow> regional R F G'"
proof (induction ps arbitrary: qs G)
  case (Cons p ps)
  have i: "inside (qs @ p # ps)" using Cons.prems(3) by simp
  have ih: "inside (qs @ [p])" by (rule inside_prefix [OF i]) (simp_all add: prefix_def)
  show ?case
  proof (cases "resolve G (base @ qs @ [p])")
    case None
    have "regional R F (put_dir H (base @ qs @ [p]) m G)"
      by (rule regional_put_dir [OF Cons.prems(2) inside_here [OF ih]])
    then show ?thesis using Cons.prems(1) None Cons.IH [of "qs @ [p]"] i by (auto split: if_splits)
  next
    case (Some e)
    then have "e = base @ qs @ [p]" using resolved [OF Cons.prems(2) Some] ih by simp
    then show ?thesis using Cons.prems Some Cons.IH [of "qs @ [p]" G] i by (auto split: option.splits node.splits)
  qed
qed simp

lemma mkdirs_from_root:
  assumes "mkdirs H m [] (base @ ps) G = Inr (d, G')" and "regional R F G" and "ps = [] \<or> inside ps"
  shows "regional R F G'"
proof -
  have "mkdirs H m cur (xs @ ps) G = mkdirs H m (cur @ xs) ps G" if "dirs G (cur @ xs)" for cur xs
    using that
  proof (induction xs arbitrary: cur)
    case (Cons x xs)
    have d: "dirs G (cur @ [x])" by (rule dirs_prefix [OF Cons.prems]) (simp add: prefix_def)
    then obtain k where "node_at G (cur @ [x]) = Some (NDir k)" by (auto simp: dirs_def)
    then show ?case using Cons.IH [of "cur @ [x]"] Cons.prems canonical_resolve [OF dirs_canonical [OF d]] by simp
  qed simp
  from this [of "[]" base] have "mkdirs H m (base @ []) ps G = Inr (d, G')"
    using assms(1) dirs_kept [OF assms(2)] by simp
  then show ?thesis using mkdirs_regional [of H m "[]" ps G d G'] assms(2,3) by simp
qed

lemma make_dirs_regional: "ps = [] \<or> inside ps \<Longrightarrow> preservesS (regional R F) (make_dirs H (base @ ps))"
  by (auto simp: preservesS_def make_dirs_def intro: mkdirs_from_root split: sum.splits)

lemma make_private_dirs_regional:
  assumes "ps = [] \<or> inside ps" and "base \<noteq> []"
  shows "preservesS (regional R F) (make_private_dirs H (base @ ps))"
proof -
  have "preservesS (regional R F) (make_dirs H (parent (base @ ps)))"
  proof (cases "ps = []")
    case True
    have "mkdirs H 493 [] (parent base) G = Inr (parent base, G)" if "regional R F G" for G
      using mkdirs_dirs [of G "[]" "parent base"] dirs_butlast [OF dirs_kept [OF that]] by (simp add: parent_def)
    then show ?thesis using True by (auto simp: preservesS_def make_dirs_def)
  next
    case False
    then have "parent (base @ ps) = base @ butlast ps" by (simp add: parent_def butlast_append)
    moreover have "butlast ps = [] \<or> inside (butlast ps)"
      using inside_prefix [of ps "butlast ps"] assms(1) False prefixeq_butlast by blast
    ultimately show ?thesis using make_dirs_regional by simp
  qed
  moreover have "preservesS (regional R F) (\<lambda>G. case mkdirs H 448 [] (base @ ps) G of Inl e \<Rightarrow> (Inl e, G) | Inr (_, G') \<Rightarrow> (Inr (), G'))"
    using mkdirs_from_root assms(1) by (auto simp: preservesS_def split: sum.splits)
  ultimately show ?thesis
    unfolding make_private_dirs_def using assms(2) by (simp add: preserves_bind)
qed

end

text \<open>Everything below the root is a region; the operations keep the root itself.\<close>

interpretation below_root: region F "\<lambda>q. q \<noteq> []" "[]" for F
  by unfold_locales (auto simp: dirs_def)

lemma write_private_keeps_root:
  "''..'' \<notin> set ps \<Longrightarrow> ps \<noteq> [] \<Longrightarrow> preservesS (regional (\<lambda>q. q \<noteq> []) F) (write_private H ps c)"
  using below_root.write_private_regional [of ps] by (simp add: below_root.inside_def)

lemma preserves_when: "preservesS I m \<Longrightarrow> preservesS I (whenS b m)"
  by (simp add: preservesS_def whenS_def)

end
