(* ===== verification/OmpGeneration.thy ===== *)
theory OmpGeneration
  imports OmpLaunch Regions
begin

text \<open>
  The OMP writer of a generation keeps the contract of \<open>stage_writer\<close>: in a stage without links it
  changes nothing outside the stage and does not touch the manifest.
\<close>

definition payload_region :: "path \<Rightarrow> path \<Rightarrow> bool" where
  "payload_region p q \<longleftrightarrow> strict_prefix p q \<and> q \<noteq> p @ [GENERATION_MANIFEST_NAME]"

lemma payload_region_below: "ps \<noteq> [] \<Longrightarrow> ps \<noteq> [GENERATION_MANIFEST_NAME] \<Longrightarrow> payload_region p (p @ ps)"
  by (simp add: payload_region_def strict_prefix_def)

lemma stage_region: "dirs F p \<Longrightarrow> region F (payload_region p) p"
  unfolding region_def payload_region_def using prefix_order.less_le_not_le by blast

lemma inside_stage:
  assumes "dirs F p" and "ps \<noteq> []" and "hd ps \<noteq> GENERATION_MANIFEST_NAME" and "''..'' \<notin> set ps"
  shows "region.inside (payload_region p) p ps"
proof -
  have "payload_region p (p @ qs)" if "prefix qs ps" "qs \<noteq> []" for qs
  proof (rule payload_region_below [OF that(2)])
    have "hd qs = hd ps" using that by (auto simp: prefix_def)
    then show "qs \<noteq> [GENERATION_MANIFEST_NAME]" using assms(3) by auto
  qed
  then show ?thesis using assms(2,4) region.inside_def [OF stage_region [OF assms(1)]] by simp
qed

lemma omp_payload_regional:
  assumes d: "dirs F p"
  shows "preservesS (regional (payload_region p) F) (omp_write_payload H E tmpl generation p)"
proof -
  note R = stage_region [OF d]
  have i: "region.inside (payload_region p) p [''config.yml'']" "region.inside (payload_region p) p [''extension'']"
    "region.inside (payload_region p) p [''extension'', ''.mcp.json'']"
    by (rule inside_stage [OF d]; simp add: GENERATION_MANIFEST_NAME_def)+
  show ?thesis
    unfolding omp_write_payload_def
    by (intro preserves_bind preserves_when region.write_private_regional [OF R i(1)] region.mkdir_new_regional [OF R i(2)]
        region.copy2_regional [OF R i(3)])
qed

interpretation omp_writer: stage_writer "omp_write_payload H E tmpl generation"
proof
  fix p F F' q and r :: "unit res"
  assume d: "dirs F p" and l: "linkless p F" and w: "omp_write_payload H E tmpl generation p F = (r, F')"
  have "regional (payload_region p) F F"
    using l by (auto simp: regional_def payload_region_def linkless_def strict_prefix_def)
  then have "regional (payload_region p) F (snd (omp_write_payload H E tmpl generation p F))"
    using omp_payload_regional [OF d, of H E tmpl generation] by (simp add: preservesS_def)
  then have "regional (payload_region p) F F'" using w by simp
  then show "\<not> strict_prefix p q \<Longrightarrow> node_at F' q = node_at F q"
    and "node_at F' (p @ [GENERATION_MANIFEST_NAME]) = node_at F (p @ [GENERATION_MANIFEST_NAME])"
    by (simp_all add: regional_outside payload_region_def)
qed

end
