(* ===== verification/MigrateProofs.thy ===== *)
theory MigrateProofs
  imports OmpLaunch Regions
begin

text \<open>
  What a migration does to the file system: building the new runtime writes to the stage and to the
  backup only, and the swap either puts the stage in place or leaves the runtime as it was.
\<close>

section \<open>Building\<close>

text \<open>Sessions are named by relative paths.\<close>

definition session_ok :: "string \<Rightarrow> bool" where
  "session_ok relative \<longleftrightarrow> \<not> is_absolute relative \<and> parse_parts relative \<noteq> [] \<and> ''..'' \<notin> set (parse_parts relative)"

definition plan_ok :: "plan \<Rightarrow> bool" where
  "plan_ok pl \<longleftrightarrow> (\<forall>(relative, _) \<in> set (pl_sessions pl). session_ok relative)
     \<and> (\<forall>(label, s) \<in> set (pl_summaries pl). label \<noteq> ''..'' \<and> (\<forall>(relative, _) \<in> set (sm_sessions s). session_ok relative))"

lemma iterdir_names:
  assumes "iterdir G source = Inr names" and "unused s G" and "n \<in> set names"
  shows "n \<noteq> s"
proof -
  obtain d where "names = children G d" using assms(1) by (auto simp: iterdir_def split: option.splits node.splits)
  then obtain q where q: "q \<in> set (keys (nodes G))" "q \<noteq> []" "n = last q" using assms(3) by (auto simp: children_def)
  then have "node_at G q \<noteq> None" using node_at_keys [of G q] by (auto simp: keys_def)
  then show ?thesis using assms(2) q last_in_set [OF q(2)] by (auto simp: unused_def)
qed

context region
begin

text \<open>A directory of the region all of which is in the region.\<close>

definition wholly :: "string list \<Rightarrow> bool" where
  "wholly ps \<longleftrightarrow> inside ps \<and> (\<forall>q. ''..'' \<notin> set q \<longrightarrow> R (base @ ps @ q)) \<and> (\<forall>G. regional R F G \<longrightarrow> unused ''..'' G) \<and> base \<noteq> []"

lemma wholly_below: "wholly ps \<Longrightarrow> ''..'' \<notin> set q \<Longrightarrow> wholly (ps @ q)"
proof -
  assume w: "wholly ps" and q: "''..'' \<notin> set q"
  have "R (base @ qs)" if "prefix qs (ps @ q)" "qs \<noteq> []" for qs
  proof (cases "prefix qs ps")
    case True
    then show ?thesis using w that(2) by (auto simp: wholly_def inside_def)
  next
    case False
    then have "prefix ps qs" using prefix_same_cases [OF that(1), of ps] by simp
    then obtain r where r: "qs = ps @ r" by (auto simp: prefix_def)
    then have "prefix r q" using that(1) by simp
    with r show ?thesis using w q set_mono_prefix [of r q] by (auto simp: wholly_def)
  qed
  then show "wholly (ps @ q)" using w q by (auto simp: wholly_def inside_def)
qed

lemma wholly_inside: "wholly ps \<Longrightarrow> ''..'' \<notin> set q \<Longrightarrow> inside (ps @ q)"
  using wholly_below wholly_def by blast

lemma copytree_wholly: "wholly ps \<Longrightarrow> preservesS (regional R F) (copytree H source (base @ ps))"
  by (rule copytree_regional) (simp_all add: wholly_def)

lemma copy_payload_entry_regional:
  assumes w: "wholly (ps @ [n])"
  shows "preservesS (regional R F) (copy_payload_entry H E source (base @ ps) n)"
proof -
  have i: "inside (ps @ [n])" using w by (simp add: wholly_def)
  have s: "preservesS (regional R F) (sqlite_backup H E (source @ [n]) (base @ ps @ [n]))"
    unfolding sqlite_backup_def by (intro preserves_bind preserves_return write_private_regional i)
  show ?thesis
    using copytree_wholly [OF w, of H "source @ [n]"] copy2_regional [OF i, of H "source @ [n]"] s
    by (simp add: copy_payload_entry_def preservesS_def returnS_def)
qed

lemma copy_runtime_payload_regional:
  assumes w: "wholly ps"
  shows "preservesS (regional R F) (copy_runtime_payload H E source (base @ ps))"
proof -
  have "regional R F (snd (bindS (readS (\<lambda>F. bindE (iterdir F source) (\<lambda>names. Inr (sort names))))
      (forS (copy_payload_entry H E source (base @ ps))) G))" if g: "regional R F G" for G
  proof (cases "iterdir G source")
    case (Inr names)
    have u: "unused ''..'' G" using w g by (simp add: wholly_def)
    have "preservesS (regional R F) (forS (copy_payload_entry H E source (base @ ps)) (sort names))"
      using iterdir_names [OF Inr u] by (intro preserves_for copy_payload_entry_regional wholly_below [OF w]) auto
    then show ?thesis using g Inr by (simp add: bindS_def readS_def preservesS_def)
  qed (simp add: bindS_def readS_def g)
  then have "preservesS (regional R F) (bindS (readS (\<lambda>F. bindE (iterdir F source) (\<lambda>names. Inr (sort names))))
      (forS (copy_payload_entry H E source (base @ ps))))" by (simp add: preservesS_def)
  then show ?thesis
    unfolding copy_runtime_payload_def using w
    by (intro preserves_bind [OF mkdir_new_regional]) (simp_all add: wholly_def)
qed

lemma copy_session_regional:
  assumes w: "wholly ps" and ok: "session_ok relative"
  shows "preservesS (regional R F) (copy_session H S (base @ ps) (relative, label, expected))"
proof -
  let ?q = "parse_parts relative"
  have j: "path_join (base @ ps) relative = base @ (ps @ ?q)" using ok by (simp add: path_join_def session_ok_def)
  have i: "inside (ps @ ?q)" using wholly_inside [OF w] ok by (simp add: session_ok_def)
  have p: "parent (base @ (ps @ ?q)) = base @ (ps @ butlast ?q)" using ok by (simp add: parent_def butlast_append session_ok_def)
  have "''..'' \<notin> set (butlast ?q)" using ok in_set_butlastD by (fastforce simp: session_ok_def)
  then have b: "inside (ps @ butlast ?q)" by (rule wholly_inside [OF w])
  have "base \<noteq> []" using w by (simp add: wholly_def)
  note steps = make_private_dirs_regional [OF disjI2 [OF b] this] copy2_regional [OF i]
  show ?thesis
    unfolding copy_session_def prod.case j p by (intro preserves_bind preserves_return steps)
qed

lemma copy_merged_sessions_regional:
  assumes w: "wholly (ps @ [''sessions''])" and ok: "\<forall>(relative, _) \<in> set ss. session_ok relative"
  shows "preservesS (regional R F) (copy_merged_sessions H S ss (base @ ps))"
proof -
  have "preservesS (regional R F) (copy_session H S (base @ (ps @ [''sessions''])) x)" if "x \<in> set (sort_key fst ss)" for x
    using copy_session_regional [OF w] that ok by (cases x) auto
  then show ?thesis
    unfolding copy_merged_sessions_def append_assoc using w
    by (intro preserves_bind preserves_for mkdir_new_regional) (simp_all add: wholly_def)
qed

lemma write_runtime_config_regional:
  "inside (ps @ [''config.yml'']) \<Longrightarrow> preservesS (regional R F) (write_runtime_config H E (base @ ps) config)"
  unfolding write_runtime_config_def append_assoc by (intro write_private_regional)

lemma write_shared_mcp_policy_regional:
  "inside (ps @ [''mcp.json'']) \<Longrightarrow> preservesS (regional R F) (write_shared_mcp_policy H (base @ ps))"
  unfolding write_shared_mcp_policy_def append_assoc by (intro write_private_regional)

lemma rmtree_wholly:
  assumes w: "wholly ps"
  shows "preservesS (regional R F) (rmtree (base @ ps))"
proof -
  have "regional R F (remove_tree d G)" if r: "regional R F G" "resolve G (base @ ps) = Some d" for G d
  proof -
    have d: "d = base @ ps" using resolved [OF r] w by (simp add: wholly_def)
    have "node_at (remove_tree d G) q = node_at G q" if "\<not> R q" for q
    proof (cases "prefix d q")
      case True
      then obtain x where x: "q = base @ ps @ x" using d by (auto simp: prefix_def)
      then have "''..'' \<in> set q" using w \<open>\<not> R q\<close> by (auto simp: wholly_def)
      moreover have "unused ''..'' G" using w r(1) by (simp add: wholly_def)
      ultimately show ?thesis using True by (cases "node_at G q") (auto simp: remove_tree_at unused_def)
    qed (simp add: remove_tree_at)
    then have "\<forall>q. \<not> R q \<longrightarrow> node_at (remove_tree d G) q = node_at F q" using regional_outside [OF r(1)] by simp
    moreover have "\<forall>q nd. R q \<longrightarrow> node_at (remove_tree d G) q = Some nd \<longrightarrow> \<not> is_link_node nd"
      using regional_no_link [OF r(1)] by (simp add: remove_tree_at)
    ultimately show ?thesis unfolding regional_def by blast
  qed
  then show ?thesis by (auto simp: preservesS_def rmtree_def split: option.splits node.splits)
qed

lemma backup_regional:
  assumes w: "wholly ps" and up: "inside (butlast ps)"
    and ok: "\<forall>(label, s) \<in> set S. label \<noteq> ''..'' \<and> (\<forall>(relative, _) \<in> set (sm_sessions s). session_ok relative)"
  shows "preservesS (regional R F) (backup_legacy_runtime H E S (base @ ps))"
proof -
  have one: "preservesS (regional R F) (backup_one H E S (base @ ps) x)" if "x \<in> set S" for x
  proof -
    obtain label s where x: "x = (label, s)" by (cases x)
    have wl: "wholly (ps @ [label])" by (rule wholly_below [OF w]) (use ok that x in auto)
    have "\<forall>(relative, _) \<in> set (map (\<lambda>(relative, d). (relative, label, d)) (sm_sessions s)). session_ok relative"
      using ok that x by auto
    moreover have "wholly ((ps @ [label]) @ [''sessions''])" by (rule wholly_below [OF wl]) simp
    moreover have "inside ((ps @ [label]) @ [''config.yml''])" by (rule wholly_inside [OF wl]) simp
    ultimately have steps: "preservesS (regional R F) (copy_runtime_payload H E (sm_root s) (base @ ps @ [label]))"
        "preservesS (regional R F) (write_runtime_config H E (base @ ps @ [label]) (sm_config s))"
        "preservesS (regional R F) (copy_merged_sessions H S (map (\<lambda>(relative, d). (relative, label, d)) (sm_sessions s)) (base @ ps @ [label]))"
      using copy_runtime_payload_regional [OF wl] write_runtime_config_regional copy_merged_sessions_regional by simp_all
    show ?thesis
      unfolding backup_one_def x prod.case append_assoc
      by (cases "sm_exists s") (simp_all add: preserves_bind steps)
  qed
  have p: "parent (base @ ps) = base @ butlast ps" using w by (auto simp: parent_def butlast_append wholly_def inside_def)
  have i: "inside ps" using w by (simp add: wholly_def)
  show ?thesis
    unfolding backup_legacy_runtime_def p
    by (intro preserves_bind preserves_for one make_dirs_regional disjI2 [OF up] mkdir_new_regional [OF i])
qed

end

section \<open>The region of a migration\<close>

definition migration_region :: "cap_args \<Rightarrow> move \<Rightarrow> path \<Rightarrow> bool" where
  "migration_region A M q \<longleftrightarrow> ''..'' \<notin> set q \<and> (prefix (mv_stage M) q \<or> prefix (ca_agent_home_root A @ [''migrations'']) q)"

text \<open>Where a migration starts: the names of the stage and of the old runtime are new, the directory
  of the runtimes and the agent home are chains of directories, neither inside the other's part, and no
  link lies in the migration directory.\<close>

definition migration_start :: "cap_args \<Rightarrow> path \<Rightarrow> string \<Rightarrow> string \<Rightarrow> fs \<Rightarrow> bool" where
  "migration_start A target stamp stamp' F \<longleftrightarrow>
     (let M = migration_paths A target stamp stamp' in
      agent_home_dir A = Inr target \<and> dirs F (parent target) \<and> dirs F (ca_agent_home_root A) \<and> ca_agent_home_root A \<noteq> []
      \<and> unused ''..'' F
      \<and> (\<forall>q. prefix (mv_stage M) q \<or> prefix (mv_old M) q \<longrightarrow> node_at F q = None)
      \<and> (\<forall>q nd. prefix (ca_agent_home_root A @ [''migrations'']) q \<longrightarrow> node_at F q = Some nd \<longrightarrow> \<not> is_link_node nd)
      \<and> \<not> prefix (ca_agent_home_root A @ [''migrations'']) target \<and> \<not> prefix target (ca_agent_home_root A @ [''migrations'']))"

lemma skill_name_start: "skill_name s \<Longrightarrow> s \<noteq> [] \<and> hd s \<noteq> CHR ''.''"
proof (cases s)
  case (Cons c cs)
  assume a: "skill_name s"
  show ?thesis
  proof (cases "c = CHR ''-''")
    case True
    then show ?thesis using a Cons by (simp add: skill_name_def)
  next
    case False
    then obtain w ws where "split_on CHR ''-'' (c # cs) = (c # w) # ws" by (cases "split_on CHR ''-'' cs") auto
    then have "is_lower c \<or> is_digit c" using a Cons by (simp add: skill_name_def)
    then show ?thesis using Cons by (auto simp: is_lower_def is_digit_def)
  qed
qed (simp add: skill_name_def)

lemma agent_home_dir_Inr:
  assumes "agent_home_dir A = Inr target"
  shows "target = ca_real_home A @ [''.agent-system-state'', ''runtimes'', ''omp'', ca_runtime_id A]"
    and "skill_name (ca_runtime_id A)" and "omp_runtime_id A = Inr (ca_runtime_id A)"
  using assms by (auto simp: agent_home_dir_def omp_runtime_id_def Let_def split: if_splits option.splits)

text \<open>The two places a migration writes to, with their names.\<close>

lemma migration_names:
  fixes A target stamp stamp'
  defines "M \<equiv> migration_paths A target stamp stamp'"
  assumes "migration_start A target stamp stamp' F"
  obtains P s old t where "mv_stage M = P @ [s]" "mv_old M = P @ [old]" "mv_target M = P @ [t]" "target = P @ [t]"
    "s \<noteq> t" "old \<noteq> t" "s \<noteq> old" "s \<noteq> ''..''" "old \<noteq> ''..''" "t \<noteq> ''..''" "P \<noteq> []" "P = parent target" "dirs F P"
proof -
  have d: "agent_home_dir A = Inr target" "dirs F (parent target)" using assms(2) by (simp_all add: migration_start_def Let_def)
  note t = agent_home_dir_Inr [OF d(1)]
  obtain c cs where n: "ca_runtime_id A = c # cs" "c \<noteq> CHR ''.''" using skill_name_start [OF t(2)] by (cases "ca_runtime_id A") auto
  show thesis
  proof (rule that [of "parent target" "''.omp-stage-'' @ stamp" "''.omp-old-'' @ stamp'" "ca_runtime_id A"])
    show "''.omp-stage-'' @ stamp \<noteq> ca_runtime_id A" "''.omp-old-'' @ stamp' \<noteq> ca_runtime_id A" "ca_runtime_id A \<noteq> ''..''"
      using n by auto
    show "parent target \<noteq> []" by (simp add: t(1) parent_def butlast_append)
  qed (use d(2) in \<open>simp_all add: M_def migration_paths_def t(1) parent_def butlast_append\<close>)
qed

lemma migration_regions:
  fixes A target stamp stamp'
  defines "M \<equiv> migration_paths A target stamp stamp'"
  assumes st: "migration_start A target stamp stamp' F"
  shows "region F (migration_region A M) (parent target)" and "region F (migration_region A M) (ca_agent_home_root A)"
    and "regional (migration_region A M) F F" and "regional (migration_region A M) F G \<Longrightarrow> unused ''..'' G"
    and "\<not> migration_region A M (target @ q)" and "\<not> migration_region A M (mv_old M @ q)"
proof -
  obtain P s old t where n: "mv_stage M = P @ [s]" "mv_old M = P @ [old]" "mv_target M = P @ [t]" "target = P @ [t]"
    "s \<noteq> t" "old \<noteq> t" "s \<noteq> old" "s \<noteq> ''..''" "old \<noteq> ''..''" "t \<noteq> ''..''" "P \<noteq> []" "P = parent target" "dirs F P"
    by (rule migration_names [OF st, folded M_def])
  let ?B = "ca_agent_home_root A" and ?m = "ca_agent_home_root A @ [''migrations'']"
  have f: "dirs F ?B" "dirs F ?B" "?B \<noteq> []" "unused ''..'' F" "\<not> prefix ?m target" "\<not> prefix target ?m"
      "\<And>q. prefix (P @ [s]) q \<Longrightarrow> node_at F q = None"
      "\<And>q nd. prefix ?m q \<Longrightarrow> node_at F q = Some nd \<Longrightarrow> \<not> is_link_node nd" "\<And>q. prefix (P @ [old]) q \<Longrightarrow> node_at F q = None"
    using st n(1,2) unfolding migration_start_def M_def Let_def by simp_all
  have pt: "parent target = P" using n(12) by (rule sym)
  have "\<not> migration_region A M q" if "prefix q P" for q
  proof -
    have "\<not> prefix (P @ [s]) q" using prefix_length_le [OF that] prefix_length_le [of "P @ [s]" q] by auto
    moreover have "prefix q target" using that n(4) by (auto simp: prefix_def)
    then have "\<not> prefix ?m q" using f(5) prefix_order.trans [of ?m q target] by blast
    ultimately show ?thesis unfolding migration_region_def n(1) by blast
  qed
  then show "region F (migration_region A M) (parent target)" unfolding pt using n(13) by (simp add: region_def)
  have "\<not> migration_region A M q" if "prefix q ?B" for q
  proof -
    have "\<not> prefix ?m q" using prefix_length_le [OF that] prefix_length_le [of ?m q] by auto
    moreover have "\<not> prefix (P @ [s]) q"
    proof
      assume "prefix (P @ [s]) q"
      then have "node_at F ?B = None" using f(7) prefix_order.trans [OF _ that] by blast
      then show False using f(2,3) by (auto simp: dirs_def)
    qed
    ultimately show ?thesis unfolding migration_region_def n(1) by blast
  qed
  then show "region F (migration_region A M) ?B" using f(2) by (simp add: region_def)
  have "\<not> is_link_node nd" if "migration_region A M q" "node_at F q = Some nd" for q nd
    using that f(7) [of q] f(8) [of q] unfolding migration_region_def n(1) by auto
  then show "regional (migration_region A M) F F" unfolding regional_def by blast
  show "unused ''..'' G" if r: "regional (migration_region A M) F G"
    unfolding unused_def
  proof (intro allI impI)
    fix q
    assume "node_at G q \<noteq> None"
    then show "''..'' \<notin> set q"
      using regional_outside [OF r, of q] f(4) by (cases "migration_region A M q") (auto simp: migration_region_def unused_def)
  qed
  have "\<not> prefix (P @ [s]) (target @ q)" using n(4,5) by simp
  moreover have "\<not> prefix ?m (target @ q)" using f(5,6) prefix_same_cases [of ?m "target @ q" target] by auto
  ultimately show "\<not> migration_region A M (target @ q)" unfolding migration_region_def n(1) by blast
  have "\<not> prefix ?m (P @ old # q)"
  proof
    assume "prefix ?m (P @ old # q)"
    then consider "prefix ?m (P @ [old])" | "prefix (P @ [old]) ?m"
      using prefix_same_cases [of ?m "P @ old # q" "P @ [old]"] by auto
    then show False
    proof cases
      case 1
      then have "prefix ?m P \<or> ?m = P @ [old]" by auto
      moreover have "\<not> prefix ?m P" using f(5) n(4) prefix_order.trans [of ?m P target] by auto
      moreover have "old \<noteq> ''migrations''" using n(2) by (auto simp: M_def migration_paths_def)
      ultimately show False by auto
    next
      case 2
      then have "prefix (P @ [old]) ?B \<or> P @ [old] = ?m" by auto
      moreover have "old \<noteq> ''migrations''" using n(2) by (auto simp: M_def migration_paths_def)
      moreover have "node_at F ?B \<noteq> None" using f(2,3) by (auto simp: dirs_def)
      ultimately show False using f(9) by auto
    qed
  qed
  moreover have "\<not> prefix (P @ [s]) (P @ old # q)" using n(7) by simp
  ultimately show "\<not> migration_region A M (mv_old M @ q)" unfolding migration_region_def n(1,2) by simp
qed

lemma migration_places:
  fixes A target stamp stamp'
  defines "M \<equiv> migration_paths A target stamp stamp'"
  assumes st: "migration_start A target stamp stamp' F"
  obtains P s where "mv_stage M = P @ [s]" "region F (migration_region A M) P" "region.wholly F (migration_region A M) P [s]"
    and "mv_backup M = ca_agent_home_root A @ [''migrations'', ''backup'', ''global-omp-runtime'']"
      "region.wholly F (migration_region A M) (ca_agent_home_root A) [''migrations'', ''backup'', ''global-omp-runtime'']"
      "region.inside (migration_region A M) (ca_agent_home_root A) [''migrations'', ''backup'']"
proof -
  obtain P s old t where n: "mv_stage M = P @ [s]" "mv_old M = P @ [old]" "mv_target M = P @ [t]" "target = P @ [t]"
    "s \<noteq> t" "old \<noteq> t" "s \<noteq> old" "s \<noteq> ''..''" "old \<noteq> ''..''" "t \<noteq> ''..''" "P \<noteq> []" "P = parent target" "dirs F P"
    by (rule migration_names [OF st, folded M_def])
  let ?R = "migration_region A M" and ?B = "ca_agent_home_root A" and ?b = "[''migrations'', ''backup'', ''global-omp-runtime'']"
  note R = migration_regions [OF st, folded M_def]
  note r1 = R(1) [folded n(12)]
  have B: "?B \<noteq> []" "dirs F ?B" using st by (simp_all add: migration_start_def Let_def)
  have dots: "''..'' \<notin> set P" "''..'' \<notin> set ?B" using n(13) B(2) by (simp_all add: dirs_def)
  have w: "region.wholly F ?R P [s]"
    unfolding region.wholly_def [OF r1] region.inside_def [OF r1]
    using dots n(8,11) R(4) by (auto simp: migration_region_def n(1) prefix_Cons)
  have R2: "?R (?B @ ''migrations'' # q)" if "''..'' \<notin> set q" for q
    using that dots by (simp add: migration_region_def)
  have in2: "region.inside ?R ?B qs" if qs: "prefix qs ?b" "qs \<noteq> []" for qs
  proof -
    have "''..'' \<notin> set qs" using set_mono_prefix [OF that(1)] by auto
    moreover have "?R (?B @ rs)" if rs: "prefix rs qs" "rs \<noteq> []" for rs
    proof -
      obtain rs' where "rs = ''migrations'' # rs'" "''..'' \<notin> set rs'"
        using prefix_order.trans [OF rs(1) qs(1)] rs(2) set_mono_prefix [of rs ?b] by (cases rs) auto
      then show ?thesis using R2 by simp
    qed
    ultimately show ?thesis unfolding region.inside_def [OF R(2)] using qs(2) by blast
  qed
  have w2: "region.wholly F ?R ?B ?b"
    unfolding region.wholly_def [OF R(2)] using in2 [of ?b] R(4) B(1) R2 by auto
  have bk: "mv_backup M = ?B @ ?b" by (simp add: M_def migration_paths_def migration_backup_root_def)
  have up: "region.inside ?R ?B [''migrations'', ''backup'']" by (rule in2) simp_all
  show thesis by (rule that [OF n(1) r1 w bk w2 up])
qed

lemma build_runtime_regional:
  fixes A target stamp stamp'
  defines "M \<equiv> migration_paths A target stamp stamp'"
  assumes st: "migration_start A target stamp stamp' F" and ok: "plan_ok pl"
  shows "preservesS (regional (migration_region A M) F) (build_runtime H E A rid pl M)"
proof -
  let ?R = "migration_region A M" and ?b = "[''migrations'', ''backup'', ''global-omp-runtime'']"
  note R = migration_regions [OF st, folded M_def]
  obtain P s where n: "mv_stage M = P @ [s]" and r1: "region F ?R P" and w: "region.wholly F ?R P [s]"
    and bk: "mv_backup M = ca_agent_home_root A @ ?b" and w2: "region.wholly F ?R (ca_agent_home_root A) ?b"
    and up: "region.inside ?R (ca_agent_home_root A) [''migrations'', ''backup'']"
    by (rule migration_places [OF st, folded M_def])
  have up': "region.inside ?R (ca_agent_home_root A) (butlast ?b)" using up by simp
  have sums: "\<forall>(label, s) \<in> set (pl_summaries pl). label \<noteq> ''..'' \<and> (\<forall>(relative, _) \<in> set (sm_sessions s). session_ok relative)"
    and sess: "\<forall>(relative, _) \<in> set (pl_sessions pl). session_ok relative"
    using ok unfolding plan_ok_def by blast+
  have i: "region.inside ?R P [s]" using w region.wholly_def [OF r1] by blast
  have im: "region.inside ?R P ([s] @ [''.cap-shared-runtime.json''])" by (rule region.wholly_inside [OF r1 w]) simp
  have ws: "region.wholly F ?R P ([s] @ [''sessions''])" by (rule region.wholly_below [OF r1 w]) simp
  have ic: "region.inside ?R P ([s] @ [''config.yml''])" "region.inside ?R P ([s] @ [''mcp.json''])"
    by (rule region.wholly_inside [OF r1 w]; simp)+
  note steps = region.backup_regional [OF R(2) w2 up' sums] region.copy_runtime_payload_regional [OF r1 w]
    region.write_runtime_config_regional [OF r1 ic(1)] region.write_shared_mcp_policy_regional [OF r1 ic(2)]
    region.copy_merged_sessions_regional [OF r1 ws sess] region.mkdir_new_regional [OF r1 i]
    region.write_text_regional [OF r1 im]
  have c: "preservesS (regional ?R F) (case pl_canonical pl of
         None \<Rightarrow> mkdir_new H (P @ [s]) 448
       | Some c \<Rightarrow> bindS (readS (\<lambda>_. summary_at (pl_summaries pl) c)) (\<lambda>s'. copy_runtime_payload H E (sm_root s') (P @ [s])))"
    by (cases "pl_canonical pl") (simp_all add: preserves_bind steps)
  show ?thesis
    unfolding build_runtime_def bk n append_assoc
    by (intro preserves_bind preserves_return c steps [unfolded append_assoc] steps)
qed

section \<open>The swap\<close>

lemma rename_directory_ok:
  assumes "dirs F P" and "node_at F (P @ [s]) = Some (NDir m)" and "node_at F (P @ [g]) = None" and "s \<noteq> g"
  shows "\<exists>F'. rename_directory (P @ [s]) (P @ [g]) F = (Inr (), F')"
  using assms canonical_resolve [OF dirs_canonical [OF assms(1)]]
  by (simp add: rename_directory_def parent_def name_of_def Let_def)

lemma rename_directory_source:
  assumes "rename_directory (P @ [s]) (P @ [g]) F = (Inr u, F')" and "dirs F P" and "s \<noteq> ''..''"
  shows "dirs F (P @ [s])"
proof -
  have "\<exists>m. node_at F (P @ [s]) = Some (NDir m)"
    using assms(1) canonical_resolve [OF dirs_canonical [OF assms(2)]]
    by (auto simp: rename_directory_def parent_def name_of_def Let_def split: option.splits node.splits if_splits)
  then show ?thesis using dirs_snoc [OF assms(2)] assms(3) by blast
qed

lemma renamed_dirs:
  assumes "rename_directory (P @ [s]) (P @ [g]) F = (Inr u, F')" and "dirs F P" and "s \<noteq> g" "s \<noteq> ''..''" "g \<noteq> ''..''"
  shows "dirs F' (P @ [g])"
proof -
  have s: "dirs F (P @ [s])" by (rule rename_directory_source [OF assms(1,2,4)])
  note at = rename_directory_at [OF assms(2) s assms(3,5,1)]
  have "node_at F' q = node_at F q" if "prefix q P" for q
    using at(2) [of u q] prefix_length_le [OF that] prefix_length_le [of "P @ [s]" q] prefix_length_le [of "P @ [g]" q] by auto
  then have "dirs F' P" using assms(2) by (auto simp: dirs_def)
  moreover obtain m where "node_at F' (P @ [g]) = Some (NDir m)"
    using at(1) [of u "[]"] s by (auto simp: dirs_def)
  ultimately show ?thesis using dirs_snoc assms(5) by blast
qed

text \<open>Moving a directory aside and back restores every entry.\<close>

lemma rename_back:
  assumes r: "rename_directory (P @ [s]) (P @ [g]) F = (Inr u, F1)" and d: "dirs F P"
    and n: "s \<noteq> g" "s \<noteq> ''..''" "g \<noteq> ''..''" and free: "\<And>q. prefix (P @ [g]) q \<Longrightarrow> node_at F q = None"
  shows "\<exists>F2. rename_directory (P @ [g]) (P @ [s]) F1 = (Inr (), F2) \<and> (\<forall>q. node_at F2 q = node_at F q)"
proof -
  note s = rename_directory_source [OF r d n(2)] and g = renamed_dirs [OF r d n]
  note at = rename_directory_at [OF d s n(1,3) r]
  have p: "dirs F1 P" by (rule dirs_prefix [OF g]) simp
  obtain m where "node_at F1 (P @ [g]) = Some (NDir m)" using g by (auto simp: dirs_def)
  moreover have "node_at F1 (P @ [s]) = None" using at(4) [of u] by simp
  ultimately obtain F2 where b: "rename_directory (P @ [g]) (P @ [s]) F1 = (Inr (), F2)"
    using rename_directory_ok [OF p] n(1) by metis
  note again = rename_directory_at [OF p g n(1) [symmetric] n(2) b]
  have "node_at F2 q = node_at F q" for q
  proof (cases "prefix (P @ [s]) q")
    case True
    then obtain y where "q = P @ s # y" by (auto simp: prefix_def)
    then show ?thesis using again(1) [of "()" y] at(1) [of u y] by simp
  next
    case False
    show ?thesis
    proof (cases "prefix (P @ [g]) q")
      case True
      then show ?thesis using again(4) [of "()" q] free by simp
    next
      case False2: False
      then show ?thesis using again(2) [of "()" q] at(2) [of u q] False by simp
    qed
  qed
  then show ?thesis using b by blast
qed

text \<open>An installation that fails has undone itself; one that succeeds has put the stage in place.\<close>

lemma install_runtime_cases:
  assumes M: "mv_stage M = P @ [s]" "mv_old M = P @ [old]" "mv_target M = P @ [t]"
    and n: "s \<noteq> t" "old \<noteq> t" "s \<noteq> old" "s \<noteq> ''..''" "old \<noteq> ''..''" "t \<noteq> ''..''" and d: "dirs F P"
    and free: "\<And>q. prefix (P @ [old]) q \<Longrightarrow> node_at F q = None"
    and i: "install_runtime M F = (r, moved, F')"
  shows "(\<exists>e. r = Inl e \<and> \<not> moved \<and> (\<forall>q. node_at F' q = node_at F q))
    \<or> (r = Inr () \<and> dirs F' (P @ [t]) \<and> (\<forall>q. node_at F' (P @ t # q) = node_at F (P @ s # q)))"
proof -
  have gone: "\<not> exists_at G (P @ [k])" if "dirs G P" "node_at G (P @ [k]) = None" "k \<noteq> ''..''" for G k
    using walk_dirs [of G "[]" P 40 "[k]"] that by (simp add: exists_at_def stat_def resolve_def)
  show ?thesis
  proof (cases "exists_at F (mv_target M)")
    case False
    obtain r1 F1 where rn: "rename_directory (P @ [s]) (P @ [t]) F = (r1, F1)" by (cases "rename_directory (P @ [s]) (P @ [t]) F")
    have sw: "swap_in M False F = (r, moved, F')" using i False by (simp add: install_runtime_def)
    show ?thesis
    proof (cases r1)
      case (Inl e)
      have "F1 = F" using rn Inl by (auto simp: rename_directory_def Let_def split: option.splits node.splits if_splits)
      then show ?thesis using sw rn Inl M by (auto simp: swap_in_def)
    next
      case (Inr u)
      note rn' = rn [unfolded Inr]
      note at = rename_directory_at [OF d rename_directory_source [OF rn' d n(4)] n(1,6) rn']
      have dt: "dirs F1 (P @ [t])" by (rule renamed_dirs [OF rn' d n(1,4,6)])
      have "node_at F1 (P @ [old]) = None" using at(2) [of u "P @ [old]"] free [of "P @ [old]"] n(2,3) by simp
      then have "\<not> exists_at F1 (P @ [old])" using gone dirs_prefix [OF dt, of P] n(5) by simp
      then show ?thesis using sw rn Inr M dt at(1) by (auto simp: swap_in_def)
    qed
  next
    case True
    obtain r1 F1 where rn: "rename_directory (P @ [t]) (P @ [old]) F = (r1, F1)" by (cases "rename_directory (P @ [t]) (P @ [old]) F")
    show ?thesis
    proof (cases r1)
      case (Inl e)
      have "F1 = F" using rn Inl by (auto simp: rename_directory_def Let_def split: option.splits node.splits if_splits)
      then show ?thesis using i True rn Inl M by (auto simp: install_runtime_def)
    next
      case (Inr u)
      note rn' = rn [unfolded Inr]
      note src = rename_directory_source [OF rn' d n(6)]
      note at = rename_directory_at [OF d src n(2) [symmetric] n(5) rn']
      have do: "dirs F1 (P @ [old])" by (rule renamed_dirs [OF rn' d n(2) [symmetric] n(6,5)])
      have dP: "dirs F1 P" by (rule dirs_prefix [OF do]) simp
      have sw: "swap_in M True F1 = (r, moved, F')" using i True rn Inr M by (simp add: install_runtime_def)
      obtain r2 F2 where rn2: "rename_directory (P @ [s]) (P @ [t]) F1 = (r2, F2)" by (cases "rename_directory (P @ [s]) (P @ [t]) F1")
      show ?thesis
      proof (cases r2)
        case (Inl e)
        have "F2 = F1" using rn2 Inl by (auto simp: rename_directory_def Let_def split: option.splits node.splits if_splits)
        moreover obtain F3 where "rename_directory (P @ [old]) (P @ [t]) F1 = (Inr (), F3)" "\<forall>q. node_at F3 q = node_at F q"
          using rename_back [OF rn' d n(2) [symmetric] n(6,5) free] by blast
        ultimately show ?thesis using sw rn2 Inl M by (auto simp: swap_in_def)
      next
        case r2: (Inr v)
        note rn2' = rn2 [unfolded r2]
        note at2 = rename_directory_at [OF dP rename_directory_source [OF rn2' dP n(4)] n(1,6) rn2']
        have dt: "dirs F2 (P @ [t])" by (rule renamed_dirs [OF rn2' dP n(1,4,6)])
        have "node_at F2 (P @ [old]) = node_at F1 (P @ [old])" using at2(2) [of v "P @ [old]"] n(2,3) by simp
        then have d2: "dirs F2 (P @ [old])"
          using do dirs_snoc [OF dirs_prefix [OF dt, of P] _ n(5)] by (auto simp: dirs_def)
        then have ex: "exists_at F2 (P @ [old])"
          using canonical_stat [OF dirs_canonical [OF d2]] by (auto simp: exists_at_def dirs_def)
        have rm: "rmtree (P @ [old]) F2 = (Inr (), remove_tree (P @ [old]) F2)" by (rule rmtree_dirs [OF d2]) simp
        have "r = Inr ()" "F' = remove_tree (P @ [old]) F2" using sw rn2 r2 M ex rm by (auto simp: swap_in_def)
        moreover have "\<not> prefix (P @ [old]) (P @ t # q)" for q using n(2) by auto
        moreover have "\<not> prefix (P @ [old]) q" if "prefix q (P @ [t])" for q
          using that n(2) prefix_order.trans [of "P @ [old]" q "P @ [t]"] by auto
        moreover have "node_at F1 (P @ s # q) = node_at F (P @ s # q)" for q
          using at(2) [of u "P @ s # q"] n(1,3) by simp
        ultimately show ?thesis
          using dt at2(1) by (auto simp: dirs_def remove_tree_at)
      qed
    qed
  qed
qed

section \<open>What a migration leaves\<close>

lemma undo_regional:
  fixes A target stamp stamp'
  defines "M \<equiv> migration_paths A target stamp stamp'"
  assumes st: "migration_start A target stamp stamp' F"
  shows "preservesS (regional (migration_region A M) F) (undo_migration M False)"
proof -
  let ?R = "migration_region A M" and ?b = "[''migrations'', ''backup'', ''global-omp-runtime'']"
  obtain P s where n: "mv_stage M = P @ [s]" and r1: "region F ?R P" and w: "region.wholly F ?R P [s]"
    and bk: "mv_backup M = ca_agent_home_root A @ ?b" and w2: "region.wholly F ?R (ca_agent_home_root A) ?b"
    by (rule migration_places [OF st, folded M_def])
  have none: "preservesS I (whenS (\<lambda>F. False \<and> b F) m)" for I b m by (simp add: preservesS_def whenS_def)
  show ?thesis
    unfolding undo_migration_def n bk
    by (intro preserves_bind preserves_when none region.rmtree_wholly [OF r1 w]
        region.rmtree_wholly [OF migration_regions(2) [OF st, folded M_def] w2])
qed

lemma failed_migration_regional:
  fixes A target stamp stamp'
  defines "M \<equiv> migration_paths A target stamp stamp'"
  assumes st: "migration_start A target stamp stamp' F" and ok: "plan_ok pl"
    and g: "guarded_migration H E A rid pl M F = (Inl e, F')"
  shows "regional (migration_region A M) F F'"
proof -
  let ?R = "migration_region A M"
  obtain P s old t where n: "mv_stage M = P @ [s]" "mv_old M = P @ [old]" "mv_target M = P @ [t]" "target = P @ [t]"
    "s \<noteq> t" "old \<noteq> t" "s \<noteq> old" "s \<noteq> ''..''" "old \<noteq> ''..''" "t \<noteq> ''..''" "P \<noteq> []" "P = parent target" "dirs F P"
    by (rule migration_names [OF st, folded M_def])
  obtain r1 F1 where b: "build_runtime H E A rid pl M F = (r1, F1)" by (cases "build_runtime H E A rid pl M F")
  have reg: "regional ?R F F1"
    using build_runtime_regional [OF st ok, of H E rid, folded M_def] migration_regions(3) [OF st, folded M_def] b
    unfolding preservesS_def by (metis snd_conv)
  have undone: "regional ?R F (snd (undo_migration M False G))" if "regional ?R F G" for G
    using undo_regional [OF st, folded M_def] that unfolding preservesS_def by blast
  show ?thesis
  proof (cases r1)
    case (Inl e1)
    then have "F' = snd (undo_migration M False F1)"
      using g b by (auto simp: guarded_migration_def split: prod.splits sum.splits)
    then show ?thesis using undone [OF reg] by simp
  next
    case (Inr u)
    obtain r2 moved F2 where i: "install_runtime M F1 = (r2, moved, F2)" by (cases "install_runtime M F1")
    have free: "node_at F1 q = None" if q: "prefix (P @ [old]) q" for q
    proof -
      obtain x where x: "q = mv_old M @ x" using q n(2) by (auto simp: prefix_def)
      have "node_at F q = None" using st q n(2) unfolding migration_start_def Let_def M_def by simp
      then show ?thesis using regional_outside [OF reg, of q] migration_regions(6) [OF st, folded M_def] x by simp
    qed
    have dP: "dirs F1 P" by (rule region.dirs_kept [OF migration_regions(1) [OF st, folded M_def n(12)] reg])
    note cases = install_runtime_cases [OF n(1-3) n(5-10) dP free i]
    have "\<not> (\<exists>v. r2 = Inr v)" using g b i Inr by (auto simp: guarded_migration_def)
    then have c: "\<not> moved" "\<forall>q. node_at F2 q = node_at F1 q" and r2: "\<exists>e2. r2 = Inl e2" using cases by auto
    have "regional ?R F F2" using reg c(2) by (simp add: regional_def)
    moreover have "F' = snd (undo_migration M False F2)"
      using g b i Inr r2 c(1) by (auto simp: guarded_migration_def split: prod.splits sum.splits)
    ultimately show ?thesis using undone by simp
  qed
qed

end
