(* ===== verification/MigrateReady.thy ===== *)
theory MigrateReady
  imports MigrateProofs
begin

text \<open>
  A migration that succeeds leaves a runtime the launch accepts: a private directory with the marker
  and the MCP policy the launch looks for.
\<close>

section \<open>The stage that was built\<close>

text \<open>Inside a stage that exists, apart from one entry \<open>k\<close>; \<open>''..''\<close> stands for none.\<close>

definition within :: "path \<Rightarrow> string \<Rightarrow> path \<Rightarrow> bool" where
  "within S k q \<longleftrightarrow> strict_prefix S q \<and> ''..'' \<notin> set q \<and> q \<noteq> S @ [k]"

definition settled :: "path \<Rightarrow> fs \<Rightarrow> bool" where
  "settled S G \<longleftrightarrow> dirs G S \<and> S \<noteq> [] \<and> linkless S G \<and> unused ''..'' G"

lemma settled_region:
  assumes "settled S G"
  shows "region G (within S k) S" and "regional (within S k) G G"
    and "n \<noteq> ''..'' \<Longrightarrow> n \<noteq> k \<Longrightarrow> region.wholly G (within S k) S [n]"
proof -
  have a: "dirs G S" "S \<noteq> []" "linkless S G" "unused ''..'' G" using assms by (simp_all add: settled_def)
  show r: "region G (within S k) S"
    unfolding region_def within_def using a(1) prefix_order.less_le_not_le by blast
  have l: "\<not> is_link_node nd" if "prefix S q" "node_at G q = Some nd" for q nd
    using a(3) that unfolding linkless_def by blast
  then show "regional (within S k) G G" unfolding regional_def within_def strict_prefix_def by blast
  have u: "unused ''..'' K" if "regional (within S k) G K" for K
    unfolding unused_def
  proof (intro allI impI)
    fix q
    assume "node_at K q \<noteq> None"
    then show "''..'' \<notin> set q"
      using regional_outside [OF that, of q] a(4) by (cases "within S k q") (auto simp: within_def unused_def)
  qed
  have d: "''..'' \<notin> set S" using a(1) by (simp add: dirs_def)
  show "region.wholly G (within S k) S [n]" if "n \<noteq> ''..''" "n \<noteq> k"
    unfolding region.wholly_def [OF r] region.inside_def [OF r]
    using that d u a(2) by (auto simp: within_def strict_prefix_def prefix_Cons)
qed

lemma settled_kept:
  assumes "settled S G" and "preservesS (regional (within S k) G) m" and "m G = (r, G')"
  shows "settled S G'" and "\<not> strict_prefix S q \<or> q = S @ [k] \<Longrightarrow> node_at G' q = node_at G q"
proof -
  have reg: "regional (within S k) G G'"
    using assms(2,3) settled_region(2) [OF assms(1)] unfolding preservesS_def by (metis snd_conv)
  show out: "node_at G' q = node_at G q" if "\<not> strict_prefix S q \<or> q = S @ [k]" for q
    using regional_outside [OF reg, of q] that by (auto simp: within_def)
  have a: "dirs G S" "S \<noteq> []" "linkless S G" "unused ''..'' G" using assms(1) by (simp_all add: settled_def)
  have "dirs G' S" by (rule region.dirs_kept [OF settled_region(1) [OF assms(1)] reg])
  moreover have "\<not> is_link_node nd" if "prefix S q" "node_at G' q = Some nd" for q nd
  proof (cases "within S k q")
    case True
    then show ?thesis by (rule regional_no_link [OF reg _ that(2)])
  next
    case False
    then show ?thesis using regional_outside [OF reg False] a(3) that unfolding linkless_def by simp
  qed
  moreover have "unused ''..'' G'"
    unfolding unused_def
  proof (intro allI impI)
    fix q
    assume "node_at G' q \<noteq> None"
    then show "''..'' \<notin> set q"
      using regional_outside [OF reg, of q] a(4) by (cases "within S k q") (auto simp: within_def unused_def)
  qed
  ultimately show "settled S G'" using a(2) unfolding settled_def linkless_def by blast
qed

lemma write_text_result:
  assumes "settled S G" and "n \<noteq> ''..''" and "write_text H (S @ [n]) c G = (Inr u, G')"
  shows "\<exists>m. node_at G' (S @ [n]) = Some (NFile m c)"
proof -
  have w: "region.inside (within S ''..'') S [n]"
    using settled_region(3) [OF assms(1), of n "''..''"] assms(2) region.wholly_def [OF settled_region(1) [OF assms(1)]] by blast
  note res = region.resolved [OF settled_region(1,2) [OF assms(1)] _ disjI2 [OF w]]
    and par = region.parent_resolved [OF settled_region(1,2) [OF assms(1)] w]
  show ?thesis
    using assms(3) by (auto simp: write_text_def dest: res par split: option.splits node.splits bool.splits if_splits)
qed

lemma chmod_result:
  assumes "settled S G" and "n \<noteq> ''..''" and "chmod (S @ [n]) mode G = (Inr u, G')" and "node_at G (S @ [n]) = Some (NFile m c)"
  shows "\<exists>m. node_at G' (S @ [n]) = Some (NFile m c)"
proof -
  have w: "region.inside (within S ''..'') S [n]"
    using settled_region(3) [OF assms(1), of n "''..''"] assms(2) region.wholly_def [OF settled_region(1) [OF assms(1)]] by blast
  note res = region.resolved [OF settled_region(1,2) [OF assms(1)] _ disjI2 [OF w]]
  show ?thesis
    using assms(3,4) by (auto simp: chmod_def chmod_node_def dest: res split: option.splits)
qed

lemma write_private_result:
  assumes "settled S G" and "n \<noteq> ''..''" and "write_private H (S @ [n]) c G = (Inr u, G')"
  shows "\<exists>m. node_at G' (S @ [n]) = Some (NFile m c)" and "settled S G'"
proof -
  have w: "region.inside (within S ''..'') S [n]"
    using settled_region(3) [OF assms(1), of n "''..''"] assms(2) region.wholly_def [OF settled_region(1) [OF assms(1)]] by blast
  obtain G1 where s: "write_text H (S @ [n]) c G = (Inr (), G1)" "chmod (S @ [n]) 384 G1 = (Inr (), G')"
    using assms(3) by (auto simp: write_private_def bindS_Inr)
  obtain m where m: "node_at G1 (S @ [n]) = Some (NFile m c)" using write_text_result [OF assms(1,2) s(1)] by blast
  have "settled S G1"
    by (rule settled_kept(1) [OF assms(1) region.write_text_regional [OF settled_region(1) [OF assms(1)] w] s(1)])
  then show "\<exists>m. node_at G' (S @ [n]) = Some (NFile m c)" by (rule chmod_result [OF _ assms(2) s(2) m])
  show "settled S G'"
    by (rule settled_kept(1) [OF assms(1) region.write_private_regional [OF settled_region(1) [OF assms(1)] w] assms(3)])
qed

text \<open>The directory of the stage as it was created.\<close>

definition private_dir :: "host \<Rightarrow> fs \<Rightarrow> path \<Rightarrow> bool" where
  "private_dir H G S \<longleftrightarrow> (\<exists>m. node_at G S = Some (NDir m) \<and> st_mode m = 448 \<and> (\<forall>u. geteuid H = Some u \<longrightarrow> st_uid m = u))"

lemma mkdir_new_result:
  assumes "mkdir_new H (P @ [s]) 448 G = (Inr u, G')" and "dirs G P" and "s \<noteq> ''..''" and "linkless (P @ [s]) G" and "unused ''..'' G"
  shows "settled (P @ [s]) G'" and "private_dir H G' (P @ [s])"
proof -
  have G': "G' = put_dir H (P @ [s]) 448 G"
    using assms(1) canonical_resolve [OF dirs_canonical [OF assms(2)]]
    by (auto simp: mkdir_new_def parent_def name_of_def split: if_splits)
  have "dirs G' P" using assms(2) G' dirs_put_dir by simp
  then have "dirs G' (P @ [s])" by (rule dirs_snoc [where m = "new_meta H G 448"]) (use G' assms(3) in simp_all)
  moreover have "\<not> is_link_node nd" if "prefix (P @ [s]) q" "node_at G' q = Some nd" for q nd
    using that assms(4) G' unfolding linkless_def by (cases "q = P @ [s]") auto
  moreover have "''..'' \<notin> set P" using assms(2) by (simp add: dirs_def)
  then have "unused ''..'' G'" using assms(3,5) G' by (auto simp: unused_def)
  ultimately show "settled (P @ [s]) G'" unfolding settled_def linkless_def by blast
  show "private_dir H G' (P @ [s])" using G' by (simp add: private_dir_def new_meta_def)
qed

lemma settled_private: "settled S G \<Longrightarrow> preservesS (regional (within S k) G) m \<Longrightarrow> m G = (r, G') \<Longrightarrow> private_dir H G S \<Longrightarrow> private_dir H G' S"
  using settled_kept(2) [of S G k m r G' S] by (simp add: private_dir_def)

lemma copy_runtime_payload_result:
  assumes "copy_runtime_payload H E source (P @ [s]) G = (Inr u, G')" and "dirs G P" and "s \<noteq> ''..''"
    and "linkless (P @ [s]) G" and "unused ''..'' G"
  shows "settled (P @ [s]) G'" and "private_dir H G' (P @ [s])"
proof -
  let ?S = "P @ [s]"
  obtain G1 names where s: "mkdir_new H ?S 448 G = (Inr (), G1)" "iterdir G1 source = Inr names"
      "forS (copy_payload_entry H E source ?S) (sort names) G1 = (Inr (), G')"
    using assms(1) by (auto simp: copy_runtime_payload_def bindS_Inr bindE_Inr)
  note mk = mkdir_new_result [OF s(1) assms(2-5)]
  note r = settled_region [OF mk(1), where k = "''..''"]
  have "unused ''..'' G1" using mk(1) by (simp add: settled_def)
  have "preservesS (regional (within ?S ''..'') G1) (copy_payload_entry H E source (?S @ []) n)" if "n \<in> set (sort names)" for n
  proof (rule region.copy_payload_entry_regional [OF r(1)])
    have "n \<noteq> ''..''" by (rule iterdir_names [OF s(2) \<open>unused ''..'' G1\<close>]) (use that in simp)
    then show "region.wholly G1 (within ?S ''..'') ?S ([] @ [n])" using r(3) by simp
  qed
  then have p: "preservesS (regional (within ?S ''..'') G1) (forS (copy_payload_entry H E source ?S) (sort names))"
    by (intro preserves_for) simp
  show "settled ?S G'" "private_dir H G' ?S"
    using settled_kept(1) [OF mk(1) p s(3)] settled_private [OF mk(1) p s(3) mk(2)] .
qed

lemma inside_single:
  assumes "settled S G" and "n \<noteq> ''..''" and "n \<noteq> k"
  shows "region.inside (within S k) S [n]"
  using settled_region(3) [OF assms] region.wholly_def [OF settled_region(1) [OF assms(1)]] by blast

text \<open>What \<open>build_runtime\<close> leaves at the stage: a private directory, the marker and the MCP policy.\<close>

definition stage_files :: "host \<Rightarrow> string \<Rightarrow> plan \<Rightarrow> fs \<Rightarrow> path \<Rightarrow> bool" where
  "stage_files H rid pl G S \<longleftrightarrow> private_dir H G S
     \<and> (\<exists>m. node_at G (S @ [''mcp.json'']) = Some (NFile m (spaced_json mcp_policy @ [CHR 0x0A])))
     \<and> (\<exists>m. node_at G (S @ [''.cap-shared-runtime.json'']) = Some (NFile m (spaced_json (migration_marker H rid pl) @ [CHR 0x0A])))"

lemma built_stage:
  fixes A target stamp stamp'
  defines "M \<equiv> migration_paths A target stamp stamp'"
  assumes st: "migration_start A target stamp stamp' F" and ok: "plan_ok pl"
    and b: "build_runtime H E A rid pl M F = (Inr u, F1)"
  shows "stage_files H rid pl F1 (mv_stage M)"
proof -
  let ?R = "migration_region A M"
  obtain P s old t where n: "mv_stage M = P @ [s]" "mv_old M = P @ [old]" "mv_target M = P @ [t]" "target = P @ [t]"
    "s \<noteq> t" "old \<noteq> t" "s \<noteq> old" "s \<noteq> ''..''" "old \<noteq> ''..''" "t \<noteq> ''..''" "P \<noteq> []" "P = parent target" "dirs F P"
    by (rule migration_names [OF st, folded M_def])
  obtain P' s' where pl': "mv_stage M = P' @ [s']" and r1: "region F ?R P'" and w: "region.wholly F ?R P' [s']"
    and bk: "mv_backup M = ca_agent_home_root A @ [''migrations'', ''backup'', ''global-omp-runtime'']"
    and w2: "region.wholly F ?R (ca_agent_home_root A) [''migrations'', ''backup'', ''global-omp-runtime'']"
    and up: "region.inside ?R (ca_agent_home_root A) [''migrations'', ''backup'']"
    by (rule migration_places [OF st, folded M_def])
  let ?S = "P @ [s]"
  obtain F2 F3 F4 F5 F6 F7 where steps: "backup_legacy_runtime H E (pl_summaries pl) (mv_backup M) F = (Inr (), F2)"
      "(case pl_canonical pl of None \<Rightarrow> mkdir_new H ?S 448
        | Some c \<Rightarrow> bindS (readS (\<lambda>_. summary_at (pl_summaries pl) c)) (\<lambda>s. copy_runtime_payload H E (sm_root s) ?S)) F2 = (Inr (), F3)"
      "write_runtime_config H E ?S (pl_config pl) F3 = (Inr (), F4)"
      "write_shared_mcp_policy H ?S F4 = (Inr (), F5)"
      "copy_merged_sessions H (pl_summaries pl) (pl_sessions pl) ?S F5 = (Inr (), F6)"
      "write_text H (?S @ [''.cap-shared-runtime.json'']) (spaced_json (migration_marker H rid pl) @ [CHR 0x0A]) F6 = (Inr (), F7)"
      "F1 = F7"
    using b unfolding build_runtime_def n(1) by (elim bindS_E) (auto simp: bindE_Inr)
  have "preservesS (regional ?R F) (backup_legacy_runtime H E (pl_summaries pl) (mv_backup M))"
    unfolding bk using region.backup_regional [OF migration_regions(2) [OF st, folded M_def] w2] up ok by (simp add: plan_ok_def)
  then have reg: "regional ?R F F2"
    using migration_regions(3) [OF st, folded M_def] steps(1) unfolding preservesS_def by (metis snd_conv)
  have d2: "dirs F2 P" by (rule region.dirs_kept [OF migration_regions(1) [OF st, folded M_def n(12)] reg])
  have u2: "unused ''..'' F2" by (rule migration_regions(4) [OF st, folded M_def, OF reg])
  have l2: "linkless ?S F2"
    unfolding linkless_def
  proof (intro allI impI)
    fix q nd
    assume q: "prefix ?S q" "node_at F2 q = Some nd"
    then have "?R q" using u2 n(1) by (auto simp: migration_region_def unused_def)
    then show "\<not> is_link_node nd" using regional_no_link [OF reg] q(2) by blast
  qed
  have 3: "settled ?S F3" "private_dir H F3 ?S"
    using steps(2) mkdir_new_result [OF _ d2 n(8) l2 u2] copy_runtime_payload_result [OF _ d2 n(8) l2 u2]
    by (cases "pl_canonical pl"; auto simp: bindS_Inr)+
  have c: "preservesS (regional (within ?S ''..'') F3) (write_runtime_config H E ?S (pl_config pl))"
    unfolding write_runtime_config_def
    by (intro region.write_private_regional [OF settled_region(1) [OF 3(1)]] inside_single [OF 3(1)]) simp_all
  note 4 = settled_kept(1) [OF 3(1) c steps(3)] settled_private [OF 3(1) c steps(3) 3(2)]
  have mp: "preservesS (regional (within ?S ''..'') F4) (write_shared_mcp_policy H ?S)"
    unfolding write_shared_mcp_policy_def
    by (intro region.write_private_regional [OF settled_region(1) [OF 4(1)]] inside_single [OF 4(1)]) simp_all
  note 5 = settled_kept(1) [OF 4(1) mp steps(4)] settled_private [OF 4(1) mp steps(4) 4(2)]
  obtain m5 where m5: "node_at F5 (?S @ [''mcp.json'']) = Some (NFile m5 (spaced_json mcp_policy @ [CHR 0x0A]))"
    using write_private_result(1) [OF 4(1) _ steps(4) [unfolded write_shared_mcp_policy_def]] by auto
  have ss: "preservesS (regional (within ?S ''mcp.json'') F5) (copy_merged_sessions H (pl_summaries pl) (pl_sessions pl) (?S @ []))"
    by (rule region.copy_merged_sessions_regional [OF settled_region(1) [OF 5(1)]])
       (use settled_region(3) [OF 5(1)] ok in \<open>simp_all add: plan_ok_def\<close>)
  note ss = ss [unfolded append_Nil2]
  note 6 = settled_kept(1) [OF 5(1) ss steps(5)] settled_private [OF 5(1) ss steps(5) 5(2)]
  have mk: "preservesS (regional (within ?S ''mcp.json'') F6)
      (write_text H (?S @ [''.cap-shared-runtime.json'']) (spaced_json (migration_marker H rid pl) @ [CHR 0x0A]))"
    by (intro region.write_text_regional [OF settled_region(1) [OF 6(1)]] inside_single [OF 6(1)]) simp_all
  have "node_at F7 (?S @ [''mcp.json'']) = Some (NFile m5 (spaced_json mcp_policy @ [CHR 0x0A]))"
    using settled_kept(2) [OF 6(1) mk steps(6), of "?S @ [''mcp.json'']"] settled_kept(2) [OF 5(1) ss steps(5), of "?S @ [''mcp.json'']"] m5
    by simp
  moreover have "\<exists>m. node_at F7 (?S @ [''.cap-shared-runtime.json'']) = Some (NFile m (spaced_json (migration_marker H rid pl) @ [CHR 0x0A]))"
    by (rule write_text_result [OF 6(1) _ steps(6)]) simp
  ultimately show ?thesis
    using settled_private [OF 6(1) mk steps(6) 6(2)] unfolding stage_files_def n(1) steps(7) by blast
qed

section \<open>Ready to launch\<close>

lemma managed_walk_ok: "dirs F (cur @ ps) \<Longrightarrow> managed_walk F allow_missing cur ps = Inr ()"
proof (induction ps arbitrary: cur)
  case (Cons p ps)
  have d: "dirs F (cur @ [p])" by (rule dirs_prefix [OF Cons.prems]) (simp add: prefix_def)
  then obtain m where m: "node_at F (cur @ [p]) = Some (NDir m)" and "p \<noteq> ''..''" by (auto simp: dirs_def)
  then have "lstat F (cur @ [p]) = Some (NDir m)" using lstat_dirs [OF dirs_prefix [OF d, of cur]] by simp
  moreover have "exists_at F (cur @ [p])" using m canonical_stat [OF dirs_canonical [OF d]] by (simp add: exists_at_def)
  ultimately show ?case using Cons.IH [of "cur @ [p]"] Cons.prems by (simp add: Let_def)
qed simp

lemma link_free_walk_ok: "dirs F (cur @ ps) \<Longrightarrow> link_free_walk F cur ps = Inr ()"
proof (induction ps arbitrary: cur)
  case (Cons p ps)
  have d: "dirs F (cur @ [p])" by (rule dirs_prefix [OF Cons.prems]) (simp add: prefix_def)
  then obtain m where m: "node_at F (cur @ [p]) = Some (NDir m)" and "p \<noteq> ''..''" by (auto simp: dirs_def)
  then have "lstat F (cur @ [p]) = Some (NDir m)" using lstat_dirs [OF dirs_prefix [OF d, of cur]] by simp
  then show ?case using Cons.IH [of "cur @ [p]"] Cons.prems by simp
qed simp

lemma read_manifest_at:
  assumes "dirs F d" and "node_at F (d @ [n]) = Some (NFile m (spaced_json v @ [CHR 0x0A]))" and "n \<noteq> ''..''"
    and "plain v" and "texts_utf8 v"
  shows "read_json F (d @ [n]) = Inr (canon v)" and "is_file F (d @ [n])"
proof -
  have c: "canonical F (d @ [n])" by (rule canonical_snoc [OF assms(1,2)]) (simp_all add: assms(3))
  show "read_json F (d @ [n]) = Inr (canon v)" by (rule read_manifest [OF c assms(2,4,5)])
  show "is_file F (d @ [n])" using canonical_stat [OF c] assms(2) by (simp add: is_file_node_eq)
qed

lemma mcp_policy_plain: "plain mcp_policy" "texts_utf8 mcp_policy"
  by (code_simp)+

lemma marker_fields:
  assumes "plain (migration_marker H rid pl)"
  obtains m where "canon (migration_marker H rid pl) = VDict m" and "get m ''version'' = VInt 2"
    and "get m ''runtime_id'' = VStr rid" and "get m ''migration_complete'' = VBool True"
proof -
  obtain d where d: "migration_marker H rid pl = VDict d" by (simp add: migration_marker_def)
  have k: "distinct (keys d)" using assms d by simp
  have g: "get d ''version'' = VInt 2" "get d ''runtime_id'' = VStr rid" "get d ''migration_complete'' = VBool True"
    using d by (auto simp: migration_marker_def get_def)
  obtain m where m: "canon (VDict d) = VDict m" by simp
  have "get m j = canon (get d j)" for j
    using get_canon [OF k, of j] m by (simp only: m doc_get_def as_dict.simps someE_simps bindE_simps sum.inject)
  then show thesis using that [of m] d m g by simp
qed

lemma stage_files_ready:
  assumes h: "agent_home_dir A = Inr target" and d: "dirs F target" and f: "stage_files H (ca_runtime_id A) pl F target"
    and p: "plain (migration_marker H (ca_runtime_id A) pl)" "texts_utf8 (migration_marker H (ca_runtime_id A) pl)"
  shows "require_shared_runtime_ready H F A = Inr ()"
proof -
  note t = agent_home_dir_Inr [OF h]
  let ?rel = "[''.agent-system-state'', ''runtimes'', ''omp'', ca_runtime_id A]"
  obtain m where m: "node_at F target = Some (NDir m)" "st_mode m = 448" "\<And>u. geteuid H = Some u \<Longrightarrow> st_uid m = u"
    using f by (auto simp: stage_files_def private_dir_def)
  obtain mm mk where pol: "node_at F (target @ [''mcp.json'']) = Some (NFile mm (spaced_json mcp_policy @ [CHR 0x0A]))"
    and mark: "node_at F (target @ [''.cap-shared-runtime.json'']) = Some (NFile mk (spaced_json (migration_marker H (ca_runtime_id A) pl) @ [CHR 0x0A]))"
    using f by (auto simp: stage_files_def)
  note rp = read_manifest_at [OF d pol _ mcp_policy_plain] and rm = read_manifest_at [OF d mark _ p]
  have st: "stat F target = Some (NDir m)" using canonical_stat [OF dirs_canonical [OF d]] m(1) by simp
  have man: "assert_managed_path F (ca_real_home A) target False = Inr target"
    using managed_walk_ok [of F "ca_real_home A" ?rel False] d
    by (simp add: assert_managed_path_def relative_to_def t(1))
  have lf: "link_free_walk F (ca_real_home A) ?rel = Inr ()"
    by (rule link_free_walk_ok) (use d t(1) in simp)
  have rt: "relative_to (ca_real_home A) target = Some ?rel" by (simp add: relative_to_def t(1))
  have priv: "validate_private_runtime H F target (ca_real_home A) = Inr ()"
    using lf by (cases "geteuid H") (simp_all add: validate_private_runtime_def st m rt del: link_free_walk.simps)
  obtain dm where dm: "canon (migration_marker H (ca_runtime_id A) pl) = VDict dm" "get dm ''version'' = VInt 2"
      "get dm ''runtime_id'' = VStr (ca_runtime_id A)" "get dm ''migration_complete'' = VBool True"
    by (rule marker_fields [OF p(1)])
  have "read_json F (target @ [''.cap-shared-runtime.json'']) = Inr (VDict dm)" "is_file F (target @ [''.cap-shared-runtime.json''])"
    using rm dm(1) by simp_all
  moreover have "validate_shared_mcp_policy F target = Inr ()"
    using rp(1) by (simp add: validate_shared_mcp_policy_def)
  ultimately show ?thesis
    using st man priv dm(2-4) t(3) h
    by (simp add: require_shared_runtime_ready_def shared_runtime_marker_def is_dir_node_eq read_marker_def marker_matches_def)
qed

lemma migrated_ready:
  fixes A target stamp stamp'
  defines "M \<equiv> migration_paths A target stamp stamp'"
  assumes st: "migration_start A target stamp stamp' F" and ok: "plan_ok pl"
    and g: "guarded_migration H E A (ca_runtime_id A) pl M F = (Inr u, F')"
    and p: "plain (migration_marker H (ca_runtime_id A) pl)" "texts_utf8 (migration_marker H (ca_runtime_id A) pl)"
  shows "require_shared_runtime_ready H F' A = Inr ()"
proof -
  let ?R = "migration_region A M"
  obtain P s old t where n: "mv_stage M = P @ [s]" "mv_old M = P @ [old]" "mv_target M = P @ [t]" "target = P @ [t]"
    "s \<noteq> t" "old \<noteq> t" "s \<noteq> old" "s \<noteq> ''..''" "old \<noteq> ''..''" "t \<noteq> ''..''" "P \<noteq> []" "P = parent target" "dirs F P"
    by (rule migration_names [OF st, folded M_def])
  obtain F1 where b: "build_runtime H E A (ca_runtime_id A) pl M F = (Inr (), F1)"
    using g by (auto simp: guarded_migration_def split: prod.splits sum.splits)
  obtain r2 moved F2 where i: "install_runtime M F1 = (r2, moved, F2)" by (cases "install_runtime M F1")
  have r2: "r2 = Inr ()" "F' = F2" using g b i by (auto simp: guarded_migration_def split: prod.splits sum.splits)
  have reg: "regional ?R F F1"
    using build_runtime_regional [OF st ok, of H E "ca_runtime_id A", folded M_def] migration_regions(3) [OF st, folded M_def] b
    unfolding preservesS_def by (metis snd_conv)
  have free: "node_at F1 q = None" if q: "prefix (P @ [old]) q" for q
  proof -
    obtain x where x: "q = mv_old M @ x" using q n(2) by (auto simp: prefix_def)
    have "node_at F q = None" using st q n(2) unfolding migration_start_def Let_def M_def by simp
    then show ?thesis using regional_outside [OF reg, of q] migration_regions(6) [OF st, folded M_def] x by simp
  qed
  have dP: "dirs F1 P" by (rule region.dirs_kept [OF migration_regions(1) [OF st, folded M_def n(12)] reg])
  have c: "dirs F' target" "\<And>q. node_at F' (target @ q) = node_at F1 (mv_stage M @ q)"
    using install_runtime_cases [OF n(1-3) n(5-10) dP free i] r2 n(1,4) by auto
  have "stage_files H (ca_runtime_id A) pl F1 (mv_stage M)" using built_stage [OF st ok] b unfolding M_def by simp
  then have "stage_files H (ca_runtime_id A) pl F' target"
    using c(2) [of "[]"] c(2) by (simp add: stage_files_def private_dir_def)
  moreover have "agent_home_dir A = Inr target" using st by (simp add: migration_start_def Let_def)
  ultimately show ?thesis using stage_files_ready c(1) p by blast
qed

text \<open>Where the user has no runtime yet, a runtime that could be built is installed.\<close>

lemma built_runtime_installs:
  fixes A target stamp stamp'
  defines "M \<equiv> migration_paths A target stamp stamp'"
  assumes st: "migration_start A target stamp stamp' F" and ok: "plan_ok pl"
    and b: "build_runtime H E A rid pl M F = (Inr u, F1)" and new: "node_at F target = None"
  shows "\<exists>F'. guarded_migration H E A rid pl M F = (Inr (), F')"
proof -
  let ?R = "migration_region A M"
  obtain P s old t where n: "mv_stage M = P @ [s]" "mv_old M = P @ [old]" "mv_target M = P @ [t]" "target = P @ [t]"
    "s \<noteq> t" "old \<noteq> t" "s \<noteq> old" "s \<noteq> ''..''" "old \<noteq> ''..''" "t \<noteq> ''..''" "P \<noteq> []" "P = parent target" "dirs F P"
    by (rule migration_names [OF st, folded M_def])
  have reg: "regional ?R F F1"
    using build_runtime_regional [OF st ok, of H E rid, folded M_def] migration_regions(3) [OF st, folded M_def] b
    unfolding preservesS_def by (metis snd_conv)
  have gone: "\<not> exists_at G (P @ [k])" if "dirs G P" "node_at G (P @ [k]) = None" "k \<noteq> ''..''" for G k
    using walk_dirs [of G "[]" P 40 "[k]"] that by (simp add: exists_at_def stat_def resolve_def)
  have dP: "dirs F1 P" by (rule region.dirs_kept [OF migration_regions(1) [OF st, folded M_def n(12)] reg])
  obtain m where m: "node_at F1 (P @ [s]) = Some (NDir m)"
    using built_stage [OF st ok b [unfolded M_def]] n(1) unfolding M_def by (auto simp: stage_files_def private_dir_def)
  have t: "node_at F1 (P @ [t]) = None"
    using regional_outside [OF reg migration_regions(5) [OF st, folded M_def, of "[]"]] new n(4) by simp
  have "mv_old M @ [] = P @ [old]" using n(2) by simp
  then have ol: "node_at F1 (P @ [old]) = None"
    using regional_outside [OF reg migration_regions(6) [OF st, folded M_def, of "[]"]] st n(2)
    unfolding migration_start_def Let_def M_def by simp
  obtain F2 where r: "rename_directory (P @ [s]) (P @ [t]) F1 = (Inr (), F2)"
    using rename_directory_ok [OF dP m t n(5)] by blast
  note s = rename_directory_source [OF r dP n(8)]
  have "dirs F2 P" by (rule dirs_prefix [OF renamed_dirs [OF r dP n(5) n(8) n(10)]]) simp
  moreover have "node_at F2 (P @ [old]) = None"
    using rename_directory_at(2) [OF dP s n(5,10) r, of "()" "P @ [old]"] n(6,7) ol by simp
  ultimately have "\<not> exists_at F2 (mv_old M)" using gone n(2,9) by simp
  then show ?thesis
    using b gone [OF dP t n(10)] r n(1,3) by (simp add: guarded_migration_def install_runtime_def swap_in_def)
qed

end
