(* ===== verification/TreeDigest.thy ===== *)
theory TreeDigest
  imports Generations
begin

text \<open>
  What the digest of a tree distinguishes: the hashed stream determines the tree as long as no file
  holds a NUL byte, and does not determine it otherwise.
\<close>

section \<open>Parsing the stream back\<close>

text \<open>A file system entry as the digest sees it: a directory, or a file with its content.\<close>

datatype seen = Directory | Content string

fun seen_node :: "node \<Rightarrow> seen option" where
  "seen_node (NDir m) = Some Directory"
| "seen_node (NFile m c) = Some (Content c)"
| "seen_node _ = None"

definition seen_at :: "fs \<Rightarrow> path \<Rightarrow> path \<Rightarrow> seen option" where
  "seen_at F d q = Option.bind (node_at F (d @ q)) seen_node"

abbreviation NUL :: char where "NUL \<equiv> CHR 0x00"

fun chunk :: "string \<times> seen \<Rightarrow> string" where
  "chunk (n, Directory) = n @ [NUL] @ ''d'' @ [NUL]"
| "chunk (n, Content c) = n @ [NUL] @ ''f'' @ [NUL] @ c @ [NUL]"

text \<open>A name is a non-empty path component, and neither names nor contents hold a NUL byte.\<close>

definition plain_name :: "string \<Rightarrow> bool" where
  "plain_name n \<longleftrightarrow> n \<noteq> [] \<and> CHR ''/'' \<notin> set n \<and> NUL \<notin> set n"

definition plain_entries :: "fs \<Rightarrow> path \<Rightarrow> bool" where
  "plain_entries F d \<longleftrightarrow> (\<forall>q m c. q \<noteq> [] \<longrightarrow> node_at F (d @ q) \<noteq> None \<longrightarrow> list_all plain_name q
     \<and> (node_at F (d @ q) = Some (NFile m c) \<longrightarrow> NUL \<notin> set c))"

fun chunk_ok :: "string \<times> seen \<Rightarrow> bool" where
  "chunk_ok (n, Directory) = (NUL \<notin> set n)"
| "chunk_ok (n, Content c) = (NUL \<notin> set n \<and> NUL \<notin> set c)"

lemma upto_mark: "a @ [x] @ r = b @ [x] @ s \<Longrightarrow> x \<notin> set a \<Longrightarrow> x \<notin> set b \<Longrightarrow> a = b \<and> r = s"
  by (induction a arbitrary: b) (case_tac b; force)+

lemma chunk_split:
  assumes "chunk x @ r = chunk y @ s" and "chunk_ok x" and "chunk_ok y"
  shows "x = y \<and> r = s"
proof -
  obtain n k m j where x: "x = (n, k)" and y: "y = (m, j)" by (cases x, cases y)
  define tl where "tl k = (case k of Directory \<Rightarrow> ''d'' @ [NUL] | Content c \<Rightarrow> ''f'' @ [NUL] @ c @ [NUL])" for k
  have shape: "chunk (n, k) = n @ [NUL] @ tl k" for n k by (cases k) (simp_all add: tl_def)
  have names: "NUL \<notin> set n" "NUL \<notin> set m" using assms(2,3) x y by (cases k; cases j; simp)+
  have "n @ [NUL] @ (tl k @ r) = m @ [NUL] @ (tl j @ s)" using assms(1) by (simp only: x y shape append_assoc)
  then have nm: "n = m \<and> tl k @ r = tl j @ s" by (rule upto_mark [OF _ names])
  have "k = j \<and> r = s"
  proof (cases k)
    case Directory
    then show ?thesis using nm by (cases j) (simp_all add: tl_def)
  next
    case (Content c)
    then obtain b where b: "j = Content b" using nm by (cases j) (simp_all add: tl_def)
    then have "c @ [NUL] @ r = b @ [NUL] @ s" using nm Content by (simp add: tl_def)
    then show ?thesis using upto_mark [of c NUL r b s] assms(2,3) x y Content b by simp
  qed
  then show ?thesis using nm x y by simp
qed

lemma chunks_inj:
  "concat (map chunk xs) = concat (map chunk ys) \<Longrightarrow> list_all chunk_ok xs \<Longrightarrow> list_all chunk_ok ys \<Longrightarrow> xs = ys"
proof (induction xs arbitrary: ys)
  case Nil
  then show ?case
  proof (cases ys)
    case (Cons y zs)
    have "chunk y \<noteq> []" by (cases y rule: chunk.cases) simp_all
    then show ?thesis using Nil Cons by simp
  qed simp
next
  case (Cons x xs)
  have "chunk x \<noteq> []" by (cases x rule: chunk.cases) simp_all
  then obtain y zs where ys: "ys = y # zs" using Cons.prems(1) by (cases ys) auto
  have "chunk x @ concat (map chunk xs) = chunk y @ concat (map chunk zs)" using Cons.prems(1) ys by simp
  then have "x = y \<and> concat (map chunk xs) = concat (map chunk zs)"
    by (rule chunk_split) (use Cons.prems ys in simp_all)
  then show ?case using Cons.IH [of zs] Cons.prems ys by simp
qed

section \<open>Names\<close>

lemma split_join_names: "ws \<noteq> [] \<Longrightarrow> list_all plain_name ws \<Longrightarrow> split_on CHR ''/'' (join ''/'' ws) = ws"
  by (rule split_on_join) (auto simp: plain_name_def list_all_iff)

lemma posix_inj:
  assumes "p \<noteq> []" "q \<noteq> []" "list_all plain_name p" "list_all plain_name q" "posix p = posix q"
  shows "p = q"
proof -
  have e: "join ''/'' p = join ''/'' q" using assms(1,2,5) unfolding posix_def by (simp only: if_False)
  have "p = split_on CHR ''/'' (join ''/'' p)" by (rule split_join_names [OF assms(1,3), symmetric])
  also have "\<dots> = q" unfolding e by (rule split_join_names [OF assms(2,4)])
  finally show ?thesis .
qed

lemma posix_no_nul: "p \<noteq> [] \<Longrightarrow> list_all plain_name p \<Longrightarrow> NUL \<notin> set (posix p)"
  using no_cr_join [of NUL "''/''" p] by (auto simp: posix_def list_all_iff plain_name_def)

section \<open>The stream determines the tree\<close>

lemma entry_chunk:
  "entry_stream F d q = Inr s \<longleftrightarrow> (\<exists>k m c. seen_at F d q = Some k \<and> s = chunk (posix q, k)
     \<and> (node_at F (d @ q) = Some (NDir m) \<or> node_at F (d @ q) = Some (NFile m c) \<and> st_nlink m = 1))"
  by (auto simp: entry_stream_def seen_at_def split: option.splits node.splits if_splits)

lemma entry_chunk_seen:
  "entry_stream F d q = Inr s \<Longrightarrow> seen_at F d q \<noteq> None \<and> s = chunk (posix q, the (seen_at F d q))"
  by (auto simp: entry_chunk)

definition seen_list :: "fs \<Rightarrow> path \<Rightarrow> (string \<times> seen) list" where
  "seen_list F d = map (\<lambda>q. (posix q, the (seen_at F d q))) (tree_entries F d [])"

lemma tree_stream_chunks:
  assumes "tree_stream F r [] = Inr s" and "resolve F r = Some d"
  shows "s = concat (map chunk (seen_list F d))" and "\<forall>q \<in> set (tree_entries F d []). seen_at F d q \<noteq> None"
proof -
  obtain ss where ss: "mapE (entry_stream F d) (tree_entries F d []) = Inr ss" "s = concat ss"
    using assms by (auto simp: tree_stream_def bindE_Inr)
  have "mapE f qs = Inr ss \<Longrightarrow> (\<And>q s. f q = Inr s \<Longrightarrow> seen_at F d q \<noteq> None \<and> s = chunk (posix q, the (seen_at F d q))) \<Longrightarrow>
      ss = map (\<lambda>q. chunk (posix q, the (seen_at F d q))) qs \<and> (\<forall>q \<in> set qs. seen_at F d q \<noteq> None)" for f qs
    by (induction qs arbitrary: ss) (auto simp: bindE_Inr)
  from this [OF ss(1)]
  have "ss = map (\<lambda>q. chunk (posix q, the (seen_at F d q))) (tree_entries F d []) \<and> (\<forall>q \<in> set (tree_entries F d []). seen_at F d q \<noteq> None)"
    by (meson entry_chunk_seen)
  then have "ss = map chunk (seen_list F d) \<and> (\<forall>q \<in> set (tree_entries F d []). seen_at F d q \<noteq> None)"
    by (simp add: seen_list_def comp_def)
  then show "s = concat (map chunk (seen_list F d))" "\<forall>q \<in> set (tree_entries F d []). seen_at F d q \<noteq> None"
    using ss(2) by simp_all
qed

lemma seen_list_ok:
  assumes "plain_entries F d" and "\<forall>q \<in> set (tree_entries F d []). seen_at F d q \<noteq> None"
  shows "list_all chunk_ok (seen_list F d)"
proof -
  have "chunk_ok (posix q, the (seen_at F d q))" if "q \<in> set (tree_entries F d [])" for q
  proof -
    have "node_at F (d @ q) \<noteq> None" and q: "q \<noteq> []" using that by (simp_all add: tree_entries_set)
    then obtain nd where nd: "node_at F (d @ q) = Some nd" by auto
    have "seen_at F d q \<noteq> None" using assms(2) that by blast
    then obtain k where k: "seen_node nd = Some k" using nd by (auto simp: seen_at_def)
    have "NUL \<notin> set (posix q)" using posix_no_nul [of q] assms(1) nd q by (auto simp: plain_entries_def)
    then show ?thesis using assms(1) nd q k by (cases nd) (auto simp: seen_at_def plain_entries_def)
  qed
  then show ?thesis by (simp add: seen_list_def list_all_iff)
qed

lemma seen_list_at:
  assumes "plain_entries F d" and q: "q \<noteq> []" "list_all plain_name q"
    and all: "\<forall>q \<in> set (tree_entries F d []). seen_at F d q \<noteq> None"
  shows "seen_at F d q = Some k \<longleftrightarrow> (posix q, k) \<in> set (seen_list F d)"
proof
  assume k: "seen_at F d q = Some k"
  then have "q \<in> set (tree_entries F d [])" using q by (auto simp: tree_entries_set seen_at_def bind_eq_Some_conv)
  then show "(posix q, k) \<in> set (seen_list F d)" using k by (force simp: seen_list_def)
next
  assume "(posix q, k) \<in> set (seen_list F d)"
  then obtain p where p: "p \<in> set (tree_entries F d [])" "posix q = posix p" "k = the (seen_at F d p)"
    by (auto simp: seen_list_def)
  then have "p \<noteq> []" "list_all plain_name p" using assms(1) by (auto simp: tree_entries_set plain_entries_def)
  then have "p = q" using posix_inj [of p q] q p(2) by simp
  then show "seen_at F d q = Some k" using p all by auto
qed

lemma tree_stream_inj:
  assumes s: "tree_stream F r [] = Inr s" "tree_stream G r' [] = Inr s"
    and d: "resolve F r = Some d" "resolve G r' = Some e"
    and ok: "plain_entries F d" "plain_entries G e" and q: "q \<noteq> []"
  shows "seen_at F d q = seen_at G e q"
proof -
  note cF = tree_stream_chunks [OF s(1) d(1)] and cG = tree_stream_chunks [OF s(2) d(2)]
  have eq: "seen_list F d = seen_list G e"
    by (rule chunks_inj) (use cF cG seen_list_ok ok in simp_all)
  show ?thesis
  proof (cases "list_all plain_name q")
    case True
    have "seen_at F d q = Some k \<longleftrightarrow> seen_at G e q = Some k" for k
      unfolding seen_list_at [OF ok(1) q True cF(2)] seen_list_at [OF ok(2) q True cG(2)] eq by (rule refl)
    then show ?thesis by (metis option.exhaust)
  next
    case False
    then have "node_at F (d @ q) = None" "node_at G (e @ q) = None" using ok q by (auto simp: plain_entries_def)
    then show ?thesis by (simp add: seen_at_def)
  qed
qed

end
