(* ===== verification/OmpFacts.thy ===== *)
theory OmpFacts
  imports OmpGeneration MigrateReady TreeDigest Launch
begin

text \<open>
  Facts about the OMP adapter the properties rest on: what an overlay holds, what two merged settings
  hold, what the client's environment holds, and what a removal of a managed tree removes.
\<close>

section \<open>Values at a path\<close>

fun at_path :: "val \<Rightarrow> string list \<Rightarrow> val option" where
  "at_path v [] = Some v"
| "at_path (VDict d) (k # ks) = (case map_of d k of None \<Rightarrow> None | Some w \<Rightarrow> at_path w ks)"
| "at_path _ _ = None"

lemma at_path_not_dict: "\<not> is_dict v \<Longrightarrow> at_path v p = (if p = [] then Some v else None)"
  by (cases v; cases p) simp_all

definition overlaid :: "val option \<Rightarrow> val \<Rightarrow> val" where
  "overlaid old v = (case (old, v) of (Some (VDict e), VDict d) \<Rightarrow> VDict (deep_overlay e d) | _ \<Rightarrow> v)"

lemma deep_overlay_Cons: "deep_overlay base ((k, v) # rest) = deep_overlay (dict_set k (overlaid (map_of base k) v) base) rest"
  by (simp add: overlaid_def)

lemma overlaid_leaf: "\<not> is_dict v \<Longrightarrow> overlaid old v = v"
  by (cases v) (simp_all add: overlaid_def split: option.splits val.splits)

lemma deep_overlay_at:
  "distinct (keys over) \<Longrightarrow> map_of (deep_overlay base over) k =
     (case map_of over k of None \<Rightarrow> map_of base k | Some v \<Rightarrow> Some (overlaid (map_of base k) v))"
proof (induction over arbitrary: base)
  case (Cons x rest)
  obtain j v where x: "x = (j, v)" by (cases x)
  have IH: "map_of (deep_overlay (dict_set j (overlaid (map_of base j) v) base) rest) k =
     (case map_of rest k of None \<Rightarrow> ((map_of base)(j \<mapsto> overlaid (map_of base j) v)) k
      | Some w \<Rightarrow> Some (overlaid (((map_of base)(j \<mapsto> overlaid (map_of base j) v)) k) w))"
    unfolding map_of_dict_set [symmetric] by (rule Cons.IH) (use Cons.prems x in simp)
  show ?case
  proof (cases "k = j")
    case True
    then have "map_of rest k = None" using Cons.prems x by (simp add: map_of_eq_None_iff keys_def)
    then show ?thesis unfolding x deep_overlay_Cons IH using True by simp
  next
    case False
    then show ?thesis unfolding x deep_overlay_Cons IH by (simp split: option.split)
  qed
qed simp

lemma overlay_absent:
  assumes "distinct (keys over)" and "k \<notin> set (keys over)"
  shows "map_of (deep_overlay base over) k = map_of base k"
proof -
  have "map_of over k = None" using assms(2) by (simp add: map_of_eq_None_iff keys_def)
  then show ?thesis using deep_overlay_at [OF assms(1)] by simp
qed

text \<open>What an overlay fixes below a table is fixed whatever is underneath.\<close>

lemma overlay_fixes:
  assumes "distinct (keys over)" and "map_of over k = Some (VDict d)" and "distinct (keys d)" and "map_of d j = Some v" and "\<not> is_dict v"
  shows "at_path (VDict (deep_overlay base over)) [k, j] = Some v"
proof -
  have "map_of (deep_overlay e d) j = Some v" for e
    using deep_overlay_at [OF assms(3), of e j] assms(4) overlaid_leaf [OF assms(5)] by simp
  moreover have "map_of (deep_overlay base over) k = Some (overlaid (map_of base k) (VDict d))"
    using deep_overlay_at [OF assms(1), of base k] assms(2) by simp
  moreover have "\<exists>f. overlaid (map_of base k) (VDict d) = VDict f \<and> (f = d \<or> (\<exists>e. f = deep_overlay e d))"
    by (auto simp: overlaid_def split: option.splits val.splits)
  ultimately show ?thesis using assms(4) by auto
qed

section \<open>Merged settings\<close>

lemma mapE_keys:
  assumes "mapE f ks = Inr m" and "\<And>k x. f k = Inr x \<Longrightarrow> fst x = k"
  shows "keys m = ks"
  using assms(1) by (induction ks arbitrary: m) (auto simp: bindE_Inr dest: assms(2))

lemma mapE_at:
  assumes "mapE f ks = Inr m" and "\<And>k x. f k = Inr x \<Longrightarrow> fst x = k" and "distinct ks"
  shows "map_of m k = (if k \<in> set ks then map_option snd (case f k of Inr x \<Rightarrow> Some x | Inl _ \<Rightarrow> None) else None)"
  using assms(1,3)
proof (induction ks arbitrary: m)
  case (Cons j ks)
  then obtain x m' where x: "f j = Inr x" "mapE f ks = Inr m'" "m = x # m'" by (auto simp: bindE_Inr)
  have "fst x = j" by (rule assms(2) [OF x(1)])
  then show ?case using Cons x by (cases x) auto
qed simp

definition merge_entry :: "dict \<Rightarrow> dict \<Rightarrow> string \<Rightarrow> (string \<times> val) res" where
  "merge_entry left right k = (case map_of left k of
       None \<Rightarrow> Inr (k, get right k)
     | Some l \<Rightarrow> (case map_of right k of
         None \<Rightarrow> Inr (k, l)
       | Some r \<Rightarrow> (case (l, r) of
           (VDict a, VDict b) \<Rightarrow> bindE (merge_runtime_config a b) (\<lambda>m. Inr (k, VDict m))
         | _ \<Rightarrow> if py_eq l r then Inr (k, l) else Inl (AdapterError ''OMP settings conflict''))))"

lemma merge_entries: "merge_runtime_config left right = mapE (merge_entry left right) (sorted_set (keys left @ keys right))"
  by (subst merge_runtime_config.simps) (simp only: merge_entry_def [abs_def])

lemma merge_entry_key: "merge_entry left right k = Inr x \<Longrightarrow> fst x = k"
  by (auto simp: merge_entry_def bindE_Inr split: option.splits val.splits if_splits)

lemma merge_entry_both:
  "map_of left k = Some l \<Longrightarrow> map_of right k = Some r \<Longrightarrow> \<not> (is_dict l \<and> is_dict r) \<Longrightarrow>
     merge_entry left right k = (if py_eq l r then Inr (k, l) else Inl (AdapterError ''OMP settings conflict''))"
  by (cases l; cases r) (simp_all add: merge_entry_def)

text \<open>Two settings agree when no path has a value on both sides that differs, tables apart.\<close>

definition settings_agree :: "dict \<Rightarrow> dict \<Rightarrow> bool" where
  "settings_agree left right \<longleftrightarrow> (\<forall>p a b. at_path (VDict left) p = Some a \<longrightarrow> at_path (VDict right) p = Some b \<longrightarrow>
     (is_dict a \<and> is_dict b) \<or> py_eq a b)"

lemma settings_agree_at:
  "settings_agree left right \<longleftrightarrow> (\<forall>k l r. map_of left k = Some l \<longrightarrow> map_of right k = Some r \<longrightarrow>
     (case (l, r) of (VDict a, VDict b) \<Rightarrow> settings_agree a b | _ \<Rightarrow> py_eq l r))" (is "_ \<longleftrightarrow> ?rhs")
proof
  assume a: "settings_agree left right"
  show ?rhs
  proof (intro allI impI)
    fix k l r
    assume k: "map_of left k = Some l" "map_of right k = Some r"
    have all: "(is_dict x \<and> is_dict y) \<or> py_eq x y" if "at_path l p = Some x" "at_path r p = Some y" for p x y
      using a [unfolded settings_agree_def, rule_format, of "k # p" x y] k that by simp
    show "case (l, r) of (VDict a, VDict b) \<Rightarrow> settings_agree a b | _ \<Rightarrow> py_eq l r"
      using all [of "[]" l r] all by (cases l; cases r) (auto simp: settings_agree_def)
  qed
next
  assume r: ?rhs
  show "settings_agree left right"
    unfolding settings_agree_def
  proof (intro allI impI)
    fix p a b
    assume ab: "at_path (VDict left) p = Some a" "at_path (VDict right) p = Some b"
    show "(is_dict a \<and> is_dict b) \<or> py_eq a b"
    proof (cases p)
      case (Cons k q)
      obtain l r' where k: "map_of left k = Some l" "map_of right k = Some r'" "at_path l q = Some a" "at_path r' q = Some b"
        using ab Cons by (auto split: option.splits)
      have c: "case (l, r') of (VDict a, VDict b) \<Rightarrow> settings_agree a b | _ \<Rightarrow> py_eq l r'" using r k(1,2) by blast
      show ?thesis
      proof (cases "is_dict l \<and> is_dict r'")
        case True
        then obtain x y where "l = VDict x" "r' = VDict y" by (cases l; cases r') auto
        then show ?thesis using c k(3,4) unfolding settings_agree_def by auto
      next
        case False
        then have e: "py_eq l r'" using c by (cases l; cases r') auto
        show ?thesis
        proof (cases "q = []")
          case True
          then show ?thesis using e k(3,4) by simp
        next
          case q: False
          then have "is_dict l" "is_dict r'" using k(3,4) at_path_not_dict [of l q] at_path_not_dict [of r' q] by (auto split: if_splits)
          then show ?thesis using False by simp
        qed
      qed
    qed (use ab in auto)
  qed
qed


lemma not_dict_eq: "\<not> (is_dict l \<and> is_dict r) \<Longrightarrow> (case (l, r) of (VDict a, VDict b) \<Rightarrow> P a b | _ \<Rightarrow> Q) = Q"
  by (cases l; cases r) simp_all

lemma merge_entry_dicts:
  "map_of left k = Some (VDict a) \<Longrightarrow> map_of right k = Some (VDict b) \<Longrightarrow>
     merge_entry left right k = bindE (merge_runtime_config a b) (\<lambda>m. Inr (k, VDict m))"
  by (simp add: merge_entry_def)

text \<open>A merge answers exactly when the settings agree.\<close>

lemma mapE_ok: "(\<exists>m. mapE f xs = Inr m) \<longleftrightarrow> (\<forall>x \<in> set xs. \<exists>y. f x = Inr y)"
  by (induction xs) (auto simp: bindE_Inr)

lemma merge_answers: "(\<exists>m. merge_runtime_config left right = Inr m) \<longleftrightarrow> settings_agree left right"
proof (induction "size_list (size_prod (\<lambda>_. 0) size) left" arbitrary: left right rule: less_induct)
  case less
  have entry: "(\<exists>x. merge_entry left right k = Inr x) \<longleftrightarrow> (\<forall>l r. map_of left k = Some l \<longrightarrow> map_of right k = Some r \<longrightarrow>
     (case (l, r) of (VDict a, VDict b) \<Rightarrow> settings_agree a b | _ \<Rightarrow> py_eq l r))" for k
  proof (cases "map_of left k")
    case None
    then show ?thesis by (simp add: merge_entry_def)
  next
    case l: (Some l)
    show ?thesis
    proof (cases "map_of right k")
      case None
      then show ?thesis using l by (simp add: merge_entry_def)
    next
      case r: (Some r)
      show ?thesis
      proof (cases "is_dict l \<and> is_dict r")
        case True
        then obtain a b where d: "l = VDict a" "r = VDict b" by (cases l; cases r) auto
        have "(\<exists>x. merge_entry left right k = Inr x) \<longleftrightarrow> (\<exists>m. merge_runtime_config a b = Inr m)"
          using merge_entry_dicts [of left k a right b] l r d by (auto simp: bindE_Inr)
        then show ?thesis using less [OF size_map_of, of k a b] l r d by simp
      next
        case False
        have "(case (l, r) of (VDict a, VDict b) \<Rightarrow> settings_agree a b | _ \<Rightarrow> py_eq l r) = py_eq l r" by (rule not_dict_eq [OF False])
        then show ?thesis using merge_entry_both [OF l r False] l r by simp
      qed
    qed
  qed
  have "(\<exists>m. merge_runtime_config left right = Inr m) \<longleftrightarrow> (\<forall>k \<in> set (keys left @ keys right). \<exists>x. merge_entry left right k = Inr x)"
    by (simp add: merge_entries mapE_ok)
  also have "\<dots> \<longleftrightarrow> settings_agree left right"
    unfolding settings_agree_at [of left right] entry
  proof (intro iffI allI impI ballI)
    fix k l r
    assume a: "\<forall>k \<in> set (keys left @ keys right). \<forall>l r. map_of left k = Some l \<longrightarrow> map_of right k = Some r \<longrightarrow>
        (case (l, r) of (VDict a, VDict b) \<Rightarrow> settings_agree a b | _ \<Rightarrow> py_eq l r)"
      and k: "map_of left k = Some l" "map_of right k = Some r"
    have "k \<in> set (keys left @ keys right)" using map_of_SomeD [OF k(1)] by (force simp: keys_def)
    then show "case (l, r) of (VDict a, VDict b) \<Rightarrow> settings_agree a b | _ \<Rightarrow> py_eq l r" using a k by blast
  qed blast
  finally show ?case .
qed

text \<open>What a merge holds below a key.\<close>

lemma merge_at:
  assumes "merge_runtime_config left right = Inr m"
  shows "map_of m k = (case (map_of left k, map_of right k) of
      (None, w) \<Rightarrow> w
    | (Some v, None) \<Rightarrow> Some v
    | (Some (VDict a), Some (VDict b)) \<Rightarrow> (case merge_runtime_config a b of Inr c \<Rightarrow> Some (VDict c) | Inl _ \<Rightarrow> None)
    | (Some v, Some _) \<Rightarrow> Some v)"
proof -
  let ?ks = "sorted_set (keys left @ keys right)"
  have m: "mapE (merge_entry left right) ?ks = Inr m" using assms by (simp add: merge_entries)
  have lk: "map_of m k = (if k \<in> set ?ks then map_option snd (case merge_entry left right k of Inr x \<Rightarrow> Some x | Inl _ \<Rightarrow> None) else None)"
    by (rule mapE_at [OF m merge_entry_key]) simp_all
  show ?thesis
  proof (cases "k \<in> set ?ks")
    case False
    then have "map_of left k = None" "map_of right k = None" by (auto simp: map_of_eq_None_iff keys_def)
    then show ?thesis using lk False by simp
  next
    case True
    obtain x where x: "merge_entry left right k = Inr x" using mapE_all [OF m True] by blast
    have e: "map_of m k = Some (snd x)" using lk x True by simp
    show ?thesis
    proof (cases "map_of left k")
      case None
      then have "map_of right k \<noteq> None" using True by (auto simp: map_of_eq_None_iff keys_def)
      then show ?thesis using None x e by (auto simp: merge_entry_def get_def)
    next
      case l: (Some l)
      show ?thesis
      proof (cases "map_of right k")
        case None
        then show ?thesis using l x e by (auto simp: merge_entry_def split: val.split)
      next
        case r: (Some r)
        show ?thesis
        proof (cases "is_dict l \<and> is_dict r")
          case True
          then obtain a b where d: "l = VDict a" "r = VDict b" by (cases l; cases r) auto
          then have "bindE (merge_runtime_config a b) (\<lambda>m. Inr (k, VDict m)) = Inr x"
            using merge_entry_dicts [of left k a right b] l r x by simp
          then obtain c where "merge_runtime_config a b = Inr c" "x = (k, VDict c)" using x by (auto simp: bindE_Inr)
          then show ?thesis using d l r e by simp
        next
          case False
          then have "snd x = l" using merge_entry_both [OF l r False] x by (auto split: if_splits)
          then show ?thesis using l r e False by (cases l; cases r) simp_all
        qed
      qed
    qed
  qed
qed

lemma py_eq_dict: "py_eq l r \<Longrightarrow> is_dict l = is_dict r"
  by (cases l; cases r) (auto simp: py_eq_def num_val_def split: option.splits if_splits)

text \<open>The leaves of a merge are those of both sides, the left one's spelling where both have one.\<close>

lemma merge_leaf:
  assumes "merge_runtime_config left right = Inr m" and "\<not> is_dict v"
  shows "at_path (VDict m) p = Some v \<longleftrightarrow>
     at_path (VDict left) p = Some v \<or> at_path (VDict left) p = None \<and> at_path (VDict right) p = Some v"
  using assms(1)
proof (induction p arbitrary: left right m)
  case (Cons k q)
  note at = merge_at [OF Cons.prems, of k]
  show ?case
  proof (cases "map_of left k")
    case None
    then show ?thesis using at by (simp split: option.split)
  next
    case l: (Some l)
    show ?thesis
    proof (cases "map_of right k")
      case None
      then show ?thesis using at l by (cases l) auto
    next
      case r: (Some r)
      show ?thesis
      proof (cases "is_dict l \<and> is_dict r")
        case True
        then obtain a b where d: "l = VDict a" "r = VDict b" by (cases l; cases r) auto
        have "settings_agree left right" using Cons.prems merge_answers by blast
        then have "case (l, r) of (VDict a, VDict b) \<Rightarrow> settings_agree a b | _ \<Rightarrow> py_eq l r" using l r settings_agree_at [of left right] by blast
        then have "settings_agree a b" using d by simp
        then obtain c where c: "merge_runtime_config a b = Inr c" using merge_answers by blast
        then show ?thesis using at l r d Cons.IH [OF c] by simp
      next
        case False
        have "settings_agree left right" using Cons.prems merge_answers by blast
        then have "case (l, r) of (VDict a, VDict b) \<Rightarrow> settings_agree a b | _ \<Rightarrow> py_eq l r"
          using l r settings_agree_at [of left right] by blast
        then have e: "py_eq l r" using False by (cases l; cases r) simp_all
        then have n: "\<not> is_dict l" "\<not> is_dict r" using False py_eq_dict by blast+
        then have "map_of m k = Some l" using at l r by (cases l; cases r) simp_all
        then show ?thesis using l r at_path_not_dict [OF n(1), of q] at_path_not_dict [OF n(2), of q] by simp
      qed
    qed
  qed
qed (use assms(2) in auto)

section \<open>The template of a generation\<close>

lemma gates_keys: "keys (capability_gates memory project_mcp skills) = [''memory'', ''mcp'', ''skills'']"
  by (simp add: capability_gates_def keys_def)

definition foreign_skill_switches :: "string list" where
  "foreign_skill_switches = [''enableCodexUser'', ''enableClaudeUser'', ''enableClaudeProject'', ''enablePiUser'',
     ''enablePiProject'', ''enableAgentsUser'', ''enableAgentsProject'']"

lemma skill_gates:
  obtains d where "map_of (capability_gates memory project_mcp skills) ''skills'' = Some (VDict d)" "distinct (keys d)"
    "map_of d ''customDirectories'' = Some (VList [VStr (placeholder @ ''/skills'')])"
    "map_of d ''includeSkills'' = Some (VList (map VStr skills))"
    "\<And>k. k \<in> set foreign_skill_switches \<Longrightarrow> map_of d k = Some (VBool False)"
proof -
  let ?d = "[(''customDirectories'', VList [VStr (placeholder @ ''/skills'')]), (''includeSkills'', VList (map VStr skills)),
     (''enableCodexUser'', VBool False), (''enableClaudeUser'', VBool False), (''enableClaudeProject'', VBool False),
     (''enablePiUser'', VBool False), (''enablePiProject'', VBool False), (''enableAgentsUser'', VBool False),
     (''enableAgentsProject'', VBool False)]"
  have sw: "map_of ?d k = Some (VBool False)" if "k \<in> set foreign_skill_switches" for k
    using that unfolding foreign_skill_switches_def by (simp only: list.set insert_iff empty_iff) (elim disjE, simp_all)
  show thesis
    by (rule that [of ?d, OF _ _ _ _ sw]) (simp_all add: capability_gates_def keys_def)
qed

lemma template_gates:
  assumes "effective_config_template portable skills policy preference = Inr tmpl"
  shows "at_path (VDict tmpl) [''memory'', ''backend''] = Some (VStr ''off'')"
    and "at_path (VDict tmpl) [''mcp'', ''enableProjectConfig''] = Some (VBool False)"
    and "at_path (VDict tmpl) [''skills'', ''customDirectories''] = Some (VList [VStr (placeholder @ ''/skills'')])"
    and "at_path (VDict tmpl) [''skills'', ''includeSkills''] = Some (VList (map VStr skills))"
    and "k \<in> set foreign_skill_switches \<Longrightarrow> at_path (VDict tmpl) [''skills'', k] = Some (VBool False)"
    and "distinct (keys preference) \<Longrightarrow> k \<notin> {''memory'', ''mcp'', ''skills''} \<Longrightarrow> k \<notin> set (keys preference) \<Longrightarrow> map_of tmpl k = map_of portable k"
proof -
  let ?g = "capability_gates (VStr ''off'') (VBool False) skills"
  have t: "tmpl = deep_overlay (deep_overlay portable preference) ?g"
    using assms by (auto simp: effective_config_template_def Let_def split: if_splits)
  have d: "distinct (keys ?g)" by (simp add: gates_keys)
  obtain e where e: "map_of ?g ''skills'' = Some (VDict e)" "distinct (keys e)"
    "map_of e ''customDirectories'' = Some (VList [VStr (placeholder @ ''/skills'')])"
    "map_of e ''includeSkills'' = Some (VList (map VStr skills))"
    "\<And>k. k \<in> set foreign_skill_switches \<Longrightarrow> map_of e k = Some (VBool False)" by (rule skill_gates [of "VStr ''off''" "VBool False" skills], rule that) assumption+
  note f = overlay_fixes [OF d] and fs = overlay_fixes [OF d e(1,2)]
  show "at_path (VDict tmpl) [''memory'', ''backend''] = Some (VStr ''off'')"
    unfolding t by (rule f, (simp add: capability_gates_def keys_def)+)
  show "at_path (VDict tmpl) [''mcp'', ''enableProjectConfig''] = Some (VBool False)"
    unfolding t by (rule f, (simp add: capability_gates_def keys_def)+)
  show "at_path (VDict tmpl) [''skills'', ''customDirectories''] = Some (VList [VStr (placeholder @ ''/skills'')])"
    unfolding t by (rule fs [OF e(3)]) simp
  show "at_path (VDict tmpl) [''skills'', ''includeSkills''] = Some (VList (map VStr skills))"
    unfolding t by (rule fs [OF e(4)]) simp
  show "k \<in> set foreign_skill_switches \<Longrightarrow> at_path (VDict tmpl) [''skills'', k] = Some (VBool False)"
    unfolding t by (rule fs [OF e(5)]) simp_all
  show "map_of tmpl k = map_of portable k"
    if "distinct (keys preference)" "k \<notin> {''memory'', ''mcp'', ''skills''}" "k \<notin> set (keys preference)"
  proof -
    have "k \<notin> set (keys ?g)" using that(2) by (simp add: gates_keys)
    then show ?thesis unfolding t using overlay_absent [OF d, of k "deep_overlay portable preference"] overlay_absent [OF that(1,3), of portable] by simp
  qed
qed

lemma preference_fields:
  assumes "global_preference parsed = Inr preference"
  shows "set (keys preference) \<subseteq> set SHARED_PREFERENCE_FIELDS" and "distinct (keys parsed) \<Longrightarrow> distinct (keys preference)"
proof -
  let ?s = "filter (\<lambda>(k, _). k \<in> set SHARED_PREFERENCE_FIELDS) (sort_key fst parsed)"
  have "map fst preference = map fst ?s"
    by (rule mapE_id [OF assms [unfolded global_preference_def]]) (auto simp: bindE_Inr)
  then have k: "keys preference = keys ?s" by (simp add: keys_def)
  show "set (keys preference) \<subseteq> set SHARED_PREFERENCE_FIELDS" unfolding k by (auto simp: keys_def)
  have "set (keys (filter P xs)) \<subseteq> set (keys xs)" for P and xs :: dict by (auto simp: keys_def)
  have "distinct (map fst (filter P xs))" if "distinct (map fst xs)" for P and xs :: dict
    using that by (rule distinct_map_filter)
  moreover have "distinct (map fst (sort_key fst parsed))" if "distinct (map fst parsed)"
    using that by (simp add: distinct_map)
  ultimately show "distinct (keys parsed) \<Longrightarrow> distinct (keys preference)" unfolding k by (simp add: keys_def)
qed

section \<open>The client's environment\<close>

definition fixed_client_env :: "path \<Rightarrow> path \<Rightarrow> path \<Rightarrow> string \<Rightarrow> env" where
  "fixed_client_env agent_home generation real_home dir =
     [(''AWS_EC2_METADATA_DISABLED'', ''true''), (''PI_AUTH_NO_BORROW'', ''1''),
      (''HOME'', abs_str real_home), (''OMP_PROFILE'', ''default''), (''PI_CODING_AGENT_DIR'', abs_str agent_home),
      (''PI_CONFIG_DIR'', dir), (''PI_CONFIG_FILES'', abs_str (generation @ [''config.yml''])), (''PI_PROFILE'', ''default'')]"

lemma isolated_lookup:
  "map_of (isolated_env base) n =
     (if n \<in> {''OMP_AUTH_BROKER_URL'', ''OMP_AUTH_BROKER_TOKEN''} then None
      else if n \<in> set cap_OMP_AMBIENT_AUTH_ENV then Some []
      else if n \<in> set cap_AMBIENT_CONFIG_ENV then None
      else if cap_ambient_credential n then map_option (\<lambda>_. []) (map_of base n)
      else map_of base n)"
proof -
  let ?e = "removed_names cap_AMBIENT_CONFIG_ENV base"
  have "set (keys ?e) = {k. map_of ?e k \<noteq> None}" by (auto simp: keys_def map_of_eq_None_iff)
  then have "n \<in> set (keys ?e) \<longleftrightarrow> n \<notin> set cap_AMBIENT_CONFIG_ENV \<and> map_of base n \<noteq> None"
    by (simp add: removed_names_def map_of_pops)
  then show ?thesis
    by (auto simp: isolated_env_def removed_names_def emptied_names_def map_of_pops map_of_blanks Let_def)
qed

lemma client_env_lookup:
  assumes "agent_home_env base agent_home generation real_home shared = Inr env"
  shows "\<exists>dir. omp_config_dir_value agent_home real_home = Inr dir \<and> (\<forall>n. map_of env n =
     (case map_of (rev shared) n of Some v \<Rightarrow> Some v
      | None \<Rightarrow> (case map_of (fixed_client_env agent_home generation real_home dir) n of Some v \<Rightarrow> Some v
        | None \<Rightarrow> map_of (isolated_env base) n)))"
proof -
  obtain dir where d: "omp_config_dir_value agent_home real_home = Inr dir"
      "env = dict_update (dict_update (isolated_env base) (fixed_client_env agent_home generation real_home dir)) shared"
    using assms by (auto simp: agent_home_env_def bindE_Inr fixed_client_env_def)
  have "distinct (map fst (fixed_client_env agent_home generation real_home dir))" by (simp add: fixed_client_env_def)
  then have "map_of (rev (fixed_client_env agent_home generation real_home dir)) = map_of (fixed_client_env agent_home generation real_home dir)"
    by (intro map_of_eqI) (auto simp: rev_map [symmetric] intro!: map_of_is_SomeI dest: map_of_SomeD)
  then show ?thesis using d by (auto simp: map_of_dict_update split: option.split)
qed

lemma omp_render_policy:
  assumes "omp_render H E R F A env rendered portable skills = Inr r"
  obtains policy config parsed preference auth auth_state endpoints endpoint_state
  where "read_shared_omp_config E F A = Inr parsed" "read_portable_config E F rendered = Inr config"
    "global_preference parsed = Inr preference"
    "effective_config_template config skills policy preference = Inr (rn_template r)"
    "shared_omp_auth H E R F A = Inr (auth, auth_state)" "shared_provider_endpoints H R env = Inr (endpoints, endpoint_state)"
    "rn_env r = dict_update endpoints auth"
  using assms unfolding omp_render_def read_global_omp_preference_def
  by (elim stepsE) (auto elim!: stepsE)

section \<open>Removals\<close>

lemma managed_walk_target:
  assumes "managed_walk F False cur ps = Inr u" and "dirs F cur" and "''..'' \<notin> set ps" and "exists_at F (cur @ ps)"
    and "ps \<noteq> []" and "lstat F (cur @ ps) = Some (NDir m)"
  shows "dirs F (cur @ ps)"
proof -
  obtain qs p where ps: "ps = qs @ [p]" using assms(5) by (metis rev_exhaust)
  obtain d where d: "walk 40 F [] (cur @ qs @ [p]) = Some d"
    using assms(4) ps by (auto simp: exists_at_def stat_def resolve_def bind_eq_Some_conv)
  show ?thesis
    using assms(1,2,3,6) d unfolding ps
  proof (induction qs arbitrary: cur)
    case Nil
    then show ?case using lstat_dirs [of F cur p] dirs_snoc [of F cur p] by auto
  next
    case (Cons x xs)
    obtain nd where nd: "lstat F (cur @ [x]) = Some nd" "\<not> is_link_node nd" "managed_walk F False (cur @ [x]) (xs @ [p]) = Inr u"
      using Cons.prems(1) by (auto simp: Let_def bindE_Inr someE_Inr split: if_splits)
    have n: "node_at F (cur @ [x]) = Some nd" using nd(1) lstat_dirs [OF Cons.prems(2), of x] Cons.prems(3) by auto
    have "walk 40 F cur (x # xs @ [p]) = Some d" using Cons.prems(5) walk_dirs [of F "[]" cur 40 "x # xs @ [p]"] Cons.prems(2) by simp
    then have "\<exists>m. nd = NDir m" using n nd(2) Cons.prems(3) by (cases nd) auto
    then have "dirs F (cur @ [x])" using dirs_snoc [OF Cons.prems(2)] n Cons.prems(3) by auto
    then show ?case using Cons.IH [OF nd(3)] Cons.prems(3,4,5) by simp
  qed
qed

lemma safe_remove_tree_effect:
  assumes r: "safe_remove_tree root candidate guarded F = (r, F')" and d: "dirs F root" and n: "''..'' \<notin> set candidate"
  shows "F' = F \<or> r = Inr True \<and> F' = remove_tree candidate F \<and> strict_prefix root candidate \<and> (\<forall>g \<in> set guarded. \<not> prefix candidate g)"
proof (cases "F' = F")
  case False
  have e: "exists_at F candidate \<or> is_symlink F candidate" "assert_managed_path F root candidate False = Inr candidate"
      "check_protected candidate guarded = Inr ()" "rmtree candidate F = (Inr (), F')" "r = Inr True"
    using r False by (auto simp: safe_remove_tree_def bindS_def readS_def returnS_def rmtree_def assert_managed_path_def bindE_Inr
        split: sum.splits prod.splits if_splits option.splits node.splits elim!: stepsE)
  obtain q where q: "candidate = root @ q" "q \<noteq> []" "managed_walk F False root q = Inr ()"
    using e(2) by (auto simp: assert_managed_path_def relative_to_def bindE_Inr someE_Inr prefix_def split: if_splits)
  obtain m where m: "lstat F candidate = Some (NDir m)" using e(4) False by (auto simp: rmtree_def split: option.splits node.splits)
  then have "exists_at F candidate" using e(1) by (auto simp: is_symlink_def)
  then have c: "dirs F candidate" using managed_walk_target [OF q(3) d _ _ q(2)] m n q(1) by simp
  have "F' = remove_tree candidate F" using rmtree_dirs [OF c] e(4) q by auto
  moreover have "\<forall>g \<in> set guarded. \<not> prefix candidate g" using e(3) by (auto simp: check_protected_def forE_Inr raise_if_Inr)
  ultimately show ?thesis using e(5) q(1,2) by (auto simp: strict_prefix_def)
qed simp

lemma cleanup_effect:
  assumes c: "cleanup_legacy_omp_runtime A F = (res, F')" and d: "dirs F (ca_agent_home_root A)" and rt: "agent_home_dir A = Inr runtime"
  shows "F' \<noteq> F \<Longrightarrow> \<exists>m. checked_marker F A ''global OMP runtime is not verified for cleanup'' = Inr m"
    and "\<not> prefix (project_shared_omp_home A) q \<Longrightarrow> \<not> prefix (migration_backup_root A) q \<Longrightarrow> node_at F' q = node_at F q"
    and "q \<in> {global_render_root A, runtime} \<Longrightarrow> node_at F' q = node_at F q"
proof -
  let ?B = "ca_agent_home_root A" and ?p = "project_shared_omp_home A" and ?m = "migration_backup_root A"
  let ?g = "[global_render_root A, runtime]"
  have dd: "''..'' \<notin> set ?p" "''..'' \<notin> set ?m" using d by (auto simp: dirs_def project_shared_omp_home_def migration_backup_root_def)
  have keep: "dirs (remove_tree x G) ?B" if "dirs G ?B" "strict_prefix ?B x" for x G
    using that unfolding dirs_def remove_tree_at strict_prefix_def by (metis prefix_order.order_trans prefix_order.antisym)
  obtain r1 F1 where s1: "safe_remove_tree ?B ?p ?g F = (r1, F1)" by (cases "safe_remove_tree ?B ?p ?g F")
  obtain r2 F2 where s2: "safe_remove_tree ?B ?m ?g F1 = (r2, F2)" by (cases "safe_remove_tree ?B ?m ?g F1")
  have e1: "F1 = F \<or> F1 = remove_tree ?p F \<and> strict_prefix ?B ?p \<and> (\<forall>g \<in> set ?g. \<not> prefix ?p g)"
    using safe_remove_tree_effect [OF s1 d dd(1)] by blast
  then have d1: "dirs F1 ?B" using d keep by auto
  have e2: "F2 = F1 \<or> F2 = remove_tree ?m F1 \<and> (\<forall>g \<in> set ?g. \<not> prefix ?m g)"
    using safe_remove_tree_effect [OF s2 d1 dd(2)] by blast
  have F': "F' = F \<or> (\<exists>m. checked_marker F A ''global OMP runtime is not verified for cleanup'' = Inr m) \<and> F' \<in> {F1, F2}"
    using c rt s1 s2
    by (auto simp: cleanup_legacy_omp_runtime_def bindS_def readS_def returnS_def remove_labelled_def split: sum.splits prod.splits)
  show "F' \<noteq> F \<Longrightarrow> \<exists>m. checked_marker F A ''global OMP runtime is not verified for cleanup'' = Inr m" using F' by blast
  show "node_at F' q = node_at F q" if "\<not> prefix ?p q" "\<not> prefix ?m q"
    using F' e1 e2 that by (auto simp: remove_tree_at)
  show "node_at F' q = node_at F q" if "q \<in> {global_render_root A, runtime}"
    using F' e1 e2 that by (auto simp: remove_tree_at)
qed

section \<open>Endpoints\<close>

lemma endpoints_lookup:
  assumes "shared_provider_endpoints H R env = Inr (endpoints, doc)"
  shows "map_of endpoints n = (if n \<in> set SHARED_PROVIDER_ENDPOINT_ENV \<and> map_of env n \<noteq> Some [] then map_of env n else None)"
    and "map_of endpoints n = Some v \<Longrightarrow> \<exists>u. urlsplit R v = Inr u \<and> https_or_loopback u \<and> CHR ''@'' \<notin> set (su_netloc u)
       \<and> su_query u = [] \<and> su_fragment u = []"
proof -
  obtain es where es: "mapE (provider_endpoint R env) (sorted_set SHARED_PROVIDER_ENDPOINT_ENV) = Inr es" "endpoints = concat es"
    using assms by (auto simp: shared_provider_endpoints_def bindE_Inr Let_def)
  have one: "e = (if map_of env k = Some [] then [] else case map_of env k of None \<Rightarrow> [] | Some w \<Rightarrow> [(k, w)])"
    and ok: "\<And>w. (k, w) \<in> set e \<Longrightarrow> \<exists>u. urlsplit R w = Inr u \<and> https_or_loopback u \<and> CHR ''@'' \<notin> set (su_netloc u)
       \<and> su_query u = [] \<and> su_fragment u = []"
    if "provider_endpoint R env k = Inr e" for k e
    using that by (auto simp: provider_endpoint_def bindE_Inr split: option.splits if_splits)
  have "map_of (concat es) n = (if n \<in> set ks \<and> map_of env n \<noteq> Some [] then map_of env n else None)"
    if "mapE (provider_endpoint R env) ks = Inr es" for ks es
    using that
  proof (induction ks arbitrary: es)
    case (Cons k ks)
    then obtain e es' where e: "provider_endpoint R env k = Inr e" "es = e # es'" "mapE (provider_endpoint R env) ks = Inr es'"
      by (auto simp: bindE_Inr)
    show ?case using Cons.IH [OF e(3)] one [OF e(1)] e(2) by (auto split: option.splits)
  qed simp
  from this [OF es(1)] show "map_of endpoints n = (if n \<in> set SHARED_PROVIDER_ENDPOINT_ENV \<and> map_of env n \<noteq> Some [] then map_of env n else None)"
    by (simp add: es(2))
  assume "map_of endpoints n = Some v"
  then obtain e where e: "e \<in> set es" "(n, v) \<in> set e" using es(2) map_of_SomeD [of endpoints n v] by auto
  then obtain k where k: "provider_endpoint R env k = Inr e" using mapE_elem [OF es(1)] by blast
  have "n = k" using one [OF k] e(2) by (auto split: if_splits option.splits)
  then show "\<exists>u. urlsplit R v = Inr u \<and> https_or_loopback u \<and> CHR ''@'' \<notin> set (su_netloc u) \<and> su_query u = [] \<and> su_fragment u = []"
    using ok [OF k] e(2) by blast
qed

end
