(* ===== verification/OmpSamples.thy ===== *)
theory OmpSamples
  imports OmpFacts RuntimeProperties
begin

text \<open>
  A small home for the concrete instances of the adapter's properties: a user, a runtime id and
  parameters that are simple functions. The theory models no code.
\<close>

definition omp_host :: host where
  "omp_host = smp_host\<lparr>sha256 := (\<lambda>_. ''0'')\<rparr>"

definition omp_engines :: engines where
  "omp_engines = \<lparr>en_yaml_load = (\<lambda>_. None), en_yaml_dump = (\<lambda>_. ''y''), en_database = (\<lambda>_ _. None), en_backup = (\<lambda>_ _. None)\<rparr>"

definition omp_args :: cap_args where
  "omp_args = \<lparr>ca_project = [''w''], ca_overlay = None, ca_profile = ''general'', ca_cli = ''omp'', ca_client_args = [],
     ca_tool_command = ''launch'', ca_profile_tool = [''t''], ca_base_manifest = [''b'', ''m''], ca_base_pin = [''b'', ''p''],
     ca_binding_dir = [''b''], ca_agent_home_root = [''b''], ca_real_home = [''h''], ca_runtime_id = ''r'', ca_runtime_root = None,
     ca_preference_root = None, ca_workdir = None, ca_receipt = None, ca_rollback = False, ca_cleanup = False, ca_apply = True,
     ca_claude_runtime_id = ''default'', ca_fresh = False, ca_state = None, ca_output = ''o'', ca_auth_root = [''a''], ca_home = [''h'']\<rparr>"

definition omp_smp_render :: render where
  "omp_smp_render = \<lparr>rn_profile = ''general'', rn_portable = ''x'', rn_skills = [], rn_template = [(''k'', VStr ''v'')],
     rn_policy = [], rn_context = [], rn_source_digest = ''d'', rn_env = []\<rparr>"

definition loop_rules :: url_rules where
  "loop_rules = \<lparr>ur_printable = (\<lambda>_. True), ur_nfkc = (\<lambda>_. True), ur_ipv6 = (\<lambda>_. False)\<rparr>"

definition omp_home :: path where
  "omp_home = [''h'', ''.agent-system-state'', ''runtimes'', ''omp'', ''r'']"

definition omp_fs :: "(path \<times> node) list \<Rightarrow> fs" where
  "omp_fs extra = \<lparr>nodes = extra @ [out_dir [] 1, out_dir [''h''] 2, out_dir [''b''] 3, out_dir [''h'', ''.agent-system-state''] 4,
     out_dir [''h'', ''.agent-system-state'', ''runtimes''] 5, out_dir [''h'', ''.agent-system-state'', ''runtimes'', ''omp''] 6],
     fresh_ino = 9\<rparr>"

lemma omp_hash: "digest_json omp_host v = ''sha256:0''" "digest_bytes omp_host b = ''sha256:0''"
  by (simp_all add: digest_json_def digest_bytes_def omp_host_def)

lemma omp_dirs: "dirs (omp_fs extra) [''h'', ''.agent-system-state'', ''runtimes'', ''omp'']" "dirs (omp_fs extra) [''b'']"
  if "list_all (\<lambda>(q, nd). 5 \<le> length q) extra" for extra
proof -
  have n: "node_at (omp_fs extra) q = node_at (omp_fs []) q" if "length q < 5" for q
  proof -
    have "map_of extra q = None"
      using \<open>list_all (\<lambda>(q, nd). 5 \<le> length q) extra\<close> that by (force simp: map_of_eq_None_iff list_all_iff)
    then show ?thesis by (simp add: node_at_def omp_fs_def map_add_def)
  qed
  have "length q < 5" if "prefix q [''h'', ''.agent-system-state'', ''runtimes'', ''omp''] \<or> prefix q [''b'']" for q
    using that by (auto dest!: prefix_length_le)
  then show "dirs (omp_fs extra) [''h'', ''.agent-system-state'', ''runtimes'', ''omp'']" "dirs (omp_fs extra) [''b'']"
    by (auto simp: dirs_def n) (auto simp: prefix_Cons node_at_def omp_fs_def out_dir_def)
qed

end
