(* ===== verification/OmpProperties.thy ===== *)
theory OmpProperties
  imports OmpSamples
begin

text \<open>
  Properties of generations and of the migration to the user's runtime, each with an instance on a small
  home.
\<close>

section \<open>Generations\<close>

text \<open>C5. Placing a generation: when the placement of an OMP generation succeeds, what lies at its path
  passes the check every later launch makes, of its metadata and of its content digest; when it fails
  and no other process placed that generation, neither the stage nor the generation exists.\<close>

theorem generation_placement:
  assumes G: "G = omp_generation_args H A r rendered stamp"
    and m: "materialize_generation H G (omp_write_payload H E (rn_template r) (ga_generation G)) (manifest_base H r) others
      (verify_profile_generation H r) F = (res, F')"
    and p: "placeable G (''.stage-'' @ stamp) g F" and g: "unused g F" "g \<notin> set (ga_parent G) \<union> set (ga_state_root G)"
    and o: "leaves_stage G others" and n: "\<not> exists_at F (ga_generation G)"
    and b: "plain (VDict (manifest_base H r))" "texts_utf8 (VDict (manifest_base H r))" and h: "\<forall>x. utf8_valid (sha256 H x)"
  shows "case res of
      Inr _ \<Rightarrow> \<exists>v. verify_profile_generation H r (ga_generation G) F' = Inr v
    | Inl _ \<Rightarrow> others = (\<lambda>F. F) \<longrightarrow> (\<forall>q. prefix (ga_stage G) q \<or> prefix (ga_generation G) q \<longrightarrow> node_at F' q = None)"
proof (cases res)
  case (Inr u)
  have k: "''content_digest'' \<notin> set (keys (manifest_base H r))" "set (expected_manifest H r) \<subseteq> set (manifest_base H r)"
    by (simp add: manifest_base_def keys_def) (simp only: manifest_base_def expected_manifest_def list.set insert_subset empty_subsetI insert_iff refl simp_thms)
  have "\<exists>v. verify_generation H F' (ga_generation G) (expected_manifest H r) = Inr v"
    by (rule omp_writer.placed_verifies [OF m [unfolded verify_profile_generation_def Inr] p o b k]) (use h in blast)
  then show ?thesis using Inr by (simp add: verify_profile_generation_def)
next
  case (Inl e)
  have "node_at F' q = None" if "others = (\<lambda>F. F)" "prefix (ga_stage G) q \<or> prefix (ga_generation G) q" for q
    by (rule omp_writer.failed_leaves_nothing [OF m [unfolded that(1) Inl] p g n that(2)])
  then show ?thesis using Inl by simp
qed

definition omp_placed :: generation_args where
  "omp_placed = omp_generation_args omp_host omp_args omp_smp_render [''w''] ''1''"

lemma omp_placed_eq: "omp_placed = \<lparr>ga_parent = [''h'', ''.agent-system-state'', ''renders'', ''omp''],
    ga_generation = [''h'', ''.agent-system-state'', ''renders'', ''omp'', ''0''], ga_source = [''w''],
    ga_state_root = [''h'', ''.agent-system-state''], ga_private_root = [''h''],
    ga_stage = [''h'', ''.agent-system-state'', ''renders'', ''omp'', ''.stage-1'']\<rparr>"
  by (simp add: omp_placed_def omp_generation_args_def omp_generation_def effective_hash_def omp_hash without_prefix_def
      global_render_root_def omp_args_def state_directory_def parent_def)

lemmas omp_placed_paths = omp_placed_eq

lemma omp_manifest: "manifest_base omp_host omp_smp_render = [(''version'', VInt 2), (''profile'', VStr ''general''),
    (''portable_tree_hash'', VStr ''x''), (''effective_render_hash'', VStr ''sha256:0''), (''source_context'', VDict []),
    (''source_digest'', VStr ''d''), (''skills'', VList []), (''runtime_policy'', VDict [])]"
  by (simp add: manifest_base_def effective_hash_def omp_hash omp_smp_render_def)

lemma out_dirs_h: "dirs out_fs [''h'']"
  by (auto simp: dirs_def prefix_Cons out_nodes out_dir_def)

theorem generation_placement_witness:
  "\<exists>F' v. materialize_generation omp_host omp_placed
      (omp_write_payload omp_host omp_engines (rn_template omp_smp_render) (ga_generation omp_placed))
      (manifest_base omp_host omp_smp_render) (\<lambda>F. F) (verify_profile_generation omp_host omp_smp_render) out_fs = (Inr (), F')
     \<and> verify_profile_generation omp_host omp_smp_render (ga_generation omp_placed) F' = Inr v"
proof -
  let ?m = "materialize_generation omp_host omp_placed
      (omp_write_payload omp_host omp_engines (rn_template omp_smp_render) (ga_generation omp_placed))
      (manifest_base omp_host omp_smp_render) (\<lambda>F. F) (verify_profile_generation omp_host omp_smp_render) out_fs"
  have "fst ?m = Inr ()" unfolding omp_placed_eq omp_manifest by code_simp
  then obtain F' where m: "?m = (Inr (), F')" by (cases ?m) auto
  have p: "placeable omp_placed ''.stage-1'' ''0'' out_fs"
    by (auto simp: placeable_def omp_placed_paths ready_for_def unused_def out_dirs out_dirs_h out_nodes GENERATION_MANIFEST_NAME_def split: if_splits)
  have u: "unused ''0'' out_fs" by (auto simp: unused_def out_nodes split: if_splits)
  have n: "\<not> exists_at out_fs (ga_generation omp_placed)" unfolding omp_placed_paths by code_simp
  have b: "plain (VDict (manifest_base omp_host omp_smp_render))" "texts_utf8 (VDict (manifest_base omp_host omp_smp_render))"
    unfolding omp_manifest by code_simp+
  have h: "\<forall>x. utf8_valid (sha256 omp_host x)" by (auto simp: omp_host_def) 
  show ?thesis
    using generation_placement [OF omp_placed_def m, of "''0''"] p u n b h m
    by (auto simp: leaves_stage_def omp_placed_paths)
qed

section \<open>Migration\<close>




definition omp_plan :: "string option \<Rightarrow> summaries \<Rightarrow> plan" where
  "omp_plan label summaries = \<lparr>pl_public = [(''status'', VStr ''ready'')], pl_summaries = summaries, pl_canonical = label,
     pl_config = memory_off, pl_sessions = []\<rparr>"

lemma omp_start:
  assumes "\<And>q. node_at F q \<noteq> None \<Longrightarrow> q \<in> set [[], [''h''], [''b''], [''h'', ''.agent-system-state''], [''h'', ''.agent-system-state'', ''runtimes''],
      [''h'', ''.agent-system-state'', ''runtimes'', ''omp''], omp_home, omp_home @ [''agent.db'']]"
    and "dirs F [''h'', ''.agent-system-state'', ''runtimes'', ''omp'']" "dirs F [''b'']"
  shows "migration_start omp_args omp_home ''1'' ''2'' F"
proof -
  have h: "agent_home_dir omp_args = Inr omp_home" by code_simp
  have gone: "node_at F q = None" if "prefix [''h'', ''.agent-system-state'', ''runtimes'', ''omp'', n] q" "n \<in> {''.omp-stage-1'', ''.omp-old-2''}" for q n
    using assms(1) [of q] that by (cases "node_at F q") (auto simp: omp_home_def)
  have up: "unused ''..'' F" using assms(1) by (fastforce simp: unused_def omp_home_def)
  have mig: "node_at F q = None" if "prefix [''b'', ''migrations''] q" for q
    using assms(1) [of q] that by (cases "node_at F q") (auto simp: omp_home_def)
  show ?thesis
    using assms(2,3) h up gone mig
    by (auto simp: migration_start_def migration_paths_def omp_home_def omp_args_def parent_def)
qed


text \<open>C7. A migration that succeeds leaves a runtime every later launch accepts: it is a private, managed
  directory whose marker names the runtime id and a completed migration, with the MCP policy in place.\<close>

theorem migrated_runtime_ready:
  assumes "migration_start A target stamp stamp' F" and "plan_ok pl"
    and "guarded_migration H E A (ca_runtime_id A) pl (migration_paths A target stamp stamp') F = (Inr u, F')"
    and "plain (migration_marker H (ca_runtime_id A) pl)" and "texts_utf8 (migration_marker H (ca_runtime_id A) pl)"
  shows "require_shared_runtime_ready H F' A = Inr ()"
  by (rule migrated_ready [OF assms])

theorem migrated_runtime_ready_witness:
  "\<exists>F'. guarded_migration omp_host (omp_engines\<lparr>en_yaml_load := \<lambda>_. Some VNone\<rparr>) omp_args ''r'' (omp_plan None [])
      (migration_paths omp_args omp_home ''1'' ''2'') (omp_fs []) = (Inr (), F')
     \<and> require_shared_runtime_ready omp_host F' omp_args = Inr ()"
proof -
  let ?E = "omp_engines\<lparr>en_yaml_load := \<lambda>_. Some VNone\<rparr>"
  let ?b = "build_runtime omp_host ?E omp_args ''r'' (omp_plan None []) (migration_paths omp_args omp_home ''1'' ''2'') (omp_fs [])"
  have "fst ?b = Inr ()" by code_simp
  then obtain F1 where b: "?b = (Inr (), F1)" by (cases ?b) auto
  have st: "migration_start omp_args omp_home ''1'' ''2'' (omp_fs [])"
    using omp_dirs [of "[]"] by (intro omp_start) (auto simp: omp_fs_def node_at_def out_dir_def split: if_splits)
  have ok: "plan_ok (omp_plan None [])" by (simp add: plan_ok_def omp_plan_def)
  have r: "ca_runtime_id omp_args = ''r''" by (simp add: omp_args_def)
  have p: "plain (migration_marker omp_host ''r'' (omp_plan None []))" "texts_utf8 (migration_marker omp_host ''r'' (omp_plan None []))"
    by code_simp+
  have "node_at (omp_fs []) omp_home = None" by (simp add: omp_fs_def node_at_def out_dir_def omp_home_def)
  then obtain F' where m: "guarded_migration omp_host ?E omp_args ''r'' (omp_plan None []) (migration_paths omp_args omp_home ''1'' ''2'') (omp_fs []) = (Inr (), F')"
    using built_runtime_installs [OF st ok b] by blast
  show ?thesis using migrated_runtime_ready [OF st ok, unfolded r, OF m p] m by blast
qed

end
