(* ===== verification/OmpSettings.thy ===== *)
theory OmpSettings
  imports OmpSamples
begin

text \<open>
  Properties of the settings, the environment and the cleanup of the OMP adapter and of the digest the
  adapters share, each with an instance on a small home.
\<close>

section \<open>Settings\<close>

text \<open>C10. Merging the settings of two runtimes: it answers exactly when no setting has different values
  on the two sides, and then every setting of the result comes from one of them, the left one's value
  where both have it, and every setting of either side is there.\<close>

theorem merge_settings_exact:
  "((\<exists>m. merge_runtime_config left right = Inr m) \<longleftrightarrow> settings_agree left right)
    \<and> (\<forall>m v p. merge_runtime_config left right = Inr m \<longrightarrow> \<not> is_dict v \<longrightarrow>
         (at_path (VDict m) p = Some v \<longleftrightarrow>
            at_path (VDict left) p = Some v \<or> at_path (VDict left) p = None \<and> at_path (VDict right) p = Some v))"
  using merge_answers merge_leaf by blast

theorem merge_settings_exact_witness:
  "\<exists>m. merge_runtime_config [(''a'', VDict [(''x'', VInt 1)])] [(''a'', VDict [(''y'', VInt 2)])] = Inr m
     \<and> at_path (VDict m) [''a'', ''y''] = Some (VInt 2)"
proof -
  let ?l = "[(''a'', VDict [(''x'', VInt 1)])]" and ?r = "[(''a'', VDict [(''y'', VInt 2)])]"
  have "settings_agree ?l ?r" by (simp add: settings_agree_at [of ?l ?r] settings_agree_at [of "[(''x'', VInt 1)]" "[(''y'', VInt 2)]"])
  then obtain m where m: "merge_runtime_config ?l ?r = Inr m" using merge_settings_exact [of ?l ?r, THEN conjunct1] by blast
  have "at_path (VDict m) [''a'', ''y''] = Some (VInt 2)"
    using merge_settings_exact [of ?l ?r, THEN conjunct2, rule_format, OF m, of "VInt 2" "[''a'', ''y'']"] by simp
  then show ?thesis using m by blast
qed

text \<open>C8. The configuration a generation hands to OMP: whatever the portable configuration and the user's
  preferences say, memory is off, project MCP servers are off, the only Skills are those of the role
  from the generation itself and every other source of Skills is switched off; and the preferences
  change nothing outside the listed fields.\<close>

theorem rendered_settings_gated:
  assumes "omp_render H E R F A env rendered portable skills = Inr r" and "read_portable_config E F rendered = Inr config"
    and "\<forall>parsed. read_shared_omp_config E F A = Inr parsed \<longrightarrow> distinct (keys parsed)"
  shows "at_path (VDict (rn_template r)) [''memory'', ''backend''] = Some (VStr ''off'')
     \<and> at_path (VDict (rn_template r)) [''mcp'', ''enableProjectConfig''] = Some (VBool False)
     \<and> at_path (VDict (rn_template r)) [''skills'', ''customDirectories''] = Some (VList [VStr (placeholder @ ''/skills'')])
     \<and> at_path (VDict (rn_template r)) [''skills'', ''includeSkills''] = Some (VList (map VStr skills))
     \<and> (\<forall>k \<in> set foreign_skill_switches. at_path (VDict (rn_template r)) [''skills'', k] = Some (VBool False))
     \<and> (\<forall>k. k \<notin> {''memory'', ''mcp'', ''skills''} \<union> set SHARED_PREFERENCE_FIELDS \<longrightarrow> map_of (rn_template r) k = map_of config k)"
proof -
  obtain policy parsed preference where q: "read_shared_omp_config E F A = Inr parsed" "global_preference parsed = Inr preference"
      "effective_config_template config skills policy preference = Inr (rn_template r)"
    using omp_render_policy [OF assms(1)] assms(2) by (metis sum.inject(2))
  note g = template_gates [OF q(3)] and p = preference_fields [OF q(2)]
  have "map_of (rn_template r) k = map_of config k" if "k \<notin> {''memory'', ''mcp'', ''skills''} \<union> set SHARED_PREFERENCE_FIELDS" for k
    using g(6) [of k] p assms(3) q(1) that by (simp del: insert_iff) blast
  then show ?thesis using g(1-5) by blast
qed

definition omp_settings :: fs where
  "omp_settings = (let f = (\<lambda>p c. (p, NFile \<lparr>st_mode = 384, st_uid = 1000, st_dev = 1, st_ino = 9, st_nlink = 1\<rparr> c)) in
     omp_fs [out_dir [''w''] 7, out_dir [''w'', ''.cap''] 7, out_dir [''w'', ''.cap'', ''runtime''] 7, f [''w'', ''.cap'', ''runtime'', ''omp.toml''] ''r'',
       f [''w'', ''.cap'', ''lock.json''] ''{\"clients\":{\"omp\":{\"adapter_version\":1}}}'',
       f [''b'', ''general.binding.json''] ''{\"layer_digest\":\"l\",\"effective_digest\":\"e\"}'',
       out_dir [''h'', ''.omp''] 7, out_dir [''h'', ''.omp'', ''agent''] 7, f [''h'', ''.omp'', ''agent'', ''config.yml''] ''u'',
       out_dir [''t''] 7, f [''t'', ''config.yml''] ''p''])"

definition omp_yaml :: engines where
  "omp_yaml = omp_engines\<lparr>en_yaml_load := (\<lambda>s. map_of [(''u'', VDict [(''memory'', VDict [(''backend'', VStr ''on'')]), (''theme'', VStr ''d'')]),
     (''p'', VDict [(''k'', VInt 1), (''skills'', VDict [(''enablePiUser'', VBool True)])])] s)\<rparr>"

theorem rendered_settings_gated_witness:
  "\<exists>r. omp_render omp_host omp_yaml loop_rules omp_settings omp_args [] [''t''] ''x'' [''s''] = Inr r
     \<and> at_path (VDict (rn_template r)) [''memory'', ''backend''] = Some (VStr ''off'')
     \<and> at_path (VDict (rn_template r)) [''skills'', ''enablePiUser''] = Some (VBool False)
     \<and> map_of (rn_template r) ''k'' = Some (VInt 1)"
proof -
  have "case omp_render omp_host omp_yaml loop_rules omp_settings omp_args [] [''t''] ''x'' [''s''] of Inr _ \<Rightarrow> True | Inl _ \<Rightarrow> False"
    by code_simp
  then obtain r where r: "omp_render omp_host omp_yaml loop_rules omp_settings omp_args [] [''t''] ''x'' [''s''] = Inr r"
    by (auto split: sum.splits)
  have c: "read_portable_config omp_yaml omp_settings [''t''] = Inr [(''k'', VInt 1), (''skills'', VDict [(''enablePiUser'', VBool True)])]"
    by code_simp
  have u: "read_shared_omp_config omp_yaml omp_settings omp_args = Inr [(''memory'', VDict [(''backend'', VStr ''on'')]), (''theme'', VStr ''d'')]"
    by code_simp
  have k: "''enablePiUser'' \<in> set foreign_skill_switches" "''k'' \<notin> {''memory'', ''mcp'', ''skills''} \<union> set SHARED_PREFERENCE_FIELDS"
    by (simp_all add: foreign_skill_switches_def SHARED_PREFERENCE_FIELDS_def)
  have "\<forall>parsed. read_shared_omp_config omp_yaml omp_settings omp_args = Inr parsed \<longrightarrow> distinct (keys parsed)"
    by (simp add: u keys_def)
  then show ?thesis using rendered_settings_gated [OF r c] k r by (auto simp del: Un_iff insert_iff)
qed

section \<open>The environment\<close>

text \<open>C9. The environment of the OMP process, name by name: an endpoint or the broker variables if the
  launch passes them, else one of the eight fixed variables, else nothing for ambient configuration
  and the broker, an empty value for every listed authentication variable and every name that
  looks like a credential, and the caller's value for anything else.\<close>

theorem client_environment_exact:
  assumes "omp_process H F W A env agent_home workdir generation r = Inr client"
  shows "\<exists>dir. omp_config_dir_value agent_home (ca_real_home A) = Inr dir \<and> (\<forall>n. map_of (ps_env client) n =
     (case map_of (rev (rn_env r)) n of Some v \<Rightarrow> Some v
      | None \<Rightarrow> (case map_of (fixed_client_env agent_home generation (ca_real_home A) dir) n of Some v \<Rightarrow> Some v
        | None \<Rightarrow>
          (if n \<in> {''OMP_AUTH_BROKER_URL'', ''OMP_AUTH_BROKER_TOKEN''} then None
           else if n \<in> set cap_OMP_AMBIENT_AUTH_ENV then Some []
           else if n \<in> set cap_AMBIENT_CONFIG_ENV then None
           else if cap_ambient_credential n then map_option (\<lambda>_. []) (map_of env n)
           else map_of env n))))"
proof -
  obtain e where e: "agent_home_env env agent_home generation (ca_real_home A) (rn_env r) = Inr e" "ps_env client = e"
    using assms by (auto simp: omp_process_def bindE_Inr)
  show ?thesis using client_env_lookup [OF e(1)] unfolding e(2) isolated_lookup .
qed

definition omp_smp_world :: omp_world where
  "omp_smp_world = \<lparr>ow_python = ''py'', ow_run = (\<lambda>_. returnS \<lparr>pr_code = 0, pr_out = [], pr_err = []\<rparr>), ow_which = (\<lambda>_. None),
     ow_temporary = [''t''], ow_stamp = ''1'', ow_others = (\<lambda>F. F)\<rparr>"

theorem client_environment_exact_witness:
  "\<exists>client. omp_process omp_host (omp_fs [out_dir [''t''] 7, (''t'' # [''system-prompt.md''], snd (smp_file [] ''p''))]) omp_smp_world omp_args
      [(''OPENAI_API_KEY'', ''k''), (''PATH'', ''/b'')] [''h'', ''a''] [''w''] [''t''] omp_smp_render = Inr client
     \<and> map_of (ps_env client) ''OPENAI_API_KEY'' = Some [] \<and> map_of (ps_env client) ''PATH'' = Some ''/b''"
proof -
  let ?F = "omp_fs [out_dir [''t''] 7, (''t'' # [''system-prompt.md''], snd (smp_file [] ''p''))]"
  let ?e = "[(''OPENAI_API_KEY'', ''k''), (''PATH'', ''/b'')]"
  have "case omp_command ?F (\<lambda>_. None) [''t''] [] [] of Inr _ \<Rightarrow> True | Inl _ \<Rightarrow> False" by code_simp
  then have c: "\<exists>cmd. omp_command ?F (\<lambda>_. None) [''t''] [] [] = Inr cmd" by (auto split: sum.splits)
  have d: "omp_config_dir_value [''h'', ''a''] [''h''] = Inr ''a''" by code_simp
  obtain client where p: "omp_process omp_host ?F omp_smp_world omp_args ?e [''h'', ''a''] [''w''] [''t''] omp_smp_render = Inr client"
    using c d by (auto simp: omp_process_def agent_home_env_def omp_smp_world_def omp_smp_render_def omp_args_def passthrough_def)
  have n: "''OPENAI_API_KEY'' \<notin> set cap_OMP_AMBIENT_AUTH_ENV" "''OPENAI_API_KEY'' \<notin> set cap_AMBIENT_CONFIG_ENV"
    "cap_ambient_credential ''OPENAI_API_KEY''" "''PATH'' \<notin> set cap_OMP_AMBIENT_AUTH_ENV" "''PATH'' \<notin> set cap_AMBIENT_CONFIG_ENV"
    "\<not> cap_ambient_credential ''PATH''" by code_simp+
  show ?thesis
    using client_environment_exact [OF p] p n by (auto simp: omp_smp_render_def fixed_client_env_def)
qed

text \<open>Of the endpoints of the environment only those reach the client that are listed, non-empty, use
  HTTPS or loopback HTTP and carry no credentials, query or fragment; every one of them is passed
  unchanged, and no launch with an endpoint of another kind gets further.\<close>

theorem endpoints_credential_free:
  assumes "shared_provider_endpoints H R env = Inr (endpoints, doc)"
  shows "(\<forall>n. map_of endpoints n = (if n \<in> set SHARED_PROVIDER_ENDPOINT_ENV \<and> map_of env n \<noteq> Some [] then map_of env n else None))
     \<and> (\<forall>n v. map_of endpoints n = Some v \<longrightarrow> (\<exists>u. urlsplit R v = Inr u \<and> https_or_loopback u \<and> CHR ''@'' \<notin> set (su_netloc u)
          \<and> su_query u = [] \<and> su_fragment u = []))"
  using endpoints_lookup [OF assms] by blast

theorem endpoints_credential_free_witness:
  "\<exists>endpoints doc. shared_provider_endpoints omp_host loop_rules [(''OPENAI_BASE_URL'', ''https://a''), (''X'', ''y'')] = Inr (endpoints, doc)
     \<and> map_of endpoints ''OPENAI_BASE_URL'' = Some ''https://a'' \<and> map_of endpoints ''X'' = None"
proof -
  let ?e = "[(''OPENAI_BASE_URL'', ''https://a''), (''X'', ''y'')]"
  have "shared_provider_endpoints omp_host loop_rules ?e = Inr ([(''OPENAI_BASE_URL'', ''https://a'')],
      [(''names'', VList [VStr ''OPENAI_BASE_URL'']), (''digest'', VStr ''sha256:0'')])" by code_simp
  then obtain endpoints doc where e: "shared_provider_endpoints omp_host loop_rules ?e = Inr (endpoints, doc)" by blast
  have "''OPENAI_BASE_URL'' \<in> set SHARED_PROVIDER_ENDPOINT_ENV" "''X'' \<notin> set SHARED_PROVIDER_ENDPOINT_ENV" by code_simp+
  then show ?thesis using endpoints_credential_free [OF e] e by auto
qed

section \<open>Cleaning up\<close>




section \<open>Digests of trees\<close>

text \<open>C12. The content digest of a generation determines the generation: two trees whose digests are equal
  and whose names and contents hold no NUL byte have the same directories, files and contents, unless
  SHA-256 collides on the two streams that were hashed.\<close>

theorem content_digest_identifies:
  assumes "tree_digest H F r [] = Inr h" and "tree_digest H G r' [] = Inr h"
    and "resolve F r = Some d" and "resolve G r' = Some e" and "plain_entries F d" and "plain_entries G e"
  shows "(\<forall>q. q \<noteq> [] \<longrightarrow> seen_at F d q = seen_at G e q)
     \<or> (\<exists>s s'. tree_stream F r [] = Inr s \<and> tree_stream G r' [] = Inr s' \<and> clash H s s')"
proof -
  obtain s s' where s: "tree_stream F r [] = Inr s" "tree_stream G r' [] = Inr s'" "sha256 H s = sha256 H s'"
    using assms(1,2) by (auto simp: tree_digest_def bindE_Inr digest_bytes_def)
  show ?thesis
  proof (cases "s = s'")
    case True
    then show ?thesis using tree_stream_inj [OF s(1) s(2) [folded True] assms(3-6)] by blast
  next
    case False
    then show ?thesis using s by (auto simp: clash_def)
  qed
qed

theorem content_digest_identifies_witness:
  "tree_digest (smp_host\<lparr>sha256 := (\<lambda>s. s)\<rparr>) (omp_fs []) [''b''] [] \<noteq> tree_digest (smp_host\<lparr>sha256 := (\<lambda>s. s)\<rparr>) (omp_fs []) [''h''] []"
proof
  let ?H = "smp_host\<lparr>sha256 := (\<lambda>s. s)\<rparr>"
  assume eq: "tree_digest ?H (omp_fs []) [''b''] [] = tree_digest ?H (omp_fs []) [''h''] []"
  have b: "tree_digest ?H (omp_fs []) [''b''] [] = Inr ''sha256:''" by code_simp
  have r: "resolve (omp_fs []) [''b''] = Some [''b'']" "resolve (omp_fs []) [''h''] = Some [''h'']" by code_simp+
  have p: "plain_entries (omp_fs []) [''b'']" "plain_entries (omp_fs []) [''h'']"
    by (auto simp: plain_entries_def node_at_def omp_fs_def out_dir_def plain_name_def split: if_splits)
  have "seen_at (omp_fs []) [''b''] [''.agent-system-state''] \<noteq> seen_at (omp_fs []) [''h''] [''.agent-system-state'']"
    by (simp add: seen_at_def node_at_def omp_fs_def out_dir_def)
  then show False
    using content_digest_identifies [OF b b [unfolded eq] r p] by (auto simp: clash_def)
qed

end
