(* ===== verification/ClaudePolicy.thy ===== *)
theory ClaudePolicy
  imports OmpLaunch
begin

text \<open>
  The Claude adapter's policy and configuration (\<open>claude/runtime.py\<close>) and its projection to the files
  Claude reads (\<open>claude/native.py\<close>). \<open>ClaudeError\<close> is a subclass of \<open>AdapterError\<close> and is caught nowhere by
  its own name.
\<close>

section \<open>Constants\<close>

definition CLIENT :: string where
  "CLIENT = ''claude''"

definition PERMISSION_MODES :: "string list" where
  "PERMISSION_MODES = [''acceptEdits'', ''auto'', ''bypassPermissions'', ''manual'', ''dontAsk'', ''plan'']"

definition FORBIDDEN_PERMISSION_MODES :: "string list" where
  "FORBIDDEN_PERMISSION_MODES = [''bypassPermissions'']"

definition LOGIN_MODES :: "string list" where
  "LOGIN_MODES = [''subscription'', ''bare'']"

definition UNSUPPORTED_CAPABILITIES :: "string list" where
  "UNSUPPORTED_CAPABILITIES = [''hooks'', ''plugins'']"

definition GLOBAL_PREFERENCE_KEYS :: "string list" where
  "GLOBAL_PREFERENCE_KEYS = [''permission_mode'']"

section \<open>The project's policy\<close>

text \<open>\<open>value in frozenset\<close> for a set of strings: lists and dictionaries have no hash.\<close>

definition in_set :: "val \<Rightarrow> string list \<Rightarrow> bool res" where
  "in_set v names = (case v of
       VList _ \<Rightarrow> Inl (TypeError ''unhashable type: list'')
     | VDict _ \<Rightarrow> Inl (TypeError ''unhashable type: dict'')
     | VStr s \<Rightarrow> Inr (s \<in> set names)
     | _ \<Rightarrow> Inr False)"

definition claude_runtime_policy_path :: "fs \<Rightarrow> cap_args \<Rightarrow> path" where
  "claude_runtime_policy_path F A = resolved_or_same F (ca_project A) @ [''.cap'', ''runtime'', ''claude.toml'']"

definition check_modes :: "dict \<Rightarrow> (val \<times> val) res" where
  "check_modes policy =
     (let login = get_or policy ''login_mode'' (VStr ''subscription'');
          permission = get_or policy ''permission_mode'' (VStr ''manual'') in
      bindE (in_set login LOGIN_MODES) (\<lambda>a.
      if \<not> a then Inl (AdapterError ''Claude policy login_mode must be one of bare, subscription'')
      else
      bindE (in_set permission PERMISSION_MODES) (\<lambda>b.
      if \<not> b then Inl (AdapterError ''Claude policy permission_mode must be one of the permission modes'')
      else
      bindE (in_set permission FORBIDDEN_PERMISSION_MODES) (\<lambda>c.
      if c then Inl (AdapterError ''Claude policy permission_mode is a fixed system gate'')
      else Inr (login, permission)))))"

definition check_claude_policy :: "dict \<Rightarrow> dict res" where
  "check_claude_policy data =
     (if \<not> py_eq (get data ''version'') (VInt 1) \<or> get data ''client'' \<noteq> VStr CLIENT
        then Inl (AdapterError ''Claude runtime policy must target version 1 client claude'')
      else
      bindE (someE (AdapterError ''Claude runtime policy.policy must be a table'') (as_dict (get data ''policy''))) (\<lambda>policy.
      bindE (check_modes policy) (\<lambda>(login, permission).
      let project_mcp = get_or policy ''enable_project_mcp'' (VBool False);
          auto_memory = get_or policy ''auto_memory'' (VBool False) in
      if \<not> is_bool project_mcp then Inl (AdapterError ''Claude policy enable_project_mcp must be boolean'')
      else if \<not> is_bool auto_memory then Inl (AdapterError ''Claude policy auto_memory must be boolean'')
      else if get_or policy ''enable_user_assets'' (VBool False) \<noteq> VBool False
        then Inl (AdapterError ''Claude policy enable_user_assets must be false'')
      else Inr (dict_update policy [(''login_mode'', login), (''permission_mode'', permission),
        (''enable_project_mcp'', project_mcp), (''enable_user_assets'', VBool False), (''auto_memory'', auto_memory)]))))"

definition read_claude_runtime_policy :: "host \<Rightarrow> fs \<Rightarrow> cap_args \<Rightarrow> dict res" where
  "read_claude_runtime_policy H F A =
     bindE (toml_document H F (claude_runtime_policy_path F A) ''invalid Claude runtime policy'') check_claude_policy"

section \<open>The user's preference\<close>

definition read_global_claude_preference :: "fs \<Rightarrow> path \<Rightarrow> dict res" where
  "read_global_claude_preference F runtime_root =
     (let p = runtime_root @ [''settings.json''] in
      if \<not> is_file F p then Inr []
      else
      bindE (wrapE (\<lambda>_. AdapterError ''invalid Claude runtime preference'') (read_json F p)) (\<lambda>v.
      bindE (someE (AdapterError ''Claude runtime preference must be an object'') (as_dict v)) (\<lambda>data.
      Inr (filter (\<lambda>(k, _). k \<in> set GLOBAL_PREFERENCE_KEYS) data))))"

section \<open>The effective configuration\<close>

definition check_unsupported :: "(string \<times> string list) list \<Rightarrow> unit res" where
  "check_unsupported declared = forE (\<lambda>kind. raise_if (map_of declared kind \<notin> {None, Some []})
     (AdapterError ''Claude adapter does not project this capability yet'')) UNSUPPORTED_CAPABILITIES"

definition effective_permission :: "dict \<Rightarrow> dict \<Rightarrow> val res" where
  "effective_permission policy preference =
     bindE (if get policy ''permission_mode'' \<noteq> VNone then Inr (get policy ''permission_mode'')
            else bindE (in_set (get preference ''permission_mode'') PERMISSION_MODES) (\<lambda>known.
              Inr (if known then get preference ''permission_mode'' else VStr ''manual''))) (\<lambda>mode.
     bindE (in_set mode FORBIDDEN_PERMISSION_MODES) (\<lambda>forbidden.
     if forbidden then Inl (AdapterError ''effective permission_mode is a fixed system gate'') else Inr mode))"

definition sorted_items :: "dict \<Rightarrow> dict" where
  "sorted_items d = sort_key fst d"

definition effective_claude_config :: "string list \<Rightarrow> dict \<Rightarrow> dict \<Rightarrow> dict \<Rightarrow> (string \<times> string list) list \<Rightarrow> dict res" where
  "effective_claude_config skill_names mcp_servers policy preference unsupported =
     bindE (check_unsupported unsupported) (\<lambda>_.
     bindE (effective_permission policy preference) (\<lambda>permission.
     bindE (item policy ''login_mode'') (\<lambda>login.
     bindE (item policy ''enable_project_mcp'') (\<lambda>project_mcp.
     bindE (item policy ''auto_memory'') (\<lambda>auto_memory.
     Inr [(''version'', VInt 1), (''client'', VStr CLIENT), (''login_mode'', login),
       (''skills'', VDict [(''include'', strs skill_names), (''enable_user'', VBool False), (''enable_project'', VBool False),
         (''enable_installed_plugins'', VBool False)]),
       (''mcp'', VDict [(''enable_project'', VBool (truthy project_mcp)), (''servers'', VDict (sorted_items mcp_servers))]),
       (''memory'', VDict [(''auto_memory'', VBool (truthy auto_memory)), (''load_user_claude_md'', VBool False),
         (''load_project_claude_md'', VBool True)]),
       (''permissions'', VDict [(''default_mode'', permission), (''allow'', VList []), (''deny'', VList [])]),
       (''prompt'', VDict [(''append_system_prompt_from'', VStr ''system-prompt.md'')]),
       (''unsupported'', strs UNSUPPORTED_CAPABILITIES)])))))"

section \<open>The native files\<close>

definition NATIVE_ROOT :: string where
  "NATIVE_ROOT = ''native''"

definition SETTINGS_PATH :: string where
  "SETTINGS_PATH = NATIVE_ROOT @ ''/settings.json''"

definition MCP_PATH :: string where
  "MCP_PATH = NATIVE_ROOT @ ''/mcp.json''"

definition PLUGIN_ROOT :: string where
  "PLUGIN_ROOT = NATIVE_ROOT @ ''/plugin''"

definition PLUGIN_MANIFEST_PATH :: string where
  "PLUGIN_MANIFEST_PATH = PLUGIN_ROOT @ ''/.claude-plugin/plugin.json''"

definition PLUGIN_SKILLS_ROOT :: string where
  "PLUGIN_SKILLS_ROOT = PLUGIN_ROOT @ ''/skills''"

definition CONSUMED_CONFIG_KEYS :: "string list" where
  "CONSUMED_CONFIG_KEYS = [''version'', ''client'', ''login_mode'', ''skills'', ''mcp'', ''memory'', ''permissions'', ''prompt'', ''unsupported'']"

definition canonical_json_bytes :: "val \<Rightarrow> string" where
  "canonical_json_bytes v = canonical_json v"

definition plugin_name :: "string \<Rightarrow> string" where
  "plugin_name profile_name = ''cap-'' @ profile_name"

definition plugin_manifest :: "string \<Rightarrow> int \<Rightarrow> val" where
  "plugin_manifest profile_name version = VDict [(''name'', VStr (plugin_name profile_name)), (''version'', VStr (''0.0.'' @ show_int version)),
     (''description'', VStr (''CAP-declared skills for profile '' @ profile_name @ ''; delivered read-only for this session only.'')),
     (''author'', VDict [(''name'', VStr ''cap'')]), (''skills'', VStr ''./skills/'')]"

type_synonym native_files = "(string \<times> string) list"

definition native_files_of :: "dict \<Rightarrow> string \<Rightarrow> int \<Rightarrow> native_files" where
  "native_files_of servers profile_name version =
     [(SETTINGS_PATH, canonical_json_bytes (VDict [])),
      (MCP_PATH, canonical_json_bytes (VDict [(''mcpServers'', VDict (sorted_items servers))])),
      (PLUGIN_MANIFEST_PATH, canonical_json_bytes (plugin_manifest profile_name version))]"

definition project_claude_native :: "dict \<Rightarrow> string \<Rightarrow> int \<Rightarrow> native_files res" where
  "project_claude_native config profile_name version =
     (if \<not> set (keys config) \<subseteq> set CONSUMED_CONFIG_KEYS
        then Inl (AdapterError ''Claude native projection does not map configuration fields'')
      else if get config ''client'' \<noteq> VStr ''claude'' \<or> \<not> py_eq (get config ''version'') (VInt 1)
        then Inl (AdapterError ''Claude native projection requires a version 1 claude configuration'')
      else
      bindE (item config ''mcp'') (\<lambda>m.
      bindE (someE (AdapterError ''Claude configuration mcp must be a table'') (as_dict m)) (\<lambda>mcp.
      bindE (someE (AdapterError ''Claude configuration mcp.servers must be a table'') (as_dict (get_or mcp ''servers'' (VDict [])))) (\<lambda>servers.
      bindE (item config ''skills'') (\<lambda>skills.
      bindE (someE (AdapterError ''Claude configuration skills must be a table'') (as_dict skills)) (\<lambda>_.
      Inr (native_files_of servers profile_name version)))))))"

definition native_projection_record :: "native_files \<Rightarrow> int \<Rightarrow> val \<Rightarrow> string \<Rightarrow> dict" where
  "native_projection_record files version unsupported surface_digest =
     [(''adapter_version'', VInt version), (''files'', strs (sort (keys files))), (''unsupported'', unsupported),
      (''verified_surface_digest'', VStr surface_digest)]"

end
