(* ===== verification/ClaudeLaunch.thy ===== *)
theory ClaudeLaunch
  imports ClaudePolicy
begin

text \<open>
  Claude generations (\<open>claude/generation.py\<close>) and launches (\<open>claude/launch.py\<close>): what the effective hash
  covers, what a generation holds, the runtime namespace, the environment and command line, the check
  after the run and the receipt.
\<close>

section \<open>Places and constants\<close>

definition claude_MANIFEST_VERSION :: int where
  "claude_MANIFEST_VERSION = 1"

definition VERIFIED_SURFACE_DIGEST :: string where
  "VERIFIED_SURFACE_DIGEST = ''sha256:715a178ab365bdd9b9f0aa92df3523f703340156c4e4d59ce88fd15131e7098f''"

definition FIXED_LAUNCH_FLAGS :: "string list" where
  "FIXED_LAUNCH_FLAGS = [''--settings'', ''--setting-sources'', ''--mcp-config'', ''--strict-mcp-config'', ''--plugin-dir'',
     ''--append-system-prompt'']"

definition claude_state_root :: "cap_args \<Rightarrow> path" where
  "claude_state_root A = ca_real_home A @ [''.agent-system-state'']"

definition claude_render_root :: "cap_args \<Rightarrow> path" where
  "claude_render_root A = claude_state_root A @ [''renders'', CLIENT]"

definition claude_runtime_id :: "cap_args \<Rightarrow> string" where
  "claude_runtime_id A = ca_claude_runtime_id A"

text \<open>The runtime id is joined as a path: it may have several components.\<close>

definition claude_runtime_dir :: "cap_args \<Rightarrow> path" where
  "claude_runtime_dir A = (let rid = claude_runtime_id A in
     if is_absolute rid then parse_parts rid else claude_state_root A @ [''runtimes'', CLIENT] @ parse_parts rid)"

section \<open>Inputs of a generation\<close>

definition portable_claude_config :: "engines \<Rightarrow> fs \<Rightarrow> path \<Rightarrow> dict res" where
  "portable_claude_config E F rendered =
     (let p = rendered @ [''claude-config.yaml''] in
      if \<not> is_file F p then Inr []
      else
      bindE (read_yaml E F p ''portable Claude configuration is invalid'') (\<lambda>v.
      if v = VNone then Inr [] else someE (AdapterError ''portable Claude configuration must be an object'') (as_dict v)))"

definition portable_mcp_servers :: "fs \<Rightarrow> path \<Rightarrow> dict res" where
  "portable_mcp_servers F rendered =
     (let p = rendered @ [''mcp.json''] in
      if \<not> is_file F p then Inr []
      else
      bindE (wrapE (\<lambda>_. AdapterError ''portable Claude MCP configuration is invalid'') (read_json F p)) (\<lambda>v.
      case v of
        VDict d \<Rightarrow> someE (AdapterError ''portable Claude MCP configuration has no mcpServers'') (as_dict (get d ''mcpServers''))
      | _ \<Rightarrow> Inl (AdapterError ''portable Claude MCP configuration has no mcpServers'')))"

text \<open>\<open>int(value)\<close> on what JSON yields; the text of a number without underscores.\<close>

definition int_text :: "string \<Rightarrow> int res" where
  "int_text s = (let t = strip s; body = (if t \<noteq> [] \<and> hd t \<in> {CHR ''-'', CHR ''+''} then tl t else t) in
     if body \<noteq> [] \<and> list_all is_digit body then Inr (read_int t) else Inl (ValueError ''invalid literal for int()''))"

definition truncated :: "int \<times> int \<Rightarrow> int" where
  "truncated k = (case k of (m, e) \<Rightarrow> if 0 \<le> e then m * 10 ^ nat e else sgn m * (\<bar>m\<bar> div 10 ^ nat (- e)))"

definition py_int :: "val \<Rightarrow> int res" where
  "py_int v = (case v of
       VInt i \<Rightarrow> Inr i
     | VBool b \<Rightarrow> Inr (if b then 1 else 0)
     | VFloat s \<Rightarrow> Inr (truncated (float_key s))
     | VStr s \<Rightarrow> int_text s
     | _ \<Rightarrow> Inl (TypeError ''int() argument''))"

definition claude_adapter_version :: "fs \<Rightarrow> cap_args \<Rightarrow> int res" where
  "claude_adapter_version F A =
     bindE (read_json F (ca_project A @ [''.cap'', ''lock.json''])) (\<lambda>lock.
     bindE (adapter_version_of lock CLIENT) py_int)"

text \<open>Lengths are counted in characters of the text.\<close>

definition MAX_PORTABLE_PATH :: nat where
  "MAX_PORTABLE_PATH = 260"

definition char_count :: "string \<Rightarrow> nat" where
  "char_count s = length (filter (\<lambda>c. \<not> is_cont c) s)"

definition skill_targets :: "fs \<Rightarrow> path \<Rightarrow> path \<Rightarrow> string \<Rightarrow> string list" where
  "skill_targets F rendered target nm =
     (let source = rendered @ [''skills'', nm] in
      if \<not> is_dir F source then []
      else map (\<lambda>p. abs_str (target @ parse_parts PLUGIN_SKILLS_ROOT @ [nm] @ drop (length source) p)) (rglob F source))"

definition check_generation_path_budget :: "fs \<Rightarrow> path \<Rightarrow> path \<Rightarrow> string list \<Rightarrow> unit res" where
  "check_generation_path_budget F rendered target skill_names =
     raise_if (list_ex (\<lambda>c. MAX_PORTABLE_PATH < char_count c) (concat (map (skill_targets F rendered target) skill_names)))
       (AdapterError ''Claude generation would exceed the portable path budget'')"

section \<open>The generation\<close>

text \<open>Everything that is decided before the generation is placed.\<close>

record claude_render =
  cr_profile :: string
  cr_portable :: string
  cr_skills :: "string list"
  cr_config :: dict
  cr_files :: native_files
  cr_projection :: dict
  cr_policy :: dict
  cr_login :: val
  cr_context :: dict
  cr_source_digest :: string

definition sub_get :: "dict \<Rightarrow> string \<Rightarrow> string \<Rightarrow> val" where
  "sub_get d k j = (case get d k of VDict e \<Rightarrow> get e j | _ \<Rightarrow> VNone)"

definition claude_runtime_policy :: "host \<Rightarrow> dict \<Rightarrow> dict \<Rightarrow> dict \<Rightarrow> dict" where
  "claude_runtime_policy H policy preference config =
     [(''project'', VDict policy), (''global_preference_digest'', VStr (digest_json H (VDict preference))),
      (''effective'', VDict [(''login_mode'', get config ''login_mode''), (''permission_mode'', sub_get config ''permissions'' ''default_mode''),
        (''enable_project_mcp'', sub_get config ''mcp'' ''enable_project''), (''auto_memory'', sub_get config ''memory'' ''auto_memory'')])]"

definition claude_launch_doc :: "string list \<Rightarrow> dict \<Rightarrow> val" where
  "claude_launch_doc skill_names runtime_policy =
     VDict [(''flags'', strs FIXED_LAUNCH_FLAGS), (''setting_sources'', VStr []), (''skills'', strs skill_names),
       (''runtime_policy'', VDict runtime_policy)]"

definition claude_effective_hash :: "host \<Rightarrow> claude_render \<Rightarrow> string" where
  "claude_effective_hash H r = digest_json H (VDict [(''version'', VInt claude_MANIFEST_VERSION), (''client'', VStr CLIENT),
     (''source_context'', VDict (cr_context r)), (''source_digest'', VStr (cr_source_digest r)), (''config'', VDict (cr_config r)),
     (''launch'', claude_launch_doc (cr_skills r) (cr_policy r)), (''native_projection'', VDict (cr_projection r))])"

definition claude_generation :: "host \<Rightarrow> cap_args \<Rightarrow> claude_render \<Rightarrow> path" where
  "claude_generation H A r = claude_render_root A @ [without_prefix ''sha256:'' (claude_effective_hash H r)]"

definition claude_expected :: "host \<Rightarrow> claude_render \<Rightarrow> dict" where
  "claude_expected H r = [(''version'', VInt claude_MANIFEST_VERSION), (''client'', VStr CLIENT), (''profile'', VStr (cr_profile r)),
     (''portable_tree_hash'', VStr (cr_portable r)), (''effective_render_hash'', VStr (claude_effective_hash H r)),
     (''source_context'', VDict (cr_context r)), (''source_digest'', VStr (cr_source_digest r)),
     (''runtime_policy'', VDict (cr_policy r)), (''native_projection'', VDict (cr_projection r)), (''login_mode'', cr_login r)]"

definition claude_manifest_base :: "host \<Rightarrow> claude_render \<Rightarrow> dict" where
  "claude_manifest_base H r = claude_expected H r @ [(''skills'', strs (cr_skills r))]"

definition claude_config_of :: "host \<Rightarrow> engines \<Rightarrow> fs \<Rightarrow> cap_args \<Rightarrow> path \<Rightarrow> string list \<Rightarrow> (dict \<times> dict \<times> dict) res" where
  "claude_config_of H E F A rendered skill_names =
     bindE (read_claude_runtime_policy H F A) (\<lambda>policy.
     bindE (read_global_claude_preference F (claude_runtime_dir A)) (\<lambda>preference.
     bindE (portable_mcp_servers F rendered) (\<lambda>servers.
     bindE (effective_claude_config skill_names servers policy preference []) (\<lambda>config.
     bindE (portable_claude_config E F rendered) (\<lambda>portable.
     if portable \<noteq> [] then Inl (AdapterError ''portable Claude configuration must stay empty'')
     else Inr (policy, preference, config))))))"

definition claude_render_of :: "host \<Rightarrow> engines \<Rightarrow> fs \<Rightarrow> cap_args \<Rightarrow> path \<Rightarrow> string \<Rightarrow> string list \<Rightarrow> claude_render res" where
  "claude_render_of H E F A rendered portable_hash skill_names =
     bindE (claude_config_of H E F A rendered skill_names) (\<lambda>(policy, preference, config).
     bindE (claude_adapter_version F A) (\<lambda>version.
     bindE (project_claude_native config (ca_profile A) version) (\<lambda>files.
     let projection = native_projection_record files version (get config ''unsupported'') VERIFIED_SURFACE_DIGEST in
     bindE (generation_source_context H F (ca_profile A) CLIENT (ca_project A) (ca_binding_dir A) portable_hash) (\<lambda>(ctx, source_digest).
     let r = \<lparr>cr_profile = ca_profile A, cr_portable = portable_hash, cr_skills = skill_names, cr_config = config, cr_files = files,
         cr_projection = projection, cr_policy = claude_runtime_policy H policy preference config, cr_login = get config ''login_mode'',
         cr_context = ctx, cr_source_digest = source_digest\<rparr> in
     bindE (check_generation_path_budget F rendered (claude_generation H A r) skill_names) (\<lambda>_. Inr r)))))"

definition write_native :: "host \<Rightarrow> path \<Rightarrow> string \<times> string \<Rightarrow> (fs, unit) st" where
  "write_native H stage = (\<lambda>(relative, data).
     let p = stage @ parse_parts relative in
     bindS (make_dirs H (parent p)) (\<lambda>_. write_text H p data))"

definition deliver_skill :: "host \<Rightarrow> path \<Rightarrow> path \<Rightarrow> string \<Rightarrow> (fs, unit) st" where
  "deliver_skill H source target nm =
     bindS (readS (\<lambda>F. raise_if (\<not> is_dir F (source @ [nm])) (AdapterError ''declared skill is missing from the render''))) (\<lambda>_.
     copytree H (source @ [nm]) (target @ [nm]))"

definition delivered_skills :: "fs \<Rightarrow> path \<Rightarrow> string list res" where
  "delivered_skills F target = bindE (iterdir F target) (\<lambda>names. Inr (sort (filter (\<lambda>n. is_dir F (target @ [n])) names)))"

definition claude_write_payload :: "host \<Rightarrow> engines \<Rightarrow> dict \<Rightarrow> native_files \<Rightarrow> string list \<Rightarrow> path \<Rightarrow> (fs, unit) st" where
  "claude_write_payload H E config files skill_names stage =
     (let target = stage @ parse_parts PLUGIN_SKILLS_ROOT in
      bindS (write_text H (stage @ [''claude-config.yaml'']) (en_yaml_dump E (VDict config))) (\<lambda>_.
      bindS (forS (write_native H stage) (sort_key fst files)) (\<lambda>_.
      bindS (make_dirs H target) (\<lambda>_.
      bindS (forS (deliver_skill H (stage @ [''skills'']) target) skill_names) (\<lambda>_.
      bindS (readS (\<lambda>F. delivered_skills F target)) (\<lambda>delivered.
      readS (\<lambda>_. raise_if (delivered \<noteq> skill_names) (AdapterError ''delivered Claude skills do not match the declared allowlist''))))))))"

definition claude_generation_args :: "host \<Rightarrow> cap_args \<Rightarrow> claude_render \<Rightarrow> path \<Rightarrow> string \<Rightarrow> generation_args" where
  "claude_generation_args H A r rendered stamp = \<lparr>ga_parent = parent (claude_generation H A r), ga_generation = claude_generation H A r,
     ga_source = rendered, ga_state_root = claude_state_root A, ga_private_root = ca_real_home A,
     ga_stage = parent (claude_generation H A r) @ [''.stage-'' @ stamp]\<rparr>"

definition claude_verify :: "host \<Rightarrow> claude_render \<Rightarrow> path \<Rightarrow> fs \<Rightarrow> val res" where
  "claude_verify H r target F = verify_generation H F target (claude_expected H r)"

definition materialize_claude_generation :: "host \<Rightarrow> engines \<Rightarrow> omp_world \<Rightarrow> cap_args \<Rightarrow> env \<Rightarrow> (fs, path \<times> claude_render) st" where
  "materialize_claude_generation H E W A env =
     (let rendered = ow_temporary W in
      with_staging H rendered
       (bindS (render_portable_tree (ow_run W (tool_process W A env
           [''materialize'', ''--client'', CLIENT, ''--profile'', ca_profile A, ''--output'', abs_str rendered])) rendered) (\<lambda>(portable, skills).
        bindS (readS (\<lambda>F. claude_render_of H E F A rendered portable skills)) (\<lambda>r.
        bindS (materialize_generation H (claude_generation_args H A r rendered (ow_stamp W))
          (claude_write_payload H E (cr_config r) (cr_files r) (cr_skills r)) (claude_manifest_base H r) (ow_others W)
          (claude_verify H r)) (\<lambda>_.
        returnS (claude_generation H A r, r))))))"

section \<open>The runtime namespace\<close>

definition RUNTIME_MARKER :: string where
  "RUNTIME_MARKER = ''.cap-claude-runtime.json''"

definition runtime_marker_text :: string where
  "runtime_marker_text = ''{\"version\": 1, \"client\": \"claude\"}'' @ [CHR 0x0A]"

definition require_claude_runtime_ready :: "host \<Rightarrow> cap_args \<Rightarrow> (fs, path) st" where
  "require_claude_runtime_ready H A =
     (let dir = claude_runtime_dir A; home = ca_real_home A; marker = dir @ [RUNTIME_MARKER] in
      bindS (private_directory_ready H home (claude_state_root A)) (\<lambda>_.
      bindS (private_directory_ready H home (parent dir)) (\<lambda>_.
      bindS (private_directory_ready H home dir) (\<lambda>_.
      bindS (readS (\<lambda>F. assert_managed_path F home dir False)) (\<lambda>_.
      bindS (whenS (\<lambda>F. \<not> is_file F marker)
        (bindS (write_text H marker runtime_marker_text) (\<lambda>_. chmod marker 384))) (\<lambda>_.
      returnS dir))))))"

section \<open>Environment and command\<close>

definition CLAUDE_AMBIENT_AUTH_ENV :: "string list" where
  "CLAUDE_AMBIENT_AUTH_ENV = [''ANTHROPIC_API_KEY'', ''ANTHROPIC_AUTH_TOKEN'', ''ANTHROPIC_BASE_URL'', ''ANTHROPIC_CUSTOM_HEADERS'',
     ''ANTHROPIC_MODEL'', ''ANTHROPIC_SEARCH_BASE_URL'', ''AWS_BEARER_TOKEN_BEDROCK'', ''CLAUDE_CODE_CLIENT_CERT'',
     ''CLAUDE_CODE_CLIENT_KEY'', ''CLAUDE_CODE_USE_BEDROCK'', ''CLAUDE_CODE_USE_FOUNDRY'', ''CLAUDE_CODE_USE_VERTEX'']"

definition BARE_MODE_KEPT_ENV :: "string list" where
  "BARE_MODE_KEPT_ENV = [''ANTHROPIC_API_KEY'']"

definition CLAUDE_AMBIENT_CONFIG_ENV :: "string list" where
  "CLAUDE_AMBIENT_CONFIG_ENV = [''CLAUDE_CONFIG_DIR'']"

definition blanked_auth :: "string \<Rightarrow> string list" where
  "blanked_auth login = filter (\<lambda>n. \<not> (login = ''bare'' \<and> n \<in> set BARE_MODE_KEPT_ENV)) CLAUDE_AMBIENT_AUTH_ENV"

definition claude_env :: "env \<Rightarrow> path \<Rightarrow> path \<Rightarrow> string \<Rightarrow> env" where
  "claude_env base runtime_dir real_home login =
     (let env = removed_names (cap_AMBIENT_CONFIG_ENV @ CLAUDE_AMBIENT_CONFIG_ENV) base;
          blank = emptied_names (filter (\<lambda>n. n \<in> set (keys env)) (blanked_auth login)) env in
      dict_set ''CLAUDE_CONFIG_DIR'' (abs_str runtime_dir) (dict_set ''HOME'' (abs_str real_home) blank))"

definition claude_command :: "fs \<Rightarrow> (string \<Rightarrow> string option) \<Rightarrow> path \<Rightarrow> string list \<Rightarrow> string \<Rightarrow> string list \<Rightarrow> string list res" where
  "claude_command F which generation skill_names login forwarded =
     bindE (read_text F (generation @ [''system-prompt.md''])) (\<lambda>prompt.
     Inr ([case which ''claude'' of Some e \<Rightarrow> e | None \<Rightarrow> ''claude''] @ (if login = ''bare'' then [''--bare''] else [])
       @ [''--settings'', abs_str (generation @ parse_parts SETTINGS_PATH), ''--setting-sources'', [], ''--mcp-config'',
          abs_str (generation @ parse_parts MCP_PATH), ''--strict-mcp-config'', ''--append-system-prompt'', strip prompt @ [CHR 0x0A]]
       @ (if skill_names \<noteq> [] then [''--plugin-dir'', abs_str (generation @ parse_parts PLUGIN_ROOT)] else []) @ forwarded))"

definition generation_login_mode :: "fs \<Rightarrow> path \<Rightarrow> string res" where
  "generation_login_mode F generation =
     bindE (read_json F (generation @ [GENERATION_MANIFEST_NAME])) (\<lambda>payload.
     bindE (doc_get payload ''login_mode'') (\<lambda>mode.
     bindE (in_set mode LOGIN_MODES) (\<lambda>known.
     case mode of
       VStr s \<Rightarrow> if known then Inr s else Inl (AdapterError ''Claude generation has no usable login_mode'')
     | _ \<Rightarrow> Inl (AdapterError ''Claude generation has no usable login_mode''))))"

section \<open>The receipt\<close>

definition CLIENT_LIMITED_DIMENSIONS :: "string list" where
  "CLIENT_LIMITED_DIMENSIONS = [''hooks'', ''plugins'', ''bundled_skills'']"

definition effective_observations :: "string \<Rightarrow> dict" where
  "effective_observations login =
     [(''skills'', VStr ''unknown''), (''context'', VStr ''unknown''), (''managed_settings'', VStr ''unknown'')]
     @ map (\<lambda>n. (n, VStr ''reported_client_limited'')) CLIENT_LIMITED_DIMENSIONS
     @ [(''mcps'', VStr (if login = ''bare'' then ''unknown'' else ''reported_client_limited''))]"

text \<open>\<open>str(value)\<close> of the login mode; anything but a string is there only if the client replaced the manifest,
  and of such a value the texts of lists, dictionaries and floating-point numbers are not modelled.\<close>

definition login_text :: "val \<Rightarrow> string res" where
  "login_text v = (case v of
       VStr s \<Rightarrow> Inr s
     | VNone \<Rightarrow> Inr ''None''
     | VBool b \<Rightarrow> Inr (if b then ''True'' else ''False'')
     | VInt i \<Rightarrow> Inr (show_int i)
     | _ \<Rightarrow> Inl (TypeError ''login_mode''))"

definition claude_receipt_doc ::
    "host \<Rightarrow> fs \<Rightarrow> cap_args \<Rightarrow> int \<Rightarrow> path \<Rightarrow> path \<Rightarrow> string \<Rightarrow> string \<Rightarrow> string \<Rightarrow> string list \<Rightarrow> dict res" where
  "claude_receipt_doc H F A code generation runtime_dir portable effective post_digest forwarded =
     bindE (read_json F (generation @ [GENERATION_MANIFEST_NAME])) (\<lambda>m.
     bindE (read_json F (ca_binding_dir A @ [ca_profile A @ ''.binding.json''])) (\<lambda>b.
     bindE (someE (TypeError ''item'') (as_dict m)) (\<lambda>manifest.
     bindE (bindE (item manifest ''login_mode'') login_text) (\<lambda>login.
     bindE (item manifest ''source_context'') (\<lambda>ctx.
     bindE (item manifest ''source_digest'') (\<lambda>source_digest.
     bindE (someE (AttributeError ''get'') (as_dict b)) (\<lambda>binding.
     bindE (iterate (get_or manifest ''skills'' (VTuple []))) (\<lambda>skills.
     bindE (cap_workdir H F A) (\<lambda>workdir.
     Inr [(''version'', VInt 1), (''client'', VStr ''claude''), (''profile'', VStr (ca_profile A)),
       (''runtime_id'', VStr (claude_runtime_id A)), (''global_runtime_root'', VStr (abs_str runtime_dir)),
       (''global_generation'', VStr (abs_str generation)), (''login_mode'', VStr login),
       (''project_root'', VStr (abs_str (ca_project A))), (''project_source_context'', ctx), (''project_source_digest'', source_digest),
       (''runtime_policy'', get_or manifest ''runtime_policy'' (VDict [])),
       (''native_projection'', get_or manifest ''native_projection'' (VDict [])),
       (''base_digest'', get_or binding ''base_digest'' (get binding ''machine_context_digest'')),
       (''layer_digest'', get binding ''layer_digest''), (''effective_digest'', get binding ''effective_digest''),
       (''portable_tree_hash'', VStr portable), (''effective_render_hash'', VStr effective),
       (''post_run_content_digest'', VStr post_digest), (''skills'', VList skills), (''workdir'', VStr (abs_str workdir)),
       (''exit_code'', VInt code), (''forwarded_argument_count'', VInt (int (length forwarded))),
       (''evidence'', VDict [(''declared'', VStr ''ok''), (''configured'', VStr ''generation-verified''), (''effective'', VStr ''unknown'')]),
       (''effective_observations'', VDict (effective_observations login))])))))))))"

definition write_claude_receipt ::
    "host \<Rightarrow> cap_args \<Rightarrow> path \<Rightarrow> int \<Rightarrow> path \<Rightarrow> path \<Rightarrow> string \<Rightarrow> string \<Rightarrow> string \<Rightarrow> string list \<Rightarrow> (fs, dict) st" where
  "write_claude_receipt H A receipt code generation runtime_dir portable effective post_digest forwarded =
     bindS (readS (\<lambda>F. claude_receipt_doc H F A code generation runtime_dir portable effective post_digest forwarded)) (\<lambda>payload.
     bindS (make_dirs H (parent receipt)) (\<lambda>_.
     bindS (write_text H receipt (jwrite Indented 0 (VDict payload) @ [CHR 0x0A])) (\<lambda>_.
     returnS payload)))"

section \<open>The run\<close>

definition claude_process :: "host \<Rightarrow> fs \<Rightarrow> omp_world \<Rightarrow> cap_args \<Rightarrow> env \<Rightarrow> path \<Rightarrow> path \<Rightarrow> claude_render \<Rightarrow> string \<Rightarrow> string list \<Rightarrow> process res" where
  "claude_process H F W A env runtime_dir generation r login forwarded =
     bindE (claude_command F (ow_which W) generation (cr_skills r) login forwarded) (\<lambda>command.
     bindE (cap_workdir H F A) (\<lambda>workdir.
     Inr \<lparr>ps_command = command, ps_cwd = Some workdir, ps_env = claude_env env runtime_dir (ca_real_home A) login, ps_stdin_null = False\<rparr>))"

text \<open>The second materialisation is the check after the run; what it returns is not used.\<close>

definition claude_started :: "host \<Rightarrow> engines \<Rightarrow> omp_world \<Rightarrow> cap_args \<Rightarrow> env \<Rightarrow> string list \<Rightarrow> (fs, path \<times> path \<times> claude_render \<times> process_result) st" where
  "claude_started H E W A env forwarded =
     bindS (require_claude_runtime_ready H A) (\<lambda>runtime_dir.
     bindS (materialize_claude_generation H E W A env) (\<lambda>(generation, r).
     bindS (readS (\<lambda>F. generation_login_mode F generation)) (\<lambda>login.
     bindS (readS (\<lambda>F. claude_process H F W A env runtime_dir generation r login forwarded)) (\<lambda>client.
     bindS (ow_run W client) (\<lambda>completed.
     returnS (runtime_dir, generation, r, completed))))))"

definition claude_rechecked :: "host \<Rightarrow> engines \<Rightarrow> omp_world \<Rightarrow> cap_args \<Rightarrow> env \<Rightarrow> path \<Rightarrow> (fs, string) st" where
  "claude_rechecked H E W A env generation =
     bindS (materialize_claude_generation H E W A env) (\<lambda>_.
     readS (\<lambda>F. tree_digest H F generation [GENERATION_MANIFEST_NAME]))"

definition run_claude :: "host \<Rightarrow> engines \<Rightarrow> omp_world \<Rightarrow> cap_args \<Rightarrow> env \<Rightarrow> string list \<Rightarrow> (fs, int \<times> path \<times> path \<times> dict) st" where
  "run_claude H E W A env forwarded =
     bindS (claude_started H E W A env forwarded) (\<lambda>(runtime_dir, generation, r, completed).
     bindS (claude_rechecked H E W A env generation) (\<lambda>post_digest.
     bindS (case ca_receipt A of Some p \<Rightarrow> returnS p | None \<Rightarrow> run_path H (ow_stamp W) A ''receipt.json'') (\<lambda>receipt.
     bindS (write_claude_receipt H A receipt (pr_code completed) generation runtime_dir (cr_portable r) (claude_effective_hash H r)
       post_digest forwarded) (\<lambda>payload.
     returnS (pr_code completed, generation, receipt, payload)))))"

end
