(* ===== verification/ClaudeGeneration.thy ===== *)
theory ClaudeGeneration
  imports ClaudeLaunch OmpGeneration
begin

text \<open>
  The Claude writer of a generation keeps the contract of \<open>stage_writer\<close>, whatever the names of the
  Skills are: in a stage without links it changes nothing outside the stage and does not touch the
  manifest.
\<close>

lemma native_parts:
  "parse_parts SETTINGS_PATH = [''native'', ''settings.json'']" "parse_parts MCP_PATH = [''native'', ''mcp.json'']"
  "parse_parts PLUGIN_MANIFEST_PATH = [''native'', ''plugin'', ''.claude-plugin'', ''plugin.json'']"
  "parse_parts PLUGIN_SKILLS_ROOT = [''native'', ''plugin'', ''skills'']" "parse_parts PLUGIN_ROOT = [''native'', ''plugin'']"
  by code_simp+

context region
begin

text \<open>A region that holds everything below a path may be copied to without a condition on the names.\<close>

lemma copytree_into:
  assumes i: "inside ps" and b: "\<And>q. R (base @ ps @ q)"
  shows "preservesS (regional R F) (copytree H source (base @ ps))"
proof -
  have "regional R F (snd (forS (copy_entry H G s (d @ [name_of (base @ ps)])) ([] # sort (below G s)) G))"
    if "regional R F G" "resolve G (parent (base @ ps)) = Some d" for G s d
    using copy_entries_regional [of "[] # sort (below G s)" "base @ ps" H G s] parent_resolved [OF that(1) i that(2)] that(1) b
    unfolding preservesS_def by (simp del: forS.simps)
  then show ?thesis unfolding preservesS_def copytree_def by (simp del: forS.simps split: option.split)
qed

lemma copytree_dotdot:
  assumes i: "inside ps" and b: "2 \<le> length ps"
  shows "preservesS (regional R F) (copytree H source (base @ ps @ [''..'']))"
proof -
  have pr: "parent (base @ ps @ [''..'']) = base @ ps" by (simp add: parent_def butlast_append)
  have "lexists G (base @ ps @ [''..''])" if r: "regional R F G" "is_dir G (base @ ps)" for G
  proof -
    obtain d where d: "resolve G (base @ ps) = Some d"
      using r(2) by (auto simp: is_dir_node_eq stat_def bind_eq_Some_conv)
    have "d = base @ ps" using resolved [OF r(1) d] i by simp
    then have "dirs G (base @ ps)" using resolve_root_dirs [OF d] r(2) by simp
    then have w: "resolve G (base @ ps @ [''..'']) = Some (butlast (base @ ps))"
      using walk_dirs [of G "[]" "base @ ps" 40 "[''..'']"] by (simp add: resolve_def)
    have "dirs G (butlast (base @ ps))" using \<open>dirs G (base @ ps)\<close> by (rule dirs_butlast)
    moreover have "butlast (base @ ps) \<noteq> []" using b by (simp add: length_0_conv [symmetric] del: length_0_conv)
    ultimately obtain m where "node_at G (butlast (base @ ps)) = Some (NDir m)" by (auto simp: dirs_def)
    then show ?thesis using w by (simp add: lexists_def lstat_def stat_def)
  qed
  then show ?thesis
    unfolding preservesS_def copytree_def pr by (simp del: forS.simps split: option.split)
qed

end

lemma regional_start: "linkless p F \<Longrightarrow> regional (payload_region p) F F"
  by (auto simp: regional_def payload_region_def linkless_def strict_prefix_def)

lemma parent_snoc: "parent (p @ [x]) = p"
  by (simp add: parent_def)

lemma claude_payload_regional:
  assumes d: "dirs F p"
  shows "preservesS (regional (payload_region p) F) (claude_write_payload H E config (native_files_of servers profile_name version) skills p)"
proof -
  note R = stage_region [OF d]
  have i: "region.inside (payload_region p) p ps" if "ps \<in> {[''claude-config.yaml''], [''native''], [''native'', ''settings.json''],
      [''native'', ''mcp.json''], [''native'', ''plugin'', ''.claude-plugin''], [''native'', ''plugin'', ''.claude-plugin'', ''plugin.json''],
      [''native'', ''plugin'', ''skills'']}" for ps
    by (rule inside_stage [OF d]) (use that in \<open>auto simp: GENERATION_MANIFEST_NAME_def\<close>)
  have skill: "preservesS (regional (payload_region p) F) (deliver_skill H source (p @ [''native'', ''plugin'', ''skills'']) nm)" for source nm
  proof (cases "nm = ''..''")
    case True
    have "preservesS (regional (payload_region p) F) (copytree H (source @ [nm]) (p @ [''native'', ''plugin'', ''skills''] @ [''..'']))"
      by (rule region.copytree_dotdot [OF R]) (use i in simp_all)
    then show ?thesis unfolding deliver_skill_def True by (intro preserves_bind) (simp_all add: preservesS_def readS_def)
  next
    case False
    have "region.inside (payload_region p) p [''native'', ''plugin'', ''skills'', nm]"
      by (rule inside_stage [OF d]) (use False in \<open>auto simp: GENERATION_MANIFEST_NAME_def\<close>)
    then have "preservesS (regional (payload_region p) F) (copytree H (source @ [nm]) (p @ [''native'', ''plugin'', ''skills'', nm]))"
      by (rule region.copytree_into [OF R]) (rule payload_region_below, simp_all add: GENERATION_MANIFEST_NAME_def)
    then show ?thesis unfolding deliver_skill_def by (intro preserves_bind) (simp_all add: preservesS_def readS_def)
  qed
  have "preservesS (regional (payload_region p) F) (write_native H p x)" if "x \<in> set (native_files_of servers profile_name version)" for x
  proof -
    have w: "preservesS (regional (payload_region p) F) (bindS (make_dirs H (p @ qs)) (\<lambda>_. write_text H (p @ qs @ [q]) c))"
      if "region.inside (payload_region p) p qs" "region.inside (payload_region p) p (qs @ [q])" for qs q c
      by (intro preserves_bind region.make_dirs_regional [OF R] region.write_text_regional [OF R]) (use that in simp_all)
    show ?thesis
      using that w [of "[''native'']"] w [of "[''native'', ''plugin'', ''.claude-plugin'']" "''plugin.json''"] i
      by (auto simp: native_files_of_def write_native_def native_parts parent_def butlast_append)
  qed
  then have files: "preservesS (regional (payload_region p) F) (forS (write_native H p) (sort_key fst (native_files_of servers profile_name version)))"
    by (intro preserves_for) simp
  show ?thesis
    unfolding claude_write_payload_def Let_def native_parts
    by (intro preserves_bind files preserves_for skill region.write_text_regional [OF R] region.make_dirs_regional [OF R])
      (use i in \<open>simp_all add: preservesS_def readS_def\<close>)
qed

interpretation claude_writer: stage_writer
  "claude_write_payload H E config (native_files_of servers profile_name version) skills"
proof
  fix p F F' q and r :: "unit res"
  let ?w = "claude_write_payload H E config (native_files_of servers profile_name version) skills p"
  assume d: "dirs F p" and l: "linkless p F" and w: "?w F = (r, F')"
  have "regional (payload_region p) F F" using l by (rule regional_start)
  then have "regional (payload_region p) F (snd (?w F))"
    using claude_payload_regional [OF d, of H E config servers profile_name version skills] by (simp add: preservesS_def)
  then have "regional (payload_region p) F F'" using w by simp
  then show "\<not> strict_prefix p q \<Longrightarrow> node_at F' q = node_at F q"
    and "node_at F' (p @ [GENERATION_MANIFEST_NAME]) = node_at F (p @ [GENERATION_MANIFEST_NAME])"
    by (simp_all add: regional_outside payload_region_def)
qed

end
