(* ===== verification/ClaudeFacts.thy ===== *)
theory ClaudeFacts
  imports ClaudeGeneration OmpFacts
begin

text \<open>
  What the properties of the Claude adapter rest on: the modes a policy can have, the lookups of the
  client's environment, what the name of a generation determines and the runtime namespace.
\<close>

section \<open>Policy and configuration\<close>

lemma in_set_Inr_True: "in_set v names = Inr True \<longleftrightarrow> (\<exists>s. v = VStr s \<and> s \<in> set names)"
  by (cases v) (auto simp: in_set_def)

lemma get_dict_update: "get (dict_update d e) k = (case map_of (rev e) k of Some v \<Rightarrow> v | None \<Rightarrow> get d k)"
  by (simp add: get_def map_of_dict_update split: option.split)

lemma check_modes_Inr:
  assumes "check_modes policy = Inr (login, permission)"
  shows "\<exists>l m. login = VStr l \<and> l \<in> set LOGIN_MODES \<and> permission = VStr m \<and> m \<in> set PERMISSION_MODES \<and> m \<notin> set FORBIDDEN_PERMISSION_MODES"
proof -
  obtain a b c where m: "in_set login LOGIN_MODES = Inr a" "a" "in_set permission PERMISSION_MODES = Inr b" "b"
      "in_set permission FORBIDDEN_PERMISSION_MODES = Inr c" "\<not> c"
    using assms by (auto simp: check_modes_def Let_def bindE_Inr split: if_splits)
  then have t: "in_set login LOGIN_MODES = Inr True" "in_set permission PERMISSION_MODES = Inr True" by simp_all
  show ?thesis
    using t [unfolded in_set_Inr_True] m(5,6) by (auto simp: in_set_def)
qed

lemma check_claude_policy_modes:
  assumes "check_claude_policy data = Inr policy"
  shows "\<exists>l m. get policy ''login_mode'' = VStr l \<and> l \<in> set LOGIN_MODES
    \<and> get policy ''permission_mode'' = VStr m \<and> m \<in> set PERMISSION_MODES \<and> m \<notin> set FORBIDDEN_PERMISSION_MODES"
proof -
  obtain p login permission x y where "check_modes p = Inr (login, permission)"
      "policy = dict_update p [(''login_mode'', login), (''permission_mode'', permission), (''enable_project_mcp'', x),
        (''enable_user_assets'', VBool False), (''auto_memory'', y)]"
    using assms by (auto simp: check_claude_policy_def bindE_Inr Let_def split: if_splits)
  then show ?thesis using check_modes_Inr [of p login permission] by (auto simp: get_dict_update)
qed

text \<open>The preference is read only when the policy names no mode.\<close>

lemma effective_permission_policy: "get policy ''permission_mode'' = VStr m \<Longrightarrow> m \<notin> set FORBIDDEN_PERMISSION_MODES \<Longrightarrow>
    effective_permission policy preference = Inr (VStr m)"
  by (simp add: effective_permission_def in_set_def)

lemma effective_config_ignores_preference:
  assumes "get policy ''permission_mode'' = VStr m" and "m \<notin> set FORBIDDEN_PERMISSION_MODES"
  shows "effective_claude_config skills servers policy preference u = effective_claude_config skills servers policy preference' u"
  by (simp add: effective_claude_config_def effective_permission_policy [OF assms])

lemma effective_config_fields:
  assumes "effective_claude_config skills servers policy preference u = Inr config" and "effective_permission policy preference = Inr mode"
  shows "sub_get config ''permissions'' ''default_mode'' = mode" "sub_get config ''permissions'' ''allow'' = VList []"
    "get config ''login_mode'' = get policy ''login_mode''"
    "get config ''skills'' = VDict [(''include'', strs skills), (''enable_user'', VBool False), (''enable_project'', VBool False),
       (''enable_installed_plugins'', VBool False)]"
    "sub_get config ''mcp'' ''servers'' = VDict (sorted_items servers)"
    "get config ''mcp'' = VDict [(''enable_project'', VBool (truthy (get policy ''enable_project_mcp''))), (''servers'', VDict (sorted_items servers))]"
    "sub_get config ''memory'' ''load_user_claude_md'' = VBool False"
proof -
  obtain l p a where "item policy ''login_mode'' = Inr l" "item policy ''enable_project_mcp'' = Inr p" "item policy ''auto_memory'' = Inr a"
    and c: "config = [(''version'', VInt 1), (''client'', VStr CLIENT), (''login_mode'', l),
       (''skills'', VDict [(''include'', strs skills), (''enable_user'', VBool False), (''enable_project'', VBool False),
         (''enable_installed_plugins'', VBool False)]),
       (''mcp'', VDict [(''enable_project'', VBool (truthy p)), (''servers'', VDict (sorted_items servers))]),
       (''memory'', VDict [(''auto_memory'', VBool (truthy a)), (''load_user_claude_md'', VBool False),
         (''load_project_claude_md'', VBool True)]),
       (''permissions'', VDict [(''default_mode'', mode), (''allow'', VList []), (''deny'', VList [])]),
       (''prompt'', VDict [(''append_system_prompt_from'', VStr ''system-prompt.md'')]),
       (''unsupported'', strs UNSUPPORTED_CAPABILITIES)]"
    using assms by (auto simp: effective_claude_config_def bindE_Inr)
  moreover have "get policy ''login_mode'' = l" "get policy ''enable_project_mcp'' = p"
    using calculation by (auto simp: item_def get_def split: option.splits)
  ultimately show "sub_get config ''permissions'' ''default_mode'' = mode" "sub_get config ''permissions'' ''allow'' = VList []"
    "get config ''login_mode'' = get policy ''login_mode''"
    "get config ''skills'' = VDict [(''include'', strs skills), (''enable_user'', VBool False), (''enable_project'', VBool False),
       (''enable_installed_plugins'', VBool False)]"
    "sub_get config ''mcp'' ''servers'' = VDict (sorted_items servers)"
    "get config ''mcp'' = VDict [(''enable_project'', VBool (truthy (get policy ''enable_project_mcp''))), (''servers'', VDict (sorted_items servers))]"
    "sub_get config ''memory'' ''load_user_claude_md'' = VBool False"
    by (simp_all add: get_def sub_get_def)
qed

lemma native_files_lookup:
  "map_of (native_files_of servers nm version) SETTINGS_PATH = Some (canonical_json (VDict []))"
  "map_of (native_files_of servers nm version) MCP_PATH = Some (canonical_json (VDict [(''mcpServers'', VDict (sorted_items servers))]))"
  by (simp_all add: native_files_of_def canonical_json_bytes_def SETTINGS_PATH_def MCP_PATH_def PLUGIN_MANIFEST_PATH_def PLUGIN_ROOT_def NATIVE_ROOT_def)

lemma project_native_servers:
  assumes "project_claude_native config nm version = Inr files" and "get config ''mcp'' = VDict mcp" and "get mcp ''servers'' = VDict servers"
  shows "files = native_files_of servers nm version"
proof -
  have i: "item config ''mcp'' = Inr (VDict mcp)" using assms(2) by (auto simp: item_def get_def split: option.splits)
  have "get_or mcp ''servers'' d = VDict servers" for d using assms(3) by (auto simp: get_or_def get_def split: option.splits)
  then show ?thesis using assms(1) by (auto simp: project_claude_native_def i bindE_Inr someE_Inr split: if_splits)
qed

section \<open>The environment\<close>

lemma claude_env_lookup:
  "map_of (claude_env base dir home login) n =
     (if n = ''CLAUDE_CONFIG_DIR'' then Some (abs_str dir)
      else if n = ''HOME'' then Some (abs_str home)
      else if n \<in> set cap_AMBIENT_CONFIG_ENV then None
      else if n \<in> set (blanked_auth login) then map_option (\<lambda>_. []) (map_of base n)
      else map_of base n)"
proof -
  let ?e = "removed_names (cap_AMBIENT_CONFIG_ENV @ CLAUDE_AMBIENT_CONFIG_ENV) base"
  have e: "map_of ?e k = (if k \<in> set cap_AMBIENT_CONFIG_ENV \<or> k = ''CLAUDE_CONFIG_DIR'' then None else map_of base k)" for k
    unfolding removed_names_def map_of_pops by (simp add: CLAUDE_AMBIENT_CONFIG_ENV_def)
  have "k \<in> set (keys ?e) \<longleftrightarrow> map_of ?e k \<noteq> None" for k by (simp add: keys_def map_of_eq_None_iff)
  then have b: "map_of (emptied_names (filter (\<lambda>n. n \<in> set (keys ?e)) (blanked_auth login)) ?e) n =
      (if n \<in> set (blanked_auth login) \<and> map_of ?e n \<noteq> None then Some [] else map_of ?e n)"
    unfolding emptied_names_def map_of_blanks by simp
  show ?thesis by (auto simp: claude_env_def Let_def b e)
qed

section \<open>The name of a generation\<close>

definition effective_document :: "claude_render \<Rightarrow> dict" where
  "effective_document r = [(''version'', VInt claude_MANIFEST_VERSION), (''client'', VStr CLIENT),
     (''source_context'', VDict (cr_context r)), (''source_digest'', VStr (cr_source_digest r)), (''config'', VDict (cr_config r)),
     (''launch'', claude_launch_doc (cr_skills r) (cr_policy r)), (''native_projection'', VDict (cr_projection r))]"

lemma effective_hash_document: "claude_effective_hash H r = digest_json H (VDict (effective_document r))"
  by (simp add: claude_effective_hash_def effective_document_def)

lemma canon_get:
  assumes "canon (VDict d) = canon (VDict e)" and "distinct (keys d)" and "distinct (keys e)"
  shows "canon (get d k) = canon (get e k)"
  using get_canon [OF assms(2), of k] get_canon [OF assms(3), of k] assms(1) by simp

lemma canon_strs: "canon (strs xs) = strs xs"
  by (simp add: strs_def)

lemma strs_inj: "strs xs = strs ys \<longleftrightarrow> xs = ys"
  by (simp add: strs_def inj_def)

lemma generation_name_document:
  assumes "claude_generation H A r = claude_generation H B r'" and "inj (sha256 H)"
    and "plain (VDict (effective_document r))" and "plain (VDict (effective_document r'))"
  shows "canon (VDict (effective_document r)) = canon (VDict (effective_document r'))"
proof -
  have "without_prefix ''sha256:'' (digest_json H v) = sha256 H (compact_json v)" for v
    by (simp add: without_prefix_def digest_json_def digest_bytes_def)
  then have "sha256 H (compact_json (VDict (effective_document r))) = sha256 H (compact_json (VDict (effective_document r')))"
    using assms(1) by (simp add: claude_generation_def effective_hash_document)
  then show ?thesis using assms(2-4) compact_json_inj by (auto dest: injD)
qed

lemma effective_document_parts:
  assumes "canon (VDict (effective_document r)) = canon (VDict (effective_document r'))"
  shows "canon (VDict (cr_context r)) = canon (VDict (cr_context r'))" "cr_source_digest r = cr_source_digest r'"
    "canon (VDict (cr_config r)) = canon (VDict (cr_config r'))" "cr_skills r = cr_skills r'"
    "canon (VDict (cr_policy r)) = canon (VDict (cr_policy r'))" "canon (VDict (cr_projection r)) = canon (VDict (cr_projection r'))"
proof -
  have dk: "distinct (keys (effective_document r))" for r by (simp add: effective_document_def keys_def)
  note part = canon_get [OF assms dk dk]
  show "canon (VDict (cr_context r)) = canon (VDict (cr_context r'))" "canon (VDict (cr_config r)) = canon (VDict (cr_config r'))"
    "canon (VDict (cr_projection r)) = canon (VDict (cr_projection r'))"
    using part [of "''source_context''"] part [of "''config''"] part [of "''native_projection''"]
    by (simp_all add: effective_document_def get_def del: canon.simps(2))
  show "cr_source_digest r = cr_source_digest r'" using part [of "''source_digest''"] by (simp add: effective_document_def get_def)
  let ?l = "\<lambda>r. [(''flags'', strs FIXED_LAUNCH_FLAGS), (''setting_sources'', VStr []), (''skills'', strs (cr_skills r)), (''runtime_policy'', VDict (cr_policy r))]"
  have "canon (VDict (?l r)) = canon (VDict (?l r'))"
    using part [of "''launch''"] by (simp add: effective_document_def get_def claude_launch_doc_def del: canon.simps(2))
  note launch = canon_get [OF this]
  show "cr_skills r = cr_skills r'"
    using launch [of "''skills''"] by (simp add: keys_def get_def canon_strs strs_inj)
  show "canon (VDict (cr_policy r)) = canon (VDict (cr_policy r'))"
    using launch [of "''runtime_policy''"] by (simp add: keys_def get_def del: canon.simps(2))
qed

section \<open>The runtime namespace\<close>

lemma private_directory_Inr:
  assumes "private_directory_ready H root p F = (Inr u, F')"
  shows "is_dir F' p" "\<exists>nd. stat F' p = Some nd \<and> (\<forall>uid. geteuid H = Some uid \<longrightarrow> st_uid (node_meta nd) = uid \<and> and (st_mode (node_meta nd)) 63 = 0)"
  using assms
  by (auto simp: private_directory_ready_def validate_private_runtime_def bindS_Inr bindE_Inr someE_Inr raise_if_def is_dir_node_eq
      split: if_splits option.splits dest: is_dir_node_NDir)

lemma mkdirs_keeps_dirs: "mkdirs H m cur ps F = Inr (d, F') \<Longrightarrow> dirs F x \<Longrightarrow> dirs F' x"
proof (induction H m cur ps F rule: mkdirs.induct)
  case (2 H mode cur p ps F)
  show ?case
  proof (cases "resolve F (cur @ [p])")
    case None
    then show ?thesis using "2.IH" "2.prems" by (auto simp: dirs_put_dir split: if_splits)
  next
    case (Some e)
    then show ?thesis using "2.IH" "2.prems" by (auto split: option.splits node.splits)
  qed
qed simp

lemma private_directory_keeps_dirs: "preservesS (\<lambda>F. dirs F x) (private_directory_ready H root p)"
proof -
  have "preservesS (\<lambda>F. dirs F x) (make_private_dirs H p)"
    unfolding make_private_dirs_def make_dirs_def
    by (intro preserves_bind) (auto simp: preservesS_def returnS_def split: sum.splits prod.splits intro: mkdirs_keeps_dirs)
  moreover have "preservesS (\<lambda>F. dirs F x) (chmod p m)" for m
    unfolding preservesS_def chmod_def by (auto simp: dirs_mode split: option.splits)
  ultimately show ?thesis
    unfolding private_directory_ready_def by (intro preserves_bind) (simp_all add: preservesS_def readS_def)
qed

lemma private_directory_mode:
  assumes "private_directory_ready H root p F = (Inr u, F')" and "dirs F' p" and "p \<noteq> []"
  shows "\<exists>m. node_at F' p = Some (NDir m) \<and> st_mode m = 448 \<and> (\<forall>uid. geteuid H = Some uid \<longrightarrow> st_uid m = uid)"
proof -
  obtain m where m: "node_at F' p = Some (NDir m)" using assms(2,3) by (auto simp: dirs_def)
  obtain G where c: "chmod p 448 G = (Inr (), F')" and v: "validate_private_runtime H F' p root = Inr ()"
    using assms(1) by (auto simp: private_directory_ready_def bindS_Inr)
  obtain e nd where e: "resolve G p = Some e" "node_at G e = Some nd" "F' = put_node e (chmod_node 448 nd) G"
    using c by (auto simp: chmod_def split: option.splits)
  have "resolve F' p = Some p" by (rule canonical_resolve [OF dirs_canonical [OF assms(2)]])
  then have s: "stat F' p = Some (NDir m)" using m by (simp add: stat_def)
  have "dirs G p"
    unfolding dirs_def
  proof (intro conjI allI impI)
    fix q
    assume "prefix q p" "q \<noteq> []"
    then obtain k where "node_at F' q = Some (NDir k)" using assms(2) by (auto simp: dirs_def)
    then show "\<exists>k. node_at G q = Some (NDir k)" using e by (cases "q = e") auto
  qed (use assms(2) in \<open>simp add: dirs_def\<close>)
  then have "e = p" using canonical_resolve [OF dirs_canonical] e(1) by simp
  then have "st_mode m = 448" using m e(3) by auto
  moreover have "st_uid m = uid" if "geteuid H = Some uid" for uid
    using v s that by (auto simp: validate_private_runtime_def bindE_Inr split: if_splits)
  ultimately show ?thesis using m by blast
qed

lemma claude_runtime_ready_effect:
  assumes r: "require_claude_runtime_ready H A F = (Inr d, F')" and h: "dirs F (ca_real_home A)" and p: "''..'' \<notin> set (claude_runtime_dir A)"
  shows "d = claude_runtime_dir A \<and> strict_prefix (ca_real_home A) d \<and> dirs F' d \<and> is_file F' (d @ [RUNTIME_MARKER])
    \<and> (\<exists>m. node_at F' d = Some (NDir m) \<and> st_mode m = 448 \<and> (\<forall>uid. geteuid H = Some uid \<longrightarrow> st_uid m = uid))"
proof -
  let ?home = "ca_real_home A" and ?d = "claude_runtime_dir A"
  let ?mark = "bindS (write_text H (?d @ [RUNTIME_MARKER]) runtime_marker_text) (\<lambda>_. chmod (?d @ [RUNTIME_MARKER]) 384)"
  obtain F1 F2 F3 where s: "private_directory_ready H ?home (claude_state_root A) F = (Inr (), F1)"
      "private_directory_ready H ?home (parent ?d) F1 = (Inr (), F2)" "private_directory_ready H ?home ?d F2 = (Inr (), F3)"
    and a: "\<exists>q. assert_managed_path F3 ?home ?d False = Inr q" and d: "d = ?d"
    and m: "whenS (\<lambda>F. \<not> is_file F (?d @ [RUNTIME_MARKER])) ?mark F3 = (Inr (), F')"
    using r by (auto simp: require_claude_runtime_ready_def Let_def bindS_Inr returnS_def)
  have keep: "dirs G' x" if "private_directory_ready H ?home q G = (Inr (), G')" "dirs G x" for G G' q x
    using private_directory_keeps_dirs [of x H ?home q] that by (auto simp: preservesS_def dest: spec [of _ G])
  have "dirs F3 ?home" by (rule keep [OF s(3) keep [OF s(2) keep [OF s(1) h]]])
  then have D: "dirs F3 ?d" "strict_prefix ?home ?d"
    using a managed_path_dirs [OF _ _ p private_directory_Inr(1) [OF s(3)]] by blast+
  then have ne: "?d \<noteq> []" by auto
  note mode = private_directory_mode [OF s(3) D(1) ne]
  show ?thesis
  proof (cases "is_file F3 (?d @ [RUNTIME_MARKER])")
    case True
    then show ?thesis using m D d mode by (simp add: whenS_def)
  next
    case False
    obtain F4 where w: "write_text H (?d @ [RUNTIME_MARKER]) runtime_marker_text F3 = (Inr (), F4)" "chmod (?d @ [RUNTIME_MARKER]) 384 F4 = (Inr (), F')"
      using m False by (auto simp: whenS_def bindS_Inr)
    have R: "resolve F3 ?d = Some ?d" by (rule canonical_resolve [OF dirs_canonical [OF D(1)]])
    have "stat F3 (?d @ [RUNTIME_MARKER]) \<noteq> Some (NFile k c)" for k c using False by (auto simp: is_file_node_eq)
    then have F4: "F4 = put_file H (?d @ [RUNTIME_MARKER]) runtime_marker_text 420 F3"
      using w(1) R by (auto simp: write_text_def stat_def parent_def name_of_def split: option.splits node.splits if_splits bool.splits)
    have d4: "dirs F4 ?d" using D(1) unfolding F4 dirs_def by (auto dest: prefix_length_le)
    have n4: "node_at F4 (?d @ [RUNTIME_MARKER]) = Some (NFile (new_meta H F3 420) runtime_marker_text)" by (simp add: F4)
    have "canonical F4 (?d @ [RUNTIME_MARKER])"
      by (rule canonical_snoc [OF d4 n4]) (simp_all add: RUNTIME_MARKER_def)
    then have "F' = put_node (?d @ [RUNTIME_MARKER]) (chmod_node 384 (NFile (new_meta H F3 420) runtime_marker_text)) F4"
      using w(2) n4 by (auto simp: chmod_def canonical_resolve)
    then have n': "node_at F' q = (if q = ?d @ [RUNTIME_MARKER] then Some (NFile ((new_meta H F3 420)\<lparr>st_mode := 384\<rparr>) runtime_marker_text) else node_at F3 q)" for q
      by (simp add: F4 chmod_node_def)
    have D': "dirs F' ?d" using D(1) unfolding n' dirs_def by (auto dest: prefix_length_le)
    have "node_at F' (?d @ [RUNTIME_MARKER]) = Some (NFile ((new_meta H F3 420)\<lparr>st_mode := 384\<rparr>) runtime_marker_text)" by (simp add: n')
    then have "canonical F' (?d @ [RUNTIME_MARKER])"
      by (rule canonical_snoc [OF D']) (simp_all add: RUNTIME_MARKER_def)
    then have "is_file F' (?d @ [RUNTIME_MARKER])" by (simp add: is_file_node_eq canonical_stat n')
    then show ?thesis using D' D(2) d mode by (auto simp: n')
  qed
qed

end
