(* ===== verification/ClaudeProperties.thy ===== *)
theory ClaudeProperties
  imports ClaudeFacts OmpSamples
begin

text \<open>
  Properties of the Claude adapter, each with an instance on a small home: what the configuration of a
  launch can say, the client's environment, what the name of a generation determines, its placement
  and the runtime namespace.
\<close>

section \<open>The configuration\<close>





section \<open>The environment\<close>

text \<open>C15. The environment and the working directory of the client, name by name: its configuration
  directory is the runtime namespace and its home the real home; the ambient configuration variables are
  absent; every listed authentication variable the caller has is passed empty, the API key of a bare
  login excepted; anything else is the caller's.\<close>

theorem claude_environment_exact:
  assumes "claude_process H F W A env runtime_dir generation r login forwarded = Inr client"
  shows "map_of (ps_env client) n =
     (if n = ''CLAUDE_CONFIG_DIR'' then Some (abs_str runtime_dir)
      else if n = ''HOME'' then Some (abs_str (ca_real_home A))
      else if n \<in> set cap_AMBIENT_CONFIG_ENV then None
      else if n \<in> set CLAUDE_AMBIENT_AUTH_ENV \<and> \<not> (login = ''bare'' \<and> n = ''ANTHROPIC_API_KEY'') then map_option (\<lambda>_. []) (map_of env n)
      else map_of env n)"
proof -
  have "ps_env client = claude_env env runtime_dir (ca_real_home A) login"
    using assms by (auto simp: claude_process_def bindE_Inr)
  then show ?thesis by (simp add: claude_env_lookup blanked_auth_def BARE_MODE_KEPT_ENV_def)
qed

definition claude_world :: omp_world where
  "claude_world = \<lparr>ow_python = ''py'', ow_run = (\<lambda>_. returnS \<lparr>pr_code = 0, pr_out = [], pr_err = []\<rparr>), ow_which = (\<lambda>_. None),
     ow_temporary = [''t''], ow_stamp = ''1'', ow_others = (\<lambda>F. F)\<rparr>"

definition claude_smp_render :: claude_render where
  "claude_smp_render = \<lparr>cr_profile = ''general'', cr_portable = ''x'', cr_skills = [''s''], cr_config = [(''k'', VStr ''v'')], cr_files = [],
     cr_projection = [], cr_policy = [], cr_login = VStr ''subscription'', cr_context = [], cr_source_digest = ''d''\<rparr>"

theorem claude_environment_exact_witness:
  "\<exists>client. claude_process omp_host (omp_fs [out_dir [''w''] 7, out_dir [''t''] 7, (''t'' # [''system-prompt.md''], snd (smp_file [] ''p''))]) claude_world omp_args
      [(''ANTHROPIC_API_KEY'', ''k''), (''CLAUDE_CONFIG_DIR'', ''u''), (''PATH'', ''/b'')] [''h'', ''a''] [''t''] claude_smp_render ''subscription'' [] = Inr client
     \<and> map_of (ps_env client) ''ANTHROPIC_API_KEY'' = Some [] \<and> map_of (ps_env client) ''PATH'' = Some ''/b''
     \<and> map_of (ps_env client) ''CLAUDE_CONFIG_DIR'' = Some ''/h/a''"
proof -
  let ?F = "omp_fs [out_dir [''w''] 7, out_dir [''t''] 7, (''t'' # [''system-prompt.md''], snd (smp_file [] ''p''))]"
  let ?e = "[(''ANTHROPIC_API_KEY'', ''k''), (''CLAUDE_CONFIG_DIR'', ''u''), (''PATH'', ''/b'')]"
  let ?p = "claude_process omp_host ?F claude_world omp_args ?e [''h'', ''a''] [''t''] claude_smp_render ''subscription'' []"
  have "case ?p of Inr _ \<Rightarrow> True | Inl _ \<Rightarrow> False" by code_simp
  then obtain client where p: "?p = Inr client" by (auto split: sum.splits)
  have n: "''ANTHROPIC_API_KEY'' \<notin> set cap_AMBIENT_CONFIG_ENV" "''ANTHROPIC_API_KEY'' \<in> set CLAUDE_AMBIENT_AUTH_ENV"
    "''PATH'' \<notin> set cap_AMBIENT_CONFIG_ENV" "''PATH'' \<notin> set CLAUDE_AMBIENT_AUTH_ENV" "abs_str [''h'', ''a''] = ''/h/a''" by code_simp+
  show ?thesis using claude_environment_exact [OF p] p n by auto
qed

section \<open>Generations\<close>



text \<open>A Claude generation that was placed passes the check every later launch makes.\<close>

theorem claude_generation_placed:
  assumes G: "G = claude_generation_args H A r rendered stamp"
    and m: "materialize_generation H G (claude_write_payload H E (cr_config r) (native_files_of servers (cr_profile r) version) (cr_skills r))
      (claude_manifest_base H r) others (claude_verify H r) F = (Inr u, F')"
    and p: "placeable G (''.stage-'' @ stamp) g F" and o: "leaves_stage G others"
    and b: "plain (VDict (claude_manifest_base H r))" "texts_utf8 (VDict (claude_manifest_base H r))" and h: "\<forall>x. utf8_valid (sha256 H x)"
  shows "\<exists>v. claude_verify H r (ga_generation G) F' = Inr v"
proof -
  have k: "''content_digest'' \<notin> set (keys (claude_manifest_base H r))" "set (claude_expected H r) \<subseteq> set (claude_manifest_base H r)"
    by (simp add: claude_manifest_base_def claude_expected_def keys_def) (auto simp: claude_manifest_base_def)
  have "\<exists>v. verify_generation H F' (ga_generation G) (claude_expected H r) = Inr v"
    by (rule claude_writer.placed_verifies [OF m [unfolded claude_verify_def] p o b k]) (use h in blast)
  then show ?thesis by (simp add: claude_verify_def)
qed

section \<open>The runtime namespace\<close>



end
