(* ===== verification/SkillMetadata.thy ===== *)
theory SkillMetadata
  imports Observe OmpState
begin

text \<open>
  The metadata check of \<open>cap skills-validate\<close> and \<open>cap verify\<close> (\<open>cap/cli.py\<close>): the reader of the restricted
  YAML frontmatter of a \<open>SKILL.md\<close> and the report over all Skills of a project.
\<close>

section \<open>Scalars\<close>

definition decode_frontmatter_scalar :: "string \<Rightarrow> string res" where
  "decode_frontmatter_scalar raw =
     (let value = strip raw in
      case value of
        [] \<Rightarrow> Inl (ValueError ''empty metadata value'')
      | c # rest \<Rightarrow>
          (if c = CHR 0x22
           then bindE (wrapE (\<lambda>_. ValueError ''invalid double-quoted scalar'') (loads False value)) (\<lambda>v.
                someE (ValueError ''metadata must be a string'') (as_str v))
           else if c = CHR 0x27
           then (if rest = [] \<or> last rest \<noteq> CHR 0x27 then Inl (ValueError ''invalid single-quoted scalar'')
                 else Inr (str_replace (butlast rest) [CHR 0x27, CHR 0x27] [CHR 0x27]))
           else if c \<in> set ''|>[{&*!'' then Inl (ValueError ''only simple strings are allowed'')
           else Inr value))"

definition decode_frontmatter_block :: "engines \<Rightarrow> string \<Rightarrow> string list \<Rightarrow> string res" where
  "decode_frontmatter_block E marker block_lines =
     bindE (someE (ValueError ''invalid block scalar'')
       (en_yaml_load E (''value: '' @ marker @ [CHR 0x0A] @ join [CHR 0x0A] block_lines))) (\<lambda>decoded.
     case (case decoded of VDict d \<Rightarrow> get d ''value'' | _ \<Rightarrow> VNone) of
       VStr s \<Rightarrow> if strip s = [] then Inl (ValueError ''empty metadata value'') else Inr s
     | _ \<Rightarrow> Inl (ValueError ''empty metadata value''))"

text \<open>\<open>BLOCK_SCALAR_PATTERN.fullmatch\<close> and the characters of a field name.\<close>

definition block_marker :: "string \<Rightarrow> bool" where
  "block_marker m = (case m of
       [] \<Rightarrow> False
     | c # r \<Rightarrow> c \<in> {CHR ''>'', CHR ''|''} \<and> (r = [] \<or> r = ''-'' \<or> r = ''+''))"

definition field_char :: "char \<Rightarrow> bool" where
  "field_char c = (is_lower c \<or> is_upper c \<or> is_digit c \<or> c = CHR ''_'' \<or> c = CHR ''-'')"

definition field_name :: "string \<Rightarrow> bool" where
  "field_name key = (key \<noteq> [] \<and> list_all field_char key)"

section \<open>The fields\<close>

text \<open>One line that starts a field: its key and the raw text after the colon.\<close>

definition field_line :: "(string \<times> string) list \<Rightarrow> string \<Rightarrow> (string \<times> string) res" where
  "field_line metadata line =
     (if is_space (hd line) then Inl (ValueError ''nested frontmatter is not allowed'')
      else case partition_at CHR '':'' line of (key, separator, raw) \<Rightarrow>
        if \<not> separator \<or> \<not> field_name key then Inl (ValueError ''invalid frontmatter field'')
        else if key \<in> set (keys metadata) then Inl (ValueError ''duplicate frontmatter field'')
        else Inr (key, raw))"

definition skipped_line :: "string \<Rightarrow> bool" where
  "skipped_line line = (strip line = [] \<or> prefix ''#'' (strip line))"

definition continues_block :: "string \<Rightarrow> bool" where
  "continues_block line = (line = [] \<or> is_space (hd line))"

text \<open>The loop over the lines between the delimiters; a block scalar takes the lines that continue it.\<close>

function read_fields :: "engines \<Rightarrow> (string \<times> string) list \<Rightarrow> string list \<Rightarrow> (string \<times> string) list res" where
  "read_fields E metadata [] = Inr metadata"
| "read_fields E metadata (line # rest) =
     (if skipped_line line then read_fields E metadata rest
      else
      bindE (field_line metadata line) (\<lambda>(key, raw).
      if block_marker (strip raw)
      then bindE (decode_frontmatter_block E (strip raw) (takeWhile continues_block rest)) (\<lambda>v.
           read_fields E (metadata @ [(key, v)]) (dropWhile continues_block rest))
      else bindE (decode_frontmatter_scalar raw) (\<lambda>v. read_fields E (metadata @ [(key, v)]) rest)))"
  by pat_completeness auto

termination
  by (relation "measure (\<lambda>(E, metadata, ls). length ls)") (auto simp: le_imp_less_Suc length_dropWhile_le)

definition frontmatter :: "string list \<Rightarrow> string list res" where
  "frontmatter ls =
     (if ls = [] \<or> strip (hd ls) \<noteq> ''---'' then Inl (ValueError ''missing frontmatter start'')
      else if list_ex (\<lambda>l. strip l = ''---'') (tl ls) then Inr (takeWhile (\<lambda>l. strip l \<noteq> ''---'') (tl ls))
      else Inl (ValueError ''missing frontmatter end''))"

definition metadata_of_lines :: "engines \<Rightarrow> string list \<Rightarrow> (string \<times> string) list res" where
  "metadata_of_lines E ls = bindE (frontmatter ls) (read_fields E [])"

definition read_skill_metadata :: "engines \<Rightarrow> fs \<Rightarrow> path \<Rightarrow> (string \<times> string) list res" where
  "read_skill_metadata E F p = bindE (read_text F p) (\<lambda>text. metadata_of_lines E (splitlines text))"

section \<open>The report\<close>

text \<open>The issues with the part of their message that varies; paths are relative to the project.\<close>

datatype issue =
    Store_missing
  | Project_invalid
  | Import_shadows string
  | Skill_symlink string
  | Skill_missing string
  | Metadata_invalid err
  | Name_invalid string
  | Name_differs string string string
  | Description_invalid string

definition metadata_handled :: "err \<Rightarrow> bool" where
  "metadata_handled e = (case e of OSError _ \<Rightarrow> True | UnicodeError \<Rightarrow> True | ValueError _ \<Rightarrow> True | _ \<Rightarrow> False)"

definition text_length :: "string \<Rightarrow> nat" where
  "text_length s = length (code_points s)"

definition field_issues :: "string \<Rightarrow> string \<Rightarrow> (string \<times> string) list \<Rightarrow> issue list" where
  "field_issues relative skill_id metadata =
     (let nm = (case map_of metadata ''name'' of Some n \<Rightarrow> n | None \<Rightarrow> []);
          description = (case map_of metadata ''description'' of Some s \<Rightarrow> s | None \<Rightarrow> []) in
      (if \<not> (1 \<le> text_length nm \<and> text_length nm \<le> 64) \<or> \<not> skill_name nm then [Name_invalid relative]
       else if nm \<noteq> skill_id then [Name_differs relative nm skill_id] else [])
      @ (if 1 \<le> text_length description \<and> text_length description \<le> 1024 then [] else [Description_invalid relative]))"

text \<open>One Skill: its issues, and its entry when the metadata could be read.\<close>

definition skill_entry :: "engines \<Rightarrow> fs \<Rightarrow> path \<Rightarrow> string \<times> path \<Rightarrow> (issue list \<times> dict list) res" where
  "skill_entry E F project = (\<lambda>(skill_id, dir).
     let file = dir @ [''SKILL.md''] in
     bindE (someE (ValueError ''relative_to'') (relative_to project file)) (\<lambda>r.
     let relative = posix r in
     if is_symlink F dir \<or> is_symlink F file then Inr ([Skill_symlink relative], [])
     else if \<not> is_file F file then Inr ([Skill_missing relative], [])
     else case read_skill_metadata E F file of
       Inl e \<Rightarrow> if metadata_handled e then Inr ([Metadata_invalid e], []) else Inl e
     | Inr metadata \<Rightarrow>
         Inr (field_issues relative skill_id metadata,
           [[(''id'', VStr skill_id), (''path'', VStr relative),
             (''name'', VStr (case map_of metadata ''name'' of Some n \<Rightarrow> n | None \<Rightarrow> []))]])))"

definition store_skills :: "fs \<Rightarrow> path \<Rightarrow> (issue list \<times> (string \<times> path) list) res" where
  "store_skills F project =
     (let root = project @ [''.cap'', ''capabilities'', ''skills''] in
      if \<not> is_dir F root then Inr ([Store_missing], [])
      else bindE (iterdir F root) (\<lambda>names.
        Inr ([], map (\<lambda>n. (n, root @ [n])) (filter (\<lambda>n. is_dir F (root @ [n])) names))))"

definition add_import :: "issue list \<times> (string \<times> path) list \<Rightarrow> string \<times> skill_import \<Rightarrow> issue list \<times> (string \<times> path) list" where
  "add_import = (\<lambda>(issues, dirs) (nm, imported).
     if nm \<in> set (keys dirs) then (issues @ [Import_shadows nm], dirs) else (issues, dict_set nm (imp_source imported) dirs))"

definition all_skills :: "host \<Rightarrow> fs \<Rightarrow> path \<Rightarrow> (issue list \<times> (string \<times> path) list) res" where
  "all_skills H F project =
     bindE (store_skills F project) (\<lambda>(issues, dirs).
     case load_project H F project None of
       Inr P \<Rightarrow> Inr (foldl add_import (issues, dirs) (pr_skill_imports P))
     | Inl (ProfileError m) \<Rightarrow> Inr (issues @ [Project_invalid], dirs)
     | Inl e \<Rightarrow> Inl e)"

record skill_report =
  rp_skills :: "dict list"
  rp_issues :: "issue list"

definition conforms :: "skill_report \<Rightarrow> bool" where
  "conforms r = (rp_issues r = [])"

definition skill_metadata_report :: "host \<Rightarrow> engines \<Rightarrow> fs \<Rightarrow> path \<Rightarrow> skill_report res" where
  "skill_metadata_report H E F project =
     bindE (all_skills H F project) (\<lambda>(issues, dirs).
     bindE (mapE (skill_entry E F project) (sort_key fst dirs)) (\<lambda>entries.
     Inr \<lparr>rp_skills = concat (map snd entries), rp_issues = issues @ concat (map fst entries)\<rparr>))"

end
