(* ===== verification/CapCli.thy ===== *)
theory CapCli
  imports ClaudeLaunch SkillMetadata Launch
begin

text \<open>
  The \<open>cap\<close> command (\<open>cap/cli.py\<close>): the engine's command lines, the profile list, the two menus, previews, the
  dispatch to an adapter or to the engine, and \<open>main\<close> after the arguments are parsed. A result is the exit
  status with what is printed to standard output; messages on standard error are left out.
\<close>

section \<open>Command lines of the engine\<close>

definition receipt_target :: "host \<Rightarrow> string \<Rightarrow> cap_args \<Rightarrow> (fs, path) st" where
  "receipt_target H stamp A = (case ca_receipt A of Some p \<Rightarrow> returnS p | None \<Rightarrow> run_path H stamp A ''receipt.json'')"

definition state_target :: "host \<Rightarrow> string \<Rightarrow> cap_args \<Rightarrow> (fs, string) st" where
  "state_target H stamp A = (case ca_state A of
       Some (c # s) \<Rightarrow> returnS (c # s)
     | _ \<Rightarrow> bindS (run_path H stamp A ''state'') (\<lambda>p. returnS (abs_str p)))"

definition launch_args :: "host \<Rightarrow> omp_world \<Rightarrow> cap_args \<Rightarrow> (fs, string list) st" where
  "launch_args H W A =
     bindS (receipt_target H (ow_stamp W) A) (\<lambda>receipt.
     bindS (make_dirs H (parent receipt)) (\<lambda>_.
     bindS (readS (\<lambda>F. cap_workdir H F A)) (\<lambda>workdir.
     returnS (tool_args (ow_python W) A @ [''launch'', ''--client'', ca_cli A, ''--profile'', ca_profile A,
       ''--auth-root'', abs_str (ca_auth_root A), ''--receipt'', abs_str receipt, ''--workdir'', abs_str workdir]
       @ binding_args A @ [''--''] @ passthrough (ca_client_args A)))))"

definition run_args_of :: "host \<Rightarrow> omp_world \<Rightarrow> cap_args \<Rightarrow> (fs, string list) st" where
  "run_args_of H W A =
     bindS (state_target H (ow_stamp W) A) (\<lambda>state.
     bindS (make_dirs H (path_join (cwd H) state)) (\<lambda>_.
     bindS (readS (\<lambda>F. cap_workdir H F A)) (\<lambda>workdir.
     returnS (tool_args (ow_python W) A @ [''run'', ''--client'', ca_cli A, ''--profile'', ca_profile A,
       ''--auth-root'', abs_str (ca_auth_root A), ''--state'', state, ''--workdir'', abs_str workdir]
       @ binding_args A @ [''--''] @ passthrough (ca_client_args A)))))"

definition profile_args :: "host \<Rightarrow> omp_world \<Rightarrow> cap_args \<Rightarrow> (fs, string list) st" where
  "profile_args H W A =
     (let base = tool_args (ow_python W) A; command = ca_tool_command A in
      if command = ''list'' \<or> command = ''lock'' then returnS (base @ [command])
      else if command = ''machine-context-lock''
        then returnS (base @ [''machine-context-lock'', ''--home'', abs_str (ca_home A),
          ''--machine-context-manifest'', abs_str (ca_base_manifest A)])
      else if command = ''machine-context-approve''
        then returnS (base @ [''machine-context-approve'', ''--machine-context-manifest'', abs_str (ca_base_manifest A),
          ''--machine-context-pin'', abs_str (ca_base_pin A)])
      else if command = ''bind'' then returnS (base @ [''assembly-bind'', ''--profile'', ca_profile A] @ binding_args A)
      else if command = ''verify'' then returnS (base @ [command] @ binding_args A)
      else if command = ''explain'' then returnS (base @ [''explain'', ''--profile'', ca_profile A])
      else if command = ''materialize''
        then returnS (base @ [''materialize'', ''--client'', ca_cli A, ''--profile'', ca_profile A, ''--output'', ca_output A] @ binding_args A)
      else if command = ''launch'' then launch_args H W A
      else if command = ''run'' then run_args_of H W A
      else readS (\<lambda>_. Inl (RuntimeError ''unsupported command'')))"

definition plain_process :: "env \<Rightarrow> string list \<Rightarrow> process" where
  "plain_process env command = \<lparr>ps_command = command, ps_cwd = None, ps_env = env, ps_stdin_null = False\<rparr>"

definition profile_json :: "host \<Rightarrow> omp_world \<Rightarrow> cap_args \<Rightarrow> env \<Rightarrow> (fs, dict option) st" where
  "profile_json H W A env = (\<lambda>F. case bindS (profile_args H W A) (\<lambda>command. ow_run W (plain_process env command)) F of
       (Inl (OSError m), F') \<Rightarrow> (Inr None, F')
     | (Inl e, F') \<Rightarrow> (Inl e, F')
     | (Inr completed, F') \<Rightarrow>
         (Inr (if pr_code completed \<noteq> 0 then None
               else case loads False (pr_out completed) of Inr (VDict d) \<Rightarrow> Some d | _ \<Rightarrow> None), F'))"

section \<open>Clients and profiles\<close>

text \<open>A process that cannot be started or exceeds its time fails with \<open>OSError\<close>.\<close>

definition client_version :: "host \<Rightarrow> omp_world \<Rightarrow> string \<Rightarrow> (fs, string \<times> val) st" where
  "client_version H W nm = (\<lambda>F.
     let doc = (\<lambda>found code out. (nm, VDict [(''path'', found), (''version'', VDict [(''exit_code'', code), (''output'', out)])])) in
     case ow_which W nm of
       None \<Rightarrow> (Inr (doc VNone VNone VNone), F)
     | Some exe \<Rightarrow> (case ow_run W (plain_process (environ H) [exe, ''--version'']) F of
           (Inr completed, F') \<Rightarrow> (Inr (doc (VStr exe) (VInt (pr_code completed)) (VStr (strip (pr_out completed @ pr_err completed)))), F')
         | (Inl (OSError m), F') \<Rightarrow> (Inr (doc (VStr exe) VNone (VStr m)), F')
         | (Inl e, F') \<Rightarrow> (Inl e, F')))"

definition client_inventory :: "host \<Rightarrow> omp_world \<Rightarrow> (fs, val) st" where
  "client_inventory H W = bindS (mapS (client_version H W) cap_CLIENTS) (\<lambda>clients. returnS (VDict [(''clients'', VDict clients)]))"

definition listed_profiles :: "process_result \<Rightarrow> string list res" where
  "listed_profiles completed =
     (if pr_code completed \<noteq> 0 then Inr []
      else case loads False (pr_out completed) of
        Inl e \<Rightarrow> Inr []
      | Inr v \<Rightarrow>
          bindE (someE (AttributeError ''get'') (as_dict v)) (\<lambda>data.
          bindE (iterate (get_or data ''profiles'' (VList []))) (\<lambda>profiles.
          Inr (filter (\<lambda>nm. VStr nm \<in> set profiles) RUNNABLE_PROFILES))))"

definition available_profiles :: "omp_world \<Rightarrow> cap_args \<Rightarrow> env \<Rightarrow> (fs, string list) st" where
  "available_profiles W A env =
     bindS (ow_run W (plain_process env [ow_python W, abs_str (ca_profile_tool A), ''--project'', abs_str (ca_project A), ''list''])) (\<lambda>completed.
     readS (\<lambda>_. listed_profiles completed))"

section \<open>Choosing\<close>

text \<open>One answer to a numbered list: a number, a choice or the label of a choice.\<close>

definition chosen :: "string list \<Rightarrow> string \<Rightarrow> (string \<times> string) list \<Rightarrow> string \<Rightarrow> string option" where
  "chosen choices preset names raw =
     (if raw = [] then Some preset
      else if list_all is_digit raw \<and> 1 \<le> read_int raw \<and> read_int raw \<le> int (length choices)
        then Some (choices ! nat (read_int raw - 1))
      else if raw \<in> set choices then Some raw
      else map_option fst (find (\<lambda>(choice, display). raw = display) names))"

text \<open>The answers typed so far; without another one \<open>input\<close> raises \<open>EOFError\<close>.\<close>

fun choose_from :: "string list \<Rightarrow> string \<Rightarrow> (string \<times> string) list \<Rightarrow> string list \<Rightarrow> (string \<times> string list) res" where
  "choose_from choices preset names [] = Inl (RuntimeError ''EOFError'')"
| "choose_from choices preset names (line # lines) =
     (case chosen choices preset names (strip line) of
        Some choice \<Rightarrow> Inr (choice, lines)
      | None \<Rightarrow> choose_from choices preset names lines)"

definition PROFILE_LABELS :: "(string \<times> string) list" where
  "PROFILE_LABELS =
     [(''general'', [CHR 0xE9, CHR 0x80, CHR 0x9A, CHR 0xE7, CHR 0x94, CHR 0xA8, CHR 0xE5, CHR 0xB7, CHR 0xA5, CHR 0xE7, CHR 0xA8, CHR 0x8B]),
      (''agent-assembler'', ''Agent '' @ [CHR 0xE8, CHR 0xA3, CHR 0x85, CHR 0xE9, CHR 0x85, CHR 0x8D, CHR 0xE8, CHR 0x80, CHR 0x85])]"

text \<open>The menu on the terminal: the keys are numbers the curses module fixes.\<close>

record menu_keys =
  mk_up :: int
  mk_down :: int
  mk_left :: int
  mk_enter :: int

datatype menu_step = Selected nat | Result int

definition menu_key :: "menu_keys \<Rightarrow> nat \<Rightarrow> nat \<Rightarrow> int \<Rightarrow> menu_step" where
  "menu_key K n selected key =
     (if key \<in> {mk_up K, 107} then Selected (nat ((int selected - 1) mod int n))
      else if key \<in> {mk_down K, 106} then Selected (nat ((int selected + 1) mod int n))
      else if key \<in> {mk_left K, 98} then Result (- 1)
      else if key \<in> {27, 113} then Result (- 2)
      else if key \<in> {mk_enter K, 10, 13} then Result (int selected)
      else Selected selected)"

fun tui_menu :: "menu_keys \<Rightarrow> nat \<Rightarrow> nat \<Rightarrow> int list \<Rightarrow> int option" where
  "tui_menu K n selected [] = None"
| "tui_menu K n selected (key # rest) = (case menu_key K n selected key of
       Result r \<Rightarrow> Some r
     | Selected s \<Rightarrow> tui_menu K n s rest)"

fun index_of :: "string \<Rightarrow> string list \<Rightarrow> nat" where
  "index_of x [] = 0"
| "index_of x (y # ys) = (if x = y then 0 else Suc (index_of x ys))"

definition default_index :: "string list \<Rightarrow> nat" where
  "default_index profiles = (if DEFAULT_PROFILE \<in> set profiles then index_of DEFAULT_PROFILE profiles else 0)"

definition tui_profile :: "menu_keys \<Rightarrow> string list \<Rightarrow> int list \<Rightarrow> string option res" where
  "tui_profile K profiles pressed = (case tui_menu K (length profiles) (default_index profiles) pressed of
       None \<Rightarrow> Inl (RuntimeError ''no key'')
     | Some r \<Rightarrow> Inr (if r < 0 then None else Some (profiles ! nat r)))"

section \<open>Adapters\<close>

text \<open>The preview of OMP: \<open>_materialize_profile_generation\<close> returns five values, four are unpacked.\<close>

definition omp_effective_preview :: "host \<Rightarrow> engines \<Rightarrow> url_rules \<Rightarrow> omp_world \<Rightarrow> cap_args \<Rightarrow> env \<Rightarrow> (fs, dict) st" where
  "omp_effective_preview H E R W A env =
     bindS (materialize_profile_generation H E R W A env) (\<lambda>_. readS (\<lambda>_. Inl (ValueError ''too many values to unpack'')))"

definition claude_preview_doc :: "fs \<Rightarrow> (string \<Rightarrow> string option) \<Rightarrow> cap_args \<Rightarrow> host \<Rightarrow> path \<Rightarrow> claude_render \<Rightarrow> dict res" where
  "claude_preview_doc F which A H generation r =
     bindE (read_json F (generation @ [GENERATION_MANIFEST_NAME])) (\<lambda>m.
     bindE (someE (TypeError ''item'') (as_dict m)) (\<lambda>manifest.
     bindE (bindE (item manifest ''login_mode'') login_text) (\<lambda>login.
     bindE (claude_command F which generation (cr_skills r) login []) (\<lambda>argv.
     bindE (item manifest ''source_context'') (\<lambda>ctx.
     bindE (item manifest ''source_digest'') (\<lambda>source_digest.
     bindE (item manifest ''native_projection'') (\<lambda>p.
     bindE (someE (TypeError ''item'') (as_dict p)) (\<lambda>projection.
     bindE (item projection ''unsupported'') (\<lambda>unsupported.
     Inr [(''runtime_id'', VStr (ca_claude_runtime_id A)), (''global_runtime_root'', VStr (abs_str (claude_runtime_dir A))),
       (''global_generation'', VStr (abs_str generation)), (''login_mode'', VStr login), (''portable_tree_hash'', VStr (cr_portable r)),
       (''effective_render_hash'', VStr (claude_effective_hash H r)), (''project_source_context'', ctx),
       (''project_source_digest'', source_digest), (''skills'', strs (cr_skills r)),
       (''fixed_flags'', strs (filter (prefix ''--'') argv)), (''unsupported'', unsupported),
       (''effective_observations'', VDict (effective_observations login))])))))))))"

definition claude_effective_preview :: "host \<Rightarrow> engines \<Rightarrow> omp_world \<Rightarrow> cap_args \<Rightarrow> env \<Rightarrow> (fs, dict) st" where
  "claude_effective_preview H E W A env =
     bindS (materialize_claude_generation H E W A env) (\<lambda>(generation, r).
     readS (\<lambda>F. claude_preview_doc F (ow_which W) A H generation r))"

text \<open>The clients with an adapter of their own; the others run through the engine.\<close>

definition has_adapter :: "string \<Rightarrow> bool" where
  "has_adapter client = (client \<in> {''omp'', ''claude''})"

definition adapter_preview :: "host \<Rightarrow> engines \<Rightarrow> url_rules \<Rightarrow> omp_world \<Rightarrow> cap_args \<Rightarrow> env \<Rightarrow> (fs, dict) st" where
  "adapter_preview H E R W A env =
     (if ca_cli A = ''omp'' then omp_effective_preview H E R W A env else claude_effective_preview H E W A env)"

type_synonym outcome = "int \<times> string list"

definition run_claude_adapter :: "host \<Rightarrow> engines \<Rightarrow> omp_world \<Rightarrow> cap_args \<Rightarrow> env \<Rightarrow> (fs, outcome) st" where
  "run_claude_adapter H E W A env =
     bindS (readS (\<lambda>_. validate_forwarded_args ''claude'' (passthrough (ca_client_args A)))) (\<lambda>_.
     bindS (run_claude H E W A env (passthrough (ca_client_args A))) (\<lambda>(code, _, receipt, _).
     returnS (code, [abs_str receipt])))"

definition adapter_run :: "host \<Rightarrow> engines \<Rightarrow> url_rules \<Rightarrow> omp_world \<Rightarrow> cap_args \<Rightarrow> env \<Rightarrow> (fs, outcome) st" where
  "adapter_run H E R W A env =
     (if ca_cli A = ''omp'' then bindS (run_omp_agent_home H E R W A env) (\<lambda>code. returnS (code, []))
      else run_claude_adapter H E W A env)"

definition engine_run :: "host \<Rightarrow> omp_world \<Rightarrow> cap_args \<Rightarrow> env \<Rightarrow> (fs, outcome) st" where
  "engine_run H W A env =
     bindS (profile_args H W A) (\<lambda>command.
     bindS (ow_run W (plain_process env command)) (\<lambda>completed.
     returnS (pr_code completed, [])))"

definition adapter_runs :: "cap_args \<Rightarrow> bool" where
  "adapter_runs A = (ca_tool_command A \<in> {''launch'', ''run''} \<and> has_adapter (ca_cli A) \<and> \<not> ca_fresh A)"

definition run_selected :: "host \<Rightarrow> engines \<Rightarrow> url_rules \<Rightarrow> omp_world \<Rightarrow> cap_args \<Rightarrow> env \<Rightarrow> (fs, outcome) st" where
  "run_selected H E R W A env = (\<lambda>F.
     if adapter_runs A
     then (case adapter_run H E R W A env F of
         (Inl (AdapterError m), F') \<Rightarrow> (Inr (2, []), F')
       | r \<Rightarrow> r)
     else engine_run H W A env F)"

section \<open>Previews\<close>

definition rendered_files :: "fs \<Rightarrow> path \<Rightarrow> string list" where
  "rendered_files F root = sort (map (\<lambda>p. posix (drop (length root) p)) (filter (is_file F) (rglob F root)))"

definition effective_part :: "host \<Rightarrow> engines \<Rightarrow> url_rules \<Rightarrow> omp_world \<Rightarrow> cap_args \<Rightarrow> env \<Rightarrow> dict \<Rightarrow> (fs, dict option) st" where
  "effective_part H E R W A env preview = (\<lambda>F.
     if \<not> has_adapter (ca_cli A) then (Inr (Some preview), F)
     else case adapter_preview H E R W A env F of
         (Inr d, F') \<Rightarrow> (Inr (Some (dict_update preview d)), F')
       | (Inl (AdapterError m), F') \<Rightarrow> (Inr None, F')
       | (Inl e, F') \<Rightarrow> (Inl e, F'))"

definition preview_body :: "host \<Rightarrow> engines \<Rightarrow> url_rules \<Rightarrow> omp_world \<Rightarrow> path \<Rightarrow> cap_args \<Rightarrow> env \<Rightarrow> (fs, dict option) st" where
  "preview_body H E R W temporary A env =
     bindS (profile_json H W (A\<lparr>ca_tool_command := ''materialize'', ca_output := abs_str temporary\<rparr>) env) (\<lambda>rendered.
     case rendered of
       None \<Rightarrow> returnS None
     | Some d \<Rightarrow>
         (case get d ''tree_hash'' of
            VStr hash \<Rightarrow>
              bindS (readS (\<lambda>F. Inr (rendered_files F temporary))) (\<lambda>files.
              effective_part H E R W A env
                [(''client'', VStr (ca_cli A)), (''files'', strs files), (''tree_hash'', VStr hash)])
          | _ \<Rightarrow> returnS None))"

definition render_preview :: "host \<Rightarrow> engines \<Rightarrow> url_rules \<Rightarrow> omp_world \<Rightarrow> path \<Rightarrow> cap_args \<Rightarrow> env \<Rightarrow> (fs, dict option) st" where
  "render_preview H E R W temporary A env = (\<lambda>F.
     case with_staging H temporary (preview_body H E R W temporary A env) F of
       (Inl (OSError m), F') \<Rightarrow> (Inr None, F')
     | r \<Rightarrow> r)"

end
