(* ===== verification/CapMain.thy ===== *)
theory CapMain
  imports CapCli
begin

text \<open>
  \<open>cap show\<close>, the terminal menu and \<open>main\<close>, after the arguments are parsed. What \<open>cap\<close> takes from its
  surroundings beside processes is a record: whether it has a terminal, the lines and keys typed, the
  temporary directory of a preview, and the second instant of a migration.
\<close>

record cap_world =
  cw_omp :: omp_world
  cw_tty :: bool
  cw_lines :: "string list"
  cw_keys :: "int list"
  cw_curses :: "menu_keys option"
  cw_preview :: path
  cw_stamp :: string

definition printed_json :: "val \<Rightarrow> string" where
  "printed_json v = jwrite Indented 0 v"

section \<open>Show\<close>

definition NOT_EXPANDED :: string where
  "NOT_EXPANDED = [CHR 0xE4, CHR 0xB8, CHR 0x8D, CHR 0xE5, CHR 0xB1, CHR 0x95, CHR 0xE5, CHR 0xBC, CHR 0x80]"

definition profile_default :: "string list \<Rightarrow> string" where
  "profile_default profiles = (if DEFAULT_PROFILE \<in> set profiles then DEFAULT_PROFILE else hd profiles)"

definition show_preview :: "host \<Rightarrow> engines \<Rightarrow> url_rules \<Rightarrow> cap_world \<Rightarrow> cap_args \<Rightarrow> env \<Rightarrow> (dict \<Rightarrow> string list) \<Rightarrow> (fs, outcome) st" where
  "show_preview H E R C A env out =
     bindS (render_preview H E R (cw_omp C) (cw_preview C) A env) (\<lambda>preview. case preview of
         None \<Rightarrow> returnS (2, [])
       | Some p \<Rightarrow> returnS (0, out p))"

definition show_named :: "host \<Rightarrow> engines \<Rightarrow> url_rules \<Rightarrow> cap_world \<Rightarrow> cap_args \<Rightarrow> env \<Rightarrow> string option \<Rightarrow> (fs, outcome) st" where
  "show_named H E R C A env client =
     bindS (profile_json H (cw_omp C) A env) (\<lambda>explanation. case explanation of
         None \<Rightarrow> returnS (2, [])
       | Some d \<Rightarrow> (case client of
             Some (c # cs) \<Rightarrow> show_preview H E R C (A\<lparr>ca_cli := c # cs\<rparr>) env
               (\<lambda>p. [printed_json (VDict (dict_set ''preview'' (VDict p) d))])
           | _ \<Rightarrow> returnS (0, [printed_json (VDict d)])))"

text \<open>The two questions of the interactive form.\<close>

definition show_asked :: "host \<Rightarrow> engines \<Rightarrow> url_rules \<Rightarrow> cap_world \<Rightarrow> cap_args \<Rightarrow> env \<Rightarrow> string list \<Rightarrow> (fs, outcome) st" where
  "show_asked H E R C A env profiles =
     bindS (readS (\<lambda>_. choose_from profiles (profile_default profiles) PROFILE_LABELS (cw_lines C))) (\<lambda>(profile, lines).
     let A' = A\<lparr>ca_profile := profile\<rparr> in
     bindS (profile_json H (cw_omp C) A' env) (\<lambda>explanation. case explanation of
         None \<Rightarrow> returnS (2, [])
       | Some d \<Rightarrow>
           bindS (readS (\<lambda>_. choose_from (NOT_EXPANDED # cap_CLIENTS) NOT_EXPANDED [] lines)) (\<lambda>(selected, _).
           if selected = NOT_EXPANDED then returnS (0, [printed_json (VDict d)])
           else bindS (show_preview H E R C (A'\<lparr>ca_cli := selected\<rparr>) env (\<lambda>p. [printed_json (VDict [(''preview'', VDict p)])])) (\<lambda>(code, out).
             returnS (code, printed_json (VDict d) # out)))))"

definition show_profile ::
    "host \<Rightarrow> engines \<Rightarrow> url_rules \<Rightarrow> cap_world \<Rightarrow> cap_args \<Rightarrow> env \<Rightarrow> string option \<Rightarrow> string option \<Rightarrow> (fs, outcome) st" where
  "show_profile H E R C A env profile client = (case profile of
       Some nm \<Rightarrow> show_named H E R C (A\<lparr>ca_profile := nm\<rparr>) env client
     | None \<Rightarrow>
         bindS (available_profiles (cw_omp C) A env) (\<lambda>profiles.
         if profiles = [] then returnS (2, []) else show_asked H E R C A env profiles))"

section \<open>The menu of the bare command\<close>

definition tui_arguments :: "cap_args \<Rightarrow> string \<Rightarrow> cap_args" where
  "tui_arguments A profile = A\<lparr>ca_profile := profile, ca_cli := DEFAULT_CLI, ca_client_args := [], ca_receipt := None,
     ca_workdir := None, ca_fresh := False, ca_tool_command := ''launch''\<rparr>"

definition tui_use :: "host \<Rightarrow> engines \<Rightarrow> url_rules \<Rightarrow> cap_world \<Rightarrow> cap_args \<Rightarrow> env \<Rightarrow> (fs, outcome) st" where
  "tui_use H E R C A env =
     bindS (available_profiles (cw_omp C) A env) (\<lambda>profiles.
     if profiles = [] then returnS (2, [])
     else case cw_curses C of
       None \<Rightarrow> returnS (2, [])
     | Some K \<Rightarrow>
         bindS (readS (\<lambda>_. tui_profile K profiles (cw_keys C))) (\<lambda>profile. case profile of
             None \<Rightarrow> returnS (0, [])
           | Some nm \<Rightarrow> run_selected H E R (cw_omp C) (tui_arguments A nm) env))"

section \<open>Main\<close>

text \<open>What stands after \<open>--\<close> is for the client.\<close>

definition split_passthrough :: "string list \<Rightarrow> string list \<times> string list" where
  "split_passthrough raw = (takeWhile (\<lambda>a. a \<noteq> ''--'') raw, tl (dropWhile (\<lambda>a. a \<noteq> ''--'') raw))"

text \<open>\<open>mkdir(exist_ok=True)\<close>: an entry that is no directory is an error.\<close>

definition ensure_dir :: "host \<Rightarrow> path \<Rightarrow> (fs, unit) st" where
  "ensure_dir H p = whenS (\<lambda>F. \<not> is_dir F p) (mkdir_new H p 493)"

definition ensure_capability_store_dirs :: "host \<Rightarrow> path \<Rightarrow> (fs, unit) st" where
  "ensure_capability_store_dirs H project =
     (let capabilities = project @ [''.cap'', ''capabilities''] in
      whenS (\<lambda>F. is_dir F capabilities) (forS (\<lambda>kind. ensure_dir H (capabilities @ [kind])) cap_CAPABILITY_KINDS))"

record cap_call =
  cl_command :: "string option"
  cl_tool :: "string option"
  cl_profile :: "string option"
  cl_client :: "string option"
  cl_args :: cap_args

definition needs_terminal :: "cap_call \<Rightarrow> bool" where
  "needs_terminal L = (cl_command L = None \<or> cl_tool L = Some ''explain'' \<and> cl_profile L = None)"

definition report_status :: "skill_report \<Rightarrow> outcome" where
  "report_status r = (if conforms r then 0 else 2, [])"

text \<open>The home given on the command line, which has to exist.\<close>

definition real_home_of :: "fs \<Rightarrow> cap_args \<Rightarrow> path res" where
  "real_home_of F A =
     bindE (someE (OSError ''resolve'') (resolve F (ca_home A))) (\<lambda>home.
     if \<not> is_dir F home then Inl (SystemExit 2) else Inr home)"

definition cap_dispatch :: "host \<Rightarrow> engines \<Rightarrow> url_rules \<Rightarrow> cap_world \<Rightarrow> cap_call \<Rightarrow> (fs, outcome) st" where
  "cap_dispatch H E R C L =
     bindS (readS (\<lambda>F. real_home_of F (cl_args L))) (\<lambda>home.
     let A = (cl_args L)\<lparr>ca_real_home := home\<rparr>; env = dict_set ''HOME'' (abs_str home) (environ H) in
     if cl_tool L = Some ''clients'' then bindS (client_inventory H (cw_omp C)) (\<lambda>v. returnS (0, [printed_json v]))
     else if cl_tool L = Some ''agents''
       then bindS (available_profiles (cw_omp C) A env) (\<lambda>ps. returnS (0, [printed_json (VDict [(''agents'', strs ps)])]))
     else if cl_command L = None then tui_use H E R C A env
     else if cl_tool L = Some ''explain'' then show_profile H E R C A env (cl_profile L) (cl_client L)
     else if cl_tool L = Some ''run'' \<and> ca_client_args A = [] then returnS (2, [])
     else run_selected H E R (cw_omp C) A env)"

definition verified_skills :: "host \<Rightarrow> engines \<Rightarrow> cap_call \<Rightarrow> path \<Rightarrow> (fs, bool) st" where
  "verified_skills H E L project =
     (if cl_tool L = Some ''verify'' then readS (\<lambda>F. bindE (skill_metadata_report H E F project) (\<lambda>r. Inr (conforms r)))
      else returnS True)"

definition cap_main :: "host \<Rightarrow> engines \<Rightarrow> url_rules \<Rightarrow> cap_world \<Rightarrow> cap_call \<Rightarrow> (fs, outcome) st" where
  "cap_main H E R C L = (\<lambda>F.
     let project = resolved_or_same F (ca_project (cl_args L)) in
     if needs_terminal L \<and> \<not> cw_tty C then (Inr (2, []), F)
     else if cl_command L = Some ''skills-validate''
       then readS (\<lambda>F. bindE (skill_metadata_report H E F project) (\<lambda>r. Inr (report_status r))) F
     else if cl_command L = Some ''migrate-omp-runtime''
       then bindS (migrate_omp_runtime H E (cl_args L) (ow_stamp (cw_omp C)) (cw_stamp C)) (\<lambda>(code, doc).
         returnS (code, case doc of Some d \<Rightarrow> [printed_json (VDict d)] | None \<Rightarrow> [])) F
     else
     bindS (ensure_capability_store_dirs H project) (\<lambda>_.
     bindS (verified_skills H E L project) (\<lambda>ok.
     if ok then cap_dispatch H E R C L else returnS (2, []))) F)"

end
