(* ===== verification/CapFacts.thy ===== *)
theory CapFacts
  imports CapMain OmpFacts
begin

text \<open>
  What the properties of the \<open>cap\<close> command rest on: the reader of frontmatter on what a writer would
  produce, the report over the Skills, the menu as arithmetic, and the gates before a client starts.
\<close>

section \<open>Frontmatter\<close>

text \<open>A field as a writer would put it: the value as a JSON string.\<close>

definition quoted_field :: "string \<times> string \<Rightarrow> string" where
  "quoted_field = (\<lambda>(k, v). k @ '': '' @ compact_json (VStr v))"

lemma quoted_shape: "\<exists>s. compact_json (VStr v) = CHR 0x22 # s @ [CHR 0x22]"
  by (simp add: compact_json_def jstr_def)

lemma strip_quoted: "strip ('' '' @ compact_json (VStr v)) = compact_json (VStr v)"
proof -
  obtain s where "compact_json (VStr v) = CHR 0x22 # s @ [CHR 0x22]" using quoted_shape by blast
  then show ?thesis by (simp add: strip_def strip_by_def lstrip_by_def rstrip_by_def is_space_def)
qed

lemma scalar_quoted: "plain (VStr v) \<Longrightarrow> decode_frontmatter_scalar ('' '' @ compact_json (VStr v)) = Inr v"
proof -
  assume p: "plain (VStr v)"
  obtain s where s: "compact_json (VStr v) = CHR 0x22 # s @ [CHR 0x22]" using quoted_shape by blast
  have "loads False (compact_json (VStr v)) = Inr (canon (VStr v))" using p by (rule loads_compact)
  then show ?thesis
    unfolding decode_frontmatter_scalar_def strip_quoted Let_def by (simp add: s)
qed

lemma field_start: "field_name k \<Longrightarrow> \<exists>c r. k = c # r \<and> \<not> is_space c \<and> c \<noteq> CHR ''#''"
  by (cases k) (auto simp: field_name_def field_char_def is_space_def is_lower_def is_upper_def is_digit_def)

lemma quoted_line:
  assumes "field_name k"
  shows "strip (quoted_field (k, v)) = quoted_field (k, v)" "\<not> skipped_line (quoted_field (k, v))"
    "quoted_field (k, v) \<noteq> ''---''" "k \<notin> set (keys metadata) \<Longrightarrow> field_line metadata (quoted_field (k, v)) = Inr (k, '' '' @ compact_json (VStr v))"
proof -
  obtain c r where k: "k = c # r" "\<not> is_space c" "c \<noteq> CHR ''#''" using field_start [OF assms] by blast
  obtain s where q: "compact_json (VStr v) = CHR 0x22 # s @ [CHR 0x22]" using quoted_shape by blast
  have "CHR '':'' \<notin> set k" using assms by (auto simp: field_name_def field_char_def list_all_iff is_lower_def is_upper_def is_digit_def)
  then have p: "takeWhile (\<lambda>x. x \<noteq> CHR '':'') (k @ '': '' @ w) = k" "dropWhile (\<lambda>x. x \<noteq> CHR '':'') (k @ '': '' @ w) = '': '' @ w" for w
    by (auto simp: takeWhile_append dropWhile_append)
  have nq: "\<not> is_space CHR 0x22" by code_simp
  have line: "quoted_field (k, v) = k @ '': '' @ compact_json (VStr v)" by (simp add: quoted_field_def)
  show st: "strip (quoted_field (k, v)) = quoted_field (k, v)"
    unfolding strip_def line by (rule strip_by_id) (simp_all add: k q nq)
  show "\<not> skipped_line (quoted_field (k, v))" unfolding skipped_line_def st unfolding line using k(3) by (auto simp: k(1))
  have "CHR '':'' \<in> set (quoted_field (k, v))" by (simp add: line)
  then show "quoted_field (k, v) \<noteq> ''---''" by auto
  have parts: "partition_at CHR '':'' (quoted_field (k, v)) = (k, True, '' '' @ compact_json (VStr v))"
    unfolding line partition_at_def p by simp
  have "hd (quoted_field (k, v)) = c" unfolding line by (simp add: k(1))
  then show "k \<notin> set (keys metadata) \<Longrightarrow> field_line metadata (quoted_field (k, v)) = Inr (k, '' '' @ compact_json (VStr v))"
    using assms k(2) by (simp add: field_line_def parts)
qed

lemma read_quoted:
  "distinct (keys (metadata @ d)) \<Longrightarrow> \<forall>(k, v) \<in> set d. field_name k \<Longrightarrow>
     read_fields E metadata (map quoted_field d) = Inr (metadata @ d)"
proof (induction d arbitrary: metadata)
  case (Cons x d)
  obtain k v where x: "x = (k, v)" by (cases x)
  have f: "field_name k" and new: "k \<notin> set (keys metadata)" using Cons.prems x by (auto simp: keys_def)
  obtain s where q: "compact_json (VStr v) = CHR 0x22 # s @ [CHR 0x22]" using quoted_shape by blast
  have "\<not> block_marker (strip ('' '' @ compact_json (VStr v)))" unfolding strip_quoted by (simp add: q block_marker_def)
  then show ?case
    using quoted_line [OF f, where v = v] new scalar_quoted [of v] Cons.IH [of "metadata @ [x]"] Cons.prems by (simp add: x)
qed simp

lemma frontmatter_quoted:
  assumes "\<forall>(k, v) \<in> set d. field_name k"
  shows "frontmatter (''---'' # map quoted_field d @ ''---'' # rest) = Inr (map quoted_field d)"
proof -
  have s: "strip ''---'' = ''---''" by code_simp
  have "strip l \<noteq> ''---''" if "l \<in> set (map quoted_field d)" for l
    using that assms quoted_line(1,3) by fastforce
  then have "takeWhile (\<lambda>l. strip l \<noteq> ''---'') (map quoted_field d @ ''---'' # rest) = map quoted_field d"
    using s by (simp add: takeWhile_append)
  then show ?thesis using s by (simp add: frontmatter_def)
qed

section \<open>The report\<close>

definition fields_conform :: "string \<Rightarrow> (string \<times> string) list \<Rightarrow> bool" where
  "fields_conform skill_id metadata \<longleftrightarrow> map_of metadata ''name'' = Some skill_id \<and> skill_name skill_id
     \<and> 1 \<le> text_length skill_id \<and> text_length skill_id \<le> 64
     \<and> (\<exists>s. map_of metadata ''description'' = Some s \<and> 1 \<le> text_length s \<and> text_length s \<le> 1024)"

definition skill_conforms :: "engines \<Rightarrow> fs \<Rightarrow> string \<times> path \<Rightarrow> bool" where
  "skill_conforms E F = (\<lambda>(skill_id, dir). \<not> is_symlink F dir \<and> \<not> is_symlink F (dir @ [''SKILL.md'']) \<and> is_file F (dir @ [''SKILL.md''])
     \<and> (\<exists>metadata. read_skill_metadata E F (dir @ [''SKILL.md'']) = Inr metadata \<and> fields_conform skill_id metadata))"

lemma field_issues_none: "field_issues relative skill_id metadata = [] \<longleftrightarrow> fields_conform skill_id metadata"
proof -
  have e: "text_length [] = 0" by (simp add: text_length_def)
  show ?thesis
    by (cases "map_of metadata ''name''"; cases "map_of metadata ''description''")
      (auto simp: field_issues_def fields_conform_def Let_def e)
qed

lemma skill_entry_none: "skill_entry E F project x = Inr (iss, es) \<Longrightarrow> iss = [] \<longleftrightarrow> skill_conforms E F x"
  by (cases x) (auto simp: skill_entry_def skill_conforms_def Let_def bindE_Inr field_issues_none split: if_splits sum.splits)

lemma report_conforms:
  assumes "all_skills H F project = Inr (issues, found)" and "skill_metadata_report H E F project = Inr r"
  shows "conforms r \<longleftrightarrow> issues = [] \<and> (\<forall>x \<in> set found. skill_conforms E F x)"
proof -
  obtain entries where e: "mapE (skill_entry E F project) (sort_key fst found) = Inr entries"
      "rp_issues r = issues @ concat (map fst entries)"
    using assms by (auto simp: skill_metadata_report_def bindE_Inr)
  have "mapE (skill_entry E F project) xs = Inr ys \<Longrightarrow> concat (map fst ys) = [] \<longleftrightarrow> (\<forall>x \<in> set xs. skill_conforms E F x)" for xs ys
  proof (induction xs arbitrary: ys)
    case (Cons x xs)
    then obtain y zs where "skill_entry E F project x = Inr y" "mapE (skill_entry E F project) xs = Inr zs" "ys = y # zs"
      by (auto simp: bindE_Inr)
    then show ?case using Cons.IH [of zs] skill_entry_none [of E F project x "fst y" "snd y"] by simp
  qed simp
  from this [OF e(1)] show ?thesis using e(2) by (simp add: conforms_def)
qed

lemma dict_set_fresh: "k \<notin> set (keys d) \<Longrightarrow> dict_set k v d = d @ [(k, v)]"
  by (induction k v d rule: dict_set.induct) (auto simp: keys_def)

lemma foldl_import_issues: "fst (foldl add_import a added) = [] \<Longrightarrow> fst a = []"
proof (induction added arbitrary: a)
  case (Cons x xs)
  have "fst (foldl add_import (add_import a x) xs) = []" using Cons.prems by simp
  then have "fst (add_import a x) = []" by (rule Cons.IH)
  then show ?case by (cases a; cases x) (auto simp: add_import_def split: if_splits)
qed simp

lemma add_imports:
  assumes "distinct (keys added)"
  shows "fst (foldl add_import (issues, found) added) = [] \<longleftrightarrow> issues = [] \<and> set (keys added) \<inter> set (keys found) = {}"
    and "fst (foldl add_import (issues, found) added) = [] \<Longrightarrow>
      set (snd (foldl add_import (issues, found) added)) = set found \<union> (\<lambda>(n, i). (n, imp_source i)) ` set added"
proof -
  have "(fst (foldl add_import (issues, found) added) = [] \<longleftrightarrow> issues = [] \<and> set (keys added) \<inter> set (keys found) = {})
    \<and> (fst (foldl add_import (issues, found) added) = [] \<longrightarrow>
      set (snd (foldl add_import (issues, found) added)) = set found \<union> (\<lambda>(n, i). (n, imp_source i)) ` set added)"
    using assms
  proof (induction added arbitrary: issues found)
    case (Cons x xs)
    obtain n i where x: "x = (n, i)" by (cases x)
    show ?case
    proof (cases "n \<in> set (keys found)")
      case True
      then have "fst (foldl add_import (issues, found) (x # xs)) \<noteq> []"
        using foldl_import_issues [of "add_import (issues, found) x" xs] by (auto simp: x add_import_def)
      then show ?thesis using True x by (auto simp: keys_def)
    next
      case False
      have d: "dict_set n (imp_source i) found = found @ [(n, imp_source i)]" using False by (rule dict_set_fresh)
      have n: "n \<notin> set (keys xs)" using Cons.prems x by (auto simp: keys_def)
      have "distinct (keys xs)" using Cons.prems by (simp add: keys_def)
      then show ?thesis using Cons.IH [of issues "found @ [(n, imp_source i)]"] False n
        by (auto simp: x add_import_def d keys_def)
    qed
  qed simp
  then show "fst (foldl add_import (issues, found) added) = [] \<longleftrightarrow> issues = [] \<and> set (keys added) \<inter> set (keys found) = {}"
    and "fst (foldl add_import (issues, found) added) = [] \<Longrightarrow>
      set (snd (foldl add_import (issues, found) added)) = set found \<union> (\<lambda>(n, i). (n, imp_source i)) ` set added"
    by blast+
qed

lemma all_skills_conform:
  assumes "all_skills H F project = Inr (issues, found)"
    and "\<And>P. load_project H F project None = Inr P \<Longrightarrow> distinct (keys (pr_skill_imports P))"
  shows "issues = [] \<and> (\<forall>x \<in> set found. Q x) \<longleftrightarrow>
     is_dir F (project @ [''.cap'', ''capabilities'', ''skills''])
     \<and> (\<exists>P store. load_project H F project None = Inr P \<and> store_skills F project = Inr ([], store)
        \<and> set (keys (pr_skill_imports P)) \<inter> set (keys store) = {}
        \<and> (\<forall>x \<in> set store. Q x) \<and> (\<forall>(n, i) \<in> set (pr_skill_imports P). Q (n, imp_source i)))"
proof -
  obtain iss store where st: "store_skills F project = Inr (iss, store)"
      and r: "(case load_project H F project None of Inr P \<Rightarrow> Inr (foldl add_import (iss, store) (pr_skill_imports P))
         | Inl (ProfileError m) \<Rightarrow> Inr (iss @ [Project_invalid], store) | Inl e \<Rightarrow> Inl e) = Inr (issues, found)"
    using assms(1) by (auto simp: all_skills_def bindE_Inr)
  have d: "iss = [] \<longleftrightarrow> is_dir F (project @ [''.cap'', ''capabilities'', ''skills''])"
    using st by (auto simp: store_skills_def Let_def bindE_Inr split: if_splits)
  show ?thesis
  proof (cases "load_project H F project None")
    case (Inl e)
    then show ?thesis using r by (cases e) auto
  next
    case (Inr P)
    let ?f = "foldl add_import (iss, store) (pr_skill_imports P)"
    have f: "?f = (issues, found)" using r Inr by simp
    note a = add_imports [OF assms(2) [OF Inr], of iss store, unfolded f fst_conv snd_conv]
    show ?thesis
      using a st d Inr by (auto simp: case_prod_beta)
  qed
qed

section \<open>The menu\<close>

definition menu_codes_apart :: "menu_keys \<Rightarrow> bool" where
  "menu_codes_apart K \<longleftrightarrow> {mk_up K, 107} \<inter> {mk_down K, 106} = {}"

definition ends_menu :: "menu_keys \<Rightarrow> int \<Rightarrow> bool" where
  "ends_menu K key \<longleftrightarrow> key \<notin> {mk_up K, 107, mk_down K, 106} \<and> key \<in> {mk_left K, 98, 27, 113, mk_enter K, 10, 13}"

definition moved :: "menu_keys \<Rightarrow> int list \<Rightarrow> int" where
  "moved K pressed = int (length (filter (\<lambda>k. k \<in> {mk_down K, 106}) pressed)) - int (length (filter (\<lambda>k. k \<in> {mk_up K, 107}) pressed))"

lemma menu_key_bound: "menu_key K n selected key = Selected s \<Longrightarrow> selected < n \<Longrightarrow> s < n"
  by (auto simp: menu_key_def nat_less_iff split: if_splits)

lemma menu_key_result: "menu_key K n selected key = Result r \<Longrightarrow> r \<in> {- 1, - 2, int selected}"
  by (auto simp: menu_key_def split: if_splits)

lemma tui_menu_bound: "tui_menu K n selected pressed = Some r \<Longrightarrow> selected < n \<Longrightarrow> r = - 1 \<or> r = - 2 \<or> 0 \<le> r \<and> r < int n"
proof (induction K n selected pressed rule: tui_menu.induct)
  case (2 K n selected key rest)
  show ?case
  proof (cases "menu_key K n selected key")
    case (Selected s)
    then show ?thesis using 2 menu_key_bound by auto
  next
    case (Result x)
    then show ?thesis using "2.prems" menu_key_result [OF Result] by auto
  qed
qed simp

lemma menu_key_moves:
  assumes "menu_codes_apart K" and "selected < n" and "\<not> ends_menu K key"
  shows "menu_key K n selected key = Selected (nat ((int selected + moved K [key]) mod int n))"
  using assms by (auto simp: menu_key_def moved_def menu_codes_apart_def ends_menu_def)

lemma moved_Cons: "moved K (key # rest) = moved K [key] + moved K rest"
  by (simp add: moved_def)

lemma tui_menu_moves:
  "menu_codes_apart K \<Longrightarrow> selected < n \<Longrightarrow> \<forall>key \<in> set pressed. \<not> ends_menu K key \<Longrightarrow>
     tui_menu K n selected (pressed @ rest) = tui_menu K n (nat ((int selected + moved K pressed) mod int n)) rest"
proof (induction pressed arbitrary: selected)
  case Nil
  then show ?case by (simp add: moved_def)
next
  case (Cons key pressed)
  let ?s = "nat ((int selected + moved K [key]) mod int n)"
  have s: "?s < n" using Cons.prems(2) by (simp add: nat_less_iff)
  have "menu_key K n selected key = Selected ?s" using Cons.prems by (intro menu_key_moves) simp_all
  then have "tui_menu K n selected ((key # pressed) @ rest) = tui_menu K n (nat ((int ?s + moved K pressed) mod int n)) rest"
    using Cons.IH [OF Cons.prems(1) s] Cons.prems(3) by simp
  moreover have "(int ?s + moved K pressed) mod int n = (int selected + moved K (key # pressed)) mod int n"
    using Cons.prems(2) by (simp add: moved_Cons [of K key pressed] mod_add_left_eq add.assoc)
  ultimately show ?case by simp
qed

lemma default_index_bound: "profiles \<noteq> [] \<Longrightarrow> default_index profiles < length profiles"
proof -
  have "x \<in> set ys \<Longrightarrow> index_of x ys < length ys" for x ys by (induction ys) auto
  then show "profiles \<noteq> [] \<Longrightarrow> ?thesis" by (simp add: default_index_def)
qed

section \<open>Gates\<close>

lemma render_preview_omp:
  assumes "ca_cli A = ''omp''"
  shows "render_preview H E R W temporary A env F \<noteq> (Inr (Some p), F')"
proof
  assume a: "render_preview H E R W temporary A env F = (Inr (Some p), F')"
  have ad: "adapter_preview H E R W A env G \<noteq> (Inr d, G')" for G d G'
    using assms by (auto simp: adapter_preview_def omp_effective_preview_def bindS_Inr)
  have eff: "effective_part H E R W A env q G \<noteq> (Inr (Some p), G')" for q G G'
    using assms ad by (auto simp: effective_part_def has_adapter_def split: prod.splits sum.splits err.splits)
  have body: "preview_body H E R W temporary A env G \<noteq> (Inr (Some p), G')" for G G'
    using eff by (auto simp: preview_body_def bindS_Inr split: option.splits val.splits)
  have "\<exists>G'. with_staging H temporary (preview_body H E R W temporary A env) F = (Inr (Some p), G')"
    using a by (auto simp: render_preview_def split: prod.splits sum.splits err.splits)
  then show False
    using body by (auto simp: with_staging_def Let_def split: option.splits if_splits prod.splits)
qed

lemma forE_error: "forE f xs = Inl e \<Longrightarrow> \<exists>x. f x = Inl e"
  by (induction xs) (auto simp: bindE_def split: sum.splits)

lemma forwarded_error: "validate_forwarded_args client args = Inl e \<Longrightarrow> \<exists>m. e = ProfileError m"
  by (auto simp: validate_forwarded_args_def invalid_def raise_if_def split: option.splits if_splits dest!: forE_error)

lemma run_selected_claude:
  assumes "adapter_runs A" and "ca_cli A = ''claude''"
  shows "run_selected H E R W A env F = (case validate_forwarded_args ''claude'' (ca_client_args A) of
      Inl e \<Rightarrow> (Inl e, F)
    | Inr _ \<Rightarrow> (case run_claude H E W A env (ca_client_args A) F of
          (Inr (code, _, receipt, _), F') \<Rightarrow> (Inr (code, [abs_str receipt]), F')
        | (Inl (AdapterError m), F') \<Rightarrow> (Inr (2, []), F')
        | (Inl e, F') \<Rightarrow> (Inl e, F')))"
proof -
  note p = forwarded_error [of "''claude''" "ca_client_args A"]
  show ?thesis
    using assms p
    by (auto simp: run_selected_def adapter_run_def run_claude_adapter_def bindS_def readS_def passthrough_def returnS_def
        split: sum.splits prod.splits err.splits)
qed

end
