(* ===== verification/CapProperties.thy ===== *)
theory CapProperties
  imports CapFacts OmpSamples Samples
begin

text \<open>
  Properties of the \<open>cap\<close> command, each with a concrete instance: frontmatter, the Skill report, the menu, and
  what stands between the command line and a client.
\<close>

section \<open>Skills\<close>



text \<open>C17. The report of \<open>cap skills-validate\<close> is clean exactly when the store exists, the project loads, no
  imported Skill has the name of one in the store, and every Skill of both kinds is a directory without
  links whose \<open>SKILL.md\<close> is a file with readable metadata: its name, valid and the directory's, and a description of
  at most 1024 characters.\<close>

theorem skill_report_exact:
  assumes "skill_metadata_report H E F project = Inr r"
    and "\<forall>P. load_project H F project None = Inr P \<longrightarrow> distinct (keys (pr_skill_imports P))"
  shows "conforms r \<longleftrightarrow> is_dir F (project @ [''.cap'', ''capabilities'', ''skills''])
     \<and> (\<exists>P store. load_project H F project None = Inr P \<and> store_skills F project = Inr ([], store)
        \<and> set (keys (pr_skill_imports P)) \<inter> set (keys store) = {}
        \<and> (\<forall>x \<in> set store. skill_conforms E F x) \<and> (\<forall>(n, i) \<in> set (pr_skill_imports P). skill_conforms E F (n, imp_source i)))"
proof -
  obtain issues found where a: "all_skills H F project = Inr (issues, found)"
    using assms(1) by (auto simp: skill_metadata_report_def bindE_Inr)
  show ?thesis
    unfolding report_conforms [OF a assms(1)] using all_skills_conform [OF a, of "skill_conforms E F"] assms(2) by blast
qed

theorem skill_report_exact_witness:
  "\<exists>r. skill_metadata_report smp_host omp_engines smp_fs [''w''] = Inr r \<and> \<not> conforms r"
proof -
  let ?dir = "[''w'', ''.cap'', ''capabilities'', ''skills'', ''s'']"
  have st: "store_skills smp_fs [''w''] = Inr ([], [(''s'', ?dir)])"
    by (simp add: store_skills_def Let_def smp_listings) (simp add: smp_fs_simps)
  have t: "read_text smp_fs (?dir @ [''SKILL.md'']) = Inr ''A''"
    by (simp add: read_text_def read_bytes_def smp_fs_simps) code_simp
  have "metadata_of_lines omp_engines (splitlines ''A'') = Inl (ValueError ''missing frontmatter start'')" by code_simp
  then have rd: "read_skill_metadata omp_engines smp_fs (?dir @ [''SKILL.md'']) = Inl (ValueError ''missing frontmatter start'')"
    using t by (simp add: read_skill_metadata_def)
  have im: "pr_skill_imports smp_project = []" by (simp add: smp_project_def)
  have "relative_to [''w''] (?dir @ [''SKILL.md'']) \<noteq> None" by code_simp
  then have "\<exists>r. skill_metadata_report smp_host omp_engines smp_fs [''w''] = Inr r"
    using rd by (auto simp: skill_metadata_report_def all_skills_def st smp_loads im skill_entry_def Let_def metadata_handled_def bindE_def someE_def)
  then obtain r where r: "skill_metadata_report smp_host omp_engines smp_fs [''w''] = Inr r" by blast
  have "\<forall>P. load_project smp_host smp_fs [''w''] None = Inr P \<longrightarrow> distinct (keys (pr_skill_imports P))"
    by (simp add: smp_loads im keys_def)
  from skill_report_exact [OF r this] have "\<not> conforms r"
    using rd by (auto simp: st smp_loads skill_conforms_def)
  with r show ?thesis by blast
qed

section \<open>The menu\<close>

text \<open>C20. The profile menu is arithmetic modulo the number of profiles: from the default, every key down adds
  one, every key up subtracts one, anything else that does not end the menu is ignored, and Enter takes
  the profile at that position; whatever is typed, only a listed profile is ever returned.\<close>

theorem menu_selects:
  assumes "menu_codes_apart K" and "profiles \<noteq> []" and "\<forall>key \<in> set pressed. \<not> ends_menu K key"
    and "ends_menu K e" and "e \<in> {mk_enter K, 10, 13}" and "e \<notin> {mk_left K, 98, 27, 113}"
  shows "tui_profile K profiles (pressed @ e # rest)
       = Inr (Some (profiles ! nat ((int (default_index profiles) + moved K pressed) mod int (length profiles))))
     \<and> (\<forall>typed p. tui_profile K profiles typed = Inr (Some p) \<longrightarrow> p \<in> set profiles)"
proof -
  let ?n = "length profiles" and ?d = "default_index profiles"
  note b = default_index_bound [OF assms(2)]
  have "menu_key K ?n s e = Result (int s)" for s
    using assms(4-6) by (auto simp: menu_key_def ends_menu_def)
  then have "tui_menu K ?n ?d (pressed @ e # rest) = Some ((int ?d + moved K pressed) mod int ?n)"
    using tui_menu_moves [OF assms(1) b assms(3), of "e # rest"] assms(2) by simp
  moreover have "p \<in> set profiles" if t: "tui_profile K profiles typed = Inr (Some p)" for typed p
  proof -
    obtain r where r: "tui_menu K ?n ?d typed = Some r" "\<not> r < 0" "p = profiles ! nat r"
      using t by (auto simp: tui_profile_def split: option.splits if_splits)
    then show ?thesis using tui_menu_bound [OF r(1) b] by (auto simp: nat_less_iff)
  qed
  ultimately show ?thesis using assms(2) by (simp add: tui_profile_def not_less)
qed

definition smp_menu :: menu_keys where
  "smp_menu = \<lparr>mk_up = 259, mk_down = 258, mk_left = 260, mk_enter = 343\<rparr>"

theorem menu_selects_witness:
  "tui_profile smp_menu [''general'', ''agent-assembler''] [107, 32, 10] = Inr (Some ''agent-assembler'')"
  using menu_selects [of smp_menu "[''general'', ''agent-assembler'']" "[107, 32]" 10 "[]"]
  by (simp add: smp_menu_def menu_codes_apart_def ends_menu_def moved_def default_index_def DEFAULT_PROFILE_def)

text \<open>The numbered list returns one of its choices as long as every labelled profile is offered; the label of
  one that is not offered selects it all the same.\<close>

theorem choice_offered:
  assumes "choose_from choices preset names typed = Inr (choice, rest)" and "preset \<in> set choices" and "fst ` set names \<subseteq> set choices"
  shows "choice \<in> set choices"
proof -
  have c: "x \<in> set choices" if "chosen choices preset names raw = Some x" for raw x
    using that assms(2,3) by (auto simp: chosen_def find_Some_iff split: if_splits) (force dest: nth_mem)+
  show ?thesis using assms(1)
  proof (induction typed)
    case (Cons l ls)
    then show ?case using c [of "strip l"] by (auto split: option.splits)
  qed simp
qed

theorem label_selects_unavailable: "chosen [''general''] ''general'' PROFILE_LABELS (snd (PROFILE_LABELS ! 1)) = Some ''agent-assembler''"
  by code_simp

section \<open>Clients\<close>

text \<open>C19. A forwarded argument cannot reopen a gate the Claude adapter closed: if one of them is a forbidden
  flag, with or without a value, the command raises before anything is written or started. (What it
  raises is the engine's own error, which \<open>main\<close> does not report but lets through.)\<close>

theorem claude_launch_gated:
  assumes "adapter_runs A" and "ca_cli A = ''claude''" and "map_of FORBIDDEN_CLIENT_ARGUMENTS ''claude'' = Some forbidden"
    and "a \<in> set (ca_client_args A)" and "forwarded_key a \<in> set forbidden"
  shows "\<exists>m. run_selected H E R W A env F = (Inl (ProfileError m), F)"
proof -
  have "validate_forwarded_args ''claude'' (ca_client_args A) \<noteq> Inr ()"
    using assms(3-5) by (auto simp: validate_forwarded_args_Inr may_override_def)
  then obtain e where "validate_forwarded_args ''claude'' (ca_client_args A) = Inl e"
    by (cases "validate_forwarded_args ''claude'' (ca_client_args A)") auto
  then show ?thesis using run_selected_claude [OF assms(1,2)] forwarded_error by fastforce
qed

definition cap_smp_world :: omp_world where
  "cap_smp_world = \<lparr>ow_python = ''py'', ow_run = (\<lambda>_. returnS \<lparr>pr_code = 0, pr_out = [], pr_err = []\<rparr>), ow_which = (\<lambda>_. None),
     ow_temporary = [''t''], ow_stamp = ''1'', ow_others = (\<lambda>F. F)\<rparr>"

theorem claude_launch_gated_witness:
  "\<exists>m. run_selected omp_host omp_engines loop_rules cap_smp_world
      (omp_args\<lparr>ca_cli := ''claude'', ca_client_args := [''-p'', ''--permission-mode=bypassPermissions'']\<rparr>) [] (omp_fs []) = (Inl (ProfileError m), omp_fs [])"
proof -
  let ?A = "omp_args\<lparr>ca_cli := ''claude'', ca_client_args := [''-p'', ''--permission-mode=bypassPermissions'']\<rparr>"
  obtain forbidden where f: "map_of FORBIDDEN_CLIENT_ARGUMENTS ''claude'' = Some forbidden" by (simp add: FORBIDDEN_CLIENT_ARGUMENTS_def)
  have "case map_of FORBIDDEN_CLIENT_ARGUMENTS ''claude'' of None \<Rightarrow> False | Some x \<Rightarrow> forwarded_key ''--permission-mode=bypassPermissions'' \<in> set x"
    by code_simp
  then show ?thesis
    using claude_launch_gated [of ?A forbidden "''--permission-mode=bypassPermissions''" omp_host omp_engines loop_rules cap_smp_world "[]" "omp_fs []"] f
    by (simp add: omp_args_def adapter_runs_def has_adapter_def)
qed

text \<open>\<open>cap show\<close> with the client OMP never succeeds: whatever the engine answers, its exit status is never
  0, because the adapter's five results are unpacked into four.\<close>

theorem omp_show_never_succeeds:
  "show_profile H E R C A env (Some nm) (Some ''omp'') F \<noteq> (Inr (0, out), F')"
  using render_preview_omp
  by (auto simp: show_profile_def show_named_def show_preview_def bindS_Inr returnS_def split: option.splits)

text \<open>\<open>cap verify\<close> reports success only if the Skills conform and the engine agrees: an exit status of 0 means
  that after the store directories were created the Skill report was clean and the engine's \<open>verify\<close>, run
  on this project with the reviewed home as \<open>HOME\<close>, ended with 0.\<close>

theorem verify_needs_both:
  assumes "cap_main H E R C L F = (Inr (0, out), F')" and "cl_command L = Some ''verify''" and "cl_tool L = Some ''verify''"
    and "ca_tool_command (cl_args L) = ''verify''"
  shows "\<exists>F1 r home G. ensure_capability_store_dirs H (resolved_or_same F (ca_project (cl_args L))) F = (Inr (), F1)
     \<and> skill_metadata_report H E F1 (resolved_or_same F (ca_project (cl_args L))) = Inr r \<and> conforms r
     \<and> real_home_of F1 (cl_args L) = Inr home
     \<and> (\<exists>completed. ow_run (cw_omp C) (plain_process (dict_set ''HOME'' (abs_str home) (environ H))
          (tool_args (ow_python (cw_omp C)) (cl_args L) @ [''verify''] @ binding_args (cl_args L))) F1 = (Inr completed, F') \<and> pr_code completed = 0)"
  using assms
  by (auto simp: cap_main_def Let_def needs_terminal_def verified_skills_def cap_dispatch_def bindS_Inr returnS_def bindE_Inr
      run_selected_def adapter_runs_def engine_run_def profile_args_def tool_args_def binding_args_def split: if_splits option.splits)

end
