(* ===== verification/CapCommands.thy ===== *)
theory CapCommands
  imports CapCli
begin

text \<open>
  The command line \<open>cap\<close> declares (\<open>_build_parser\<close>): its global options with their defaults and its subcommands
  with aliases, the engine command each stands for, positional arguments and options. Help texts are left
  out; the parsing itself is \<open>argparse\<close>'s.
\<close>

section \<open>Defaults\<close>

definition default_profile_tool :: "host \<Rightarrow> path \<Rightarrow> path res" where
  "default_profile_tool H engine = (case map_of (environ H) ''AGENT_SYSTEM_PROFILE_TOOL'' of
       Some (c # cs) \<Rightarrow> bindE (expand_home H (c # cs)) (\<lambda>(absolute, p). Inr (if absolute then p else cwd H @ p))
     | _ \<Rightarrow> Inr engine)"

definition default_state_root :: "host \<Rightarrow> path" where
  "default_state_root H = home_dir H @ [''.agent-system-state'']"

definition default_context_manifest :: "host \<Rightarrow> path" where
  "default_context_manifest H = default_state_root H @ [''machine-context'', ''manifest.json'']"

definition default_context_pin :: "host \<Rightarrow> path" where
  "default_context_pin H = default_state_root H @ [''machine-context'', ''pin.json'']"

definition default_binding_dir :: "host \<Rightarrow> path" where
  "default_binding_dir H = default_state_root H @ [''bindings'']"

definition default_auth_root :: "path \<Rightarrow> path" where
  "default_auth_root project = parent project @ [name_of project @ ''.auth'']"

section \<open>Options\<close>

text \<open>An option: the attribute it sets, its value when absent, the values it admits (none listed: any),
  whether it is a switch and whether it has to be given.\<close>

record option_spec =
  os_flag :: string
  os_dest :: string
  os_default :: "string option"
  os_choices :: "string list"
  os_switch :: bool
  os_required :: bool

definition valued :: "string \<Rightarrow> string \<Rightarrow> string option \<Rightarrow> option_spec" where
  "valued flag dest v = \<lparr>os_flag = flag, os_dest = dest, os_default = v, os_choices = [], os_switch = False, os_required = False\<rparr>"

definition switch :: "string \<Rightarrow> string \<Rightarrow> option_spec" where
  "switch flag dest = \<lparr>os_flag = flag, os_dest = dest, os_default = None, os_choices = [], os_switch = True, os_required = False\<rparr>"

definition client_option :: "string option \<Rightarrow> option_spec" where
  "client_option v = (valued ''--cli'' ''cli'' v)\<lparr>os_choices := cap_CLIENTS\<rparr>"

definition global_options :: "host \<Rightarrow> path \<Rightarrow> path \<Rightarrow> option_spec list" where
  "global_options H project tool =
     [valued ''--project'' ''project'' (Some (abs_str project)), valued ''--private-overlay'' ''private_overlay'' None,
      valued ''--home'' ''home'' (Some (abs_str (home_dir H))),
      valued ''--agent-state-root'' ''agent_home_root'' (Some (abs_str (default_state_root H))),
      valued ''--profile-tool'' ''profile_tool'' (Some (abs_str tool)),
      valued ''--machine-context-manifest'' ''base_manifest'' (Some (abs_str (default_context_manifest H))),
      valued ''--machine-context-pin'' ''base_pin'' (Some (abs_str (default_context_pin H))),
      valued ''--assembly-binding-dir'' ''binding_dir'' (Some (abs_str (default_binding_dir H))),
      valued ''--auth-root'' ''auth_root'' (Some (abs_str (default_auth_root project))),
      valued ''--omp-runtime-id'' ''omp_runtime_id'' (Some ''default''),
      valued ''--claude-runtime-id'' ''claude_runtime_id'' (Some ''default''),
      valued ''--omp-runtime-root'' ''omp_runtime_root'' None]"

section \<open>Subcommands\<close>

text \<open>The positional \<open>profile\<close>: absent, required, or optional with a value when it is left out.\<close>

datatype profile_argument = No_profile | Profile_required | Profile_optional "string option"

text \<open>\<open>sc_exclusive\<close>: at most one of the switches may be given.\<close>

record subcommand =
  sc_names :: "string list"
  sc_tool :: "string option"
  sc_profile :: profile_argument
  sc_options :: "option_spec list"
  sc_exclusive :: bool

definition bare_command :: "string list \<Rightarrow> string option \<Rightarrow> subcommand" where
  "bare_command names tool = \<lparr>sc_names = names, sc_tool = tool, sc_profile = No_profile, sc_options = [], sc_exclusive = False\<rparr>"

definition migrate_command :: subcommand where
  "migrate_command = (bare_command [''migrate-omp-runtime''] None)\<lparr>
     sc_options := [switch ''--apply'' ''apply'', switch ''--rollback'' ''rollback'', switch ''--cleanup'' ''cleanup''], sc_exclusive := True\<rparr>"

definition show_command :: subcommand where
  "show_command = (bare_command [''show'', ''explain''] (Some ''explain''))\<lparr>sc_profile := Profile_optional None, sc_options := [client_option None]\<rparr>"

definition use_command :: subcommand where
  "use_command = (bare_command [''use'', ''launch''] (Some ''launch''))\<lparr>sc_profile := Profile_optional (Some DEFAULT_PROFILE),
     sc_options := [client_option (Some DEFAULT_CLI), valued ''--receipt'' ''receipt'' None, valued ''--workdir'' ''workdir'' None,
       switch ''--fresh'' ''fresh'']\<rparr>"

definition run_command :: subcommand where
  "run_command = (bare_command [''run''] (Some ''run''))\<lparr>sc_profile := Profile_optional (Some DEFAULT_PROFILE),
     sc_options := [client_option (Some DEFAULT_CLI), valued ''--state'' ''state'' None, valued ''--workdir'' ''workdir'' None,
       switch ''--fresh'' ''fresh'']\<rparr>"

definition render_command :: subcommand where
  "render_command = (bare_command [''render'', ''materialize''] (Some ''materialize''))\<lparr>sc_profile := Profile_optional (Some DEFAULT_PROFILE),
     sc_options := [client_option (Some DEFAULT_CLI), (valued ''--output'' ''output'' None)\<lparr>os_required := True\<rparr>]\<rparr>"

definition bind_command :: subcommand where
  "bind_command = (bare_command [''assembly-bind''] (Some ''bind''))\<lparr>sc_profile := Profile_required\<rparr>"

definition cap_subcommands :: "subcommand list" where
  "cap_subcommands =
     [bare_command [''skills-validate''] None, migrate_command, bare_command [''agents''] (Some ''agents''),
      bare_command [''profiles'', ''list''] (Some ''list''), bare_command [''clients''] (Some ''clients''), show_command, use_command,
      run_command, render_command, bare_command [''lock''] (Some ''lock''),
      bare_command [''machine-context-lock''] (Some ''machine-context-lock''),
      bare_command [''machine-context-approve''] (Some ''machine-context-approve''), bind_command, bare_command [''verify''] (Some ''verify'')]"

text \<open>The subcommand a word on the command line stands for.\<close>

definition subcommand_of :: "string \<Rightarrow> subcommand option" where
  "subcommand_of word = find (\<lambda>c. word \<in> set (sc_names c)) cap_subcommands"

text \<open>No two subcommands share a name, and the engine command of every subcommand is one \<open>_profile_args\<close> knows or
  one \<open>main\<close> handles itself.\<close>

lemma subcommand_names_distinct: "distinct (concat (map sc_names cap_subcommands))"
  by code_simp

lemma subcommand_tools:
  "list_all (\<lambda>c. sc_tool c \<in> Some ` {''list'', ''lock'', ''machine-context-lock'', ''machine-context-approve'', ''bind'', ''verify'', ''explain'',
     ''materialize'', ''launch'', ''run'', ''agents'', ''clients''} \<or> sc_tool c = None \<and> set (sc_names c) \<subseteq> {''skills-validate'', ''migrate-omp-runtime''}) cap_subcommands"
  by code_simp

end
