(* ===== verification/Spec2Isabelle.thy ===== *)
theory Spec2Isabelle
  imports LoadProperties RenderProperties BindProperties RuntimeProperties LaunchProperties ObserveProperties OmpProperties OmpSettings
    ClaudeProperties CapProperties CapCommands
begin

text \<open>
  Verification development for agent-control: the capability engine of
  \<open>src/agent_system/profile/cli.py\<close>, which turns a project's declared roles into rendered
  client configurations, pins them in a lock, binds them to a reviewed machine context and
  launches clients in one-shot directories, and of the adapters that run OMP and Claude in persistent
  runtimes on top of it (\<open>adapter/common.py\<close>, \<open>omp/runtime.py\<close>, \<open>claude\<close>), and of the command \<open>cap\<close> that drives them.

  \<^bold>\<open>The program.\<close> A project keeps a manifest, a layer of defaults and one definition per role
  below \<open>.cap\<close>, and its capabilities (Skills, MCP servers, hooks, plugins) in a store.
  \<open>load_project\<close> reads and checks them and computes the closure of every role. \<open>_render_tree\<close>
  maps a role and a client to a tree of files; \<open>_desired_lock\<close> digests inputs, layers and rendered
  trees, \<open>create_lock\<close> writes that document and \<open>_verify_lock\<close> compares it again; a private overlay
  carries redacted evidence beside its lock. \<open>_check_project_pollution\<close> and
  \<open>_check_global_pollution\<close> refuse configuration that a client would pick up by itself.
  \<open>create_base_manifest\<close>, \<open>approve_base_manifest\<close> and \<open>bind_profile\<close> record the reviewed real home,
  its approval and the binding of a role to it, and \<open>_check_profile_environment\<close> is the gate over
  all three. \<open>materialize_profile\<close> publishes a tree into an external directory and \<open>run_client\<close>
  renders into a one-shot root, stages credentials, starts the client and writes a receipt.
  \<open>run_observed\<close> records what a client reports of itself and \<open>diff_documents\<close> compares that with the
  declaration. The OMP adapter keeps one runtime per user: \<open>_migrate_omp_runtime\<close> plans, applies, rolls back
  and cleans up the move from a project's runtime to it; \<open>_run_omp_agent_home\<close> asks the engine to render,
  places the result as a content-addressed generation and starts OMP with it. The Claude adapter composes a
  configuration from the project's policy and fixed gates, projects it to Claude's own files inside a
  generation, and \<open>run_claude\<close> starts the client on it in a private namespace and checks the generation again.
  The command \<open>cap\<close> (\<open>cap/cli.py\<close>) parses its subcommands, checks the metadata of Skills, asks for a profile where
  none is named, and hands over to an adapter or to the engine as a process.

  \<^bold>\<open>Theories.\<close> \<open>Prelude\<close> (errors, sequencing, loops, string operations, the locale
  \<open>transition_system\<close>), \<open>PyVal\<close> (Python and JSON values, equality, dictionaries), \<open>Json\<close>,
  \<open>JsonRoundtrip\<close>, \<open>JsonTotal\<close> (writer, reader, round trip, fuel) and \<open>FileSystem\<close> (paths, nodes, links,
  resolution, host functions) carry the rest. The engine follows in the order of the code:
  \<open>EngineData\<close> (tables and data classes), \<open>Validate\<close> (names, paths, documents), \<open>Capabilities\<close> (the
  store), \<open>ProjectLoad\<close> and \<open>Closures\<close> (\<open>load_project\<close>), \<open>Redaction\<close>, \<open>Digests\<close>, \<open>Render\<close>, \<open>Pollution\<close>,
  \<open>AtomicWrite\<close>, \<open>Documents\<close>, \<open>Lock\<close>, \<open>Evidence\<close>, \<open>GlobalConfig\<close> and \<open>HomeInventory\<close> (the real home),
  \<open>Binding\<close>, \<open>Stable\<close> (held directories, staging, publication), \<open>Receipts\<close>, \<open>Credentials\<close>, \<open>Broker\<close>
  (\<open>urlsplit\<close> and the broker address), \<open>Launch\<close>, \<open>Observe\<close> and \<open>Effective\<close> (self-reports, observed runs,
  differences, the dispatch of \<open>main\<close>). The adapters follow: \<open>Adapter\<close> (\<open>adapter/common.py\<close>), \<open>CapConfig\<close>
  (\<open>cap/config.py\<close>, \<open>cap/support.py\<close>), \<open>OmpState\<close> (places, summaries and the plan of a migration), \<open>OmpMigrate\<close> (its
  steps, rollback, cleanup) and \<open>OmpLaunch\<close> (policy, preferences, endpoints, generation, environment, run);
  \<open>ClaudePolicy\<close> (\<open>claude/runtime.py\<close>, \<open>claude/native.py\<close>) and \<open>ClaudeLaunch\<close> (\<open>claude/generation.py\<close>, \<open>claude/launch.py\<close>).
  The command is in \<open>SkillMetadata\<close> (frontmatter and report), \<open>CapCli\<close> (command lines, choices, previews, dispatch),
  \<open>CapCommands\<close> (options and subcommands) and \<open>CapMain\<close> (\<open>show\<close>, the menu, \<open>main\<close>).
  \<open>Generations\<close>, \<open>OmpGeneration\<close> and \<open>ClaudeGeneration\<close> prove the placement of a generation over the contract of
  the step that adds the client's files (locale \<open>stage_writer\<close>, interpreted for both writers); \<open>Regions\<close>, \<open>MigrateProofs\<close> and \<open>MigrateReady\<close>
  confine the steps of a migration (locale \<open>region\<close>) and follow them; \<open>TreeDigest\<close> parses a hashed stream back;
  \<open>OmpFacts\<close> has overlays, merges, environments and removals, \<open>ClaudeFacts\<close> and
  \<open>CapFacts\<close> what the Claude and command properties rest on.
  \<open>Samples\<close>, \<open>SampleContext\<close> and \<open>OmpSamples\<close> hold a small project and home for the concrete instances and
  model no code. The properties are in \<open>LoadProperties\<close>, \<open>RenderProperties\<close>, \<open>BindProperties\<close>,
  \<open>RuntimeProperties\<close>, \<open>LaunchProperties\<close>, \<open>ObserveProperties\<close>, \<open>OmpProperties\<close>, \<open>OmpSettings\<close>, \<open>ClaudeProperties\<close> and \<open>CapProperties\<close>; those that span
  the lock, the loader and the renderer are here.

  \<^bold>\<open>State and operations.\<close> Each function of the source is one definition of the same name without
  the leading underscore; loops and blocks of a long function are definitions of their own. A
  function that only reads takes the file system and yields \<open>'a res\<close>, an exception (\<open>err\<close>, one
  constructor per class) or a value; one that writes is a state transformer \<open>('s, 'a) st\<close>. A file
  system maps paths, given as lists of components, to files, directories and links with their mode, owner and identity;
  links are followed up to 40 times. Strings are UTF-8 byte strings; dictionaries are association
  lists in insertion order. Steps of other processes are an explicit
  transition relation where the code defends against them (\<open>receipt_step\<close>), or an arbitrary answer
  per attempt (\<open>read_stable_private_value\<close>). The client process is an arbitrary operation on the
  file system.

  \<^bold>\<open>What the lemmas show.\<close> JSON: reading back what was written, totality of the reader and
  injectivity of the writer, hence what equal digests mean (locale \<open>fingerprint\<close>, interpreted for
  documents and for rendered trees). Loading: confinement of paths, repetition-free identifiers, exactness of
  the store, the closure law and its origins. Rendering: complete and safe trees, redaction that
  hides every secret and does not depend on it. Lock: it pins every input and is verified by what
  created it. Writing: no reader sees a partial file, errors leave the old one. Pollution and asset
  gates: exact characterisations. Binding: the drift report is exact, the gate implies an intact,
  approved, current context, and bound roles verify. Publication and receipts: trees are published
  whole, a receipt is the reserved object under any interference. Launch: the argument
  policy, the client's environment, bounded credential reads, private trees, removal of the
  one-shot root, and the outcome of a run with a receipt. Observation: a printed self-report is read
  back, a clean difference means agreement. Adapter: a generation is placed whole and verifies, or
  leaves nothing; a migration yields a runtime every launch accepts, or leaves the old one; settings
  merge exactly when they agree; user preferences cannot open a capability; the environment of both clients
  is known name by name; cleanup removes nothing else; a Claude launch has the permission mode of the policy, a
  private namespace, and a generation whose name determines what it was built from. Command: frontmatter is
  read back, the Skill report is exact, the menu stays within its entries, no forwarded argument reopens a
  gate of Claude.

  \<^bold>\<open>Bounds and fuel.\<close> The JSON reader starts with twice the length of its input plus two, which
  \<open>JsonTotal\<close> proves enough; its nesting is unbounded where CPython stops at its recursion limit.
  Path resolution carries the link budget of the operating system. The walk over a
  credential tree needs no fuel: its entry count is limited to 256 and decreases a measure. \<open>write_all\<close>
  recurses on the bytes left, each call taking at least one.

  \<^bold>\<open>Parameters.\<close> SHA-256, the TOML reader, the clock, the environment and the user are fields of
  \<open>host\<close>; the choice of temporary names and the point where an operating-system call fails are
  \<open>io\<close>; Git, the client, the observation of credential files and the check of the broker URL
  (\<open>urllib.parse.urlsplit\<close>) are \<open>world\<close>. SQLite and YAML are \<open>engines\<close> (the rows of the source's queries, the
  documents), the processes the adapters start, temporary names and other processes are \<open>omp_world\<close>;
  what is typed and the terminal are \<open>cap_world\<close>; the
  Unicode rules of \<open>urlsplit\<close> are \<open>url_rules\<close>. What is said about equal
  digests names a possible collision of SHA-256 as a disjunct; only the theorem on the names of Claude
  generations assumes a hash without collisions.

  \<^bold>\<open>Differences.\<close> Case folding covers ASCII. Lengths of redacted spellings count bytes, and spellings of equal length,
  which the code takes from a set in no particular order, are replaced in the order of their first
  occurrence. Error messages keep their fixed part only. Text printed as a warning is dropped or
  returned.

  \<^bold>\<open>Not modelled.\<close> The parsing of arguments (\<open>argparse\<close>), help texts, the printing of the engine's \<open>main\<close>, the drawing of
  the menu; the maintenance scripts below \<open>tools\<close>,
  which drive Git, GitHub and process tables and share no code with the engine.
\<close>

section \<open>The lock\<close>





section \<open>Gates on ambient configuration\<close>



text \<open>C27. The asset gate: after classification against a role, and when client evidence is required,
  the gate passes exactly when no entry carries a name the role denies and every entry of unknown
  status carries a name the role allows.\<close>

theorem asset_gate_exact:
  assumes "\<forall>v \<in> set (as_capabilities iv @ as_instructions iv). wf_entry v"
  shows "enforce_asset_closure True (classify_asset_inventory allowed denied False iv) = Inr () \<longleftrightarrow>
    (\<forall>v \<in> set (as_capabilities iv @ as_instructions iv).
       set (entry_names v) \<inter> set denied = {}
       \<and> (str_field v ''status'' ''unknown'' \<longrightarrow> set (entry_names v) \<inter> set allowed \<noteq> {}))"
  using assms by (rule enforce_classified)

definition smp_assets :: assets where
  "smp_assets = \<lparr>as_context_digest = VNone, as_digest = [],
     as_capabilities = [VDict [(''path'', VStr ''x''), (''status'', VStr ''unknown'')]], as_instructions = []\<rparr>"

theorem asset_gate_exact_witness:
  "enforce_asset_closure True (classify_asset_inventory [''x''] [] False smp_assets) = Inr ()
   \<and> enforce_asset_closure True (classify_asset_inventory [''y''] [] False smp_assets) \<noteq> Inr ()"
  using asset_gate_exact [of smp_assets "[''x'']" "[]"] asset_gate_exact [of smp_assets "[''y'']" "[]"]
  by (simp add: smp_assets_def wf_entry_def entry_names_def str_field_def get_def get_or_def)

text \<open>A global Codex configuration judged passive loads nothing: it names no MCP server, every
  capability feature it mentions is switched off, every plugin is disabled and its hook table holds
  only recorded state.\<close>

theorem passive_codex_config:
  assumes "\<not> codex_config_has_active_capability config"
  shows "\<not> truthy (get config ''mcp_servers'')
    \<and> (\<forall>f k v. k \<in> set CODEX_CAPABILITY_FEATURES \<longrightarrow> get config ''features'' = VDict f \<longrightarrow> map_of f k = Some v \<longrightarrow> v = VBool False)
    \<and> (\<forall>ps n p. get config ''plugins'' = VDict ps \<longrightarrow> (n, p) \<in> set ps \<longrightarrow> (\<exists>d. p = VDict d \<and> get d ''enabled'' = VBool False))
    \<and> (\<forall>hs. get config ''hooks'' = VDict hs \<longrightarrow> set (keys hs) \<subseteq> {''state''})"
  using inactive_codex_config [OF assms] by blast

theorem passive_codex_config_witness:
  "codex_config_has_active_capability [(''model'', VStr ''m''), (''plugins'', VDict [(''p'', VDict [(''enabled'', VBool True)])])]"
proof (rule ccontr)
  assume "\<not> ?thesis"
  from passive_codex_config [OF this] show False by (auto simp: get_def)
qed

end
